(* ===== verification/Agm_Prelude.thy ===== *)
theory Agm_Prelude
  imports Main "HOL-Library.Word" "HOL-Library.Monad_Syntax"
begin

text \<open>
  Shared vocabulary of the development: machine words, the errno values the service
  returns, the shape of a C function in the model, weakest liberal preconditions for such
  functions, the two loop shapes of the source and byte access to client payloads.

  A C function that may change the state is a HOL function into
  \<open>('a \<times> 's) option\<close>: \<open>Some (r, s')\<close> is a return with result
  \<open>r\<close> in state \<open>s'\<close>, \<open>None\<close> is a trap (a NULL dereference, a
  division by zero, an access outside an object, a free of a pointer that was not
  allocated). Sequencing is \<^const>\<open>Option.bind\<close> in do-notation.
\<close>

section \<open>Machine integers and error codes\<close>

type_synonym u8 = "8 word"
type_synonym u32 = "32 word"
type_synonym u64 = "64 word"

abbreviation (input) EPERM :: int where "EPERM \<equiv> 1"
abbreviation (input) ENOENT :: int where "ENOENT \<equiv> 2"
abbreviation (input) EIO :: int where "EIO \<equiv> 5"
abbreviation (input) EAGAIN :: int where "EAGAIN \<equiv> 11"
abbreviation (input) ENOMEM :: int where "ENOMEM \<equiv> 12"
abbreviation (input) EBUSY :: int where "EBUSY \<equiv> 16"
abbreviation (input) ENODEV :: int where "ENODEV \<equiv> 19"
abbreviation (input) EINVAL :: int where "EINVAL \<equiv> 22"
abbreviation (input) ENOSPC :: int where "ENOSPC \<equiv> 28"
abbreviation (input) EPIPE :: int where "EPIPE \<equiv> 32"
abbreviation (input) ENOSYS :: int where "ENOSYS \<equiv> 38"
abbreviation (input) EBADR :: int where "EBADR \<equiv> 53"
abbreviation (input) ENODATA :: int where "ENODATA \<equiv> 61"
abbreviation (input) EADV :: int where "EADV \<equiv> 68"
abbreviation (input) ENOPROTOOPT :: int where "ENOPROTOOPT \<equiv> 92"
abbreviation (input) EOPNOTSUPP :: int where "EOPNOTSUPP \<equiv> 95"
abbreviation (input) ENETRESET :: int where "ENETRESET \<equiv> 102"
abbreviation (input) ETIMEDOUT :: int where "ETIMEDOUT \<equiv> 110"
abbreviation (input) EALREADY :: int where "EALREADY \<equiv> 114"
abbreviation (input) EINPROGRESS :: int where "EINPROGRESS \<equiv> 115"
abbreviation (input) ECANCELED :: int where "ECANCELED \<equiv> 125"
abbreviation (input) ENOTRECOVERABLE :: int where "ENOTRECOVERABLE \<equiv> 131"

text \<open>The conversion of a C \<open>int\<close> to \<open>uint32_t\<close>.\<close>

definition to_u32 :: "int \<Rightarrow> nat" where
  "to_u32 r = nat (r mod 2 ^ 32)"

lemma to_u32_eq_0_iff:
  assumes "- (2 ^ 31) \<le> r" "r < 2 ^ 31"
  shows "to_u32 r = 0 \<longleftrightarrow> r = 0"
proof -
  have "r = 0" if "(2 ^ 32 :: int) dvd r"
    using that assms dvd_imp_le_int [of r "2 ^ 32"] by (cases "r = 0") auto
  moreover have "to_u32 r = 0 \<longleftrightarrow> r mod 2 ^ 32 = 0"
    using pos_mod_sign [of "2 ^ 32 :: int" r] by (simp add: to_u32_def nat_eq_iff order_antisym_conv)
  ultimately show ?thesis
    by (auto simp: dvd_eq_mod_eq_0)
qed

section \<open>Weakest liberal preconditions\<close>

named_theorems wlp_simps \<open>evaluation of \<open>wlp\<close> on the constructs of the model\<close>

definition wlp :: "('a \<times> 's) option \<Rightarrow> ('a \<Rightarrow> 's \<Rightarrow> bool) \<Rightarrow> bool" where
  "wlp m Q \<longleftrightarrow> (\<forall>a s. m = Some (a, s) \<longrightarrow> Q a s)"

lemma wlp_Some [wlp_simps]: "wlp (Some (a, s)) Q \<longleftrightarrow> Q a s"
  by (simp add: wlp_def)

lemma wlp_Some_pair: "wlp (Some p) Q \<longleftrightarrow> Q (fst p) (snd p)"
  by (cases p) (simp add: wlp_def)

lemma wlp_None [wlp_simps]: "wlp None Q"
  by (simp add: wlp_def)

lemma wlp_bind [wlp_simps]: "wlp (Option.bind m f) Q \<longleftrightarrow> wlp m (\<lambda>a s. wlp (f (a, s)) Q)"
  by (auto simp: wlp_def bind_eq_Some_conv)

lemma wlp_if [wlp_simps]:
  "wlp (if b then m else m') Q \<longleftrightarrow> (b \<longrightarrow> wlp m Q) \<and> (\<not> b \<longrightarrow> wlp m' Q)"
  by simp

lemma wlp_case_option [wlp_simps]:
  "wlp (case x of None \<Rightarrow> m | Some y \<Rightarrow> f y) Q
     \<longleftrightarrow> (x = None \<longrightarrow> wlp m Q) \<and> (\<forall>y. x = Some y \<longrightarrow> wlp (f y) Q)"
  by (cases x) simp_all

lemma wlp_case_prod [wlp_simps]:
  "wlp (case p of (a, b) \<Rightarrow> f a b) Q \<longleftrightarrow> wlp (f (fst p) (snd p)) Q"
  by (simp add: case_prod_beta)

lemma wlp_Let [wlp_simps]: "wlp (Let x f) Q \<longleftrightarrow> wlp (f x) Q"
  by (simp add: Let_def)

lemma wlp_bind_gen: "wlp (Option.bind m f) Q \<longleftrightarrow> (\<forall>x. m = Some x \<longrightarrow> wlp (f x) Q)"
  by (cases m) (simp_all add: wlp_simps)

lemma wlp_mono: "wlp m P \<Longrightarrow> (\<And>a s. P a s \<Longrightarrow> Q a s) \<Longrightarrow> wlp m Q"
  by (auto simp: wlp_def)

lemma wlp_conj: "wlp m P \<Longrightarrow> wlp m Q \<Longrightarrow> wlp m (\<lambda>a s. P a s \<and> Q a s)"
  by (auto simp: wlp_def)

lemma wlpD: "wlp m Q \<Longrightarrow> m = Some (a, s) \<Longrightarrow> Q a s"
  by (simp add: wlp_def)

lemma wlpI: "(\<And>a s. m = Some (a, s) \<Longrightarrow> Q a s) \<Longrightarrow> wlp m Q"
  by (simp add: wlp_def)

section \<open>Loops\<close>

text \<open>
  A \<open>list_for_each\<close> loop whose body jumps out on a non-zero result, and one whose
  body goes on whatever the result of the calls it makes.
\<close>

fun for_each_until :: "('i \<Rightarrow> 's \<Rightarrow> (int \<times> 's) option) \<Rightarrow> 'i list \<Rightarrow> 's \<Rightarrow> (int \<times> 's) option" where
  "for_each_until body [] s = Some (0, s)"
| "for_each_until body (i # is) s =
     do { (r, s) \<leftarrow> body i s;
          if r \<noteq> 0 then Some (r, s) else for_each_until body is s }"

fun for_each :: "('i \<Rightarrow> 's \<Rightarrow> (unit \<times> 's) option) \<Rightarrow> 'i list \<Rightarrow> 's \<Rightarrow> (unit \<times> 's) option" where
  "for_each body [] s = Some ((), s)"
| "for_each body (i # is) s = do { (_, s) \<leftarrow> body i s; for_each body is s }"

section \<open>Invariants\<close>

text \<open>
  Most facts about composed operations are of one form: a predicate of the state that holds
  before also holds after. The rules carry such a predicate through the constructs of the
  model; \<open>inv_rules\<close> collects them, and each component adds what its operations
  preserve.
\<close>

lemma inv_Some: "I s \<Longrightarrow> wlp (Some (r, s)) (\<lambda>_ t. I t)"
  by (simp add: wlp_def)

lemma inv_None: "wlp None (\<lambda>_ t. I t)"
  by (simp add: wlp_def)

lemma inv_bind:
  assumes "wlp m (\<lambda>_ t. I t)" and "\<And>r t. I t \<Longrightarrow> wlp (g r t) (\<lambda>_ t. I t)"
  shows "wlp (Option.bind m (case_prod g)) (\<lambda>_ t. I t)"
  using assms by (fastforce simp: wlp_def bind_eq_Some_conv)

lemma inv_bind_value:
  assumes "\<And>x. m = Some x \<Longrightarrow> wlp (f x) Q"
  shows "wlp (Option.bind m f) Q"
  using assms by (simp add: wlp_bind_gen)

lemma inv_if: "(b \<Longrightarrow> wlp m Q) \<Longrightarrow> (\<not> b \<Longrightarrow> wlp m' Q) \<Longrightarrow> wlp (if b then m else m') Q"
  by simp

lemma inv_case_option:
  assumes "x = None \<Longrightarrow> wlp m Q" and "\<And>y. x = Some y \<Longrightarrow> wlp (f y) Q"
  shows "wlp (case x of None \<Rightarrow> m | Some y \<Rightarrow> f y) Q"
  using assms by (cases x) simp_all

lemma inv_case_prod: "(\<And>x y. p = (x, y) \<Longrightarrow> wlp (f x y) Q) \<Longrightarrow> wlp (case p of (x, y) \<Rightarrow> f x y) Q"
  by (cases p) simp

lemma inv_case_prod_app:
  "(\<And>x y. p = (x, y) \<Longrightarrow> wlp (f x y s) Q) \<Longrightarrow> wlp ((case p of (x, y) \<Rightarrow> f x y) s) Q"
  by (cases p) simp

lemma inv_case_list:
  assumes "x = [] \<Longrightarrow> wlp m Q" and "\<And>y ys. x = y # ys \<Longrightarrow> wlp (f y ys) Q"
  shows "wlp (case x of [] \<Rightarrow> m | y # ys \<Rightarrow> f y ys) Q"
  using assms by (cases x) simp_all

lemma inv_Let: "wlp (f x) Q \<Longrightarrow> wlp (let y = x in f y) Q"
  by simp

lemmas inv_rules = inv_None inv_bind inv_if inv_case_option inv_case_prod_app inv_case_prod inv_case_list
  inv_Let inv_Some

text \<open>Sequencing with a postcondition that depends on the result.\<close>

lemma wlp_bindI:
  "wlp m P \<Longrightarrow> (\<And>r t. P r t \<Longrightarrow> wlp (g r t) Q) \<Longrightarrow> wlp (Option.bind m (case_prod g)) Q"
  by (fastforce simp: wlp_def bind_eq_Some_conv)

text \<open>For evaluation by \<open>simp\<close>: the rest of a sequence waits for the result of its
  first call.\<close>

lemma bind_eval_cong: "m = m' \<Longrightarrow> Option.bind m f = Option.bind m' f"
  by simp

text \<open>Facts about results that hold whatever the calls before did.\<close>

lemma res_bind: "(\<And>r t. wlp (g r t) Q) \<Longrightarrow> wlp (Option.bind m (case_prod g)) Q"
  by (auto simp: wlp_def bind_eq_Some_conv)

lemma res_Some: "Q r s \<Longrightarrow> wlp (Some (r, s)) Q"
  by (simp add: wlp_simps)

lemma res_None: "wlp None Q"
  by (simp add: wlp_simps)

lemmas res_rules = res_None res_bind inv_if inv_case_option inv_case_prod_app inv_case_prod inv_case_list
  inv_Let res_Some

text \<open>An invariant of the loop body is an invariant of the loop.\<close>

lemma for_each_until_inv:
  assumes "\<And>i t. i \<in> set is \<Longrightarrow> I t \<Longrightarrow> wlp (body i t) (\<lambda>_ u. I u)" and "I s"
  shows "wlp (for_each_until body is s) (\<lambda>_ u. I u)"
  using assms
proof (induction "is" arbitrary: s)
  case (Cons i "is")
  have step: "wlp (body i s) (\<lambda>_ t. I t)" using Cons.prems by simp
  have rest: "I t \<Longrightarrow> wlp (for_each_until body is t) (\<lambda>_ u. I u)" for t
    using Cons by simp
  from step show ?case
    by (auto simp: wlp_simps intro!: rest elim!: wlp_mono)
qed (simp add: wlp_simps)

lemma for_each_inv:
  assumes "\<And>i t. i \<in> set is \<Longrightarrow> I t \<Longrightarrow> wlp (body i t) (\<lambda>_ u. I u)" and "I s"
  shows "wlp (for_each body is s) (\<lambda>_ u. I u)"
  using assms
proof (induction "is" arbitrary: s)
  case (Cons i "is")
  have step: "wlp (body i s) (\<lambda>_ t. I t)" using Cons.prems by simp
  have rest: "I t \<Longrightarrow> wlp (for_each body is t) (\<lambda>_ u. I u)" for t
    using Cons by simp
  from step show ?case
    by (auto simp: wlp_simps intro!: rest elim!: wlp_mono)
qed (simp add: wlp_simps)

text \<open>Loops over positions: \<open>P i\<close> holds before the body runs for position
  \<open>i\<close>, \<open>Q\<close> where it jumps out.\<close>

lemma for_each_until_upto:
  assumes "\<And>i t. i < N \<Longrightarrow> P i t \<Longrightarrow> wlp (body i t) (\<lambda>r u. if r = 0 then P (Suc i) u else Q u)" "n \<le> N" "P n s"
  shows "wlp (for_each_until body [n..<N] s) (\<lambda>r u. if r = 0 then P N u else Q u)"
  using assms(2,3)
proof (induction "N - n" arbitrary: n s)
  case (Suc k)
  have "wlp (for_each_until body (n # [Suc n..<N]) s) (\<lambda>r u. if r = 0 then P N u else Q u)"
    unfolding for_each_until.simps
    by (rule wlp_bindI [OF assms(1)]) (use Suc in \<open>auto simp: wlp_simps intro!: Suc.hyps(1)\<close>)
  moreover have "[n..<N] = n # [Suc n..<N]" using Suc by (simp add: upt_conv_Cons)
  ultimately show ?case by simp
qed (simp add: wlp_simps)

lemma for_each_upto:
  assumes "\<And>i t. i < N \<Longrightarrow> P i t \<Longrightarrow> wlp (body i t) (\<lambda>_ u. P (Suc i) u)" "n \<le> N" "P n s"
  shows "wlp (for_each body [n..<N] s) (\<lambda>_ u. P N u)"
  using assms(2,3)
proof (induction "N - n" arbitrary: n s)
  case (Suc k)
  have "wlp (for_each body (n # [Suc n..<N]) s) (\<lambda>_ u. P N u)"
    unfolding for_each.simps
    by (rule wlp_bindI [OF assms(1)]) (use Suc in \<open>auto intro!: Suc.hyps(1)\<close>)
  moreover have "[n..<N] = n # [Suc n..<N]" using Suc by (simp add: upt_conv_Cons)
  ultimately show ?case by simp
qed (simp add: wlp_simps)

section \<open>Counting\<close>

lemma map_upd_same: "(\<And>x. g (f x) = g x) \<Longrightarrow> map g (xs[i := f (xs ! i)]) = map g xs"
  by (cases "i < length xs") (simp_all add: map_update list_update_same_conv list_update_beyond)

lemma sum_indicator:
  assumes "distinct xs"
  shows "(\<Sum>x \<leftarrow> xs. if P x then 1 else 0 :: int) = int (card {x \<in> set xs. P x})"
  using assms
proof (induction xs)
  case (Cons x xs)
  then have "{y \<in> set (x # xs). P y} = (if P x then insert x {y \<in> set xs. P y} else {y \<in> set xs. P y})" by auto
  with Cons show ?case by simp
qed simp

lemma if_swap: "(if x = None then 0 else 1) = (if \<exists>y. x = Some y then 1 else (0 :: int))"
  by (cases x) simp_all

section \<open>Pools\<close>

text \<open>
  The service keeps its objects in pools that are searched by a key and that grow when the
  key is not there: sessions by session id, the AIFs of a session by AIF id. What a client of
  a pool relies on is stated once; \<open>get\<close> gives \<open>None\<close> for a handle when
  memory ran out.
\<close>

locale keyed_pool =
  fixes get :: "'k \<Rightarrow> 's \<Rightarrow> ('h option \<times> 's) option"
    and lookup :: "'k \<Rightarrow> 's \<Rightarrow> 'h option"
    and ok :: "'s \<Rightarrow> bool"
  assumes get_ok: "ok s \<Longrightarrow> get k s = Some (r, t) \<Longrightarrow> ok t"
    and get_lookup: "ok s \<Longrightarrow> get k s = Some (Some h, t) \<Longrightarrow> lookup k t = Some h"
    and get_hit: "ok s \<Longrightarrow> lookup k s = Some h \<Longrightarrow> get k s = Some (Some h, s)"
    and get_keeps: "ok s \<Longrightarrow> get k s = Some (r, t) \<Longrightarrow> lookup k' s = Some h \<Longrightarrow> lookup k' t = Some h"
    and lookup_inj: "ok s \<Longrightarrow> lookup k s = Some h \<Longrightarrow> lookup k' s = Some h \<Longrightarrow> k = k'"
begin

lemma get_again:
  assumes "ok s" "get k s = Some (Some h, t)"
  shows "get k t = Some (Some h, t)"
  using get_hit [OF get_ok [OF assms] get_lookup [OF assms]] .

lemma get_get:
  assumes "ok s" "get k s = Some (Some h, t)" "get k' t = Some (Some h', u)"
  shows "h = h' \<longleftrightarrow> k = k'" "lookup k u = Some h"
proof -
  have t: "ok t" and l: "lookup k t = Some h" by (rule get_ok get_lookup; fact assms)+
  show u: "lookup k u = Some h" by (rule get_keeps [OF t assms(3) l])
  have "ok u" "lookup k' u = Some h'" by (rule get_ok [OF t assms(3)] get_lookup [OF t assms(3)])+
  then show "h = h' \<longleftrightarrow> k = k'" using u lookup_inj [of u k h k'] by auto
qed

end

section \<open>Bytes of client payloads\<close>

text \<open>
  A payload is the list of the bytes the client made readable. A read outside it is a
  trap. Multi-byte fields are little-endian.
\<close>

definition rd32 :: "u8 list \<Rightarrow> nat \<Rightarrow> u32 option" where
  "rd32 bs off =
     (if off + 4 \<le> length bs
      then Some (of_nat (unat (bs ! off) + 256 * unat (bs ! (off + 1))
                 + 65536 * unat (bs ! (off + 2)) + 16777216 * unat (bs ! (off + 3))))
      else None)"

definition wr32 :: "u32 \<Rightarrow> u8 list" where
  "wr32 w = [of_nat (unat w), of_nat (unat w div 256),
             of_nat (unat w div 65536), of_nat (unat w div 16777216)]"

lemma length_wr32 [simp]: "length (wr32 w) = 4"
  by (simp add: wr32_def)

lemma bytes_recombine:
  assumes "n < 4294967296"
  shows "n mod 256 + 256 * (n div 256 mod 256) + 65536 * (n div 65536 mod 256)
           + 16777216 * (n div 16777216 mod 256) = (n :: nat)"
proof -
  define a b c where "a = n div 256" and "b = a div 256" and "c = b div 256"
  have "n div 65536 = b" "n div 16777216 = c"
    by (simp_all add: a_def b_def c_def div_mult2_eq [symmetric])
  moreover have "c mod 256 = c"
    using assms by (simp add: a_def b_def c_def div_mult2_eq [symmetric] less_mult_imp_div_less)
  moreover have "n = 256 * a + n mod 256" "a = 256 * b + a mod 256" "b = 256 * c + b mod 256"
    by (simp_all add: a_def b_def c_def)
  ultimately show ?thesis
    by (simp add: a_def [symmetric])
qed

lemma rd32_wr32: "rd32 (xs @ wr32 w @ ys) (length xs) = Some w"
proof -
  let ?b = "wr32 w"
  have "unat w < 4294967296" using unsigned_less [of w] by simp
  then have "unat (?b ! 0) + 256 * unat (?b ! 1) + 65536 * unat (?b ! 2)
               + 16777216 * unat (?b ! 3) = unat w"
    using bytes_recombine [of "unat w"] by (simp add: wr32_def unat_of_nat del: of_nat_unat)
  moreover have "(xs @ ?b @ ys) ! length xs = ?b ! 0" "(xs @ ?b @ ys) ! (length xs + 1) = ?b ! 1"
    "(xs @ ?b @ ys) ! (length xs + 2) = ?b ! 2" "(xs @ ?b @ ys) ! (length xs + 3) = ?b ! 3"
    by (simp_all add: nth_append)
  ultimately show ?thesis
    by (simp add: rd32_def del: of_nat_add of_nat_mult)
qed

text \<open>\<open>memcpy\<close> of \<open>n\<close> bytes from a client pointer (\<open>None\<close> is NULL).\<close>

definition memcpy_from :: "u8 list option \<Rightarrow> nat \<Rightarrow> u8 list option" where
  "memcpy_from p n =
     (case p of None \<Rightarrow> if n = 0 then Some [] else None
      | Some bs \<Rightarrow> if n \<le> length bs then Some (take n bs) else None)"

text \<open>\<open>memcpy\<close> into an array at an element offset.\<close>

definition memcpy_at :: "nat \<Rightarrow> 'a list \<Rightarrow> 'a list \<Rightarrow> 'a list option" where
  "memcpy_at off src dst =
     (if off + length src \<le> length dst
      then Some (take off dst @ src @ drop (off + length src) dst) else None)"

lemma memcpy_at_append:
  "length src \<le> length ys \<Longrightarrow>
     memcpy_at (length xs) src (xs @ ys) = Some ((xs @ src) @ drop (length src) ys)"
  by (simp add: memcpy_at_def)

end
