(* ===== verification/Agm_Types.thy ===== *)
theory Agm_Types
  imports Agm_Prelude
begin

text \<open>
  The client-visible data of \<open>service/inc/public/agm/agm_api.h\<close>, and the boundary
  of the program: every call the service makes to code outside the repository (GSL,
  tinyalsa, the allocator, the sysfs node, client callbacks) is a value of
  \<open>ext_call\<close>.

  The outside world is an arbitrary oracle \<open>env\<close>. What an external call returns
  may depend on the call and on the whole history of calls made before it, so every
  deterministic or non-deterministic behaviour of the world is one \<open>env\<close>, and a
  theorem for all \<open>env\<close> holds whatever the DSP, the kernel and the allocator do.
  The history is part of the state, so that properties may also speak about the order in
  which the hardware was driven.
\<close>

section \<open>Client data of agm_api.h\<close>

type_synonym key_value = "u32 \<times> u32"

datatype (plugins only: code size) agm_media_format =
    AGM_FORMAT_INVALID | AGM_FORMAT_PCM_S8 | AGM_FORMAT_PCM_S16_LE | AGM_FORMAT_PCM_S24_LE
  | AGM_FORMAT_PCM_S24_3LE | AGM_FORMAT_PCM_S32_LE | AGM_FORMAT_MP3 | AGM_FORMAT_AAC
  | AGM_FORMAT_FLAC | AGM_FORMAT_ALAC | AGM_FORMAT_APE | AGM_FORMAT_WMASTD | AGM_FORMAT_WMAPRO
  | AGM_FORMAT_VORBIS | AGM_FORMAT_AMR_NB | AGM_FORMAT_AMR_WB | AGM_FORMAT_AMR_WB_PLUS
  | AGM_FORMAT_EVRC | AGM_FORMAT_G711 | AGM_FORMAT_QCELP | AGM_FORMAT_MAX

datatype agm_data_mode =
    AGM_DATA_INVALID | AGM_DATA_BLOCKING | AGM_DATA_NON_BLOCKING | AGM_DATA_PUSH_PULL
  | AGM_DATA_EXTERN_MEM | AGM_DATA_MODE_MAX

datatype agm_session_mode =
    AGM_SESSION_DEFAULT | AGM_SESSION_NO_HOST | AGM_SESSION_NON_TUNNEL
  | AGM_SESSION_NO_CONFIG | AGM_SESSION_COMPRESS

datatype agm_gapless_silence_type = INITIAL_SILENCE | TRAILING_SILENCE

datatype event_type = AGM_EVENT_DATA_PATH | AGM_EVENT_MODULE

text \<open>Events (\<open>enum agm_event_id\<close>).\<close>

abbreviation (input) AGM_EVENT_EOS_RENDERED :: u32 where "AGM_EVENT_EOS_RENDERED \<equiv> 0"
abbreviation (input) AGM_EVENT_READ_DONE :: u32 where "AGM_EVENT_READ_DONE \<equiv> 1"
abbreviation (input) AGM_EVENT_WRITE_DONE :: u32 where "AGM_EVENT_WRITE_DONE \<equiv> 2"
abbreviation (input) AGM_EVENT_EARLY_EOS :: u32 where "AGM_EVENT_EARLY_EOS \<equiv> 0x08001126"

text \<open>
  \<open>enum direction\<close> is kept as a number: a zero-initialised configuration holds
  neither value, and a non-tunnel session uses \<open>RX | TX\<close>.
\<close>

type_synonym direction = u32

abbreviation (input) RX :: direction where "RX \<equiv> 1"
abbreviation (input) TX :: direction where "TX \<equiv> 2"
abbreviation (input) RX_TX :: direction where "RX_TX \<equiv> 3"

record agm_media_config =
  mc_rate :: u32
  mc_channels :: u32
  mc_format :: agm_media_format
  mc_data_format :: u32

record agm_group_media_config =
  gmc_config :: agm_media_config
  gmc_slot_mask :: u32

text \<open>The codec union (32 bytes) is carried as its raw bytes; members are read at their
  offsets in the union.\<close>

record agm_session_config =
  sc_dir :: direction
  sc_sess_mode :: agm_session_mode
  sc_start_threshold :: u32
  sc_stop_threshold :: u32
  sc_codec :: "u8 list"
  sc_data_mode :: agm_data_mode
  sc_sess_flags :: u32

record agm_buffer_config =
  bc_count :: u32
  bc_size :: u64
  bc_max_metadata_size :: u64

record agm_tag_config =
  tc_tag :: u32
  tc_kv :: "key_value list"

record agm_event_reg_cfg =
  er_module_instance_id :: u32
  er_event_id :: u32
  er_payload :: "u8 list"
  er_is_register :: u8

text \<open>
  A compressed media format header: the format that selects the \<open>MEDIA_FMT_ID\<close>,
  and the codec bytes behind the header. The data behind a buffer address is either the
  client's or such a header.
\<close>

datatype media_format_hdr = MEDIA_FORMAT_HDR agm_media_format "u8 list"

datatype buf_addr = CLIENT_PTR u64 | FMT_HDR media_format_hdr

record agm_buff =
  bf_timestamp :: u64
  bf_flags :: u32
  bf_size :: u32
  bf_addr :: buf_addr
  bf_metadata_size :: u32
  bf_metadata :: u64
  bf_alloc_handle :: int
  bf_alloc_size :: u32
  bf_alloc_offset :: u32

text \<open>Zero-initialised (\<open>calloc\<close>ed) configurations.\<close>

definition media_config0 :: agm_media_config where
  "media_config0 = \<lparr>mc_rate = 0, mc_channels = 0, mc_format = AGM_FORMAT_INVALID,
                    mc_data_format = 0\<rparr>"

definition session_config0 :: agm_session_config where
  "session_config0 = \<lparr>sc_dir = 0, sc_sess_mode = AGM_SESSION_DEFAULT, sc_start_threshold = 0,
                      sc_stop_threshold = 0, sc_codec = replicate 32 0, sc_data_mode = AGM_DATA_INVALID,
                      sc_sess_flags = 0\<rparr>"

definition buffer_config0 :: agm_buffer_config where
  "buffer_config0 = \<lparr>bc_count = 0, bc_size = 0, bc_max_metadata_size = 0\<rparr>"

section \<open>The boundary: external calls\<close>

datatype pcm_flags = PCM_OUT | PCM_IN

datatype pcm_format =
    PCM_FORMAT_S8 | PCM_FORMAT_S16_LE | PCM_FORMAT_S24_LE | PCM_FORMAT_S24_3LE
  | PCM_FORMAT_S32_LE

record pcm_config =
  pc_channels :: u32
  pc_rate :: u32
  pc_format :: pcm_format
  pc_period_size :: u32
  pc_period_count :: u32
  pc_start_threshold :: u32
  pc_stop_threshold :: u32

datatype gsl_data_mode =
    GSL_DATA_MODE_BLOCKING | GSL_DATA_MODE_NON_BLOCKING | GSL_DATA_MODE_EXTERN_MEM
  | GSL_DATA_MODE_PUSH_PULL

record gsl_cmd_configure_read_write_params =
  rw_start_threshold :: u32
  rw_stop_threshold :: u32
  rw_buff_size :: u32
  rw_num_buffs :: u32
  rw_max_metadata_size :: u64
  rw_attributes :: gsl_data_mode
  rw_shmem_ep_tag :: u32

record gsl_cmd_properties =
  gp_gkv :: "key_value list"
  gp_property_id :: u32
  gp_property_values :: "u32 list"

datatype (plugins only: code size) gsl_cmd =
    GSL_CMD_PREPARE
  | GSL_CMD_START
  | GSL_CMD_STOP "gsl_cmd_properties option"
  | GSL_CMD_CLOSE_WITH_PROPS gsl_cmd_properties
  | GSL_CMD_FLUSH
  | GSL_CMD_SUSPEND
  | GSL_CMD_EOS
  | GSL_CMD_ADD_GRAPH "key_value list" "key_value list"
  | GSL_CMD_CHANGE_GRAPH "key_value list" "key_value list"
  | GSL_CMD_REMOVE_GRAPH "key_value list"
  | GSL_CMD_CONFIGURE_READ_PARAMS gsl_cmd_configure_read_write_params
  | GSL_CMD_CONFIGURE_WRITE_PARAMS gsl_cmd_configure_read_write_params
  | GSL_CMD_REGISTER_CUSTOM_EVENT agm_event_reg_cfg
  | GSL_CMD_GET_WRITE_BUFF_INFO
  | GSL_CMD_GET_READ_BUFF_INFO
  | GSL_CMD_GET_WRITE_POS_BUFF_INFO
  | GSL_CMD_GET_READ_POS_BUFF_INFO

text \<open>
  Payloads of \<open>gsl_set_custom_config\<close>: the bytes of a client, or one parameter
  with its module instance, its parameter id and the fields the code fills in, or a
  parameter read from the calibration database with its interface words (and its slot mask)
  overwritten. The byte
  layout of the parameters is that of headers outside the repository, so the fields are
  kept as values.
\<close>

datatype pcm_channel =
    PCM_CHANNEL_UNSET | PCM_CHANNEL_L | PCM_CHANNEL_R | PCM_CHANNEL_C | PCM_CHANNEL_LFE
  | PCM_CHANNEL_LB | PCM_CHANNEL_RB | PCM_CHANNEL_CS | PCM_CHANNEL_LS | PCM_CHANNEL_RS

record pcm_output_format_cfg =
  po_bit_width :: int
  po_bits_per_sample :: int
  po_q_factor :: int
  po_interleaved :: bool
  po_num_channels :: int
  po_channel_map :: "pcm_channel list"

record media_fmt_pcm =
  pm_bit_width :: int
  pm_bits_per_sample :: int
  pm_q_factor :: int
  pm_sample_rate :: u32
  pm_num_channels :: int
  pm_channel_map :: "pcm_channel list"

datatype (plugins only: code size) spf_param =
    PARAM_ID_CODEC_DMA_INTF_CFG u32 u32 u32
  | PARAM_ID_SLIMBUS_CONFIG u32 "u32 list"
  | PARAM_ID_HW_EP_MF_CFG u32 int u32 u32
  | PARAM_ID_PCM_OUTPUT_FORMAT_CFG pcm_output_format_cfg
  | PARAM_ID_PCM_ENCODER_FRAME_SIZE u32
  | PARAM_ID_ENCODER_OUTPUT_CONFIG agm_media_format "u8 list"
  | PARAM_ID_ENC_BITRATE u32
  | PARAM_ID_MEDIA_FORMAT media_format_hdr
  | PARAM_ID_MEDIA_FORMAT_PCM media_fmt_pcm
  | PARAM_ID_RD_SH_MEM_CFG u32 u32
  | PARAM_ID_SPR_DELAY_PATH_END u32
  | PARAM_ID_SPR_SESSION_TIME
  | PARAM_ID_SOFT_PAUSE_START
  | PARAM_ID_SOFT_PAUSE_RESUME
  | PARAM_ID_REMOVE_INITIAL_SILENCE u32
  | PARAM_ID_REMOVE_TRAILING_SILENCE u32

datatype (plugins only: code size) custom_config =
    RAW_CONFIG "u8 list"
  | MODULE_CONFIG u32 spf_param
  | TAGGED_CONFIG "u8 list" u32 u32 "u32 option"

datatype (plugins only: code size) ext_call =
    CALLOC
  | PCM_OPEN u32 u32 pcm_flags pcm_config
  | is_PCM_IS_READY: PCM_IS_READY int
  | PCM_PREPARE int
  | PCM_STOP int
  | is_PCM_CLOSE: PCM_CLOSE int
  | MIXER_OPEN u32
  | MIXER_GET_CTL_BY_NAME int string
  | MIXER_CTL_GET_ARRAY int nat
  | SYSFS_OPEN
  | SYSFS_WRITE int int int
  | is_GSL_OPEN: GSL_OPEN "key_value list" "key_value list"
  | is_GSL_CLOSE: GSL_CLOSE int
  | GSL_REGISTER_EVENT_CB int
  | GSL_IOCTL int gsl_cmd
  | GSL_SET_CUSTOM_CONFIG int custom_config
  | GSL_GET_CUSTOM_CONFIG int custom_config
  | GSL_SET_CONFIG int "key_value list option" u32 "key_value list"
  | GSL_SET_CAL int "key_value list" "key_value list"
  | GSL_GET_TAGS_WITH_MODULE_INFO "key_value list" nat
  | GSL_GET_TAGGED_MODULE_INFO "key_value list" u32
  | GSL_GET_TAGGED_DATA "key_value list option" u32 "key_value list"
  | GSL_GET_GRAPH_ALIAS "key_value list"
  | GSL_WRITE int u32 agm_buff
  | GSL_READ int u32 agm_buff
  | GSL_ENABLE_ACDB_PERSISTENCE
  | GSL_SET_TAG_DATA_TO_ACDB "key_value list" u32 "key_value list" "u8 list"
  | GSL_SET_CAL_DATA_TO_ACDB "key_value list" "key_value list" "u8 list"
  | GSL_INIT "string list" string
  | GSL_DEINIT
  | PTHREAD_CREATE
  | ATS_INIT
  | ATS_DEINIT
  | CLIENT_CB u64 u32 u32 u64

text \<open>One tag of the answer of \<open>gsl_get_tags_with_module_info\<close>: its id and the
  (module id, module instance id) pairs tagged with it.\<close>

type_synonym tag_module_entry = "u32 \<times> (u32 \<times> u32) list"

text \<open>
  The world and the build. \<open>ext_ret\<close> is the returned integer of a call (for
  \<open>CALLOC\<close> zero says that memory was there, for \<open>PCM_OPEN\<close> it is the
  handle), the other fields are out-parameters and the constants of headers that are not
  part of the repository (\<open>ar_osal_error.h\<close>, \<open>kvh2xml.h\<close>).
\<close>

record env =
  ext_ret :: "ext_call list \<Rightarrow> ext_call \<Rightarrow> int"
  ext_handle :: "ext_call list \<Rightarrow> int"
  ext_tags :: "ext_call list \<Rightarrow> key_value list \<Rightarrow> tag_module_entry list"
  ext_tagged :: "ext_call list \<Rightarrow> key_value list \<Rightarrow> u32 \<Rightarrow> u32 \<times> u32"
  ext_xfer :: "ext_call list \<Rightarrow> u32 \<times> u64"
  ext_data :: "ext_call list \<Rightarrow> u8 list"
  ext_word :: "ext_call list \<Rightarrow> nat \<Rightarrow> u32"
  build_agm_32bit :: bool
  build_dev_prepare_before_graph_start :: bool
  AR_ESUBSYSRESET :: nat
  DEVICE_HW_ENDPOINT_RX :: u32
  DEVICE_HW_ENDPOINT_TX :: u32
  STREAM_INPUT_MEDIA_FORMAT :: u32
  STREAM_PCM_DECODER :: u32
  STREAM_PCM_ENCODER :: u32
  SHMEM_ENDPOINT :: u32
  RD_SHMEM_ENDPOINT :: u32
  WR_SHMEM_ENDPOINT :: u32
  TAG_PAUSE :: u32
  STREAM_PCM_CONVERTER :: u32
  TAG_STREAM_PLACEHOLDER_ENCODER :: u32
  TAG_STREAM_PLACEHOLDER_DECODER :: u32
  MODULE_GAPLESS :: u32
  CHANNELS_KEY :: u32
  MEDIA_FMT_ID_KEY :: u32
  MEDIA_FMT :: "agm_media_format \<Rightarrow> u32"
  EVENT_ID_EARLY_EOS :: u32
  SB_MAX_CHAN_CNT :: u32
  sizeof_media_fmt :: "agm_media_format \<Rightarrow> nat"
  sizeof_aac_enc_cfg :: nat
  sizeof_media_format_t :: nat

record world =
  hist :: "ext_call list"

definition ecall :: "env \<Rightarrow> ext_call \<Rightarrow> 'z world_scheme \<Rightarrow> (int \<times> 'z world_scheme) option" where
  "ecall E c s = Some (ext_ret E (hist s) c, s\<lparr>hist := hist s @ [c]\<rparr>)"

definition calloc :: "env \<Rightarrow> 'z world_scheme \<Rightarrow> (bool \<times> 'z world_scheme) option" where
  "calloc E s = do { (r, s) \<leftarrow> ecall E CALLOC s; Some (r = 0, s) }"

lemma wlp_ecall [wlp_simps]:
  "wlp (ecall E c s) Q \<longleftrightarrow> Q (ext_ret E (hist s) c) (s\<lparr>hist := hist s @ [c]\<rparr>)"
  by (simp add: ecall_def wlp_simps)

lemma wlp_calloc [wlp_simps]:
  "wlp (calloc E s) Q \<longleftrightarrow> Q (ext_ret E (hist s) CALLOC = 0) (s\<lparr>hist := hist s @ [CALLOC]\<rparr>)"
  by (simp add: calloc_def wlp_simps)

lemma ecall_not_None [simp]: "ecall E c s \<noteq> None"
  by (simp add: ecall_def)

lemma calloc_not_None [simp]: "calloc E s \<noteq> None"
  by (simp add: calloc_def ecall_def)

section \<open>Error codes of the DSP stack (utils.c)\<close>

definition ar_err_code_info :: "int list" where
  "ar_err_code_info =
     [0, - ENOTRECOVERABLE, - EINVAL, - EOPNOTSUPP, - ENOPROTOOPT, - ENOTRECOVERABLE,
      - ENOTRECOVERABLE, - ENOSPC, - EBADR, - EALREADY, - EPERM, - EINPROGRESS, - EBUSY,
      - ECANCELED, - EAGAIN, - EAGAIN, - EAGAIN, - ENODATA, - ENOMEM, - ENODEV, - ENODEV,
      - ETIMEDOUT, - EIO, - ENETRESET, - EADV]"

text \<open>The table has \<open>AR_ERR_MAX + 1\<close> entries; those without an initialiser are 0.\<close>

definition ar_err_get_lnx_err_code :: "env \<Rightarrow> nat \<Rightarrow> int" where
  "ar_err_get_lnx_err_code E err =
     (let ar_err_max = AR_ESUBSYSRESET E + 1;
          tab = (\<lambda>i. if i < length ar_err_code_info then ar_err_code_info ! i else 0)
      in if err > ar_err_max then tab ar_err_max else tab err)"

text \<open>A GSL return code as the \<open>int\<close> that the callers pass on.\<close>

abbreviation lnx :: "env \<Rightarrow> int \<Rightarrow> int" where
  "lnx E r \<equiv> ar_err_get_lnx_err_code E (to_u32 r)"

text \<open>
  What the code relies on in \<open>ar_osal_error.h\<close>: the last error code is the one its
  table ends with.
\<close>

definition osal_codes_ok :: "env \<Rightarrow> bool" where
  "osal_codes_ok E \<longleftrightarrow> AR_ESUBSYSRESET E = 23"

lemma ar_err_zero [simp]: "ar_err_get_lnx_err_code E 0 = 0"
  by (simp add: ar_err_get_lnx_err_code_def ar_err_code_info_def)

lemma ar_err_table_negative: "0 < i \<Longrightarrow> i \<le> 24 \<Longrightarrow> ar_err_code_info ! i < 0"
proof -
  assume "0 < i" "i \<le> 24"
  then have "i \<in> set [1..<25]" by simp
  moreover have "\<forall>i \<in> set [1..<25]. ar_err_code_info ! i < 0"
    by (simp add: ar_err_code_info_def upt_rec numeral_eq_Suc)
  ultimately show ?thesis by blast
qed

lemma lnx_negative:
  assumes "osal_codes_ok E" and "0 < err"
  shows "ar_err_get_lnx_err_code E err < 0"
  using assms ar_err_table_negative [of err] ar_err_table_negative [of 24]
  by (auto simp: ar_err_get_lnx_err_code_def osal_codes_ok_def ar_err_code_info_def Let_def)

section \<open>Resource accounting\<close>

text \<open>A sum over the history, where the weight of a call may depend on the calls before it
  (and so on what it returned).\<close>

fun hist_sum_rev :: "(ext_call list \<Rightarrow> ext_call \<Rightarrow> int) \<Rightarrow> ext_call list \<Rightarrow> int" where
  "hist_sum_rev w [] = 0"
| "hist_sum_rev w (c # h) = hist_sum_rev w h + w (rev h) c"

definition hist_sum :: "(ext_call list \<Rightarrow> ext_call \<Rightarrow> int) \<Rightarrow> ext_call list \<Rightarrow> int" where
  "hist_sum w h = hist_sum_rev w (rev h)"

lemma hist_sum_Nil [simp]: "hist_sum w [] = 0"
  by (simp add: hist_sum_def)

lemma hist_sum_zero:
  assumes "\<And>c h'. c \<in> set h \<Longrightarrow> w h' c = 0"
  shows "hist_sum w h = 0"
proof -
  have "set r \<subseteq> set h \<Longrightarrow> hist_sum_rev w r = 0" for r
    by (induction r) (simp_all add: assms)
  from this [of "rev h"] show ?thesis by (simp add: hist_sum_def)
qed

fun hist_sum_from :: "(ext_call list \<Rightarrow> ext_call \<Rightarrow> int) \<Rightarrow> ext_call list \<Rightarrow> ext_call list \<Rightarrow> int" where
  "hist_sum_from w h [] = 0"
| "hist_sum_from w h (c # cs) = w h c + hist_sum_from w (h @ [c]) cs"

lemma hist_sum_append [simp]: "hist_sum w (h @ cs) = hist_sum w h + hist_sum_from w h cs"
proof (induction cs arbitrary: h)
  case (Cons c cs)
  have "hist_sum w (h @ [c]) = hist_sum w h + w h c"
    by (simp add: hist_sum_def)
  with Cons [of "h @ [c]"] show ?case by simp
qed simp

text \<open>The graphs that are open at GSL according to the history.\<close>

definition gsl_weight :: "env \<Rightarrow> ext_call list \<Rightarrow> ext_call \<Rightarrow> int" where
  "gsl_weight E h c = (case c of GSL_OPEN g k \<Rightarrow> if ext_ret E h c = 0 then 1 else 0
                       | GSL_CLOSE p \<Rightarrow> - 1 | _ \<Rightarrow> 0)"

abbreviation gsl_live :: "env \<Rightarrow> ext_call list \<Rightarrow> int" where
  "gsl_live E \<equiv> hist_sum (gsl_weight E)"

lemma gsl_weight_simps [simp]:
  "gsl_weight E h (GSL_CLOSE p) = - 1"
  "gsl_weight E h (GSL_OPEN g k) = (if ext_ret E h (GSL_OPEN g k) = 0 then 1 else 0)"
  by (simp_all add: gsl_weight_def)

lemma gsl_weight_zero [simp]:
  "\<not> is_GSL_OPEN c \<Longrightarrow> \<not> is_GSL_CLOSE c \<Longrightarrow> gsl_weight E h c = 0"
  by (cases c) (simp_all add: gsl_weight_def)

end
