(* ===== verification/Metadata.thy ===== *)
theory Metadata
  imports Agm_Types
begin

text \<open>
  Model of \<open>service/src/metadata.c\<close>: graph and calibration key vectors, subgraph
  properties, their decoding from a client payload, merging and calibration update.

  A C array behind a pointer is \<open>'a list option\<close> (\<open>None\<close> is NULL); the
  element count is a field of its own, as in the source, and may be smaller than the
  allocation. The live contents of a vector are the first \<open>num\<close> elements.
\<close>

section \<open>Data\<close>

record agm_key_vector_gsl =
  num_kvs :: nat
  kv :: "key_value list option"

record sg_prop =
  prop_id :: u32
  num_values :: nat
  prop_values :: "u32 list option"

record agm_meta_data_gsl =
  gkv :: agm_key_vector_gsl
  ckv :: agm_key_vector_gsl
  sg_props :: sg_prop

definition key_vector0 :: agm_key_vector_gsl where
  "key_vector0 = \<lparr>num_kvs = 0, kv = None\<rparr>"

definition sg_prop0 :: sg_prop where
  "sg_prop0 = \<lparr>prop_id = 0, num_values = 0, prop_values = None\<rparr>"

definition metadata0 :: agm_meta_data_gsl where
  "metadata0 = \<lparr>gkv = key_vector0, ckv = key_vector0, sg_props = sg_prop0\<rparr>"

text \<open>The live elements, and what it means that the count fits the allocation.\<close>

definition live :: "nat \<Rightarrow> 'a list option \<Rightarrow> 'a list" where
  "live n p = (case p of None \<Rightarrow> [] | Some xs \<Rightarrow> take n xs)"

definition arr_ok :: "nat \<Rightarrow> 'a list option \<Rightarrow> bool" where
  "arr_ok n p \<longleftrightarrow> (case p of None \<Rightarrow> n = 0 | Some xs \<Rightarrow> n \<le> length xs)"

abbreviation gkvs :: "agm_meta_data_gsl \<Rightarrow> key_value list" where
  "gkvs m \<equiv> live (num_kvs (gkv m)) (kv (gkv m))"

abbreviation ckvs :: "agm_meta_data_gsl \<Rightarrow> key_value list" where
  "ckvs m \<equiv> live (num_kvs (ckv m)) (kv (ckv m))"

abbreviation props :: "agm_meta_data_gsl \<Rightarrow> u32 list" where
  "props m \<equiv> live (num_values (sg_props m)) (prop_values (sg_props m))"

definition meta_ok :: "agm_meta_data_gsl \<Rightarrow> bool" where
  "meta_ok m \<longleftrightarrow> arr_ok (num_kvs (gkv m)) (kv (gkv m)) \<and> arr_ok (num_kvs (ckv m)) (kv (ckv m))
     \<and> arr_ok (num_values (sg_props m)) (prop_values (sg_props m))
     \<and> num_values (sg_props m) < 2 ^ 32"

definition MAX_KVPAIR :: "env \<Rightarrow> nat" where
  "MAX_KVPAIR E = (if build_agm_32bit E then 128 else 48)"

section \<open>Operations\<close>

definition metadata_free :: "agm_meta_data_gsl \<Rightarrow> agm_meta_data_gsl" where
  "metadata_free m = metadata0"

subsection \<open>Removing duplicates\<close>

text \<open>
  The three nested loops of \<open>metadata_remove_dup\<close>, which the source writes once for
  graph keys, once for calibration keys and once for property values: the innermost loop
  moves the tail one place down over element \<open>j\<close>; after a removal the same
  \<open>j\<close> is looked at again, with one element less.
\<close>

function shift_down :: "nat \<Rightarrow> nat \<Rightarrow> 'a list \<Rightarrow> 'a list" where
  "shift_down k count xs =
     (if k < count - 1 then shift_down (k + 1) count (xs[k := xs ! (k + 1)]) else xs)"
  by pat_completeness auto
termination
  by (relation "measure (\<lambda>(k, count, xs). count - k)") auto

declare shift_down.simps [simp del]

function dup_inner :: "('a \<Rightarrow> 'k) \<Rightarrow> nat \<Rightarrow> nat \<Rightarrow> nat \<Rightarrow> 'a list \<Rightarrow> nat \<times> 'a list" where
  "dup_inner key i j count xs =
     (if j < count
      then if key (xs ! i) = key (xs ! j)
           then dup_inner key i j (count - 1) (shift_down j count xs)
           else dup_inner key i (j + 1) count xs
      else (count, xs))"
  by pat_completeness auto
termination
  by (relation "measure (\<lambda>(key, i, j, count, xs). count - j)") auto

declare dup_inner.simps [simp del]

lemma dup_inner_count_le: "fst (dup_inner key i j count xs) \<le> count"
proof (induction key i j count xs rule: dup_inner.induct)
  case (1 key i j count xs)
  then show ?case
    by (cases "j < count"; cases "key (xs ! i) = key (xs ! j)")
       (auto simp: dup_inner.simps [of key i j count xs])
qed

function dup_outer :: "('a \<Rightarrow> 'k) \<Rightarrow> nat \<Rightarrow> nat \<Rightarrow> 'a list \<Rightarrow> nat \<times> 'a list" where
  "dup_outer key i count xs =
     (if i < count
      then let r = dup_inner key i (i + 1) count xs
           in dup_outer key (i + 1) (fst r) (snd r)
      else (count, xs))"
  by pat_completeness auto
termination
proof (relation "measure (\<lambda>(key, i, count, xs). count - i)", goal_cases)
  case (2 key i count xs x)
  then show ?case using dup_inner_count_le [of key i "i + 1" count xs] by (simp add: case_prod_beta)
qed simp

declare dup_outer.simps [simp del]

definition remove_dup :: "('a \<Rightarrow> 'k) \<Rightarrow> nat \<Rightarrow> 'a list option \<Rightarrow> nat \<times> 'a list option" where
  "remove_dup key n p =
     (case p of None \<Rightarrow> (n, None)
      | Some xs \<Rightarrow> (let r = dup_outer key 0 n xs in (fst r, Some (snd r))))"

definition metadata_remove_dup :: "agm_meta_data_gsl \<Rightarrow> agm_meta_data_gsl" where
  "metadata_remove_dup m =
     (let g = remove_dup fst (num_kvs (gkv m)) (kv (gkv m));
          c = remove_dup fst (num_kvs (ckv m)) (kv (ckv m));
          p = remove_dup id (num_values (sg_props m)) (prop_values (sg_props m))
      in m\<lparr>gkv := \<lparr>num_kvs = fst g, kv = snd g\<rparr>,
           ckv := \<lparr>num_kvs = fst c, kv = snd c\<rparr>,
           sg_props := (sg_props m)\<lparr>num_values := fst p, prop_values := snd p\<rparr>\<rparr>)"

subsection \<open>Merging\<close>

text \<open>
  The copy loops of \<open>metadata_merge\<close>: each input with a non-NULL array is copied
  behind the previous one. Reading more elements than the input has, or writing behind the
  allocation, is a trap.
\<close>

fun merge_copy :: "(nat \<times> 'a list option) list \<Rightarrow> nat \<Rightarrow> 'a list \<Rightarrow> 'a list option" where
  "merge_copy [] off dst = Some dst"
| "merge_copy ((n, None) # ins) off dst = merge_copy ins off dst"
| "merge_copy ((n, Some xs) # ins) off dst =
     (if n \<le> length xs
      then do { dst \<leftarrow> memcpy_at off (take n xs) dst; merge_copy ins (off + n) dst }
      else None)"

fun merged_prop_id :: "sg_prop list \<Rightarrow> u32 \<Rightarrow> u32" where
  "merged_prop_id [] cur = cur"
| "merged_prop_id (p # ps) cur = merged_prop_id ps (if prop_values p = None then cur else prop_id p)"

definition metadata_merge ::
  "env \<Rightarrow> agm_meta_data_gsl option list \<Rightarrow> 'z world_scheme \<Rightarrow>
     (agm_meta_data_gsl option \<times> 'z world_scheme) option" where
  "metadata_merge E inputs s =
     (let ins = List.map_filter id inputs;
          ng = (\<Sum>m \<leftarrow> ins. num_kvs (gkv m));
          nc = (\<Sum>m \<leftarrow> ins. num_kvs (ckv m));
          np = (\<Sum>m \<leftarrow> ins. num_values (sg_props m)) mod 2 ^ 32
      in do {
        (ok, s) \<leftarrow> calloc E s;
        if \<not> ok then Some (None, s)
        else if ng > MAX_KVPAIR E \<or> nc > MAX_KVPAIR E then Some (None, s)
        else do {
          (ok, s) \<leftarrow> calloc E s;
          if \<not> ok then Some (None, s) else do {
          (ok, s) \<leftarrow> calloc E s;
          if \<not> ok then Some (None, s) else do {
          (ok, s) \<leftarrow> calloc E s;
          if \<not> ok then Some (None, s) else do {
          g \<leftarrow> merge_copy (map (\<lambda>m. (num_kvs (gkv m), kv (gkv m))) ins) 0 (replicate ng (0, 0));
          c \<leftarrow> merge_copy (map (\<lambda>m. (num_kvs (ckv m), kv (ckv m))) ins) 0 (replicate nc (0, 0));
          p \<leftarrow> merge_copy (map (\<lambda>m. (num_values (sg_props m), prop_values (sg_props m))) ins)
                 0 (replicate np 0);
          Some (Some (metadata_remove_dup
             \<lparr>gkv = \<lparr>num_kvs = ng, kv = Some g\<rparr>, ckv = \<lparr>num_kvs = nc, kv = Some c\<rparr>,
              sg_props = \<lparr>prop_id = merged_prop_id (map sg_props ins) 0,
                          num_values = np, prop_values = Some p\<rparr>\<rparr>), s) }}}}})"

subsection \<open>Decoding a client payload\<close>

fun rd_kvs :: "u8 list \<Rightarrow> nat \<Rightarrow> nat \<Rightarrow> key_value list option" where
  "rd_kvs bs off 0 = Some []"
| "rd_kvs bs off (Suc n) =
     do { k \<leftarrow> rd32 bs off; v \<leftarrow> rd32 bs (off + 4);
          rest \<leftarrow> rd_kvs bs (off + 8) n; Some ((k, v) # rest) }"

fun rd_u32s :: "u8 list \<Rightarrow> nat \<Rightarrow> nat \<Rightarrow> u32 list option" where
  "rd_u32s bs off 0 = Some []"
| "rd_u32s bs off (Suc n) =
     do { v \<leftarrow> rd32 bs off; rest \<leftarrow> rd_u32s bs (off + 4) n; Some (v # rest) }"

text \<open>Both counts are read before anything else is done: when the first one is too large the
  error message still prints the second.\<close>

definition metadata_copy ::
  "env \<Rightarrow> agm_meta_data_gsl \<Rightarrow> nat \<Rightarrow> u8 list option \<Rightarrow> 'z world_scheme \<Rightarrow>
     ((int \<times> agm_meta_data_gsl) \<times> 'z world_scheme) option" where
  "metadata_copy E dest size_unused metadata s =
     (case metadata of
        None \<Rightarrow> Some ((0, dest), s)
      | Some bs \<Rightarrow> do {
          ng \<leftarrow> map_option unat (rd32 bs 0);
          nc \<leftarrow> map_option unat (rd32 bs (4 + ng * 8));
          if ng > MAX_KVPAIR E \<or> nc > MAX_KVPAIR E then Some ((- EINVAL, dest), s) else do {
          (ok, s) \<leftarrow> calloc E s;
          if \<not> ok then Some ((- ENOMEM, dest\<lparr>gkv := \<lparr>num_kvs = 0, kv = None\<rparr>\<rparr>), s) else do {
          g \<leftarrow> rd_kvs bs 4 ng;
          (ok, s) \<leftarrow> calloc E s;
          if \<not> ok then Some ((- ENOMEM, metadata0), s) else do {
          c \<leftarrow> rd_kvs bs (8 + ng * 8) nc;
          let off = 8 + ng * 8 + nc * 8;
          pid \<leftarrow> rd32 bs off;
          np \<leftarrow> map_option unat (rd32 bs (off + 4));
          (ok, s) \<leftarrow> calloc E s;
          if \<not> ok then Some ((- ENOMEM, metadata0), s) else do {
          p \<leftarrow> rd_u32s bs (off + 8) np;
          Some ((0, \<lparr>gkv = \<lparr>num_kvs = ng, kv = Some g\<rparr>, ckv = \<lparr>num_kvs = nc, kv = Some c\<rparr>,
                    sg_props = \<lparr>prop_id = pid, num_values = np, prop_values = Some p\<rparr>\<rparr>), s) }}}}})"

subsection \<open>Updating calibration values\<close>

fun cal_value :: "u32 \<Rightarrow> u32 \<Rightarrow> key_value list \<Rightarrow> u32" where
  "cal_value k v [] = v"
| "cal_value k v ((k', v') # cs) = cal_value k (if k = k' then v' else v) cs"

definition metadata_update_cal :: "agm_meta_data_gsl \<Rightarrow> agm_key_vector_gsl \<Rightarrow> agm_meta_data_gsl" where
  "metadata_update_cal m c =
     (case (kv (ckv m), kv c) of
        (Some xs, Some cs) \<Rightarrow>
          m\<lparr>ckv := (ckv m)\<lparr>kv := Some (map (\<lambda>(k, v). (k, cal_value k v (take (num_kvs c) cs)))
                                          (take (num_kvs (ckv m)) xs)
                                        @ drop (num_kvs (ckv m)) xs)\<rparr>\<rparr>
      | _ \<Rightarrow> m)"


section \<open>Specification\<close>

text \<open>The specification of duplicate removal: the first element of each key, in order.\<close>

fun keep_first :: "('a \<Rightarrow> 'k) \<Rightarrow> 'a list \<Rightarrow> 'a list" where
  "keep_first key [] = []"
| "keep_first key (x # xs) = x # keep_first key (filter (\<lambda>y. key y \<noteq> key x) xs)"
 
lemma set_keep_first: "set (keep_first key xs) \<subseteq> set xs"
  by (induction key xs rule: keep_first.induct) auto

text \<open>The size guard of a merge, and the allocations it makes one after the other.\<close>

definition merge_fits :: "env \<Rightarrow> agm_meta_data_gsl list \<Rightarrow> bool" where
  "merge_fits E ins \<longleftrightarrow> (\<Sum>m \<leftarrow> ins. num_kvs (gkv m)) \<le> MAX_KVPAIR E
     \<and> (\<Sum>m \<leftarrow> ins. num_kvs (ckv m)) \<le> MAX_KVPAIR E"

fun allocs_ok :: "env \<Rightarrow> nat \<Rightarrow> ext_call list \<Rightarrow> bool" where
  "allocs_ok E 0 h = True"
| "allocs_ok E (Suc n) h = (ext_ret E h CALLOC = 0 \<and> allocs_ok E n (h @ [CALLOC]))"

text \<open>What the copy loops of a merge leave in the new arrays.\<close>

definition concat_meta :: "agm_meta_data_gsl list \<Rightarrow> agm_meta_data_gsl" where
  "concat_meta ins =
     \<lparr>gkv = \<lparr>num_kvs = (\<Sum>m \<leftarrow> ins. num_kvs (gkv m)), kv = Some (concat (map gkvs ins))\<rparr>,
      ckv = \<lparr>num_kvs = (\<Sum>m \<leftarrow> ins. num_kvs (ckv m)), kv = Some (concat (map ckvs ins))\<rparr>,
      sg_props = \<lparr>prop_id = merged_prop_id (map sg_props ins) 0,
                  num_values = (\<Sum>m \<leftarrow> ins. num_values (sg_props m)),
                  prop_values = Some (concat (map props ins))\<rparr>\<rparr>"

text \<open>The payload layout documented at the top of \<open>metadata.c\<close>, as an encoder.\<close>

fun wr_kvs :: "key_value list \<Rightarrow> u8 list" where
  "wr_kvs [] = []"
| "wr_kvs ((k, v) # kvs) = wr32 k @ wr32 v @ wr_kvs kvs"

fun wr_u32s :: "u32 list \<Rightarrow> u8 list" where
  "wr_u32s [] = []"
| "wr_u32s (v # vs) = wr32 v @ wr_u32s vs"

definition encode_metadata :: "key_value list \<Rightarrow> key_value list \<Rightarrow> u32 \<Rightarrow> u32 list \<Rightarrow> u8 list" where
  "encode_metadata gs cs pid ps =
     wr32 (of_nat (length gs)) @ wr_kvs gs @ wr32 (of_nat (length cs)) @ wr_kvs cs
     @ wr32 pid @ wr32 (of_nat (length ps)) @ wr_u32s ps"

section \<open>Correctness\<close>


lemma distinct_keep_first: "distinct (map key (keep_first key xs))"
proof (induction key xs rule: keep_first.induct)
  case (2 key x xs)
  then show ?case using set_keep_first [of key "filter (\<lambda>y. key y \<noteq> key x) xs"] by auto
qed simp

lemma keys_keep_first: "key ` set (keep_first key xs) = key ` set xs"
proof (induction key xs rule: keep_first.induct)
  case (2 key x xs)
  then show ?case by (auto simp: image_iff) 
qed simp

lemma find_keep_first: "find (\<lambda>y. key y = k) (keep_first key xs) = find (\<lambda>y. key y = k) xs"
proof (induction key xs rule: keep_first.induct)
  case (2 key x xs)
  have "find (\<lambda>y. key y = k) (filter (\<lambda>y. key y \<noteq> key x) xs) = find (\<lambda>y. key y = k) xs"
    if "key x \<noteq> k" using that by (induction xs) auto
  with 2 show ?case by simp
qed simp

lemma shift_down_stop [simp]: "\<not> k < count - 1 \<Longrightarrow> shift_down k count xs = xs"
  by (subst shift_down.simps) simp

lemma dup_inner_stop [simp]: "\<not> j < count \<Longrightarrow> dup_inner key i j count xs = (count, xs)"
  by (subst dup_inner.simps) simp

lemma dup_outer_stop [simp]: "\<not> i < count \<Longrightarrow> dup_outer key i count xs = (count, xs)"
  by (subst dup_outer.simps) simp

lemma shift_down_eq:
  assumes "k < count" "count \<le> length xs"
  shows "shift_down k count xs = take k xs @ drop (k + 1) (take count xs) @ drop (count - 1) xs"
  using assms
proof (induction k count xs rule: shift_down.induct)
  case (1 k count xs)
  show ?case
  proof (cases "k < count - 1")
    case True
    then have "shift_down k count xs = shift_down (k + 1) count (xs[k := xs ! (k + 1)])"
      by (simp add: shift_down.simps [of k count xs])
    also have "\<dots> = take (k + 1) (xs[k := xs ! (k + 1)])
        @ drop (k + 2) (take count xs) @ drop (count - 1) xs"
      using 1 True by (simp add: drop_update_cancel take_update_swap)
    also have "\<dots> = take k xs @ drop (k + 1) (take count xs) @ drop (count - 1) xs"
      using 1 True by (simp add: take_Suc_conv_app_nth Cons_nth_drop_Suc [symmetric])
    finally show ?thesis .
  next
    case False
    with 1 have "count = Suc k" by simp
    then show ?thesis
      by simp
  qed
qed

lemma length_shift_down [simp]: "length (shift_down k count xs) = length xs"
  by (induction k count xs rule: shift_down.induct) (subst shift_down.simps, simp)

lemma take_shift_down:
  assumes "k < count" "count \<le> length xs"
  shows "take (count - 1) (shift_down k count xs) = take k xs @ drop (k + 1) (take count xs)"
  using assms by (simp add: shift_down_eq)

lemma dup_inner_spec:
  assumes "i < j" "j \<le> count" "count \<le> length xs" "dup_inner key i j count xs = (c, ys)"
  shows "length ys = length xs \<and> j \<le> c \<and> c \<le> count \<and>
         take c ys = take j xs @ filter (\<lambda>y. key y \<noteq> key (xs ! i)) (drop j (take count xs))"
  using assms
proof (induction key i j count xs rule: dup_inner.induct)
  case (1 key i j count xs)
  show ?case
  proof (cases "j < count")
    case False
    with 1(3-6) show ?thesis by (auto simp: order_antisym_conv not_less)
  next
    case jc: True
    then have d: "drop j (take count xs) = xs ! j # drop (j + 1) (take count xs)"
      using 1(5) by (simp add: Cons_nth_drop_Suc [symmetric])
    show ?thesis
    proof (cases "key (xs ! i) = key (xs ! j)")
      case True
      let ?zs = "shift_down j count xs"
      have z: "take (count - 1) ?zs = take j xs @ drop (j + 1) (take count xs)"
        using jc 1(5) by (rule take_shift_down)
      have "take j ?zs = take j xs" "?zs ! i = xs ! i"
        "drop j (take (count - 1) ?zs) = drop (j + 1) (take count xs)"
        using jc 1(3,5) z by (simp_all add: shift_down_eq nth_append)
      moreover have "j \<le> count - 1" "count - 1 \<le> length xs"
        using jc 1(5) by auto
      ultimately show ?thesis using 1 jc True d
        by (auto simp: dup_inner.simps [of key i j count xs])
    next
      case False
      with 1 jc d show ?thesis
        by (simp add: dup_inner.simps [of key i j count xs] take_Suc_conv_app_nth)
    qed
  qed
qed

lemma dup_outer_spec:
  assumes "count \<le> length xs" "i \<le> count" "dup_outer key i count xs = (c, ys)"
  shows "length ys = length xs \<and> c \<le> count \<and>
         take c ys = take i xs @ keep_first key (drop i (take count xs))"
  using assms
proof (induction key i count xs rule: dup_outer.induct)
  case (1 key i count xs)
  show ?case
  proof (cases "i < count")
    case False
    with 1(2-4) show ?thesis by (auto simp: order_antisym_conv not_less)
  next
    case True
    obtain c1 zs where r: "dup_inner key i (i + 1) count xs = (c1, zs)" by fastforce
    with True 1(2) have sp: "length zs = length xs" "i + 1 \<le> c1" "c1 \<le> count"
      "take c1 zs = take (i + 1) xs @ filter (\<lambda>y. key y \<noteq> key (xs ! i)) (drop (i + 1) (take count xs))"
      using dup_inner_spec [OF _ _ _ r] by auto
    have "dup_outer key (i + 1) c1 zs = (c, ys)"
      using 1(4) True r by (simp add: dup_outer.simps [of key i count xs])
    with 1 True r sp have ih: "length ys = length zs" "c \<le> c1"
      "take c ys = take (i + 1) zs @ keep_first key (drop (i + 1) (take c1 zs))"
      by auto
    have "take (i + 1) zs = take (i + 1) (take c1 zs)" using sp(2) by (simp add: min_def)
    also have "\<dots> = take (i + 1) xs" using sp True 1(2) by simp
    finally have t: "take (i + 1) zs = take i xs @ [xs ! i]"
      using True 1(2) by (simp add: take_Suc_conv_app_nth)
    have "drop (i + 1) (take c1 zs) = filter (\<lambda>y. key y \<noteq> key (xs ! i)) (drop (i + 1) (take count xs))"
      using sp True 1(2) by simp
    moreover have "drop i (take count xs) = xs ! i # drop (i + 1) (take count xs)"
      using True 1(2) by (simp add: Cons_nth_drop_Suc [symmetric])
    ultimately show ?thesis using ih sp t by simp
  qed
qed
lemma remove_dup_spec:
  assumes "arr_ok n p"
  shows "live (fst (remove_dup key n p)) (snd (remove_dup key n p)) = keep_first key (live n p)
       \<and> arr_ok (fst (remove_dup key n p)) (snd (remove_dup key n p))
       \<and> fst (remove_dup key n p) \<le> n"
proof (cases p)
  case (Some xs)
  obtain c ys where "dup_outer key 0 n xs = (c, ys)" by fastforce
  with assms Some dup_outer_spec [of n xs 0 key c ys] show ?thesis
    by (auto simp: remove_dup_def live_def arr_ok_def)
qed (use assms in \<open>simp add: remove_dup_def live_def arr_ok_def\<close>)

lemma metadata_remove_dup_spec:
  assumes "meta_ok m"
  shows "gkvs (metadata_remove_dup m) = keep_first fst (gkvs m)"
    and "ckvs (metadata_remove_dup m) = keep_first fst (ckvs m)"
    and "props (metadata_remove_dup m) = keep_first id (props m)"
    and "prop_id (sg_props (metadata_remove_dup m)) = prop_id (sg_props m)"
    and "meta_ok (metadata_remove_dup m)"
  using assms remove_dup_spec [of "num_kvs (gkv m)" "kv (gkv m)" fst]
    remove_dup_spec [of "num_kvs (ckv m)" "kv (ckv m)" fst]
    remove_dup_spec [of "num_values (sg_props m)" "prop_values (sg_props m)" id]
  by (auto simp: metadata_remove_dup_def meta_ok_def Let_def)

lemma merge_copy_spec:
  assumes "\<forall>(n, p) \<in> set ins. arr_ok n p"
    and "(\<Sum>(n, p) \<leftarrow> ins. n) \<le> length ys"
  shows "merge_copy ins (length xs) (xs @ ys)
     = Some (xs @ concat (map (\<lambda>(n, p). live n p) ins) @ drop (\<Sum>(n, p) \<leftarrow> ins. n) ys)"
  using assms
proof (induction ins arbitrary: xs ys)
  case Nil
  then show ?case by simp
next
  case (Cons a ins)
  obtain n p where a: "a = (n, p)" by fastforce
  show ?case
  proof (cases p)
    case None
    with Cons a show ?thesis by (simp add: arr_ok_def live_def)
  next
    case (Some zs)
    have "memcpy_at (length xs) (take n zs) (xs @ ys) = Some ((xs @ take n zs) @ drop n ys)"
      using Cons.prems a Some memcpy_at_append [of "take n zs" ys xs]
      by (simp add: arr_ok_def min_absorb2)
    moreover have "merge_copy ins (length (xs @ take n zs)) ((xs @ take n zs) @ drop n ys)
       = Some ((xs @ take n zs) @ concat (map (\<lambda>(n, p). live n p) ins)
               @ drop (\<Sum>(n, p) \<leftarrow> ins. n) (drop n ys))"
      using Cons.prems a by (intro Cons.IH) auto
    ultimately show ?thesis
      using Cons.prems a Some by (simp add: arr_ok_def live_def add.commute)
  qed
qed

lemma map_of_keep_first: "map_of (keep_first fst xs) = map_of xs"
proof (induction "fst :: 'a \<times> 'b \<Rightarrow> 'a" xs rule: keep_first.induct)
  case (2 x xs)
  have "map_of (filter (\<lambda>y. fst y \<noteq> fst x) xs) k = map_of xs k" if "k \<noteq> fst x" for k
    using that by (induction xs) auto
  with 2 show ?case by (cases x) (auto simp: fun_eq_iff)
qed simp

lemma sum_list_replicate_live:
  "arr_ok n p \<Longrightarrow> length (live n p) = n"
  by (auto simp: arr_ok_def live_def split: option.splits)

lemma merge_copy_all:
  assumes "\<forall>(n, p) \<in> set ins. arr_ok n p" and "(\<Sum>(n, p) \<leftarrow> ins. n) = k"
  shows "merge_copy ins 0 (replicate k z) = Some (concat (map (\<lambda>(n, p). live n p) ins))"
  using merge_copy_spec [of ins "replicate k z" "[]"] assms by simp

lemma allocs_ok_3:
  "allocs_ok E 3 h \<longleftrightarrow> ext_ret E h CALLOC = 0 \<and> ext_ret E (h @ [CALLOC]) CALLOC = 0
     \<and> ext_ret E (h @ [CALLOC, CALLOC]) CALLOC = 0"
  by (simp add: numeral_eq_Suc)

lemma allocs_ok_4:
  "allocs_ok E 4 h \<longleftrightarrow> allocs_ok E 3 h \<and> ext_ret E (h @ [CALLOC, CALLOC, CALLOC]) CALLOC = 0"
  by (simp add: numeral_eq_Suc)

lemma replicate_3_4: "replicate 3 x = [x, x, x]" "replicate 4 x = [x, x, x, x]"
  by (simp_all add: numeral_eq_Suc)

lemma length_concat_live:
  "\<forall>m \<in> set ins. arr_ok (n m) (p m) \<Longrightarrow>
   length (concat (map (\<lambda>m. live (n m) (p m)) ins)) = (\<Sum>m \<leftarrow> ins. n m)"
  by (induction ins) (auto simp: sum_list_replicate_live)

lemma concat_meta_ok:
  assumes "\<forall>m \<in> set ins. meta_ok m" "(\<Sum>m \<leftarrow> ins. num_values (sg_props m)) < 2 ^ 32"
  shows "meta_ok (concat_meta ins)"
  using assms by (simp add: meta_ok_def concat_meta_def arr_ok_def length_concat_live)

lemma concat_meta_live:
  assumes "\<forall>m \<in> set ins. meta_ok m"
  shows "gkvs (concat_meta ins) = concat (map gkvs ins)"
    "ckvs (concat_meta ins) = concat (map ckvs ins)"
    "props (concat_meta ins) = concat (map props ins)"
  using assms length_concat_live [of ins "\<lambda>m. num_kvs (gkv m)" "\<lambda>m. kv (gkv m)"]
   length_concat_live [of ins "\<lambda>m. num_kvs (ckv m)" "\<lambda>m. kv (ckv m)"]
   length_concat_live [of ins "\<lambda>m. num_values (sg_props m)" "\<lambda>m. prop_values (sg_props m)"]
  by (simp_all add: concat_meta_def meta_ok_def live_def [where p = "Some _"])

lemma metadata_merge_success:
  assumes ok: "\<forall>m \<in> set (List.map_filter id inputs). meta_ok m"
    and np: "(\<Sum>m \<leftarrow> List.map_filter id inputs. num_values (sg_props m)) < 2 ^ 32"
    and fits: "merge_fits E (List.map_filter id inputs)" and al: "allocs_ok E 4 (hist s)"
  shows "metadata_merge E inputs s =
     Some (Some (metadata_remove_dup (concat_meta (List.map_filter id inputs))),
           s\<lparr>hist := hist s @ replicate 4 CALLOC\<rparr>)"
proof -
  let ?ins = "List.map_filter id inputs"
  have a: "ext_ret E (hist s) CALLOC = 0" "ext_ret E (hist s @ [CALLOC]) CALLOC = 0"
    "ext_ret E (hist s @ [CALLOC, CALLOC]) CALLOC = 0"
    "ext_ret E (hist s @ [CALLOC, CALLOC, CALLOC]) CALLOC = 0"
    using al by (simp_all add: allocs_ok_3 allocs_ok_4)
  have "merge_copy (map (\<lambda>m. (num_kvs (gkv m), kv (gkv m))) ?ins) 0
          (replicate (\<Sum>m \<leftarrow> ?ins. num_kvs (gkv m)) (0, 0)) = Some (concat (map gkvs ?ins))"
    using ok by (subst merge_copy_all) (auto simp: meta_ok_def comp_def)
  moreover have "merge_copy (map (\<lambda>m. (num_kvs (ckv m), kv (ckv m))) ?ins) 0
          (replicate (\<Sum>m \<leftarrow> ?ins. num_kvs (ckv m)) (0, 0)) = Some (concat (map ckvs ?ins))"
    using ok by (subst merge_copy_all) (auto simp: meta_ok_def comp_def)
  moreover have "merge_copy (map (\<lambda>m. (num_values (sg_props m), prop_values (sg_props m))) ?ins) 0
          (replicate (\<Sum>m \<leftarrow> ?ins. num_values (sg_props m)) 0) = Some (concat (map props ?ins))"
    using ok by (subst merge_copy_all) (auto simp: meta_ok_def comp_def)
  ultimately show ?thesis
    using a fits np
    by (simp add: metadata_merge_def calloc_def ecall_def Let_def merge_fits_def concat_meta_def
        replicate_3_4)
qed

lemma metadata_merge_hist:
  assumes "metadata_merge E inputs s = Some (r, s')"
  shows "\<exists>h. s' = s\<lparr>hist := hist s @ h\<rparr> \<and> set h \<subseteq> {CALLOC}"
  using assms
  by (auto simp: metadata_merge_def calloc_def ecall_def Let_def bind_eq_Some_conv split: if_splits
       intro!: exI conjI refl)

lemma metadata_merge_None:
  assumes "\<not> merge_fits E (List.map_filter id inputs)" 
  shows "\<exists>h. metadata_merge E inputs s = Some (None, s\<lparr>hist := hist s @ h\<rparr>)"
  using assms
  by (auto simp: metadata_merge_def calloc_def ecall_def Let_def merge_fits_def)

lemma length_wr_kvs [simp]: "length (wr_kvs kvs) = 8 * length kvs"
  by (induction kvs rule: wr_kvs.induct) auto

lemma rd32_at: "n = length xs \<Longrightarrow> rd32 (xs @ wr32 w @ ys) n = Some w"
  by (simp add: rd32_wr32)

lemma rd_kvs_wr_kvs: "n = length xs \<Longrightarrow> rd_kvs (xs @ wr_kvs kvs @ ys) n (length kvs) = Some kvs"
proof (induction kvs arbitrary: xs n rule: wr_kvs.induct)
  case (2 k v kvs)
  have "rd_kvs (xs @ wr_kvs ((k, v) # kvs) @ ys) (n + 8) (length kvs) = Some kvs"
    using 2(1) [of "n + 8" "xs @ wr32 k @ wr32 v"] 2(2) by simp
  moreover have "rd32 (xs @ wr_kvs ((k, v) # kvs) @ ys) n = Some k"
    using 2(2) rd32_at [of n xs k "wr32 v @ wr_kvs kvs @ ys"] by simp
  moreover have "rd32 (xs @ wr_kvs ((k, v) # kvs) @ ys) (n + 4) = Some v"
    using 2(2) rd32_at [of "n + 4" "xs @ wr32 k" v "wr_kvs kvs @ ys"] by simp
  ultimately show ?case by simp
qed simp

lemma rd_u32s_wr_u32s: "n = length xs \<Longrightarrow> rd_u32s (xs @ wr_u32s vs @ ys) n (length vs) = Some vs"
proof (induction vs arbitrary: xs n)
  case (Cons v vs)
  have "rd_u32s (xs @ wr_u32s (v # vs) @ ys) (n + 4) (length vs) = Some vs"
    using Cons(1) [of "n + 4" "xs @ wr32 v"] Cons(2) by simp
  moreover have "rd32 (xs @ wr_u32s (v # vs) @ ys) n = Some v"
    using Cons(2) rd32_at [of n xs v "wr_u32s vs @ ys"] by simp
  ultimately show ?case by simp
qed simp

lemma unat_of_nat_small [simp]: "n < 2 ^ 32 \<Longrightarrow> unat (of_nat n :: u32) = n"
  by (simp add: unat_of_nat)

lemma MAX_KVPAIR_bound: "n \<le> MAX_KVPAIR E \<Longrightarrow> n < 2 ^ 32"
  by (auto simp: MAX_KVPAIR_def split: if_splits)

theorem metadata_copy_roundtrip:
  assumes "length gs \<le> MAX_KVPAIR E" "length cs \<le> MAX_KVPAIR E" "length ps < 2 ^ 32"
    and "allocs_ok E 3 (hist s)"
  shows "metadata_copy E dest n (Some (encode_metadata gs cs pid ps @ trailing)) s =
     Some ((0, \<lparr>gkv = \<lparr>num_kvs = length gs, kv = Some gs\<rparr>,
                ckv = \<lparr>num_kvs = length cs, kv = Some cs\<rparr>,
                sg_props = \<lparr>prop_id = pid, num_values = length ps, prop_values = Some ps\<rparr>\<rparr>),
           s\<lparr>hist := hist s @ replicate 3 CALLOC\<rparr>)"
proof -
  let ?g = "wr32 (of_nat (length gs))" and ?c = "wr32 (of_nat (length cs))"
    and ?p = "wr32 (of_nat (length ps))" and ?bs = "encode_metadata gs cs pid ps @ trailing"
  have e: "?bs = ?g @ wr_kvs gs @ ?c @ wr_kvs cs @ wr32 pid @ ?p @ wr_u32s ps @ trailing"
    by (simp add: encode_metadata_def)
  have r: "rd32 ?bs 0 = Some (of_nat (length gs))" "rd_kvs ?bs 4 (length gs) = Some gs"
    "rd32 ?bs (4 + length gs * 8) = Some (of_nat (length cs))"
    "rd_kvs ?bs (8 + length gs * 8) (length cs) = Some cs"
    "rd32 ?bs (8 + length gs * 8 + length cs * 8) = Some pid"
    "rd32 ?bs (8 + length gs * 8 + length cs * 8 + 4) = Some (of_nat (length ps))"
    "rd_u32s ?bs (8 + length gs * 8 + length cs * 8 + 8) (length ps) = Some ps"
    using rd32_at [of 0 "[]" "of_nat (length gs)"]
     rd_kvs_wr_kvs [of 4 ?g gs "?c @ wr_kvs cs @ wr32 pid @ ?p @ wr_u32s ps @ trailing"]
     rd32_at [of "4 + length gs * 8" "?g @ wr_kvs gs" "of_nat (length cs)"
              "wr_kvs cs @ wr32 pid @ ?p @ wr_u32s ps @ trailing"]
     rd_kvs_wr_kvs [of "8 + length gs * 8" "?g @ wr_kvs gs @ ?c" cs
              "wr32 pid @ ?p @ wr_u32s ps @ trailing"]
     rd32_at [of "8 + length gs * 8 + length cs * 8" "?g @ wr_kvs gs @ ?c @ wr_kvs cs" pid
              "?p @ wr_u32s ps @ trailing"]
     rd32_at [of "8 + length gs * 8 + length cs * 8 + 4" "?g @ wr_kvs gs @ ?c @ wr_kvs cs @ wr32 pid"
              "of_nat (length ps)" "wr_u32s ps @ trailing"]
     rd_u32s_wr_u32s [of "8 + length gs * 8 + length cs * 8 + 8"
              "?g @ wr_kvs gs @ ?c @ wr_kvs cs @ wr32 pid @ ?p" ps trailing]
    unfolding e by (simp_all add: algebra_simps)
  have a: "ext_ret E (hist s) CALLOC = 0" "ext_ret E (hist s @ [CALLOC]) CALLOC = 0"
    "ext_ret E (hist s @ [CALLOC, CALLOC]) CALLOC = 0"
    using assms(4) by (simp_all add: allocs_ok_3)
  show ?thesis
    using assms(1-3) a r MAX_KVPAIR_bound [OF assms(1)] MAX_KVPAIR_bound [OF assms(2)]
    by (simp add: metadata_copy_def calloc_def ecall_def replicate_3_4)
qed
lemma cal_value_spec:
  "cal_value k v cs = (case map_of (rev cs) k of None \<Rightarrow> v | Some w \<Rightarrow> w)"
  by (induction k v cs rule: cal_value.induct) (auto simp: map_add_def split: option.splits)

lemma metadata_update_cal_spec:
  assumes "kv c = Some cs" "kv (ckv m) \<noteq> None"
  shows "ckvs (metadata_update_cal m c) =
      map (\<lambda>(k, v). (k, case map_of (rev (take (num_kvs c) cs)) k of None \<Rightarrow> v | Some w \<Rightarrow> w)) (ckvs m)"
    and "gkv (metadata_update_cal m c) = gkv m"
    and "sg_props (metadata_update_cal m c) = sg_props m"
    and "num_kvs (ckv (metadata_update_cal m c)) = num_kvs (ckv m)"
  using assms
  by (auto simp: metadata_update_cal_def live_def cal_value_spec split: option.splits)

lemma metadata_update_cal_ok: "meta_ok m \<Longrightarrow> meta_ok (metadata_update_cal m c)"
  by (auto simp: metadata_update_cal_def meta_ok_def arr_ok_def split: option.splits)

end
