(* ===== verification/Device.thy ===== *)
theory Device
  imports Metadata
begin

text \<open>
  Model of \<open>service/src/device.c\<close> (the tinyalsa build): the table of audio
  interfaces, their reference counts and states, device groups, and the calls made to the
  PCM driver and to the sysfs node.

  \<open>devs\<close> and \<open>grps\<close> are stores from addresses to objects;
  \<open>device_list\<close> and \<open>device_group_data_list\<close> are the global lists of
  the source, as lists of addresses. A virtual child points to its parent, and every
  driver call and every reference count of a child goes to the parent.
\<close>

section \<open>Data\<close>

record refcount =
  rc_open :: int
  rc_prepare :: int
  rc_start :: int

datatype device_state = DEV_CLOSED | DEV_OPENED | DEV_PREPARED | DEV_STARTED | DEV_STOPPED

fun dev_rank :: "device_state \<Rightarrow> nat" where
  "dev_rank DEV_CLOSED = 0"
| "dev_rank DEV_OPENED = 1"
| "dev_rank DEV_PREPARED = 2"
| "dev_rank DEV_STARTED = 3"
| "dev_rank DEV_STOPPED = 4"

instantiation device_state :: linorder
begin

definition less_eq_device_state :: "device_state \<Rightarrow> device_state \<Rightarrow> bool" where
  "less_eq_device_state a b \<longleftrightarrow> dev_rank a \<le> dev_rank b"

definition less_device_state :: "device_state \<Rightarrow> device_state \<Rightarrow> bool" where
  "less_device_state a b \<longleftrightarrow> dev_rank a < dev_rank b"

instance
proof
  fix x y :: device_state
  show "x \<le> y \<Longrightarrow> y \<le> x \<Longrightarrow> x = y"
    by (cases x; cases y) (simp_all add: less_eq_device_state_def)
qed (auto simp: less_eq_device_state_def less_device_state_def)

end

lemmas device_state_order = less_eq_device_state_def less_device_state_def

text \<open>The members of the union \<open>ep_config\<close> all start with the two words that
  the interfaces use: the LPAIF type (or the device id of the interfaces that have one) and
  the interface index.\<close>

record hw_ep_info =
  intf :: u32
  dir :: u32
  ep_word0 :: u32
  ep_word1 :: u32

abbreviation (input) CODEC_DMA :: u32 where "CODEC_DMA \<equiv> 0"
abbreviation (input) MI2S :: u32 where "MI2S \<equiv> 1"
abbreviation (input) TDM :: u32 where "TDM \<equiv> 2"
abbreviation (input) AUXPCM :: u32 where "AUXPCM \<equiv> 3"
abbreviation (input) SLIMBUS :: u32 where "SLIMBUS \<equiv> 4"
abbreviation (input) PCM_RT_PROXY :: u32 where "PCM_RT_PROXY \<equiv> 7"
abbreviation (input) PCM_DUMMY :: u32 where "PCM_DUMMY \<equiv> 9"
abbreviation (input) AUDIO_OUTPUT :: u32 where "AUDIO_OUTPUT \<equiv> 1"
abbreviation (input) AUDIO_INPUT :: u32 where "AUDIO_INPUT \<equiv> 2"

record device_group_data =
  grp_name :: string
  has_multiple_dai_link :: bool
  grp_refcnt :: refcount
  grp_media_config :: agm_group_media_config

record device_obj =
  dev_name :: string
  card_id :: u32
  hw_ep :: hw_ep_info
  pcm_id :: u32
  pcm :: int
  dev_media_config :: agm_media_config
  dev_metadata :: agm_meta_data_gsl
  refcnt :: refcount
  dev_state :: device_state
  dev_params :: "u8 list option"
  dev_params_size :: nat
  is_virtual_device :: bool
  parent_dev :: "nat option"
  group_data :: "nat option"

record dev_world = world +
  devs :: "nat \<Rightarrow> device_obj"
  device_list :: "nat list"
  grps :: "nat \<Rightarrow> device_group_data"
  device_group_data_list :: "nat list"
  num_audio_intfs :: nat
  num_group_devices :: nat
  sysfs_fd :: int
  mixer :: int

definition upd_dev :: "nat \<Rightarrow> (device_obj \<Rightarrow> device_obj) \<Rightarrow> 'z dev_world_scheme \<Rightarrow> 'z dev_world_scheme" where
  "upd_dev d f s = s\<lparr>devs := (devs s)(d := f (devs s d))\<rparr>"

definition upd_grp :: "nat option \<Rightarrow> (device_group_data \<Rightarrow> device_group_data) \<Rightarrow>
    'z dev_world_scheme \<Rightarrow> 'z dev_world_scheme" where
  "upd_grp gp f s = (case gp of None \<Rightarrow> s | Some g \<Rightarrow> s\<lparr>grps := (grps s)(g := f (grps s g))\<rparr>)"

abbreviation add_open :: "int \<Rightarrow> refcount \<Rightarrow> refcount" where
  "add_open n r \<equiv> r\<lparr>rc_open := rc_open r + n\<rparr>"
abbreviation add_prepare :: "int \<Rightarrow> refcount \<Rightarrow> refcount" where
  "add_prepare n r \<equiv> r\<lparr>rc_prepare := rc_prepare r + n\<rparr>"
abbreviation add_start :: "int \<Rightarrow> refcount \<Rightarrow> refcount" where
  "add_start n r \<equiv> r\<lparr>rc_start := rc_start r + n\<rparr>"

abbreviation upd_refcnt :: "nat \<Rightarrow> (refcount \<Rightarrow> refcount) \<Rightarrow> 'z dev_world_scheme \<Rightarrow> 'z dev_world_scheme" where
  "upd_refcnt d f \<equiv> upd_dev d (\<lambda>x. x\<lparr>refcnt := f (refcnt x)\<rparr>)"
abbreviation upd_grp_refcnt ::
    "nat option \<Rightarrow> (refcount \<Rightarrow> refcount) \<Rightarrow> 'z dev_world_scheme \<Rightarrow> 'z dev_world_scheme" where
  "upd_grp_refcnt g f \<equiv> upd_grp g (\<lambda>x. x\<lparr>grp_refcnt := f (grp_refcnt x)\<rparr>)"

section \<open>Operations\<close>

definition get_pcm_bits_per_sample :: "agm_media_format \<Rightarrow> int" where
  "get_pcm_bits_per_sample fmt =
     (case fmt of AGM_FORMAT_PCM_S8 \<Rightarrow> 8 | AGM_FORMAT_PCM_S24_LE \<Rightarrow> 32
      | AGM_FORMAT_PCM_S24_3LE \<Rightarrow> 24 | AGM_FORMAT_PCM_S32_LE \<Rightarrow> 32
      | AGM_FORMAT_PCM_S16_LE \<Rightarrow> 16 | _ \<Rightarrow> 16)"

definition agm_to_pcm_format :: "agm_media_format \<Rightarrow> pcm_format" where
  "agm_to_pcm_format fmt =
     (case fmt of AGM_FORMAT_PCM_S32_LE \<Rightarrow> PCM_FORMAT_S32_LE | AGM_FORMAT_PCM_S8 \<Rightarrow> PCM_FORMAT_S8
      | AGM_FORMAT_PCM_S24_3LE \<Rightarrow> PCM_FORMAT_S24_3LE | AGM_FORMAT_PCM_S24_LE \<Rightarrow> PCM_FORMAT_S24_LE
      | _ \<Rightarrow> PCM_FORMAT_S16_LE)"

text \<open>The rates of the \<open>switch\<close>, with the value 2205 that the source gives to the
  macro \<open>AGM_PCM_RATE_22050\<close>.\<close>

definition device_pcm_is_rate_supported :: "u32 \<Rightarrow> bool" where
  "device_pcm_is_rate_supported rate =
     (rate \<in> set [5512, 8000, 11025, 16000, 2205, 32000, 44100, 48000, 64000, 88200, 96000,
                  176400, 192000, 352800, 384000])"

definition update_sysfs_fd ::
    "env \<Rightarrow> u32 \<Rightarrow> int \<Rightarrow> 'z dev_world_scheme \<Rightarrow> (unit \<times> 'z dev_world_scheme) option" where
  "update_sysfs_fd E pid st s =
     (let id8 = sint (ucast pid :: u8) in
      if sysfs_fd s \<ge> 0
      then do { (_, s) \<leftarrow> ecall E (SYSFS_WRITE (sysfs_fd s) id8 st) s; Some ((), s) }
      else do {
        (fd, s) \<leftarrow> ecall E SYSFS_OPEN s;
        let s = s\<lparr>sysfs_fd := fd\<rparr>;
        if fd \<ge> 0
        then do { (_, s) \<leftarrow> ecall E (SYSFS_WRITE fd id8 st) s; Some ((), s) }
        else Some ((), s) })"

definition device_get_pcm_obj :: "'z dev_world_scheme \<Rightarrow> nat \<Rightarrow> nat" where
  "device_get_pcm_obj s d = (case parent_dev (devs s d) of Some p \<Rightarrow> p | None \<Rightarrow> d)"

text \<open>The media configuration a device is opened with, and the PCM configuration made from
  it. \<open>None\<close> is the division by zero.\<close>

definition open_media_config :: "'z dev_world_scheme \<Rightarrow> nat \<Rightarrow> nat \<Rightarrow> agm_media_config" where
  "open_media_config s d obj =
     (case group_data (devs s obj) of
        Some g \<Rightarrow> if \<not> has_multiple_dai_link (grps s g) then gmc_config (grp_media_config (grps s g))
                  else dev_media_config (devs s d)
      | None \<Rightarrow> dev_media_config (devs s d))"

definition open_pcm_config :: "agm_media_config \<Rightarrow> pcm_config option" where
  "open_pcm_config mc =
     (let frame = mc_channels mc * of_int (get_pcm_bits_per_sample (mc_format mc) div 8);
          period = 8192 div frame
      in if frame = 0 then None
         else Some \<lparr>pc_channels = mc_channels mc,
                    pc_rate = (if device_pcm_is_rate_supported (mc_rate mc) then mc_rate mc else 48000),
                    pc_format = agm_to_pcm_format (mc_format mc),
                    pc_period_size = period, pc_period_count = 2,
                    pc_start_threshold = period div 4, pc_stop_threshold = 0x7fffffff\<rparr>)"

definition device_open ::
    "env \<Rightarrow> nat option \<Rightarrow> 'z dev_world_scheme \<Rightarrow> (int \<times> 'z dev_world_scheme) option" where
  "device_open E dp s =
     (case dp of None \<Rightarrow> Some (- EINVAL, s)
      | Some d \<Rightarrow>
        let obj = device_get_pcm_obj s d; g = group_data (devs s obj) in
        if rc_open (refcnt (devs s obj)) \<noteq> 0
        then Some (0, upd_grp_refcnt g (add_open 1) (upd_refcnt obj (add_open 1) s))
        else do {
          config \<leftarrow> open_pcm_config (open_media_config s d obj);
          let o1 = devs s obj;
          (p, s) \<leftarrow> ecall E (PCM_OPEN (card_id o1) (pcm_id o1)
                       (if dir (hw_ep o1) = AUDIO_OUTPUT then PCM_OUT else PCM_IN) config) s;
          if p = 0 then Some (- EIO, s) else do {
          (ready, s) \<leftarrow> ecall E (PCM_IS_READY p) s;
          if ready = 0 then Some (- EIO, s) else do {
          (_, s) \<leftarrow> update_sysfs_fd E (pcm_id o1) 1 s;
          Some (0, upd_grp_refcnt g (add_open 1)
                (upd_dev obj (\<lambda>x. x\<lparr>pcm := p, dev_state := DEV_OPENED,
                                    refcnt := add_open 1 (refcnt x)\<rparr>) s)) }}})"

definition device_prepare ::
    "env \<Rightarrow> nat option \<Rightarrow> 'z dev_world_scheme \<Rightarrow> (int \<times> 'z dev_world_scheme) option" where
  "device_prepare E dp s =
     (case dp of None \<Rightarrow> Some (- EINVAL, s)
      | Some d \<Rightarrow>
        let obj = device_get_pcm_obj s d; g = group_data (devs s obj) in
        if rc_prepare (refcnt (devs s obj)) \<noteq> 0
        then Some (0, upd_grp_refcnt g (add_prepare 1) (upd_refcnt obj (add_prepare 1) s))
        else do {
          (ret, s) \<leftarrow> ecall E (PCM_PREPARE (pcm (devs s obj))) s;
          if ret \<noteq> 0 then Some (ret, s)
          else Some (0, upd_dev obj (\<lambda>x. x\<lparr>dev_state := DEV_PREPARED,
                                           refcnt := add_prepare 1 (refcnt x)\<rparr>) s) })"

definition device_start ::
    "env \<Rightarrow> nat option \<Rightarrow> 'z dev_world_scheme \<Rightarrow> (int \<times> 'z dev_world_scheme) option" where
  "device_start E dp s =
     (case dp of None \<Rightarrow> Some (- EINVAL, s)
      | Some d \<Rightarrow>
        let obj = device_get_pcm_obj s d; g = group_data (devs s obj) in
        if dev_state (devs s obj) < DEV_PREPARED then Some (- 1, s)
        else if rc_start (refcnt (devs s obj)) \<noteq> 0
        then Some (0, upd_grp_refcnt g (add_start 1) (upd_refcnt obj (add_start 1) s))
        else Some (0, upd_grp_refcnt g (add_start 1)
               (upd_dev obj (\<lambda>x. x\<lparr>dev_state := DEV_STARTED, refcnt := add_start 1 (refcnt x)\<rparr>) s)))"

definition device_stop ::
    "env \<Rightarrow> nat option \<Rightarrow> 'z dev_world_scheme \<Rightarrow> (int \<times> 'z dev_world_scheme) option" where
  "device_stop E dp s =
     (case dp of None \<Rightarrow> Some (- EINVAL, s)
      | Some d \<Rightarrow>
        let obj = device_get_pcm_obj s d; g = group_data (devs s obj) in
        if rc_start (refcnt (devs s obj)) = 0 then Some (0, s)
        else
          let s = upd_refcnt obj (add_start (- 1)) (upd_grp_refcnt g (add_start (- 1)) s) in
          if rc_start (refcnt (devs s obj)) = 0
          then do { (ret, s) \<leftarrow> ecall E (PCM_STOP (pcm (devs s obj))) s;
                    Some (ret, upd_dev obj (\<lambda>x. x\<lparr>dev_state := DEV_STOPPED\<rparr>) s) }
          else Some (0, s))"

definition device_close ::
    "env \<Rightarrow> nat option \<Rightarrow> 'z dev_world_scheme \<Rightarrow> (int \<times> 'z dev_world_scheme) option" where
  "device_close E dp s =
     (case dp of None \<Rightarrow> Some (- EINVAL, s)
      | Some d \<Rightarrow>
        let obj = device_get_pcm_obj s d; g = group_data (devs s obj) in
        if rc_open (refcnt (devs s obj)) = 0 then Some (0, s)
        else
          let s = upd_grp_refcnt g (\<lambda>r. if rc_open r - 1 = 0
                      then \<lparr>rc_open = 0, rc_prepare = 0, rc_start = 0\<rparr> else add_open (- 1) r) s;
              s = upd_refcnt obj (add_open (- 1)) s in
          if rc_open (refcnt (devs s obj)) = 0
          then do {
            (_, s) \<leftarrow> update_sysfs_fd E (pcm_id (devs s obj)) 0 s;
            (ret, s) \<leftarrow> ecall E (PCM_CLOSE (pcm (devs s obj))) s;
            Some (ret, upd_dev obj (\<lambda>x. x\<lparr>dev_state := DEV_CLOSED,
                     refcnt := (refcnt x)\<lparr>rc_prepare := 0, rc_start := 0\<rparr>\<rparr>) s) }
          else Some (0, s))"

fun nth_node :: "nat \<Rightarrow> nat \<Rightarrow> 'a list \<Rightarrow> 'a option" where
  "nth_node i idx [] = None"
| "nth_node i idx (x # xs) = (if i = idx then Some x else nth_node (i + 1) idx xs)"

definition device_get_obj :: "u32 \<Rightarrow> 'z dev_world_scheme \<Rightarrow> int \<times> nat option" where
  "device_get_obj idx s =
     (if unat idx > num_audio_intfs s then (- EINVAL, None)
      else case nth_node 0 (unat idx) (device_list s) of
             Some d \<Rightarrow> (0, Some d) | None \<Rightarrow> (- EINVAL, None))"

definition device_get_group_data :: "u32 \<Rightarrow> 'z dev_world_scheme \<Rightarrow> int \<times> nat option" where
  "device_get_group_data gid s =
     (if unat gid \<ge> num_group_devices s then (- EINVAL, None)
      else case nth_node 0 (unat gid) (device_group_data_list s) of
             Some g \<Rightarrow> (0, Some g) | None \<Rightarrow> (- EINVAL, None))"

text \<open>The copy loop of the two list queries; names are cut to \<open>AIF_NAME_MAX_LEN - 1\<close>
  characters by \<open>strlcpy\<close>.\<close>

fun copy_names :: "(nat \<Rightarrow> 'b) \<Rightarrow> nat \<Rightarrow> nat \<Rightarrow> nat list \<Rightarrow> 'b list" where
  "copy_names item copied requested [] = []"
| "copy_names item copied requested (x # xs) =
     item x # (if copied + 1 = requested then [] else copy_names item (copied + 1) requested xs)"

definition device_get_aif_info_list ::
    "nat \<Rightarrow> 'z dev_world_scheme \<Rightarrow> (nat \<times> (string \<times> u32) list)" where
  "device_get_aif_info_list audio_intfs s =
     (if audio_intfs = 0 then (num_audio_intfs s, [])
      else let l = copy_names (\<lambda>d. (take 31 (dev_name (devs s d)), dir (hw_ep (devs s d))))
                     0 (audio_intfs mod 2 ^ 32) (device_list s)
           in (length l, l))"

definition device_get_group_list ::
    "nat \<Rightarrow> 'z dev_world_scheme \<Rightarrow> (nat \<times> string list)" where
  "device_get_group_list num_groups s =
     (if num_groups = 0 then (num_group_devices s, [])
      else let l = copy_names (\<lambda>g. take 31 (grp_name (grps s g)))
                     0 (num_groups mod 2 ^ 32) (device_group_data_list s)
           in (length l, l))"

definition device_set_media_config ::
    "nat option \<Rightarrow> agm_media_config option \<Rightarrow> 'z dev_world_scheme \<Rightarrow> int \<times> 'z dev_world_scheme" where
  "device_set_media_config dp mcp s =
     (case (dp, mcp) of
        (Some d, Some mc) \<Rightarrow> (0, upd_dev d (\<lambda>x. x\<lparr>dev_media_config := mc\<rparr>) s)
      | _ \<Rightarrow> (- EINVAL, s))"

definition device_group_set_media_config ::
    "nat option \<Rightarrow> agm_group_media_config option \<Rightarrow> 'z dev_world_scheme \<Rightarrow> int \<times> 'z dev_world_scheme" where
  "device_group_set_media_config gp mcp s =
     (case (gp, mcp) of
        (Some g, Some mc) \<Rightarrow> (0, upd_grp (Some g) (\<lambda>x. x\<lparr>grp_media_config := mc\<rparr>) s)
      | _ \<Rightarrow> (- EINVAL, s))"

definition device_set_metadata ::
    "env \<Rightarrow> nat \<Rightarrow> nat \<Rightarrow> u8 list option \<Rightarrow> 'z dev_world_scheme \<Rightarrow> (int \<times> 'z dev_world_scheme) option" where
  "device_set_metadata E d n metadata s =
     do { ((ret, m), s) \<leftarrow> metadata_copy E (metadata_free (dev_metadata (devs s d))) n metadata s;
          Some (ret, upd_dev d (\<lambda>x. x\<lparr>dev_metadata := m\<rparr>) s) }"

definition device_set_params ::
    "env \<Rightarrow> nat \<Rightarrow> u8 list option \<Rightarrow> nat \<Rightarrow> 'z dev_world_scheme \<Rightarrow> (int \<times> 'z dev_world_scheme) option" where
  "device_set_params E d payload n s =
     (let s = (if dev_params (devs s d) \<noteq> None
               then upd_dev d (\<lambda>x. x\<lparr>dev_params := None, dev_params_size := 0\<rparr>) s else s)
      in do {
        (ok, s) \<leftarrow> calloc E s;
        if \<not> ok then Some (- EINVAL, s)
        else do { bs \<leftarrow> memcpy_from payload n;
                  Some (0, upd_dev d (\<lambda>x. x\<lparr>dev_params := Some bs, dev_params_size := n\<rparr>) s) } })"

definition device_get_start_refcnt :: "nat option \<Rightarrow> 'z dev_world_scheme \<Rightarrow> int" where
  "device_get_start_refcnt dp s =
     (case dp of None \<Rightarrow> 0
      | Some d \<Rightarrow> (case group_data (devs s d) of
                     Some g \<Rightarrow> rc_start (grp_refcnt (grps s g))
                   | None \<Rightarrow> rc_start (refcnt (devs s d))))"

definition device_get_state :: "nat option \<Rightarrow> 'z dev_world_scheme \<Rightarrow> device_state" where
  "device_get_state dp s =
     (case dp of None \<Rightarrow> DEV_CLOSED
      | Some d \<Rightarrow> (case parent_dev (devs s d) of
                     Some p \<Rightarrow> dev_state (devs s p) | None \<Rightarrow> dev_state (devs s d)))"

definition device_get_snd_card_id :: "'z dev_world_scheme \<Rightarrow> int option" where
  "device_get_snd_card_id s =
     (case device_list s of [] \<Rightarrow> None
      | d # _ \<Rightarrow> Some (sint (card_id (devs s d))))"

text \<open>The channel map: sixteen words, or NULL. Opening the mixer is done once.\<close>

definition device_get_channel_map ::
    "env \<Rightarrow> nat \<Rightarrow> 'z dev_world_scheme \<Rightarrow> ((int \<times> u32 list option) \<times> 'z dev_world_scheme) option" where
  "device_get_channel_map E d s = do {
     (ret, s) \<leftarrow>
       (if mixer s = 0 then do {
          card \<leftarrow> device_get_snd_card_id s;
          if card < 0 then Some (- EINVAL, s)
          else do { (m, s) \<leftarrow> ecall E (MIXER_OPEN (of_int card)) s;
                    Some (if m = 0 then - EINVAL else 0, s\<lparr>mixer := m\<rparr>) } }
        else Some (0, s));
     if ret \<noteq> 0 then Some ((ret, None), s) else do {
     let name = dev_name (devs s (device_get_pcm_obj s d));
     (ok, s) \<leftarrow> calloc E s;
     if \<not> ok then Some ((- ENOMEM, None), s) else do {
     (ok, s) \<leftarrow> calloc E s;
     if \<not> ok then Some ((- ENOMEM, None), s) else do {
     (ctl, s) \<leftarrow> ecall E (MIXER_GET_CTL_BY_NAME (mixer s) (name @ '' Channel Map'')) s;
     if ctl = 0 then Some ((- ENOENT, None), s) else do {
     (ret, s) \<leftarrow> ecall E (MIXER_CTL_GET_ARRAY ctl 64) s;
     if ret < 0 then Some ((ret, None), s)
     else Some ((ret, Some (map (ext_word E (hist s)) [0..<16])), s) }}}}}"

definition device_current_state :: "nat \<Rightarrow> 'z dev_world_scheme \<Rightarrow> device_state" where
  "device_current_state d s = dev_state (devs s d)"

section \<open>The invariant of the device table\<close>

text \<open>The PCM handles that are open according to the history: a handle counts from the
  moment \<open>pcm_is_ready\<close> says so until it is closed.\<close>

definition pcm_weight :: "env \<Rightarrow> ext_call list \<Rightarrow> ext_call \<Rightarrow> int" where
  "pcm_weight E h c = (case c of PCM_IS_READY p \<Rightarrow> if ext_ret E h c \<noteq> 0 then 1 else 0
                       | PCM_CLOSE p \<Rightarrow> - 1 | _ \<Rightarrow> 0)"

abbreviation pcm_live :: "env \<Rightarrow> ext_call list \<Rightarrow> int" where
  "pcm_live E \<equiv> hist_sum (pcm_weight E)"

lemma pcm_weight_simps [simp]:
  "pcm_weight E h (PCM_CLOSE p) = - 1"
  "pcm_weight E h (PCM_IS_READY p) = (if ext_ret E h (PCM_IS_READY p) \<noteq> 0 then 1 else 0)"
  by (simp_all add: pcm_weight_def)

lemma pcm_weight_zero [simp]:
  "\<not> is_PCM_IS_READY c \<Longrightarrow> \<not> is_PCM_CLOSE c \<Longrightarrow> pcm_weight E h c = 0"
  by (cases c) (simp_all add: pcm_weight_def)

text \<open>
  Two predicates of one device: the counts are never negative, which holds whatever the
  clients do; and the counts and the state belong together, which needs that a device is
  prepared only while it is open.
\<close>

definition counts_ok :: "device_obj \<Rightarrow> bool" where
  "counts_ok x \<longleftrightarrow> 0 \<le> rc_open (refcnt x) \<and> 0 \<le> rc_prepare (refcnt x) \<and> 0 \<le> rc_start (refcnt x)"

definition dev_ok :: "device_obj \<Rightarrow> bool" where
  "dev_ok x \<longleftrightarrow> counts_ok x
     \<and> (rc_open (refcnt x) = 0 \<longleftrightarrow> dev_state x = DEV_CLOSED)
     \<and> (rc_prepare (refcnt x) = 0 \<longleftrightarrow> dev_state x \<in> {DEV_CLOSED, DEV_OPENED})
     \<and> (rc_start (refcnt x) > 0 \<longleftrightarrow> dev_state x = DEV_STARTED)"

definition dev_opened :: "device_obj \<Rightarrow> bool" where
  "dev_opened x \<longleftrightarrow> 0 < rc_open (refcnt x)"

definition sum_devs :: "(device_obj \<Rightarrow> int) \<Rightarrow> 'z dev_world_scheme \<Rightarrow> int" where
  "sum_devs f s = (\<Sum>d \<leftarrow> device_list s. f (devs s d))"

definition parent_ok :: "'z dev_world_scheme \<Rightarrow> nat \<Rightarrow> nat \<Rightarrow> bool" where
  "parent_ok s d p \<longleftrightarrow> p \<in> set (device_list s) \<and> parent_dev (devs s p) = None
     \<and> group_data (devs s d) = group_data (devs s p)"

definition topology_ok :: "'z dev_world_scheme \<Rightarrow> bool" where
  "topology_ok s \<longleftrightarrow> distinct (device_list s)
     \<and> (\<forall>d \<in> set (device_list s). \<forall>p. parent_dev (devs s d) = Some p \<longrightarrow> parent_ok s d p)"

definition is_open_cnt :: "device_obj \<Rightarrow> int" where
  "is_open_cnt x = (if rc_open (refcnt x) > 0 then 1 else 0)"

definition group_open_cnt :: "nat \<Rightarrow> device_obj \<Rightarrow> int" where
  "group_open_cnt g x = (if group_data x = Some g then rc_open (refcnt x) else 0)"

text \<open>
  The invariant of the table for a predicate of its devices: as many PCM handles are open as
  there are devices with an open reference, and the open count of a group is the sum over its
  members.
\<close>

definition devices_inv :: "env \<Rightarrow> (device_obj \<Rightarrow> bool) \<Rightarrow> 'z dev_world_scheme \<Rightarrow> bool" where
  "devices_inv E K s \<longleftrightarrow> topology_ok s
     \<and> (\<forall>d \<in> set (device_list s). K (devs s d))
     \<and> pcm_live E (hist s) = sum_devs is_open_cnt s
     \<and> (\<forall>g. rc_open (grp_refcnt (grps s g)) = sum_devs (group_open_cnt g) s)"

lemma upd_dev_simps [simp]:
  "devs (upd_dev d f s) = (devs s)(d := f (devs s d))"
  "device_list (upd_dev d f s) = device_list s" "grps (upd_dev d f s) = grps s"
  "device_group_data_list (upd_dev d f s) = device_group_data_list s"
  "num_audio_intfs (upd_dev d f s) = num_audio_intfs s"
  "num_group_devices (upd_dev d f s) = num_group_devices s"
  "sysfs_fd (upd_dev d f s) = sysfs_fd s" "mixer (upd_dev d f s) = mixer s" "hist (upd_dev d f s) = hist s"
  by (simp_all add: upd_dev_def)

lemma upd_grp_simps [simp]:
  "devs (upd_grp g f s) = devs s"
  "device_list (upd_grp g f s) = device_list s"
  "device_group_data_list (upd_grp g f s) = device_group_data_list s"
  "num_audio_intfs (upd_grp g f s) = num_audio_intfs s"
  "num_group_devices (upd_grp g f s) = num_group_devices s"
  "sysfs_fd (upd_grp g f s) = sysfs_fd s" "mixer (upd_grp g f s) = mixer s" "hist (upd_grp g f s) = hist s"
  by (simp_all add: upd_grp_def split: option.splits)

lemma grps_upd_grp:
  "grps (upd_grp g f s) x = (if g = Some x then f (grps s x) else grps s x)"
  by (auto simp: upd_grp_def split: option.splits)

lemma sum_devs_upd:
  assumes "distinct (device_list s)" "d \<in> set (device_list s)"
    "device_list t = device_list s" "devs t = (devs s)(d := x)"
  shows "sum_devs f t = sum_devs f s + f x - f (devs s d)"
proof -
  have "(\<Sum>e \<leftarrow> ds. f (((devs s)(d := x)) e)) =
      (\<Sum>e \<leftarrow> ds. f (devs s e)) + (if d \<in> set ds then f x - f (devs s d) else 0)"
    if "distinct ds" for ds using that by (induction ds) auto
  with assms show ?thesis by (simp add: sum_devs_def)
qed

lemma pcm_obj_in:
  assumes "topology_ok s" "d \<in> set (device_list s)"
  shows "device_get_pcm_obj s d \<in> set (device_list s)"
proof (cases "parent_dev (devs s d)")
  case None
  with assms show ?thesis by (simp add: device_get_pcm_obj_def)
next
  case (Some p)
  with assms have "parent_ok s d p" by (simp add: topology_ok_def)
  with Some show ?thesis by (simp add: device_get_pcm_obj_def parent_ok_def)
qed

lemma topology_cong:
  assumes "device_list t = device_list s"
    and "\<And>d. parent_dev (devs t d) = parent_dev (devs s d)"
    and "\<And>d. group_data (devs t d) = group_data (devs s d)"
  shows "topology_ok t \<longleftrightarrow> topology_ok s"
  by (simp add: topology_ok_def parent_ok_def assms)

text \<open>One update rule for all operations.\<close>

lemma devices_inv_upd:
  assumes ok: "devices_inv E K s" and d: "d \<in> set (device_list s)"
    and t: "device_list t = device_list s" "devs t = (devs s)(d := x)"
    and x: "K x" "parent_dev x = parent_dev (devs s d)" "group_data x = group_data (devs s d)"
    and h: "pcm_live E (hist t) = pcm_live E (hist s) + is_open_cnt x - is_open_cnt (devs s d)"
    and g: "\<And>g. rc_open (grp_refcnt (grps t g)) = rc_open (grp_refcnt (grps s g))
              + (if group_data x = Some g then rc_open (refcnt x) - rc_open (refcnt (devs s d)) else 0)"
  shows "devices_inv E K t"
proof -
  have dis: "distinct (device_list s)" using ok by (simp add: devices_inv_def topology_ok_def)
  have "topology_ok t"
    using ok topology_cong [of t s] t x(2,3) by (simp add: devices_inv_def)
  moreover have "\<forall>e \<in> set (device_list t). K (devs t e)"
    using ok t x(1) by (auto simp: devices_inv_def)
  moreover have "pcm_live E (hist t) = sum_devs is_open_cnt t"
    using ok h sum_devs_upd [OF dis d t] by (simp add: devices_inv_def)
  moreover have "rc_open (grp_refcnt (grps t g)) = sum_devs (group_open_cnt g) t" for g
    using ok g [of g] x(3) sum_devs_upd [OF dis d t, of "group_open_cnt g"]
    by (auto simp: devices_inv_def group_open_cnt_def)
  ultimately show ?thesis by (simp add: devices_inv_def)
qed

lemma devices_inv_upd_dev:
  assumes J: "devices_inv E K s"
    and f: "\<And>x. refcnt (f x) = refcnt x \<and> parent_dev (f x) = parent_dev x \<and> group_data (f x) = group_data x \<and> K (f x) = K x"
  shows "devices_inv E K (upd_dev d f s)"
proof -
  have "topology_ok (upd_dev d f s) = topology_ok s"
    by (rule topology_cong) (simp_all add: f)
  moreover have "sum_devs h (upd_dev d f s) = sum_devs h s" if "\<And>x. h (f x) = h x" for h
    unfolding sum_devs_def by (rule arg_cong [where f = sum_list]) (simp add: that)
  ultimately show ?thesis
    using J f by (auto simp: devices_inv_def is_open_cnt_def group_open_cnt_def)
qed

lemma wlp_sysfs:
  assumes "\<And>h. devs h = devs s \<Longrightarrow> device_list h = device_list s \<Longrightarrow> grps h = grps s \<Longrightarrow>
     device_group_data_list h = device_group_data_list s \<Longrightarrow>
     pcm_live E (hist h) = pcm_live E (hist s) \<Longrightarrow> Q () h"
  shows "wlp (update_sysfs_fd E i st s) Q"
  by (auto simp: update_sysfs_fd_def wlp_simps pcm_weight_def intro!: assms)

lemma devices_inv_frame:
  assumes "devices_inv E K s" "device_list t = device_list s" "devs t = devs s"
    "pcm_live E (hist t) = pcm_live E (hist s)"
    "\<And>g. rc_open (grp_refcnt (grps t g)) = rc_open (grp_refcnt (grps s g))"
  shows "devices_inv E K t"
  using assms topology_cong [of t s] by (simp add: devices_inv_def sum_devs_def)

lemma devices_inv_hist:
  assumes "devices_inv E K s" "hist_sum_from (pcm_weight E) (hist s) cs = 0"
  shows "devices_inv E K (s\<lparr>hist := hist s @ cs\<rparr>)"
  by (rule devices_inv_frame [OF assms(1)]) (simp_all add: assms(2))

lemma devices_invD:
  assumes "devices_inv E K s" "d \<in> set (device_list s)"
  shows "device_get_pcm_obj s d \<in> set (device_list s)" "K (devs s (device_get_pcm_obj s d))"
  using assms pcm_obj_in [of s d] by (simp_all add: devices_inv_def)

lemmas wlp_bind_config [wlp_simps] = wlp_bind_gen [where m = "open_pcm_config mc" for mc]

text \<open>
  What a predicate of one device must promise so that the operations keep it for the whole
  table. \<open>P\<close> is the condition under which a device may be prepared.
\<close>

locale device_invariant =
  fixes K :: "device_obj \<Rightarrow> bool" and P :: "device_obj \<Rightarrow> bool"
  assumes K_open_nonneg: "K x \<Longrightarrow> 0 \<le> rc_open (refcnt x)"
    and K_cong: "refcnt y = refcnt x \<Longrightarrow> dev_state y = dev_state x \<Longrightarrow> K y = K x"
    and K_open_first: "K x \<Longrightarrow> rc_open (refcnt x) = 0 \<Longrightarrow>
        K (x\<lparr>dev_state := DEV_OPENED, refcnt := add_open 1 (refcnt x)\<rparr>)"
    and K_open_again: "K x \<Longrightarrow> rc_open (refcnt x) \<noteq> 0 \<Longrightarrow> K (x\<lparr>refcnt := add_open 1 (refcnt x)\<rparr>)"
    and K_prepare_first: "K x \<Longrightarrow> P x \<Longrightarrow> rc_prepare (refcnt x) = 0 \<Longrightarrow>
        K (x\<lparr>dev_state := DEV_PREPARED, refcnt := add_prepare 1 (refcnt x)\<rparr>)"
    and K_prepare_again: "K x \<Longrightarrow> rc_prepare (refcnt x) \<noteq> 0 \<Longrightarrow>
        K (x\<lparr>refcnt := add_prepare 1 (refcnt x)\<rparr>)"
    and K_start_first: "K x \<Longrightarrow> \<not> dev_state x < DEV_PREPARED \<Longrightarrow> rc_start (refcnt x) = 0 \<Longrightarrow>
        K (x\<lparr>dev_state := DEV_STARTED, refcnt := add_start 1 (refcnt x)\<rparr>)"
    and K_start_again: "K x \<Longrightarrow> rc_start (refcnt x) \<noteq> 0 \<Longrightarrow> K (x\<lparr>refcnt := add_start 1 (refcnt x)\<rparr>)"
    and K_stop_more: "K x \<Longrightarrow> rc_start (refcnt x) \<notin> {0, 1} \<Longrightarrow>
        K (x\<lparr>refcnt := add_start (- 1) (refcnt x)\<rparr>)"
    and K_stop_last: "K x \<Longrightarrow> rc_start (refcnt x) = 1 \<Longrightarrow>
        K (x\<lparr>dev_state := DEV_STOPPED, refcnt := add_start (- 1) (refcnt x)\<rparr>)"
    and K_close_more: "K x \<Longrightarrow> rc_open (refcnt x) \<notin> {0, 1} \<Longrightarrow>
        K (x\<lparr>refcnt := add_open (- 1) (refcnt x)\<rparr>)"
    and K_close_last: "K x \<Longrightarrow> rc_open (refcnt x) = 1 \<Longrightarrow>
        K (x\<lparr>dev_state := DEV_CLOSED, refcnt := \<lparr>rc_open = 0, rc_prepare = 0, rc_start = 0\<rparr>\<rparr>)"
begin

text \<open>A change of one device object under \<open>d\<close> and of the groups.\<close>

lemma upd_inv:
  assumes ok: "devices_inv E K s" and d: "d \<in> set (device_list s)"
    and t: "device_list t = device_list s" "devs t = (devs s)(d := x)"
    and K: "K y" "refcnt x = refcnt y" "dev_state x = dev_state y"
    and x: "parent_dev x = parent_dev (devs s d)" "group_data x = group_data (devs s d)"
    and h: "pcm_live E (hist t) = pcm_live E (hist s) + is_open_cnt x - is_open_cnt (devs s d)"
    and g: "\<And>g. rc_open (grp_refcnt (grps t g)) = rc_open (grp_refcnt (grps s g))
              + (if group_data (devs s d) = Some g
                 then rc_open (refcnt x) - rc_open (refcnt (devs s d)) else 0)"
  shows "devices_inv E K t"
proof (rule devices_inv_upd [OF ok d t])
  show "K x" using K K_cong [of x y] by simp
qed (simp_all add: x h g)

lemma device_open_inv:
  assumes ok: "devices_inv E K s" and d: "d \<in> set (device_list s)"
  shows "wlp (device_open E (Some d) s) (\<lambda>_ t. devices_inv E K t)"
proof -
  let ?o = "device_get_pcm_obj s d"
  note obj = devices_invD [OF ok d]
  note nn = K_open_nonneg [OF obj(2)]
  have again: "devices_inv E K (upd_grp_refcnt (group_data (devs s ?o)) (add_open 1)
                 (upd_refcnt ?o (add_open 1) s))" if "rc_open (refcnt (devs s ?o)) \<noteq> 0"
    by (rule upd_inv [OF ok obj(1) _ _ K_open_again [OF obj(2) that], where
            x = "(devs s ?o)\<lparr>refcnt := add_open 1 (refcnt (devs s ?o))\<rparr>"])
       (use nn that in \<open>auto simp: is_open_cnt_def grps_upd_grp\<close>)
  have first: "devices_inv E K (upd_grp_refcnt (group_data (devs s ?o)) (add_open 1)
      (upd_dev ?o (\<lambda>x. x\<lparr>pcm := p, dev_state := DEV_OPENED, refcnt := add_open 1 (refcnt x)\<rparr>) t))"
    if "rc_open (refcnt (devs s ?o)) = 0" "devs t = devs s" "device_list t = device_list s"
      "grps t = grps s" "pcm_live E (hist t) = pcm_live E (hist s) + 1" for t p
    by (rule upd_inv [OF ok obj(1) _ _ K_open_first [OF obj(2) that(1)], where
            x = "(devs s ?o)\<lparr>pcm := p, dev_state := DEV_OPENED, refcnt := add_open 1 (refcnt (devs s ?o))\<rparr>"])
       (use that in \<open>auto simp: is_open_cnt_def grps_upd_grp\<close>)
  show ?thesis
    by (auto simp: device_open_def wlp_simps Let_def intro!: again first wlp_sysfs
        devices_inv_hist [OF ok])
qed

lemma device_prepare_inv:
  assumes ok: "devices_inv E K s" and d: "d \<in> set (device_list s)"
    and may: "P (devs s (device_get_pcm_obj s d))"
  shows "wlp (device_prepare E (Some d) s) (\<lambda>_ t. devices_inv E K t)"
proof -
  let ?o = "device_get_pcm_obj s d"
  note obj = devices_invD [OF ok d]
  have again: "devices_inv E K (upd_grp_refcnt (group_data (devs s ?o)) (add_prepare 1)
                 (upd_refcnt ?o (add_prepare 1) s))" if "rc_prepare (refcnt (devs s ?o)) \<noteq> 0"
    by (rule upd_inv [OF ok obj(1) _ _ K_prepare_again [OF obj(2) that], where
            x = "(devs s ?o)\<lparr>refcnt := add_prepare 1 (refcnt (devs s ?o))\<rparr>"])
       (auto simp: is_open_cnt_def grps_upd_grp)
  have first: "devices_inv E K (upd_dev ?o (\<lambda>x. x\<lparr>dev_state := DEV_PREPARED, refcnt := add_prepare 1 (refcnt x)\<rparr>)
                 (s\<lparr>hist := hist s @ [PCM_PREPARE p]\<rparr>))" if "rc_prepare (refcnt (devs s ?o)) = 0" for p
    by (rule upd_inv [OF ok obj(1) _ _ K_prepare_first [OF obj(2) may that], where
            x = "(devs s ?o)\<lparr>dev_state := DEV_PREPARED, refcnt := add_prepare 1 (refcnt (devs s ?o))\<rparr>"])
       (auto simp: is_open_cnt_def)
  show ?thesis
    by (auto simp: device_prepare_def wlp_simps intro: first again intro!: devices_inv_hist [OF ok])
qed

lemma device_start_inv:
  assumes ok: "devices_inv E K s" and d: "d \<in> set (device_list s)"
  shows "wlp (device_start E (Some d) s) (\<lambda>_ t. devices_inv E K t)"
proof -
  let ?o = "device_get_pcm_obj s d"
  note obj = devices_invD [OF ok d]
  have again: "devices_inv E K (upd_grp_refcnt (group_data (devs s ?o)) (add_start 1)
                 (upd_refcnt ?o (add_start 1) s))" if "rc_start (refcnt (devs s ?o)) \<noteq> 0"
    by (rule upd_inv [OF ok obj(1) _ _ K_start_again [OF obj(2) that], where
            x = "(devs s ?o)\<lparr>refcnt := add_start 1 (refcnt (devs s ?o))\<rparr>"])
       (auto simp: is_open_cnt_def grps_upd_grp)
  have first: "devices_inv E K (upd_grp_refcnt (group_data (devs s ?o)) (add_start 1)
      (upd_dev ?o (\<lambda>x. x\<lparr>dev_state := DEV_STARTED, refcnt := add_start 1 (refcnt x)\<rparr>) s))"
    if "rc_start (refcnt (devs s ?o)) = 0" "\<not> dev_state (devs s ?o) < DEV_PREPARED"
    by (rule upd_inv [OF ok obj(1) _ _ K_start_first [OF obj(2) that(2,1)], where
            x = "(devs s ?o)\<lparr>dev_state := DEV_STARTED, refcnt := add_start 1 (refcnt (devs s ?o))\<rparr>"])
       (auto simp: is_open_cnt_def grps_upd_grp)
  show ?thesis
    by (auto simp: device_start_def wlp_simps Let_def ok intro: first again)
qed

lemma device_stop_inv:
  assumes ok: "devices_inv E K s" and d: "d \<in> set (device_list s)"
  shows "wlp (device_stop E (Some d) s) (\<lambda>_ t. devices_inv E K t)"
proof -
  let ?o = "device_get_pcm_obj s d"
  let ?s1 = "upd_refcnt ?o (add_start (- 1)) (upd_grp_refcnt (group_data (devs s ?o)) (add_start (- 1)) s)"
  note obj = devices_invD [OF ok d]
  have more: "devices_inv E K ?s1"
    if "rc_start (refcnt (devs s ?o)) \<noteq> 0" "rc_start (refcnt (devs s ?o)) \<noteq> 1"
  proof -
    have m: "rc_start (refcnt (devs s ?o)) \<notin> {0, 1}" using that by simp
    show ?thesis
      by (rule upd_inv [OF ok obj(1) _ _ K_stop_more [OF obj(2) m], where
              x = "(devs s ?o)\<lparr>refcnt := add_start (- 1) (refcnt (devs s ?o))\<rparr>"])
         (auto simp: is_open_cnt_def grps_upd_grp)
  qed
  have last: "devices_inv E K (upd_dev ?o (\<lambda>x. x\<lparr>dev_state := DEV_STOPPED\<rparr>) (?s1\<lparr>hist := hist s @ [PCM_STOP p]\<rparr>))"
    if "rc_start (refcnt (devs s ?o)) = 1" for p
    by (rule upd_inv [OF ok obj(1) _ _ K_stop_last [OF obj(2) that], where
            x = "(devs s ?o)\<lparr>dev_state := DEV_STOPPED, refcnt := add_start (- 1) (refcnt (devs s ?o))\<rparr>"])
       (use that in \<open>auto simp: is_open_cnt_def grps_upd_grp\<close>)
  show ?thesis
    by (auto simp: device_stop_def wlp_simps Let_def ok intro: more [simplified] last [simplified])
qed

lemma device_close_inv:
  assumes ok: "devices_inv E K s" and d: "d \<in> set (device_list s)"
  shows "wlp (device_close E (Some d) s) (\<lambda>_ t. devices_inv E K t)"
proof -
  let ?o = "device_get_pcm_obj s d"
  let ?g = "\<lambda>r. if rc_open r - 1 = 0 then \<lparr>rc_open = 0, rc_prepare = 0, rc_start = 0\<rparr> else add_open (- 1) r"
  let ?s1 = "upd_refcnt ?o (add_open (- 1)) (upd_grp_refcnt (group_data (devs s ?o)) ?g s)"
  note obj = devices_invD [OF ok d]
  note nn = K_open_nonneg [OF obj(2)]
  have more: "devices_inv E K ?s1"
    if "rc_open (refcnt (devs s ?o)) \<noteq> 0" "rc_open (refcnt (devs s ?o)) \<noteq> 1"
  proof -
    have m: "rc_open (refcnt (devs s ?o)) \<notin> {0, 1}" using that by simp
    show ?thesis
      by (rule upd_inv [OF ok obj(1) _ _ K_close_more [OF obj(2) m], where
              x = "(devs s ?o)\<lparr>refcnt := add_open (- 1) (refcnt (devs s ?o))\<rparr>"])
         (use nn that in \<open>auto simp: is_open_cnt_def grps_upd_grp\<close>)
  qed
  have last: "devices_inv E K (upd_dev ?o (\<lambda>x. x\<lparr>dev_state := DEV_CLOSED,
        refcnt := (refcnt x)\<lparr>rc_prepare := 0, rc_start := 0\<rparr>\<rparr>) (t\<lparr>hist := hist t @ [PCM_CLOSE p]\<rparr>))"
    if "rc_open (refcnt (devs s ?o)) = 1" "devs t = devs ?s1" "device_list t = device_list ?s1"
      "grps t = grps ?s1" "pcm_live E (hist t) = pcm_live E (hist ?s1)" for t p
    by (rule upd_inv [OF ok obj(1) _ _ K_close_last [OF obj(2) that(1)], where
            x = "(devs s ?o)\<lparr>dev_state := DEV_CLOSED,
                 refcnt := \<lparr>rc_open = 0, rc_prepare = 0, rc_start = 0\<rparr>\<rparr>"])
       (use that in \<open>auto simp: is_open_cnt_def grps_upd_grp\<close>)
  show ?thesis
    by (auto simp: device_close_def wlp_simps Let_def ok
        intro: more [simplified] last [simplified] intro!: wlp_sysfs)
qed

end

interpretation counts: device_invariant counts_ok "\<lambda>_. True"
  by unfold_locales (auto simp: counts_ok_def)

interpretation disc: device_invariant dev_ok dev_opened
  by unfold_locales (auto simp: dev_ok_def counts_ok_def dev_opened_def device_state_order)

section \<open>Quiet operations\<close>

text \<open>
  An operation is quiet when it changes nothing but the history and the mixer handle, and
  neither opens nor closes a PCM handle or a graph. All configuration of graphs is quiet.
\<close>

definition quiet :: "env \<Rightarrow> 'z dev_world_scheme \<Rightarrow> 'z dev_world_scheme \<Rightarrow> bool" where
  "quiet E s t \<longleftrightarrow> devs t = devs s \<and> device_list t = device_list s \<and> grps t = grps s
     \<and> device_group_data_list t = device_group_data_list s \<and> num_audio_intfs t = num_audio_intfs s
     \<and> num_group_devices t = num_group_devices s \<and> sysfs_fd t = sysfs_fd s
     \<and> dev_world.more t = dev_world.more s
     \<and> pcm_live E (hist t) = pcm_live E (hist s) \<and> gsl_live E (hist t) = gsl_live E (hist s)"

named_theorems quiet_calls \<open>operations that are quiet\<close>

lemma quiet_refl [simp]: "quiet E s s"
  by (simp add: quiet_def)

lemma quiet_trans: "quiet E s t \<Longrightarrow> quiet E t u \<Longrightarrow> quiet E s u"
  by (simp add: quiet_def)

definition weightless :: "ext_call \<Rightarrow> bool" where
  "weightless c \<longleftrightarrow> \<not> is_PCM_IS_READY c \<and> \<not> is_PCM_CLOSE c \<and> \<not> is_GSL_OPEN c \<and> \<not> is_GSL_CLOSE c"

lemma quiet_hist: "quiet E s0 s \<Longrightarrow> weightless c \<Longrightarrow> quiet E s0 (s\<lparr>hist := hist s @ [c]\<rparr>)"
  by (simp add: quiet_def weightless_def)

lemma quiet_mixer: "quiet E s0 s \<Longrightarrow> quiet E s0 (s\<lparr>mixer := m\<rparr>)"
  by (simp add: quiet_def)

lemma ecall_quiet [quiet_calls]:
  "quiet E s0 s \<Longrightarrow> weightless c \<Longrightarrow> wlp (ecall E c s) (\<lambda>_ t. quiet E s0 t)"
  by (simp add: wlp_simps quiet_hist)

lemma calloc_quiet [quiet_calls]: "quiet E s0 s \<Longrightarrow> wlp (calloc E s) (\<lambda>_ t. quiet E s0 t)"
  by (simp add: wlp_simps quiet_hist weightless_def)

lemma device_get_channel_map_quiet [quiet_calls]:
  "quiet E s0 s \<Longrightarrow> wlp (device_get_channel_map E d s) (\<lambda>_ t. quiet E s0 t)"
  unfolding device_get_channel_map_def
  by (intro inv_rules inv_bind_value quiet_calls quiet_mixer) (simp_all add: weightless_def)

lemma devices_inv_quiet: "devices_inv E K s \<Longrightarrow> quiet E s t \<Longrightarrow> devices_inv E K t"
  by (rule devices_inv_frame) (simp_all add: quiet_def)

section \<open>What the reference-counted operations leave alone\<close>

lemma nth_node_Some: "nth_node i k xs = Some x \<longleftrightarrow> i \<le> k \<and> k - i < length xs \<and> xs ! (k - i) = x"
proof (induction xs arbitrary: i)
  case (Cons y ys)
  show ?case
  proof (cases "i = k")
    case False
    then have "i \<le> k \<Longrightarrow> k - i = Suc (k - Suc i)" by simp
    with False Cons [of "i + 1"] show ?thesis by auto
  qed auto
qed simp

lemma device_get_obj_Some:
  assumes "device_get_obj k s = (0, Some d)"
  shows "unat k < length (device_list s)" "device_list s ! unat k = d" "d \<in> set (device_list s)"
  using assms by (auto simp: device_get_obj_def nth_node_Some split: if_splits option.splits)

definition dframe :: "env \<Rightarrow> 'z dev_world_scheme \<Rightarrow> 'z dev_world_scheme \<Rightarrow> bool" where
  "dframe E s t \<longleftrightarrow> device_list t = device_list s \<and> num_audio_intfs t = num_audio_intfs s
     \<and> device_group_data_list t = device_group_data_list s \<and> num_group_devices t = num_group_devices s
     \<and> dev_world.more t = dev_world.more s \<and> gsl_live E (hist t) = gsl_live E (hist s)"

lemma dframe_upd [simp]:
  "dframe E s0 (upd_dev d f s) = dframe E s0 s" "dframe E s0 (upd_grp g f2 s) = dframe E s0 s"
  by (auto simp: dframe_def upd_dev_def upd_grp_def split: option.splits)

lemma dframe_refl [simp]: "dframe E s s"
  by (simp add: dframe_def)

lemma dframe_hist [simp]:
  "\<not> is_GSL_OPEN c \<Longrightarrow> \<not> is_GSL_CLOSE c \<Longrightarrow> dframe E s0 (s\<lparr>hist := hist s @ [c]\<rparr>) = dframe E s0 s"
  "dframe E s0 (s\<lparr>sysfs_fd := fd\<rparr>) = dframe E s0 s"
  by (auto simp: dframe_def)

lemma ecall_dframe:
  "dframe E s0 s \<Longrightarrow> \<not> is_GSL_OPEN c \<Longrightarrow> \<not> is_GSL_CLOSE c \<Longrightarrow> wlp (ecall E c s) (\<lambda>_ t. dframe E s0 t)"
  by (simp add: wlp_simps)

lemma sysfs_dframe: "dframe E s0 s \<Longrightarrow> wlp (update_sysfs_fd E i st s) (\<lambda>_ t. dframe E s0 t)"
  unfolding update_sysfs_fd_def Let_def by (intro inv_rules ecall_dframe) simp_all

lemma device_ops_dframe:
  assumes "dframe E s0 s"
  shows "wlp (device_open E dp s) (\<lambda>_ t. dframe E s0 t)"
    "wlp (device_prepare E dp s) (\<lambda>_ t. dframe E s0 t)"
    "wlp (device_start E dp s) (\<lambda>_ t. dframe E s0 t)"
    "wlp (device_stop E dp s) (\<lambda>_ t. dframe E s0 t)"
    "wlp (device_close E dp s) (\<lambda>_ t. dframe E s0 t)"
  unfolding device_open_def device_prepare_def device_start_def device_stop_def device_close_def Let_def
  by (intro inv_rules inv_bind_value ecall_dframe sysfs_dframe; simp add: assms)+

end
