(* ===== verification/Graph_Module.thy ===== *)
theory Graph_Module
  imports Device
begin

text \<open>
  Model of \<open>service/src/graph_module.c\<close> with the data of \<open>graph_module.h\<close>:
  the modules of a graph and the functions that configure them. A module keeps the name of
  its configuration function (the function pointer \<open>configure\<close> of the source), and
  \<open>configure\<close> calls it.

  The back pointer \<open>sess_obj\<close> of a graph is only read, and only for the stream
  configuration of the session, so the functions take that configuration as an argument.
  The structure sizes that the code adds up are those of headers outside the repository:
  an allocation succeeds or fails as the world says, whatever its size.
\<close>

unbundle bit_operations_syntax

section \<open>Data\<close>

record stream_cfg =
  stream_config :: agm_session_config
  in_media_config :: agm_media_config
  out_media_config :: agm_media_config
  in_buffer_config :: agm_buffer_config
  out_buffer_config :: agm_buffer_config

datatype module_t =
    MODULE_PCM_ENCODER | MODULE_PCM_DECODER | MODULE_PCM_CONVERTER | MODULE_WR_SHARED_MEM
  | MODULE_PLACEHOLDER_ENCODER | MODULE_PLACEHOLDER_DECODER | MODULE_STREAM_PAUSE
  | MODULE_STREAM_SPR | MODULE_STREAM_GAPLESS | MODULE_RD_SHARED_MEM
  | MODULE_HW_EP_RX | MODULE_HW_EP_TX

datatype configure_fn =
    CONFIGURE_PCM_ENCODER_PARAMS | CONFIGURE_OUTPUT_MEDIA_FORMAT | CONFIGURE_PLACEHOLDER_ENC
  | CONFIGURE_PLACEHOLDER_DEC | CONFIGURE_WR_SHARED_MEM_EP | CONFIGURE_SPR | CONFIGURE_GAPLESS
  | CONFIGURE_RD_SHARED_MEM_EP | CONFIGURE_HW_EP

record module_info =
  m_module :: module_t
  m_tag :: u32
  m_mid :: u32
  m_miid :: u32
  m_is_configured :: bool
  m_dev :: "nat option"
  m_gkv :: "key_value list option"
  m_configure :: "configure_fn option"

abbreviation (input) CLOSED :: u32 where "CLOSED \<equiv> 0"
abbreviation (input) OPENED :: u32 where "OPENED \<equiv> 1"
abbreviation (input) PREPARED :: u32 where "PREPARED \<equiv> 0x10"
abbreviation (input) STARTED :: u32 where "STARTED \<equiv> 0x100"
abbreviation (input) STOPPED :: u32 where "STOPPED \<equiv> 0x1000"

abbreviation (input) TAG_STREAM_SPR :: u32 where "TAG_STREAM_SPR \<equiv> 0xC0000013"

text \<open>\<open>g_cb\<close> is the client data the event callback was registered with.\<close>

record graph_obj =
  g_state :: u32
  g_handle :: int
  g_mods :: "module_info list"
  g_cb :: "nat option"
  g_spr_miid :: u32
  g_buf_timestamp :: u64
  g_is_config_buf_params_done :: bool

definition new_module :: "module_t \<Rightarrow> u32 \<Rightarrow> configure_fn option \<Rightarrow> module_info" where
  "new_module m t f = \<lparr>m_module = m, m_tag = t, m_mid = 0, m_miid = 0, m_is_configured = False,
                       m_dev = None, m_gkv = None, m_configure = f\<rparr>"

definition stream_module_list :: "env \<Rightarrow> module_info list" where
  "stream_module_list E =
     [new_module MODULE_PCM_ENCODER (STREAM_PCM_ENCODER E) (Some CONFIGURE_PCM_ENCODER_PARAMS),
      new_module MODULE_PCM_DECODER (STREAM_PCM_DECODER E) (Some CONFIGURE_OUTPUT_MEDIA_FORMAT),
      new_module MODULE_PLACEHOLDER_ENCODER (TAG_STREAM_PLACEHOLDER_ENCODER E)
        (Some CONFIGURE_PLACEHOLDER_ENC),
      new_module MODULE_PLACEHOLDER_DECODER (TAG_STREAM_PLACEHOLDER_DECODER E)
        (Some CONFIGURE_PLACEHOLDER_DEC),
      new_module MODULE_PCM_CONVERTER (STREAM_PCM_CONVERTER E) (Some CONFIGURE_OUTPUT_MEDIA_FORMAT),
      new_module MODULE_WR_SHARED_MEM (STREAM_INPUT_MEDIA_FORMAT E) (Some CONFIGURE_WR_SHARED_MEM_EP),
      new_module MODULE_STREAM_PAUSE (TAG_PAUSE E) None,
      new_module MODULE_STREAM_SPR TAG_STREAM_SPR (Some CONFIGURE_SPR),
      new_module MODULE_STREAM_GAPLESS (MODULE_GAPLESS E) (Some CONFIGURE_GAPLESS),
      new_module MODULE_RD_SHARED_MEM (RD_SHMEM_ENDPOINT E) (Some CONFIGURE_RD_SHARED_MEM_EP)]"

definition hw_ep_module :: "env \<Rightarrow> module_info list" where
  "hw_ep_module E =
     [new_module MODULE_HW_EP_RX (DEVICE_HW_ENDPOINT_RX E) (Some CONFIGURE_HW_EP),
      new_module MODULE_HW_EP_TX (DEVICE_HW_ENDPOINT_TX E) (Some CONFIGURE_HW_EP)]"

section \<open>Formats\<close>

definition get_default_channel_map :: "int \<Rightarrow> pcm_channel list" where
  "get_default_channel_map channels =
     (if channels = 1 then [PCM_CHANNEL_C]
      else if channels = 2 then [PCM_CHANNEL_L, PCM_CHANNEL_R]
      else if channels = 3 then [PCM_CHANNEL_L, PCM_CHANNEL_R, PCM_CHANNEL_C]
      else if channels = 4 then [PCM_CHANNEL_L, PCM_CHANNEL_R, PCM_CHANNEL_LB, PCM_CHANNEL_RB]
      else if channels = 5
      then [PCM_CHANNEL_L, PCM_CHANNEL_R, PCM_CHANNEL_C, PCM_CHANNEL_LB, PCM_CHANNEL_RB]
      else if channels = 6
      then [PCM_CHANNEL_L, PCM_CHANNEL_R, PCM_CHANNEL_C, PCM_CHANNEL_LFE, PCM_CHANNEL_LB,
            PCM_CHANNEL_RB]
      else if channels = 7
      then [PCM_CHANNEL_L, PCM_CHANNEL_R, PCM_CHANNEL_C, PCM_CHANNEL_LFE, PCM_CHANNEL_LB,
            PCM_CHANNEL_RB, PCM_CHANNEL_CS]
      else if channels = 8
      then [PCM_CHANNEL_L, PCM_CHANNEL_R, PCM_CHANNEL_C, PCM_CHANNEL_LFE, PCM_CHANNEL_LB,
            PCM_CHANNEL_RB, PCM_CHANNEL_LS, PCM_CHANNEL_RS]
      else replicate (nat channels) PCM_CHANNEL_UNSET)"

definition is_format_pcm :: "agm_media_format \<Rightarrow> bool" where
  "is_format_pcm f = (f \<in> {AGM_FORMAT_PCM_S8, AGM_FORMAT_PCM_S16_LE, AGM_FORMAT_PCM_S24_LE,
                           AGM_FORMAT_PCM_S24_3LE, AGM_FORMAT_PCM_S32_LE})"

definition is_format_bypassed :: "agm_media_format \<Rightarrow> bool" where
  "is_format_bypassed f = (f = AGM_FORMAT_VORBIS)"

definition get_pcm_bit_width :: "agm_media_format \<Rightarrow> int" where
  "get_pcm_bit_width f =
     (case f of AGM_FORMAT_PCM_S24_3LE \<Rightarrow> 24 | AGM_FORMAT_PCM_S24_LE \<Rightarrow> 24
      | AGM_FORMAT_PCM_S32_LE \<Rightarrow> 32 | _ \<Rightarrow> 16)"

definition GET_BITS_PER_SAMPLE :: "agm_media_format \<Rightarrow> int \<Rightarrow> int" where
  "GET_BITS_PER_SAMPLE f bit_width = (if f = AGM_FORMAT_PCM_S24_LE then 32 else bit_width)"

definition GET_Q_FACTOR :: "agm_media_format \<Rightarrow> int \<Rightarrow> int" where
  "GET_Q_FACTOR f bit_width = bit_width - 1"

text \<open>Reads of the codec union at the offset of a member.\<close>

definition codec_u8 :: "u8 list \<Rightarrow> nat \<Rightarrow> int" where
  "codec_u8 bs off = (if off < length bs then uint (bs ! off) else 0)"

definition codec_u16 :: "u8 list \<Rightarrow> nat \<Rightarrow> int" where
  "codec_u16 bs off = codec_u8 bs off + 256 * codec_u8 bs (off + 1)"

definition codec_u32 :: "u8 list \<Rightarrow> nat \<Rightarrow> u32" where
  "codec_u32 bs off = of_int (codec_u16 bs off + 65536 * codec_u16 bs (off + 2))"

definition get_media_bit_width :: "'c stream_cfg_scheme \<Rightarrow> agm_media_config \<Rightarrow> int" where
  "get_media_bit_width cfg mc =
     (let codec = sc_codec (stream_config cfg) in
      if is_format_pcm (mc_format mc) then get_pcm_bit_width (mc_format mc)
      else case mc_format mc of
             AGM_FORMAT_FLAC \<Rightarrow> codec_u16 codec 2
           | AGM_FORMAT_ALAC \<Rightarrow> codec_u8 codec 5
           | AGM_FORMAT_APE \<Rightarrow> codec_u16 codec 20
           | AGM_FORMAT_WMASTD \<Rightarrow> codec_u16 codec 14
           | AGM_FORMAT_WMAPRO \<Rightarrow> codec_u16 codec 14
           | _ \<Rightarrow> 16)"

text \<open>\<open>get_media_fmt_id_and_size\<close>: the real format id, or \<open>- EINVAL\<close> for a
  format that the client configures itself.\<close>

definition get_media_fmt_id :: "env \<Rightarrow> agm_media_format \<Rightarrow> int \<times> u32" where
  "get_media_fmt_id E f =
     (if is_format_pcm f then (0, MEDIA_FMT E AGM_FORMAT_PCM_S16_LE)
      else if f \<in> {AGM_FORMAT_INVALID, AGM_FORMAT_MAX} then (- EINVAL, 0)
      else (0, MEDIA_FMT E f))"

definition set_compressed_media_format ::
    "env \<Rightarrow> agm_media_format \<Rightarrow> 'c stream_cfg_scheme \<Rightarrow> int \<times> media_format_hdr" where
  "set_compressed_media_format E f cfg =
     (let codec = sc_codec (stream_config cfg) in
      if f = AGM_FORMAT_MP3 then (0, MEDIA_FORMAT_HDR f [])
      else if f \<in> {AGM_FORMAT_AAC, AGM_FORMAT_FLAC, AGM_FORMAT_ALAC, AGM_FORMAT_APE,
                    AGM_FORMAT_WMASTD, AGM_FORMAT_WMAPRO}
      then (0, MEDIA_FORMAT_HDR f (take (sizeof_media_fmt E f) codec))
      else (- EINVAL, MEDIA_FORMAT_HDR f []))"

section \<open>Hardware endpoints\<close>

text \<open>Sending one parameter: allocation of the payload, then the call with the error code
  translated.\<close>

definition set_param ::
    "env \<Rightarrow> graph_obj \<Rightarrow> u32 \<Rightarrow> spf_param \<Rightarrow> 'z world_scheme \<Rightarrow> (int \<times> 'z world_scheme) option" where
  "set_param E g miid p s = do {
     (ret, s) \<leftarrow> ecall E (GSL_SET_CUSTOM_CONFIG (g_handle g) (MODULE_CONFIG miid p)) s;
     Some (if ret \<noteq> 0 then lnx E ret else ret, s) }"

definition ep_media_config :: "nat \<Rightarrow> 'z dev_world_scheme \<Rightarrow> agm_media_config" where
  "ep_media_config d s =
     (case group_data (devs s d) of
        Some gd \<Rightarrow> gmc_config (grp_media_config (grps s gd)) | None \<Rightarrow> dev_media_config (devs s d))"

definition configure_codec_dma_ep ::
    "env \<Rightarrow> module_info \<Rightarrow> nat \<Rightarrow> graph_obj \<Rightarrow> 'z dev_world_scheme \<Rightarrow> (int \<times> 'z dev_world_scheme) option" where
  "configure_codec_dma_ep E mi d g s = do {
     let mc = ep_media_config d s;
     (ok, s) \<leftarrow> calloc E s;
     if \<not> ok then Some (- ENOMEM, s) else do {
     ((ret, chmap), s) \<leftarrow> device_get_channel_map E d s;
     if ret \<noteq> 0 \<or> chmap = None then Some (ret, s)
     else if the chmap ! 0 < mc_channels mc then Some (- EINVAL, s)
     else set_param E g (m_miid mi)
            (PARAM_ID_CODEC_DMA_INTF_CFG (ep_word0 (hw_ep (devs s d))) (ep_word1 (hw_ep (devs s d)))
               (the chmap ! 1)) s }}"

text \<open>I2S, TDM and auxiliary PCM take the parameter from the calibration database and
  overwrite the interface words (and, for a TDM group, the slot mask).\<close>

definition configure_tagged_ep ::
    "env \<Rightarrow> module_info \<Rightarrow> nat \<Rightarrow> u32 \<Rightarrow> u32 option \<Rightarrow> graph_obj \<Rightarrow> 'z dev_world_scheme \<Rightarrow>
       (int \<times> 'z dev_world_scheme) option" where
  "configure_tagged_ep E mi d channels slot g s = do {
     (ok, s) \<leftarrow> calloc E s;
     if \<not> ok then Some (- ENOMEM, s) else do {
     (ok, s) \<leftarrow> calloc E s;
     if \<not> ok then Some (- ENOMEM, s) else do {
     (ret, s) \<leftarrow> ecall E (GSL_GET_TAGGED_DATA (m_gkv mi) (m_tag mi) [(CHANNELS_KEY E, channels)]) s;
     if ret \<noteq> 0 then Some (lnx E ret, s)
     else do {
       (ret, s) \<leftarrow> ecall E (GSL_SET_CUSTOM_CONFIG (g_handle g)
          (TAGGED_CONFIG (ext_data E (hist s)) (ep_word0 (hw_ep (devs s d)))
             (ep_word1 (hw_ep (devs s d))) slot)) s;
       Some (if ret \<noteq> 0 then lnx E ret else ret, s) }}}}"

definition configure_i2s_ep where
  "configure_i2s_ep E mi d g s =
     configure_tagged_ep E mi d (mc_channels (ep_media_config d s)) None g s"

definition configure_tdm_ep where
  "configure_tdm_ep E mi d g s =
     configure_tagged_ep E mi d (mc_channels (ep_media_config d s))
       (map_option (\<lambda>gd. gmc_slot_mask (grp_media_config (grps s gd))) (group_data (devs s d))) g s"

definition configure_aux_pcm_ep where
  "configure_aux_pcm_ep E mi d g s =
     configure_tagged_ep E mi d (mc_channels (dev_media_config (devs s d))) None g s"

text \<open>The channel map has sixteen words; a read behind them is a trap.\<close>

definition configure_slimbus_ep ::
    "env \<Rightarrow> module_info \<Rightarrow> nat \<Rightarrow> graph_obj \<Rightarrow> 'z dev_world_scheme \<Rightarrow> (int \<times> 'z dev_world_scheme) option" where
  "configure_slimbus_ep E mi d g s = do {
     let ch = mc_channels (dev_media_config (devs s d));
     if ch > SB_MAX_CHAN_CNT E then Some (- EINVAL, s) else do {
     (ok, s) \<leftarrow> calloc E s;
     if \<not> ok then Some (- ENOMEM, s) else do {
     ((ret, chmap), s) \<leftarrow> device_get_channel_map E d s;
     if ret \<noteq> 0 \<or> chmap = None then Some (ret, s)
     else if the chmap ! 0 < ch then Some (- EINVAL, s)
     else if length (the chmap) < unat ch + 1 then None
     else set_param E g (m_miid mi)
            (PARAM_ID_SLIMBUS_CONFIG (ep_word0 (hw_ep (devs s d)))
               (take (unat ch) (drop 1 (the chmap)))) s }}}"

definition configure_hw_ep_media_config ::
    "env \<Rightarrow> module_info \<Rightarrow> nat \<Rightarrow> graph_obj \<Rightarrow> 'z dev_world_scheme \<Rightarrow> (int \<times> 'z dev_world_scheme) option" where
  "configure_hw_ep_media_config E mi d g s = do {
     let mc = ep_media_config d s;
     (ok, s) \<leftarrow> calloc E s;
     if \<not> ok then Some (- ENOMEM, s)
     else set_param E g (m_miid mi)
            (PARAM_ID_HW_EP_MF_CFG (mc_rate mc) (get_pcm_bit_width (mc_format mc)) (mc_channels mc)
               (mc_data_format mc)) s }"

definition configure_hw_ep ::
    "env \<Rightarrow> module_info \<Rightarrow> graph_obj \<Rightarrow> 'z dev_world_scheme \<Rightarrow> (int \<times> 'z dev_world_scheme) option" where
  "configure_hw_ep E mi g s =
     (case m_dev mi of None \<Rightarrow> None
      | Some d \<Rightarrow>
        let i = intf (hw_ep (devs s d)) in do {
        (ret, s) \<leftarrow> (if i = PCM_RT_PROXY \<or> i = PCM_DUMMY then Some (0, s)
                      else configure_hw_ep_media_config E mi d g s);
        if ret \<noteq> 0 then Some (ret, s)
        else if i = CODEC_DMA then configure_codec_dma_ep E mi d g s
        else if i = MI2S then configure_i2s_ep E mi d g s
        else if i = AUXPCM then configure_aux_pcm_ep E mi d g s
        else if i = TDM then configure_tdm_ep E mi d g s
        else if i = SLIMBUS then configure_slimbus_ep E mi d g s
        else Some (0, s) })"

section \<open>Stream modules\<close>

text \<open>The fields of the PCM output format: \<open>None\<close> for a bit width that the playback
  path does not know.\<close>

definition output_media_config :: "'c stream_cfg_scheme \<Rightarrow> agm_media_config" where
  "output_media_config cfg =
     (if sc_dir (stream_config cfg) = TX \<or>
         sc_sess_mode (stream_config cfg) = AGM_SESSION_NON_TUNNEL
           \<and> is_format_pcm (mc_format (in_media_config cfg))
      then in_media_config cfg else out_media_config cfg)"

definition output_format_cfg ::
    "'c stream_cfg_scheme \<Rightarrow> module_info \<Rightarrow> pcm_output_format_cfg option" where
  "output_format_cfg cfg mi =
     (let sc = stream_config cfg; mc = output_media_config cfg;
          channels = sint (mc_channels mc);
          width = get_media_bit_width cfg mc;
          fmt = \<lparr>po_bit_width = width, po_bits_per_sample = width, po_q_factor = width - 1,
                 po_interleaved = (sc_dir sc \<noteq> RX), po_num_channels = channels,
                 po_channel_map = get_default_channel_map channels\<rparr>
      in if (sc_dir sc = TX \<or>
             sc_sess_mode sc = AGM_SESSION_NON_TUNNEL \<and> m_module mi = MODULE_PCM_CONVERTER)
            \<and> is_format_pcm (mc_format mc)
         then Some (fmt\<lparr>po_bits_per_sample := GET_BITS_PER_SAMPLE (mc_format mc) width,
                        po_q_factor := GET_Q_FACTOR (mc_format mc) width,
                        po_num_channels := (if sc_sess_mode sc = AGM_SESSION_NON_TUNNEL then - 1
                                            else channels)\<rparr>)
         else if width = 16 \<or> width = 32 then Some fmt
         else if width = 24 then Some (fmt\<lparr>po_bits_per_sample := 32, po_q_factor := 27\<rparr>)
         else None)"

text \<open>A channel count that is negative as an \<open>int\<close> makes the allocation shorter than
  the structures written into it.\<close>

definition configure_output_media_format ::
    "env \<Rightarrow> 'c stream_cfg_scheme \<Rightarrow> module_info \<Rightarrow> graph_obj \<Rightarrow> 'z dev_world_scheme \<Rightarrow>
       (int \<times> 'z dev_world_scheme) option" where
  "configure_output_media_format E cfg mi g s = do {
     (ok, s) \<leftarrow> calloc E s;
     if \<not> ok then Some (- ENOMEM, s)
     else if sint (mc_channels (output_media_config cfg)) < 0 then None
     else case output_format_cfg cfg mi of
            None \<Rightarrow> Some (- EINVAL, s)
          | Some fmt \<Rightarrow> set_param E g (m_miid mi) (PARAM_ID_PCM_OUTPUT_FORMAT_CFG fmt) s }"

definition configure_pcm_encoder_frame_size ::
    "env \<Rightarrow> module_info \<Rightarrow> graph_obj \<Rightarrow> u32 \<Rightarrow> 'z dev_world_scheme \<Rightarrow> (int \<times> 'z dev_world_scheme) option" where
  "configure_pcm_encoder_frame_size E mi g frame_size s = do {
     (ok, s) \<leftarrow> calloc E s;
     if \<not> ok then Some (- ENOMEM, s)
     else set_param E g (m_miid mi) (PARAM_ID_PCM_ENCODER_FRAME_SIZE frame_size) s }"

definition encoder_frame_size :: "'c stream_cfg_scheme \<Rightarrow> u32 option" where
  "encoder_frame_size cfg =
     (let mc = in_media_config cfg;
          bits = of_int (GET_BITS_PER_SAMPLE (mc_format mc) (get_pcm_bit_width (mc_format mc))) :: u32;
          channels = (if mc_channels mc = 0 then 1 else mc_channels mc);
          frame_bits = ucast (channels * bits) :: u64
      in if frame_bits = 0 then None
         else Some (ucast (bc_size (in_buffer_config cfg) * 8 div frame_bits)))"

definition configure_pcm_encoder_params ::
    "env \<Rightarrow> 'c stream_cfg_scheme \<Rightarrow> module_info \<Rightarrow> graph_obj \<Rightarrow> 'z dev_world_scheme \<Rightarrow>
       (int \<times> 'z dev_world_scheme) option" where
  "configure_pcm_encoder_params E cfg mi g s = do {
     (ret, s) \<leftarrow> configure_output_media_format E cfg mi g s;
     if ret \<noteq> 0 then Some (ret, s)
     else if sc_sess_mode (stream_config cfg) = AGM_SESSION_NON_TUNNEL then Some (ret, s)
     else do {
       let rate = mc_rate (in_media_config cfg);
       frame_size \<leftarrow> encoder_frame_size cfg;
       if rate div 1000 \<noteq> 0 \<and> (frame_size * 1000) mod rate \<noteq> 0
       then configure_pcm_encoder_frame_size E mi g frame_size s
       else Some (ret, s) }}"

definition configure_placeholder_dec ::
    "env \<Rightarrow> 'c stream_cfg_scheme \<Rightarrow> module_info \<Rightarrow> graph_obj \<Rightarrow> 'z dev_world_scheme \<Rightarrow>
       (int \<times> 'z dev_world_scheme) option" where
  "configure_placeholder_dec E cfg mi g s =
     (case get_media_fmt_id E (mc_format (out_media_config cfg)) of (r, fmt) \<Rightarrow>
      if r \<noteq> 0 then Some (0, s) else do {
      (ok, s) \<leftarrow> calloc E s;
      if \<not> ok then Some (- ENOMEM, s) else do {
      (ret, s) \<leftarrow> ecall E (GSL_SET_CONFIG (g_handle g) (m_gkv mi)
                    (TAG_STREAM_PLACEHOLDER_DECODER E) [(MEDIA_FMT_ID_KEY E, fmt)]) s;
      if ret \<noteq> 0 then Some (lnx E ret, s)
      else configure_output_media_format E cfg mi g s }})"

definition configure_encoder_output_media_format ::
    "env \<Rightarrow> 'c stream_cfg_scheme \<Rightarrow> module_info \<Rightarrow> graph_obj \<Rightarrow> 'z dev_world_scheme \<Rightarrow>
       (int \<times> 'z dev_world_scheme) option" where
  "configure_encoder_output_media_format E cfg mi g s =
     (let codec = sc_codec (stream_config cfg) in
      if mc_format (in_media_config cfg) \<noteq> AGM_FORMAT_AAC then Some (- EINVAL, s)
      else do {
      (ok, s) \<leftarrow> calloc E s;
      if \<not> ok then Some (- ENOMEM, s) else do {
      (ret, s) \<leftarrow> set_param E g (m_miid mi) (PARAM_ID_ENCODER_OUTPUT_CONFIG AGM_FORMAT_AAC
                    (take (sizeof_aac_enc_cfg E) (drop 4 codec))) s;
      if ret \<noteq> 0 then Some (ret, s) else do {
      (ok, s) \<leftarrow> calloc E s;
      if \<not> ok then Some (- ENOMEM, s)
      else set_param E g (m_miid mi) (PARAM_ID_ENC_BITRATE (codec_u32 codec 0)) s }}})"

definition configure_placeholder_enc ::
    "env \<Rightarrow> 'c stream_cfg_scheme \<Rightarrow> module_info \<Rightarrow> graph_obj \<Rightarrow> 'z dev_world_scheme \<Rightarrow>
       (int \<times> 'z dev_world_scheme) option" where
  "configure_placeholder_enc E cfg mi g s = do {
     (_, s) \<leftarrow> (if sc_sess_mode (stream_config cfg) = AGM_SESSION_COMPRESS
                    \<and> sc_dir (stream_config cfg) = TX
                 then configure_encoder_output_media_format E cfg mi g s else Some (0, s));
     case get_media_fmt_id E (mc_format (in_media_config cfg)) of (r, fmt) \<Rightarrow>
     if r \<noteq> 0 then Some (0, s) else do {
     (ok, s) \<leftarrow> calloc E s;
     if \<not> ok then Some (- ENOMEM, s) else do {
     (ret, s) \<leftarrow> ecall E (GSL_SET_CONFIG (g_handle g) (m_gkv mi)
                   (TAG_STREAM_PLACEHOLDER_ENCODER E) [(MEDIA_FMT_ID_KEY E, fmt)]) s;
     Some (if ret \<noteq> 0 then lnx E ret else ret, s) }}}"

text \<open>\<open>graph_write\<close> of \<open>graph.c\<close>, which the data path variant calls. The
  second component is the new value of \<open>*size\<close>, if it was set.\<close>

definition is_non_tunnel :: "'c stream_cfg_scheme \<Rightarrow> bool" where
  "is_non_tunnel cfg \<longleftrightarrow> sc_sess_mode (stream_config cfg) = AGM_SESSION_NON_TUNNEL
     \<and> sc_dir (stream_config cfg) = RX_TX"

definition graph_write ::
    "env \<Rightarrow> 'c stream_cfg_scheme \<Rightarrow> graph_obj option \<Rightarrow> agm_buff \<Rightarrow> 'z world_scheme \<Rightarrow>
       ((int \<times> u32 option) \<times> 'z world_scheme) option" where
  "graph_write E cfg gp buf s =
     (case gp of None \<Rightarrow> Some ((- EINVAL, None), s)
      | Some g \<Rightarrow> do {
        (ret, s) \<leftarrow> ecall E (GSL_WRITE (g_handle g)
           (if is_non_tunnel cfg then WR_SHMEM_ENDPOINT E else SHMEM_ENDPOINT E) buf) s;
        if ret \<noteq> 0 then Some ((lnx E ret, None), s)
        else Some ((0, Some (fst (ext_xfer E (hist s)))), s) })"

definition configure_compress_shared_mem_ep ::
    "env \<Rightarrow> 'c stream_cfg_scheme \<Rightarrow> module_info \<Rightarrow> graph_obj \<Rightarrow> 'z dev_world_scheme \<Rightarrow>
       (int \<times> 'z dev_world_scheme) option" where
  "configure_compress_shared_mem_ep E cfg mi g s =
     (let f = mc_format (out_media_config cfg) in
      if is_format_bypassed f \<or> sc_sess_mode (stream_config cfg) = AGM_SESSION_NON_TUNNEL
      then Some (0, s)
      else if fst (get_media_fmt_id E f) \<noteq> 0 then Some (0, s)
      else do {
      (ok, s) \<leftarrow> calloc E s;
      if \<not> ok then Some (- ENOMEM, s)
      else case set_compressed_media_format E f cfg of (r, hdr) \<Rightarrow>
           if r \<noteq> 0 then Some (r, s)
           else set_param E g (m_miid mi) (PARAM_ID_MEDIA_FORMAT hdr) s })"

definition configure_compress_shared_mem_ep_datapath ::
    "env \<Rightarrow> 'c stream_cfg_scheme \<Rightarrow> module_info \<Rightarrow> graph_obj \<Rightarrow> 'z dev_world_scheme \<Rightarrow>
       (int \<times> 'z dev_world_scheme) option" where
  "configure_compress_shared_mem_ep_datapath E cfg mi g s =
     (let f = mc_format (out_media_config cfg) in
      if is_format_bypassed f \<or> sc_sess_mode (stream_config cfg) = AGM_SESSION_NON_TUNNEL
      then Some (0, s)
      else if fst (get_media_fmt_id E f) \<noteq> 0 then Some (0, s)
      else do {
      (ok, s) \<leftarrow> calloc E s;
      if \<not> ok then Some (- ENOMEM, s)
      else case set_compressed_media_format E f cfg of (r, hdr) \<Rightarrow>
           if r \<noteq> 0 then Some (r, s)
           else do {
             ((ret, _), s) \<leftarrow> graph_write E cfg (Some g)
                \<lparr>bf_timestamp = 0, bf_flags = 8,
                 bf_size = of_nat (sizeof_media_format_t E
                             + (if f = AGM_FORMAT_MP3 then 0 else sizeof_media_fmt E f)),
                 bf_addr = FMT_HDR hdr, bf_metadata_size = 0, bf_metadata = 0,
                 bf_alloc_handle = 0, bf_alloc_size = 0, bf_alloc_offset = 0\<rparr> s;
             Some (if ret \<noteq> 0 then lnx E ret else ret, s) } })"

definition configure_pcm_shared_mem_ep ::
    "env \<Rightarrow> 'c stream_cfg_scheme \<Rightarrow> module_info \<Rightarrow> graph_obj \<Rightarrow> 'z dev_world_scheme \<Rightarrow>
       (int \<times> 'z dev_world_scheme) option" where
  "configure_pcm_shared_mem_ep E cfg mi g s =
     (let mc = out_media_config cfg; channels = sint (mc_channels mc);
          width = get_pcm_bit_width (mc_format mc)
      in do {
      (ok, s) \<leftarrow> calloc E s;
      if \<not> ok then Some (- ENOMEM, s)
      else if channels < 0 then None
      else set_param E g (m_miid mi) (PARAM_ID_MEDIA_FORMAT_PCM
             \<lparr>pm_bit_width = width, pm_bits_per_sample = GET_BITS_PER_SAMPLE (mc_format mc) width,
              pm_q_factor = GET_Q_FACTOR (mc_format mc) width, pm_sample_rate = mc_rate mc,
              pm_num_channels = channels, pm_channel_map = get_default_channel_map channels\<rparr>) s })"

definition configure_wr_shared_mem_ep ::
    "env \<Rightarrow> 'c stream_cfg_scheme \<Rightarrow> module_info \<Rightarrow> graph_obj \<Rightarrow> 'z dev_world_scheme \<Rightarrow>
       (int \<times> 'z dev_world_scheme) option" where
  "configure_wr_shared_mem_ep E cfg mi g s =
     (if is_format_pcm (mc_format (out_media_config cfg)) then configure_pcm_shared_mem_ep E cfg mi g s
      else if g_state g \<noteq> STARTED then configure_compress_shared_mem_ep E cfg mi g s
      else configure_compress_shared_mem_ep_datapath E cfg mi g s)"

definition configure_rd_shared_mem_ep ::
    "env \<Rightarrow> 'c stream_cfg_scheme \<Rightarrow> module_info \<Rightarrow> graph_obj \<Rightarrow> 'z dev_world_scheme \<Rightarrow>
       (int \<times> 'z dev_world_scheme) option" where
  "configure_rd_shared_mem_ep E cfg mi g s =
     (let sc = stream_config cfg;
          nt = (sc_sess_mode sc = AGM_SESSION_NON_TUNNEL);
          frames_nt = (if nt \<and> \<not> is_format_pcm (mc_format (in_media_config cfg)) then 1 else 0);
          frames = (if sc_sess_mode sc = AGM_SESSION_COMPRESS \<and> sc_dir sc = TX then 1 else frames_nt)
      in if sc_sess_flags sc AND 1 = 0 \<and> sc_sess_mode sc \<noteq> AGM_SESSION_COMPRESS then Some (0, s)
         else do {
         (ok, s) \<leftarrow> calloc E s;
         if \<not> ok then Some (- ENOMEM, s)
         else set_param E g (m_miid mi)
                (PARAM_ID_RD_SH_MEM_CFG (if nt then 2 else 0) frames) s })"

fun spr_loop ::
    "env \<Rightarrow> graph_obj \<Rightarrow> u32 \<Rightarrow> module_info list \<Rightarrow> int \<Rightarrow> 'z world_scheme \<Rightarrow>
       (int \<times> 'z world_scheme) option" where
  "spr_loop E g spr [] ret s = Some (ret, s)"
| "spr_loop E g spr (m # ms) ret s =
     (if m_tag m = DEVICE_HW_ENDPOINT_RX E
      then do { (ret, s) \<leftarrow> set_param E g spr (PARAM_ID_SPR_DELAY_PATH_END (m_miid m)) s;
                spr_loop E g spr ms ret s }
      else spr_loop E g spr ms ret s)"

definition configure_spr ::
    "env \<Rightarrow> module_info \<Rightarrow> graph_obj \<Rightarrow> 'z dev_world_scheme \<Rightarrow>
       ((int \<times> graph_obj) \<times> 'z dev_world_scheme) option" where
  "configure_spr E mi g s =
     (let g = g\<lparr>g_spr_miid := m_miid mi\<rparr> in do {
      (ok, s) \<leftarrow> calloc E s;
      if \<not> ok then Some ((- ENOMEM, g), s)
      else do { (ret, s) \<leftarrow> spr_loop E g (m_miid mi) (g_mods g) 0 s; Some ((ret, g), s) } })"

definition configure_gapless ::
    "env \<Rightarrow> module_info \<Rightarrow> graph_obj \<Rightarrow> 'z dev_world_scheme \<Rightarrow> (int \<times> 'z dev_world_scheme) option" where
  "configure_gapless E mi g s =
     (if g_handle g = 0 then Some (- EINVAL, s) else do {
      (ok, s) \<leftarrow> calloc E s;
      if \<not> ok then Some (- ENOMEM, s) else do {
      (ret, s) \<leftarrow> ecall E (GSL_IOCTL (g_handle g) (GSL_CMD_REGISTER_CUSTOM_EVENT
          \<lparr>er_module_instance_id = m_miid mi, er_event_id = EVENT_ID_EARLY_EOS E, er_payload = [],
           er_is_register = 1\<rparr>)) s;
      Some (if ret \<noteq> 0 then lnx E ret else ret, s) }})"

text \<open>\<open>mod->configure(mod, graph_obj)\<close>.\<close>

definition configure ::
    "env \<Rightarrow> 'c stream_cfg_scheme \<Rightarrow> configure_fn \<Rightarrow> module_info \<Rightarrow> graph_obj \<Rightarrow> 'z dev_world_scheme \<Rightarrow>
       ((int \<times> graph_obj) \<times> 'z dev_world_scheme) option" where
  "configure E cfg f mi g s =
     (let keep = (\<lambda>m. do { (ret, s) \<leftarrow> m; Some ((ret, g), s) }) in
      case f of
        CONFIGURE_PCM_ENCODER_PARAMS \<Rightarrow> keep (configure_pcm_encoder_params E cfg mi g s)
      | CONFIGURE_OUTPUT_MEDIA_FORMAT \<Rightarrow> keep (configure_output_media_format E cfg mi g s)
      | CONFIGURE_PLACEHOLDER_ENC \<Rightarrow> keep (configure_placeholder_enc E cfg mi g s)
      | CONFIGURE_PLACEHOLDER_DEC \<Rightarrow> keep (configure_placeholder_dec E cfg mi g s)
      | CONFIGURE_WR_SHARED_MEM_EP \<Rightarrow> keep (configure_wr_shared_mem_ep E cfg mi g s)
      | CONFIGURE_SPR \<Rightarrow> configure_spr E mi g s
      | CONFIGURE_GAPLESS \<Rightarrow> keep (configure_gapless E mi g s)
      | CONFIGURE_RD_SHARED_MEM_EP \<Rightarrow> keep (configure_rd_shared_mem_ep E cfg mi g s)
      | CONFIGURE_HW_EP \<Rightarrow> keep (configure_hw_ep E mi g s))"

section \<open>Configuration is quiet\<close>

lemma set_param_quiet [quiet_calls]:
  "quiet E s0 s \<Longrightarrow> wlp (set_param E g miid p s) (\<lambda>_ t. quiet E s0 t)"
  unfolding set_param_def by (intro inv_rules quiet_calls) (simp_all add: weightless_def)

lemma graph_write_quiet [quiet_calls]:
  "quiet E s0 s \<Longrightarrow> wlp (graph_write E cfg gp buf s) (\<lambda>_ t. quiet E s0 t)"
  unfolding graph_write_def by (intro inv_rules quiet_calls) (simp_all add: weightless_def)

lemma configure_output_media_format_quiet [quiet_calls]:
  "quiet E s0 s \<Longrightarrow> wlp (configure_output_media_format E cfg mi g s) (\<lambda>_ t. quiet E s0 t)"
  unfolding configure_output_media_format_def by (intro inv_rules quiet_calls)

lemma configure_encoder_output_media_format_quiet [quiet_calls]:
  "quiet E s0 s \<Longrightarrow> wlp (configure_encoder_output_media_format E cfg mi g s) (\<lambda>_ t. quiet E s0 t)"
  unfolding configure_encoder_output_media_format_def by (intro inv_rules quiet_calls)

lemma configure_tagged_ep_quiet [quiet_calls]:
  "quiet E s0 s \<Longrightarrow> wlp (configure_tagged_ep E mi d c slot g s) (\<lambda>_ t. quiet E s0 t)"
  unfolding configure_tagged_ep_def by (intro inv_rules quiet_calls) (simp_all add: weightless_def)

lemma configure_hw_ep_quiet [quiet_calls]:
  "quiet E s0 s \<Longrightarrow> wlp (configure_hw_ep E mi g s) (\<lambda>_ t. quiet E s0 t)"
  unfolding configure_hw_ep_def configure_hw_ep_media_config_def configure_codec_dma_ep_def
    configure_i2s_ep_def configure_tdm_ep_def configure_aux_pcm_ep_def configure_slimbus_ep_def
  by (intro inv_rules quiet_calls)

lemma spr_loop_quiet [quiet_calls]:
  "quiet E s0 s \<Longrightarrow> wlp (spr_loop E g spr ms ret s) (\<lambda>_ t. quiet E s0 t)"
proof (induction ms arbitrary: ret s)
  case (Cons m ms)
  show ?case unfolding spr_loop.simps by (intro inv_rules quiet_calls Cons)
qed (simp add: wlp_simps)

lemma configure_quiet [quiet_calls]:
  assumes "quiet E s0 s"
  shows "wlp (configure E cfg f mi g s) (\<lambda>_ t. quiet E s0 t)"
proof -
  note defs = configure_pcm_encoder_params_def configure_pcm_encoder_frame_size_def
    configure_placeholder_enc_def configure_placeholder_dec_def configure_wr_shared_mem_ep_def
    configure_compress_shared_mem_ep_def configure_compress_shared_mem_ep_datapath_def
    configure_pcm_shared_mem_ep_def configure_rd_shared_mem_ep_def configure_spr_def
    configure_gapless_def
  show ?thesis
    by (cases f; simp only: configure_def Let_def configure_fn.case defs;
        intro inv_rules inv_bind_value quiet_calls assms) (simp_all add: weightless_def)
qed

end
