(* ===== verification/Graph.thy ===== *)
theory Graph
  imports Graph_Module
begin

text \<open>
  Model of \<open>service/src/graph.c\<close>: the graph object of a session and the commands it
  sends to GSL. A function takes the graph pointer (\<open>None\<close> is NULL) and the stream
  configuration of the owning session; a function that changes the graph returns the graph.
  A graph is reached only through the session that owns it, so it is part of the session and
  needs no address; its mutex is taken and released inside each function.
\<close>

unbundle bit_operations_syntax

section \<open>Opening and closing\<close>

definition print_graph_alias ::
    "env \<Rightarrow> agm_meta_data_gsl \<Rightarrow> 'z world_scheme \<Rightarrow> (unit \<times> 'z world_scheme) option" where
  "print_graph_alias E m s =
     (if num_kvs (gkv m) = 0 then Some ((), s)
      else do { (_, s) \<leftarrow> ecall E (GSL_GET_GRAPH_ALIAS (gkvs m)) s; Some ((), s) })"

text \<open>The answer of the second query overwrites the first; NULL is \<open>None\<close>.\<close>

definition get_tags_with_module_info ::
    "env \<Rightarrow> agm_meta_data_gsl \<Rightarrow> 'z world_scheme \<Rightarrow>
       ((int \<times> tag_module_entry list option) \<times> 'z world_scheme) option" where
  "get_tags_with_module_info E m s = do {
     (ok, s) \<leftarrow> calloc E s;
     if \<not> ok then Some ((- ENOMEM, None), s) else do {
     (r, s) \<leftarrow> ecall E (GSL_GET_TAGS_WITH_MODULE_INFO (gkvs m) 1024) s;
     let ret = lnx E r;
     if ret = 0 then Some ((0, Some (ext_tags E (hist s) (gkvs m))), s)
     else if ret = - ENODATA then do {
       let n = unat (fst (ext_xfer E (hist s)));
       (ok, s) \<leftarrow> calloc E s;
       if \<not> ok then Some ((- ENOMEM, None), s) else do {
       (r, s) \<leftarrow> ecall E (GSL_GET_TAGS_WITH_MODULE_INFO (gkvs m) n) s;
       if r \<noteq> 0 then Some ((lnx E r, None), s)
       else Some ((0, Some (ext_tags E (hist s) (gkvs m))), s) }}
     else Some ((ret, None), s) }}"

fun add_to_list :: "env \<Rightarrow> nat \<Rightarrow> 'z world_scheme \<Rightarrow> (int \<times> 'z world_scheme) option" where
  "add_to_list E 0 s = Some (0, s)"
| "add_to_list E (Suc n) s = do {
     (ok, s) \<leftarrow> calloc E s;
     if \<not> ok then Some (- ENOMEM, s) else add_to_list E n s }"

text \<open>A copy of the graph key vector of the metadata.\<close>

definition copy_gkv ::
    "env \<Rightarrow> agm_meta_data_gsl \<Rightarrow> 'z world_scheme \<Rightarrow> (key_value list option \<times> 'z world_scheme) option" where
  "copy_gkv E m s = do {
     (ok, s) \<leftarrow> calloc E s;
     if \<not> ok then Some (None, s) else do {
     (ok, s) \<leftarrow> calloc E s;
     if \<not> ok then Some (None, s)
     else if arr_ok (num_kvs (gkv m)) (kv (gkv m)) then Some (Some (gkvs m), s) else None }}"

text \<open>
  The loop over the tags. The first component is the value to return when the loop jumps to
  \<open>free_graph_obj\<close>; a tag with more than one module jumps there without setting
  \<open>ret\<close>. A matching tag without modules is read behind its entry.
\<close>

fun open_tags ::
    "env \<Rightarrow> agm_meta_data_gsl \<Rightarrow> nat option \<Rightarrow> tag_module_entry list \<Rightarrow> module_info list \<Rightarrow>
       'z world_scheme \<Rightarrow> ((int option \<times> module_info list) \<times> 'z world_scheme) option" where
  "open_tags E m dev [] mods s = Some ((None, mods), s)"
| "open_tags E m dev ((tag, ids) # es) mods s =
     (case find (\<lambda>x. m_tag x = tag) (stream_module_list E) of
        Some x \<Rightarrow>
          if length ids > 1 then Some ((Some 0, mods), s)
          else do {
            (ok, s) \<leftarrow> calloc E s;
            if \<not> ok then Some ((Some (- ENOMEM), mods), s)
            else case ids of [] \<Rightarrow> None
              | (mid, miid) # _ \<Rightarrow>
                open_tags E m dev es (mods @ [x\<lparr>m_mid := mid, m_miid := miid, m_gkv := None\<rparr>]) s }
      | None \<Rightarrow>
        (case (dev, find (\<lambda>x. m_tag x = tag) (hw_ep_module E)) of
           (Some d, Some x) \<Rightarrow>
             if length ids > 1 then Some ((Some 0, mods), s)
             else do {
               (ok, s) \<leftarrow> calloc E s;
               if \<not> ok then Some ((Some (- ENOMEM), mods), s)
               else case ids of [] \<Rightarrow> None
                 | (mid, miid) # _ \<Rightarrow> do {
                   (kvs, s) \<leftarrow> copy_gkv E m s;
                   case kvs of None \<Rightarrow> Some ((Some (- ENOMEM), mods), s)
                   | Some l \<Rightarrow> open_tags E m dev es
                       (mods @ [x\<lparr>m_mid := mid, m_miid := miid, m_dev := Some d, m_gkv := Some l\<rparr>]) s }}
         | _ \<Rightarrow> open_tags E m dev es mods s))"

text \<open>The modules of the graph; the first component as above.\<close>

definition open_modules ::
    "env \<Rightarrow> 'c stream_cfg_scheme \<Rightarrow> agm_meta_data_gsl \<Rightarrow> nat option \<Rightarrow> 'z world_scheme \<Rightarrow>
       ((int option \<times> module_info list) \<times> 'z world_scheme) option" where
  "open_modules E cfg m dev s =
     (if sc_sess_mode (stream_config cfg) = AGM_SESSION_NO_CONFIG then Some ((None, []), s)
      else do {
      ((ret, tags), s) \<leftarrow> get_tags_with_module_info E m s;
      case tags of
        None \<Rightarrow> Some ((Some ret, []), s)
      | Some es \<Rightarrow>
        if ret \<noteq> 0 then Some ((Some ret, []), s) else do {
        (ret, s) \<leftarrow> add_to_list E (length (stream_module_list E)) s;
        if ret \<noteq> 0 then Some ((Some ret, []), s) else do {
        (ret, s) \<leftarrow> add_to_list E (length (hw_ep_module E)) s;
        if ret \<noteq> 0 then Some ((Some ret, []), s) else open_tags E m dev es [] s }}})"

text \<open>The second component is the value stored in \<open>*gph_obj\<close>; \<open>None\<close> says
  that nothing was stored.\<close>

definition graph_open ::
    "env \<Rightarrow> 'c stream_cfg_scheme \<Rightarrow> agm_meta_data_gsl option \<Rightarrow> nat option \<Rightarrow> 'z world_scheme \<Rightarrow>
       ((int \<times> graph_obj option) \<times> 'z world_scheme) option" where
  "graph_open E cfg mp dev s =
     (case mp of None \<Rightarrow> Some ((- EINVAL, None), s)
      | Some m \<Rightarrow> do {
        (ok, s) \<leftarrow> calloc E s;
        if \<not> ok then Some ((- ENOMEM, None), s) else do {
        (_, s) \<leftarrow> print_graph_alias E m s;
        ((jump, mods), s) \<leftarrow> open_modules E cfg m dev s;
        case jump of Some ret \<Rightarrow> Some ((ret, None), s)
        | None \<Rightarrow> do {
          (ret, s) \<leftarrow> ecall E (GSL_OPEN (gkvs m) (ckvs m)) s;
          if ret \<noteq> 0 then Some ((lnx E ret, None), s) else do {
          let h = ext_handle E (hist s);
          (ret, s) \<leftarrow> ecall E (GSL_REGISTER_EVENT_CB h) s;
          if ret \<noteq> 0 then do { (_, s) \<leftarrow> ecall E (GSL_CLOSE h) s; Some ((lnx E ret, None), s) }
          else Some ((0, Some \<lparr>g_state = OPENED, g_handle = h, g_mods = mods, g_cb = None,
                               g_spr_miid = 0, g_buf_timestamp = 0,
                               g_is_config_buf_params_done = False\<rparr>), s) }}}})"

definition graph_close ::
    "env \<Rightarrow> graph_obj option \<Rightarrow> 'z world_scheme \<Rightarrow> (int \<times> 'z world_scheme) option" where
  "graph_close E gp s =
     (case gp of None \<Rightarrow> Some (- EINVAL, s)
      | Some g \<Rightarrow> do {
        (ret, s) \<leftarrow> ecall E (GSL_CLOSE (g_handle g)) s;
        Some (if ret \<noteq> 0 then lnx E ret else ret, s) })"

section \<open>Configuring and running\<close>

definition gsl_mode :: "agm_data_mode \<Rightarrow> gsl_data_mode" where
  "gsl_mode m = (case m of AGM_DATA_EXTERN_MEM \<Rightarrow> GSL_DATA_MODE_EXTERN_MEM
                 | AGM_DATA_NON_BLOCKING \<Rightarrow> GSL_DATA_MODE_NON_BLOCKING
                 | _ \<Rightarrow> GSL_DATA_MODE_BLOCKING)"

definition non_tunnel_params ::
    "env \<Rightarrow> 'c stream_cfg_scheme \<Rightarrow> bool \<Rightarrow> gsl_cmd_configure_read_write_params" where
  "non_tunnel_params E cfg rd =
     (let sc = stream_config cfg; bc = (if rd then in_buffer_config cfg else out_buffer_config cfg)
      in \<lparr>rw_start_threshold = sc_start_threshold sc, rw_stop_threshold = sc_stop_threshold sc,
          rw_buff_size = ucast (bc_size bc), rw_num_buffs = bc_count bc,
          rw_max_metadata_size = bc_max_metadata_size bc, rw_attributes = gsl_mode (sc_data_mode sc),
          rw_shmem_ep_tag = (if rd then RD_SHMEM_ENDPOINT E else WR_SHMEM_ENDPOINT E)\<rparr>)"

definition tunnel_params ::
    "env \<Rightarrow> 'c stream_cfg_scheme \<Rightarrow> gsl_cmd_configure_read_write_params" where
  "tunnel_params E cfg =
     (let sc = stream_config cfg; mode = sc_data_mode sc;
          bc = (if sc_dir sc = TX then in_buffer_config cfg else out_buffer_config cfg);
          pp = (mode = AGM_DATA_PUSH_PULL)
      in \<lparr>rw_start_threshold = sc_start_threshold sc, rw_stop_threshold = sc_stop_threshold sc,
          rw_buff_size = (if pp then ucast (ucast (bc_count bc) * bc_size bc) else ucast (bc_size bc)),
          rw_num_buffs = (if pp then 1 else bc_count bc),
          rw_max_metadata_size = 0,
          rw_attributes = (if pp then GSL_DATA_MODE_PUSH_PULL else gsl_mode mode),
          rw_shmem_ep_tag = (if pp then SHMEM_ENDPOINT E
             else if sc_sess_mode sc = AGM_SESSION_COMPRESS \<and> sc_dir sc = TX then RD_SHMEM_ENDPOINT E
             else SHMEM_ENDPOINT E)\<rparr>)"

definition configure_buffer_params ::
    "env \<Rightarrow> 'c stream_cfg_scheme \<Rightarrow> graph_obj \<Rightarrow> 'z world_scheme \<Rightarrow>
       ((int \<times> graph_obj) \<times> 'z world_scheme) option" where
  "configure_buffer_params E cfg g s =
     (if g_is_config_buf_params_done g then Some ((0, g), s) else do {
      (ret, s) \<leftarrow>
        (if is_non_tunnel cfg then do {
           (ret, s) \<leftarrow> ecall E (GSL_IOCTL (g_handle g)
                         (GSL_CMD_CONFIGURE_READ_PARAMS (non_tunnel_params E cfg True))) s;
           if ret \<noteq> 0 then Some (ret, s)
           else ecall E (GSL_IOCTL (g_handle g)
                  (GSL_CMD_CONFIGURE_WRITE_PARAMS (non_tunnel_params E cfg False))) s }
         else if sc_dir (stream_config cfg) = RX
         then ecall E (GSL_IOCTL (g_handle g) (GSL_CMD_CONFIGURE_WRITE_PARAMS (tunnel_params E cfg))) s
         else ecall E (GSL_IOCTL (g_handle g) (GSL_CMD_CONFIGURE_READ_PARAMS (tunnel_params E cfg))) s);
      if ret \<noteq> 0 then Some ((lnx E ret, g), s)
      else Some ((0, g\<lparr>g_is_config_buf_params_done := True\<rparr>), s) })"

text \<open>A loop over the module list, by position, with a body that returns a result, whether
  the module now counts as configured, and the graph.\<close>

definition mark_configured :: "nat \<Rightarrow> graph_obj \<Rightarrow> graph_obj" where
  "mark_configured i g =
     g\<lparr>g_mods := (g_mods g)[i := (g_mods g ! i)\<lparr>m_is_configured := True\<rparr>]\<rparr>"

fun mods_loop ::
    "(module_info \<Rightarrow> graph_obj \<Rightarrow> 's \<Rightarrow> ((int \<times> bool \<times> graph_obj) \<times> 's) option) \<Rightarrow> nat list \<Rightarrow>
       graph_obj \<Rightarrow> 's \<Rightarrow> ((int \<times> graph_obj) \<times> 's) option" where
  "mods_loop body [] g s = Some ((0, g), s)"
| "mods_loop body (i # is) g s = do {
     ((ret, conf, g), s) \<leftarrow> body (g_mods g ! i) g s;
     if ret \<noteq> 0 then Some ((ret, g), s)
     else mods_loop body is (if conf then mark_configured i g else g) s }"

definition is_hw_ep :: "env \<Rightarrow> module_info \<Rightarrow> bool" where
  "is_hw_ep E m \<longleftrightarrow> m_tag m = DEVICE_HW_ENDPOINT_RX E \<or> m_tag m = DEVICE_HW_ENDPOINT_TX E"

definition dev_running :: "env \<Rightarrow> module_info \<Rightarrow> 'z dev_world_scheme \<Rightarrow> bool" where
  "dev_running E m s \<longleftrightarrow> m_dev m \<noteq> None \<and> is_hw_ep E m \<and> device_get_start_refcnt (m_dev m) s > 0"

definition call_configure ::
    "env \<Rightarrow> 'c stream_cfg_scheme \<Rightarrow> configure_fn \<Rightarrow> module_info \<Rightarrow> graph_obj \<Rightarrow> 'z dev_world_scheme \<Rightarrow>
       ((int \<times> bool \<times> graph_obj) \<times> 'z dev_world_scheme) option" where
  "call_configure E cfg f m g s = do {
     ((ret, g), s) \<leftarrow> configure E cfg f m g s; Some ((ret, True, g), s) }"

definition prepare_module ::
    "env \<Rightarrow> 'c stream_cfg_scheme \<Rightarrow> module_info \<Rightarrow> graph_obj \<Rightarrow> 'z dev_world_scheme \<Rightarrow>
       ((int \<times> bool \<times> graph_obj) \<times> 'z dev_world_scheme) option" where
  "prepare_module E cfg m g s =
     (let sc = stream_config cfg in
      if m_is_configured m \<and> \<not> is_hw_ep E m then Some ((0, False, g), s)
      else if \<not> m_is_configured m \<and> m_tag m = STREAM_INPUT_MEDIA_FORMAT E
              \<and> sc_sess_mode sc = AGM_SESSION_NO_HOST
      then Some ((- EINVAL, False, g), s)
      else if \<not> m_is_configured m \<and>
              (m_tag m = STREAM_PCM_DECODER E \<and> sc_dir sc = TX
               \<or> m_tag m = STREAM_PCM_ENCODER E \<and> sc_dir sc = RX)
      then Some ((- EINVAL, False, g), s)
      else case m_configure m of None \<Rightarrow> Some ((0, False, g), s)
           | Some f \<Rightarrow> if dev_running E m s then Some ((0, True, g), s)
                       else call_configure E cfg f m g s)"

definition graph_prepare ::
    "env \<Rightarrow> 'c stream_cfg_scheme \<Rightarrow> graph_obj option \<Rightarrow> 'z dev_world_scheme \<Rightarrow>
       ((int \<times> graph_obj option) \<times> 'z dev_world_scheme) option" where
  "graph_prepare E cfg gp s =
     (case gp of None \<Rightarrow> Some ((- EINVAL, None), s)
      | Some g \<Rightarrow>
        if g_state g = PREPARED then Some ((0, Some g), s) else do {
        ((ret, g), s) \<leftarrow> mods_loop (prepare_module E cfg) [0..<length (g_mods g)] g s;
        if ret \<noteq> 0 then Some ((ret, Some g), s) else do {
        ((ret, g), s) \<leftarrow>
          (if sc_sess_mode (stream_config cfg) \<notin> {AGM_SESSION_NO_HOST, AGM_SESSION_NO_CONFIG}
           then configure_buffer_params E cfg g s else Some ((0, g), s));
        if ret \<noteq> 0 then Some ((ret, Some g), s) else do {
        (ret, s) \<leftarrow> ecall E (GSL_IOCTL (g_handle g) GSL_CMD_PREPARE) s;
        if ret \<noteq> 0 then Some ((lnx E ret, Some g), s)
        else Some ((0, Some (g\<lparr>g_state := PREPARED\<rparr>)), s) }}})"

definition graph_start ::
    "env \<Rightarrow> graph_obj option \<Rightarrow> 'z world_scheme \<Rightarrow> ((int \<times> graph_obj option) \<times> 'z world_scheme) option" where
  "graph_start E gp s =
     (case gp of None \<Rightarrow> Some ((- EINVAL, None), s)
      | Some g \<Rightarrow> do {
        (ret, s) \<leftarrow> ecall E (GSL_IOCTL (g_handle g) GSL_CMD_START) s;
        if ret \<noteq> 0 then Some ((lnx E ret, Some g), s)
        else Some ((0, Some (g\<lparr>g_state := STARTED\<rparr>)), s) })"

definition cmd_properties :: "agm_meta_data_gsl \<Rightarrow> gsl_cmd_properties" where
  "cmd_properties m = \<lparr>gp_gkv = gkvs m, gp_property_id = prop_id (sg_props m),
                       gp_property_values = props m\<rparr>"

definition graph_stop ::
    "env \<Rightarrow> graph_obj option \<Rightarrow> agm_meta_data_gsl option \<Rightarrow> 'z world_scheme \<Rightarrow>
       ((int \<times> graph_obj option) \<times> 'z world_scheme) option" where
  "graph_stop E gp mp s =
     (case gp of None \<Rightarrow> Some ((- EINVAL, None), s)
      | Some g \<Rightarrow>
        if g_state g AND CLOSED \<noteq> 0 then Some ((- EINVAL, Some g), s)
        else case mp of
          Some m \<Rightarrow> do {
            (_, s) \<leftarrow> (if g_state g AND STARTED \<noteq> 0
               then ecall E (GSL_IOCTL (g_handle g) (GSL_CMD_STOP (Some (cmd_properties m)))) s
               else Some (0, s));
            (ret, s) \<leftarrow> ecall E (GSL_IOCTL (g_handle g) (GSL_CMD_CLOSE_WITH_PROPS (cmd_properties m))) s;
            Some ((if ret \<noteq> 0 then lnx E ret else ret, Some g), s) }
        | None \<Rightarrow>
            if g_state g AND STOPPED \<noteq> 0 then Some ((0, Some g), s)
            else do {
              (ret, s) \<leftarrow> ecall E (GSL_IOCTL (g_handle g) (GSL_CMD_STOP None)) s;
              Some ((if ret \<noteq> 0 then lnx E ret else ret, Some (g\<lparr>g_state := STOPPED\<rparr>)), s) })"

definition graph_pause_resume ::
    "env \<Rightarrow> graph_obj option \<Rightarrow> bool \<Rightarrow> 'z world_scheme \<Rightarrow> (int \<times> 'z world_scheme) option" where
  "graph_pause_resume E gp pause s =
     (case gp of None \<Rightarrow> Some (- EINVAL, s)
      | Some g \<Rightarrow>
        (case find (\<lambda>m. m_tag m = TAG_PAUSE E) (g_mods g) of
           None \<Rightarrow> Some (0, s)
         | Some m \<Rightarrow> do {
             (ok, s) \<leftarrow> calloc E s;
             if \<not> ok then Some (- ENOMEM, s)
             else set_param E g (m_miid m)
                    (if pause then PARAM_ID_SOFT_PAUSE_START else PARAM_ID_SOFT_PAUSE_RESUME) s }))"

definition graph_ioctl ::
    "env \<Rightarrow> graph_obj option \<Rightarrow> gsl_cmd \<Rightarrow> 'z world_scheme \<Rightarrow> (int \<times> 'z world_scheme) option" where
  "graph_ioctl E gp cmd s =
     (case gp of None \<Rightarrow> Some (- EINVAL, s)
      | Some g \<Rightarrow> do {
        (ret, s) \<leftarrow> ecall E (GSL_IOCTL (g_handle g) cmd) s;
        Some (if ret \<noteq> 0 then lnx E ret else ret, s) })"

definition graph_pause where "graph_pause E gp s = graph_pause_resume E gp True s"
definition graph_resume where "graph_resume E gp s = graph_pause_resume E gp False s"
definition graph_flush where "graph_flush E gp s = graph_ioctl E gp GSL_CMD_FLUSH s"
definition graph_suspend where "graph_suspend E gp s = graph_ioctl E gp GSL_CMD_SUSPEND s"

definition graph_eos ::
    "env \<Rightarrow> graph_obj option \<Rightarrow> 'z world_scheme \<Rightarrow> (int \<times> 'z world_scheme) option" where
  "graph_eos E gp s =
     (case gp of None \<Rightarrow> Some (- EINVAL, s)
      | Some g \<Rightarrow> do {
        (ret, s) \<leftarrow> ecall E (GSL_IOCTL (g_handle g) GSL_CMD_EOS) s; Some (lnx E ret, s) })"

section \<open>Parameters and calibration\<close>

definition graph_set_config ::
    "env \<Rightarrow> graph_obj option \<Rightarrow> u8 list \<Rightarrow> 'z world_scheme \<Rightarrow> (int \<times> 'z world_scheme) option" where
  "graph_set_config E gp payload s =
     (case gp of None \<Rightarrow> Some (- EINVAL, s)
      | Some g \<Rightarrow> do {
        (ret, s) \<leftarrow> ecall E (GSL_SET_CUSTOM_CONFIG (g_handle g) (RAW_CONFIG payload)) s;
        Some (if ret \<noteq> 0 then lnx E ret else ret, s) })"

definition graph_get_config ::
    "env \<Rightarrow> graph_obj option \<Rightarrow> u8 list \<Rightarrow> 'z world_scheme \<Rightarrow> (int \<times> 'z world_scheme) option" where
  "graph_get_config E gp payload s =
     (case gp of None \<Rightarrow> Some (- EINVAL, s)
      | Some g \<Rightarrow> do {
        (ret, s) \<leftarrow> ecall E (GSL_GET_CUSTOM_CONFIG (g_handle g) (RAW_CONFIG payload)) s;
        Some (if ret \<noteq> 0 then lnx E ret else ret, s) })"

definition graph_set_config_with_tag ::
    "env \<Rightarrow> graph_obj option \<Rightarrow> key_value list \<Rightarrow> agm_tag_config \<Rightarrow> 'z world_scheme \<Rightarrow>
       (int \<times> 'z world_scheme) option" where
  "graph_set_config_with_tag E gp kvs tc s =
     (case gp of None \<Rightarrow> Some (- EINVAL, s)
      | Some g \<Rightarrow> do {
        (ret, s) \<leftarrow> ecall E (GSL_SET_CONFIG (g_handle g) (Some kvs) (tc_tag tc) (tc_kv tc)) s;
        Some (if ret \<noteq> 0 then lnx E ret else ret, s) })"

definition graph_set_cal ::
    "env \<Rightarrow> graph_obj option \<Rightarrow> agm_meta_data_gsl \<Rightarrow> 'z world_scheme \<Rightarrow> (int \<times> 'z world_scheme) option" where
  "graph_set_cal E gp m s =
     (case gp of None \<Rightarrow> Some (- EINVAL, s)
      | Some g \<Rightarrow> do {
        (ret, s) \<leftarrow> ecall E (GSL_SET_CAL (g_handle g) (gkvs m) (ckvs m)) s;
        Some (if ret \<noteq> 0 then lnx E ret else ret, s) })"

text \<open>Wrappers that pass the code of GSL on as it is.\<close>

definition graph_set_tag_data_to_acdb where
  "graph_set_tag_data_to_acdb E kvs tag tkvs payload s =
     ecall E (GSL_SET_TAG_DATA_TO_ACDB kvs tag tkvs payload) s"

definition graph_set_cal_data_to_acdb where
  "graph_set_cal_data_to_acdb E kvs cal payload s =
     ecall E (GSL_SET_CAL_DATA_TO_ACDB kvs cal payload) s"

definition graph_enable_acdb_persistence where
  "graph_enable_acdb_persistence E s = ecall E GSL_ENABLE_ACDB_PERSISTENCE s"

definition graph_get_tags_with_module_info ::
    "env \<Rightarrow> agm_meta_data_gsl \<Rightarrow> nat \<Rightarrow> 'z world_scheme \<Rightarrow> (int \<times> 'z world_scheme) option" where
  "graph_get_tags_with_module_info E m len s = do {
     (ret, s) \<leftarrow> ecall E (GSL_GET_TAGS_WITH_MODULE_INFO (gkvs m) len) s; Some (lnx E ret, s) }"

section \<open>Data path\<close>

text \<open>The new value of \<open>*size\<close> is the (signed) number of bytes read, as a
  \<open>size_t\<close>.\<close>

definition graph_read ::
    "env \<Rightarrow> 'c stream_cfg_scheme \<Rightarrow> graph_obj option \<Rightarrow> agm_buff \<Rightarrow> 'z world_scheme \<Rightarrow>
       ((int \<times> u64 option \<times> graph_obj option) \<times> 'z world_scheme) option" where
  "graph_read E cfg gp buf s =
     (case gp of None \<Rightarrow> Some ((- EINVAL, None, None), s)
      | Some g \<Rightarrow> do {
        let sc = stream_config cfg;
        (ret, s) \<leftarrow> ecall E (GSL_READ (g_handle g)
           (if is_non_tunnel cfg \<or> sc_sess_mode sc = AGM_SESSION_COMPRESS \<and> sc_dir sc = TX
            then RD_SHMEM_ENDPOINT E else SHMEM_ENDPOINT E) buf) s;
        let n = fst (ext_xfer E (hist s));
        Some ((if ret \<noteq> 0 \<or> n = 0 \<and> sc_sess_mode sc \<noteq> AGM_SESSION_NON_TUNNEL then lnx E ret else ret,
               Some (scast n), Some (g\<lparr>g_buf_timestamp := snd (ext_xfer E (hist s))\<rparr>)), s) })"

definition graph_get_hw_processed_buff_cnt :: "graph_obj option \<Rightarrow> nat" where
  "graph_get_hw_processed_buff_cnt gp = (case gp of None \<Rightarrow> 0 | Some _ \<Rightarrow> 2)"

definition graph_get_session_time ::
    "env \<Rightarrow> graph_obj option \<Rightarrow> 'z world_scheme \<Rightarrow> ((int \<times> u64 option) \<times> 'z world_scheme) option" where
  "graph_get_session_time E gp s =
     (case gp of None \<Rightarrow> Some ((- EINVAL, None), s)
      | Some g \<Rightarrow>
        if g_state g AND STARTED = 0 \<or> g_spr_miid g = 0 then Some ((0, None), s)
        else do {
          (ok, s) \<leftarrow> calloc E s;
          if \<not> ok then Some ((0, None), s) else do {
          (ret, s) \<leftarrow> ecall E (GSL_GET_CUSTOM_CONFIG (g_handle g)
                        (MODULE_CONFIG (g_spr_miid g) PARAM_ID_SPR_SESSION_TIME)) s;
          if ret \<noteq> 0 then Some ((lnx E ret, None), s)
          else Some ((0, Some (push_bit 32 (ucast (ext_word E (hist s) 0))
                               OR ucast (ext_word E (hist s) 1))), s) }})"

definition graph_get_buffer_timestamp :: "graph_obj option \<Rightarrow> int \<times> u64 option" where
  "graph_get_buffer_timestamp gp =
     (case gp of None \<Rightarrow> (- EINVAL, None)
      | Some g \<Rightarrow> if g_state g AND STARTED = 0 then (- EINVAL, None)
                  else (0, Some (g_buf_timestamp g)))"

record agm_buf_info =
  data_buf_fd :: u32
  data_buf_size :: u32
  pos_buf_fd :: u32
  pos_buf_size :: u32

definition graph_fill_buf_info ::
    "env \<Rightarrow> graph_obj \<Rightarrow> agm_buf_info \<Rightarrow> gsl_cmd \<Rightarrow> bool \<Rightarrow> 'z world_scheme \<Rightarrow>
       ((int \<times> agm_buf_info) \<times> 'z world_scheme) option" where
  "graph_fill_buf_info E g bi cmd data s = do {
     (ok, s) \<leftarrow> calloc E s;
     if \<not> ok then Some ((- ENOMEM, bi), s) else do {
     (ok, s) \<leftarrow> calloc E s;
     if \<not> ok then Some ((- ENOMEM, bi), s) else do {
     (ret, s) \<leftarrow> ecall E (GSL_IOCTL (g_handle g) cmd) s;
     if ret \<noteq> 0 then Some ((ret, bi), s)
     else if ext_handle E (hist s) = 0 then Some ((0, bi), s)
     else let fd = ext_word E (hist s) 0; n = ext_word E (hist s) 1
          in Some ((0, if data then bi\<lparr>data_buf_fd := fd, data_buf_size := n\<rparr>
                       else bi\<lparr>pos_buf_fd := fd, pos_buf_size := n\<rparr>), s) }}}"

definition graph_get_buf_info ::
    "env \<Rightarrow> 'c stream_cfg_scheme \<Rightarrow> graph_obj option \<Rightarrow> agm_buf_info \<Rightarrow> u32 \<Rightarrow> 'z world_scheme \<Rightarrow>
       ((int \<times> agm_buf_info \<times> graph_obj option) \<times> 'z world_scheme) option" where
  "graph_get_buf_info E cfg gp bi flag s =
     (case gp of None \<Rightarrow> Some ((- EINVAL, bi, None), s)
      | Some g \<Rightarrow>
        let sc = stream_config cfg;
            bc = (if sc_dir sc = TX then in_buffer_config cfg else out_buffer_config cfg)
        in if bc_count bc = 0 \<or> bc_size bc = 0 then Some ((- EINVAL, bi, Some g), s)
        else do {
          ((_, g), s) \<leftarrow> configure_buffer_params E cfg g s;
          ((ret, bi), s) \<leftarrow> (if flag AND 1 \<noteq> 0
             then graph_fill_buf_info E g bi (if sc_dir sc = RX then GSL_CMD_GET_WRITE_BUFF_INFO
                    else GSL_CMD_GET_READ_BUFF_INFO) True s
             else Some ((- EINVAL, bi), s));
          ((ret, bi), s) \<leftarrow> (if flag AND 2 \<noteq> 0
             then graph_fill_buf_info E g bi (if sc_dir sc = RX then GSL_CMD_GET_WRITE_POS_BUFF_INFO
                    else GSL_CMD_GET_READ_POS_BUFF_INFO) False s
             else Some ((ret, bi), s));
          Some ((ret, bi, Some g), s) })"

definition graph_set_gapless_metadata ::
    "env \<Rightarrow> graph_obj option \<Rightarrow> agm_gapless_silence_type \<Rightarrow> u32 \<Rightarrow> 'z world_scheme \<Rightarrow>
       (int \<times> 'z world_scheme) option" where
  "graph_set_gapless_metadata E gp ty silence s =
     (case gp of None \<Rightarrow> Some (- EINVAL, s)
      | Some g \<Rightarrow>
        let miid = (case find (\<lambda>m. m_tag m = TAG_STREAM_PLACEHOLDER_DECODER E) (g_mods g) of
                      None \<Rightarrow> 0 | Some m \<Rightarrow> m_miid m)
        in if miid = 0 then Some (- EINVAL, s) else do {
        (ok, s) \<leftarrow> calloc E s;
        if \<not> ok then Some (- ENOMEM, s)
        else ecall E (GSL_SET_CUSTOM_CONFIG (g_handle g) (MODULE_CONFIG miid
               (case ty of INITIAL_SILENCE \<Rightarrow> PARAM_ID_REMOVE_INITIAL_SILENCE silence
                | TRAILING_SILENCE \<Rightarrow> PARAM_ID_REMOVE_TRAILING_SILENCE silence))) s })"

definition is_media_config_needed_on_datapath :: "agm_media_format \<Rightarrow> bool" where
  "is_media_config_needed_on_datapath f =
     (f \<in> {AGM_FORMAT_MP3, AGM_FORMAT_AAC, AGM_FORMAT_FLAC, AGM_FORMAT_ALAC, AGM_FORMAT_APE,
           AGM_FORMAT_WMASTD, AGM_FORMAT_WMAPRO})"

fun datapath_loop ::
    "env \<Rightarrow> 'c stream_cfg_scheme \<Rightarrow> module_info list \<Rightarrow> int \<Rightarrow> graph_obj \<Rightarrow> 'z dev_world_scheme \<Rightarrow>
       ((int \<times> graph_obj) \<times> 'z dev_world_scheme) option" where
  "datapath_loop E cfg [] ret g s = Some ((ret, g), s)"
| "datapath_loop E cfg (m # ms) ret g s =
     (if m_tag m = STREAM_INPUT_MEDIA_FORMAT E
      then case m_configure m of None \<Rightarrow> None
           | Some f \<Rightarrow> do { ((ret, g), s) \<leftarrow> configure E cfg f m g s; datapath_loop E cfg ms ret g s }
      else datapath_loop E cfg ms ret g s)"

text \<open>This function uses the graph before any check.\<close>

definition graph_set_media_config_datapath ::
    "env \<Rightarrow> 'c stream_cfg_scheme \<Rightarrow> graph_obj option \<Rightarrow> 'z dev_world_scheme \<Rightarrow>
       ((int \<times> graph_obj option) \<times> 'z dev_world_scheme) option" where
  "graph_set_media_config_datapath E cfg gp s =
     (case gp of None \<Rightarrow> None
      | Some g \<Rightarrow>
        if is_media_config_needed_on_datapath (mc_format (out_media_config cfg))
        then do { ((ret, g), s) \<leftarrow> datapath_loop E cfg (g_mods g) 0 g s; Some ((ret, Some g), s) }
        else Some ((0, Some g), s))"

section \<open>Changing the device legs of a graph\<close>

text \<open>The endpoint module of the device's direction, and its instance in the new subgraph.\<close>

definition dev_hw_module :: "env \<Rightarrow> nat \<Rightarrow> 'z dev_world_scheme \<Rightarrow> module_info" where
  "dev_hw_module E d s =
     (if dir (hw_ep (devs s d)) = AUDIO_OUTPUT then hw_ep_module E ! 0 else hw_ep_module E ! 1)"

fun reset_first :: "u32 \<Rightarrow> module_info list \<Rightarrow> bool \<times> module_info list" where
  "reset_first miid [] = (False, [])"
| "reset_first miid (m # ms) =
     (if m_miid m = miid then (True, m\<lparr>m_is_configured := False\<rparr> # ms)
      else case reset_first miid ms of (found, ms') \<Rightarrow> (found, m # ms'))"

text \<open>Appending the module of a new device. When the copy of the key vector cannot be made
  the module stays in the list, without one.\<close>

definition add_dev_module ::
    "env \<Rightarrow> agm_meta_data_gsl \<Rightarrow> nat \<Rightarrow> u32 \<Rightarrow> u32 \<Rightarrow> graph_obj \<Rightarrow> 'z dev_world_scheme \<Rightarrow>
       ((int \<times> graph_obj) \<times> 'z dev_world_scheme) option" where
  "add_dev_module E m d mid miid g s = do {
     let x = (dev_hw_module E d s)\<lparr>m_mid := mid, m_miid := miid, m_dev := Some d\<rparr>;
     (ok, s) \<leftarrow> calloc E s;
     if \<not> ok then Some ((- ENOMEM, g), s) else do {
     (kvs, s) \<leftarrow> copy_gkv E m s;
     let g = g\<lparr>g_mods := g_mods g @ [x\<lparr>m_gkv := kvs\<rparr>]\<rparr>;
     Some ((if kvs = None then - ENOMEM else 0, g), s) }}"

definition add_module_cfg ::
    "env \<Rightarrow> 'c stream_cfg_scheme \<Rightarrow> module_info \<Rightarrow> graph_obj \<Rightarrow> 'z dev_world_scheme \<Rightarrow>
       ((int \<times> bool \<times> graph_obj) \<times> 'z dev_world_scheme) option" where
  "add_module_cfg E cfg m g s =
     (if m_is_configured m \<and> m_tag m \<noteq> TAG_STREAM_SPR then Some ((0, False, g), s)
      else if dev_running E m s then Some ((0, True, g), s)
      else case m_configure m of None \<Rightarrow> Some ((0, False, g), s)
           | Some f \<Rightarrow> call_configure E cfg f m g s)"

definition graph_add ::
    "env \<Rightarrow> 'c stream_cfg_scheme \<Rightarrow> graph_obj option \<Rightarrow> agm_meta_data_gsl \<Rightarrow> nat option \<Rightarrow>
       'z dev_world_scheme \<Rightarrow> ((int \<times> graph_obj option) \<times> 'z dev_world_scheme) option" where
  "graph_add E cfg gp m dev s =
     (case gp of None \<Rightarrow> Some ((- EINVAL, None), s)
      | Some g \<Rightarrow>
        if g_state g < OPENED then Some ((- EINVAL, Some g), s) else do {
        (_, s) \<leftarrow> print_graph_alias E m s;
        (ret, s) \<leftarrow> ecall E (GSL_IOCTL (g_handle g) (GSL_CMD_ADD_GRAPH (gkvs m) (ckvs m))) s;
        if ret \<noteq> 0 then Some ((lnx E ret, Some g), s) else do {
        ((ret, g), s) \<leftarrow> (case dev of None \<Rightarrow> Some ((0, g), s)
          | Some d \<Rightarrow> do {
            let tag = m_tag (dev_hw_module E d s);
            (ret, s) \<leftarrow> ecall E (GSL_GET_TAGGED_MODULE_INFO (gkvs m) tag) s;
            if ret \<noteq> 0 then Some ((lnx E ret, g), s)
            else case ext_tagged E (hist s) (gkvs m) tag of (mid, miid) \<Rightarrow>
              case reset_first miid (g_mods g) of (found, ms) \<Rightarrow>
              if found then Some ((0, g\<lparr>g_mods := ms\<rparr>), s)
              else add_dev_module E m d mid miid g s });
        if ret \<noteq> 0 then Some ((ret, Some g), s)
        else if g_state g AND (STARTED OR PREPARED) = 0 then Some ((0, Some g), s)
        else do {
          ((ret, g), s) \<leftarrow> mods_loop (add_module_cfg E cfg) [0..<length (g_mods g)] g s;
          Some ((ret, Some g), s) }}})"

definition change_module_cfg ::
    "env \<Rightarrow> 'c stream_cfg_scheme \<Rightarrow> module_info \<Rightarrow> graph_obj \<Rightarrow> 'z dev_world_scheme \<Rightarrow>
       ((int \<times> bool \<times> graph_obj) \<times> 'z dev_world_scheme) option" where
  "change_module_cfg E cfg m g s =
     (case m_configure m of
        Some f \<Rightarrow> if \<not> m_is_configured m \<and> m_dev m \<noteq> None \<and> device_get_start_refcnt (m_dev m) s = 0
                  then call_configure E cfg f m g s else Some ((0, False, g), s)
      | None \<Rightarrow> Some ((0, False, g), s))"

definition graph_change ::
    "env \<Rightarrow> 'c stream_cfg_scheme \<Rightarrow> graph_obj option \<Rightarrow> agm_meta_data_gsl \<Rightarrow> nat option \<Rightarrow>
       'z dev_world_scheme \<Rightarrow> ((int \<times> graph_obj option) \<times> 'z dev_world_scheme) option" where
  "graph_change E cfg gp m dev s =
     (case gp of None \<Rightarrow> Some ((- EINVAL, None), s)
      | Some g \<Rightarrow> do {
        ((ret, g), s) \<leftarrow> (case dev of None \<Rightarrow> Some ((0, g), s)
          | Some d \<Rightarrow> do {
            let tag = m_tag (dev_hw_module E d s);
            (ret, s) \<leftarrow> ecall E (GSL_GET_TAGGED_MODULE_INFO (gkvs m) tag) s;
            if ret \<noteq> 0 then Some ((lnx E ret, g), s)
            else case ext_tagged E (hist s) (gkvs m) tag of (mid, miid) \<Rightarrow>
              case reset_first miid (g_mods g) of (found, ms) \<Rightarrow>
              let ms = filter (\<lambda>x. \<not> (is_hw_ep E x \<and> m_miid x \<noteq> miid)) ms; g = g\<lparr>g_mods := ms\<rparr>
              in if found then Some ((0, g), s) else add_dev_module E m d mid miid g s });
        if ret \<noteq> 0 then Some ((ret, Some g), s) else do {
        (_, s) \<leftarrow> print_graph_alias E m s;
        (ret, s) \<leftarrow> ecall E (GSL_IOCTL (g_handle g) (GSL_CMD_CHANGE_GRAPH (gkvs m) (ckvs m))) s;
        if ret \<noteq> 0 then Some ((lnx E ret, Some g), s) else do {
        ((ret, g), s) \<leftarrow> mods_loop (change_module_cfg E cfg) [0..<length (g_mods g)] g s;
        Some ((ret, Some g), s) }}})"

definition graph_remove ::
    "env \<Rightarrow> graph_obj option \<Rightarrow> agm_meta_data_gsl \<Rightarrow> 'z world_scheme \<Rightarrow> (int \<times> 'z world_scheme) option" where
  "graph_remove E gp m s =
     (case gp of None \<Rightarrow> Some (- EINVAL, s)
      | Some g \<Rightarrow> do {
        (_, s) \<leftarrow> print_graph_alias E m s;
        (ret, s) \<leftarrow> ecall E (GSL_IOCTL (g_handle g) (GSL_CMD_REMOVE_GRAPH (gkvs m))) s;
        Some (if ret \<noteq> 0 then lnx E ret else ret, s) })"

section \<open>Events\<close>

definition graph_register_cb :: "graph_obj option \<Rightarrow> nat \<Rightarrow> int \<times> graph_obj option" where
  "graph_register_cb gp client_data =
     (case gp of None \<Rightarrow> (- EINVAL, None) | Some g \<Rightarrow> (0, Some (g\<lparr>g_cb := Some client_data\<rparr>)))"

definition graph_register_for_events ::
    "env \<Rightarrow> graph_obj option \<Rightarrow> agm_event_reg_cfg option \<Rightarrow> 'z world_scheme \<Rightarrow>
       ((int \<times> graph_obj option) \<times> 'z world_scheme) option" where
  "graph_register_for_events E gp ep s =
     (case (gp, ep) of
        (Some g, Some e) \<Rightarrow>
          if g_handle g = 0 then Some ((- EINVAL, Some g), s) else do {
          (ok, s) \<leftarrow> calloc E s;
          if \<not> ok then Some ((- ENOMEM, Some g), s) else do {
          (ret, s) \<leftarrow> ecall E (GSL_IOCTL (g_handle g) (GSL_CMD_REGISTER_CUSTOM_EVENT e)) s;
          Some ((if ret \<noteq> 0 then lnx E ret else ret, Some (g\<lparr>g_buf_timestamp := 0\<rparr>)), s) }}
      | _ \<Rightarrow> Some ((- EINVAL, gp), s))"

section \<open>Graph commands are quiet\<close>

lemma print_graph_alias_quiet [quiet_calls]:
  "quiet E s0 s \<Longrightarrow> wlp (print_graph_alias E m s) (\<lambda>_ t. quiet E s0 t)"
  unfolding print_graph_alias_def by (intro inv_rules quiet_calls) (simp_all add: weightless_def)

lemma copy_gkv_quiet [quiet_calls]:
  "quiet E s0 s \<Longrightarrow> wlp (copy_gkv E m s) (\<lambda>_ t. quiet E s0 t)"
  unfolding copy_gkv_def by (intro inv_rules quiet_calls)

lemma add_to_list_quiet [quiet_calls]:
  "quiet E s0 s \<Longrightarrow> wlp (add_to_list E n s) (\<lambda>_ t. quiet E s0 t)"
proof (induction n arbitrary: s)
  case (Suc n)
  show ?case unfolding add_to_list.simps by (intro inv_rules quiet_calls Suc)
qed (simp add: wlp_simps)

lemma open_tags_quiet [quiet_calls]:
  "quiet E s0 s \<Longrightarrow> wlp (open_tags E m dev es mods s) (\<lambda>_ t. quiet E s0 t)"
proof (induction es arbitrary: mods s)
  case (Cons e es)
  obtain tag ids where e: "e = (tag, ids)" by (cases e)
  show ?case unfolding e open_tags.simps by (intro inv_rules quiet_calls Cons)
qed (simp add: wlp_simps)

lemma open_modules_quiet [quiet_calls]:
  "quiet E s0 s \<Longrightarrow> wlp (open_modules E cfg m dev s) (\<lambda>_ t. quiet E s0 t)"
  unfolding open_modules_def get_tags_with_module_info_def
  by (intro inv_rules quiet_calls) (simp_all add: weightless_def)

lemma configure_buffer_params_quiet [quiet_calls]:
  "quiet E s0 s \<Longrightarrow> wlp (configure_buffer_params E cfg g s) (\<lambda>_ t. quiet E s0 t)"
  unfolding configure_buffer_params_def by (intro inv_rules quiet_calls) (simp_all add: weightless_def)

lemma call_configure_quiet [quiet_calls]:
  "quiet E s0 s \<Longrightarrow> wlp (call_configure E cfg f m g s) (\<lambda>_ t. quiet E s0 t)"
  unfolding call_configure_def by (intro inv_rules quiet_calls)

lemma mods_loop_inv:
  assumes "\<And>m g t. I t \<Longrightarrow> wlp (body m g t) (\<lambda>_ u. I u)" and "I s"
  shows "wlp (mods_loop body is g s) (\<lambda>_ t. I t)"
  using assms(2)
proof (induction "is" arbitrary: g s)
  case (Cons i "is")
  show ?case unfolding mods_loop.simps by (intro inv_rules assms(1) Cons)
qed (simp add: wlp_simps)

lemma graph_prepare_quiet [quiet_calls]:
  "quiet E s0 s \<Longrightarrow> wlp (graph_prepare E cfg gp s) (\<lambda>_ t. quiet E s0 t)"
  unfolding graph_prepare_def prepare_module_def
  by (intro inv_rules mods_loop_inv quiet_calls) (simp_all add: weightless_def)

lemma graph_start_quiet [quiet_calls]:
  "quiet E s0 s \<Longrightarrow> wlp (graph_start E gp s) (\<lambda>_ t. quiet E s0 t)"
  unfolding graph_start_def by (intro inv_rules quiet_calls) (simp_all add: weightless_def)

lemma graph_stop_quiet [quiet_calls]:
  "quiet E s0 s \<Longrightarrow> wlp (graph_stop E gp mp s) (\<lambda>_ t. quiet E s0 t)"
  unfolding graph_stop_def by (intro inv_rules quiet_calls) (simp_all add: weightless_def)

lemma graph_commands_quiet [quiet_calls]:
  assumes "quiet E s0 s"
  shows "wlp (graph_pause_resume E gp b s) (\<lambda>_ t. quiet E s0 t)"
    "wlp (graph_ioctl E gp cmd s) (\<lambda>_ t. quiet E s0 t)"
    "wlp (graph_eos E gp s) (\<lambda>_ t. quiet E s0 t)"
    "wlp (graph_set_config E gp payload s) (\<lambda>_ t. quiet E s0 t)"
    "wlp (graph_get_config E gp payload s) (\<lambda>_ t. quiet E s0 t)"
    "wlp (graph_set_config_with_tag E gp kvs tc s) (\<lambda>_ t. quiet E s0 t)"
    "wlp (graph_set_cal E gp m s) (\<lambda>_ t. quiet E s0 t)"
    "wlp (graph_get_tags_with_module_info E m n s) (\<lambda>_ t. quiet E s0 t)"
    "wlp (graph_get_session_time E gp s) (\<lambda>_ t. quiet E s0 t)"
    "wlp (graph_read E cfg gp buf s) (\<lambda>_ t. quiet E s0 t)"
    "wlp (graph_set_gapless_metadata E gp ty sil s) (\<lambda>_ t. quiet E s0 t)"
    "wlp (graph_remove E gp m s) (\<lambda>_ t. quiet E s0 t)"
    "wlp (graph_register_for_events E gp ep s) (\<lambda>_ t. quiet E s0 t)"
  unfolding graph_pause_resume_def graph_ioctl_def graph_eos_def graph_set_config_def
    graph_get_config_def graph_set_config_with_tag_def graph_set_cal_def
    graph_get_tags_with_module_info_def graph_get_session_time_def graph_read_def
    graph_set_gapless_metadata_def graph_remove_def graph_register_for_events_def
  by (intro inv_rules quiet_calls assms; simp add: weightless_def)+

lemma graph_acdb_quiet [quiet_calls]:
  assumes "quiet E s0 s"
  shows "wlp (graph_set_tag_data_to_acdb E kvs tag tkvs payload s) (\<lambda>_ t. quiet E s0 t)"
    "wlp (graph_set_cal_data_to_acdb E kvs tkvs payload s) (\<lambda>_ t. quiet E s0 t)"
    "wlp (graph_enable_acdb_persistence E s) (\<lambda>_ t. quiet E s0 t)"
  unfolding graph_set_tag_data_to_acdb_def graph_set_cal_data_to_acdb_def graph_enable_acdb_persistence_def
  by (intro inv_rules quiet_calls assms; simp add: weightless_def)+

lemma graph_get_buf_info_quiet [quiet_calls]:
  "quiet E s0 s \<Longrightarrow> wlp (graph_get_buf_info E cfg gp bi flag s) (\<lambda>_ t. quiet E s0 t)"
  unfolding graph_get_buf_info_def graph_fill_buf_info_def
  by (intro inv_rules quiet_calls) (simp_all add: weightless_def)

lemma datapath_loop_quiet [quiet_calls]:
  "quiet E s0 s \<Longrightarrow> wlp (datapath_loop E cfg ms ret g s) (\<lambda>_ t. quiet E s0 t)"
proof (induction ms arbitrary: ret g s)
  case (Cons m ms)
  show ?case unfolding datapath_loop.simps by (intro inv_rules quiet_calls Cons)
qed (simp add: wlp_simps)

lemma graph_set_media_config_datapath_quiet [quiet_calls]:
  "quiet E s0 s \<Longrightarrow> wlp (graph_set_media_config_datapath E cfg gp s) (\<lambda>_ t. quiet E s0 t)"
  unfolding graph_set_media_config_datapath_def by (intro inv_rules quiet_calls)

lemma graph_add_quiet [quiet_calls]:
  "quiet E s0 s \<Longrightarrow> wlp (graph_add E cfg gp m dev s) (\<lambda>_ t. quiet E s0 t)"
  unfolding graph_add_def add_dev_module_def add_module_cfg_def
  by (intro inv_rules mods_loop_inv quiet_calls) (simp_all add: weightless_def)

lemma graph_change_quiet [quiet_calls]:
  "quiet E s0 s \<Longrightarrow> wlp (graph_change E cfg gp m dev s) (\<lambda>_ t. quiet E s0 t)"
  unfolding graph_change_def add_dev_module_def change_module_cfg_def
  by (intro inv_rules mods_loop_inv quiet_calls) (simp_all add: weightless_def)

text \<open>A graph function returns a graph exactly when it was given one.\<close>

lemma graph_stays:
  "wlp (graph_start E gp s) (\<lambda>r t. (snd r = None) = (gp = None))"
  "wlp (graph_stop E gp mp s) (\<lambda>r t. (snd r = None) = (gp = None))"
  "wlp (graph_register_for_events E gp ep s) (\<lambda>r t. (snd r = None) = (gp = None))"
  "wlp (graph_set_media_config_datapath E cfg gp s) (\<lambda>r t. (snd r = None) = (gp = None))"
  "wlp (graph_read E cfg gp buf s) (\<lambda>r t. (snd (snd r) = None) = (gp = None))"
  "wlp (graph_prepare E cfg gp s) (\<lambda>r t. (snd r = None) = (gp = None))"
  "wlp (graph_add E cfg gp m dev s) (\<lambda>r t. (snd r = None) = (gp = None))"
  "wlp (graph_change E cfg gp m dev s) (\<lambda>r t. (snd r = None) = (gp = None))"
  "wlp (graph_get_buf_info E cfg gp bi flag s) (\<lambda>r t. (snd (snd r) = None) = (gp = None))"
  unfolding graph_prepare_def graph_start_def graph_stop_def graph_add_def graph_change_def
    graph_register_for_events_def graph_set_media_config_datapath_def graph_read_def
    graph_get_buf_info_def
  by (intro res_rules; simp)+

end
