(* ===== verification/Session.thy ===== *)
theory Session
  imports Graph
begin

text \<open>
  Model of \<open>service/src/session_obj.c\<close>: the pool of sessions, the audio interfaces
  (AIFs) of a session, and the operations that connect, prepare, start, stop and close them.

  Sessions live in a store from addresses to objects; \<open>session_list\<close> is the global
  pool. An AIF is reached through its session and its position in the AIF pool, a graph
  through the session that owns it. The locks of the source (the pool lock, the session
  locks and \<open>hwep_lock\<close>) make each operation atomic with respect to the others that
  take them, so an operation is one state transition.
\<close>

section \<open>Data\<close>

datatype aif_state =
    AIF_CLOSED | AIF_CLOSE | AIF_OPEN | AIF_OPENED | AIF_STOPPED | AIF_PREPARED | AIF_STARTED

fun aif_rank :: "aif_state \<Rightarrow> nat" where
  "aif_rank AIF_CLOSED = 0"
| "aif_rank AIF_CLOSE = 1"
| "aif_rank AIF_OPEN = 2"
| "aif_rank AIF_OPENED = 3"
| "aif_rank AIF_STOPPED = 4"
| "aif_rank AIF_PREPARED = 5"
| "aif_rank AIF_STARTED = 6"

instantiation aif_state :: linorder
begin

definition less_eq_aif_state :: "aif_state \<Rightarrow> aif_state \<Rightarrow> bool" where
  "less_eq_aif_state a b \<longleftrightarrow> aif_rank a \<le> aif_rank b"

definition less_aif_state :: "aif_state \<Rightarrow> aif_state \<Rightarrow> bool" where
  "less_aif_state a b \<longleftrightarrow> aif_rank a < aif_rank b"

instance
proof
  fix x y :: aif_state
  show "x \<le> y \<Longrightarrow> y \<le> x \<Longrightarrow> x = y"
    by (cases x; cases y) (simp_all add: less_eq_aif_state_def)
qed (auto simp: less_eq_aif_state_def less_aif_state_def)

end

lemmas aif_state_order = less_eq_aif_state_def less_aif_state_def

datatype session_state =
    SESSION_CLOSED | SESSION_OPENED | SESSION_PREPARED | SESSION_STARTED | SESSION_STOPPED

text \<open>Cached parameters are kept as the bytes they were copied to; \<open>params_size\<close> of
  the source is their length.\<close>

record aif =
  aif_id :: u32
  aif_dev :: nat
  aif_st :: aif_state
  sess_aif_meta :: agm_meta_data_gsl
  aif_params :: "u8 list option"
  aif_tag_config :: "agm_tag_config option"

record session_cb =
  cb_fn :: u64
  cb_evt_type :: event_type
  cb_client_data :: u64

record session_obj = stream_cfg +
  sess_id :: u32
  sess_state :: session_state
  sess_meta :: agm_meta_data_gsl
  aif_pool :: "aif list"
  cb_pool :: "session_cb list"
  graph :: "graph_obj option"
  sess_params :: "u8 list option"
  loopback_sess_id :: u32
  loopback_state :: bool
  ec_ref_aif_id :: u32
  ec_ref_state :: bool

text \<open>\<open>sess_next\<close> is an address that no session has used yet.\<close>

record agm_world = dev_world +
  sessions :: "nat \<Rightarrow> session_obj"
  session_list :: "nat list"
  sess_next :: nat

definition upd_sess :: "nat \<Rightarrow> (session_obj \<Rightarrow> session_obj) \<Rightarrow> 'z agm_world_scheme \<Rightarrow> 'z agm_world_scheme" where
  "upd_sess a f s = s\<lparr>sessions := (sessions s)(a := f (sessions s a))\<rparr>"

definition upd_aif :: "nat \<Rightarrow> nat \<Rightarrow> (aif \<Rightarrow> aif) \<Rightarrow> 'z agm_world_scheme \<Rightarrow> 'z agm_world_scheme" where
  "upd_aif a i f = upd_sess a (\<lambda>x. x\<lparr>aif_pool := (aif_pool x)[i := f (aif_pool x ! i)]\<rparr>)"

abbreviation set_graph :: "nat \<Rightarrow> graph_obj option \<Rightarrow> 'z agm_world_scheme \<Rightarrow> 'z agm_world_scheme" where
  "set_graph a g \<equiv> upd_sess a (\<lambda>x. x\<lparr>graph := g\<rparr>)"

abbreviation set_sess_state :: "nat \<Rightarrow> session_state \<Rightarrow> 'z agm_world_scheme \<Rightarrow> 'z agm_world_scheme" where
  "set_sess_state a st \<equiv> upd_sess a (\<lambda>x. x\<lparr>sess_state := st\<rparr>)"

abbreviation set_aif_state :: "nat \<Rightarrow> nat \<Rightarrow> aif_state \<Rightarrow> 'z agm_world_scheme \<Rightarrow> 'z agm_world_scheme" where
  "set_aif_state a i st \<equiv> upd_aif a i (\<lambda>x. x\<lparr>aif_st := st\<rparr>)"

abbreviation the_aif :: "'z agm_world_scheme \<Rightarrow> nat \<Rightarrow> nat \<Rightarrow> aif" where
  "the_aif s a i \<equiv> aif_pool (sessions s a) ! i"

abbreviation aif_indices :: "'z agm_world_scheme \<Rightarrow> nat \<Rightarrow> nat list" where
  "aif_indices s a \<equiv> [0..<length (aif_pool (sessions s a))]"

text \<open>Modes with a device leg.\<close>

definition has_device_leg :: "agm_session_mode \<Rightarrow> bool" where
  "has_device_leg m \<longleftrightarrow> m \<noteq> AGM_SESSION_NON_TUNNEL \<and> m \<noteq> AGM_SESSION_NO_CONFIG"

abbreviation sess_mode :: "'z agm_world_scheme \<Rightarrow> nat \<Rightarrow> agm_session_mode" where
  "sess_mode s a \<equiv> sc_sess_mode (stream_config (sessions s a))"

abbreviation sess_dir :: "'z agm_world_scheme \<Rightarrow> nat \<Rightarrow> direction" where
  "sess_dir s a \<equiv> sc_dir (stream_config (sessions s a))"

section \<open>The pools\<close>

fun index_of :: "('a \<Rightarrow> bool) \<Rightarrow> 'a list \<Rightarrow> nat option" where
  "index_of P [] = None"
| "index_of P (x # xs) = (if P x then Some 0 else map_option Suc (index_of P xs))"

definition aif_obj_get_from_pool :: "session_obj \<Rightarrow> u32 \<Rightarrow> nat option" where
  "aif_obj_get_from_pool x k = index_of (\<lambda>f. aif_id f = k) (aif_pool x)"

text \<open>The caller treats an AIF without a device like a failed allocation; both are
  \<open>None\<close>.\<close>

definition aif_obj_create ::
    "env \<Rightarrow> u32 \<Rightarrow> 'z dev_world_scheme \<Rightarrow> (aif option \<times> 'z dev_world_scheme) option" where
  "aif_obj_create E k s = do {
     (ok, s) \<leftarrow> calloc E s;
     if \<not> ok then Some (None, s)
     else case device_get_obj k s of (ret, dev) \<Rightarrow>
       if ret \<noteq> 0 then Some (None, s)
       else case dev of None \<Rightarrow> Some (None, s)
         | Some d \<Rightarrow> Some (Some \<lparr>aif_id = k, aif_dev = d, aif_st = AIF_CLOSED,
                                 sess_aif_meta = metadata0, aif_params = None,
                                 aif_tag_config = None\<rparr>, s) }"

definition aif_obj_get ::
    "env \<Rightarrow> nat \<Rightarrow> u32 \<Rightarrow> 'z agm_world_scheme \<Rightarrow> ((int \<times> nat) \<times> 'z agm_world_scheme) option" where
  "aif_obj_get E a k s =
     (case aif_obj_get_from_pool (sessions s a) k of
        Some i \<Rightarrow> Some ((0, i), s)
      | None \<Rightarrow> do {
          (x, s) \<leftarrow> aif_obj_create E k s;
          case x of None \<Rightarrow> Some ((- ENOMEM, 0), s)
          | Some f \<Rightarrow> Some ((0, length (aif_pool (sessions s a))),
                           upd_sess a (\<lambda>x. x\<lparr>aif_pool := aif_pool x @ [f]\<rparr>) s) })"

definition aif_obj_get_count_with_state :: "session_obj \<Rightarrow> aif_state \<Rightarrow> bool \<Rightarrow> nat" where
  "aif_obj_get_count_with_state x st exact =
     length (filter (\<lambda>f. (exact \<and> aif_st f = st) \<or> (\<not> exact \<and> aif_st f \<ge> st)) (aif_pool x))"

definition session_obj0 :: "u32 \<Rightarrow> session_obj" where
  "session_obj0 k =
     \<lparr>stream_config = session_config0, in_media_config = media_config0,
      out_media_config = media_config0, in_buffer_config = buffer_config0,
      out_buffer_config = buffer_config0, sess_id = k, sess_state = SESSION_CLOSED,
      sess_meta = metadata0, aif_pool = [], cb_pool = [], graph = None, sess_params = None,
      loopback_sess_id = 0, loopback_state = False, ec_ref_aif_id = 0, ec_ref_state = False\<rparr>"

definition session_obj_create ::
    "env \<Rightarrow> u32 \<Rightarrow> 'z agm_world_scheme \<Rightarrow> (nat option \<times> 'z agm_world_scheme) option" where
  "session_obj_create E k s = do {
     (ok, s) \<leftarrow> calloc E s;
     if \<not> ok then Some (None, s)
     else let a = sess_next s
          in Some (Some a, s\<lparr>sessions := (sessions s)(a := session_obj0 k), sess_next := a + 1\<rparr>) }"

definition session_obj_retrieve_from_pool :: "u32 \<Rightarrow> 'z agm_world_scheme \<Rightarrow> nat option" where
  "session_obj_retrieve_from_pool k s = find (\<lambda>a. sess_id (sessions s a) = k) (session_list s)"

definition session_obj_get_from_pool ::
    "env \<Rightarrow> u32 \<Rightarrow> 'z agm_world_scheme \<Rightarrow> (nat option \<times> 'z agm_world_scheme) option" where
  "session_obj_get_from_pool E k s =
     (case find (\<lambda>a. sess_id (sessions s a) = k) (session_list s) of
        Some a \<Rightarrow> Some (Some a, s)
      | None \<Rightarrow> do {
          (p, s) \<leftarrow> session_obj_create E k s;
          case p of None \<Rightarrow> Some (None, s)
          | Some a \<Rightarrow> Some (Some a, s\<lparr>session_list := session_list s @ [a]\<rparr>) })"

definition session_obj_valid_check :: "nat \<Rightarrow> 'z agm_world_scheme \<Rightarrow> bool" where
  "session_obj_valid_check hndl s \<longleftrightarrow> list_ex (\<lambda>a. a = hndl) (session_list s)"

definition session_obj_get ::
    "env \<Rightarrow> u32 \<Rightarrow> 'z agm_world_scheme \<Rightarrow> ((int \<times> nat option) \<times> 'z agm_world_scheme) option" where
  "session_obj_get E k s = do {
     (p, s) \<leftarrow> session_obj_get_from_pool E k s;
     Some ((if p = None then - ENOMEM else 0, p), s) }"

section \<open>Merged metadata\<close>

text \<open>The loop of the two merge functions, over the AIFs that are not closed; \<open>ins\<close>
  gives the inputs of one merge besides the result so far.\<close>

fun merge_loop ::
    "env \<Rightarrow> (aif \<Rightarrow> agm_meta_data_gsl option list) \<Rightarrow> aif list \<Rightarrow> agm_meta_data_gsl option \<Rightarrow>
       'z world_scheme \<Rightarrow> (agm_meta_data_gsl option \<times> 'z world_scheme) option" where
  "merge_loop E ins [] temp s = Some (temp, s)"
| "merge_loop E ins (f # fs) temp s =
     (if aif_st f = AIF_CLOSED then merge_loop E ins fs temp s
      else do { (m, s) \<leftarrow> metadata_merge E (temp # ins f) s; merge_loop E ins fs m s })"

text \<open>The flag says that the result is not a copy but the session's own metadata.\<close>

definition session_get_merged_metadata ::
    "env \<Rightarrow> nat \<Rightarrow> 'z agm_world_scheme \<Rightarrow> ((agm_meta_data_gsl option \<times> bool) \<times> 'z agm_world_scheme) option" where
  "session_get_merged_metadata E a s =
     (let x = sessions s a in
      if sess_mode s a \<noteq> AGM_SESSION_NON_TUNNEL
      then do {
        (m, s) \<leftarrow> merge_loop E (\<lambda>f. [Some (sess_meta x), Some (sess_aif_meta f),
                                        Some (dev_metadata (devs s (aif_dev f)))]) (aif_pool x) None s;
        Some ((m, False), s) }
      else Some ((Some (sess_meta x), True), s))"

definition session_get_merged_metadata_without_aif ::
    "env \<Rightarrow> nat \<Rightarrow> 'z agm_world_scheme \<Rightarrow> (agm_meta_data_gsl option \<times> 'z agm_world_scheme) option" where
  "session_get_merged_metadata_without_aif E a s =
     (let x = sessions s a in
      merge_loop E (\<lambda>f. [Some (sess_meta x), Some (sess_aif_meta f)]) (aif_pool x) None s)"

definition merge_sess_aif_dev ::
    "env \<Rightarrow> nat \<Rightarrow> nat \<Rightarrow> 'z agm_world_scheme \<Rightarrow> (agm_meta_data_gsl option \<times> 'z agm_world_scheme) option" where
  "merge_sess_aif_dev E a i s =
     (let f = the_aif s a i in
      metadata_merge E [Some (sess_meta (sessions s a)), Some (sess_aif_meta f),
                        Some (dev_metadata (devs s (aif_dev f)))] s)"

section \<open>Loopback and echo reference\<close>

definition graph_edge ::
    "env \<Rightarrow> nat \<Rightarrow> bool \<Rightarrow> agm_meta_data_gsl \<Rightarrow> 'z agm_world_scheme \<Rightarrow> (int \<times> 'z agm_world_scheme) option" where
  "graph_edge E a enable m s =
     (if enable then do {
        ((ret, g), s) \<leftarrow> graph_add E (sessions s a) (graph (sessions s a)) m None s;
        Some (ret, set_graph a g s) }
      else graph_remove E (graph (sessions s a)) m s)"

text \<open>Merged metadata is freed on every exit; freeing the session's own metadata as if it
  were a copy is a trap.\<close>

definition session_set_loopback ::
    "env \<Rightarrow> nat \<Rightarrow> u32 \<Rightarrow> bool \<Rightarrow> 'z agm_world_scheme \<Rightarrow> (int \<times> 'z agm_world_scheme) option" where
  "session_set_loopback E a pb_id enable s = do {
     ((ret, pb), s) \<leftarrow> session_obj_get E pb_id s;
     case pb of None \<Rightarrow> Some (ret, s)
     | Some b \<Rightarrow> do {
       ((cap, cap_alias), s) \<leftarrow> session_get_merged_metadata E a s;
       case cap of None \<Rightarrow> Some (- ENOMEM, s)
       | Some cm \<Rightarrow> do {
         ((play, play_alias), s) \<leftarrow> session_get_merged_metadata E b s;
         (ret, s) \<leftarrow> (case play of None \<Rightarrow> Some (- ENOMEM, s)
           | Some pm \<Rightarrow> do {
             (mm, s) \<leftarrow> metadata_merge E [Some cm, Some pm] s;
             case mm of None \<Rightarrow> Some (- ENOMEM, s) | Some m \<Rightarrow> graph_edge E a enable m s });
         if cap_alias \<or> play_alias then None else Some (ret, s) }}}"

definition session_set_ec_ref ::
    "env \<Rightarrow> nat \<Rightarrow> u32 \<Rightarrow> bool \<Rightarrow> 'z agm_world_scheme \<Rightarrow> (int \<times> 'z agm_world_scheme) option" where
  "session_set_ec_ref E a k enable s =
     (case device_get_obj k s of (ret, dev) \<Rightarrow>
      if ret \<noteq> 0 then Some (ret, s) else do {
      (cap, s) \<leftarrow> session_get_merged_metadata_without_aif E a s;
      case cap of None \<Rightarrow> Some (- ENOMEM, s)
      | Some cm \<Rightarrow>
        (case dev of None \<Rightarrow> None
         | Some d \<Rightarrow> do {
           (mm, s) \<leftarrow> metadata_merge E [Some cm, Some (dev_metadata (devs s d))] s;
           case mm of None \<Rightarrow> Some (- ENOMEM, s) | Some m \<Rightarrow> graph_edge E a enable m s }) })"

section \<open>Connecting and disconnecting an audio interface\<close>

definition session_disconnect_aif ::
    "env \<Rightarrow> nat \<Rightarrow> nat \<Rightarrow> nat \<Rightarrow> 'z agm_world_scheme \<Rightarrow> (int \<times> 'z agm_world_scheme) option" where
  "session_disconnect_aif E a i opened_count s = do {
     let d = aif_dev (the_aif s a i);
     (mm, s) \<leftarrow> merge_sess_aif_dev E a i s;
     case mm of None \<Rightarrow> Some (- ENOMEM, s)
     | Some m \<Rightarrow> do {
       (go, s) \<leftarrow>
         (if opened_count = 1 then do {
            (sa, s) \<leftarrow> metadata_merge E [Some (sess_aif_meta (the_aif s a i)),
                                         Some (dev_metadata (devs s d))] s;
            case sa of None \<Rightarrow> Some (False, s)
            | Some n \<Rightarrow> do {
              ((_, g), s) \<leftarrow> graph_stop E (graph (sessions s a)) (Some (m\<lparr>sg_props := sg_props n\<rparr>)) s;
              Some (True, set_graph a g s) }}
          else do { (_, s) \<leftarrow> graph_remove E (graph (sessions s a)) m s; Some (True, s) });
       if \<not> go then Some (- ENOMEM, s) else do {
       (_, s) \<leftarrow> (if sess_state (sessions s a) = SESSION_STARTED then device_stop E (Some d) s
                   else Some (0, s));
       device_close E (Some d) s }}}"

definition session_apply_aif_tag_params ::
    "env \<Rightarrow> nat \<Rightarrow> nat \<Rightarrow> agm_meta_data_gsl \<Rightarrow> 'z agm_world_scheme \<Rightarrow> (int \<times> 'z agm_world_scheme) option" where
  "session_apply_aif_tag_params E a i m s =
     (case aif_tag_config (the_aif s a i) of None \<Rightarrow> Some (0, s)
      | Some tc \<Rightarrow> do {
          (ret, s) \<leftarrow> graph_set_config_with_tag E (graph (sessions s a)) (gkvs m) tc s;
          Some (ret, upd_aif a i (\<lambda>f. f\<lparr>aif_tag_config := None\<rparr>) s) })"

definition session_apply_aif_device_params ::
    "env \<Rightarrow> nat \<Rightarrow> nat \<Rightarrow> 'z agm_world_scheme \<Rightarrow> (int \<times> 'z agm_world_scheme) option" where
  "session_apply_aif_device_params E a d s =
     (case dev_params (devs s d) of
        Some p \<Rightarrow>
          if device_get_state (Some d) s \<noteq> DEV_CLOSED then do {
            (ret, s) \<leftarrow> graph_set_config E (graph (sessions s a)) p s;
            Some (ret, upd_dev d (\<lambda>x. x\<lparr>dev_params := None, dev_params_size := 0\<rparr>) s) }
          else Some (0, s)
      | None \<Rightarrow> Some (0, s))"

text \<open>Step 2.b of the source: the flag says that a failure goes on with
  \<open>graph_cleanup\<close> and not with \<open>close_device\<close>.\<close>

definition connect_graph ::
    "env \<Rightarrow> nat \<Rightarrow> nat \<Rightarrow> agm_meta_data_gsl \<Rightarrow> nat \<Rightarrow> 'z agm_world_scheme \<Rightarrow>
       ((int \<times> bool) \<times> 'z agm_world_scheme) option" where
  "connect_graph E a d m opened_count s =
     (let x = sessions s a in
      if opened_count = 0 \<and> sess_state x = SESSION_CLOSED then do {
        ((ret, g), s) \<leftarrow> graph_open E x (Some m) (Some d) s;
        let s = (case g of None \<Rightarrow> s | Some _ \<Rightarrow> set_graph a g s);
        if ret \<noteq> 0 then Some ((ret, False), s)
        else case graph_register_cb (graph (sessions s a)) (unat (sess_id x)) of (ret, g) \<Rightarrow>
               Some ((ret, True), set_graph a g s) }
      else do {
        ((ret, g), s) \<leftarrow> (if opened_count = 0 then graph_change E x (graph x) m (Some d) s
                          else graph_add E x (graph x) m (Some d) s);
        Some ((ret, False), set_graph a g s) })"

text \<open>Steps 2.c to 2.f: cached parameters of the stream, the AIF and the device.\<close>

definition connect_sess_params ::
    "env \<Rightarrow> nat \<Rightarrow> 'z agm_world_scheme \<Rightarrow> (int \<times> 'z agm_world_scheme) option" where
  "connect_sess_params E a s =
     (case sess_params (sessions s a) of
        Some p \<Rightarrow>
          if sess_state (sessions s a) = SESSION_CLOSED then do {
            (ret, s) \<leftarrow> graph_set_config E (graph (sessions s a)) p s;
            Some (ret, upd_sess a (\<lambda>x. x\<lparr>sess_params := None\<rparr>) s) }
          else Some (0, s)
      | None \<Rightarrow> Some (0, s))"

definition connect_params ::
    "env \<Rightarrow> nat \<Rightarrow> nat \<Rightarrow> agm_meta_data_gsl \<Rightarrow> 'z agm_world_scheme \<Rightarrow> (int \<times> 'z agm_world_scheme) option" where
  "connect_params E a i m s = do {
     (ret, s) \<leftarrow> connect_sess_params E a s;
     if ret \<noteq> 0 then Some (ret, s) else do {
     (ret, s) \<leftarrow> (case aif_params (the_aif s a i) of None \<Rightarrow> Some (0, s)
       | Some p \<Rightarrow> do {
           (ret, s) \<leftarrow> graph_set_config E (graph (sessions s a)) p s;
           Some (ret, if ret \<noteq> 0 then s else upd_aif a i (\<lambda>f. f\<lparr>aif_params := None\<rparr>) s) });
     if ret \<noteq> 0 then Some (ret, s) else do {
     (ret, s) \<leftarrow> session_apply_aif_device_params E a (aif_dev (the_aif s a i)) s;
     if ret \<noteq> 0 then Some (ret, s) else session_apply_aif_tag_params E a i m s }}}"

definition connect_graph_cleanup ::
    "env \<Rightarrow> nat \<Rightarrow> agm_meta_data_gsl \<Rightarrow> nat \<Rightarrow> 'z agm_world_scheme \<Rightarrow> (unit \<times> 'z agm_world_scheme) option" where
  "connect_graph_cleanup E a m opened_count s =
     (if opened_count = 0
      then do { (_, s) \<leftarrow> graph_close E (graph (sessions s a)) s; Some ((), set_graph a None s) }
      else do { (_, s) \<leftarrow> graph_remove E (graph (sessions s a)) m s; Some ((), s) })"

definition connect_close_device ::
    "env \<Rightarrow> nat \<Rightarrow> nat \<Rightarrow> 'z agm_world_scheme \<Rightarrow> (unit \<times> 'z agm_world_scheme) option" where
  "connect_close_device E a i s = do {
     let s = upd_aif a i (\<lambda>f. f\<lparr>aif_params := None\<rparr>) s;
     (_, s) \<leftarrow> device_close E (Some (aif_dev (the_aif s a i))) s; Some ((), s) }"

definition session_connect_aif ::
    "env \<Rightarrow> nat \<Rightarrow> nat \<Rightarrow> nat \<Rightarrow> 'z agm_world_scheme \<Rightarrow> (int \<times> 'z agm_world_scheme) option" where
  "session_connect_aif E a i opened_count s = do {
     (mm, s) \<leftarrow> merge_sess_aif_dev E a i s;
     case mm of None \<Rightarrow> Some (- ENOMEM, s)
     | Some m \<Rightarrow> do {
       let d = aif_dev (the_aif s a i);
       (ret, s) \<leftarrow> device_open E (Some d) s;
       if ret \<noteq> 0 then Some (ret, s) else do {
       ((ret, cleanup), s) \<leftarrow> connect_graph E a d m opened_count s;
       if ret \<noteq> 0 \<and> \<not> cleanup
       then do { (_, s) \<leftarrow> connect_close_device E a i s; Some (ret, s) }
       else do {
       (ret, s) \<leftarrow> (if ret \<noteq> 0 then Some (ret, s) else connect_params E a i m s);
       if ret = 0 then Some (0, s)
       else do {
         (_, s) \<leftarrow> connect_graph_cleanup E a m opened_count s;
         (_, s) \<leftarrow> connect_close_device E a i s;
         Some (ret, s) }}}}}"

section \<open>Opening\<close>

definition session_open_with_first_device ::
    "env \<Rightarrow> nat \<Rightarrow> 'z agm_world_scheme \<Rightarrow> (int \<times> 'z agm_world_scheme) option" where
  "session_open_with_first_device E a s =
     (case index_of (\<lambda>f. aif_st f = AIF_OPEN) (aif_pool (sessions s a)) of
        None \<Rightarrow> Some (- EPIPE, s)
      | Some i \<Rightarrow> do {
          (ret, s) \<leftarrow> session_connect_aif E a i 0 s;
          Some (ret, if ret \<noteq> 0 then s else set_aif_state a i AIF_OPENED s) })"

text \<open>Disconnecting what was connected, when an open fails half way.\<close>

definition unwind_aif ::
    "env \<Rightarrow> nat \<Rightarrow> nat \<Rightarrow> 'z agm_world_scheme \<Rightarrow> (unit \<times> 'z agm_world_scheme) option" where
  "unwind_aif E a i s =
     (if aif_st (the_aif s a i) = AIF_OPENED
      then do { (_, s) \<leftarrow> session_disconnect_aif E a i 1 s;
                Some ((), set_aif_state a i AIF_OPEN s) }
      else Some ((), s))"

definition unwind_open ::
    "env \<Rightarrow> nat \<Rightarrow> 'z agm_world_scheme \<Rightarrow> (int \<times> 'z agm_world_scheme) option" where
  "unwind_open E a s = do {
     (_, s) \<leftarrow> for_each (unwind_aif E a) (aif_indices s a) s;
     (ret, s) \<leftarrow> graph_close E (graph (sessions s a)) s;
     Some (ret, set_graph a None s) }"

fun connect_rest ::
    "env \<Rightarrow> nat \<Rightarrow> nat \<Rightarrow> nat list \<Rightarrow> 'z agm_world_scheme \<Rightarrow> (int \<times> 'z agm_world_scheme) option" where
  "connect_rest E a opened_count [] s = Some (0, s)"
| "connect_rest E a opened_count (i # is) s =
     (if aif_st (the_aif s a i) = AIF_OPEN
      then do { (ret, s) \<leftarrow> session_connect_aif E a i opened_count s;
                if ret \<noteq> 0 then Some (ret, s)
                else connect_rest E a (opened_count + 1) is (set_aif_state a i AIF_OPENED s) }
      else connect_rest E a opened_count is s)"

text \<open>The result of the unwinding, not that of the failed connection, is returned.\<close>

definition session_connect_reminder_devices ::
    "env \<Rightarrow> nat \<Rightarrow> 'z agm_world_scheme \<Rightarrow> (int \<times> 'z agm_world_scheme) option" where
  "session_connect_reminder_devices E a s = do {
     (ret, s) \<leftarrow> connect_rest E a 1 (aif_indices s a) s;
     if ret = 0 then Some (0, s) else unwind_open E a s }"

definition session_open_without_device ::
    "env \<Rightarrow> nat \<Rightarrow> 'z agm_world_scheme \<Rightarrow> (int \<times> 'z agm_world_scheme) option" where
  "session_open_without_device E a s =
     (let x = sessions s a in
      if sess_state x \<noteq> SESSION_CLOSED then Some (0, s) else do {
      ((ret, g), s) \<leftarrow> graph_open E x (Some (sess_meta x)) None s;
      let s = (case g of None \<Rightarrow> s | Some _ \<Rightarrow> set_graph a g s);
      if ret \<noteq> 0 then Some (ret, s) else do {
      (ret, s) \<leftarrow> (case graph_register_cb (graph (sessions s a)) (unat (sess_id x)) of (ret, g) \<Rightarrow>
         if ret \<noteq> 0 then Some (ret, s)
         else case sess_params (sessions s a) of None \<Rightarrow> Some (0, set_graph a g s)
           | Some p \<Rightarrow> do {
               (ret, s) \<leftarrow> graph_set_config E g p (set_graph a g s);
               Some (ret, if ret \<noteq> 0 then s else upd_sess a (\<lambda>x. x\<lparr>sess_params := None\<rparr>) s) });
      if ret = 0 then Some (0, s)
      else do { (_, s) \<leftarrow> graph_close E (graph (sessions s a)) s; Some (ret, set_graph a None s) }}})"

text \<open>The three stages of opening a session: the graph and the devices, the echo reference,
  the loopback edge.\<close>

definition open_stage ::
    "env \<Rightarrow> nat \<Rightarrow> agm_session_mode \<Rightarrow> 'z agm_world_scheme \<Rightarrow> (int \<times> 'z agm_world_scheme) option" where
  "open_stage E a mode s =
     (if \<not> has_device_leg mode then session_open_without_device E a s
      else do {
        (ret, s) \<leftarrow> session_open_with_first_device E a s;
        if ret \<noteq> 0 then Some (ret, s) else session_connect_reminder_devices E a s })"

definition open_ec_ref ::
    "env \<Rightarrow> nat \<Rightarrow> agm_session_mode \<Rightarrow> 'z agm_world_scheme \<Rightarrow> (int \<times> 'z agm_world_scheme) option" where
  "open_ec_ref E a mode s =
     (if has_device_leg mode \<and> ec_ref_state (sessions s a) then do {
        (ret, s) \<leftarrow> session_set_ec_ref E a (ec_ref_aif_id (sessions s a)) True s;
        Some (ret, if ret \<noteq> 0 then upd_sess a (\<lambda>x. x\<lparr>ec_ref_state := False, ec_ref_aif_id := 0\<rparr>) s
                   else s) }
      else Some (0, s))"

definition open_loopback ::
    "env \<Rightarrow> nat \<Rightarrow> int \<Rightarrow> 'z agm_world_scheme \<Rightarrow> (int \<times> 'z agm_world_scheme) option" where
  "open_loopback E a ret s =
     (if ret \<noteq> 0 then Some (ret, s)
      else if loopback_state (sessions s a) then do {
        (ret, s) \<leftarrow> session_set_loopback E a (loopback_sess_id (sessions s a)) True s;
        Some (ret, if ret \<noteq> 0
                   then upd_sess a (\<lambda>x. x\<lparr>loopback_state := False, loopback_sess_id := 0\<rparr>) s
                   else s) }
      else Some (0, s))"

definition session_obj_open ::
    "env \<Rightarrow> u32 \<Rightarrow> agm_session_mode \<Rightarrow> 'z agm_world_scheme \<Rightarrow>
       ((int \<times> nat option) \<times> 'z agm_world_scheme) option" where
  "session_obj_open E k mode s = do {
     ((ret, p), s) \<leftarrow> session_obj_get E k s;
     case p of None \<Rightarrow> Some ((ret, None), s)
     | Some a \<Rightarrow>
       if sess_state (sessions s a) \<noteq> SESSION_CLOSED then Some ((- EALREADY, None), s)
       else do {
       let s = upd_sess a (\<lambda>x. x\<lparr>stream_config := (stream_config x)\<lparr>sc_sess_mode := mode\<rparr>\<rparr>) s;
       (ret, s) \<leftarrow> open_stage E a mode s;
       if ret \<noteq> 0 then Some ((ret, None), s) else do {
       (ret, s) \<leftarrow> open_ec_ref E a mode s;
       (ret, s) \<leftarrow> open_loopback E a ret s;
       if ret \<noteq> 0 then do { (_, s) \<leftarrow> unwind_open E a s; Some ((ret, None), s) }
       else Some ((0, Some a), set_sess_state a SESSION_OPENED s) }}}"

section \<open>Preparing, starting, stopping, closing\<close>

definition sess_graph_prepare ::
    "env \<Rightarrow> nat \<Rightarrow> 'z agm_world_scheme \<Rightarrow> (int \<times> 'z agm_world_scheme) option" where
  "sess_graph_prepare E a s = do {
     ((ret, g), s) \<leftarrow> graph_prepare E (sessions s a) (graph (sessions s a)) s;
     Some (ret, set_graph a g s) }"

definition sess_graph_start ::
    "env \<Rightarrow> nat \<Rightarrow> 'z agm_world_scheme \<Rightarrow> (int \<times> 'z agm_world_scheme) option" where
  "sess_graph_start E a s = do {
     ((ret, g), s) \<leftarrow> graph_start E (graph (sessions s a)) s; Some (ret, set_graph a g s) }"

definition sess_graph_stop ::
    "env \<Rightarrow> nat \<Rightarrow> 'z agm_world_scheme \<Rightarrow> (int \<times> 'z agm_world_scheme) option" where
  "sess_graph_stop E a s = do {
     ((ret, g), s) \<leftarrow> graph_stop E (graph (sessions s a)) None s; Some (ret, set_graph a g s) }"

text \<open>\<open>device_prepare\<close> and \<open>device_start\<close> of an AIF in the states that the
  source tests for.\<close>

definition prepare_aif ::
    "env \<Rightarrow> nat \<Rightarrow> nat \<Rightarrow> 'z agm_world_scheme \<Rightarrow> (int \<times> 'z agm_world_scheme) option" where
  "prepare_aif E a i s =
     (if aif_st (the_aif s a i) \<in> {AIF_OPENED, AIF_STOPPED}
      then do { (ret, s) \<leftarrow> device_prepare E (Some (aif_dev (the_aif s a i))) s;
                Some (ret, if ret \<noteq> 0 then s else set_aif_state a i AIF_PREPARED s) }
      else Some (0, s))"

definition start_aif ::
    "env \<Rightarrow> nat \<Rightarrow> nat \<Rightarrow> 'z agm_world_scheme \<Rightarrow> (int \<times> 'z agm_world_scheme) option" where
  "start_aif E a i s =
     (if aif_st (the_aif s a i) \<in> {AIF_OPENED, AIF_PREPARED, AIF_STOPPED}
      then do { (ret, s) \<leftarrow> device_start E (Some (aif_dev (the_aif s a i))) s;
                Some (ret, if ret \<noteq> 0 then s else set_aif_state a i AIF_STARTED s) }
      else Some (0, s))"

definition prepare_start_aif ::
    "env \<Rightarrow> nat \<Rightarrow> nat \<Rightarrow> 'z agm_world_scheme \<Rightarrow> (int \<times> 'z agm_world_scheme) option" where
  "prepare_start_aif E a i s = do {
     (ret, s) \<leftarrow> prepare_aif E a i s; if ret \<noteq> 0 then Some (ret, s) else start_aif E a i s }"

definition session_prepare ::
    "env \<Rightarrow> nat \<Rightarrow> 'z agm_world_scheme \<Rightarrow> (int \<times> 'z agm_world_scheme) option" where
  "session_prepare E a s =
     (let to_prepared = (\<lambda>s. do {
            (ret, s) \<leftarrow> sess_graph_prepare E a s;
            Some (ret, if ret \<noteq> 0 then s else set_sess_state a SESSION_PREPARED s) });
          started = (sess_state (sessions s a) = SESSION_STARTED);
          early = build_dev_prepare_before_graph_start E
      in if has_device_leg (sess_mode s a) then
           if aif_obj_get_count_with_state (sessions s a) AIF_OPENED False = 0
           then Some (- EINVAL, s) else do {
           (ret, s) \<leftarrow> for_each_until
              (\<lambda>i s. session_apply_aif_device_params E a (aif_dev (the_aif s a i)) s) (aif_indices s a) s;
           if ret \<noteq> 0 then Some (ret, s)
           else if early then do {
             (ret, s) \<leftarrow> (if sess_dir s a = TX \<and> \<not> started then sess_graph_prepare E a s else Some (0, s));
             if ret \<noteq> 0 then Some (ret, s) else do {
             (ret, s) \<leftarrow> for_each_until (prepare_aif E a) (aif_indices s a) s;
             if ret \<noteq> 0 then Some (ret, s)
             else if sess_dir s a = RX \<and> \<not> started then to_prepared s else Some (0, s) }}
           else if \<not> started then to_prepared s else Some (0, s) }
         else if \<not> started then to_prepared s else Some (0, s))"

definition start_checks ::
    "env \<Rightarrow> nat \<Rightarrow> 'z agm_world_scheme \<Rightarrow> (int \<times> 'z agm_world_scheme) option" where
  "start_checks E a s = do {
     (ret, s) \<leftarrow> (if loopback_state (sessions s a) then do {
          ((ret, p), s) \<leftarrow> session_obj_get E (loopback_sess_id (sessions s a)) s;
          case p of None \<Rightarrow> Some (ret, s)
          | Some b \<Rightarrow> Some (if sess_state (sessions s b) \<noteq> SESSION_STARTED then - EINVAL else 0, s) }
        else Some (0, s));
     if ret \<noteq> 0 then Some (ret, s)
     else if ec_ref_state (sessions s a)
     then case device_get_obj (ec_ref_aif_id (sessions s a)) s of (ret, d) \<Rightarrow>
            Some (if ret \<noteq> 0 then ret else if device_get_state d s \<noteq> DEV_STARTED then - EINVAL else 0, s)
     else Some (0, s) }"

definition stop_started_aif ::
    "env \<Rightarrow> nat \<Rightarrow> aif_state \<Rightarrow> nat \<Rightarrow> 'z agm_world_scheme \<Rightarrow> (unit \<times> 'z agm_world_scheme) option" where
  "stop_started_aif E a st i s =
     (if aif_st (the_aif s a i) = AIF_STARTED
      then do { (_, s) \<leftarrow> device_stop E (Some (aif_dev (the_aif s a i))) s;
                Some ((), set_aif_state a i st s) }
      else Some ((), s))"

text \<open>The two exits of a failed start: \<open>unwind\<close> stops the graph first,
  \<open>device_stop\<close> does not.\<close>

definition start_unwind ::
    "env \<Rightarrow> nat \<Rightarrow> bool \<Rightarrow> int \<Rightarrow> 'z agm_world_scheme \<Rightarrow> (int \<times> 'z agm_world_scheme) option" where
  "start_unwind E a stop_graph ret s = do {
     (_, s) \<leftarrow> (if stop_graph \<and> graph (sessions s a) \<noteq> None then sess_graph_stop E a s
                 else Some (0, s));
     (_, s) \<leftarrow> (if has_device_leg (sess_mode s a)
                 then for_each (stop_started_aif E a AIF_OPENED) (aif_indices s a) s
                 else Some ((), s));
     Some (ret, s) }"

definition is_slimbus :: "nat \<Rightarrow> nat \<Rightarrow> 'z agm_world_scheme \<Rightarrow> bool" where
  "is_slimbus a i s \<longleftrightarrow> intf (hw_ep (devs s (aif_dev (the_aif s a i)))) = SLIMBUS"

definition session_start ::
    "env \<Rightarrow> nat \<Rightarrow> 'z agm_world_scheme \<Rightarrow> (int \<times> 'z agm_world_scheme) option" where
  "session_start E a s =
     (let early = build_dev_prepare_before_graph_start E in
      if \<not> has_device_leg (sess_mode s a) then do {
        (ret, s) \<leftarrow> sess_graph_start E a s;
        if ret \<noteq> 0 then start_unwind E a True ret s
        else Some (0, set_sess_state a SESSION_STARTED s) }
      else if aif_obj_get_count_with_state (sessions s a) AIF_OPENED False = 0 then Some (- EINVAL, s)
      else do {
        (ret, s) \<leftarrow> (if sess_dir s a = TX then start_checks E a s else Some (0, s));
        if ret \<noteq> 0 then Some (ret, s) else do {
        (ret, s) \<leftarrow> (if sess_dir s a = TX \<and> early then sess_graph_start E a s else Some (0, s));
        if ret \<noteq> 0 then Some (ret, s) else do {
        (ret, s) \<leftarrow> for_each_until
           (\<lambda>i s. if is_slimbus a i s then prepare_start_aif E a i s else Some (0, s)) (aif_indices s a) s;
        if ret \<noteq> 0 then start_unwind E a False ret s else do {
        (ret, s) \<leftarrow> (if \<not> early then sess_graph_start E a s else Some (0, s));
        if ret \<noteq> 0 then start_unwind E a False ret s else do {
        (ret, s) \<leftarrow> for_each_until
           (\<lambda>i s. if is_slimbus a i s then Some (0, s)
                   else if early then start_aif E a i s else prepare_start_aif E a i s) (aif_indices s a) s;
        if ret \<noteq> 0 then start_unwind E a True ret s else do {
        (ret, s) \<leftarrow> (if sess_dir s a = RX \<and> early then sess_graph_start E a s else Some (0, s));
        if ret \<noteq> 0 then start_unwind E a False ret s
        else Some (0, set_sess_state a SESSION_STARTED s) }}}}}})"

fun stop_loop ::
    "env \<Rightarrow> nat \<Rightarrow> nat list \<Rightarrow> int \<Rightarrow> 'z agm_world_scheme \<Rightarrow> (int \<times> 'z agm_world_scheme) option" where
  "stop_loop E a [] ret s = Some (ret, s)"
| "stop_loop E a (i # is) ret s =
     (if aif_st (the_aif s a i) = AIF_STARTED
      then do { (ret, s) \<leftarrow> device_stop E (Some (aif_dev (the_aif s a i))) s;
                stop_loop E a is ret (set_aif_state a i AIF_STOPPED s) }
      else stop_loop E a is ret s)"

definition session_stop ::
    "env \<Rightarrow> nat \<Rightarrow> 'z agm_world_scheme \<Rightarrow> (int \<times> 'z agm_world_scheme) option" where
  "session_stop E a s =
     (if sess_state (sessions s a) \<noteq> SESSION_STARTED then Some (- EINVAL, s)
      else if has_device_leg (sess_mode s a) then do {
        (ret, s) \<leftarrow> (if sess_dir s a = RX then sess_graph_stop E a s else Some (0, s));
        if ret \<noteq> 0 then Some (ret, s) else do {
        (ret, s) \<leftarrow> stop_loop E a (aif_indices s a) ret s;
        (ret, s) \<leftarrow> (if sess_dir s a = TX then sess_graph_stop E a s else Some (ret, s));
        Some (ret, set_sess_state a SESSION_STOPPED s) }}
      else do {
        (ret, s) \<leftarrow> sess_graph_stop E a s;
        Some (ret, set_sess_state a SESSION_STOPPED s) })"

fun close_loop ::
    "env \<Rightarrow> nat \<Rightarrow> nat list \<Rightarrow> int \<Rightarrow> 'z agm_world_scheme \<Rightarrow> (int \<times> 'z agm_world_scheme) option" where
  "close_loop E a [] ret s = Some (ret, s)"
| "close_loop E a (i # is) ret s = do {
     (ret, s) \<leftarrow> (if aif_st (the_aif s a i) \<ge> AIF_OPENED
        then do { (ret, s) \<leftarrow> device_close E (Some (aif_dev (the_aif s a i))) s;
                  Some (ret, set_aif_state a i AIF_CLOSED s) }
        else Some (ret, s));
     close_loop E a is ret (upd_aif a i (\<lambda>f. f\<lparr>aif_tag_config := None\<rparr>) s) }"

definition session_close ::
    "env \<Rightarrow> nat \<Rightarrow> 'z agm_world_scheme \<Rightarrow> (int \<times> 'z agm_world_scheme) option" where
  "session_close E a s =
     (if sess_state (sessions s a) = SESSION_CLOSED then Some (- EALREADY, s) else do {
      (_, s) \<leftarrow> (if sess_state (sessions s a) = SESSION_STARTED then sess_graph_stop E a s
                  else Some (0, s));
      (ret, s) \<leftarrow> graph_close E (graph (sessions s a)) s;
      let s = upd_sess a (\<lambda>x. x\<lparr>graph := None, ec_ref_state := False, loopback_state := False\<rparr>) s;
      (ret, s) \<leftarrow> (if has_device_leg (sess_mode s a) then close_loop E a (aif_indices s a) ret s
                    else Some (ret, s));
      Some (ret, set_sess_state a SESSION_CLOSED s) })"

section \<open>The operations of the session interface\<close>

definition session_obj_set_sess_metadata ::
    "env \<Rightarrow> nat \<Rightarrow> nat \<Rightarrow> u8 list option \<Rightarrow> 'z agm_world_scheme \<Rightarrow> (int \<times> 'z agm_world_scheme) option" where
  "session_obj_set_sess_metadata E a n metadata s = do {
     ((ret, m), s) \<leftarrow> metadata_copy E (metadata_free (sess_meta (sessions s a))) n metadata s;
     Some (ret, upd_sess a (\<lambda>x. x\<lparr>sess_meta := m\<rparr>) s) }"

definition session_obj_set_sess_params ::
    "env \<Rightarrow> nat \<Rightarrow> u8 list option \<Rightarrow> nat \<Rightarrow> 'z agm_world_scheme \<Rightarrow> (int \<times> 'z agm_world_scheme) option" where
  "session_obj_set_sess_params E a payload n s =
     (let s = upd_sess a (\<lambda>x. x\<lparr>sess_params := None\<rparr>) s in
      if n = 0 \<or> payload = None then Some (0, s) else do {
      (ok, s) \<leftarrow> calloc E s;
      if \<not> ok then Some (- EINVAL, s) else do {
      p \<leftarrow> memcpy_from payload n;
      if sess_state (sessions s a) \<noteq> SESSION_CLOSED
      then graph_set_config E (graph (sessions s a)) p s
      else Some (0, upd_sess a (\<lambda>x. x\<lparr>sess_params := Some p\<rparr>) s) }})"

definition session_obj_set_sess_aif_params ::
    "env \<Rightarrow> nat \<Rightarrow> u32 \<Rightarrow> u8 list option \<Rightarrow> nat \<Rightarrow> 'z agm_world_scheme \<Rightarrow>
       (int \<times> 'z agm_world_scheme) option" where
  "session_obj_set_sess_aif_params E a k payload n s = do {
     ((ret, i), s) \<leftarrow> aif_obj_get E a k s;
     if ret \<noteq> 0 then Some (ret, s) else do {
     let s = upd_aif a i (\<lambda>f. f\<lparr>aif_params := None\<rparr>) s;
     if n = 0 \<or> payload = None then Some (0, s) else do {
     (ok, s) \<leftarrow> calloc E s;
     if \<not> ok then Some (- EINVAL, s) else do {
     p \<leftarrow> memcpy_from payload n;
     if sess_state (sessions s a) \<noteq> SESSION_CLOSED \<and> aif_st (the_aif s a i) \<ge> AIF_OPENED
     then graph_set_config E (graph (sessions s a)) p s
     else Some (0, upd_aif a i (\<lambda>f. f\<lparr>aif_params := Some p\<rparr>) s) }}}}"

abbreviation (input) UINT_MAX :: u32 where "UINT_MAX \<equiv> 0xFFFFFFFF"

definition session_obj_set_sess_aif_params_with_tag ::
    "env \<Rightarrow> nat \<Rightarrow> u32 \<Rightarrow> agm_tag_config \<Rightarrow> 'z agm_world_scheme \<Rightarrow> (int \<times> 'z agm_world_scheme) option" where
  "session_obj_set_sess_aif_params_with_tag E a k tc s =
     (if k < UINT_MAX then do {
        ((ret, i), s) \<leftarrow> aif_obj_get E a k s;
        if ret \<noteq> 0 then Some (ret, s)
        else if sess_state (sessions s a) = SESSION_STARTED \<and> aif_st (the_aif s a i) < AIF_OPENED
        then do {
          let s = upd_aif a i (\<lambda>f. f\<lparr>aif_tag_config := None\<rparr>) s;
          (ok, s) \<leftarrow> calloc E s;
          if \<not> ok then Some (- ENOMEM, s)
          else Some (0, upd_aif a i (\<lambda>f. f\<lparr>aif_tag_config := Some tc\<rparr>) s) }
        else if sess_state (sessions s a) = SESSION_CLOSED \<and> aif_st (the_aif s a i) < AIF_OPENED
        then Some (- EINVAL, s)
        else do {
          (mm, s) \<leftarrow> merge_sess_aif_dev E a i s;
          case mm of None \<Rightarrow> Some (- ENOMEM, s)
          | Some m \<Rightarrow> graph_set_config_with_tag E (graph (sessions s a)) (gkvs m) tc s }}
      else if sess_state (sessions s a) = SESSION_CLOSED then Some (- EINVAL, s)
      else graph_set_config_with_tag E (graph (sessions s a)) (gkvs (sess_meta (sessions s a))) tc s)"

record agm_acdb_param =
  ap_isTKV :: bool
  ap_tag :: u32
  ap_num_kvs :: u32
  ap_blob_size :: u32
  ap_blob :: "u8 list"

definition session_obj_rw_acdb_params_with_tag ::
    "env \<Rightarrow> nat \<Rightarrow> u32 \<Rightarrow> agm_acdb_param \<Rightarrow> 'z agm_world_scheme \<Rightarrow> (int \<times> 'z agm_world_scheme) option" where
  "session_obj_rw_acdb_params_with_tag E a k ap s = do {
     (ret, s) \<leftarrow> graph_enable_acdb_persistence E s;
     if ret \<noteq> 0 then Some (ret, s) else do {
     ((ret, i), s) \<leftarrow> aif_obj_get E a k s;
     if ret \<noteq> 0 then Some (ret, s) else do {
     (mm, s) \<leftarrow> merge_sess_aif_dev E a i s;
     case mm of None \<Rightarrow> Some (- ENOMEM, s)
     | Some m \<Rightarrow> do {
       (ok, s) \<leftarrow> calloc E s;
       if \<not> ok then Some (- ENOMEM, s) else do {
       let n = unat (ap_num_kvs ap);
       kvs \<leftarrow> rd_kvs (ap_blob ap) 0 n;
       payload \<leftarrow> memcpy_from (Some (drop (8 * n) (ap_blob ap)))
                    (unat (ap_blob_size ap - ap_num_kvs ap * 8));
       if ap_isTKV ap then graph_set_tag_data_to_acdb E (gkvs m) (ap_tag ap) kvs payload s
       else graph_set_cal_data_to_acdb E (gkvs m) kvs payload s }}}}}"

definition session_obj_set_sess_aif_cal ::
    "env \<Rightarrow> nat \<Rightarrow> u32 \<Rightarrow> agm_key_vector_gsl \<Rightarrow> 'z agm_world_scheme \<Rightarrow> (int \<times> 'z agm_world_scheme) option" where
  "session_obj_set_sess_aif_cal E a k cal s =
     (let upd_meta = upd_sess a (\<lambda>x. x\<lparr>sess_meta := metadata_update_cal (sess_meta x) cal\<rparr>) in
      if k < UINT_MAX then do {
        ((ret, i), s) \<leftarrow> aif_obj_get E a k s;
        if ret \<noteq> 0 then Some (ret, s)
        else if sess_state (sessions s a) = SESSION_CLOSED \<or> aif_st (the_aif s a i) < AIF_OPENED
        then Some (- EINVAL, s)
        else do {
          let s = upd_aif a i (\<lambda>f. f\<lparr>sess_aif_meta := metadata_update_cal (sess_aif_meta f) cal\<rparr>)
                    (upd_meta s);
          let s = upd_dev (aif_dev (the_aif s a i))
                    (\<lambda>x. x\<lparr>dev_metadata := metadata_update_cal (dev_metadata x) cal\<rparr>) s;
          (mm, s) \<leftarrow> merge_sess_aif_dev E a i s;
          case mm of None \<Rightarrow> Some (- ENOMEM, s)
          | Some m \<Rightarrow> graph_set_cal E (graph (sessions s a)) m s }}
      else if sess_state (sessions s a) = SESSION_CLOSED then Some (- EINVAL, s)
      else let s = upd_meta s in graph_set_cal E (graph (sessions s a)) (sess_meta (sessions s a)) s)"

definition session_obj_set_sess_aif_metadata ::
    "env \<Rightarrow> nat \<Rightarrow> u32 \<Rightarrow> nat \<Rightarrow> u8 list option \<Rightarrow> 'z agm_world_scheme \<Rightarrow>
       (int \<times> 'z agm_world_scheme) option" where
  "session_obj_set_sess_aif_metadata E a k n metadata s = do {
     ((ret, i), s) \<leftarrow> aif_obj_get E a k s;
     if ret \<noteq> 0 then Some (ret, s) else do {
     ((ret, m), s) \<leftarrow> metadata_copy E (metadata_free (sess_aif_meta (the_aif s a i))) n metadata s;
     Some (ret, upd_aif a i (\<lambda>f. f\<lparr>sess_aif_meta := m\<rparr>) s) }}"

definition session_obj_get_sess_params ::
    "env \<Rightarrow> nat \<Rightarrow> u8 list \<Rightarrow> 'z agm_world_scheme \<Rightarrow> (int \<times> 'z agm_world_scheme) option" where
  "session_obj_get_sess_params E a payload s =
     (if sess_state (sessions s a) \<noteq> SESSION_CLOSED
      then graph_get_config E (graph (sessions s a)) payload s else Some (0, s))"

definition session_obj_get_tag_with_module_info ::
    "env \<Rightarrow> nat \<Rightarrow> u32 \<Rightarrow> nat \<Rightarrow> 'z agm_world_scheme \<Rightarrow> (int \<times> 'z agm_world_scheme) option" where
  "session_obj_get_tag_with_module_info E a k len s =
     (if sess_mode s a \<noteq> AGM_SESSION_NON_TUNNEL then
        if k < UINT_MAX then do {
          ((ret, i), s) \<leftarrow> aif_obj_get E a k s;
          if ret \<noteq> 0 then Some (ret, s) else do {
          (mm, s) \<leftarrow> merge_sess_aif_dev E a i s;
          case mm of None \<Rightarrow> Some (- ENOMEM, s)
          | Some m \<Rightarrow> graph_get_tags_with_module_info E m len s }}
        else Some (- EINVAL, s)
      else do {
        (mm, s) \<leftarrow> metadata_merge E [Some (sess_meta (sessions s a))] s;
        case mm of None \<Rightarrow> Some (- ENOMEM, s)
        | Some m \<Rightarrow> graph_get_tags_with_module_info E m len s })"

definition session_obj_register_cb ::
    "env \<Rightarrow> nat \<Rightarrow> u64 \<Rightarrow> event_type \<Rightarrow> u64 \<Rightarrow> 'z agm_world_scheme \<Rightarrow> (int \<times> 'z agm_world_scheme) option" where
  "session_obj_register_cb E a cb ty data s =
     (if cb \<noteq> 0 then do {
        (ok, s) \<leftarrow> calloc E s;
        if \<not> ok then Some (- ENOMEM, s)
        else Some (0, upd_sess a (\<lambda>x. x\<lparr>cb_pool := cb_pool x
                 @ [\<lparr>cb_fn = cb, cb_evt_type = ty, cb_client_data = data\<rparr>]\<rparr>) s) }
      else Some (0, upd_sess a (\<lambda>x. x\<lparr>cb_pool :=
             filter (\<lambda>c. \<not> (cb_evt_type c = ty \<and> cb_client_data c = data)) (cb_pool x)\<rparr>) s))"

definition session_obj_register_for_events ::
    "env \<Rightarrow> nat \<Rightarrow> agm_event_reg_cfg option \<Rightarrow> 'z agm_world_scheme \<Rightarrow> (int \<times> 'z agm_world_scheme) option" where
  "session_obj_register_for_events E a cfg s =
     (if sess_state (sessions s a) = SESSION_CLOSED then Some (- EINVAL, s) else do {
      ((ret, g), s) \<leftarrow> graph_register_for_events E (graph (sessions s a)) cfg s;
      Some (ret, set_graph a g s) })"

text \<open>The callback that graphs are opened with: which clients hear of an event.\<close>

abbreviation (input) GSL_EVENT_SRC_MODULE_ID_GSL :: u32 where
  "GSL_EVENT_SRC_MODULE_ID_GSL \<equiv> 0x2001"

definition cb_wants :: "u32 \<Rightarrow> u32 \<Rightarrow> session_cb \<Rightarrow> bool" where
  "cb_wants src event c \<longleftrightarrow> cb_fn c \<noteq> 0 \<and>
     (cb_evt_type c = AGM_EVENT_DATA_PATH \<and> src = GSL_EVENT_SRC_MODULE_ID_GSL \<and> event \<in> {AGM_EVENT_EOS_RENDERED, AGM_EVENT_READ_DONE, AGM_EVENT_WRITE_DONE}
      \<or> cb_evt_type c = AGM_EVENT_MODULE \<and> src \<noteq> GSL_EVENT_SRC_MODULE_ID_GSL)"

definition call_clients ::
    "env \<Rightarrow> u32 \<Rightarrow> u32 \<Rightarrow> session_cb list \<Rightarrow> 'z world_scheme \<Rightarrow> (unit \<times> 'z world_scheme) option" where
  "call_clients E sid event =
     for_each (\<lambda>c s. do { (_, s) \<leftarrow> ecall E (CLIENT_CB (cb_fn c) sid event (cb_client_data c)) s;
                         Some ((), s) })"

definition graph_event_cb ::
    "env \<Rightarrow> u32 \<Rightarrow> u32 \<Rightarrow> u32 \<Rightarrow> 'z agm_world_scheme \<Rightarrow> (unit \<times> 'z agm_world_scheme) option" where
  "graph_event_cb E client_data src event s =
     (case session_obj_retrieve_from_pool client_data s of None \<Rightarrow> Some ((), s)
      | Some a \<Rightarrow> call_clients E (sess_id (sessions s a)) event
                   (filter (cb_wants src event) (cb_pool (sessions s a))) s)"

text \<open>Connecting on a session that is not closed.\<close>

definition connect_opened ::
    "env \<Rightarrow> nat \<Rightarrow> nat \<Rightarrow> session_state \<Rightarrow> nat \<Rightarrow> 'z agm_world_scheme \<Rightarrow> (int \<times> 'z agm_world_scheme) option" where
  "connect_opened E a i st opened_count s = do {
         (ret, s) \<leftarrow> session_connect_aif E a i opened_count s;
         if ret \<noteq> 0 then Some (ret, s) else do {
         let s = set_aif_state a i AIF_OPENED s;
         (ret, s) \<leftarrow> (if st = SESSION_OPENED then Some (0, s) else session_prepare E a s);
         (ret, s) \<leftarrow> (if ret = 0 \<and> st = SESSION_STARTED then session_start E a s else Some (ret, s));
         if ret = 0 then Some (0, s)
         else do {
           (_, s) \<leftarrow> session_disconnect_aif E a i (opened_count + 1) (set_aif_state a i AIF_CLOSE s);
           Some (ret, s) }}}"

definition session_obj_sess_aif_connect ::
    "env \<Rightarrow> nat \<Rightarrow> u32 \<Rightarrow> bool \<Rightarrow> 'z agm_world_scheme \<Rightarrow> (int \<times> 'z agm_world_scheme) option" where
  "session_obj_sess_aif_connect E a k connect s = do {
     ((ret, i), s) \<leftarrow> aif_obj_get E a k s;
     if ret \<noteq> 0 then Some (ret, s)
     else if connect \<and> aif_st (the_aif s a i) > AIF_OPENED
             \<or> \<not> connect \<and> aif_st (the_aif s a i) < AIF_OPEN then Some (- EALREADY, s)
     else do {
     let st = sess_state (sessions s a);
     let opened_count = aif_obj_get_count_with_state (sessions s a) AIF_OPENED False;
     if connect then
       if st = SESSION_CLOSED then Some (0, set_aif_state a i AIF_OPEN s)
       else connect_opened E a i st opened_count s
     else do {
       let s = set_aif_state a i AIF_CLOSE s;
       (ret, s) \<leftarrow> (if st = SESSION_CLOSED then Some (0, s)
                     else session_disconnect_aif E a i opened_count s);
       Some (ret, if ret \<noteq> 0 then s else set_aif_state a i AIF_CLOSED s) }}}"

definition session_obj_set_config ::
    "env \<Rightarrow> nat \<Rightarrow> agm_session_config \<Rightarrow> agm_media_config \<Rightarrow> agm_buffer_config \<Rightarrow>
       'z agm_world_scheme \<Rightarrow> (int \<times> 'z agm_world_scheme) option" where
  "session_obj_set_config E a sc mc bc s =
     (if sc_dir sc = TX
      then Some (0, upd_sess a (\<lambda>x. x\<lparr>stream_config := sc, in_media_config := mc,
                                      in_buffer_config := bc\<rparr>) s)
      else let s = upd_sess a (\<lambda>x. x\<lparr>stream_config := sc, out_media_config := mc,
                                      out_buffer_config := bc\<rparr>) s
           in if sess_state (sessions s a) \<in> {SESSION_STARTED, SESSION_STOPPED}
              then do {
                ((ret, g), s) \<leftarrow> graph_set_media_config_datapath E (sessions s a) (graph (sessions s a)) s;
                Some (ret, set_graph a g s) }
              else Some (0, s))"

definition session_obj_set_non_tunnel_mode_config ::
    "nat \<Rightarrow> agm_session_config \<Rightarrow> agm_media_config \<Rightarrow> agm_media_config \<Rightarrow> agm_buffer_config \<Rightarrow>
       agm_buffer_config \<Rightarrow> 'z agm_world_scheme \<Rightarrow> int \<times> 'z agm_world_scheme" where
  "session_obj_set_non_tunnel_mode_config a sc imc omc ibc obc s =
     (0, upd_sess a (\<lambda>x. x\<lparr>stream_config := sc, in_media_config := imc, out_media_config := omc,
                            in_buffer_config := ibc, out_buffer_config := obc\<rparr>) s)"

definition session_obj_prepare where "session_obj_prepare E a s = session_prepare E a s"
definition session_obj_start where "session_obj_start E a s = session_start E a s"
definition session_obj_stop where "session_obj_stop E a s = session_stop E a s"
definition session_obj_close where "session_obj_close E a s = session_close E a s"

definition session_obj_pause ::
    "env \<Rightarrow> nat \<Rightarrow> 'z agm_world_scheme \<Rightarrow> (int \<times> 'z agm_world_scheme) option" where
  "session_obj_pause E a s =
     (if sess_state (sessions s a) \<noteq> SESSION_STARTED then Some (- EINVAL, s)
      else graph_pause E (graph (sessions s a)) s)"

abbreviation (input) AGM_EVENT_EARLY_EOS :: u32 where "AGM_EVENT_EARLY_EOS \<equiv> 0x08001126"

definition session_obj_flush ::
    "env \<Rightarrow> nat \<Rightarrow> 'z agm_world_scheme \<Rightarrow> (int \<times> 'z agm_world_scheme) option" where
  "session_obj_flush E a s = do {
     (ret, s) \<leftarrow> graph_flush E (graph (sessions s a)) s;
     if ret \<noteq> 0 then Some (ret, s) else do {
     (ok, s) \<leftarrow> calloc E s;
     if \<not> ok then Some (0, s) else do {
     (_, s) \<leftarrow> call_clients E (sess_id (sessions s a)) AGM_EVENT_EARLY_EOS
                 (filter (\<lambda>c. cb_fn c \<noteq> 0) (cb_pool (sessions s a))) s;
     Some (0, s) }}}"

definition session_obj_resume ::
    "env \<Rightarrow> nat \<Rightarrow> 'z agm_world_scheme \<Rightarrow> (int \<times> 'z agm_world_scheme) option" where
  "session_obj_resume E a s = graph_resume E (graph (sessions s a)) s"

definition session_obj_suspend ::
    "env \<Rightarrow> nat \<Rightarrow> 'z agm_world_scheme \<Rightarrow> (int \<times> 'z agm_world_scheme) option" where
  "session_obj_suspend E a s = graph_suspend E (graph (sessions s a)) s"

text \<open>The buffer that a plain read or write hands to the graph.\<close>

definition plain_buff :: "u64 \<Rightarrow> u64 \<Rightarrow> agm_buff" where
  "plain_buff ptr count = \<lparr>bf_timestamp = 0, bf_flags = 0, bf_size = ucast count,
     bf_addr = CLIENT_PTR ptr, bf_metadata_size = 0, bf_metadata = 0, bf_alloc_handle = 0,
     bf_alloc_size = 0, bf_alloc_offset = 0\<rparr>"

text \<open>Reads and writes return the result and the new value of the count, if it was set.\<close>

definition session_obj_read_with_metadata ::
    "env \<Rightarrow> nat \<Rightarrow> agm_buff \<Rightarrow> 'z agm_world_scheme \<Rightarrow> ((int \<times> u64 option) \<times> 'z agm_world_scheme) option" where
  "session_obj_read_with_metadata E a buf s =
     (if sess_state (sessions s a) = SESSION_CLOSED then Some ((- EINVAL, None), s) else do {
      ((ret, n, g), s) \<leftarrow> graph_read E (sessions s a) (graph (sessions s a)) buf s;
      Some ((ret, n), set_graph a g s) })"

definition session_obj_write_with_metadata ::
    "env \<Rightarrow> nat \<Rightarrow> agm_buff \<Rightarrow> 'z agm_world_scheme \<Rightarrow> ((int \<times> u32 option) \<times> 'z agm_world_scheme) option" where
  "session_obj_write_with_metadata E a buf s =
     (if sess_state (sessions s a) = SESSION_CLOSED then Some ((- EINVAL, None), s)
      else graph_write E (sessions s a) (graph (sessions s a)) buf s)"

definition session_obj_read where
  "session_obj_read E a ptr count s = session_obj_read_with_metadata E a (plain_buff ptr count) s"

definition session_obj_write where
  "session_obj_write E a ptr count s = session_obj_write_with_metadata E a (plain_buff ptr count) s"

text \<open>The \<open>int\<close> result is returned as a \<open>size_t\<close>.\<close>

definition session_obj_hw_processed_buff_cnt :: "nat \<Rightarrow> 'z agm_world_scheme \<Rightarrow> u64" where
  "session_obj_hw_processed_buff_cnt a s =
     (if sess_state (sessions s a) = SESSION_CLOSED then of_int (- EINVAL)
      else of_nat (graph_get_hw_processed_buff_cnt (graph (sessions s a))))"

definition session_obj_set_loopback ::
    "env \<Rightarrow> nat \<Rightarrow> u32 \<Rightarrow> bool \<Rightarrow> 'z agm_world_scheme \<Rightarrow> (int \<times> 'z agm_world_scheme) option" where
  "session_obj_set_loopback E a pb_id st s =
     (let x = sessions s a in
      if pb_id = loopback_sess_id x \<and> st = loopback_state x then Some (- EALREADY, s) else do {
      (ret, s) \<leftarrow> (if sess_state x = SESSION_CLOSED then Some (0, s)
                    else session_set_loopback E a (if st then pb_id else loopback_sess_id x) st s);
      Some (ret, if ret \<noteq> 0 then s
                 else upd_sess a (\<lambda>x. x\<lparr>loopback_sess_id := pb_id, loopback_state := st\<rparr>) s) })"

definition session_obj_set_ec_ref ::
    "env \<Rightarrow> nat \<Rightarrow> u32 \<Rightarrow> bool \<Rightarrow> 'z agm_world_scheme \<Rightarrow> (int \<times> 'z agm_world_scheme) option" where
  "session_obj_set_ec_ref E a k st s =
     (let x = sessions s a in
      if k = ec_ref_aif_id x \<and> st = ec_ref_state x then Some (- EALREADY, s) else do {
      (ret, s) \<leftarrow> (if sess_state x = SESSION_CLOSED then Some (0, s)
                    else session_set_ec_ref E a (if st then k else ec_ref_aif_id x) st s);
      Some (ret, if ret \<noteq> 0 then s
                 else upd_sess a (\<lambda>x. x\<lparr>ec_ref_aif_id := k, ec_ref_state := st\<rparr>) s) })"

definition session_obj_eos ::
    "env \<Rightarrow> nat \<Rightarrow> 'z agm_world_scheme \<Rightarrow> (int \<times> 'z agm_world_scheme) option" where
  "session_obj_eos E a s =
     (if sess_state (sessions s a) = SESSION_CLOSED then Some (- EINVAL, s)
      else graph_eos E (graph (sessions s a)) s)"

definition session_obj_get_timestamp ::
    "env \<Rightarrow> nat \<Rightarrow> 'z agm_world_scheme \<Rightarrow> ((int \<times> u64 option) \<times> 'z agm_world_scheme) option" where
  "session_obj_get_timestamp E a s =
     (if sess_state (sessions s a) = SESSION_CLOSED then Some ((- EINVAL, None), s)
      else graph_get_session_time E (graph (sessions s a)) s)"

definition session_obj_buffer_timestamp :: "nat \<Rightarrow> 'z agm_world_scheme \<Rightarrow> int \<times> u64 option" where
  "session_obj_buffer_timestamp a s =
     (if sess_state (sessions s a) \<noteq> SESSION_STARTED then (- EINVAL, None)
      else graph_get_buffer_timestamp (graph (sessions s a)))"

definition session_obj_get_sess_buf_info ::
    "env \<Rightarrow> nat \<Rightarrow> agm_buf_info \<Rightarrow> u32 \<Rightarrow> 'z agm_world_scheme \<Rightarrow>
       ((int \<times> agm_buf_info) \<times> 'z agm_world_scheme) option" where
  "session_obj_get_sess_buf_info E a bi flag s =
     (if sess_state (sessions s a) = SESSION_CLOSED then Some ((- EINVAL, bi), s) else do {
      ((ret, bi, g), s) \<leftarrow> graph_get_buf_info E (sessions s a) (graph (sessions s a)) bi flag s;
      Some ((ret, bi), set_graph a g s) })"

definition session_obj_set_gapless_metadata ::
    "env \<Rightarrow> nat \<Rightarrow> agm_gapless_silence_type \<Rightarrow> u32 \<Rightarrow> 'z agm_world_scheme \<Rightarrow>
       (int \<times> 'z agm_world_scheme) option" where
  "session_obj_set_gapless_metadata E a ty silence s =
     (if sess_state (sessions s a) = SESSION_CLOSED then Some (- EINVAL, s)
      else graph_set_gapless_metadata E (graph (sessions s a)) ty silence s)"

end
