(* ===== verification/Session_Invariant.thy ===== *)
theory Session_Invariant
  imports Session
begin

text \<open>
  The invariant of the service and how the building blocks of \<open>session_obj.c\<close>
  preserve it: the session pool has one session per id, the AIFs of a session have distinct
  ids and the device their id selects, the GSL graphs that are open are those the sessions
  hold, and a closed session holds none; the devices satisfy the invariant of
  \<open>Device\<close>.
\<close>

lemma upd_sess_simps [simp]:
  "sessions (upd_sess a f s) = (sessions s)(a := f (sessions s a))"
  "session_list (upd_sess a f s) = session_list s" "sess_next (upd_sess a f s) = sess_next s"
  "devs (upd_sess a f s) = devs s" "device_list (upd_sess a f s) = device_list s"
  "grps (upd_sess a f s) = grps s" "num_audio_intfs (upd_sess a f s) = num_audio_intfs s"
  "device_group_data_list (upd_sess a f s) = device_group_data_list s"
  "num_group_devices (upd_sess a f s) = num_group_devices s"
  "sysfs_fd (upd_sess a f s) = sysfs_fd s" "mixer (upd_sess a f s) = mixer s"
  "hist (upd_sess a f s) = hist s"
  by (simp_all add: upd_sess_def)

lemma upd_dev_sess [simp]:
  "sessions (upd_dev d f s) = sessions s" "session_list (upd_dev d f s) = session_list s"
  "sess_next (upd_dev d f s) = sess_next s"
  by (simp_all add: upd_dev_def)

definition aifs_ok :: "'z dev_world_scheme \<Rightarrow> aif list \<Rightarrow> bool" where
  "aifs_ok s fs \<longleftrightarrow> distinct (map aif_id fs)
     \<and> (\<forall>f \<in> set fs. device_get_obj (aif_id f) s = (0, Some (aif_dev f)))"

definition pool_ok :: "'z agm_world_scheme \<Rightarrow> bool" where
  "pool_ok s \<longleftrightarrow> distinct (session_list s) \<and> 0 < sess_next s
     \<and> (\<forall>a \<in> set (session_list s). 0 < a \<and> a < sess_next s)
     \<and> distinct (map (\<lambda>a. sess_id (sessions s a)) (session_list s))"

definition graph_cnt :: "session_obj \<Rightarrow> int" where
  "graph_cnt x = (if graph x = None then 0 else 1)"

definition closed_ok :: "session_obj \<Rightarrow> bool" where
  "closed_ok x \<longleftrightarrow> (sess_state x = SESSION_CLOSED \<longrightarrow> graph x = None)"

definition agm_core :: "env \<Rightarrow> 'z agm_world_scheme \<Rightarrow> bool" where
  "agm_core E s \<longleftrightarrow> devices_inv E counts_ok s \<and> pool_ok s
     \<and> (\<forall>a \<in> set (session_list s). aifs_ok s (aif_pool (sessions s a)))
     \<and> gsl_live E (hist s) = (\<Sum>a \<leftarrow> session_list s. graph_cnt (sessions s a))"

definition agm_inv :: "env \<Rightarrow> 'z agm_world_scheme \<Rightarrow> bool" where
  "agm_inv E s \<longleftrightarrow> agm_core E s \<and> (\<forall>a \<in> set (session_list s). closed_ok (sessions s a))"

text \<open>The invariant inside an operation on session \<open>a\<close>: the device list is \<open>D\<close>,
  the session is closed only if \<open>cl\<close>, the AIF pool has at least \<open>n\<close> entries, the graph is NULL if \<open>gp\<close> says
  so, and \<open>a\<close> alone may be a closed session with a graph.\<close>

definition sess_inv ::
    "env \<Rightarrow> nat list \<Rightarrow> nat \<Rightarrow> bool \<Rightarrow> bool \<Rightarrow> nat \<Rightarrow> 'z agm_world_scheme \<Rightarrow> bool" where
  "sess_inv E D a cl gp n s \<longleftrightarrow> agm_core E s \<and> device_list s = D \<and> a \<in> set (session_list s)
     \<and> (sess_state (sessions s a) = SESSION_CLOSED \<longrightarrow> cl) \<and> n \<le> length (aif_pool (sessions s a))
     \<and> (gp \<longrightarrow> graph (sessions s a) = None)
     \<and> (\<forall>b \<in> set (session_list s). b \<noteq> a \<longrightarrow> closed_ok (sessions s b))"

lemma sess_inv_enter:
  assumes "agm_inv E s" "a \<in> set (session_list s)"
  shows "sess_inv E (device_list s) a (sess_state (sessions s a) = SESSION_CLOSED)
           (sess_state (sessions s a) = SESSION_CLOSED) (length (aif_pool (sessions s a))) s"
  using assms by (auto simp: sess_inv_def agm_inv_def closed_ok_def)

lemma sess_inv_leave: "sess_inv E D a cl gp n s \<Longrightarrow> (cl \<longrightarrow> gp) \<Longrightarrow> agm_inv E s"
  by (auto simp: sess_inv_def agm_inv_def closed_ok_def)

lemma sess_inv_weaken: "sess_inv E D a cl gp n s \<Longrightarrow> (gp' \<Longrightarrow> gp) \<Longrightarrow> n' \<le> n \<Longrightarrow> sess_inv E D a cl gp' n' s"
  by (auto simp: sess_inv_def)

lemma graph_cnt_sum_upd:
  assumes "distinct l" "a \<in> set l"
  shows "(\<Sum>b \<leftarrow> l. graph_cnt ((f(a := x)) b)) = (\<Sum>b \<leftarrow> l. graph_cnt (f b)) + graph_cnt x - graph_cnt (f a)"
proof -
  have "(\<Sum>b \<leftarrow> l. graph_cnt ((f(a := x)) b)) =
      (\<Sum>b \<leftarrow> l. graph_cnt (f b)) + (if a \<in> set l then graph_cnt x - graph_cnt (f a) else 0)"
    using assms(1) by (induction l) auto
  with assms(2) show ?thesis by simp
qed

lemma aifs_ok_cong:
  "device_list t = device_list s \<Longrightarrow> num_audio_intfs t = num_audio_intfs s \<Longrightarrow> aifs_ok t fs = aifs_ok s fs"
  by (simp add: aifs_ok_def device_get_obj_def)

text \<open>Changing the session itself.\<close>

lemma sess_inv_upd:
  assumes J: "sess_inv E D a cl gp n s"
    and t: "sessions t = (sessions s)(a := x)" "session_list t = session_list s"
      "sess_next t = sess_next s" "device_list t = device_list s"
      "num_audio_intfs t = num_audio_intfs s"
    and x: "sess_id x = sess_id (sessions s a)" "sess_state x = SESSION_CLOSED \<longrightarrow> cl'" "n \<le> length (aif_pool x)"
      "aifs_ok s (aif_pool x)" "gp' \<longrightarrow> graph x = None"
    and d: "devices_inv E counts_ok t"
    and h: "gsl_live E (hist t) = gsl_live E (hist s) + graph_cnt x - graph_cnt (sessions s a)"
  shows "sess_inv E D a cl' gp' n t"
proof -
  have a: "distinct (session_list s)" "a \<in> set (session_list s)"
    using J by (auto simp: sess_inv_def agm_core_def pool_ok_def)
  have "(\<lambda>b. sess_id (((sessions s)(a := x)) b)) = (\<lambda>b. sess_id (sessions s b))"
    using x(1) by auto
  then have "pool_ok t"
    using J t by (simp add: sess_inv_def agm_core_def pool_ok_def)
  moreover have "\<forall>b \<in> set (session_list t). aifs_ok t (aif_pool (sessions t b))"
    using J t x(4) aifs_ok_cong [OF t(4,5)] by (auto simp: sess_inv_def agm_core_def)
  moreover have "gsl_live E (hist t) = (\<Sum>b \<leftarrow> session_list t. graph_cnt (sessions t b))"
    using J h graph_cnt_sum_upd [OF a] t by (simp add: sess_inv_def agm_core_def)
  ultimately have "agm_core E t" using d by (simp add: agm_core_def)
  then show ?thesis using J t x by (auto simp: sess_inv_def)
qed

lemma devices_inv_upd_sess [simp]: "devices_inv E K (upd_sess a f s) = devices_inv E K s"
  by (simp add: devices_inv_def sum_devs_def topology_cong [of "upd_sess a f s" s])

lemma sess_inv_upd_sess:
  assumes "sess_inv E D a cl gp n s"
    and "\<And>x. sess_id (f x) = sess_id x \<and> sess_state (f x) = sess_state x \<and> aif_pool (f x) = aif_pool x
           \<and> (graph (f x) = None \<longleftrightarrow> graph x = None)"
  shows "sess_inv E D a cl gp n (upd_sess a f s)"
  by (rule sess_inv_upd [OF assms(1), where x = "f (sessions s a)"])
     (use assms in \<open>auto simp: sess_inv_def agm_core_def graph_cnt_def\<close>)

lemma sess_inv_set_state:
  assumes "sess_inv E D a cl gp n s" "st = SESSION_CLOSED \<longrightarrow> cl'"
  shows "sess_inv E D a cl' gp n (set_sess_state a st s)"
  by (rule sess_inv_upd [OF assms(1), where x = "(sessions s a)\<lparr>sess_state := st\<rparr>"])
     (use assms in \<open>auto simp: sess_inv_def agm_core_def graph_cnt_def\<close>)

lemma sess_inv_set_graph:
  assumes "sess_inv E D a cl gp n s" "(g = None) = (graph (sessions s a) = None)"
  shows "sess_inv E D a cl gp n (set_graph a g s)"
  by (rule sess_inv_upd [OF assms(1), where x = "(sessions s a)\<lparr>graph := g\<rparr>"])
     (use assms in \<open>auto simp: sess_inv_def agm_core_def graph_cnt_def\<close>)

lemma aifs_ok_upd:
  assumes "aifs_ok s fs" "\<And>f. aif_id (F f) = aif_id f \<and> aif_dev (F f) = aif_dev f"
  shows "aifs_ok s (fs[i := F (fs ! i)])"
proof (cases "i < length fs")
  case True
  have "map aif_id (fs[i := F (fs ! i)]) = map aif_id fs"
    using assms(2) True by (simp add: map_update list_update_same_conv)
  then show ?thesis
    using assms True by (auto simp: aifs_ok_def set_conv_nth nth_list_update)
next
  case False
  with assms(1) show ?thesis by (simp add: list_update_beyond)
qed

lemma sess_inv_upd_aif:
  assumes "sess_inv E D a cl gp n s" "\<And>f. aif_id (F f) = aif_id f \<and> aif_dev (F f) = aif_dev f"
  shows "sess_inv E D a cl gp n (upd_aif a i F s)"
  unfolding upd_aif_def
  by (rule sess_inv_upd [OF assms(1), where x = "(sessions s a)\<lparr>aif_pool := (aif_pool (sessions s a))
              [i := F (aif_pool (sessions s a) ! i)]\<rparr>"])
     (use assms in \<open>auto simp: sess_inv_def agm_core_def graph_cnt_def intro: aifs_ok_upd\<close>)

text \<open>Device operations and quiet calls.\<close>

lemma more_fields:
  assumes "dev_world.more t = dev_world.more (s :: 'z agm_world_scheme)"
  shows "sessions t = sessions s" "session_list t = session_list s" "sess_next t = sess_next s"
  using assms by (cases s; cases t; simp)+

lemma sess_inv_dev:
  assumes J: "sess_inv E D a cl gp n s" and "dframe E s t" "devices_inv E counts_ok t"
  shows "sess_inv E D a cl gp n t"
proof -
  note m = more_fields [of t s]
  show ?thesis
    by (rule sess_inv_upd [OF J, where x = "sessions s a"])
       (use assms m in \<open>auto simp: dframe_def sess_inv_def agm_core_def\<close>)
qed

lemma sess_inv_quiet: "sess_inv E D a cl gp n s \<Longrightarrow> quiet E s t \<Longrightarrow> sess_inv E D a cl gp n t"
  by (rule sess_inv_dev)
     (auto simp: dframe_def quiet_def sess_inv_def agm_core_def intro: devices_inv_quiet)

lemma sess_inv_call:
  "sess_inv E D a cl gp n s \<Longrightarrow> wlp m (\<lambda>_ t. quiet E s t) \<Longrightarrow> wlp m (\<lambda>_ t. sess_inv E D a cl gp n t)"
  by (erule wlp_mono) (rule sess_inv_quiet)

lemma sess_inv_graph_call:
  fixes m :: "((int \<times> graph_obj option) \<times> 'z agm_world_scheme) option"
  assumes J: "sess_inv E D a cl gp n s"
    and "wlp m (\<lambda>_ t. quiet E s t)" "wlp m (\<lambda>r t. (snd r = None) = (graph (sessions s a) = None))"
  shows "wlp (do { ((ret, g), s) \<leftarrow> m; Some (ret, set_graph a g s) }) (\<lambda>_ t. sess_inv E D a cl gp n t)"
proof -
  from wlp_conj [OF assms(2,3)]
  have "wlp m (\<lambda>r t. sess_inv E D a cl gp n (set_graph a (snd r) t))"
  proof (rule wlp_mono)
    fix r :: "int \<times> graph_obj option" and t
    assume "quiet E s t \<and> (snd r = None) = (graph (sessions s a) = None)"
    then have q: "quiet E s t" and r: "(snd r = None) = (graph (sessions s a) = None)" by auto
    have "sessions t = sessions s" using q by (intro more_fields(1)) (simp add: quiet_def)
    with r sess_inv_quiet [OF J q]
    show "sess_inv E D a cl gp n (set_graph a (snd r) t)" by (intro sess_inv_set_graph) simp_all
  qed
  then show ?thesis by (simp add: wlp_simps case_prod_beta)
qed

named_theorems sess_calls \<open>operations that keep \<open>sess_inv\<close>\<close>

lemma metadata_merge_quiet [quiet_calls]:
  "quiet E s0 s \<Longrightarrow> wlp (metadata_merge E ins s) (\<lambda>_ t. quiet E s0 t)"
  unfolding metadata_merge_def Let_def by (intro inv_rules inv_bind_value quiet_calls)

lemma metadata_copy_quiet [quiet_calls]:
  "quiet E s0 s \<Longrightarrow> wlp (metadata_copy E d n p s) (\<lambda>_ t. quiet E s0 t)"
  unfolding metadata_copy_def Let_def by (intro inv_rules inv_bind_value quiet_calls)

lemma merge_loop_quiet [quiet_calls]:
  "quiet E s0 s \<Longrightarrow> wlp (merge_loop E ins fs temp s) (\<lambda>_ t. quiet E s0 t)"
proof (induction fs arbitrary: temp s)
  case (Cons f fs)
  show ?case unfolding merge_loop.simps by (intro inv_rules quiet_calls Cons)
qed (simp add: wlp_simps)

lemma session_merge_quiet [quiet_calls]:
  assumes "quiet E s0 s"
  shows "wlp (session_get_merged_metadata E a s) (\<lambda>_ t. quiet E s0 t)"
    "wlp (session_get_merged_metadata_without_aif E a s) (\<lambda>_ t. quiet E s0 t)"
    "wlp (merge_sess_aif_dev E a i s) (\<lambda>_ t. quiet E s0 t)"
  unfolding session_get_merged_metadata_def session_get_merged_metadata_without_aif_def merge_sess_aif_dev_def Let_def
  by (intro inv_rules quiet_calls; (rule assms | assumption))+

lemma call_clients_quiet [quiet_calls]:
  "quiet E s0 s \<Longrightarrow> wlp (call_clients E sid ev cs s) (\<lambda>_ t. quiet E s0 t)"
  unfolding call_clients_def
  by (intro for_each_inv inv_rules quiet_calls) (simp_all add: weightless_def)

lemmas sess_quiet_calls [sess_calls] = quiet_calls [OF quiet_refl, THEN sess_inv_call [rotated]]

lemma sess_graph_calls [sess_calls]:
  assumes "sess_inv E D a cl gp n s"
  shows "wlp (sess_graph_prepare E a s) (\<lambda>_ t. sess_inv E D a cl gp n t)"
    "wlp (sess_graph_start E a s) (\<lambda>_ t. sess_inv E D a cl gp n t)"
    "wlp (sess_graph_stop E a s) (\<lambda>_ t. sess_inv E D a cl gp n t)"
  unfolding sess_graph_prepare_def sess_graph_start_def sess_graph_stop_def
  by (rule sess_inv_graph_call [OF assms]; intro quiet_calls graph_stays quiet_refl)+

lemma aif_dev_in:
  assumes "sess_inv E D a cl gp n s" "i < n"
  shows "aif_dev (the_aif s a i) \<in> set D"
proof -
  have "the_aif s a i \<in> set (aif_pool (sessions s a))" using assms by (auto simp: sess_inv_def)
  then have "device_get_obj (aif_id (the_aif s a i)) s = (0, Some (aif_dev (the_aif s a i)))"
    using assms by (auto simp: sess_inv_def agm_core_def aifs_ok_def)
  then have "aif_dev (the_aif s a i) \<in> set (device_list s)" by (rule device_get_obj_Some(3))
  with assms(1) show ?thesis by (simp add: sess_inv_def)
qed

lemma sess_device_calls [sess_calls]:
  assumes J: "sess_inv E D a cl gp n s" and "d \<in> set D"
  shows "wlp (device_open E (Some d) s) (\<lambda>_ t. sess_inv E D a cl gp n t)"
    "wlp (device_prepare E (Some d) s) (\<lambda>_ t. sess_inv E D a cl gp n t)"
    "wlp (device_start E (Some d) s) (\<lambda>_ t. sess_inv E D a cl gp n t)"
    "wlp (device_stop E (Some d) s) (\<lambda>_ t. sess_inv E D a cl gp n t)"
    "wlp (device_close E (Some d) s) (\<lambda>_ t. sess_inv E D a cl gp n t)"
proof -
  have inv: "devices_inv E counts_ok s" and d: "d \<in> set (device_list s)"
    using assms by (simp_all add: sess_inv_def agm_core_def)
  have step: "wlp m (\<lambda>_ t. devices_inv E counts_ok t) \<Longrightarrow> wlp m (\<lambda>_ t. dframe E s t) \<Longrightarrow>
      wlp m (\<lambda>_ t. sess_inv E D a cl gp n t)" for m :: "(int \<times> 'a agm_world_scheme) option"
    by (drule (1) wlp_conj, erule wlp_mono) (auto intro: sess_inv_dev [OF J])
  show "wlp (device_open E (Some d) s) (\<lambda>_ t. sess_inv E D a cl gp n t)"
    by (intro step counts.device_open_inv [OF inv d] device_ops_dframe) simp
  show "wlp (device_prepare E (Some d) s) (\<lambda>_ t. sess_inv E D a cl gp n t)"
    by (intro step counts.device_prepare_inv [OF inv d] device_ops_dframe TrueI) simp
  show "wlp (device_start E (Some d) s) (\<lambda>_ t. sess_inv E D a cl gp n t)"
    by (intro step counts.device_start_inv [OF inv d] device_ops_dframe) simp
  show "wlp (device_stop E (Some d) s) (\<lambda>_ t. sess_inv E D a cl gp n t)"
    by (intro step counts.device_stop_inv [OF inv d] device_ops_dframe) simp
  show "wlp (device_close E (Some d) s) (\<lambda>_ t. sess_inv E D a cl gp n t)"
    by (intro step counts.device_close_inv [OF inv d] device_ops_dframe) simp
qed

lemma map_fresh:
  assumes "a \<notin> set l"
  shows "map (\<lambda>b. sess_id (if b = a then x else f b)) l = map (\<lambda>b. sess_id (f b)) l"
    "map (\<lambda>b. graph_cnt (if b = a then x else f b)) l = map (\<lambda>b. graph_cnt (f b)) l"
  using assms by auto

lemma session_obj0_sel:
  "sess_id (session_obj0 k) = k" "graph (session_obj0 k) = None" "aif_pool (session_obj0 k) = []"
  "sess_state (session_obj0 k) = SESSION_CLOSED"
  by (simp_all add: session_obj0_def)

lemma device_get_obj_frame [simp]:
  "device_get_obj k (s\<lparr>hist := h\<rparr>) = device_get_obj k s"
  "device_get_obj k (upd_sess a f s') = device_get_obj k s'"
  by (simp_all add: device_get_obj_def)

text \<open>Growing the pool.\<close>

lemma pool_ok_new:
  assumes "pool_ok s" "\<forall>a \<in> set (session_list s). sess_id (sessions s a) \<noteq> k"
  shows "pool_ok (s\<lparr>hist := h, sessions := (sessions s)(sess_next s := session_obj0 k),
           sess_next := Suc (sess_next s), session_list := session_list s @ [sess_next s]\<rparr>)" (is "pool_ok ?t")
proof -
  have fresh: "sess_next s \<notin> set (session_list s)"
    using assms by (auto simp: pool_ok_def)
  have ids: "map (\<lambda>a. sess_id (sessions ?t a)) (session_list ?t)
      = map (\<lambda>a. sess_id (sessions s a)) (session_list s) @ [k]"
    by (simp add: map_fresh(1) [OF fresh] session_obj0_sel del: map_eq_conv)
  have "k \<notin> set (map (\<lambda>a. sess_id (sessions s a)) (session_list s))"
    using assms(2) by auto
  then have "distinct (map (\<lambda>a. sess_id (sessions ?t a)) (session_list ?t))"
    unfolding ids using assms(1) by (simp add: pool_ok_def)
  then show ?thesis
    using assms(1) fresh by (auto simp: pool_ok_def less_Suc_eq)
qed

lemma agm_core_new:
  assumes "agm_core E s" "\<forall>a \<in> set (session_list s). sess_id (sessions s a) \<noteq> k"
  shows "agm_core E (s\<lparr>hist := hist s @ [CALLOC], sessions := (sessions s)(sess_next s := session_obj0 k),
           sess_next := Suc (sess_next s), session_list := session_list s @ [sess_next s]\<rparr>)" (is "agm_core E ?t")
proof -
  have fresh: "sess_next s \<notin> set (session_list s)"
    using assms by (auto simp: agm_core_def pool_ok_def)
  note same = map_fresh [OF fresh, where f = "sessions s" and x = "session_obj0 k"]
  have "devices_inv E counts_ok ?t"
    using assms by (intro devices_inv_frame [of E counts_ok s ?t]) (simp_all add: agm_core_def)
  moreover have "pool_ok ?t"
    using assms by (intro pool_ok_new) (simp_all add: agm_core_def)
  moreover have "\<forall>a \<in> set (session_list ?t). aifs_ok ?t (aif_pool (sessions ?t a))"
    using assms fresh aifs_ok_cong [of ?t s] by (auto simp: agm_core_def session_obj0_sel aifs_ok_def)
  moreover have "gsl_live E (hist ?t) = (\<Sum>a \<leftarrow> session_list ?t. graph_cnt (sessions ?t a))"
    using assms by (simp add: agm_core_def same(2) session_obj0_sel graph_cnt_def [of "session_obj0 k"])
  ultimately show ?thesis by (simp add: agm_core_def)
qed

lemma session_obj_get_sess [sess_calls]:
  assumes J: "sess_inv E D a cl gp n s"
  shows "wlp (session_obj_get E k s) (\<lambda>_ t. sess_inv E D a cl gp n t)"
proof (cases "find (\<lambda>a. sess_id (sessions s a) = k) (session_list s)")
  case (Some b)
  with J show ?thesis by (simp add: session_obj_get_def session_obj_get_from_pool_def wlp_simps)
next
  case None
  then have new: "\<forall>a \<in> set (session_list s). sess_id (sessions s a) \<noteq> k"
    by (auto simp: find_None_iff)
  have "a \<noteq> sess_next s" using J by (auto simp: sess_inv_def agm_core_def pool_ok_def)
  moreover have "agm_core E s" using J by (simp add: sess_inv_def)
  moreover have "quiet E s (s\<lparr>hist := hist s @ [CALLOC]\<rparr>)"
    by (rule quiet_hist) (simp_all add: weightless_def)
  ultimately show ?thesis
    using None J agm_core_new [OF _ new] sess_inv_quiet [OF J]
    by (auto simp: session_obj_get_def session_obj_get_from_pool_def session_obj_create_def
        wlp_simps sess_inv_def closed_ok_def session_obj0_sel)
qed

lemma session_obj_get_agm:
  assumes I: "agm_inv E s"
  shows "wlp (session_obj_get E k s) (\<lambda>r t. agm_inv E t \<and> device_list t = device_list s
           \<and> (case snd r of None \<Rightarrow> fst r \<noteq> 0 | Some a \<Rightarrow> a \<in> set (session_list t)))"
proof (cases "find (\<lambda>a. sess_id (sessions s a) = k) (session_list s)")
  case (Some b)
  then have "b \<in> set (session_list s)" by (auto simp: find_Some_iff)
  with I Some show ?thesis by (simp add: session_obj_get_def session_obj_get_from_pool_def wlp_simps)
next
  case None
  then have new: "\<forall>a \<in> set (session_list s). sess_id (sessions s a) \<noteq> k"
    by (auto simp: find_None_iff)
  have "agm_core E s" using I by (simp add: agm_inv_def)
  moreover have "agm_inv E (s\<lparr>hist := hist s @ [CALLOC]\<rparr>)"
    using I devices_inv_hist [of E counts_ok s "[CALLOC]"]
    by (simp add: agm_inv_def agm_core_def pool_ok_def aifs_ok_def)
  ultimately show ?thesis
    using None I agm_core_new [OF _ new]
    by (auto simp: session_obj_get_def session_obj_get_from_pool_def session_obj_create_def
        wlp_simps agm_inv_def closed_ok_def session_obj0_sel)
qed

lemma index_of_None: "index_of P xs = None \<longleftrightarrow> (\<forall>x \<in> set xs. \<not> P x)"
  by (induction xs) auto

lemma index_of_Some: "index_of P xs = Some i \<Longrightarrow> i < length xs \<and> P (xs ! i)"
  by (induction xs arbitrary: i) (auto split: if_splits)

lemma aif_obj_get_sess:
  assumes J: "sess_inv E D a cl gp n s"
  shows "wlp (aif_obj_get E a k s)
           (\<lambda>r t. sess_inv E D a cl gp n t \<and> (fst r = 0 \<longrightarrow> sess_inv E D a cl gp (Suc (snd r)) t))"
proof (cases "aif_obj_get_from_pool (sessions s a) k")
  case (Some i)
  then have "i < length (aif_pool (sessions s a))"
    unfolding aif_obj_get_from_pool_def by (auto dest: index_of_Some)
  with J Some show ?thesis by (simp add: aif_obj_get_def wlp_simps sess_inv_def)
next
  case None
  let ?s = "s\<lparr>hist := hist s @ [CALLOC]\<rparr>"
  let ?f = "\<lambda>d. \<lparr>aif_id = k, aif_dev = d, aif_st = AIF_CLOSED, sess_aif_meta = metadata0,
                 aif_params = None, aif_tag_config = None\<rparr>"
  let ?x = "\<lambda>d. (sessions s a)\<lparr>aif_pool := aif_pool (sessions s a) @ [?f d]\<rparr>"
  have new: "k \<notin> aif_id ` set (aif_pool (sessions s a))"
    using None by (auto simp: aif_obj_get_from_pool_def index_of_None)
  have "quiet E s ?s" by (rule quiet_hist) (simp_all add: weightless_def)
  then have J1: "sess_inv E D a cl gp n ?s" by (rule sess_inv_quiet [OF J])
  have J2: "sess_inv E D a cl gp (Suc (length (aif_pool (sessions s a))))
      (upd_sess a (\<lambda>x. x\<lparr>aif_pool := aif_pool x @ [?f d]\<rparr>) ?s)"
    if "device_get_obj k ?s = (0, Some d)" for d
  proof -
    have "sess_inv E D a cl gp 0 ?s" using J1 by (rule sess_inv_weaken) simp_all
    then have "sess_inv E D a cl gp 0 (upd_sess a (\<lambda>x. x\<lparr>aif_pool := aif_pool x @ [?f d]\<rparr>) ?s)"
      by (rule sess_inv_upd [where x = "?x d"])
         (use J1 new that in \<open>auto simp: sess_inv_def agm_core_def graph_cnt_def aifs_ok_def\<close>)
    then show ?thesis by (simp add: sess_inv_def)
  qed
  have J3: "sess_inv E D a cl gp n (upd_sess a (\<lambda>x. x\<lparr>aif_pool := aif_pool x @ [?f d]\<rparr>) ?s)"
    if "device_get_obj k ?s = (0, Some d)" for d
    by (rule sess_inv_weaken [OF J2 [OF that]]) (use J in \<open>simp_all add: sess_inv_def\<close>)
  show ?thesis
    using None J1 J2 J3
    by (auto simp: aif_obj_get_def aif_obj_create_def wlp_simps prod_eq_iff)
qed

section \<open>The session pool and the AIF pool of a session are keyed pools\<close>

lemma find_append: "find P (xs @ ys) = (case find P xs of None \<Rightarrow> find P ys | Some x \<Rightarrow> Some x)"
  by (induction xs) auto

lemma retrieve_hist: "session_obj_retrieve_from_pool k (s\<lparr>hist := h\<rparr>) = session_obj_retrieve_from_pool k s"
  by (simp add: session_obj_retrieve_from_pool_def)

lemma retrieve_new:
  assumes "pool_ok s"
  shows "session_obj_retrieve_from_pool k' (s\<lparr>hist := h, sessions := (sessions s)(sess_next s := session_obj0 k),
           sess_next := Suc (sess_next s), session_list := session_list s @ [sess_next s]\<rparr>)
     = (case session_obj_retrieve_from_pool k' s of Some a \<Rightarrow> Some a
        | None \<Rightarrow> if k' = k then Some (sess_next s) else None)"
proof -
  have "sess_next s \<notin> set (session_list s)" using assms by (auto simp: pool_ok_def)
  then have "find (\<lambda>a. sess_id (((sessions s)(sess_next s := session_obj0 k)) a) = k') (session_list s)
      = find (\<lambda>a. sess_id (sessions s a) = k') (session_list s)"
    by (intro find_cong) auto
  then show ?thesis
    by (simp add: session_obj_retrieve_from_pool_def find_append session_obj0_sel split: option.splits)
qed

lemma index_of_append: "index_of P (xs @ ys) =
    (case index_of P xs of Some i \<Rightarrow> Some i | None \<Rightarrow> map_option ((+) (length xs)) (index_of P ys))"
  by (induction xs)
     (auto simp: option.map_comp comp_def option.map_ident_strong split: option.splits intro: option.map_cong)


interpretation session_pool: keyed_pool "session_obj_get_from_pool E" session_obj_retrieve_from_pool pool_ok for E
proof
  fix s t :: "'a agm_world_scheme" and k k' :: u32 and r h
  note defs = session_obj_get_from_pool_def session_obj_create_def session_obj_retrieve_from_pool_def
    calloc_def ecall_def Let_def
  have get: "session_obj_get_from_pool E k s = (case session_obj_retrieve_from_pool k s of
        Some a \<Rightarrow> Some (Some a, s)
      | None \<Rightarrow> if ext_ret E (hist s) CALLOC = 0
          then Some (Some (sess_next s), s\<lparr>hist := hist s @ [CALLOC],
            sessions := (sessions s)(sess_next s := session_obj0 k), sess_next := Suc (sess_next s),
            session_list := session_list s @ [sess_next s]\<rparr>)
          else Some (None, s\<lparr>hist := hist s @ [CALLOC]\<rparr>))"
    by (simp add: defs split: option.splits)
  show "pool_ok t" if "pool_ok s" "session_obj_get_from_pool E k s = Some (r, t)"
  proof (cases "find (\<lambda>a. sess_id (sessions s a) = k) (session_list s)")
    case None
    then have "\<forall>a \<in> set (session_list s). sess_id (sessions s a) \<noteq> k" by (auto simp: find_None_iff)
    from pool_ok_new [OF that(1) this] show ?thesis
      using that None by (auto simp: defs pool_ok_def split: if_splits)
  qed (use that in \<open>auto simp: defs\<close>)
  show "session_obj_retrieve_from_pool k t = Some h" if "pool_ok s" "session_obj_get_from_pool E k s = Some (Some h, t)"
    using that retrieve_new [OF that(1), where k' = k and k = k] unfolding get
    by (auto split: option.splits if_splits)
  show "session_obj_get_from_pool E k s = Some (Some h, s)" if "session_obj_retrieve_from_pool k s = Some h"
    using that by (simp add: defs)
  show "session_obj_retrieve_from_pool k' t = Some h"
    if "pool_ok s" "session_obj_get_from_pool E k s = Some (r, t)" "session_obj_retrieve_from_pool k' s = Some h"
    using that retrieve_new [OF that(1), where k' = k' and k = k] unfolding get
    by (auto simp: retrieve_hist split: option.splits if_splits)
  show "k = k'" if "session_obj_retrieve_from_pool k s = Some h" "session_obj_retrieve_from_pool k' s = Some h"
    using that by (auto simp: defs find_Some_iff)
qed


text \<open>A pool operation on the AIFs of session \<open>a\<close>: no handle on an error.\<close>

definition aif_pool_get ::
    "env \<Rightarrow> nat \<Rightarrow> u32 \<Rightarrow> 'z agm_world_scheme \<Rightarrow> (nat option \<times> 'z agm_world_scheme) option" where
  "aif_pool_get E a k s = do { ((ret, i), s) \<leftarrow> aif_obj_get E a k s; Some (if ret = 0 then Some i else None, s) }"

interpretation aif_pool: keyed_pool "aif_pool_get E a" "\<lambda>k s. aif_obj_get_from_pool (sessions s a) k"
    "\<lambda>s. aifs_ok s (aif_pool (sessions s a))" for E a
proof
  fix s t :: "'a agm_world_scheme" and k k' :: u32 and r h
  note defs = aif_pool_get_def aif_obj_get_def aif_obj_create_def aif_obj_get_from_pool_def calloc_def ecall_def
  show "aifs_ok t (aif_pool (sessions t a))"
    if "aifs_ok s (aif_pool (sessions s a))" "aif_pool_get E a k s = Some (r, t)"
    using that by (auto simp: defs aifs_ok_def index_of_None split: option.splits if_splits prod.splits)
  show "aif_obj_get_from_pool (sessions t a) k = Some h" if "aif_pool_get E a k s = Some (Some h, t)"
    using that by (auto simp: defs index_of_append split: option.splits if_splits prod.splits)
  show "aif_pool_get E a k s = Some (Some h, s)" if "aif_obj_get_from_pool (sessions s a) k = Some h"
    using that by (simp add: defs)
  show "aif_obj_get_from_pool (sessions t a) k' = Some h"
    if "aif_pool_get E a k s = Some (r, t)" "aif_obj_get_from_pool (sessions s a) k' = Some h"
    using that by (auto simp: defs index_of_append split: option.splits if_splits prod.splits)
  show "k = k'" if "aif_obj_get_from_pool (sessions s a) k = Some h" "aif_obj_get_from_pool (sessions s a) k' = Some h"
    using that by (auto simp: defs dest: index_of_Some)
qed

end
