(* ===== verification/Session_Operations.thy ===== *)
theory Session_Operations
  imports Session_Invariant
begin

text \<open>
  Every operation of \<open>session_obj.c\<close> preserves the invariant of the service. The
  operations are taken in the order of the source: connecting an AIF, opening, preparing,
  starting, stopping and closing a session, and the operations of the session interface.
\<close>

lemma sess_inv_if:
  "(b \<Longrightarrow> sess_inv E D a cl gp n s) \<Longrightarrow> (\<not> b \<Longrightarrow> sess_inv E D a cl gp n t) \<Longrightarrow>
     sess_inv E D a cl gp n (if b then s else t)"
  by simp

lemma sess_inv_upd_dev:
  assumes J: "sess_inv E D a cl gp n s"
    and f: "\<And>x. refcnt (f x) = refcnt x \<and> parent_dev (f x) = parent_dev x \<and> group_data (f x) = group_data x"
  shows "sess_inv E D a cl gp n (upd_dev d f s)"
  by (rule sess_inv_dev [OF J])
     (use J f in \<open>auto simp: sess_inv_def agm_core_def counts_ok_def intro!: devices_inv_upd_dev\<close>)

lemmas sess_updates = sess_inv_if sess_inv_upd_dev sess_inv_upd_aif sess_inv_set_state sess_inv_upd_sess

lemma sess_inv_len: "sess_inv E D a cl gp n s \<Longrightarrow> sess_inv E D a cl gp (length (aif_pool (sessions s a))) s"
  by (simp add: sess_inv_def)

text \<open>A loop over the AIFs.\<close>

lemma sess_for_each:
  assumes J: "sess_inv E D a cl gp n s"
    and body: "\<And>i t m. i < m \<Longrightarrow> sess_inv E D a cl gp m t \<Longrightarrow> wlp (body i t) (\<lambda>_ u. sess_inv E D a cl gp m u)"
  shows "wlp (for_each body (aif_indices s a) s) (\<lambda>_ t. sess_inv E D a cl gp n t)"
proof -
  let ?m = "length (aif_pool (sessions s a))"
  have "wlp (for_each body (aif_indices s a) s) (\<lambda>_ t. sess_inv E D a cl gp ?m t)"
    by (rule for_each_inv) (use sess_inv_len [OF J] in \<open>auto intro: body\<close>)
  then show ?thesis
    by (rule wlp_mono) (use J in \<open>auto simp: sess_inv_def elim: sess_inv_weaken\<close>)
qed

lemma sess_for_each_until:
  assumes J: "sess_inv E D a cl gp n s"
    and body: "\<And>i t m. i < m \<Longrightarrow> sess_inv E D a cl gp m t \<Longrightarrow> wlp (body i t) (\<lambda>_ u. sess_inv E D a cl gp m u)"
  shows "wlp (for_each_until body (aif_indices s a) s) (\<lambda>_ t. sess_inv E D a cl gp n t)"
proof -
  let ?m = "length (aif_pool (sessions s a))"
  have "wlp (for_each_until body (aif_indices s a) s) (\<lambda>_ t. sess_inv E D a cl gp ?m t)"
    by (rule for_each_until_inv) (use sess_inv_len [OF J] in \<open>auto intro: body\<close>)
  then show ?thesis
    by (rule wlp_mono) (use J in \<open>auto simp: sess_inv_def elim: sess_inv_weaken\<close>)
qed

lemma graph_edge_sess [sess_calls]:
  "sess_inv E D a cl gp n s \<Longrightarrow> wlp (graph_edge E a enable m s) (\<lambda>_ t. sess_inv E D a cl gp n t)"
  unfolding graph_edge_def
  by (intro inv_if, rule sess_inv_graph_call) (assumption | intro quiet_calls graph_stays quiet_refl sess_calls)+

lemma session_set_sess [sess_calls]:
  assumes "sess_inv E D a cl gp n s"
  shows "wlp (session_set_loopback E a k enable s) (\<lambda>_ t. sess_inv E D a cl gp n t)"
    "wlp (session_set_ec_ref E a k enable s) (\<lambda>_ t. sess_inv E D a cl gp n t)"
  unfolding session_set_loopback_def session_set_ec_ref_def
  by (intro inv_rules sess_calls; (rule assms | assumption))+

lemma graph_close_sess:
  assumes J: "sess_inv E D a cl gp n s"
  shows "wlp (graph_close E (graph (sessions s a)) s) (\<lambda>_ t. sess_inv E D a cl True n (set_graph a None t))"
proof (cases "graph (sessions s a)")
  case None
  have "sess_inv E D a cl True n (set_graph a None s)"
    by (rule sess_inv_upd [OF J, where x = "(sessions s a)\<lparr>graph := None\<rparr>"])
       (use J None in \<open>auto simp: sess_inv_def agm_core_def graph_cnt_def\<close>)
  with None show ?thesis by (simp add: graph_close_def wlp_simps)
next
  case (Some g)
  let ?t = "s\<lparr>hist := hist s @ [GSL_CLOSE (g_handle g)]\<rparr>"
  have d: "devices_inv E counts_ok (set_graph a None ?t)"
    unfolding devices_inv_upd_sess
    by (rule devices_inv_hist) (use J in \<open>simp_all add: sess_inv_def agm_core_def\<close>)
  have "sess_inv E D a cl True n (set_graph a None ?t)"
    by (rule sess_inv_upd [OF J, where x = "(sessions s a)\<lparr>graph := None\<rparr>", OF _ _ _ _ _ _ _ _ _ _ d])
       (use J Some in \<open>auto simp: sess_inv_def agm_core_def graph_cnt_def\<close>)
  with Some show ?thesis by (simp add: graph_close_def wlp_simps)
qed

lemma graph_open_frame:
  "wlp (graph_open E cfg mp dev s) (\<lambda>r t.
      (fst r \<noteq> 0 \<longrightarrow> snd r = None) \<and>
      devs t = devs s \<and> device_list t = device_list s \<and> grps t = grps s
     \<and> num_audio_intfs t = num_audio_intfs s \<and> dev_world.more t = dev_world.more s
     \<and> pcm_live E (hist t) = pcm_live E (hist s)
     \<and> gsl_live E (hist t) = gsl_live E (hist s) + (if snd r = None then 0 else 1))"
proof (cases mp)
  case (Some m)
  have fresh: "quiet E s t \<Longrightarrow> wlp (print_graph_alias E m t) (\<lambda>_ u. quiet E s u)" for t
    by (intro quiet_calls)
  have mods: "quiet E s t \<Longrightarrow> wlp (open_modules E cfg m dev t) (\<lambda>_ u. quiet E s u)" for t
    by (intro quiet_calls)
  show ?thesis
    unfolding graph_open_def Some option.case
    by (rule wlp_bindI [OF calloc_quiet [OF quiet_refl]], rule inv_if, simp add: wlp_simps quiet_def,
        rule wlp_bindI [OF fresh], assumption, rule wlp_bindI [OF mods], assumption)
       (auto simp: wlp_simps quiet_def split: option.splits)
qed (simp add: graph_open_def wlp_simps)

lemma graph_open_sess:
  assumes J: "sess_inv E D a cl True n s"
  shows "wlp (graph_open E cfg mp dev s) (\<lambda>(ret, g) t. (ret \<noteq> 0 \<longrightarrow> g = None) \<and>
     sess_inv E D a cl (g = None) n (case g of None \<Rightarrow> t | Some _ \<Rightarrow> set_graph a g t))"
proof (rule wlp_mono [OF graph_open_frame [of E cfg mp dev s]], unfold split_paired_all prod.case fst_conv snd_conv,
    elim conjE, intro conjI)
  fix ret :: int and g :: "graph_obj option" and t :: "'a agm_world_scheme"
  let ?t = "case g of None \<Rightarrow> t | Some _ \<Rightarrow> set_graph a g t"
  assume t: "devs t = devs s" "device_list t = device_list s" "grps t = grps s"
      "num_audio_intfs t = num_audio_intfs s" "dev_world.more t = dev_world.more s"
      "pcm_live E (hist t) = pcm_live E (hist s)"
      "gsl_live E (hist t) = gsl_live E (hist s) + (if g = None then 0 else 1)"
  note m = more_fields [OF t(5)]
  have "devices_inv E counts_ok t"
    by (rule devices_inv_frame [of E counts_ok s]) (use J t in \<open>auto simp: sess_inv_def agm_core_def\<close>)
  then show "sess_inv E D a cl (g = None) n ?t"
    by (intro sess_inv_upd [OF J, where x = "(sessions s a)\<lparr>graph := g\<rparr>"])
       (use J t m in \<open>auto simp: sess_inv_def agm_core_def graph_cnt_def split: option.splits\<close>)
qed simp

lemma device_params_sess [sess_calls]:
  "sess_inv E D a cl gp n s \<Longrightarrow>
     wlp (session_apply_aif_device_params E a d s) (\<lambda>_ t. sess_inv E D a cl gp n t)"
  unfolding session_apply_aif_device_params_def
  by (intro inv_rules sess_updates sess_calls) simp_all

lemma tag_params_sess [sess_calls]:
  "sess_inv E D a cl gp n s \<Longrightarrow>
     wlp (session_apply_aif_tag_params E a i m s) (\<lambda>_ t. sess_inv E D a cl gp n t)"
  unfolding session_apply_aif_tag_params_def
  by (intro inv_rules sess_updates sess_calls) simp_all

lemma connect_params_sess [sess_calls]:
  "sess_inv E D a cl gp n s \<Longrightarrow> wlp (connect_params E a i m s) (\<lambda>_ t. sess_inv E D a cl gp n t)"
  unfolding connect_params_def connect_sess_params_def
  by (intro inv_rules sess_updates sess_calls) simp_all

lemma connect_close_device_sess [sess_calls]:
  "sess_inv E D a cl gp n s \<Longrightarrow> i < n \<Longrightarrow>
     wlp (connect_close_device E a i s) (\<lambda>_ t. sess_inv E D a cl gp n t)"
  unfolding connect_close_device_def Let_def
  by (intro inv_rules sess_calls aif_dev_in [where n = n] sess_updates) simp_all

lemma session_disconnect_aif_sess [sess_calls]:
  assumes "sess_inv E D a cl gp n s" "i < n"
  shows "wlp (session_disconnect_aif E a i c s) (\<lambda>_ t. sess_inv E D a cl gp n t)"
proof -
  note d = aif_dev_in [OF assms]
  have stop: "wlp (do { ((_, g), s) \<leftarrow> graph_stop E (graph (sessions s a)) p s; Some (True, set_graph a g s) })
      (\<lambda>_ t. sess_inv E D a cl gp n t)" if "sess_inv E D a cl gp n s" for p and s :: "'a agm_world_scheme"
  proof -
    have "wlp (do { ((r, g), s) \<leftarrow> graph_stop E (graph (sessions s a)) p s; Some (r, set_graph a g s) })
       (\<lambda>_ t. sess_inv E D a cl gp n t)"
      by (rule sess_inv_graph_call [OF that]; intro quiet_calls graph_stays quiet_refl)
    then show ?thesis by (simp add: wlp_simps case_prod_beta)
  qed
  show ?thesis
    unfolding session_disconnect_aif_def Let_def
    by (intro inv_rules stop sess_calls d; (rule assms | assumption | rule d)?)
qed

lemma sess_gp_False: "sess_inv E D a cl gp n s \<Longrightarrow> sess_inv E D a cl False n s"
  by (rule sess_inv_weaken) auto

lemma register_cb_stays: "(snd (graph_register_cb gp c) = None) = (gp = None)"
  by (simp add: graph_register_cb_def split: option.splits)

lemma set_graph_stays_gp:
  assumes "wlp m (\<lambda>_ t. quiet E s t)" "wlp m (\<lambda>r t. (snd r = None) = (graph (sessions s a) = None))"
    and J: "sess_inv E D a cl gp n s"
  shows "wlp m (\<lambda>r t. sess_inv E D a cl gp n (set_graph a (snd r) t))"
  using wlp_conj [OF assms(1,2)]
proof (rule wlp_mono)
  fix r :: "'a \<times> graph_obj option" and t
  assume A: "quiet E s t \<and> (snd r = None) = (graph (sessions s a) = None)"
  then have "sessions t = sessions s" by (intro more_fields(1)) (simp add: quiet_def)
  with A sess_inv_quiet [OF J, of t]
  show "sess_inv E D a cl gp n (set_graph a (snd r) t)" by (intro sess_inv_set_graph) auto
qed

text \<open>After a failure of step 2.b the graph is NULL if it was before.\<close>

lemma connect_graph_sess:
  assumes J: "sess_inv E D a cl gp n s" and c: "c = 0 \<and> cl \<longrightarrow> gp"
  shows "wlp (connect_graph E a d m c s)
     (\<lambda>r t. sess_inv E D a cl (gp \<and> fst r \<noteq> 0 \<and> \<not> snd r) n t)"
proof (cases "c = 0 \<and> sess_state (sessions s a) = SESSION_CLOSED")
  case True
  with J c have gp: gp by (auto simp: sess_inv_def)
  let ?cfg = "sessions s a"
  have opn: "wlp (graph_open E ?cfg (Some m) (Some d) s) (\<lambda>(ret, g) t. (ret \<noteq> 0 \<longrightarrow> g = None) \<and>
     sess_inv E D a cl (g = None) n (case g of None \<Rightarrow> t | Some _ \<Rightarrow> set_graph a g t))"
    using J gp by (intro graph_open_sess) simp
  have reg: "sess_inv E D a cl False n (set_graph a (snd (graph_register_cb g k)) t)"
    if "sess_inv E D a cl gp' n t" "g = graph (sessions t a)" for gp' t g and k
    unfolding that(2) by (rule sess_inv_set_graph [OF sess_gp_False [OF that(1)] register_cb_stays])
  show ?thesis
    unfolding connect_graph_def Let_def if_P [OF True]
    by (rule wlp_bindI [OF opn])
       (use gp in \<open>auto simp: wlp_simps case_prod_beta intro: reg split: option.splits\<close>)
next
  case False
  have add: "wlp (graph_add E (sessions s a) (graph (sessions s a)) m (Some d) s)
       (\<lambda>r t. sess_inv E D a cl gp n (set_graph a (snd r) t))"
    "wlp (graph_change E (sessions s a) (graph (sessions s a)) m (Some d) s)
       (\<lambda>r t. sess_inv E D a cl gp n (set_graph a (snd r) t))"
    by (rule set_graph_stays_gp [OF _ _ J]; intro quiet_calls graph_stays quiet_refl)+
  show ?thesis
    unfolding connect_graph_def Let_def if_not_P [OF False]
    by (auto simp: wlp_simps case_prod_beta elim!: sess_inv_weaken intro!: wlp_mono [OF add(1)] wlp_mono [OF add(2)])
qed

lemma connect_graph_cleanup_sess:
  assumes J: "sess_inv E D a cl gp n s"
  shows "wlp (connect_graph_cleanup E a m c s) (\<lambda>_ t. sess_inv E D a cl (gp \<or> c = 0) n t)"
proof (cases "c = 0")
  case True
  with graph_close_sess [OF J] show ?thesis
    by (simp add: connect_graph_cleanup_def wlp_simps)
next
  case False
  with J show ?thesis
    unfolding connect_graph_cleanup_def by (auto intro!: inv_rules sess_calls)
qed

lemma session_connect_aif_sess:
  assumes J: "sess_inv E D a cl gp n s" and i: "i < n" and c: "c = 0 \<and> cl \<longrightarrow> gp"
  shows "wlp (session_connect_aif E a i c s) (\<lambda>r t. sess_inv E D a cl (gp \<and> c = 0 \<and> r \<noteq> 0) n t)"
proof -
  let ?Q = "\<lambda>r t. sess_inv E D a cl (gp \<and> c = 0 \<and> r \<noteq> 0) n t"
  have weak: "sess_inv E D a cl gp' n t \<Longrightarrow> (gp \<and> c = 0 \<and> r \<noteq> 0 \<Longrightarrow> gp') \<Longrightarrow> ?Q r t" for gp' t r
    by (erule sess_inv_weaken) auto
  have close: "wlp (do { (_, s) \<leftarrow> connect_close_device E a i t; Some (ret, s) }) ?Q"
    if "sess_inv E D a cl gp' n t" "gp \<and> c = 0 \<and> ret \<noteq> 0 \<Longrightarrow> gp'" for t gp' ret
    by (rule wlp_bindI [OF connect_close_device_sess [OF that(1) i]])
       (auto simp: wlp_simps intro!: weak that(2))
  have clean: "wlp (do { (_, s) \<leftarrow> connect_graph_cleanup E a m c t;
                         (_, s) \<leftarrow> connect_close_device E a i s; Some (ret, s) }) ?Q"
    if "sess_inv E D a cl False n t" for t m ret
    by (rule wlp_bindI [OF connect_graph_cleanup_sess [OF that]]) (auto intro: close)
  have params: "wlp (if r \<noteq> 0 then Some (r, t) else connect_params E a i m t) (\<lambda>_ t. sess_inv E D a cl False n t)"
    if "sess_inv E D a cl False n t" for t m r
    using that by (intro inv_rules sess_calls)
  have tail: "wlp (if fst p \<noteq> 0 \<and> \<not> snd p
       then do { (_, s) \<leftarrow> connect_close_device E a i t; Some (fst p, s) }
       else do {
       (ret, s) \<leftarrow> (if fst p \<noteq> 0 then Some (fst p, t) else connect_params E a i m t);
       if ret = 0 then Some (0, s)
       else do {
         (_, s) \<leftarrow> connect_graph_cleanup E a m c s;
         (_, s) \<leftarrow> connect_close_device E a i s;
         Some (ret, s) }}) ?Q" if "sess_inv E D a cl (gp \<and> fst p \<noteq> 0 \<and> \<not> snd p) n t" for p t m
    using sess_gp_False [OF that]
    by (intro inv_if close [OF that] wlp_bindI [OF params] clean res_Some) (auto intro: weak)
  have graph: "wlp (do {
       ((ret, cleanup), s) \<leftarrow> connect_graph E a d m c t;
       if ret \<noteq> 0 \<and> \<not> cleanup
       then do { (_, s) \<leftarrow> connect_close_device E a i s; Some (ret, s) }
       else do {
       (ret, s) \<leftarrow> (if ret \<noteq> 0 then Some (ret, s) else connect_params E a i m s);
       if ret = 0 then Some (0, s)
       else do {
         (_, s) \<leftarrow> connect_graph_cleanup E a m c s;
         (_, s) \<leftarrow> connect_close_device E a i s;
         Some (ret, s) }}}) ?Q" if "sess_inv E D a cl gp n t" for d m t
    unfolding split_beta
    by (rule wlp_bindI [OF connect_graph_sess [OF that c], unfolded split_beta]) (rule tail [unfolded split_beta])
  have merge: "wlp (merge_sess_aif_dev E a i s) (\<lambda>_ t. sess_inv E D a cl gp n t)"
    by (intro sess_calls J)
  have opened: "wlp (device_open E (Some (aif_dev (the_aif t a i))) t) (\<lambda>_ t. sess_inv E D a cl gp n t)"
    if "sess_inv E D a cl gp n t" for t
    by (rule sess_device_calls [OF that aif_dev_in [OF that i]])
  show ?thesis
    unfolding session_connect_aif_def Let_def
    by (rule wlp_bindI [OF merge], rule inv_case_option, rule res_Some, erule weak, simp,
        rule wlp_bindI [OF opened], assumption, rule inv_if, rule res_Some, erule weak, simp, rule graph)
qed

lemma open_first_sess:
  assumes J: "sess_inv E D a cl True n s"
  shows "wlp (session_open_with_first_device E a s) (\<lambda>r t. sess_inv E D a cl (r \<noteq> 0) n t)"
proof (cases "index_of (\<lambda>f. aif_st f = AIF_OPEN) (aif_pool (sessions s a))")
  case None
  with J show ?thesis by (simp add: session_open_with_first_device_def wlp_simps)
next
  case (Some i)
  have "i < length (aif_pool (sessions s a))" using index_of_Some [OF Some] by simp
  from session_connect_aif_sess [OF sess_inv_len [OF J] this, of 0]
  have "wlp (session_connect_aif E a i 0 s)
      (\<lambda>r t. sess_inv E D a cl (r \<noteq> 0) (length (aif_pool (sessions s a))) t)" by simp
  then have c: "wlp (session_connect_aif E a i 0 s) (\<lambda>r t. sess_inv E D a cl (r \<noteq> 0) n t)"
    by (rule wlp_mono) (use J in \<open>auto simp: sess_inv_def elim: sess_inv_weaken\<close>)
  show ?thesis
    unfolding session_open_with_first_device_def Some option.case
    by (rule wlp_bindI [OF c]) (auto simp: wlp_simps intro: sess_inv_upd_aif)
qed

lemma unwind_aif_sess [sess_calls]:
  "sess_inv E D a cl gp n s \<Longrightarrow> i < n \<Longrightarrow> wlp (unwind_aif E a i s) (\<lambda>_ t. sess_inv E D a cl gp n t)"
  unfolding unwind_aif_def by (intro inv_rules sess_updates sess_calls) simp_all

lemma unwind_open_sess:
  assumes J: "sess_inv E D a cl gp n s"
  shows "wlp (unwind_open E a s) (\<lambda>_ t. sess_inv E D a cl True n t)"
proof -
  have "wlp (for_each (unwind_aif E a) (aif_indices s a) s) (\<lambda>_ t. sess_inv E D a cl gp n t)"
    by (rule sess_for_each [OF J]) (intro sess_calls)
  then show ?thesis
    unfolding unwind_open_def
    by (rule wlp_bindI) (auto simp: wlp_simps intro: wlp_mono [OF graph_close_sess])
qed

lemma connect_rest_sess:
  "sess_inv E D a cl False n s \<Longrightarrow> c \<noteq> 0 \<Longrightarrow> set is \<subseteq> {..<n} \<Longrightarrow>
     wlp (connect_rest E a c is s) (\<lambda>_ t. sess_inv E D a cl False n t)"
proof (induction "is" arbitrary: c s)
  case (Cons i "is")
  then have i: "i < n" "set is \<subseteq> {..<n}" by auto
  have "wlp (session_connect_aif E a i c s) (\<lambda>_ t. sess_inv E D a cl False n t)"
    using session_connect_aif_sess [OF Cons.prems(1) i(1), of c] Cons.prems(2) by simp
  then show ?case
    unfolding connect_rest.simps
    by (intro inv_rules Cons.IH sess_updates) (use i Cons.prems in auto)
qed (simp add: wlp_simps)

lemma reminder_sess:
  assumes J: "sess_inv E D a cl False n s"
  shows "wlp (session_connect_reminder_devices E a s) (\<lambda>r t. sess_inv E D a cl (r \<noteq> 0) n t)"
proof -
  have "wlp (connect_rest E a 1 (aif_indices s a) s)
      (\<lambda>_ t. sess_inv E D a cl False (length (aif_pool (sessions s a))) t)"
    by (rule connect_rest_sess [OF sess_inv_len [OF J]]) auto
  then have c: "wlp (connect_rest E a 1 (aif_indices s a) s) (\<lambda>_ t. sess_inv E D a cl False n t)"
    by (rule wlp_mono) (use J in \<open>auto simp: sess_inv_def elim: sess_inv_weaken\<close>)
  show ?thesis
    unfolding session_connect_reminder_devices_def
    by (rule wlp_bindI [OF c])
       (auto simp: wlp_simps intro: wlp_mono [OF unwind_open_sess] elim: sess_inv_weaken)
qed

lemma open_without_device_sess:
  assumes J: "sess_inv E D a cl True n s"
  shows "wlp (session_open_without_device E a s) (\<lambda>r t. sess_inv E D a cl (r \<noteq> 0) n t)"
proof -
  let ?x = "sessions s a"
  have reg: "sess_inv E D a cl False n (set_graph a (snd (graph_register_cb g k)) t)"
    if "sess_inv E D a cl gp' n t" "g = graph (sessions t a)" for gp' t g and k
    unfolding that(2) by (rule sess_inv_set_graph [OF sess_gp_False [OF that(1)] register_cb_stays])
  have params: "wlp (case graph_register_cb (graph (sessions t a)) k of (ret, g) \<Rightarrow>
         if ret \<noteq> 0 then Some (ret, t)
         else case sess_params (sessions t a) of None \<Rightarrow> Some (0, set_graph a g t)
           | Some p \<Rightarrow> do {
               (ret, s) \<leftarrow> graph_set_config E g p (set_graph a g t);
               Some (ret, if ret \<noteq> 0 then s else upd_sess a (\<lambda>x. x\<lparr>sess_params := None\<rparr>) s) })
       (\<lambda>_ t. sess_inv E D a cl False n t)" if "sess_inv E D a cl gp' n t" for gp' t k
  proof (cases "graph_register_cb (graph (sessions t a)) k")
    case (Pair ret g)
    have Jg: "sess_inv E D a cl False n (set_graph a g t)" using reg [OF that refl, of k] Pair by simp
    show ?thesis
      unfolding Pair prod.case by (intro inv_rules Jg sess_updates sess_calls) (simp_all add: sess_gp_False [OF that])
  qed
  have tail: "wlp (if r \<noteq> 0 then Some (r, t) else do {
      (ret, s) \<leftarrow> (case graph_register_cb (graph (sessions t a)) k of (ret, g) \<Rightarrow>
         if ret \<noteq> 0 then Some (ret, t)
         else case sess_params (sessions t a) of None \<Rightarrow> Some (0, set_graph a g t)
           | Some p \<Rightarrow> do {
               (ret, s) \<leftarrow> graph_set_config E g p (set_graph a g t);
               Some (ret, if ret \<noteq> 0 then s else upd_sess a (\<lambda>x. x\<lparr>sess_params := None\<rparr>) s) });
      if ret = 0 then Some (0, s)
      else do { (_, s) \<leftarrow> graph_close E (graph (sessions s a)) s; Some (ret, set_graph a None s) }})
      (\<lambda>r t. sess_inv E D a cl (r \<noteq> 0) n t)" if "sess_inv E D a cl (g = None) n t" "r \<noteq> 0 \<Longrightarrow> g = None" for r t k and g :: "graph_obj option"
    by (intro inv_if res_Some wlp_bindI [OF params [OF that(1)]] wlp_bindI [OF graph_close_sess])
       (use that in auto)
  show ?thesis
  proof (cases "sess_state ?x = SESSION_CLOSED")
    case True
    then show ?thesis
      unfolding session_open_without_device_def Let_def
      by (simp only: simp_thms if_False)
         (rule wlp_bindI [OF graph_open_sess [OF J]], rule inv_case_prod_app, simp only: prod.case, elim conjE, erule tail, simp)
  next
    case False
    with J show ?thesis by (auto simp: session_open_without_device_def wlp_simps elim: sess_inv_weaken)
  qed
qed

lemma aif_ops_sess [sess_calls]:
  assumes J: "sess_inv E D a cl gp n s" and i: "i < n"
  shows "wlp (prepare_aif E a i s) (\<lambda>_ t. sess_inv E D a cl gp n t)"
    "wlp (start_aif E a i s) (\<lambda>_ t. sess_inv E D a cl gp n t)"
    "wlp (stop_started_aif E a st i s) (\<lambda>_ t. sess_inv E D a cl gp n t)"
  unfolding prepare_aif_def start_aif_def stop_started_aif_def
  by (intro inv_rules sess_device_calls [OF J aif_dev_in [OF J i]] sess_updates; simp add: J)+

lemma prepare_start_aif_sess [sess_calls]:
  "sess_inv E D a cl gp n s \<Longrightarrow> i < n \<Longrightarrow> wlp (prepare_start_aif E a i s) (\<lambda>_ t. sess_inv E D a cl gp n t)"
  unfolding prepare_start_aif_def by (intro inv_rules sess_calls)

lemma session_prepare_sess [sess_calls]:
  "sess_inv E D a cl gp n s \<Longrightarrow> wlp (session_prepare E a s) (\<lambda>_ t. sess_inv E D a cl gp n t)"
  unfolding session_prepare_def Let_def
  by (intro inv_rules sess_for_each_until sess_updates sess_calls) simp_all

lemma start_checks_sess [sess_calls]:
  "sess_inv E D a cl gp n s \<Longrightarrow> wlp (start_checks E a s) (\<lambda>_ t. sess_inv E D a cl gp n t)"
  unfolding start_checks_def by (intro inv_rules sess_calls)

lemma start_unwind_sess [sess_calls]:
  "sess_inv E D a cl gp n s \<Longrightarrow> wlp (start_unwind E a g ret s) (\<lambda>_ t. sess_inv E D a cl gp n t)"
  unfolding start_unwind_def by (intro inv_rules sess_for_each sess_calls)

lemma session_start_sess [sess_calls]:
  "sess_inv E D a cl gp n s \<Longrightarrow> wlp (session_start E a s) (\<lambda>_ t. sess_inv E D a cl gp n t)"
  unfolding session_start_def Let_def
  by (intro inv_rules sess_for_each_until sess_updates sess_calls) simp_all

lemma stop_loop_sess:
  "sess_inv E D a cl gp n s \<Longrightarrow> set is \<subseteq> {..<n} \<Longrightarrow>
     wlp (stop_loop E a is ret s) (\<lambda>_ t. sess_inv E D a cl gp n t)"
proof (induction "is" arbitrary: ret s)
  case (Cons i "is")
  then have i: "i < n" "set is \<subseteq> {..<n}" by auto
  show ?case
    unfolding stop_loop.simps
    by (intro inv_rules Cons.IH sess_device_calls [OF Cons.prems(1) aif_dev_in [OF Cons.prems(1) i(1)]] sess_updates)
       (simp_all add: i Cons.prems)
qed (simp add: wlp_simps)

lemma close_loop_sess:
  "sess_inv E D a cl gp n s \<Longrightarrow> set is \<subseteq> {..<n} \<Longrightarrow>
     wlp (close_loop E a is ret s) (\<lambda>_ t. sess_inv E D a cl gp n t)"
proof (induction "is" arbitrary: ret s)
  case (Cons i "is")
  then have i: "i < n" "set is \<subseteq> {..<n}" by auto
  show ?case
    unfolding close_loop.simps
    by (intro inv_rules Cons.IH sess_device_calls [OF Cons.prems(1) aif_dev_in [OF Cons.prems(1) i(1)]] sess_updates)
       (simp_all add: i Cons.prems)
qed (simp add: wlp_simps)

text \<open>The loops over all AIFs.\<close>

lemma all_aifs:
  assumes J: "sess_inv E D a cl gp n s"
    and "\<And>m. sess_inv E D a cl gp m s \<Longrightarrow> set (aif_indices s a) \<subseteq> {..<m} \<Longrightarrow> wlp M (\<lambda>_ t. sess_inv E D a cl gp m t)"
  shows "wlp M (\<lambda>_ t. sess_inv E D a cl gp n t)"
  using assms(2) [OF sess_inv_len [OF J]]
  by (rule wlp_mono) (use J in \<open>auto simp: sess_inv_def elim: sess_inv_weaken\<close>)

lemma loops_sess [sess_calls]:
  assumes "sess_inv E D a cl gp n s"
  shows "wlp (stop_loop E a (aif_indices s a) ret s) (\<lambda>_ t. sess_inv E D a cl gp n t)"
    "wlp (close_loop E a (aif_indices s a) ret s) (\<lambda>_ t. sess_inv E D a cl gp n t)"
  by (rule all_aifs [OF assms], erule stop_loop_sess close_loop_sess, assumption)+

lemma session_stop_sess [sess_calls]:
  "sess_inv E D a cl gp n s \<Longrightarrow> wlp (session_stop E a s) (\<lambda>_ t. sess_inv E D a cl gp n t)"
  unfolding session_stop_def
  by (intro inv_rules sess_updates sess_calls) simp_all

lemma session_close_sess:
  assumes J: "sess_inv E D a cl gp n s" and c: "sess_state (sessions s a) = SESSION_CLOSED \<longrightarrow> gp"
  shows "wlp (session_close E a s) (\<lambda>_ t. sess_inv E D a True True n t)"
proof (cases "sess_state (sessions s a) = SESSION_CLOSED")
  case True
  with J c show ?thesis by (auto simp: session_close_def wlp_simps sess_inv_def)
next
  case False
  have stop: "wlp (if sess_state (sessions s a) = SESSION_STARTED then sess_graph_stop E a s else Some (0, s))
       (\<lambda>_ t. sess_inv E D a cl gp n t)"
    by (intro inv_rules sess_calls J)
  have rest: "wlp (do { (ret, s) \<leftarrow> (if has_device_leg (sess_mode t a) then close_loop E a (aif_indices t a) ret t
                    else Some (ret, t));
      Some (ret, set_sess_state a SESSION_CLOSED s) }) (\<lambda>_ t. sess_inv E D a True True n t)"
    if "sess_inv E D a True True n t" for t ret
    by (intro inv_rules loops_sess sess_inv_set_state that) simp_all
  have both: "upd_sess a (\<lambda>x. x\<lparr>graph := None, ec_ref_state := False, loopback_state := False\<rparr>) t
      = upd_sess a (\<lambda>x. x\<lparr>ec_ref_state := False, loopback_state := False\<rparr>) (set_graph a None t)"
    for t :: "'a agm_world_scheme"
    by (simp add: upd_sess_def)
  have flags: "sess_inv E D a cl True n (set_graph a None t) \<Longrightarrow>
     sess_inv E D a True True n (upd_sess a (\<lambda>x. x\<lparr>graph := None, ec_ref_state := False, loopback_state := False\<rparr>) t)"
    for t :: "'a agm_world_scheme" unfolding both
    by (rule sess_inv_upd_sess [where s = "set_graph a None t"]) (auto simp: sess_inv_def)
  show ?thesis
    unfolding session_close_def if_not_P [OF False] Let_def
    by (rule wlp_bindI [OF stop], rule wlp_bindI [OF graph_close_sess], assumption, rule rest, erule flags)
qed

lemma sess_inv_leave_opened:
  assumes "sess_inv E D a cl gp n s"
  shows "agm_inv E (set_sess_state a SESSION_OPENED s)"
proof -
  have "sess_inv E D a False gp n (set_sess_state a SESSION_OPENED s)"
    by (rule sess_inv_set_state [OF assms]) simp
  then show ?thesis by (rule sess_inv_leave) simp
qed

text \<open>The stages of \<open>session_obj_open\<close>.\<close>

lemma open_stage_sess:
  assumes J: "sess_inv E D a cl True n s"
  shows "wlp (open_stage E a mode s) (\<lambda>r t. sess_inv E D a cl (r \<noteq> 0) n t)"
  unfolding open_stage_def
  by (intro inv_if open_without_device_sess [OF J] wlp_bindI [OF open_first_sess [OF J]] res_Some
      reminder_sess) simp_all

lemma open_edges_sess [sess_calls]:
  assumes J: "sess_inv E D a cl gp n s"
  shows "wlp (open_ec_ref E a mode s) (\<lambda>_ t. sess_inv E D a cl gp n t)"
    "wlp (open_loopback E a ret s) (\<lambda>_ t. sess_inv E D a cl gp n t)"
  unfolding open_ec_ref_def open_loopback_def
  by (intro inv_rules sess_updates sess_calls; simp add: J)+

lemma session_obj_open_agm:
  assumes I: "agm_inv E s"
  shows "wlp (session_obj_open E k mode s) (\<lambda>_ t. agm_inv E t)"
proof -
  have enter: "sess_inv E (device_list t) a True True (length (aif_pool (sessions t a)))
      (upd_sess a (\<lambda>x. x\<lparr>stream_config := (stream_config x)\<lparr>sc_sess_mode := mode\<rparr>\<rparr>) t)"
    if "agm_inv E t" "a \<in> set (session_list t)" "sess_state (sessions t a) = SESSION_CLOSED"
    for t :: "'a agm_world_scheme" and a
    using sess_inv_enter [OF that(1,2)] by (intro sess_inv_upd_sess) (simp_all add: that(3))
  have edges: "wlp (open_ec_ref E a mode t) (\<lambda>_ u. sess_inv E D a True False n u)"
    "wlp (open_loopback E a ret t) (\<lambda>_ u. sess_inv E D a True False n u)"
    if "sess_inv E D a True False n t" for D a n ret and t :: "'a agm_world_scheme"
    by (intro sess_calls that)+
  show ?thesis
    unfolding session_obj_open_def Let_def
    by (rule wlp_bindI [OF session_obj_get_agm [OF I]], rule inv_case_prod_app,
        simp only: prod.case snd_conv fst_conv, elim conjE,
        rule inv_case_option, rule res_Some, assumption, rule inv_if, rule res_Some, assumption,
        rule wlp_bindI [OF open_stage_sess [OF enter]], simp, simp, simp, rule inv_if, rule res_Some,
        erule sess_inv_leave, simp, rule wlp_bindI [OF edges(1)], simp, rule wlp_bindI [OF edges(2)],
        assumption, rule inv_if, rule wlp_bindI [OF unwind_open_sess], assumption, rule res_Some,
        erule sess_inv_leave, simp, rule res_Some, erule sess_inv_leave_opened)
qed

lemma aif_obj_get_sess_calls [sess_calls]:
  "sess_inv E D a cl gp n s \<Longrightarrow> wlp (aif_obj_get E a k s) (\<lambda>_ t. sess_inv E D a cl gp n t)"
  by (drule aif_obj_get_sess [of E D a cl gp n s k]) (auto elim: wlp_mono)

lemma sess_graph_set:
  assumes J: "sess_inv E D a cl gp n s"
  shows "wlp (do { ((ret, g), s) \<leftarrow> graph_register_for_events E (graph (sessions s a)) ep s;
                   Some (ret, set_graph a g s) }) (\<lambda>_ t. sess_inv E D a cl gp n t)"
    "wlp (do { ((ret, g), s) \<leftarrow> graph_set_media_config_datapath E cfg (graph (sessions s a)) s;
               Some (ret, set_graph a g s) }) (\<lambda>_ t. sess_inv E D a cl gp n t)"
  by (rule sess_inv_graph_call [OF J]; intro quiet_calls graph_stays quiet_refl)+

lemma sess_graph_set3:
  fixes m :: "((int \<times> 'b \<times> graph_obj option) \<times> 'z agm_world_scheme) option"
  assumes J: "sess_inv E D a cl gp n s"
    and "wlp m (\<lambda>_ t. quiet E s t)" "wlp m (\<lambda>r t. (snd (snd r) = None) = (graph (sessions s a) = None))"
  shows "wlp (do { ((ret, b, g), s) \<leftarrow> m; Some ((ret, b), set_graph a g s) }) (\<lambda>_ t. sess_inv E D a cl gp n t)"
proof -
  from wlp_conj [OF assms(2,3)]
  have "wlp m (\<lambda>r t. sess_inv E D a cl gp n (set_graph a (snd (snd r)) t))"
  proof (rule wlp_mono)
    fix r :: "int \<times> 'b \<times> graph_obj option" and t
    assume A: "quiet E s t \<and> (snd (snd r) = None) = (graph (sessions s a) = None)"
    then have "sessions t = sessions s" by (intro more_fields(1)) (simp add: quiet_def)
    with A sess_inv_quiet [OF J, of t]
    show "sess_inv E D a cl gp n (set_graph a (snd (snd r)) t)" by (intro sess_inv_set_graph) auto
  qed
  then show ?thesis by (simp add: wlp_simps case_prod_beta)
qed

lemma sess_graph_io:
  assumes J: "sess_inv E D a cl gp n s"
  shows "wlp (do { ((ret, b, g), s) \<leftarrow> graph_read E cfg (graph (sessions s a)) buf s;
                   Some ((ret, b), set_graph a g s) }) (\<lambda>_ t. sess_inv E D a cl gp n t)"
    "wlp (do { ((ret, b, g), s) \<leftarrow> graph_get_buf_info E cfg (graph (sessions s a)) bi flag s;
               Some ((ret, b), set_graph a g s) }) (\<lambda>_ t. sess_inv E D a cl gp n t)"
  by (rule sess_graph_set3 [OF J]; intro quiet_calls graph_stays quiet_refl)+

lemma set_ops_sess [sess_calls]:
  assumes J: "sess_inv E D a cl gp n s"
  shows "wlp (session_obj_set_sess_metadata E a k md s) (\<lambda>_ t. sess_inv E D a cl gp n t)"
    "wlp (session_obj_set_sess_params E a p k s) (\<lambda>_ t. sess_inv E D a cl gp n t)"
    "wlp (session_obj_set_sess_aif_params E a w p k s) (\<lambda>_ t. sess_inv E D a cl gp n t)"
    "wlp (session_obj_set_sess_aif_params_with_tag E a w tc s) (\<lambda>_ t. sess_inv E D a cl gp n t)"
    "wlp (session_obj_rw_acdb_params_with_tag E a w ap s) (\<lambda>_ t. sess_inv E D a cl gp n t)"
    "wlp (session_obj_set_sess_aif_cal E a w cal s) (\<lambda>_ t. sess_inv E D a cl gp n t)"
    "wlp (session_obj_set_sess_aif_metadata E a w k md s) (\<lambda>_ t. sess_inv E D a cl gp n t)"
  unfolding session_obj_set_sess_metadata_def session_obj_set_sess_params_def
    session_obj_set_sess_aif_params_def session_obj_set_sess_aif_params_with_tag_def
    session_obj_rw_acdb_params_with_tag_def session_obj_set_sess_aif_cal_def
    session_obj_set_sess_aif_metadata_def Let_def
  by (intro inv_rules inv_bind_value sess_updates sess_calls; simp add: J)+

lemma get_ops_sess [sess_calls]:
  assumes J: "sess_inv E D a cl gp n s"
  shows "wlp (session_obj_get_sess_params E a p s) (\<lambda>_ t. sess_inv E D a cl gp n t)"
    "wlp (session_obj_get_tag_with_module_info E a w k s) (\<lambda>_ t. sess_inv E D a cl gp n t)"
    "wlp (session_obj_register_cb E a cb ty data s) (\<lambda>_ t. sess_inv E D a cl gp n t)"
    "wlp (session_obj_get_timestamp E a s) (\<lambda>_ t. sess_inv E D a cl gp n t)"
    "wlp (session_obj_set_gapless_metadata E a gt si s) (\<lambda>_ t. sess_inv E D a cl gp n t)"
    "wlp (session_obj_eos E a s) (\<lambda>_ t. sess_inv E D a cl gp n t)"
    "wlp (session_obj_pause E a s) (\<lambda>_ t. sess_inv E D a cl gp n t)"
    "wlp (session_obj_flush E a s) (\<lambda>_ t. sess_inv E D a cl gp n t)"
    "wlp (session_obj_resume E a s) (\<lambda>_ t. sess_inv E D a cl gp n t)"
    "wlp (session_obj_suspend E a s) (\<lambda>_ t. sess_inv E D a cl gp n t)"
    "wlp (session_obj_write_with_metadata E a buf s) (\<lambda>_ t. sess_inv E D a cl gp n t)"
    "wlp (session_obj_set_loopback E a w b s) (\<lambda>_ t. sess_inv E D a cl gp n t)"
    "wlp (session_obj_set_ec_ref E a w b s) (\<lambda>_ t. sess_inv E D a cl gp n t)"
  unfolding session_obj_get_sess_params_def session_obj_get_tag_with_module_info_def
    session_obj_register_cb_def session_obj_get_timestamp_def session_obj_set_gapless_metadata_def
    session_obj_eos_def session_obj_pause_def session_obj_flush_def session_obj_resume_def
    session_obj_suspend_def session_obj_write_with_metadata_def session_obj_set_loopback_def
    session_obj_set_ec_ref_def graph_pause_def graph_resume_def graph_flush_def graph_suspend_def Let_def
  by (intro inv_rules inv_bind_value sess_updates sess_calls; simp add: J)+

lemma graph_ops_sess [sess_calls]:
  assumes J: "sess_inv E D a cl gp n s"
  shows "wlp (session_obj_register_for_events E a cfg s) (\<lambda>_ t. sess_inv E D a cl gp n t)"
    "wlp (session_obj_set_config E a sc mc bc s) (\<lambda>_ t. sess_inv E D a cl gp n t)"
    "wlp (session_obj_read_with_metadata E a buf s) (\<lambda>_ t. sess_inv E D a cl gp n t)"
    "wlp (session_obj_get_sess_buf_info E a bi flag s) (\<lambda>_ t. sess_inv E D a cl gp n t)"
  unfolding session_obj_register_for_events_def session_obj_set_config_def
    session_obj_read_with_metadata_def session_obj_get_sess_buf_info_def Let_def
  by (intro inv_if sess_graph_set sess_graph_io inv_Some sess_updates;
      simp add: J)+

lemma sess_inv_not_closed:
  "sess_inv E D a cl gp n s \<Longrightarrow> sess_state (sessions s a) \<noteq> SESSION_CLOSED \<Longrightarrow> sess_inv E D a False gp n s"
  by (simp add: sess_inv_def)

lemma connect_opened_sess [sess_calls]:
  assumes J: "sess_inv E D a False False n s" and i: "i < n"
  shows "wlp (connect_opened E a i st c s) (\<lambda>_ t. sess_inv E D a False False n t)"
proof -
  have c: "wlp (session_connect_aif E a i c s) (\<lambda>_ t. sess_inv E D a False False n t)"
    using session_connect_aif_sess [OF J i, of c] by simp
  have p: "wlp (session_prepare E a t) (\<lambda>_ t. sess_inv E D a False False n t)"
    "wlp (session_start E a t) (\<lambda>_ t. sess_inv E D a False False n t)"
    "wlp (session_disconnect_aif E a i k t) (\<lambda>_ t. sess_inv E D a False False n t)"
    if "sess_inv E D a False False n t" for t k
    by (intro sess_calls that i)+
  show ?thesis
    unfolding connect_opened_def Let_def by (intro inv_rules c p sess_updates) simp_all
qed

end
