(* ===== verification/Acdb_Tunnel.thy ===== *)
theory Acdb_Tunnel
  imports Graph
begin

text \<open>
  Model of the ACDB tunnel: \<open>graph_set_acdb_param\<close> and \<open>graph_get_tagged_data\<close>
  of \<open>service/src/graph.c\<close> and the two \<open>session_dummy\<close> functions of
  \<open>session_obj.c\<close>, which need no session. A client hands in graph keys, tag or
  calibration keys and a row of module parameters as one blob; the parameters carry a tag where
  the module instance id belongs, and the code translates the tag in place before it stores the
  row in the ACDB.

  A parameter starts with the 16 bytes of \<open>apm_module_param_data_t\<close>: instance id,
  parameter id, size and error code. Verbose log lines are compiled out and are not modelled;
  what the other log lines read lies in the range that the calls after them read.
\<close>

unbundle bit_operations_syntax

section \<open>The model\<close>

record agm_acdb_tunnel_param =
  tp_isTKV :: bool
  tp_tag :: u32
  tp_num_gkvs :: u32
  tp_num_kvs :: u32
  tp_blob_size :: u32
  tp_blob :: "u8 list"

text \<open>The sum of the two counts is a \<open>uint32_t\<close>; its product with the size of a
  pair is a \<open>size_t\<close>.\<close>

definition params_offset :: "agm_acdb_tunnel_param \<Rightarrow> nat" where
  "params_offset p = 8 * unat (tp_num_gkvs p + tp_num_kvs p)"

text \<open>The bytes GSL fills in for a list of tags, and the first module of a tag. An entry of
  the tag without modules is passed over.\<close>

definition tag_info_bytes :: "tag_module_entry list \<Rightarrow> nat" where
  "tag_info_bytes tags = 4 + (\<Sum>(_, mods) \<leftarrow> tags. 8 + 8 * length mods)"

fun tag_miid :: "u32 \<Rightarrow> tag_module_entry list \<Rightarrow> u32 option" where
  "tag_miid tag [] = None"
| "tag_miid tag ((t, mods) # tags) =
     (if t = tag \<and> mods \<noteq> [] then Some (snd (hd mods)) else tag_miid tag tags)"

text \<open>
  The walk over the parameters: \<open>offset\<close> and \<open>total_parsed_size\<close> are
  \<open>uint32_t\<close>, \<open>actual_size\<close> is a \<open>size_t\<close>. \<open>ALIGN_PAYLOAD\<close>
  computes in \<open>size_t\<close> and stores the low 32 bits.
\<close>

record param_walk =
  pw_blob :: "u8 list"
  pw_pos :: nat
  pw_offset :: u32
  pw_total :: u32

definition param_stride :: "u32 \<Rightarrow> u32" where
  "param_stride param_size = (16 + param_size + 7) AND NOT 7"

definition walk_first :: "u32 \<Rightarrow> nat \<Rightarrow> u8 list \<Rightarrow> param_walk option" where
  "walk_first miid pos bs = do {
     bs \<leftarrow> memcpy_at pos (wr32 miid) bs;
     n \<leftarrow> rd32 bs (pos + 8);
     Some \<lparr>pw_blob = bs, pw_pos = pos, pw_offset = param_stride n, pw_total = param_stride n\<rparr> }"

definition walk_next :: "u32 \<Rightarrow> param_walk \<Rightarrow> param_walk option" where
  "walk_next miid w = do {
     let pos = pw_pos w + unat (pw_offset w);
     bs \<leftarrow> memcpy_at pos (wr32 miid) (pw_blob w);
     n \<leftarrow> rd32 bs (pos + 8);
     Some \<lparr>pw_blob = bs, pw_pos = pos, pw_offset = param_stride n,
           pw_total = pw_total w + param_stride n\<rparr> }"

text \<open>The loop does not end on every blob: not returning is \<open>None\<close>, as a trap is.\<close>

partial_function (option) walk_params :: "u32 \<Rightarrow> u64 \<Rightarrow> param_walk \<Rightarrow> param_walk option" where
  "walk_params miid actual_size w =
     (if ucast (pw_total w) < actual_size
      then do { w \<leftarrow> walk_next miid w; walk_params miid actual_size w }
      else Some w)"

text \<open>
  The blob is the client's memory and is changed in place, so the bytes are part of the
  result. The answer with the tags has to fit into the 1024 bytes of \<open>tag_pool\<close>. A tag
  that is not found leaves \<open>miid\<close> at 0; the \<open>ret = -1\<close> set for this case is
  overwritten.
\<close>

definition graph_set_acdb_param ::
    "env \<Rightarrow> agm_acdb_tunnel_param option \<Rightarrow> 'z world_scheme \<Rightarrow> ((int \<times> u8 list option) \<times> 'z world_scheme) option" where
  "graph_set_acdb_param E payload s =
     (case payload of None \<Rightarrow> Some ((- EINVAL, None), s)
      | Some p \<Rightarrow> do {
        let start = params_offset p;
        let ng = unat (tp_num_gkvs p);
        tag \<leftarrow> rd32 (tp_blob p) start;
        gkv \<leftarrow> rd_kvs (tp_blob p) 0 ng;
        (ret, s) \<leftarrow> ecall E (GSL_GET_TAGS_WITH_MODULE_INFO gkv 0) s;
        if ret \<noteq> 0 then Some ((ret, Some (tp_blob p)), s) else do {
        let size = unat (fst (ext_xfer E (hist s)));
        (ret, s) \<leftarrow> ecall E (GSL_GET_TAGS_WITH_MODULE_INFO gkv size) s;
        if ret \<noteq> 0 then Some ((ret, Some (tp_blob p)), s) else do {
        let tags = ext_tags E (hist s) gkv;
        if 1024 < tag_info_bytes tags then None else do {
        let miid = (case tag_miid tag tags of None \<Rightarrow> 0 | Some i \<Rightarrow> i);
        let actual_size = ucast (tp_blob_size p) - of_nat start;
        w \<leftarrow> walk_first miid start (tp_blob p);
        w \<leftarrow> walk_params miid actual_size w;
        gkv \<leftarrow> rd_kvs (pw_blob w) 0 ng;
        kv \<leftarrow> rd_kvs (pw_blob w) (8 * ng) (unat (tp_num_kvs p));
        params \<leftarrow> memcpy_from (Some (drop start (pw_blob w))) (unat actual_size);
        (ret, s) \<leftarrow> ecall E (if tp_isTKV p then GSL_SET_TAG_DATA_TO_ACDB gkv tag kv params
                              else GSL_SET_CAL_DATA_TO_ACDB gkv kv params) s;
        Some ((lnx E ret, Some (pw_blob w)), s) }}}})"

definition graph_get_tagged_data ::
    "env \<Rightarrow> key_value list \<Rightarrow> u32 \<Rightarrow> key_value list \<Rightarrow> 'z world_scheme \<Rightarrow> (int \<times> 'z world_scheme) option" where
  "graph_get_tagged_data E graph_keys tag tag_keys s =
     ecall E (GSL_GET_TAGGED_DATA (Some graph_keys) tag tag_keys) s"

definition session_dummy_rw_acdb_tunnel ::
    "env \<Rightarrow> agm_acdb_tunnel_param option \<Rightarrow> bool \<Rightarrow> 'z world_scheme \<Rightarrow>
       ((int \<times> u8 list option) \<times> 'z world_scheme) option" where
  "session_dummy_rw_acdb_tunnel E payload is_param_set s = do {
     (ret, s) \<leftarrow> graph_enable_acdb_persistence E s;
     if ret \<noteq> 0 then Some ((ret, map_option tp_blob payload), s)
     else if is_param_set then graph_set_acdb_param E payload s
     else Some ((ret, map_option tp_blob payload), s) }"

definition session_dummy_get_tag_with_module_info ::
    "env \<Rightarrow> agm_meta_data_gsl \<Rightarrow> nat \<Rightarrow> 'z world_scheme \<Rightarrow> (int \<times> 'z world_scheme) option" where
  "session_dummy_get_tag_with_module_info E m len s = graph_get_tags_with_module_info E m len s"

end
