(* ===== verification/Agm.thy ===== *)
theory Agm
  imports Session_Operations Acdb_Tunnel
begin

text \<open>
  Model of \<open>service/src/agm.c\<close>: the entry points of the service. A function that takes
  a handle checks it against the session pool; a function that takes a session id creates the
  session if the pool has none with that id. A handle is the address of a session object; the
  pointers to configuration structures are assumed to be valid, as the source does.
\<close>

section \<open>Handles and session ids\<close>

text \<open>\<open>err\<close> makes the result of the operation from an error code.\<close>

definition with_handle ::
    "(int \<Rightarrow> 'r) \<Rightarrow> nat \<Rightarrow> (nat \<Rightarrow> 'z agm_world_scheme \<Rightarrow> ('r \<times> 'z agm_world_scheme) option) \<Rightarrow>
       'z agm_world_scheme \<Rightarrow> ('r \<times> 'z agm_world_scheme) option" where
  "with_handle err hndl f s =
     (if hndl = 0 then Some (err (- EINVAL), s)
      else if \<not> session_obj_valid_check hndl s then Some (err (- EINVAL), s)
      else f hndl s)"

definition with_session ::
    "env \<Rightarrow> (int \<Rightarrow> 'r) \<Rightarrow> u32 \<Rightarrow> (nat \<Rightarrow> 'z agm_world_scheme \<Rightarrow> ('r \<times> 'z agm_world_scheme) option) \<Rightarrow>
       'z agm_world_scheme \<Rightarrow> ('r \<times> 'z agm_world_scheme) option" where
  "with_session E err k f s = do {
     ((ret, p), s) \<leftarrow> session_obj_get E k s;
     if ret \<noteq> 0 then Some (err ret, s)
     else case p of None \<Rightarrow> None | Some a \<Rightarrow> f a s }"

definition with_device ::
    "u32 \<Rightarrow> (nat \<Rightarrow> 'z dev_world_scheme \<Rightarrow> (int \<times> 'z dev_world_scheme) option) \<Rightarrow>
       'z dev_world_scheme \<Rightarrow> (int \<times> 'z dev_world_scheme) option" where
  "with_device k f s =
     (case device_get_obj k s of (ret, p) \<Rightarrow>
        if ret \<noteq> 0 then Some (ret, s) else case p of None \<Rightarrow> None | Some d \<Rightarrow> f d s)"

section \<open>Audio interfaces\<close>

text \<open>\<open>have_list\<close> says that the list pointer is not NULL; \<open>None\<close> for the count is
  a NULL pointer.\<close>

definition agm_get_aif_info_list ::
    "bool \<Rightarrow> nat option \<Rightarrow> 'z dev_world_scheme \<Rightarrow> int \<times> (nat \<times> (string \<times> u32) list) option" where
  "agm_get_aif_info_list have_list num s =
     (case num of None \<Rightarrow> (- EINVAL, None)
      | Some n \<Rightarrow> if n \<noteq> 0 \<and> \<not> have_list then (- EINVAL, None)
                  else (0, Some (device_get_aif_info_list n s)))"

definition agm_get_group_aif_info_list ::
    "bool \<Rightarrow> nat option \<Rightarrow> 'z dev_world_scheme \<Rightarrow> int \<times> (nat \<times> string list) option" where
  "agm_get_group_aif_info_list have_list num s =
     (case num of None \<Rightarrow> (- EINVAL, None)
      | Some n \<Rightarrow> if n \<noteq> 0 \<and> \<not> have_list then (- EINVAL, None)
                  else (0, Some (device_get_group_list n s)))"

definition agm_aif_set_metadata where
  "agm_aif_set_metadata E k n metadata s = with_device k (\<lambda>d. device_set_metadata E d n metadata) s"

definition agm_aif_set_media_config where
  "agm_aif_set_media_config k mcp s =
     with_device k (\<lambda>d s. Some (device_set_media_config (Some d) mcp s)) s"

definition agm_aif_group_set_media_config ::
    "u32 \<Rightarrow> agm_group_media_config option \<Rightarrow> 'z dev_world_scheme \<Rightarrow> int \<times> 'z dev_world_scheme" where
  "agm_aif_group_set_media_config gid mcp s =
     (case device_get_group_data gid s of (ret, gp) \<Rightarrow>
        if ret \<noteq> 0 then (ret, s) else device_group_set_media_config gp mcp s)"

definition agm_aif_set_params where
  "agm_aif_set_params E k payload n s = with_device k (\<lambda>d. device_set_params E d payload n) s"

section \<open>Sessions by id\<close>

definition agm_session_set_metadata where
  "agm_session_set_metadata E k n metadata s =
     with_session E id k (\<lambda>a. session_obj_set_sess_metadata E a n metadata) s"

definition agm_session_aif_set_metadata where
  "agm_session_aif_set_metadata E k f n metadata s =
     with_session E id k (\<lambda>a. session_obj_set_sess_aif_metadata E a f n metadata) s"

definition agm_session_aif_get_tag_module_info where
  "agm_session_aif_get_tag_module_info E k f len s =
     with_session E id k (\<lambda>a. session_obj_get_tag_with_module_info E a f len) s"

definition agm_session_aif_set_cal where
  "agm_session_aif_set_cal E k f cal s =
     with_session E id k (\<lambda>a. session_obj_set_sess_aif_cal E a f cal) s"

definition agm_session_aif_set_params where
  "agm_session_aif_set_params E k f payload n s =
     with_session E id k (\<lambda>a. session_obj_set_sess_aif_params E a f payload n) s"

definition agm_session_get_params where
  "agm_session_get_params E k payload s =
     with_session E id k (\<lambda>a. session_obj_get_sess_params E a payload) s"

definition agm_session_set_params where
  "agm_session_set_params E k payload n s =
     with_session E id k (\<lambda>a. session_obj_set_sess_params E a payload n) s"

definition agm_set_params_with_tag where
  "agm_set_params_with_tag E k f tc s =
     with_session E id k (\<lambda>a. session_obj_set_sess_aif_params_with_tag E a f tc) s"

definition agm_set_params_with_tag_to_acdb where
  "agm_set_params_with_tag_to_acdb E k f ap s =
     with_session E id k (\<lambda>a. session_obj_rw_acdb_params_with_tag E a f ap) s"

text \<open>The tag is read for a log line before the payload goes down.\<close>

definition agm_set_params_to_acdb_tunnel ::
    "env \<Rightarrow> agm_acdb_tunnel_param option \<Rightarrow> 'z world_scheme \<Rightarrow> ((int \<times> u8 list option) \<times> 'z world_scheme) option" where
  "agm_set_params_to_acdb_tunnel E payload s =
     (case payload of None \<Rightarrow> Some ((- EINVAL, None), s)
      | Some p \<Rightarrow> do {
        _ \<leftarrow> rd32 (tp_blob p) (params_offset p);
        session_dummy_rw_acdb_tunnel E payload True s })"

definition agm_session_register_cb where
  "agm_session_register_cb E k cb ty data s =
     with_session E id k (\<lambda>a. session_obj_register_cb E a cb ty data) s"

definition agm_session_register_for_events where
  "agm_session_register_for_events E k cfg s =
     (if cfg = None then Some (- EINVAL, s)
      else with_session E id k (\<lambda>a. session_obj_register_for_events E a cfg) s)"

definition agm_session_aif_connect where
  "agm_session_aif_connect E k f state s =
     with_session E id k (\<lambda>a. session_obj_sess_aif_connect E a f state) s"

definition agm_session_set_loopback where
  "agm_session_set_loopback E k pb state s =
     with_session E id k (\<lambda>a. session_obj_set_loopback E a pb state) s"

definition agm_session_set_ec_ref where
  "agm_session_set_ec_ref E k f state s =
     with_session E id k (\<lambda>a. session_obj_set_ec_ref E a f state) s"

definition agm_get_buffer_timestamp ::
    "env \<Rightarrow> u32 \<Rightarrow> bool \<Rightarrow> 'z agm_world_scheme \<Rightarrow> ((int \<times> u64 option) \<times> 'z agm_world_scheme) option" where
  "agm_get_buffer_timestamp E k have_timestamp s =
     with_session E (\<lambda>r. (r, None)) k
       (\<lambda>a s. Some (if \<not> have_timestamp then (- EINVAL, None) else session_obj_buffer_timestamp a s, s)) s"

definition agm_session_get_buf_info where
  "agm_session_get_buf_info E k bi flag s =
     with_session E (\<lambda>r. (r, bi)) k (\<lambda>a. session_obj_get_sess_buf_info E a bi flag) s"

definition agm_session_write_datapath_params where
  "agm_session_write_datapath_params E k buf s =
     with_session E (\<lambda>r. (r, None)) k (\<lambda>a. session_obj_write_with_metadata E a buf) s"

text \<open>The only entry point that takes an id and does not create the session.\<close>

definition agm_sessionid_flush where
  "agm_sessionid_flush E k s =
     (case session_obj_retrieve_from_pool k s of None \<Rightarrow> Some (- EINVAL, s)
      | Some a \<Rightarrow> session_obj_flush E a s)"

section \<open>Sessions by handle\<close>

text \<open>\<open>have_hndl\<close> says that the pointer for the new handle is not NULL.\<close>

definition agm_session_open ::
    "env \<Rightarrow> u32 \<Rightarrow> agm_session_mode \<Rightarrow> bool \<Rightarrow> 'z agm_world_scheme \<Rightarrow>
       ((int \<times> nat option) \<times> 'z agm_world_scheme) option" where
  "agm_session_open E k mode have_hndl s =
     (if \<not> have_hndl then Some ((- EINVAL, None), s) else session_obj_open E k mode s)"

definition agm_session_set_config where
  "agm_session_set_config E h sc mc bc s = with_handle id h (\<lambda>a. session_obj_set_config E a sc mc bc) s"

definition agm_session_prepare where
  "agm_session_prepare E h s = with_handle id h (session_obj_prepare E) s"

definition agm_session_start where
  "agm_session_start E h s = with_handle id h (session_obj_start E) s"

definition agm_session_stop where
  "agm_session_stop E h s = with_handle id h (session_obj_stop E) s"

definition agm_session_close where
  "agm_session_close E h s = with_handle id h (session_obj_close E) s"

definition agm_session_pause where
  "agm_session_pause E h s = with_handle id h (session_obj_pause E) s"

definition agm_session_flush where
  "agm_session_flush E h s = with_handle id h (session_obj_flush E) s"

definition agm_session_resume where
  "agm_session_resume E h s = with_handle id h (session_obj_resume E) s"

definition agm_session_suspend where
  "agm_session_suspend E h s = with_handle id h (session_obj_suspend E) s"

definition agm_session_write where
  "agm_session_write E h ptr count s =
     with_handle (\<lambda>r. (r, None)) h (\<lambda>a. session_obj_write E a ptr count) s"

definition agm_session_read where
  "agm_session_read E h ptr count s =
     with_handle (\<lambda>r. (r, None)) h (\<lambda>a. session_obj_read E a ptr count) s"

definition agm_get_hw_processed_buff_cnt ::
    "nat \<Rightarrow> 'z agm_world_scheme \<Rightarrow> (u64 \<times> 'z agm_world_scheme) option" where
  "agm_get_hw_processed_buff_cnt h s =
     with_handle of_int h (\<lambda>a s. Some (session_obj_hw_processed_buff_cnt a s, s)) s"

definition agm_session_eos where
  "agm_session_eos E h s = with_handle id h (session_obj_eos E) s"

definition agm_get_session_time where
  "agm_get_session_time E h have_timestamp s =
     (if \<not> have_timestamp then Some ((- EINVAL, None), s)
      else with_handle (\<lambda>r. (r, None)) h (session_obj_get_timestamp E) s)"

definition agm_register_service_crash_callback :: int where
  "agm_register_service_crash_callback = - ENOSYS"

definition agm_set_gapless_session_metadata where
  "agm_set_gapless_session_metadata E h ty silence s =
     with_handle id h (\<lambda>a. session_obj_set_gapless_metadata E a ty silence) s"

definition agm_session_write_with_metadata where
  "agm_session_write_with_metadata E h buf s =
     with_handle (\<lambda>r. (r, None)) h (\<lambda>a. session_obj_write_with_metadata E a buf) s"

definition agm_session_read_with_metadata where
  "agm_session_read_with_metadata E h buf s =
     with_handle (\<lambda>r. (r, None)) h (\<lambda>a. session_obj_read_with_metadata E a buf) s"

definition agm_session_set_non_tunnel_mode_config where
  "agm_session_set_non_tunnel_mode_config h sc imc omc ibc obc s =
     with_handle id h (\<lambda>a s. Some (session_obj_set_non_tunnel_mode_config a sc imc omc ibc obc s)) s"

definition agm_dump :: int where "agm_dump = 0"

section \<open>Clients\<close>

text \<open>One call of a client, or an event of GSL. The pool lock and the session locks
  serialise the calls, so a run of the service is a sequence of such steps.\<close>

datatype (plugins only: code size) agm_call =
    AIF_SET_METADATA u32 nat "u8 list option"
  | AIF_SET_MEDIA_CONFIG u32 "agm_media_config option"
  | AIF_GROUP_SET_MEDIA_CONFIG u32 "agm_group_media_config option"
  | AIF_SET_PARAMS u32 "u8 list option" nat
  | SESSION_SET_METADATA u32 nat "u8 list option"
  | SESSION_AIF_SET_METADATA u32 u32 nat "u8 list option"
  | SESSION_AIF_GET_TAG_MODULE_INFO u32 u32 nat
  | SESSION_AIF_SET_CAL u32 u32 agm_key_vector_gsl
  | SESSION_AIF_SET_PARAMS u32 u32 "u8 list option" nat
  | SESSION_GET_PARAMS u32 "u8 list"
  | SESSION_SET_PARAMS u32 "u8 list option" nat
  | SET_PARAMS_WITH_TAG u32 u32 agm_tag_config
  | SET_PARAMS_WITH_TAG_TO_ACDB u32 u32 agm_acdb_param
  | SET_PARAMS_TO_ACDB_TUNNEL "agm_acdb_tunnel_param option"
  | SESSION_REGISTER_CB u32 u64 event_type u64
  | SESSION_REGISTER_FOR_EVENTS u32 "agm_event_reg_cfg option"
  | SESSION_AIF_CONNECT u32 u32 bool
  | SESSION_SET_LOOPBACK u32 u32 bool
  | SESSION_SET_EC_REF u32 u32 bool
  | GET_BUFFER_TIMESTAMP u32 bool
  | SESSION_GET_BUF_INFO u32 agm_buf_info u32
  | SESSION_WRITE_DATAPATH_PARAMS u32 agm_buff
  | SESSIONID_FLUSH u32
  | SESSION_OPEN u32 agm_session_mode bool
  | SESSION_SET_CONFIG nat agm_session_config agm_media_config agm_buffer_config
  | SESSION_SET_NON_TUNNEL_MODE_CONFIG nat agm_session_config agm_media_config agm_media_config
      agm_buffer_config agm_buffer_config
  | SESSION_PREPARE nat | SESSION_START nat | SESSION_STOP nat | SESSION_CLOSE nat
  | SESSION_PAUSE nat | SESSION_FLUSH nat | SESSION_RESUME nat | SESSION_SUSPEND nat
  | SESSION_EOS nat
  | SESSION_WRITE nat u64 u64
  | SESSION_READ nat u64 u64
  | SESSION_WRITE_WITH_METADATA nat agm_buff
  | SESSION_READ_WITH_METADATA nat agm_buff
  | GET_SESSION_TIME nat bool
  | SET_GAPLESS_SESSION_METADATA nat agm_gapless_silence_type u32
  | GSL_EVENT u32 u32 u32

text \<open>The result code and the new state.\<close>

abbreviation code_of :: "((int \<times> 'b) \<times> 's) option \<Rightarrow> (int \<times> 's) option" where
  "code_of m \<equiv> map_option (map_prod fst id) m"

primrec agm_exec :: "env \<Rightarrow> agm_call \<Rightarrow> agm_world \<Rightarrow> (int \<times> agm_world) option" where
  "agm_exec E (AIF_SET_METADATA k n md) s = agm_aif_set_metadata E k n md s"
| "agm_exec E (AIF_SET_MEDIA_CONFIG k mc) s = agm_aif_set_media_config k mc s"
| "agm_exec E (AIF_GROUP_SET_MEDIA_CONFIG k mc) s = Some (agm_aif_group_set_media_config k mc s)"
| "agm_exec E (AIF_SET_PARAMS k p n) s = agm_aif_set_params E k p n s"
| "agm_exec E (SESSION_SET_METADATA k n md) s = agm_session_set_metadata E k n md s"
| "agm_exec E (SESSION_AIF_SET_METADATA k f n md) s = agm_session_aif_set_metadata E k f n md s"
| "agm_exec E (SESSION_AIF_GET_TAG_MODULE_INFO k f n) s = agm_session_aif_get_tag_module_info E k f n s"
| "agm_exec E (SESSION_AIF_SET_CAL k f cal) s = agm_session_aif_set_cal E k f cal s"
| "agm_exec E (SESSION_AIF_SET_PARAMS k f p n) s = agm_session_aif_set_params E k f p n s"
| "agm_exec E (SESSION_GET_PARAMS k p) s = agm_session_get_params E k p s"
| "agm_exec E (SESSION_SET_PARAMS k p n) s = agm_session_set_params E k p n s"
| "agm_exec E (SET_PARAMS_WITH_TAG k f tc) s = agm_set_params_with_tag E k f tc s"
| "agm_exec E (SET_PARAMS_WITH_TAG_TO_ACDB k f ap) s = agm_set_params_with_tag_to_acdb E k f ap s"
| "agm_exec E (SET_PARAMS_TO_ACDB_TUNNEL p) s = code_of (agm_set_params_to_acdb_tunnel E p s)"
| "agm_exec E (SESSION_REGISTER_CB k cb ty d) s = agm_session_register_cb E k cb ty d s"
| "agm_exec E (SESSION_REGISTER_FOR_EVENTS k cfg) s = agm_session_register_for_events E k cfg s"
| "agm_exec E (SESSION_AIF_CONNECT k f b) s = agm_session_aif_connect E k f b s"
| "agm_exec E (SESSION_SET_LOOPBACK k pb b) s = agm_session_set_loopback E k pb b s"
| "agm_exec E (SESSION_SET_EC_REF k f b) s = agm_session_set_ec_ref E k f b s"
| "agm_exec E (GET_BUFFER_TIMESTAMP k b) s = code_of (agm_get_buffer_timestamp E k b s)"
| "agm_exec E (SESSION_GET_BUF_INFO k bi flag) s = code_of (agm_session_get_buf_info E k bi flag s)"
| "agm_exec E (SESSION_WRITE_DATAPATH_PARAMS k buf) s = code_of (agm_session_write_datapath_params E k buf s)"
| "agm_exec E (SESSIONID_FLUSH k) s = agm_sessionid_flush E k s"
| "agm_exec E (SESSION_OPEN k mode b) s = code_of (agm_session_open E k mode b s)"
| "agm_exec E (SESSION_SET_CONFIG h sc mc bc) s = agm_session_set_config E h sc mc bc s"
| "agm_exec E (SESSION_SET_NON_TUNNEL_MODE_CONFIG h sc imc omc ibc obc) s =
     agm_session_set_non_tunnel_mode_config h sc imc omc ibc obc s"
| "agm_exec E (SESSION_PREPARE h) s = agm_session_prepare E h s"
| "agm_exec E (SESSION_START h) s = agm_session_start E h s"
| "agm_exec E (SESSION_STOP h) s = agm_session_stop E h s"
| "agm_exec E (SESSION_CLOSE h) s = agm_session_close E h s"
| "agm_exec E (SESSION_PAUSE h) s = agm_session_pause E h s"
| "agm_exec E (SESSION_FLUSH h) s = agm_session_flush E h s"
| "agm_exec E (SESSION_RESUME h) s = agm_session_resume E h s"
| "agm_exec E (SESSION_SUSPEND h) s = agm_session_suspend E h s"
| "agm_exec E (SESSION_EOS h) s = agm_session_eos E h s"
| "agm_exec E (SESSION_WRITE h ptr n) s = code_of (agm_session_write E h ptr n s)"
| "agm_exec E (SESSION_READ h ptr n) s = code_of (agm_session_read E h ptr n s)"
| "agm_exec E (SESSION_WRITE_WITH_METADATA h buf) s = code_of (agm_session_write_with_metadata E h buf s)"
| "agm_exec E (SESSION_READ_WITH_METADATA h buf) s = code_of (agm_session_read_with_metadata E h buf s)"
| "agm_exec E (GET_SESSION_TIME h b) s = code_of (agm_get_session_time E h b s)"
| "agm_exec E (SET_GAPLESS_SESSION_METADATA h ty n) s = agm_set_gapless_session_metadata E h ty n s"
| "agm_exec E (GSL_EVENT data src ev) s = map_option (map_prod (\<lambda>_. 0) id) (graph_event_cb E data src ev s)"

text \<open>The service after initialisation: no sessions, and a device table whose devices are
  all closed.\<close>

definition agm_initial :: "agm_world \<Rightarrow> bool" where
  "agm_initial s \<longleftrightarrow> list_all weightless (hist s) \<and> session_list s = [] \<and> 0 < sess_next s \<and> topology_ok s
     \<and> (\<forall>d \<in> set (device_list s). refcnt (devs s d) = \<lparr>rc_open = 0, rc_prepare = 0, rc_start = 0\<rparr>)
     \<and> (\<forall>g. grp_refcnt (grps s g) = \<lparr>rc_open = 0, rc_prepare = 0, rc_start = 0\<rparr>)"

inductive agm_reach :: "env \<Rightarrow> agm_world \<Rightarrow> bool" for E where
  agm_reach_init: "agm_initial s \<Longrightarrow> agm_reach E s"
| agm_reach_step: "agm_reach E s \<Longrightarrow> agm_exec E c s = Some (r, t) \<Longrightarrow> agm_reach E t"


section \<open>Every entry point preserves the invariant\<close>

lemma session_obj_sess_aif_connect_agm:
  assumes J: "sess_inv E D a cl gp n s" and c: "cl \<longrightarrow> gp"
  shows "wlp (session_obj_sess_aif_connect E a k b s) (\<lambda>_ t. agm_inv E t)"
proof -
  have leave: "sess_inv E D a cl gp m t \<Longrightarrow> agm_inv E t" for m and t :: "'a agm_world_scheme"
    using c by (rule sess_inv_leave [rotated])
  have opened: "wlp (connect_opened E a i st oc t) (\<lambda>_ t. agm_inv E t)"
    if "sess_inv E D a cl gp (Suc i) t" "sess_state (sessions t a) \<noteq> SESSION_CLOSED"
    for i st oc and t :: "'a agm_world_scheme"
  proof -
    have "wlp (connect_opened E a i st oc t) (\<lambda>_ t. sess_inv E D a False False (Suc i) t)"
      using sess_gp_False [OF sess_inv_not_closed [OF that]] by (intro sess_calls) simp_all
    then show ?thesis by (rule wlp_mono) (erule sess_inv_leave, simp)
  qed
  have closing: "wlp (session_disconnect_aif E a i oc (set_aif_state a i AIF_CLOSE t))
      (\<lambda>r u. (r \<noteq> 0 \<longrightarrow> agm_inv E u) \<and> (r = 0 \<longrightarrow> agm_inv E (set_aif_state a i AIF_CLOSED u)))"
    if "sess_inv E D a cl gp (Suc i) t" for i oc and t :: "'a agm_world_scheme"
  proof -
    have "wlp (session_disconnect_aif E a i oc (set_aif_state a i AIF_CLOSE t))
        (\<lambda>_ u. sess_inv E D a cl gp (Suc i) u)"
      by (intro sess_calls sess_updates that) simp_all
    then show ?thesis by (rule wlp_mono) (auto intro!: leave [OF sess_inv_upd_aif] intro: leave)
  qed
  show ?thesis
    unfolding session_obj_sess_aif_connect_def Let_def
    by (rule wlp_bindI [OF aif_obj_get_sess [OF J]])
       (auto simp: wlp_simps case_prod_beta intro!: opened closing leave [OF sess_inv_upd_aif] intro: leave sess_inv_upd_aif)
qed


text \<open>From an operation on a session to one on the service.\<close>

lemma sess_to_agm:
  assumes "\<And>D cl gp n. sess_inv E D a cl gp n s \<Longrightarrow> wlp m (\<lambda>_ t. sess_inv E D a cl gp n t)"
    and "agm_inv E s" "a \<in> set (session_list s)"
  shows "wlp m (\<lambda>_ t. agm_inv E t)"
  using assms(1) [OF sess_inv_enter [OF assms(2,3)]] by (rule wlp_mono) (erule sess_inv_leave, simp)

lemma with_handle_agm:
  assumes "agm_inv E s"
    and "h \<in> set (session_list s) \<Longrightarrow> wlp (f h s) (\<lambda>_ t. agm_inv E t)"
  shows "wlp (with_handle err h f s) (\<lambda>_ t. agm_inv E t)"
  using assms by (auto simp: with_handle_def wlp_simps session_obj_valid_check_def list_ex_iff)

lemma with_session_agm:
  assumes I: "agm_inv E s"
    and "\<And>a t. agm_inv E t \<Longrightarrow> a \<in> set (session_list t) \<Longrightarrow> wlp (f a t) (\<lambda>_ t. agm_inv E t)"
  shows "wlp (with_session E err k f s) (\<lambda>_ t. agm_inv E t)"
  unfolding with_session_def
  by (rule wlp_bindI [OF session_obj_get_agm [OF I]])
     (auto simp: wlp_simps case_prod_beta intro: assms(2))

lemma agm_inv_dev:
  assumes "agm_inv E s" "dframe E s t" "devices_inv E counts_ok t"
  shows "agm_inv E t"
  using assms more_fields [of t s] aifs_ok_cong [of t s]
  by (simp add: agm_inv_def agm_core_def dframe_def pool_ok_def)

lemma agm_inv_quiet: "agm_inv E s \<Longrightarrow> quiet E s t \<Longrightarrow> agm_inv E t"
  by (rule agm_inv_dev [of E s])
     (auto simp: dframe_def quiet_def agm_inv_def agm_core_def intro: devices_inv_quiet [of E counts_ok s])

lemma agm_inv_upd_dev:
  assumes "agm_inv E s"
    and "\<And>x. refcnt (f x) = refcnt x \<and> parent_dev (f x) = parent_dev x \<and> group_data (f x) = group_data x"
  shows "agm_inv E (upd_dev d f s)"
  by (rule agm_inv_dev [OF assms(1)])
     (use assms in \<open>auto simp: agm_inv_def agm_core_def counts_ok_def intro!: devices_inv_upd_dev\<close>)

lemma agm_inv_call: "agm_inv E s \<Longrightarrow> wlp m (\<lambda>_ t. quiet E s t) \<Longrightarrow> wlp m (\<lambda>_ t. agm_inv E t)"
  by (erule wlp_mono) (rule agm_inv_quiet)

lemmas agm_quiet_calls = quiet_calls [OF quiet_refl, THEN agm_inv_call [rotated]]

lemma aif_ops_agm:
  assumes I: "agm_inv E s"
  shows "wlp (agm_aif_set_metadata E k n md s) (\<lambda>_ t. agm_inv E t)"
    "wlp (agm_aif_set_media_config k mc s) (\<lambda>_ t. agm_inv E t)"
    "wlp (agm_aif_set_params E k p n s) (\<lambda>_ t. agm_inv E t)"
    "wlp (Some (agm_aif_group_set_media_config k gmc s)) (\<lambda>_ t. agm_inv E t)"
proof -
  show "wlp (agm_aif_set_metadata E k n md s) (\<lambda>_ t. agm_inv E t)"
    unfolding agm_aif_set_metadata_def with_device_def device_set_metadata_def
    by (intro inv_rules agm_quiet_calls agm_inv_upd_dev I) simp_all
  show "wlp (agm_aif_set_params E k p n s) (\<lambda>_ t. agm_inv E t)"
    unfolding agm_aif_set_params_def with_device_def device_set_params_def Let_def
    by (intro inv_rules inv_bind_value agm_quiet_calls agm_inv_upd_dev) (simp_all add: I agm_inv_upd_dev)
  show "wlp (agm_aif_set_media_config k mc s) (\<lambda>_ t. agm_inv E t)"
    using I unfolding agm_aif_set_media_config_def with_device_def device_set_media_config_def
    by (auto simp: wlp_simps case_prod_beta split: option.splits intro!: agm_inv_upd_dev)
  have "agm_inv E (upd_grp (Some g) (\<lambda>x. x\<lparr>grp_media_config := m\<rparr>) s)" for g m
    by (rule agm_inv_dev [OF I])
       (use I in \<open>auto simp: agm_inv_def agm_core_def grps_upd_grp intro!: devices_inv_frame [of E counts_ok s]\<close>)
  then show "wlp (Some (agm_aif_group_set_media_config k gmc s)) (\<lambda>_ t. agm_inv E t)"
    using I unfolding agm_aif_group_set_media_config_def device_group_set_media_config_def
    by (auto simp: wlp_simps case_prod_beta split: option.splits prod.splits)
qed

lemma acdb_tunnel_agm:
  assumes "agm_inv E s"
  shows "wlp (agm_set_params_to_acdb_tunnel E p s) (\<lambda>_ t. agm_inv E t)"
  unfolding agm_set_params_to_acdb_tunnel_def session_dummy_rw_acdb_tunnel_def graph_set_acdb_param_def
    graph_enable_acdb_persistence_def
  by (intro inv_rules inv_bind_value agm_quiet_calls assms) (simp_all add: weightless_def)

lemma weightless_weight: "weightless c \<Longrightarrow> pcm_weight E h c = 0 \<and> gsl_weight E h c = 0"
  by (cases c) (simp_all add: weightless_def pcm_weight_def gsl_weight_def)

lemma weightless_free: "list_all weightless h \<Longrightarrow> pcm_live E h = 0 \<and> gsl_live E h = 0"
  by (auto intro!: hist_sum_zero simp: weightless_weight list_all_iff)

lemma agm_initial_inv: "agm_initial s \<Longrightarrow> agm_inv E s"
  by (simp add: agm_initial_def agm_inv_def agm_core_def devices_inv_def pool_ok_def counts_ok_def weightless_free
      sum_devs_def is_open_cnt_def group_open_cnt_def sum_list_0 cong: map_cong if_cong)

lemma wlp_code_of: "wlp m (\<lambda>_ t. I t) \<Longrightarrow> wlp (code_of m) (\<lambda>_ t. I t)"
  by (auto simp: wlp_def)

lemma wlp_event: "wlp m (\<lambda>_ t. I t) \<Longrightarrow> wlp (map_option (map_prod (\<lambda>_. 0) id) m) (\<lambda>_ t. I t)"
  by (auto simp: wlp_def)

lemmas agm_entry_defs =
  agm_session_set_metadata_def agm_session_aif_set_metadata_def agm_session_aif_get_tag_module_info_def
  agm_session_aif_set_cal_def agm_session_aif_set_params_def agm_session_get_params_def
  agm_session_set_params_def agm_set_params_with_tag_def agm_set_params_with_tag_to_acdb_def
  agm_session_register_cb_def agm_session_register_for_events_def agm_session_aif_connect_def
  agm_session_set_loopback_def agm_session_set_ec_ref_def agm_get_buffer_timestamp_def
  agm_session_get_buf_info_def agm_session_write_datapath_params_def agm_sessionid_flush_def
  agm_session_open_def agm_session_set_config_def agm_session_set_non_tunnel_mode_config_def
  agm_session_prepare_def agm_session_start_def agm_session_stop_def agm_session_close_def
  agm_session_pause_def agm_session_flush_def agm_session_resume_def agm_session_suspend_def
  agm_session_eos_def agm_session_write_def agm_session_read_def agm_session_write_with_metadata_def
  agm_session_read_with_metadata_def agm_get_session_time_def agm_set_gapless_session_metadata_def

lemma session_obj_run_sess [sess_calls]:
  assumes "sess_inv E D a cl gp n s"
  shows "wlp (session_obj_prepare E a s) (\<lambda>_ t. sess_inv E D a cl gp n t)"
    "wlp (session_obj_start E a s) (\<lambda>_ t. sess_inv E D a cl gp n t)"
    "wlp (session_obj_stop E a s) (\<lambda>_ t. sess_inv E D a cl gp n t)"
    "wlp (session_obj_write E a ptr k s) (\<lambda>_ t. sess_inv E D a cl gp n t)"
    "wlp (session_obj_read E a ptr k s) (\<lambda>_ t. sess_inv E D a cl gp n t)"
  unfolding session_obj_prepare_def session_obj_start_def session_obj_stop_def
    session_obj_write_def session_obj_read_def
  by (intro sess_calls assms)+

lemma retrieve_in: "session_obj_retrieve_from_pool k s = Some a \<Longrightarrow> a \<in> set (session_list s)"
  by (auto simp: session_obj_retrieve_from_pool_def find_Some_iff)

lemma session_close_agm:
  assumes "agm_inv E s" "a \<in> set (session_list s)"
  shows "wlp (session_obj_close E a s) (\<lambda>_ t. agm_inv E t)"
  unfolding session_obj_close_def
  using session_close_sess [OF sess_inv_enter [OF assms]]
  by (auto elim!: wlp_mono intro: sess_inv_leave)

lemma aif_connect_agm:
  assumes "agm_inv E s" "a \<in> set (session_list s)"
  shows "wlp (session_obj_sess_aif_connect E a k b s) (\<lambda>_ t. agm_inv E t)"
  by (rule session_obj_sess_aif_connect_agm [OF sess_inv_enter [OF assms]]) simp

lemma non_tunnel_config_agm:
  assumes "agm_inv E s" "a \<in> set (session_list s)"
  shows "wlp (Some (session_obj_set_non_tunnel_mode_config a sc imc omc ibc obc s)) (\<lambda>_ t. agm_inv E t)"
proof (rule sess_to_agm [OF _ assms])
  fix D cl gp n
  assume "sess_inv E D a cl gp n s"
  then show "wlp (Some (session_obj_set_non_tunnel_mode_config a sc imc omc ibc obc s))
      (\<lambda>_ t. sess_inv E D a cl gp n t)"
    unfolding session_obj_set_non_tunnel_mode_config_def by (intro inv_Some sess_inv_upd_sess) simp_all
qed

lemma agm_exec_inv:
  assumes I: "agm_inv E s"
  shows "wlp (agm_exec E c s) (\<lambda>_ t. agm_inv E t)"
proof (cases c)
  case (GSL_EVENT d src ev)
  have "wlp (graph_event_cb E d src ev s) (\<lambda>_ t. agm_inv E t)"
    unfolding graph_event_cb_def by (intro inv_rules agm_quiet_calls I)
  with GSL_EVENT show ?thesis by (simp add: wlp_event)
next
  case (SESSIONID_FLUSH k)
  have "wlp (session_obj_flush E a s) (\<lambda>_ t. agm_inv E t)" if "a \<in> set (session_list s)" for a
    by (rule sess_to_agm [OF _ I that]) (rule sess_calls)
  with SESSIONID_FLUSH I show ?thesis
    by (auto simp: agm_sessionid_flush_def wlp_simps dest: retrieve_in)
qed (insert I, simp_all only: agm_exec.simps agm_entry_defs,
     (intro wlp_code_of aif_ops_agm acdb_tunnel_agm inv_if inv_case_option inv_Some with_handle_agm with_session_agm
        aif_connect_agm session_close_agm non_tunnel_config_agm session_obj_open_agm
        | rule sess_to_agm, (rule sess_calls | rule inv_Some); assumption | assumption)+)

lemma agm_reach_inv: "agm_reach E s \<Longrightarrow> agm_inv E s"
proof (induction rule: agm_reach.induct)
  case (agm_reach_init s)
  then show ?case by (rule agm_initial_inv)
next
  case (agm_reach_step s c r t)
  then show ?case using wlpD [OF agm_exec_inv] by blast
qed

lemma with_handle_bad:
  "h = 0 \<or> h \<notin> set (session_list s) \<Longrightarrow> with_handle err h f s = Some (err (- EINVAL), s)"
  by (auto simp: with_handle_def session_obj_valid_check_def list_ex_iff)

end
