(* ===== verification/Scenario.thy ===== *)
theory Scenario
  imports Agm
begin

text \<open>
  Concrete states and an environment in which every external call succeeds: two back ends
  without a group (the devices 0 and 1), two back ends of one group (2 and 3), no sessions.
  They are the inputs on which the general theorems are evaluated.
\<close>

definition env0 :: env where
  "env0 = \<lparr>ext_ret = (\<lambda>h c. case c of PCM_OPEN _ _ _ _ \<Rightarrow> 1 | PCM_IS_READY _ \<Rightarrow> 1 | _ \<Rightarrow> 0),
     ext_handle = (\<lambda>_. 7), ext_tags = (\<lambda>_ _. []), ext_tagged = (\<lambda>_ _ _. (0, 0)),
     ext_xfer = (\<lambda>_. (0, 0)), ext_data = (\<lambda>_. []), ext_word = (\<lambda>_ _. 0),
     build_agm_32bit = False, build_dev_prepare_before_graph_start = False,
     AR_ESUBSYSRESET = 23, DEVICE_HW_ENDPOINT_RX = 0xC0000004, DEVICE_HW_ENDPOINT_TX = 0xC0000005,
     STREAM_INPUT_MEDIA_FORMAT = 0xC0000003, STREAM_PCM_DECODER = 0xC0000006,
     STREAM_PCM_ENCODER = 0xC0000007, SHMEM_ENDPOINT = 0xC0000001, RD_SHMEM_ENDPOINT = 0xC0000008,
     WR_SHMEM_ENDPOINT = 0xC0000009, TAG_PAUSE = 0xC000000A, STREAM_PCM_CONVERTER = 0xC000000B,
     TAG_STREAM_PLACEHOLDER_ENCODER = 0xC000000C, TAG_STREAM_PLACEHOLDER_DECODER = 0xC000000D,
     MODULE_GAPLESS = 0xC000000E, CHANNELS_KEY = 0xA5000000, MEDIA_FMT_ID_KEY = 0xA6000000,
     MEDIA_FMT = (\<lambda>_. 0), EVENT_ID_EARLY_EOS = 0x08001126, SB_MAX_CHAN_CNT = 16,
     sizeof_media_fmt = (\<lambda>_. 0), sizeof_aac_enc_cfg = 8, sizeof_media_format_t = 12\<rparr>"

definition refcnt0 :: refcount where
  "refcnt0 = \<lparr>rc_open = 0, rc_prepare = 0, rc_start = 0\<rparr>"

definition media0 :: agm_media_config where
  "media0 = \<lparr>mc_rate = 48000, mc_channels = 2, mc_format = AGM_FORMAT_PCM_S16_LE, mc_data_format = 1\<rparr>"

definition device0 :: "u32 \<Rightarrow> nat option \<Rightarrow> device_obj" where
  "device0 n g = \<lparr>dev_name = ''BE'', card_id = 0,
     hw_ep = \<lparr>intf = CODEC_DMA, dir = AUDIO_OUTPUT, ep_word0 = 0, ep_word1 = 0\<rparr>, pcm_id = n, pcm = 0,
     dev_media_config = media0, dev_metadata = metadata0, refcnt = refcnt0, dev_state = DEV_CLOSED,
     dev_params = None, dev_params_size = 0, is_virtual_device = False, parent_dev = None, group_data = g\<rparr>"

definition group0 :: device_group_data where
  "group0 = \<lparr>grp_name = ''GRP'', has_multiple_dai_link = False, grp_refcnt = refcnt0,
             grp_media_config = \<lparr>gmc_config = media0, gmc_slot_mask = 3\<rparr>\<rparr>"

definition world0 :: agm_world where
  "world0 = \<lparr>hist = [],
     devs = (\<lambda>d. if d < 2 then device0 (of_nat d) None else device0 (of_nat d) (Some 0)),
     device_list = [0, 1, 2, 3], grps = (\<lambda>_. group0), device_group_data_list = [0],
     num_audio_intfs = 4, num_group_devices = 1, sysfs_fd = 3, mixer = 0,
     sessions = (\<lambda>_. session_obj0 0), session_list = [], sess_next = 1\<rparr>"

lemma world0_initial: "agm_initial world0"
  by (auto simp: agm_initial_def weightless_def world0_def topology_ok_def device0_def group0_def refcnt0_def)

text \<open>A run of the service.\<close>

fun agm_run :: "env \<Rightarrow> agm_call list \<Rightarrow> agm_world \<Rightarrow> (int list \<times> agm_world) option" where
  "agm_run E [] s = Some ([], s)"
| "agm_run E (c # cs) s = do { (r, s) \<leftarrow> agm_exec E c s; (rs, s) \<leftarrow> agm_run E cs s; Some (r # rs, s) }"

lemma agm_run_reach: "agm_reach E s \<Longrightarrow> agm_run E cs s = Some (rs, t) \<Longrightarrow> agm_reach E t"
proof (induction cs arbitrary: s rs)
  case (Cons c cs)
  then obtain r u rs' where "agm_exec E c s = Some (r, u)" "agm_run E cs u = Some (rs', t)"
    by (auto simp: bind_eq_Some_conv)
  with Cons show ?case by (blast intro: agm_reach_step)
qed simp

text \<open>Everything that evaluation unfolds, by component.\<close>

lemmas prelude_eval =
  to_u32_def rd32_def wr32_def memcpy_from_def memcpy_at_def

lemmas types_eval =
  media_config0_def session_config0_def buffer_config0_def ecall_def calloc_def
  ar_err_code_info_def ar_err_get_lnx_err_code_def

lemmas metadata_eval =
  key_vector0_def sg_prop0_def metadata0_def live_def arr_ok_def MAX_KVPAIR_def
  metadata_free_def remove_dup_def metadata_remove_dup_def metadata_merge_def
  metadata_copy_def metadata_update_cal_def merge_fits_def concat_meta_def encode_metadata_def

lemmas device_eval =
  upd_dev_def upd_grp_def get_pcm_bits_per_sample_def agm_to_pcm_format_def
  device_pcm_is_rate_supported_def update_sysfs_fd_def device_get_pcm_obj_def
  open_media_config_def open_pcm_config_def device_open_def device_prepare_def
  device_start_def device_stop_def device_close_def device_get_obj_def
  device_get_group_data_def device_get_aif_info_list_def device_get_group_list_def
  device_set_media_config_def device_group_set_media_config_def device_set_metadata_def
  device_set_params_def device_get_start_refcnt_def device_get_state_def
  device_get_snd_card_id_def device_get_channel_map_def device_current_state_def

lemmas module_eval =
  new_module_def stream_module_list_def hw_ep_module_def get_default_channel_map_def
  is_format_pcm_def is_format_bypassed_def get_pcm_bit_width_def GET_BITS_PER_SAMPLE_def
  GET_Q_FACTOR_def codec_u8_def codec_u16_def codec_u32_def get_media_bit_width_def
  get_media_fmt_id_def set_compressed_media_format_def set_param_def ep_media_config_def
  configure_codec_dma_ep_def configure_tagged_ep_def configure_i2s_ep_def configure_tdm_ep_def
  configure_aux_pcm_ep_def configure_slimbus_ep_def configure_hw_ep_media_config_def
  configure_hw_ep_def output_media_config_def output_format_cfg_def
  configure_output_media_format_def configure_pcm_encoder_frame_size_def
  encoder_frame_size_def configure_pcm_encoder_params_def configure_placeholder_dec_def
  configure_encoder_output_media_format_def configure_placeholder_enc_def is_non_tunnel_def
  graph_write_def configure_compress_shared_mem_ep_def
  configure_compress_shared_mem_ep_datapath_def configure_pcm_shared_mem_ep_def
  configure_wr_shared_mem_ep_def configure_rd_shared_mem_ep_def configure_spr_def
  configure_gapless_def configure_def

lemmas graph_eval =
  print_graph_alias_def get_tags_with_module_info_def copy_gkv_def open_modules_def
  graph_open_def graph_close_def gsl_mode_def non_tunnel_params_def tunnel_params_def
  configure_buffer_params_def mark_configured_def is_hw_ep_def dev_running_def
  call_configure_def prepare_module_def graph_prepare_def graph_start_def cmd_properties_def
  graph_stop_def graph_pause_resume_def graph_ioctl_def graph_pause_def graph_resume_def
  graph_flush_def graph_suspend_def graph_eos_def graph_set_config_def graph_get_config_def
  graph_set_config_with_tag_def graph_set_cal_def graph_set_tag_data_to_acdb_def
  graph_set_cal_data_to_acdb_def graph_enable_acdb_persistence_def
  graph_get_tags_with_module_info_def graph_read_def graph_get_hw_processed_buff_cnt_def
  graph_get_session_time_def graph_get_buffer_timestamp_def graph_fill_buf_info_def
  graph_get_buf_info_def graph_set_gapless_metadata_def is_media_config_needed_on_datapath_def
  graph_set_media_config_datapath_def dev_hw_module_def add_dev_module_def add_module_cfg_def
  graph_add_def change_module_cfg_def graph_change_def graph_remove_def graph_register_cb_def
  graph_register_for_events_def

lemmas session_eval =
  upd_sess_def upd_aif_def has_device_leg_def aif_obj_get_from_pool_def aif_obj_create_def
  aif_obj_get_def aif_obj_get_count_with_state_def session_obj0_def session_obj_create_def
  session_obj_retrieve_from_pool_def session_obj_get_from_pool_def session_obj_valid_check_def
  session_obj_get_def session_get_merged_metadata_def
  session_get_merged_metadata_without_aif_def merge_sess_aif_dev_def graph_edge_def
  session_set_loopback_def session_set_ec_ref_def session_disconnect_aif_def
  session_apply_aif_tag_params_def session_apply_aif_device_params_def connect_graph_def
  connect_sess_params_def connect_params_def connect_graph_cleanup_def
  connect_close_device_def session_connect_aif_def session_open_with_first_device_def
  unwind_aif_def unwind_open_def session_connect_reminder_devices_def
  session_open_without_device_def open_stage_def open_ec_ref_def open_loopback_def
  session_obj_open_def sess_graph_prepare_def sess_graph_start_def sess_graph_stop_def
  prepare_aif_def start_aif_def prepare_start_aif_def session_prepare_def start_checks_def
  stop_started_aif_def start_unwind_def is_slimbus_def session_start_def session_stop_def
  session_close_def session_obj_set_sess_metadata_def session_obj_set_sess_params_def
  session_obj_set_sess_aif_params_def session_obj_set_sess_aif_params_with_tag_def
  session_obj_rw_acdb_params_with_tag_def session_obj_set_sess_aif_cal_def
  session_obj_set_sess_aif_metadata_def session_obj_get_sess_params_def
  session_obj_get_tag_with_module_info_def session_obj_register_cb_def
  session_obj_register_for_events_def cb_wants_def call_clients_def graph_event_cb_def
  connect_opened_def session_obj_sess_aif_connect_def session_obj_set_config_def
  session_obj_set_non_tunnel_mode_config_def session_obj_prepare_def session_obj_start_def
  session_obj_stop_def session_obj_close_def session_obj_pause_def session_obj_flush_def
  session_obj_resume_def session_obj_suspend_def plain_buff_def
  session_obj_read_with_metadata_def session_obj_write_with_metadata_def session_obj_read_def
  session_obj_write_def session_obj_hw_processed_buff_cnt_def session_obj_set_loopback_def
  session_obj_set_ec_ref_def session_obj_eos_def session_obj_get_timestamp_def
  session_obj_buffer_timestamp_def session_obj_get_sess_buf_info_def
  session_obj_set_gapless_metadata_def

lemmas agm_eval_entry =
  with_handle_def with_session_def with_device_def agm_get_aif_info_list_def
  agm_get_group_aif_info_list_def agm_aif_set_metadata_def agm_aif_set_media_config_def
  agm_aif_group_set_media_config_def agm_aif_set_params_def agm_session_set_metadata_def
  agm_session_aif_set_metadata_def agm_session_aif_get_tag_module_info_def
  agm_session_aif_set_cal_def agm_session_aif_set_params_def agm_session_get_params_def
  agm_session_set_params_def agm_set_params_with_tag_def agm_set_params_with_tag_to_acdb_def
  agm_session_register_cb_def agm_session_register_for_events_def agm_session_aif_connect_def
  agm_session_set_loopback_def agm_session_set_ec_ref_def agm_get_buffer_timestamp_def
  agm_session_get_buf_info_def agm_session_write_datapath_params_def agm_sessionid_flush_def
  agm_session_open_def agm_session_set_config_def agm_session_prepare_def
  agm_session_start_def agm_session_stop_def agm_session_close_def agm_session_pause_def
  agm_session_flush_def agm_session_resume_def agm_session_suspend_def agm_session_write_def
  agm_session_read_def agm_get_hw_processed_buff_cnt_def agm_session_eos_def
  agm_get_session_time_def agm_register_service_crash_callback_def
  agm_set_gapless_session_metadata_def agm_session_write_with_metadata_def
  agm_session_read_with_metadata_def agm_session_set_non_tunnel_mode_config_def agm_dump_def

lemmas scenario_eval =
  env0_def refcnt0_def media0_def device0_def group0_def world0_def

lemmas agm_eval = prelude_eval types_eval metadata_eval device_eval module_eval graph_eval
  session_eval agm_eval_entry scenario_eval aif_state_order device_state_order

text \<open>One session on device 0, opened, prepared and started.\<close>

definition run0 :: "agm_call list" where
  "run0 = [SESSION_AIF_CONNECT 5 0 True, SESSION_OPEN 5 AGM_SESSION_DEFAULT True, SESSION_PREPARE 1,
           SESSION_START 1]"

definition started0 :: agm_world where
  "started0 = snd (the (agm_run env0 run0 world0))"

lemma run0_started: "agm_run env0 run0 world0 = Some ([0, 0, 0, 0], started0)"
  by (simp add: started0_def run0_def agm_eval cong: bind_eval_cong)

lemma started0_reach: "agm_reach env0 started0"
  by (rule agm_run_reach [OF agm_reach_init [OF world0_initial] run0_started])

lemma started0_eval:
  "session_list started0 = [1]" "device_list started0 = [0,1,2,3]"
  "sess_state (sessions started0 1) = SESSION_STARTED"
  "graph (sessions started0 1) \<noteq> None"
  "map (\<lambda>d. rc_open (refcnt (devs started0 d))) [0,1,2,3] = [1,0,0,0]"
  "gsl_live env0 (hist started0) = 1"
  "pcm_live env0 (hist started0) = 1"
  by (simp_all add: started0_def run0_def agm_eval hist_sum_def cong: bind_eval_cong)

end
