(* ===== verification/Acdb_Tunnel_Properties.thy ===== *)
theory Acdb_Tunnel_Properties
  imports Scenario
begin

text \<open>
  The ACDB tunnel translates the tag of every parameter of a row in place. A row is described
  by its parameters and laid out by \<open>items_bytes\<close>; the theorems say what the walk over
  the bytes does to such a row, and where it stops to make progress.
\<close>

unbundle bit_operations_syntax

section \<open>Rows of parameters\<close>

text \<open>A parameter as clients lay it out: the header with the size of the data, the data, and
  padding up to the next multiple of 8 bytes.\<close>

record acdb_item =
  it_param_id :: u32
  it_error_code :: u32
  it_data :: "u8 list"
  it_pad :: "u8 list"

definition item_ok :: "acdb_item \<Rightarrow> bool" where
  "item_ok i \<longleftrightarrow> (length (it_data i) + length (it_pad i)) mod 8 = 0 \<and> length (it_pad i) < 8"

definition item_bytes :: "u32 \<Rightarrow> acdb_item \<Rightarrow> u8 list" where
  "item_bytes miid i = wr32 miid @ wr32 (it_param_id i) @ wr32 (of_nat (length (it_data i)))
     @ wr32 (it_error_code i) @ it_data i @ it_pad i"

definition items_bytes :: "u32 \<Rightarrow> acdb_item list \<Rightarrow> u8 list" where
  "items_bytes miid is = concat (map (item_bytes miid) is)"

text \<open>The payload of a client and the call of GSL that stores a row.\<close>

definition tunnel_payload ::
    "bool \<Rightarrow> key_value list \<Rightarrow> key_value list \<Rightarrow> u8 list \<Rightarrow> agm_acdb_tunnel_param" where
  "tunnel_payload tkv gks ks params =
     \<lparr>tp_isTKV = tkv, tp_tag = 0, tp_num_gkvs = of_nat (length gks), tp_num_kvs = of_nat (length ks),
      tp_blob_size = of_nat (8 * (length gks + length ks) + length params),
      tp_blob = wr_kvs gks @ wr_kvs ks @ params\<rparr>"

definition store_call :: "bool \<Rightarrow> key_value list \<Rightarrow> u32 \<Rightarrow> key_value list \<Rightarrow> u8 list \<Rightarrow> ext_call" where
  "store_call tkv gks tag ks params =
     (if tkv then GSL_SET_TAG_DATA_TO_ACDB gks tag ks params else GSL_SET_CAL_DATA_TO_ACDB gks ks params)"

text \<open>One parameter of four bytes.\<close>

definition item0 :: acdb_item where
  "item0 = \<lparr>it_param_id = 8, it_error_code = 0, it_data = [1, 2, 3, 4], it_pad = [0, 0, 0, 0]\<rparr>"

section \<open>The walk over a row\<close>

lemma and_not_7: "unat ((x :: u32) AND - 8) = unat x - unat x mod 8"
proof -
  have "x AND NOT (mask 3) = x AND NOT (take_bit 3 x)"
    by (auto intro!: bit_word_eqI simp: bit_simps)
  also have "\<dots> = x - take_bit 3 x"
    by (rule disjunctive_diff [symmetric]) (simp add: bit_simps)
  also have "unat \<dots> = unat x - unat x mod 8"
    by (simp add: unat_sub_if_size take_bit_eq_mod unat_mod)
  finally show ?thesis by (simp add: mask_eq_exp_minus_1)
qed

lemma unat_ucast_64: "unat (ucast (w :: u32) :: u64) = unat w"
  by (simp add: unsigned_ucast_eq take_bit_nat_eq_self unsigned_less [THEN less_trans])

lemma length_items: "length (items_bytes m is) = length (items_bytes m' is)"
  by (induction "is") (simp_all add: items_bytes_def item_bytes_def)

lemma param_stride_item:
  assumes "item_ok i" "length (item_bytes m i) + 7 < 2 ^ 32"
  shows "unat (param_stride (of_nat (length (it_data i)))) = length (item_bytes m i)"
proof -
  let ?n = "length (it_data i)" and ?p = "length (it_pad i)"
  have "unat (16 + of_nat ?n + 7 :: u32) = 23 + ?n"
    using assms(2) unat_of_nat_small [of "23 + ?n"] by (simp add: item_bytes_def add.commute)
  moreover have "(23 + ?n) mod 8 = 7 - ?p"
  proof -
    obtain k where "?n + ?p = 8 * k" using assms(1) by (auto simp: item_ok_def)
    then have "23 + ?n = 7 - ?p + 8 * (k + 2)" using assms(1) by (simp add: item_ok_def)
    then show ?thesis using assms(1) by (simp only: mod_mult_self2) (simp add: item_ok_def)
  qed
  ultimately show ?thesis using assms(1) by (simp add: param_stride_def and_not_7 item_bytes_def item_ok_def)
qed

lemma item_patched:
  assumes "n = length pre"
  shows "memcpy_at n (wr32 m) (pre @ item_bytes t i @ ys) = Some (pre @ item_bytes m i @ ys)"
    "rd32 (pre @ item_bytes m i @ ys) n = Some m"
    "rd32 (pre @ item_bytes m i @ ys) (n + 8) = Some (of_nat (length (it_data i)))"
  using assms rd32_at [of n pre m "drop 4 (item_bytes m i) @ ys"]
    rd32_at [of "n + 8" "pre @ wr32 m @ wr32 (it_param_id i)" "of_nat (length (it_data i))"
      "wr32 (it_error_code i) @ it_data i @ it_pad i @ ys"]
  by (simp_all add: memcpy_at_def item_bytes_def)

lemma walk_items:
  assumes "list_all item_ok is" "T + length (items_bytes t is) + 7 < 2 ^ 32"
    and "pw_blob w = pre @ items_bytes t is" "pw_pos w + unat (pw_offset w) = length pre"
    and "pw_total w = of_nat T" "actual = of_nat (T + length (items_bytes t is))"
  shows "\<exists>u. walk_params m actual w = Some u \<and> pw_blob u = pre @ items_bytes m is"
  using assms
proof (induction "is" arbitrary: T pre w)
  case Nil
  then have "\<not> ucast (pw_total w) < actual" by (simp add: items_bytes_def word_less_nat_alt unat_ucast_64 unat_of_nat)
  with Nil show ?case by (subst walk_params.simps) (simp add: items_bytes_def)
next
  case (Cons i "is")
  let ?n = "length (item_bytes t i)" and ?s = "param_stride (of_nat (length (it_data i)))"
  let ?w = "\<lparr>pw_blob = (pre @ item_bytes m i) @ items_bytes t is, pw_pos = length pre, pw_offset = ?s,
              pw_total = pw_total w + ?s\<rparr>"
  have n: "length (items_bytes t (i # is)) = ?n + length (items_bytes t is)"
    by (simp add: items_bytes_def)
  have len: "length (item_bytes m i) = ?n" by (simp add: item_bytes_def)
  have s: "unat ?s = ?n" using Cons.prems(1,2) n by (intro param_stride_item) simp_all
  then have s': "?s = of_nat ?n" by (metis of_nat_unat ucast_id)
  have "0 < ?n" by (simp add: item_bytes_def)
  moreover have "unat actual = T + (?n + length (items_bytes t is))"
    using Cons.prems(2,6) n by (simp add: unat_of_nat del: of_nat_add)
  ultimately have less: "ucast (pw_total w) < actual"
    using Cons.prems(2,5) n by (simp add: word_less_nat_alt unat_ucast_64 unat_of_nat)
  have "walk_next m w = Some ?w"
    using Cons.prems(3,4) item_patched(1) [of "length pre" pre m t i "items_bytes t is"]
      item_patched(3) [of "length pre" pre m i "items_bytes t is"]
    by (simp add: walk_next_def items_bytes_def)
  moreover have "\<exists>u. walk_params m actual ?w = Some u
      \<and> pw_blob u = (pre @ item_bytes m i) @ items_bytes m is"
    by (rule Cons.IH [of "T + ?n"]) (use Cons.prems n len s in \<open>simp_all add: s'\<close>)
  ultimately show ?case
    using less by (subst walk_params.simps) (simp add: items_bytes_def)
qed

section \<open>Translation\<close>

lemma tunnel_payload_fields:
  assumes "8 * (length gks + length ks) + length params < 2 ^ 32"
  shows "params_offset (tunnel_payload b gks ks params) = 8 * (length gks + length ks)"
    "unat (tp_num_gkvs (tunnel_payload b gks ks params)) = length gks"
    "unat (tp_num_kvs (tunnel_payload b gks ks params)) = length ks"
    "ucast (tp_blob_size (tunnel_payload b gks ks params)) - (8 * of_nat (length gks) + 8 * of_nat (length ks))
       = (of_nat (length params) :: u64)"
proof -
  let ?n = "8 * (length gks + length ks) + length params"
  show "params_offset (tunnel_payload b gks ks params) = 8 * (length gks + length ks)"
    using assms unat_of_nat_small [of "length gks + length ks"] by (simp add: params_offset_def tunnel_payload_def)
  show "unat (tp_num_gkvs (tunnel_payload b gks ks params)) = length gks"
    "unat (tp_num_kvs (tunnel_payload b gks ks params)) = length ks"
    using assms by (simp_all add: tunnel_payload_def)
  have "ucast (of_nat ?n :: u32) = (of_nat ?n :: u64)"
    using assms by (intro word_unat_eq_iff [THEN iffD2]) (simp add: unat_ucast_64 unat_of_nat del: of_nat_add of_nat_mult)
  then show "ucast (tp_blob_size (tunnel_payload b gks ks params)) - (8 * of_nat (length gks) + 8 * of_nat (length ks))
       = (of_nat (length params) :: u64)"
    by (simp add: tunnel_payload_def)
qed

lemma walk_row:
  assumes "is \<noteq> []" "list_all item_ok is" "length (items_bytes t is) + 7 < 2 ^ 32"
  shows "\<exists>w u. walk_first m (length pre) (pre @ items_bytes t is) = Some w
      \<and> walk_params m (of_nat (length (items_bytes t is))) w = Some u \<and> pw_blob u = pre @ items_bytes m is"
proof (cases "is")
  case (Cons i js)
  let ?s = "param_stride (of_nat (length (it_data i)))"
  let ?w = "\<lparr>pw_blob = (pre @ item_bytes m i) @ items_bytes t js, pw_pos = length pre, pw_offset = ?s,
              pw_total = ?s\<rparr>"
  have len: "length (items_bytes t is) = length (item_bytes m i) + length (items_bytes t js)"
    by (simp add: Cons items_bytes_def item_bytes_def)
  have s: "unat ?s = length (item_bytes m i)" using assms len by (intro param_stride_item) (simp_all add: Cons)
  then have s': "?s = of_nat (length (item_bytes m i))" by (metis of_nat_unat ucast_id)
  have "walk_first m (length pre) (pre @ items_bytes t is) = Some ?w"
    using item_patched(1) [of "length pre" pre m t i "items_bytes t js"]
      item_patched(3) [of "length pre" pre m i "items_bytes t js"]
    by (simp add: Cons walk_first_def items_bytes_def)
  moreover have "\<exists>u. walk_params m (of_nat (length (items_bytes t is))) ?w = Some u
      \<and> pw_blob u = (pre @ item_bytes m i) @ items_bytes m js"
    by (rule walk_items [of _ "length (item_bytes m i)"]) (use assms len s in \<open>simp_all add: Cons s'\<close>)
  ultimately show ?thesis by (auto simp: Cons items_bytes_def)
qed (use assms in simp)

text \<open>\<^bold>\<open>C13.\<close> A row of parameters given to the ACDB tunnel under a tag is stored under the id of the
  first module instance that GSL knows for the tag: every parameter of the row gets the id, and
  nothing else of the row, of the graph keys and of the tag or calibration keys changes. The call
  returns the code of the store, and the client's copy of the row is translated as well. A tag
  that GSL does not know is stored as instance 0 and the call does not fail for it. The
  hypotheses say that the row is a sequence of parameters padded to 8 bytes, that its size fits
  into 32 bits, and that GSL answers the queries with at most 1024 bytes.\<close>

theorem tunnel_translates:
  assumes row: "is \<noteq> []" "list_all item_ok is"
    and small: "8 * (length gks + length ks) + length (items_bytes tag is) + 7 < 2 ^ 32"
    and answers: "\<forall>h. ext_ret E h GSL_ENABLE_ACDB_PERSISTENCE = 0"
      "\<forall>h n. ext_ret E h (GSL_GET_TAGS_WITH_MODULE_INFO gks n) = 0"
      "\<forall>h. ext_tags E h gks = tags" "tag_info_bytes tags \<le> 1024"
    and m: "miid = (case tag_miid tag tags of None \<Rightarrow> 0 | Some i \<Rightarrow> i)"
  shows "\<exists>n h. h = hist s @ [GSL_ENABLE_ACDB_PERSISTENCE, GSL_GET_TAGS_WITH_MODULE_INFO gks 0,
                            GSL_GET_TAGS_WITH_MODULE_INFO gks n]
   \<and> agm_set_params_to_acdb_tunnel E (Some (tunnel_payload b gks ks (items_bytes tag is))) s
     = Some ((lnx E (ext_ret E h (store_call b gks tag ks (items_bytes miid is))),
              Some (wr_kvs gks @ wr_kvs ks @ items_bytes miid is)),
             s\<lparr>hist := h @ [store_call b gks tag ks (items_bytes miid is)]\<rparr>)"
proof -
  let ?params = "items_bytes tag is" and ?pre = "wr_kvs gks @ wr_kvs ks"
  let ?p = "tunnel_payload b gks ks ?params"
  note f = tunnel_payload_fields [of gks ks ?params b]
  have blob: "tp_blob ?p = ?pre @ ?params" "tp_isTKV ?p = b" by (simp_all add: tunnel_payload_def)
  obtain w u where w: "walk_first miid (length ?pre) (?pre @ ?params) = Some w"
      "walk_params miid (of_nat (length ?params)) w = Some u" "pw_blob u = ?pre @ items_bytes miid is"
    using walk_row [OF row, of tag miid ?pre] small by auto
  obtain i js where i: "is = i # js" using row(1) by (cases "is") auto
  have rd: "rd32 (?pre @ ?params) (8 * (length gks + length ks)) = Some tag"
    using item_patched(2) [of "8 * (length gks + length ks)" ?pre tag i "items_bytes tag js"]
    by (simp add: i items_bytes_def)
  have kvs: "rd_kvs (?pre @ xs) 0 (length gks) = Some gks"
    "rd_kvs (?pre @ xs) (8 * length gks) (length ks) = Some ks" for xs
    using rd_kvs_wr_kvs [of 0 "[]" gks "wr_kvs ks @ xs"] rd_kvs_wr_kvs [of "8 * length gks" "wr_kvs gks" ks xs]
    by simp_all
  have row: "memcpy_from (Some (drop (8 * (length gks + length ks)) (?pre @ items_bytes miid is)))
      (unat (of_nat (length ?params) :: u64)) = Some (items_bytes miid is)"
    using small length_items [of tag "is" miid] by (simp add: memcpy_from_def unat_of_nat)
  let ?h = "hist s @ [GSL_ENABLE_ACDB_PERSISTENCE, GSL_GET_TAGS_WITH_MODULE_INFO gks 0]"
  show ?thesis
    using answers small w kvs rd row
    by (intro exI [of _ "unat (fst (ext_xfer E ?h))"]) (simp add: Let_def agm_set_params_to_acdb_tunnel_def session_dummy_rw_acdb_tunnel_def graph_enable_acdb_persistence_def
      graph_set_acdb_param_def ecall_def f blob m [symmetric] store_call_def [symmetric])
qed

section \<open>A walk that does not end\<close>

lemma memcpy_at_again: "memcpy_at n xs bs = Some cs \<Longrightarrow> memcpy_at n xs cs = Some cs"
  by (auto simp: memcpy_at_def split: if_splits)

lemma rd32_memcpy_at:
  assumes "memcpy_at n xs bs = Some cs" "n + length xs \<le> m"
  shows "rd32 cs m = rd32 bs m"
proof -
  have "length cs = length bs" using assms(1) by (auto simp: memcpy_at_def split: if_splits)
  moreover have "cs ! j = bs ! j" if "m \<le> j" for j
    using assms that by (auto simp: memcpy_at_def nth_append split: if_splits)
  ultimately show ?thesis by (simp add: rd32_def)
qed

lemma param_stride_0:
  assumes "2 ^ 32 - 23 \<le> unat n" "unat n \<le> 2 ^ 32 - 16"
  shows "param_stride n = 0"
proof -
  have "unat (23 + n) < 8" using assms by (simp add: unat_plus_if_size word_size)
  then have "unat (param_stride n) = 0" by (simp add: param_stride_def and_not_7)
  then show ?thesis by (simp add: unat_eq_zero)
qed

text \<open>A first parameter with a size between 4294967273 and 4294967280 makes the walk over the
  row stand still: the step to the next parameter wraps around to 0, so each round leaves the walk
  as it is with bytes still to parse, and the call never returns.\<close>

theorem tunnel_walk_stuck:
  assumes "rd32 bs (pos + 8) = Some n" "2 ^ 32 - 23 \<le> unat n" "unat n \<le> 2 ^ 32 - 16" "0 < actual_size"
  shows "\<exists>w. walk_first miid pos bs = Some w \<and> ucast (pw_total w) < actual_size \<and> walk_next miid w = Some w"
proof -
  have "pos + 4 \<le> length bs" using assms(1) by (auto simp: rd32_def split: if_splits)
  then obtain cs where cs: "memcpy_at pos (wr32 miid) bs = Some cs" by (auto simp: memcpy_at_def)
  then show ?thesis
    using assms rd32_memcpy_at [OF cs, of "pos + 8"] memcpy_at_again [OF cs] param_stride_0 [of n]
    by (simp add: walk_first_def walk_next_def)
qed

theorem tunnel_translates_witness:
  "\<exists>n h. h = hist world0 @ [GSL_ENABLE_ACDB_PERSISTENCE, GSL_GET_TAGS_WITH_MODULE_INFO [(1, 2)] 0,
                      GSL_GET_TAGS_WITH_MODULE_INFO [(1, 2)] n]
   \<and> agm_set_params_to_acdb_tunnel (env0\<lparr>ext_tags := \<lambda>_ _. [(5, [(7, 16385)])]\<rparr>)
       (Some (tunnel_payload True [(1, 2)] [] (items_bytes 5 [item0, item0]))) world0
     = Some ((0, Some (wr_kvs [(1, 2)] @ items_bytes 16385 [item0, item0])),
             world0\<lparr>hist := h @ [GSL_SET_TAG_DATA_TO_ACDB [(1, 2)] 5 [] (items_bytes 16385 [item0, item0])]\<rparr>)"
  using tunnel_translates [of "[item0, item0]" "[(1, 2)]" "[]" 5 "env0\<lparr>ext_tags := \<lambda>_ _. [(5, [(7, 16385)])]\<rparr>"
      "[(5, [(7, 16385)])]" 16385 world0 True]
  by (simp add: item_ok_def item0_def store_call_def items_bytes_def item_bytes_def tag_info_bytes_def env0_def to_u32_def)

theorem tunnel_walk_stuck_witness:
  "\<exists>w. walk_first 1 0 (replicate 8 0 @ wr32 (- 16)) = Some w \<and> ucast (pw_total w) < (16 :: u64)
     \<and> walk_next 1 w = Some w"
  by (rule tunnel_walk_stuck [of _ _ "- 16"])
     (simp_all add: rd32_at [of 8 "replicate 8 0" "- 16" "[]", simplified])
end
