(* ===== verification/C_Library.thy ===== *)
theory C_Library
  imports Agm_Prelude
begin

text \<open>
  The functions of the C library on strings that the parsers of the repository call. A
  string is the list of the characters before its terminating NUL.
\<close>

definition is_space :: "char \<Rightarrow> bool" where
  "is_space c = (c \<in> set [CHR 0x20, CHR 0x09, CHR 0x0A, CHR 0x0B, CHR 0x0C, CHR 0x0D])"

definition is_digit :: "char \<Rightarrow> bool" where
  "is_digit c = (48 \<le> (of_char c :: nat) \<and> (of_char c :: nat) \<le> 57)"

definition digits_val :: "string \<Rightarrow> int" where
  "digits_val = foldl (\<lambda>n c. 10 * n + (of_char c - 48)) 0"

text \<open>A number with an optional sign: its value and whether there was a digit.\<close>

definition scan_sign :: "string \<Rightarrow> bool \<times> string" where
  "scan_sign s = (case s of c # t \<Rightarrow> if c = CHR ''-'' then (True, t) else if c = CHR ''+'' then (False, t)
                    else (False, s) | [] \<Rightarrow> (False, []))"

text \<open>\<open>atoi\<close>; a value outside \<open>int\<close> is undefined.\<close>

definition atoi :: "string \<Rightarrow> int option" where
  "atoi s = (case scan_sign (dropWhile is_space s) of (neg, t) \<Rightarrow>
     let n = digits_val (takeWhile is_digit t); v = (if neg then - n else n)
     in if - (2 ^ 31) \<le> v \<and> v < 2 ^ 31 then Some v else None)"

fun strstr :: "string \<Rightarrow> string \<Rightarrow> nat option" where
  "strstr pat [] = (if pat = [] then Some 0 else None)"
| "strstr pat (c # cs) =
     (if take (length pat) (c # cs) = pat then Some 0 else map_option Suc (strstr pat cs))"

fun split_at :: "(char \<Rightarrow> bool) \<Rightarrow> string \<Rightarrow> string \<Rightarrow> string list" where
  "split_at d acc [] = (if acc = [] then [] else [acc])"
| "split_at d acc (c # cs) =
     (if d c then (if acc = [] then split_at d [] cs else acc # split_at d [] cs)
      else split_at d (acc @ [c]) cs)"

text \<open>The tokens that repeated calls of \<open>strtok_r\<close> give.\<close>

definition strtok :: "string \<Rightarrow> string \<Rightarrow> string list" where
  "strtok delims s = split_at (\<lambda>c. c \<in> set delims) [] s"

definition strlcat :: "nat \<Rightarrow> string \<Rightarrow> string \<Rightarrow> string" where
  "strlcat n dst src = dst @ take (n - 1 - length dst) src"

end
