(* ===== verification/Device_Table.thy ===== *)
theory Device_Table
  imports Device C_Library
begin

text \<open>
  Model of \<open>service/src/device_hw_ep.c\<close> and of the part of
  \<open>service/src/device.c\<close> that builds the device table: the names of
  \<open>/proc/asound/pcm\<close> are parsed into hardware endpoints, back ends with virtual
  children get a group and one device per child, and the sound card's name selects the
  calibration files. The contents of the files are arguments; the values of the LPAIF types
  come from a header outside the repository.
\<close>

section \<open>Conversions\<close>

text \<open>\<open>sscanf(src, "%20[^-]-%60s", arg, value)\<close>. In most calls \<open>src\<close> is
  \<open>value\<close> itself; the characters are copied to the front of it in order, so the result
  is that of a copy through a buffer.\<close>

definition sscanf_arg :: "string \<Rightarrow> string \<Rightarrow> string \<Rightarrow> string \<times> string" where
  "sscanf_arg src arg val =
     (let a = take 20 (takeWhile (\<lambda>c. c \<noteq> CHR ''-'') src) in
      if a = [] then (arg, val)
      else case drop (length a) src of
             [] \<Rightarrow> (a, val)
           | c # r \<Rightarrow>
             if c \<noteq> CHR ''-'' then (a, val)
             else let w = take 60 (takeWhile (\<lambda>c. \<not> is_space c) (dropWhile is_space r))
                  in if w = [] then (a, val) else (a, w))"

abbreviation next_arg :: "string \<Rightarrow> string \<Rightarrow> string \<times> string" where
  "next_arg arg val \<equiv> sscanf_arg val arg val"

text \<open>A conversion \<open>%02u\<close>: at most two characters, a sign included.\<close>

definition scan_u2 :: "string \<Rightarrow> (u32 \<times> string) option" where
  "scan_u2 s =
     (let t = dropWhile is_space s; (neg, u) = scan_sign t; w = 2 - (length t - length u);
          ds = take w (takeWhile is_digit u)
      in if ds = [] then None
         else Some (of_int (if neg then - digits_val ds else digits_val ds), drop (length ds) u))"

section \<open>Hardware endpoints (device_hw_ep.c)\<close>

record lpaif_types =
  LPAIF :: u32
  LPAIF_RXTX :: u32
  LPAIF_WSA :: u32
  LPAIF_VA :: u32
  LPAIF_AXI :: u32
  LPAIF_AUD :: u32

abbreviation (input) DISPLAY_PORT :: u32 where "DISPLAY_PORT \<equiv> 5"
abbreviation (input) USB_AUDIO :: u32 where "USB_AUDIO \<equiv> 6"
abbreviation (input) AUDIOSS_DMA :: u32 where "AUDIOSS_DMA \<equiv> 8"

text \<open>The chains of \<open>strcmp\<close> as tables; the first match counts.\<close>

definition codec_idx_names :: "(string \<times> u32) list" where
  "codec_idx_names = [(''0'', 1), (''1'', 2), (''2'', 3), (''3'', 4), (''4'', 5), (''5'', 6), (''6'', 7), (''7'', 8)]"

definition pcm_idx_names :: "(string \<times> u32) list" where
  "pcm_idx_names = [(''PRIMARY'', 0), (''SECONDARY'', 1), (''TERTIARY'', 2), (''QUATERNARY'', 3),
                    (''QUINARY'', 4), (''SENARY'', 5)]"

definition intf_names :: "(string \<times> u32) list" where
  "intf_names = [(''SLIM'', SLIMBUS), (''DISPLAY_PORT'', DISPLAY_PORT), (''USB_AUDIO'', USB_AUDIO),
     (''CODEC_DMA'', CODEC_DMA), (''MI2S'', MI2S), (''TDM'', TDM), (''AUXPCM'', AUXPCM),
     (''PCM_RT_PROXY'', PCM_RT_PROXY), (''AUDIOSS_DMA'', AUDIOSS_DMA), (''PCM_DUMMY'', PCM_DUMMY)]"

definition lpaif_names :: "lpaif_types \<Rightarrow> (string \<times> u32) list" where
  "lpaif_names C = [(''LPAIF'', LPAIF C), (''LPAIF_RXTX'', LPAIF_RXTX C), (''LPAIF_WSA'', LPAIF_WSA C),
     (''LPAIF_VA'', LPAIF_VA C), (''LPAIF_AXI'', LPAIF_AXI C), (''LPAIF_AUD'', LPAIF_AUD C)]"

definition populate_hw_ep_intf_idx :: "hw_ep_info \<Rightarrow> string \<Rightarrow> int \<times> hw_ep_info" where
  "populate_hw_ep_intf_idx h idx =
     (if intf h = CODEC_DMA
      then case map_of codec_idx_names idx of Some w \<Rightarrow> (0, h\<lparr>ep_word1 := w\<rparr>) | None \<Rightarrow> (- EINVAL, h)
      else if intf h \<in> {MI2S, TDM, AUXPCM}
      then case map_of pcm_idx_names idx of Some w \<Rightarrow> (0, h\<lparr>ep_word1 := w\<rparr>) | None \<Rightarrow> (- EINVAL, h)
      else (- EINVAL, h))"

definition populate_hw_ep_intf :: "hw_ep_info \<Rightarrow> string \<Rightarrow> int \<times> hw_ep_info" where
  "populate_hw_ep_intf h name =
     (case map_of intf_names name of Some w \<Rightarrow> (0, h\<lparr>intf := w\<rparr>) | None \<Rightarrow> (- EINVAL, h))"

definition populate_hw_ep_direction :: "hw_ep_info \<Rightarrow> string \<Rightarrow> int \<times> hw_ep_info" where
  "populate_hw_ep_direction h d =
     (if d = ''RX'' then (0, h\<lparr>dir := AUDIO_OUTPUT\<rparr>)
      else if d = ''TX'' then (0, h\<lparr>dir := AUDIO_INPUT\<rparr>) else (- EINVAL, h))"

definition populate_audioss_dma_ep_info ::
    "lpaif_types \<Rightarrow> hw_ep_info \<Rightarrow> string \<Rightarrow> (int \<times> hw_ep_info) option" where
  "populate_audioss_dma_ep_info C h val =
     (let (arg, val) = next_arg [] val; lpaif_type = arg; (arg, val) = next_arg arg val in
      if lpaif_type \<noteq> ''LPAIF_VA'' then Some (- EINVAL, h)
      else let h = h\<lparr>ep_word0 := LPAIF_VA C\<rparr>; (ret, h) = populate_hw_ep_direction h arg in
      if ret \<noteq> 0 then Some (ret, h)
      else let (arg, val) = next_arg arg val in do {
        n \<leftarrow> atoi arg;
        Some (ret, h\<lparr>ep_word1 := of_int n\<rparr>) })"

text \<open>\<open>populate_pcm_rt_proxy_ep_info\<close> and \<open>populate_pcm_dummy_ep_info\<close> have
  the same body; both write the first word of the union.\<close>

definition populate_pcm_rt_proxy_ep_info :: "hw_ep_info \<Rightarrow> string \<Rightarrow> (int \<times> hw_ep_info) option" where
  "populate_pcm_rt_proxy_ep_info h val =
     (let (arg, val) = next_arg [] val; (ret, h) = populate_hw_ep_direction h arg in
      if ret \<noteq> 0 then Some (ret, h)
      else let (arg, val) = next_arg arg val in do {
        n \<leftarrow> atoi arg;
        Some (ret, h\<lparr>ep_word0 := of_int n\<rparr>) })"

definition populate_pcm_dummy_ep_info :: "hw_ep_info \<Rightarrow> string \<Rightarrow> (int \<times> hw_ep_info) option" where
  "populate_pcm_dummy_ep_info h val =
     (let (arg, val) = next_arg [] val; (ret, h) = populate_hw_ep_direction h arg in
      if ret \<noteq> 0 then Some (ret, h)
      else let (arg, val) = next_arg arg val in do {
        n \<leftarrow> atoi arg;
        Some (ret, h\<lparr>ep_word0 := of_int n\<rparr>) })"

definition populate_slim_dp_usb_ep_info :: "hw_ep_info \<Rightarrow> string \<Rightarrow> int \<times> hw_ep_info" where
  "populate_slim_dp_usb_ep_info h val =
     (if intf h = SLIMBUS
      then let (dev_id, val) = next_arg [] val in
        if dev_id = ''DEV1'' \<or> dev_id = ''DEV2''
        then let h = h\<lparr>ep_word0 := (if dev_id = ''DEV1'' then 0 else 1)\<rparr>; (arg, val) = next_arg dev_id val
             in populate_hw_ep_direction h arg
        else (- EINVAL, h)
      else let (arg, val) = next_arg [] val in populate_hw_ep_direction h arg)"

abbreviation (input) MAX_VIRTUAL_CHILDS :: int where "MAX_VIRTUAL_CHILDS \<equiv> 8"

text \<open>The number of virtual children is 0 unless the name has a part \<open>VIRT-n\<close>.\<close>

definition populate_cdc_dma_i2s_tdm_pcm_ep_info ::
    "lpaif_types \<Rightarrow> hw_ep_info \<Rightarrow> string \<Rightarrow> int \<Rightarrow> (int \<times> hw_ep_info \<times> int) option" where
  "populate_cdc_dma_i2s_tdm_pcm_ep_info C h val childs =
     (let (lpaif_type, val) = next_arg [] val; (dr, val) = next_arg lpaif_type val;
          (intf_idx, val) = next_arg dr val in do {
      childs \<leftarrow> (if strstr ''VIRT-'' val \<noteq> None
        then let (arg, val) = next_arg intf_idx val; (arg, val) = next_arg arg val
             in do { n \<leftarrow> atoi arg; Some (if n > MAX_VIRTUAL_CHILDS then MAX_VIRTUAL_CHILDS else n) }
        else Some childs);
      case map_of (lpaif_names C) lpaif_type of
        None \<Rightarrow> Some (- EINVAL, h, childs)
      | Some w \<Rightarrow>
        let h = h\<lparr>ep_word0 := w\<rparr>; (ret, h) = populate_hw_ep_direction h dr in
        if ret \<noteq> 0 then Some (ret, h, childs)
        else let (ret, h) = populate_hw_ep_intf_idx h intf_idx in Some (ret, h, childs) })"

text \<open>The result, the endpoint and the number of virtual children of a device object.\<close>

definition populate_device_hw_ep_info ::
    "lpaif_types \<Rightarrow> (string \<times> hw_ep_info) option \<Rightarrow> (int \<times> (hw_ep_info \<times> int) option) option" where
  "populate_device_hw_ep_info C dp =
     (case dp of None \<Rightarrow> Some (- EINVAL, None)
      | Some (name, h) \<Rightarrow>
        let (arg, val) = sscanf_arg name [] []; (ret, h) = populate_hw_ep_intf h arg in
        if ret \<noteq> 0 then Some (ret, Some (h, 0))
        else if intf h \<in> {CODEC_DMA, MI2S, TDM, AUXPCM} then do {
          (ret, h, childs) \<leftarrow> populate_cdc_dma_i2s_tdm_pcm_ep_info C h val 0;
          Some (ret, Some (h, childs)) }
        else if intf h \<in> {SLIMBUS, DISPLAY_PORT, USB_AUDIO}
        then let (ret, h) = populate_slim_dp_usb_ep_info h val in Some (ret, Some (h, 0))
        else if intf h = PCM_RT_PROXY
        then do { (ret, h) \<leftarrow> populate_pcm_rt_proxy_ep_info h val; Some (ret, Some (h, 0)) }
        else if intf h = AUDIOSS_DMA
        then do { (ret, h) \<leftarrow> populate_audioss_dma_ep_info C h val; Some (ret, Some (h, 0)) }
        else if intf h = PCM_DUMMY
        then do { (ret, h) \<leftarrow> populate_pcm_dummy_ep_info h val; Some (ret, Some (h, 0)) }
        else Some (- EINVAL, Some (h, 0)))"

text \<open>\<open>num\<close> has one digit, so the tail of the name is copied onto itself.\<close>

definition update_virtual_device_name :: "string \<Rightarrow> nat \<Rightarrow> string option" where
  "update_virtual_device_name name num =
     (case strstr ''VIRT-'' name of None \<Rightarrow> None
      | Some i \<Rightarrow> let pos = i + 5 in
        Some (take pos name @ take 20 (char_of (48 + num) # drop (pos + 1) name)))"

section \<open>The device table (device.c)\<close>

definition device_zero :: device_obj where
  "device_zero = \<lparr>dev_name = [], card_id = 0, hw_ep = \<lparr>intf = 0, dir = 0, ep_word0 = 0, ep_word1 = 0\<rparr>,
     pcm_id = 0, pcm = 0, dev_media_config = media_config0, dev_metadata = metadata0,
     refcnt = \<lparr>rc_open = 0, rc_prepare = 0, rc_start = 0\<rparr>, dev_state = DEV_CLOSED, dev_params = None,
     dev_params_size = 0, is_virtual_device = False, parent_dev = None, group_data = None\<rparr>"

definition group_zero :: device_group_data where
  "group_zero = \<lparr>grp_name = [], has_multiple_dai_link = False,
     grp_refcnt = \<lparr>rc_open = 0, rc_prepare = 0, rc_start = 0\<rparr>,
     grp_media_config = \<lparr>gmc_config = media_config0, gmc_slot_mask = 0\<rparr>\<rparr>"

text \<open>New objects get the next address: the tables are built from empty ones and only
  grow.\<close>

definition add_device :: "device_obj \<Rightarrow> 'z dev_world_scheme \<Rightarrow> 'z dev_world_scheme" where
  "add_device x s = (let d = length (device_list s) in
     s\<lparr>devs := (devs s)(d := x), device_list := device_list s @ [d]\<rparr>)"

definition populate_virtual_device_hw_ep_info ::
    "env \<Rightarrow> nat \<Rightarrow> nat \<Rightarrow> 'z dev_world_scheme \<Rightarrow> (device_obj option \<times> 'z dev_world_scheme) option" where
  "populate_virtual_device_hw_ep_info E p num s = do {
     (ok, s) \<leftarrow> calloc E s;
     if \<not> ok then Some (None, s)
     else do {
       name \<leftarrow> update_virtual_device_name (dev_name (devs s p)) num;
       Some (Some ((devs s p)\<lparr>dev_name := name, is_virtual_device := True, parent_dev := Some p\<rparr>), s) }}"

definition device_get_group_data_by_name ::
    "env \<Rightarrow> string \<Rightarrow> 'z dev_world_scheme \<Rightarrow> (nat option \<times> 'z dev_world_scheme) option" where
  "device_get_group_data_by_name E name s =
     (case strstr ''-VIRT'' name of None \<Rightarrow> None
      | Some i \<Rightarrow>
        let group_name = take i name in
        case find (\<lambda>g. grp_name (grps s g) = group_name) (device_group_data_list s) of
          Some g \<Rightarrow> Some (Some g, upd_grp (Some g) (\<lambda>x. x\<lparr>has_multiple_dai_link := True\<rparr>) s)
        | None \<Rightarrow> do {
            (ok, s) \<leftarrow> calloc E s;
            if \<not> ok then Some (None, s)
            else let g = length (device_group_data_list s) in
              Some (Some g, s\<lparr>grps := (grps s)(g := group_zero\<lparr>grp_name := group_name\<rparr>),
                              device_group_data_list := device_group_data_list s @ [g],
                              num_group_devices := num_group_devices s + 1\<rparr>) })"

fun add_children ::
    "env \<Rightarrow> nat \<Rightarrow> nat list \<Rightarrow> 'z dev_world_scheme \<Rightarrow> (unit \<times> 'z dev_world_scheme) option" where
  "add_children E p [] s = Some ((), s)"
| "add_children E p (i # is) s = do {
     (c, s) \<leftarrow> populate_virtual_device_hw_ep_info E p i s;
     add_children E p is (case c of None \<Rightarrow> s | Some x \<Rightarrow> add_device x s) }"

text \<open>\<open>sscanf(buffer, "%02u-%02u: %79s", ...)\<close>; what does not match stays zero.\<close>

definition scan_device :: "string \<Rightarrow> u32 \<times> u32 \<times> string" where
  "scan_device buf =
     (case scan_u2 buf of None \<Rightarrow> (0, 0, [])
      | Some (cid, r) \<Rightarrow>
        (case r of [] \<Rightarrow> (cid, 0, [])
         | c # r \<Rightarrow>
           if c \<noteq> CHR ''-'' then (cid, 0, [])
           else case scan_u2 r of None \<Rightarrow> (cid, 0, [])
           | Some (pid, r) \<Rightarrow>
             (case r of [] \<Rightarrow> (cid, pid, [])
              | c # r \<Rightarrow>
                if c \<noteq> CHR '':'' then (cid, pid, [])
                else (cid, pid, take 79 (takeWhile (\<lambda>c. \<not> is_space c) (dropWhile is_space r))))))"

text \<open>One line: the device, its group and its children.\<close>

definition parse_device ::
    "env \<Rightarrow> lpaif_types \<Rightarrow> string \<Rightarrow> 'z dev_world_scheme \<Rightarrow> (unit \<times> 'z dev_world_scheme) option" where
  "parse_device E C buf s =
     (case scan_device buf of (cid, pid, name) \<Rightarrow> do {
      (ret, ep) \<leftarrow> populate_device_hw_ep_info C (Some (name, hw_ep device_zero));
      if ret \<noteq> 0 then Some ((), s)
      else case ep of None \<Rightarrow> None
      | Some (h, childs) \<Rightarrow> do {
        let d = length (device_list s);
        let s = add_device (device_zero\<lparr>dev_name := name, card_id := cid, pcm_id := pid, hw_ep := h\<rparr>) s;
        if childs = 0 then Some ((), s)
        else do {
          (g, s) \<leftarrow> device_get_group_data_by_name E name s;
          add_children E d [0..<nat childs] (upd_dev d (\<lambda>x. x\<lparr>group_data := g\<rparr>) s) }}})"

fun parse_lines ::
    "env \<Rightarrow> lpaif_types \<Rightarrow> string list \<Rightarrow> 'z dev_world_scheme \<Rightarrow> (int \<times> 'z dev_world_scheme) option" where
  "parse_lines E C [] s = Some (0, s)"
| "parse_lines E C (l # ls) s = do {
     (ok, s) \<leftarrow> calloc E s;
     if \<not> ok then Some (- ENOMEM, s)
     else do { (_, s) \<leftarrow> parse_device E C l s; parse_lines E C ls s }}"

text \<open>\<open>pcm_file\<close> is what \<open>fgets\<close> reads from \<open>/proc/asound/pcm\<close>,
  \<open>None\<close> when the file cannot be opened. After a failure the group list keeps its
  nodes: only the list head is unlinked.\<close>

definition parse_snd_card ::
    "env \<Rightarrow> lpaif_types \<Rightarrow> string list option \<Rightarrow> 'z dev_world_scheme \<Rightarrow> (int \<times> 'z dev_world_scheme) option" where
  "parse_snd_card E C pcm_file s =
     (case pcm_file of None \<Rightarrow> Some (- ENODEV, s)
      | Some ls \<Rightarrow> do {
        (ret, s) \<leftarrow> parse_lines E C ls
           (s\<lparr>device_list := [], device_group_data_list := [], num_group_devices := 0\<rparr>);
        let ret = (if ret = 0 \<and> device_list s = [] then - EAGAIN else ret);
        if ret \<noteq> 0 then Some (ret, s\<lparr>device_list := []\<rparr>)
        else Some (0, s\<lparr>num_audio_intfs := length (device_list s)\<rparr>) })"

text \<open>\<open>card_state n\<close> is what the attempt \<open>n\<close> reads of the card state,
  \<open>None\<close> when it cannot be opened. The result of the wait.\<close>

fun wait_loop :: "(nat \<Rightarrow> string option) \<Rightarrow> nat \<Rightarrow> nat \<Rightarrow> nat" where
  "wait_loop card_state n 0 = 0"
| "wait_loop card_state n (Suc retries) =
     (case card_state n of
        Some buf \<Rightarrow> if takeWhile is_digit (take 1 buf) = ''1'' then Suc retries
                    else wait_loop card_state (Suc n) retries
      | None \<Rightarrow> wait_loop card_state (Suc n) retries)"

definition wait_for_snd_card_to_online :: "(nat \<Rightarrow> string option) \<Rightarrow> int" where
  "wait_for_snd_card_to_online card_state = (if wait_loop card_state 0 100 = 0 then - EIO else 0)"

definition device_init ::
    "env \<Rightarrow> lpaif_types \<Rightarrow> (nat \<Rightarrow> string option) \<Rightarrow> string list option \<Rightarrow> 'z dev_world_scheme \<Rightarrow>
       (int \<times> 'z dev_world_scheme) option" where
  "device_init E C card_state pcm_file s =
     (let ret = wait_for_snd_card_to_online card_state in
      if ret \<noteq> 0 then Some (ret, s) else parse_snd_card E C pcm_file s)"

text \<open>The mixer is closed, but its handle is kept.\<close>

definition device_deinit :: "'z dev_world_scheme \<Rightarrow> 'z dev_world_scheme" where
  "device_deinit s = s\<lparr>device_list := [], device_group_data_list := [], sysfs_fd := -1\<rparr>"

section \<open>The name of the sound card\<close>

text \<open>\<open>cards\<close> is what \<open>fgets\<close> reads from \<open>/proc/asound/cards\<close>. The
  copies that \<open>strdup\<close> makes of the names are taken to succeed.\<close>

abbreviation (input) FILE_PATH_EXTN_MAX_SIZE :: nat where "FILE_PATH_EXTN_MAX_SIZE \<equiv> 80"

fun split_rest :: "bool \<Rightarrow> string list \<Rightarrow> string \<Rightarrow> string" where
  "split_rest qti [] extn = extn"
| "split_rest qti (t # ts) extn =
     (if take 3 t = ''snd'' then extn
      else let extn = strlcat FILE_PATH_EXTN_MAX_SIZE (strlcat FILE_PATH_EXTN_MAX_SIZE extn ''_'') t
           in split_rest qti ts
                (if qti then strlcat FILE_PATH_EXTN_MAX_SIZE extn ''_qti_optimized'' else extn))"

definition split_snd_card_name :: "bool \<Rightarrow> string \<Rightarrow> string \<Rightarrow> string" where
  "split_snd_card_name qti name extn =
     (case strtok ''-'' name of [] \<Rightarrow> extn
      | t # ts \<Rightarrow> split_rest qti ts (strlcat FILE_PATH_EXTN_MAX_SIZE extn t))"

definition check_and_update_snd_card :: "string \<Rightarrow> 'z dev_world_scheme \<Rightarrow> bool option" where
  "check_and_update_snd_card line s = do {
     cid \<leftarrow> device_get_snd_card_id s;
     if cid < 0 then Some False
     else case strtok ''[:] '' line of
            t # _ # _ \<Rightarrow> do { n \<leftarrow> atoi t; Some (n = cid) }
          | _ \<Rightarrow> Some False }"

text \<open>The loop reads two lines at a time, each without its last character.\<close>

fun card_loop :: "nat \<Rightarrow> string list \<Rightarrow> 'z dev_world_scheme \<Rightarrow> string option option" where
  "card_loop 0 ls s = Some None"
| "card_loop (Suc retries) (l1 # l2 # ls) s = do {
     hit \<leftarrow> check_and_update_snd_card (butlast l1) s;
     case (if hit then strtok ''[:] '' (butlast l2) else []) of
       t # _ \<Rightarrow> Some (Some (take (FILE_PATH_EXTN_MAX_SIZE - 1) t))
     | [] \<Rightarrow> card_loop retries ls s }"
| "card_loop (Suc retries) ls s = Some None"

definition update_snd_card_info :: "string list option \<Rightarrow> 'z dev_world_scheme \<Rightarrow> string option option" where
  "update_snd_card_info cards s = (case cards of None \<Rightarrow> Some None | Some ls \<Rightarrow> card_loop 100 ls s)"

text \<open>At most twenty-one attempts; \<open>cards n\<close> is the file at attempt \<open>n\<close>.\<close>

fun extn_loop ::
    "bool \<Rightarrow> (nat \<Rightarrow> string list option) \<Rightarrow> nat \<Rightarrow> nat \<Rightarrow> string \<Rightarrow> 'z dev_world_scheme \<Rightarrow> (bool \<times> string) option" where
  "extn_loop qti cards n 0 extn s = Some (False, extn)"
| "extn_loop qti cards n (Suc k) extn s = do {
     found \<leftarrow> update_snd_card_info (cards n) s;
     case found of Some name \<Rightarrow> Some (True, split_snd_card_name qti name extn)
     | None \<Rightarrow> extn_loop qti cards (Suc n) k extn s }"

definition get_file_path_extn ::
    "bool \<Rightarrow> (nat \<Rightarrow> string list option) \<Rightarrow> string \<Rightarrow> 'z dev_world_scheme \<Rightarrow> (bool \<times> string) option" where
  "get_file_path_extn qti cards extn s = extn_loop qti cards 0 21 extn s"

end
