(* ===== verification/Lifecycle.thy ===== *)
theory Lifecycle
  imports Agm Device_Table
begin

text \<open>
  Model of the start and the end of the service: \<open>agm_init\<close>, \<open>agm_deinit\<close> and the
  thread that initialises ATS (\<open>agm.c\<close>), the initialisation and release of the session
  pool (\<open>session_obj.c\<close>), the search for the ACDB files, \<open>graph_init\<close>,
  \<open>graph_deinit\<close> and the callback that GSL calls with the events of a graph
  (\<open>graph.c\<close>). \<open>gsl_init\<close>, \<open>gsl_deinit\<close>, the ATS functions and the creation
  of the thread are external calls.
\<close>

section \<open>ACDB files\<close>

text \<open>
  What the start reads: the files of the sound card, the directories (\<open>None\<close> for a
  directory or file that cannot be opened), and the constants of the build and of
  \<open>gsl_intf.h\<close>.
\<close>

record boot_env =
  b_lpaif :: lpaif_types
  b_card_state :: "nat \<Rightarrow> string option"
  b_pcm_file :: "string list option"
  b_qti_optimized :: bool
  b_cards :: "nat \<Rightarrow> string list option"
  b_soc_id :: "string option"
  b_acdb_dir :: "string \<Rightarrow> string list option"
  ACDB_PATH :: string
  ACDB_DELTA_FILE_PATH :: string
  GSL_MAX_NUM_OF_ACDB_FILES :: nat
  sizeof_fileName :: nat

definition is_acdb_name :: "string \<Rightarrow> bool" where
  "is_acdb_name n \<longleftrightarrow> strstr ''.acdb'' n \<noteq> None \<or> strstr ''.qwsp'' n \<noteq> None"

text \<open>
  The loop over the directory. The limit is checked against \<open>num_files\<close>, which does not
  change in the loop; a store behind the last element of \<open>acdbFiles\<close> is a trap.
\<close>

fun acdb_loop ::
    "boot_env \<Rightarrow> string \<Rightarrow> nat \<Rightarrow> string list \<Rightarrow> string list \<Rightarrow> (int \<times> string list) option" where
  "acdb_loop B path num_files [] files = Some (0, files)"
| "acdb_loop B path num_files (d # ds) files =
     (if \<not> is_acdb_name d then acdb_loop B path num_files ds files
      else if num_files \<ge> GSL_MAX_NUM_OF_ACDB_FILES B then Some (0, files)
      else if length files \<ge> GSL_MAX_NUM_OF_ACDB_FILES B then None
      else let f = path @ ''/'' @ d in
        if length f \<ge> sizeof_fileName B then Some (- EINVAL, files)
        else acdb_loop B path num_files ds (files @ [f]))"

definition get_acdb_files_from_directory :: "boot_env \<Rightarrow> string \<Rightarrow> nat \<Rightarrow> (int \<times> string list) option" where
  "get_acdb_files_from_directory B path num_files =
     (case b_acdb_dir B path of None \<Rightarrow> Some (EINVAL, [])
      | Some names \<Rightarrow> acdb_loop B path num_files names [])"

text \<open>\<open>fgets\<close> reads to the end of the line, and nothing of an empty file: then the
  buffer is used without a value.\<close>

definition fgets :: "nat \<Rightarrow> string \<Rightarrow> string" where
  "fgets n f = take (n - 1) (takeWhile (\<lambda>c. c \<noteq> CHR 0x0A) f @ take 1 (dropWhile (\<lambda>c. c \<noteq> CHR 0x0A) f))"

definition get_soc_id :: "boot_env \<Rightarrow> int option" where
  "get_soc_id B =
     (case b_soc_id B of None \<Rightarrow> Some (- 1)
      | Some f \<Rightarrow> if f = [] then None else atoi (fgets 32 f))"

definition acdb_path :: "boot_env \<Rightarrow> string \<Rightarrow> int \<Rightarrow> string" where
  "acdb_path B extn soc_id =
     take ((if b_qti_optimized B then 80 else 50) - 1)
       (ACDB_PATH B @ extn @ (if soc_id = 585 then ''_arrax'' else []))"

definition graph_init ::
    "env \<Rightarrow> boot_env \<Rightarrow> 'z dev_world_scheme \<Rightarrow> (int \<times> 'z dev_world_scheme) option" where
  "graph_init E B s = do {
     (found, extn) \<leftarrow> get_file_path_extn (b_qti_optimized B) (b_cards B) [] s;
     if \<not> found then Some (- ENOENT, s) else do {
     soc_id \<leftarrow> get_soc_id B;
     (ret, files) \<leftarrow> get_acdb_files_from_directory B (acdb_path B extn soc_id) 0;
     if ret \<noteq> 0 then Some (ret, s)
     else if length (ACDB_DELTA_FILE_PATH B) + 1 > sizeof_fileName B then Some (- EINVAL, s)
     else do {
       (ret, s) \<leftarrow> ecall E (GSL_INIT files (ACDB_DELTA_FILE_PATH B)) s;
       Some (if ret \<noteq> 0 then lnx E ret else 0, s) }}}"

definition graph_deinit :: "env \<Rightarrow> 'z world_scheme \<Rightarrow> (int \<times> 'z world_scheme) option" where
  "graph_deinit E s = do { (_, s) \<leftarrow> ecall E GSL_DEINIT s; Some (0, s) }"

section \<open>Events of a graph\<close>

text \<open>An event of GSL with the two status words of a read or write done payload. The
  client gets a copy; the codes in it are those of Linux only where the client owns the
  buffers.\<close>

record gsl_event =
  ev_source_module_id :: u32
  ev_event_id :: u32
  ev_payload_size :: u32
  ev_md_status :: u32
  ev_status :: u32

definition lnx_status :: "env \<Rightarrow> agm_data_mode \<Rightarrow> gsl_event \<Rightarrow> gsl_event" where
  "lnx_status E mode ev =
     (if mode = AGM_DATA_EXTERN_MEM \<and> 0 < ev_payload_size ev
         \<and> (ev_event_id ev = AGM_EVENT_READ_DONE \<or> ev_event_id ev = AGM_EVENT_WRITE_DONE)
      then ev\<lparr>ev_md_status := of_int (ar_err_get_lnx_err_code E (unat (ev_md_status ev))),
              ev_status := of_int (ar_err_get_lnx_err_code E (unat (ev_status ev)))\<rparr>
      else ev)"

text \<open>The copy that was handed out is the result (\<open>None\<close>: no callback was called).\<close>

definition gsl_callback_func ::
    "env \<Rightarrow> nat \<Rightarrow> gsl_event option \<Rightarrow> 'z agm_world_scheme \<Rightarrow> (gsl_event option \<times> 'z agm_world_scheme) option" where
  "gsl_callback_func E a event_params s =
     (case (graph (sessions s a), event_params) of
        (Some g, Some ev) \<Rightarrow> do {
          (ok, s) \<leftarrow> calloc E s;
          if \<not> ok then Some (None, s) else do {
          let ev = lnx_status E (sc_data_mode (stream_config (sessions s a))) ev;
          case g_cb g of None \<Rightarrow> Some (None, s)
          | Some client_data \<Rightarrow> do {
              (_, s) \<leftarrow> graph_event_cb E (of_nat client_data) (ev_source_module_id ev) (ev_event_id ev) s;
              Some (Some ev, s) }}}
      | _ \<Rightarrow> Some (None, s))"

section \<open>The session pool\<close>

definition session_pool_init :: "env \<Rightarrow> 'z agm_world_scheme \<Rightarrow> (int \<times> 'z agm_world_scheme) option" where
  "session_pool_init E s = do {
     (ok, s) \<leftarrow> calloc E s;
     if \<not> ok then Some (- ENOMEM, s) else Some (0, s\<lparr>session_list := []\<rparr>) }"

definition aif_pool_free :: "nat \<Rightarrow> 'z agm_world_scheme \<Rightarrow> 'z agm_world_scheme" where
  "aif_pool_free a s = upd_sess a (\<lambda>x. x\<lparr>aif_pool := []\<rparr>) s"

definition session_cb_pool_free :: "nat \<Rightarrow> 'z agm_world_scheme \<Rightarrow> 'z agm_world_scheme" where
  "session_cb_pool_free a s = upd_sess a (\<lambda>x. x\<lparr>cb_pool := []\<rparr>) s"

definition sess_obj_free :: "nat \<Rightarrow> 'z agm_world_scheme \<Rightarrow> 'z agm_world_scheme" where
  "sess_obj_free a s =
     upd_sess a (\<lambda>x. x\<lparr>sess_meta := metadata_free (sess_meta x), sess_params := None\<rparr>)
       (session_cb_pool_free a (aif_pool_free a s))"

fun pool_free_loop :: "env \<Rightarrow> nat list \<Rightarrow> 'z agm_world_scheme \<Rightarrow> (unit \<times> 'z agm_world_scheme) option" where
  "pool_free_loop E [] s = Some ((), s)"
| "pool_free_loop E (a # as) s = do {
     (_, s) \<leftarrow> session_close E a s;
     pool_free_loop E as (sess_obj_free a (s\<lparr>session_list := remove1 a (session_list s)\<rparr>)) }"

definition session_pool_free :: "env \<Rightarrow> 'z agm_world_scheme \<Rightarrow> (unit \<times> 'z agm_world_scheme) option" where
  "session_pool_free E s = pool_free_loop E (session_list s) s"

section \<open>Start and end of the service\<close>

definition session_obj_deinit :: "env \<Rightarrow> 'z agm_world_scheme \<Rightarrow> (int \<times> 'z agm_world_scheme) option" where
  "session_obj_deinit E s = do {
     (_, s) \<leftarrow> session_pool_free E s;
     (_, s) \<leftarrow> graph_deinit E (device_deinit s);
     Some (0, s) }"

definition session_obj_init ::
    "env \<Rightarrow> boot_env \<Rightarrow> 'z agm_world_scheme \<Rightarrow> (int \<times> 'z agm_world_scheme) option" where
  "session_obj_init E B s = do {
     (ret, s) \<leftarrow> device_init E (b_lpaif B) (b_card_state B) (b_pcm_file B) s;
     if ret \<noteq> 0 then Some (ret, s) else do {
     (ret, s) \<leftarrow> graph_init E B s;
     if ret \<noteq> 0 then Some (ret, device_deinit s) else do {
     (ret, s) \<leftarrow> session_pool_init E s;
     if ret \<noteq> 0 then do { (_, s) \<leftarrow> graph_deinit E s; Some (ret, device_deinit s) }
     else Some (0, s) }}}"

text \<open>The process: the flag \<open>agm_initialized\<close> and the state of the service.\<close>

record agm_process =
  agm_initialized :: bool
  agm_service :: agm_world

definition agm_init :: "env \<Rightarrow> boot_env \<Rightarrow> agm_process \<Rightarrow> (int \<times> agm_process) option" where
  "agm_init E B p =
     (if agm_initialized p then Some (0, p) else do {
      (_, s) \<leftarrow> ecall E PTHREAD_CREATE (agm_service p);
      (ret, s) \<leftarrow> session_obj_init E B s;
      Some (ret, p\<lparr>agm_service := s, agm_initialized := (ret = 0)\<rparr>) })"

definition agm_deinit :: "env \<Rightarrow> agm_process \<Rightarrow> (int \<times> agm_process) option" where
  "agm_deinit E p =
     (if agm_initialized p then do {
        (_, s) \<leftarrow> ecall E ATS_DEINIT (agm_service p);
        (_, s) \<leftarrow> session_obj_deinit E s;
        Some (0, p\<lparr>agm_service := s, agm_initialized := False\<rparr>) }
      else Some (0, p))"

text \<open>The thread polls the flag, which others set; \<open>seen n\<close> is what its round \<open>n\<close>
  reads. It gives up after \<open>MAX_RETRIES\<close> rounds.\<close>

fun ats_loop ::
    "env \<Rightarrow> (nat \<Rightarrow> bool) \<Rightarrow> nat \<Rightarrow> nat \<Rightarrow> 'z world_scheme \<Rightarrow> (bool \<times> 'z world_scheme) option" where
  "ats_loop E seen retry 0 s = Some (False, s)"
| "ats_loop E seen retry (Suc k) s =
     (if seen retry then do {
        (ret, s) \<leftarrow> ecall E ATS_INIT s;
        if ret \<noteq> 0 then ats_loop E seen (Suc retry) k s else Some (True, s) }
      else ats_loop E seen (Suc retry) k s)"

definition ats_init_thread ::
    "env \<Rightarrow> (nat \<Rightarrow> bool) \<Rightarrow> 'z world_scheme \<Rightarrow> (bool \<times> 'z world_scheme) option" where
  "ats_init_thread E seen s = ats_loop E seen 0 120 s"

end
