(* ===== verification/Device_Table_Properties.thy ===== *)
theory Device_Table_Properties
  imports Device_Table Scenario
begin

text \<open>Properties of the device table: the tables that \<^verbatim>\<open>device_init\<close> builds from the PCM list of
  the sound card are initial states of the service, the names of hardware end points are read back to
  the parts they were made of, and the wait for the sound card ends.\<close>

section \<open>The table\<close>

abbreviation (input) no_refs :: refcount where "no_refs \<equiv> \<lparr>rc_open = 0, rc_prepare = 0, rc_start = 0\<rparr>"

text \<open>The addresses of a table: its positions.\<close>

definition is_upt :: "nat list \<Rightarrow> bool" where
  "is_upt xs \<longleftrightarrow> xs = [0..<length xs]"

lemma is_upt_Nil [simp]: "is_upt []"
  by (simp add: is_upt_def)

lemma is_upt_snoc [simp]: "is_upt xs \<Longrightarrow> is_upt (xs @ [length xs])"
  unfolding is_upt_def by simp

lemma is_upt_set: "is_upt xs \<Longrightarrow> set xs = {..<length xs}" "is_upt xs \<Longrightarrow> distinct xs"
  unfolding is_upt_def by (metis atLeast_upt, metis distinct_upt)

lemma find_in_set: "find P xs = Some x \<Longrightarrow> x \<in> set xs"
  by (auto simp: find_Some_iff)

definition fresh_dev :: "'z dev_world_scheme \<Rightarrow> nat \<Rightarrow> device_obj \<Rightarrow> bool" where
  "fresh_dev s d x \<longleftrightarrow> refcnt x = no_refs \<and> dev_state x = DEV_CLOSED
     \<and> (\<forall>p. parent_dev x = Some p \<longrightarrow> p < d \<and> parent_dev (devs s p) = None \<and> group_data x = group_data (devs s p))
     \<and> (\<forall>g. group_data x = Some g \<longrightarrow> g \<in> set (device_group_data_list s))"

definition table_ok :: "'z dev_world_scheme \<Rightarrow> bool" where
  "table_ok s \<longleftrightarrow> is_upt (device_list s) \<and> num_group_devices s = length (device_group_data_list s)
     \<and> (\<forall>d < length (device_list s). fresh_dev s d (devs s d))
     \<and> (\<forall>g. grp_refcnt (grps s g) = no_refs)"

lemma table_ok_hist [simp]: "table_ok (s\<lparr>hist := h\<rparr>) = table_ok s"
  by (simp add: table_ok_def fresh_dev_def)

lemma table_ok_add:
  assumes "table_ok s" "fresh_dev s (length (device_list s)) x"
  shows "table_ok (add_device x s)"
  using assms by (auto simp: table_ok_def add_device_def fresh_dev_def Let_def less_Suc_eq)

lemma add_children_ok:
  assumes "table_ok s" "p < length (device_list s)" "parent_dev (devs s p) = None"
  shows "wlp (add_children E p is s) (\<lambda>_ t. table_ok t)"
  using assms
proof (induction "is" arbitrary: s)
  case (Cons i "is")
  have x: "table_ok (add_device ((devs s p)\<lparr>dev_name := n, is_virtual_device := True, parent_dev := Some p\<rparr>) (s\<lparr>hist := h\<rparr>))" for n h
    by (rule table_ok_add) (use Cons.prems in \<open>auto simp: table_ok_def fresh_dev_def\<close>)
  have p: "parent_dev (devs (add_device y t) p) = None \<and> p < length (device_list (add_device y t))"
    if "device_list t = device_list s" "devs t = devs s" for y t
    using Cons.prems that by (auto simp: add_device_def Let_def)
  show ?case
    unfolding add_children.simps populate_virtual_device_hw_ep_info_def
    by (auto simp: wlp_simps wlp_bind_gen Cons.prems x p intro!: Cons.IH)
qed (simp add: wlp_simps)

lemma group_by_name_ok:
  assumes "table_ok s"
  shows "wlp (device_get_group_data_by_name E n s) (\<lambda>g t. table_ok t \<and> device_list t = device_list s \<and> devs t = devs s
    \<and> (\<forall>h. g = Some h \<longrightarrow> h \<in> set (device_group_data_list t)))"
  unfolding device_get_group_data_by_name_def Let_def
  by (intro inv_rules) (use assms in \<open>auto simp: wlp_simps table_ok_def fresh_dev_def upd_grp_def group_zero_def
        split: option.splits dest: find_in_set\<close>)

lemma parse_device_ok:
  assumes "table_ok s"
  shows "wlp (parse_device E C l s) (\<lambda>_ t. table_ok t)"
proof -
  have add: "table_ok (add_device (device_zero\<lparr>dev_name := n, card_id := c, pcm_id := p, hw_ep := h\<rparr>) s)" for n c p h
    by (rule table_ok_add [OF assms]) (simp add: fresh_dev_def device_zero_def)
  have grp: "table_ok (upd_dev (length (device_list s)) (\<lambda>x. x\<lparr>group_data := g\<rparr>) t)"
    if "table_ok t" "device_list t = device_list s @ [length (device_list s)]"
      "\<forall>k. g = Some k \<longrightarrow> k \<in> set (device_group_data_list t)" "parent_dev (devs t (length (device_list s))) = None" for t g
    using that by (auto simp: table_ok_def fresh_dev_def less_Suc_eq)
  show ?thesis
    unfolding parse_device_def Let_def
    apply (rule inv_case_prod)
    apply (rule inv_case_prod)
    apply (rule inv_bind_value)
    apply (rule inv_case_prod)
    apply (intro inv_if inv_case_option inv_case_prod)
    subgoal using assms by (simp add: wlp_simps)
    subgoal by (simp add: wlp_simps)
    subgoal by (simp add: wlp_simps add)
    subgoal for cid pr pid n y ret ep z h childs
      apply (rule wlp_bindI [OF group_by_name_ok [OF add]])
      apply (rule add_children_ok)
      apply (auto simp: add_device_def Let_def device_zero_def intro!: grp)
      done
    done
qed

lemma parse_lines_ok: "table_ok s \<Longrightarrow> wlp (parse_lines E C ls s) (\<lambda>_ t. table_ok t)"
proof (induction ls arbitrary: s)
  case (Cons l ls)
  show ?case unfolding parse_lines.simps
    using Cons.prems by (auto simp: wlp_simps intro!: wlp_mono [OF parse_device_ok] Cons.IH)
qed (simp add: wlp_simps)

text \<open>Building the table allocates and touches nothing outside it.\<close>

definition only_allocs :: "'z dev_world_scheme \<Rightarrow> 'z dev_world_scheme \<Rightarrow> bool" where
  "only_allocs s t \<longleftrightarrow> set (hist t) \<subseteq> set (hist s) \<union> {CALLOC} \<and> dev_world.more t = dev_world.more s"

lemma only_allocs_simps [simp]:
  "only_allocs s s" "only_allocs s (add_device x t) = only_allocs s t" "only_allocs s (upd_dev d f t) = only_allocs s t"
  "only_allocs s (upd_grp g f2 t) = only_allocs s t"
  "only_allocs s (t\<lparr>grps := a, device_group_data_list := b, num_group_devices := c\<rparr>) = only_allocs s t"
  by (auto simp: only_allocs_def add_device_def upd_dev_def upd_grp_def Let_def split: option.splits)

lemma calloc_allocs: "only_allocs s t \<Longrightarrow> wlp (calloc E t) (\<lambda>_ u. only_allocs s u)"
  by (auto simp: wlp_simps only_allocs_def)

lemma add_children_allocs: "only_allocs s t \<Longrightarrow> wlp (add_children E p is t) (\<lambda>_ u. only_allocs s u)"
proof (induction "is" arbitrary: t)
  case (Cons i "is")
  show ?case unfolding add_children.simps populate_virtual_device_hw_ep_info_def
    by (intro inv_rules inv_bind_value calloc_allocs Cons) (simp_all split: option.splits)
qed (simp add: wlp_simps)

lemma parse_lines_allocs: "only_allocs s t \<Longrightarrow> wlp (parse_lines E C ls t) (\<lambda>_ u. only_allocs s u)"
proof (induction ls arbitrary: t)
  case (Cons l ls)
  show ?case unfolding parse_lines.simps parse_device_def Let_def device_get_group_data_by_name_def
    by (intro inv_case_prod inv_case_prod_app inv_bind inv_bind_value inv_if inv_case_option inv_Some inv_None calloc_allocs add_children_allocs Cons)
       (auto simp: Cons.prems)
qed (simp add: wlp_simps)

lemma device_init_initial:
  fixes s :: agm_world
  assumes "device_init E C card_state pcm_file s = Some (0, t)"
    "list_all weightless (hist s)" "session_list s = []" "0 < sess_next s" "\<forall>g. grp_refcnt (grps s g) = no_refs"
  shows "agm_initial t \<and> device_list t \<noteq> [] \<and> num_audio_intfs t = length (device_list t)
    \<and> num_group_devices t = length (device_group_data_list t)
    \<and> (\<forall>d \<in> set (device_list t). dev_state (devs t d) = DEV_CLOSED \<and> refcnt (devs t d) = no_refs)"
proof -
  let ?s = "s\<lparr>device_list := [], device_group_data_list := [], num_group_devices := 0\<rparr>"
  obtain ls u where u: "parse_lines E C ls ?s = Some (0, u)" "device_list u \<noteq> []" "t = u\<lparr>num_audio_intfs := length (device_list u)\<rparr>"
    using assms(1) by (auto simp: device_init_def parse_snd_card_def Let_def bind_eq_Some_conv split: if_splits option.splits)
  have "table_ok ?s" using assms(5) by (simp add: table_ok_def)
  from wlpD [OF parse_lines_ok [OF this] u(1)] have ok: "table_ok u" .
  have al: "only_allocs s u"
    by (rule wlpD [OF parse_lines_allocs u(1)]) (auto simp: only_allocs_def)
  have more: "session_list u = session_list s" "sess_next u = sess_next s"
    using al more_fields [of u s] by (simp_all add: only_allocs_def)
  have "topology_ok u"
    using ok is_upt_set [of "device_list u"] by (auto simp: table_ok_def topology_ok_def parent_ok_def fresh_dev_def)
  then have "topology_ok t" using topology_cong [of t u] by (simp add: u(3))
  then have "agm_initial t"
    using ok al more assms(2-4) is_upt_set [of "device_list u"]
    by (auto simp: agm_initial_def only_allocs_def table_ok_def fresh_dev_def u(3) list_all_iff weightless_def)
  then show ?thesis
    using ok u(2) is_upt_set [of "device_list u"]
    by (auto simp: u(3) table_ok_def fresh_dev_def)
qed

text \<open>Initialisation: when the device table could be built, whatever the files of the sound
  card contain, it is not empty, the counts that lookups check agree with its length, every back
  end is closed and unreferenced, a virtual child has a real parent of the same group, and the
  service is in one of the initial states from which the reachable ones are counted.\<close>

theorem init_reaches_initial:
  fixes s :: agm_world
  assumes "device_init E C card_state pcm_file s = Some (0, t)"
    "list_all weightless (hist s)" "session_list s = []" "0 < sess_next s" "\<forall>g. grp_refcnt (grps s g) = no_refs"
  shows "agm_reach E t \<and> device_list t \<noteq> [] \<and> num_audio_intfs t = length (device_list t)
    \<and> num_group_devices t = length (device_group_data_list t)
    \<and> (\<forall>d \<in> set (device_list t). dev_state (devs t d) = DEV_CLOSED \<and> refcnt (devs t d) = no_refs)"
  using device_init_initial [OF assms] by (simp add: agm_reach_init)

section \<open>Names\<close>

definition clean :: "string \<Rightarrow> bool" where
  "clean n \<longleftrightarrow> n \<noteq> [] \<and> length n \<le> 12 \<and> list_all (\<lambda>c. c \<noteq> CHR ''-'' \<and> \<not> is_space c) n"

lemma cleanD:
  assumes "clean n"
  shows "n \<noteq> []" "length n \<le> 12" "list_all (\<lambda>c. \<not> is_space c) n" "CHR ''-'' \<notin> set n"
  using assms by (auto simp: clean_def list_all_iff)

lemma sscanf_arg_split:
  assumes "clean a" "r \<noteq> []" "length r \<le> 60" "list_all (\<lambda>c. \<not> is_space c) r"
  shows "sscanf_arg (a @ CHR ''-'' # r) arg val = (a, r)"
proof -
  have tw: "takeWhile (\<lambda>c. c \<noteq> CHR ''-'') (a @ CHR ''-'' # r) = a"
    using assms(1) by (subst takeWhile_append2) (auto simp: clean_def list_all_iff)
  have r: "dropWhile is_space r = r" "takeWhile (\<lambda>c. \<not> is_space c) r = r"
    using assms(2,4) by (cases r; auto simp: list_all_iff)+
  show ?thesis using assms by (simp add: sscanf_arg_def clean_def tw r)
qed

lemma sscanf_arg_last: "clean a \<Longrightarrow> sscanf_arg a arg val = (a, val)"
proof -
  assume a: "clean a"
  then have tw: "takeWhile (\<lambda>c. c \<noteq> CHR ''-'') a = a" by (auto simp: clean_def list_all_iff)
  show ?thesis using a by (simp add: sscanf_arg_def clean_def tw)
qed

lemma strstr_set: "strstr pat s = Some i \<Longrightarrow> set pat \<subseteq> set s"
proof (induction s arbitrary: i)
  case (Cons c s)
  show ?case
  proof (cases "take (length pat) (c # s) = pat")
    case True
    then show ?thesis using set_take_subset [of "length pat" "c # s"] by simp
  next
    case False
    with Cons show ?thesis by auto
  qed
qed (simp split: if_splits)

lemma strstr_absent: "CHR ''-'' \<notin> set s \<Longrightarrow> strstr ''VIRT-'' s = None"
  using strstr_set [of "''VIRT-''" s] by (cases "strstr ''VIRT-'' s") auto

lemma table_clean:
  assumes "list_all (\<lambda>p. clean (fst p)) tab" "map_of tab n = Some w"
  shows "clean n"
  using assms map_of_SomeD [OF assms(2)] by (auto simp: list_all_iff)

lemma names_clean:
  "list_all (\<lambda>p. clean (fst p)) intf_names" "list_all (\<lambda>p. clean (fst p)) (lpaif_names C)"
  "list_all (\<lambda>p. clean (fst p)) codec_idx_names" "list_all (\<lambda>p. clean (fst p)) pcm_idx_names"
  by (simp_all add: clean_def is_space_def intf_names_def lpaif_names_def codec_idx_names_def pcm_idx_names_def)

text \<open>The name of a back end of a serial interface, as the comment in \<open>device.h\<close> has
  it.\<close>

definition ep_name :: "string \<Rightarrow> string \<Rightarrow> string \<Rightarrow> string \<Rightarrow> string" where
  "ep_name i lp dr ix = i @ CHR ''-'' # lp @ CHR ''-'' # dr @ CHR ''-'' # ix"

definition dir_names :: "(string \<times> u32) list" where
  "dir_names = [(''RX'', AUDIO_OUTPUT), (''TX'', AUDIO_INPUT)]"

lemma dir_clean: "map_of dir_names dr = Some d \<Longrightarrow> clean dr"
  "map_of dir_names dr = Some d \<Longrightarrow> populate_hw_ep_direction h dr = (0, h\<lparr>dir := d\<rparr>)"
  by (auto simp: dir_names_def clean_def is_space_def populate_hw_ep_direction_def split: if_splits)

text \<open>\<^bold>\<open>C14.\<close> The name of a serial back end (interface, LPAIF type, direction and index) is parsed
  into exactly the endpoint it was made from, without virtual children.\<close>

theorem ep_name_roundtrip:
  assumes "map_of intf_names i = Some f" "f \<in> {CODEC_DMA, MI2S, TDM, AUXPCM}" "map_of (lpaif_names C) lp = Some w"
    "map_of dir_names dr = Some d" "map_of (if f = CODEC_DMA then codec_idx_names else pcm_idx_names) ix = Some k"
  shows "populate_device_hw_ep_info C (Some (ep_name i lp dr ix, h))
    = Some (0, Some (h\<lparr>intf := f, dir := d, ep_word0 := w, ep_word1 := k\<rparr>, 0))"
proof -
  have c: "clean i" "clean lp" "clean dr" "clean ix"
    using table_clean [OF names_clean(1) assms(1)] table_clean [OF names_clean(2) assms(3)] dir_clean(1) [OF assms(4)]
      table_clean [OF names_clean(3)] table_clean [OF names_clean(4)] assms(5) by (auto split: if_splits)
  let ?v3 = "ix" and ?v2 = "dr @ CHR ''-'' # ix" and ?v1 = "lp @ CHR ''-'' # dr @ CHR ''-'' # ix"
  note cleanD = cleanD [OF c(1)] cleanD [OF c(2)] cleanD [OF c(3)] cleanD [OF c(4)]
  have sp: "\<not> is_space (CHR ''-'')" by (simp add: is_space_def)
  have s1: "sscanf_arg (ep_name i lp dr ix) [] [] = (i, ?v1)" unfolding ep_name_def
    by (rule sscanf_arg_split) (use cleanD sp c in simp_all)
  have s2: "sscanf_arg ?v1 a b = (lp, ?v2)" for a b
    by (rule sscanf_arg_split) (use cleanD sp c in simp_all)
  have s3: "sscanf_arg ?v2 a b = (dr, ?v3)" for a b
    by (rule sscanf_arg_split) (use cleanD sp c in simp_all)
  have v: "strstr ''VIRT-'' ix = None"
    by (rule strstr_absent) (rule cleanD)
  have idx: "populate_hw_ep_intf_idx x ix = (0, x\<lparr>ep_word1 := k\<rparr>)" if "intf x = f" for x
    using assms(2,5) that by (cases "f = CODEC_DMA") (auto simp: populate_hw_ep_intf_idx_def)
  have "populate_cdc_dma_i2s_tdm_pcm_ep_info C (h\<lparr>intf := f\<rparr>) ?v1 0
      = Some (0, h\<lparr>intf := f, dir := d, ep_word0 := w, ep_word1 := k\<rparr>, 0)"
    unfolding populate_cdc_dma_i2s_tdm_pcm_ep_info_def s2 Let_def prod.case s3 sscanf_arg_last [OF c(4)] v assms(3)
    by (simp add: dir_clean(2) [OF assms(4)] idx)
  with assms(2) show ?thesis
    unfolding populate_device_hw_ep_info_def s1 option.case prod.case Let_def populate_hw_ep_intf_def assms(1)
    by simp
qed


definition lpaif0 :: lpaif_types where
  "lpaif0 = \<lparr>LPAIF = 0, LPAIF_RXTX = 1, LPAIF_WSA = 2, LPAIF_VA = 3, LPAIF_AXI = 4, LPAIF_AUD = 6\<rparr>"

definition pcm_file0 :: "string list" where
  "pcm_file0 = [''00-00: MI2S-LPAIF-RX-PRIMARY x :'', ''00-01: unknown'', ''00-02: TDM-LPAIF_AUD-TX-SECONDARY-VIRT-1-y'']"

lemmas table_eval = device_init_def wait_for_snd_card_to_online_def parse_snd_card_def
  parse_device_def scan_device_def scan_u2_def scan_sign_def is_space_def is_digit_def digits_val_def
  populate_device_hw_ep_info_def sscanf_arg_def populate_hw_ep_intf_def intf_names_def
  populate_cdc_dma_i2s_tdm_pcm_ep_info_def lpaif_names_def populate_hw_ep_direction_def
  populate_hw_ep_intf_idx_def pcm_idx_names_def codec_idx_names_def atoi_def add_device_def
  device_get_group_data_by_name_def populate_virtual_device_hw_ep_info_def update_virtual_device_name_def
  device_zero_def group_zero_def lpaif0_def pcm_file0_def calloc_def ecall_def

lemma wait_loop_found:
  "wait_loop st n k \<noteq> 0 \<longleftrightarrow> (\<exists>j < k. \<exists>b. st (n + j) = Some b \<and> take (Suc 0) b = ''1'')"
proof (induction k arbitrary: n)
  case (Suc k)
  have digit: "takeWhile is_digit (take (Suc 0) b) = ''1'' \<longleftrightarrow> take (Suc 0) b = ''1''" for b
    by (cases b) (auto simp: is_digit_def)
  have "(\<exists>j < Suc k. P (n + j)) \<longleftrightarrow> P n \<or> (\<exists>j < k. P (Suc n + j))" for P
    by (auto simp: less_Suc_eq_0_disj)
  from this [of "\<lambda>m. \<exists>b. st m = Some b \<and> take (Suc 0) b = ''1''"] Suc [of "Suc n"] show ?case
    by (auto simp: digit split: option.splits)
qed simp

text \<open>The wait for the sound card ends after at most a hundred attempts, and it succeeds
  exactly when one of them reads the state online.\<close>

theorem wait_for_card:
  "wait_for_snd_card_to_online st \<in> {0, - EIO}
   \<and> (wait_for_snd_card_to_online st = 0 \<longleftrightarrow> (\<exists>n < 100. \<exists>b. st n = Some b \<and> take 1 b = ''1''))"
  using wait_loop_found [of st 0 100] by (auto simp: wait_for_snd_card_to_online_def split: if_splits)

lemma wait_hundred: "wait_loop (\<lambda>_. Some ''1'') 0 100 = 100"
  by (simp add: numeral_eq_Suc is_digit_def)

lemma char_of_48: "char_of (48 :: nat) = CHR ''0''"
  by (simp add: char_of_def bit_iff_odd)

lemma pcm_file0_parsed:
  "\<exists>t. device_init env0 lpaif0 (\<lambda>_. Some ''1'') (Some pcm_file0) world0 = Some (0, t)
     \<and> map (\<lambda>d. dev_name (devs t d)) (device_list t)
         = [''MI2S-LPAIF-RX-PRIMARY'', ''TDM-LPAIF_AUD-TX-SECONDARY-VIRT-1-y'', ''TDM-LPAIF_AUD-TX-SECONDARY-VIRT-0-y'']"
  by (simp add: table_eval env0_def world0_def upd_dev_def Let_def wait_hundred char_of_48 cong: bind_eval_cong)

theorem init_reaches_initial_witness:
  "\<exists>t. device_init env0 lpaif0 (\<lambda>_. Some ''1'') (Some pcm_file0) world0 = Some (0, t) \<and> agm_reach env0 t"
proof -
  obtain t where t: "device_init env0 lpaif0 (\<lambda>_. Some ''1'') (Some pcm_file0) world0 = Some (0, t)"
    using pcm_file0_parsed by blast
  show ?thesis using init_reaches_initial [OF t] t by (simp add: world0_def group0_def refcnt0_def)
qed

theorem ep_name_roundtrip_witness:
  "populate_device_hw_ep_info lpaif0 (Some (ep_name ''TDM'' ''LPAIF_WSA'' ''RX'' ''SECONDARY'', hw_ep device_zero))
   = Some (0, Some (\<lparr>intf = TDM, dir = AUDIO_OUTPUT, ep_word0 = 2, ep_word1 = 1\<rparr>, 0))"
  using ep_name_roundtrip [of "''TDM''" TDM lpaif0 "''LPAIF_WSA''" 2 "''RX''" AUDIO_OUTPUT "''SECONDARY''" 1 "hw_ep device_zero"]
  by (simp add: intf_names_def lpaif_names_def dir_names_def pcm_idx_names_def lpaif0_def device_zero_def)

end
