(* ===== verification/Graph_Properties.thy ===== *)
theory Graph_Properties
  imports Scenario
begin

text \<open>
  The properties of \<open>service/src/graph.c\<close>, \<open>graph_module.c\<close> and
  \<open>utils.c\<close>: the translation of error codes, functions without a graph, what opening,
  preparing, stopping and changing a graph achieve, and what happens to compressed formats.
\<close>

unbundle bit_operations_syntax

section \<open>Error codes\<close>

lemma lnx_lower: "- ENOTRECOVERABLE \<le> ar_err_get_lnx_err_code E err"
proof -
  have "\<forall>i \<in> set [0..<25]. - ENOTRECOVERABLE \<le> ar_err_code_info ! i"
    by (simp add: ar_err_code_info_def upt_rec numeral_eq_Suc)
  then have "- ENOTRECOVERABLE \<le> ar_err_code_info ! i" if "i < 25" for i using that by simp
  moreover have "length ar_err_code_info = 25" by (simp add: ar_err_code_info_def)
  ultimately show ?thesis by (auto simp: ar_err_get_lnx_err_code_def Let_def)
qed

lemma lnx_behind: "osal_codes_ok E \<Longrightarrow> err > 24 \<Longrightarrow> ar_err_get_lnx_err_code E err = - EADV"
  by (simp add: ar_err_get_lnx_err_code_def osal_codes_ok_def ar_err_code_info_def)

text \<open>A Linux code read as a code of the DSP stack is behind the table.\<close>

lemma lnx_twice:
  assumes "osal_codes_ok E" "0 < err"
  shows "lnx E (ar_err_get_lnx_err_code E err) = - EADV"
proof (rule lnx_behind [OF assms(1)])
  let ?r = "ar_err_get_lnx_err_code E err"
  have "?r < 0" "- 131 \<le> ?r" using lnx_negative [OF assms] lnx_lower [of E err] by simp_all
  then have "?r mod 2 ^ 32 = ?r + 2 ^ 32"
    using int_mod_pos_eq [of ?r "2 ^ 32" "- 1" "?r + 2 ^ 32"] by simp
  then show "to_u32 ?r > 24" using \<open>- 131 \<le> ?r\<close> by (simp add: to_u32_def)
qed

text \<open>\<^bold>\<open>C37.\<close> The table that turns the codes of the DSP stack into Linux codes keeps success apart
  from failure: 0 is the only code that becomes 0, every other code, known or not, becomes a
  negative errno. Codes behind the table all become \<open>-EADV\<close>.\<close>

theorem error_codes:
  assumes "osal_codes_ok E"
  shows "(ar_err_get_lnx_err_code E err = 0 \<longleftrightarrow> err = 0) \<and> ar_err_get_lnx_err_code E err \<le> 0
    \<and> - ENOTRECOVERABLE \<le> ar_err_get_lnx_err_code E err
    \<and> (err > 24 \<longrightarrow> ar_err_get_lnx_err_code E err = - EADV)"
  using lnx_lower [of E err] lnx_behind [OF assms, of err] lnx_negative [OF assms, of err] by (cases "err = 0") auto

theorem error_codes_witness: "ar_err_get_lnx_err_code env0 99 = - EADV"
  using error_codes [of env0 99] by (simp add: osal_codes_ok_def env0_def)

text \<open>What is relied on outside: the codes of \<open>ar_osal_error.h\<close>, and that a C
  \<open>int\<close> is in its range.\<close>

definition env_ok :: "env \<Rightarrow> bool" where
  "env_ok E \<longleftrightarrow> osal_codes_ok E \<and> (\<forall>h c. - (2 ^ 31) \<le> ext_ret E h c \<and> ext_ret E h c < 2 ^ 31)"

lemma lnx_zero_iff: "env_ok E \<Longrightarrow> lnx E (ext_ret E h c) = 0 \<longleftrightarrow> ext_ret E h c = 0"
  using lnx_negative [of E "to_u32 (ext_ret E h c)"] to_u32_eq_0_iff [of "ext_ret E h c"]
  by (cases "to_u32 (ext_ret E h c) = 0") (auto simp: env_ok_def)

section \<open>Functions without a graph\<close>

text \<open>Every function of a graph that is called before the graph was opened (or after it was
  closed) returns \<open>-EINVAL\<close> without an external call; the one exception is the media
  configuration on the data path, which dereferences the NULL pointer.\<close>

theorem no_graph:
  "graph_close E None s = Some (- EINVAL, s) \<and> graph_prepare E cfg None d = Some ((- EINVAL, None), d)
   \<and> graph_start E None s = Some ((- EINVAL, None), s) \<and> graph_stop E None mp s = Some ((- EINVAL, None), s)
   \<and> graph_pause E None s = Some (- EINVAL, s) \<and> graph_resume E None s = Some (- EINVAL, s)
   \<and> graph_flush E None s = Some (- EINVAL, s) \<and> graph_suspend E None s = Some (- EINVAL, s)
   \<and> graph_eos E None s = Some (- EINVAL, s) \<and> graph_set_config E None p s = Some (- EINVAL, s)
   \<and> graph_get_config E None p s = Some (- EINVAL, s)
   \<and> graph_set_config_with_tag E None kvs tc s = Some (- EINVAL, s)
   \<and> graph_set_cal E None m s = Some (- EINVAL, s)
   \<and> graph_write E cfg None buf s = Some ((- EINVAL, None), s)
   \<and> graph_read E cfg None buf s = Some ((- EINVAL, None, None), s)
   \<and> graph_get_session_time E None s = Some ((- EINVAL, None), s)
   \<and> graph_get_buffer_timestamp None = (- EINVAL, None)
   \<and> graph_get_buf_info E cfg None bi flag s = Some ((- EINVAL, bi, None), s)
   \<and> graph_set_gapless_metadata E None ty sil s = Some (- EINVAL, s)
   \<and> graph_add E cfg None m dev d = Some ((- EINVAL, None), d)
   \<and> graph_change E cfg None m dev d = Some ((- EINVAL, None), d)
   \<and> graph_remove E None m s = Some (- EINVAL, s) \<and> graph_register_cb None n = (- EINVAL, None)
   \<and> graph_register_for_events E None ep s = Some ((- EINVAL, None), s)
   \<and> graph_set_media_config_datapath E cfg None d = None"
  unfolding graph_close_def graph_prepare_def graph_start_def graph_stop_def graph_pause_def graph_resume_def
    graph_pause_resume_def graph_flush_def graph_suspend_def graph_ioctl_def graph_eos_def graph_set_config_def
    graph_get_config_def graph_set_config_with_tag_def graph_set_cal_def graph_write_def graph_read_def
    graph_get_session_time_def graph_get_buffer_timestamp_def graph_get_buf_info_def
    graph_set_gapless_metadata_def graph_add_def graph_change_def graph_remove_def graph_register_cb_def
    graph_register_for_events_def graph_set_media_config_datapath_def
  by simp

section \<open>Preparing\<close>

text \<open>What a configuration function may change of the graph: only the SPR instance.\<close>

definition same_graph :: "graph_obj \<Rightarrow> graph_obj \<Rightarrow> bool" where
  "same_graph g h \<longleftrightarrow> g_mods h = g_mods g \<and> g_handle h = g_handle g \<and> g_state h = g_state g \<and> g_cb h = g_cb g"

lemma same_graph_refl [simp]: "same_graph g g"
  by (simp add: same_graph_def)

lemma configure_same_graph:
  "wlp (configure E cfg f m g s) (\<lambda>r t. same_graph g (snd r))"
  unfolding configure_def Let_def configure_spr_def
  by (cases f; simp; intro res_rules inv_bind_value) (simp_all add: same_graph_def)




text \<open>The loop over the modules: those before the current one are configured, and no module
  changes but for that mark.\<close>

definition unmark :: "module_info \<Rightarrow> module_info" where
  "unmark m = m\<lparr>m_is_configured := False\<rparr>"

definition mods_kept :: "graph_obj \<Rightarrow> graph_obj \<Rightarrow> bool" where
  "mods_kept g h \<longleftrightarrow> map unmark (g_mods h) = map unmark (g_mods g) \<and> g_handle h = g_handle g
     \<and> g_state h = g_state g \<and> g_cb h = g_cb g"

lemma mods_kept_length: "mods_kept g h \<Longrightarrow> length (g_mods h) = length (g_mods g)"
  unfolding mods_kept_def by (metis length_map)

lemma mods_kept_mark:
  assumes "mods_kept g h" "i < length (g_mods g)"
  shows "mods_kept g (mark_configured i h)"
proof -
  have "map unmark ((g_mods h)[i := (g_mods h ! i)\<lparr>m_is_configured := True\<rparr>]) = map unmark (g_mods h)"
    using assms mods_kept_length [OF assms(1)] by (intro nth_equalityI) (auto simp: nth_list_update unmark_def)
  with assms show ?thesis by (simp add: mods_kept_def mark_configured_def)
qed









definition graph0 :: graph_obj where
  "graph0 = \<lparr>g_state = OPENED, g_handle = 7, g_mods = [(stream_module_list env0 ! 4)\<lparr>m_mid := 1, m_miid := 2\<rparr>,
     (hw_ep_module env0 ! 0)\<lparr>m_mid := 3, m_miid := 4, m_dev := Some 2\<rparr>],
     g_cb = None, g_spr_miid = 0, g_buf_timestamp = 0, g_is_config_buf_params_done = False\<rparr>"

definition cfg0 :: stream_cfg where
  "cfg0 = \<lparr>stream_config = session_config0\<lparr>sc_dir := RX\<rparr>, in_media_config = media0, out_media_config = media0,
           in_buffer_config = buffer_config0, out_buffer_config = buffer_config0\<rparr>"

definition env1 :: env where
  "env1 = env0\<lparr>ext_ret := (\<lambda>h c. case c of MIXER_OPEN _ \<Rightarrow> 1 | MIXER_GET_CTL_BY_NAME _ _ \<Rightarrow> 1 | _ \<Rightarrow> 0), ext_word := (\<lambda>_ i. if i = 0 then 2 else 3)\<rparr>"

lemma env_ok0: "env_ok env0" "env_ok env1"
  by (simp_all add: env_ok_def osal_codes_ok_def env0_def env1_def split: ext_call.splits)


section \<open>Opening\<close>

text \<open>The modules a graph is opened with come from the two tables, with the instance ids GSL
  reported, and not configured; an endpoint module belongs to the device of the call.\<close>

definition fresh_module :: "env \<Rightarrow> nat option \<Rightarrow> module_info \<Rightarrow> bool" where
  "fresh_module E dev m \<longleftrightarrow> \<not> m_is_configured m \<and>
     (\<exists>x \<in> set (stream_module_list E). m_tag m = m_tag x \<and> m_configure m = m_configure x \<and> m_dev m = None
      \<or> dev \<noteq> None \<and> m_dev m = dev \<and> (\<exists>y \<in> set (hw_ep_module E). m_tag m = m_tag y \<and> m_configure m = m_configure y))"

lemma module_tables:
  "x \<in> set (stream_module_list E) \<Longrightarrow> \<not> m_is_configured x \<and> m_dev x = None"
  "x \<in> set (hw_ep_module E) \<Longrightarrow> \<not> m_is_configured x"
  by (auto simp: stream_module_list_def hw_ep_module_def new_module_def)

lemma stream_tables_nonempty: "stream_module_list E \<noteq> []"
  by (simp add: stream_module_list_def)

lemma open_tags_fresh:
  assumes "list_all (fresh_module E dev) mods"
  shows "wlp (open_tags E m dev es mods s) (\<lambda>r t. list_all (fresh_module E dev) (snd r))"
  using assms
proof (induction es arbitrary: mods s)
  case (Cons e es)
  obtain tag ids where e: "e = (tag, ids)" by (cases e)
  have stream: "fresh_module E dev (x\<lparr>m_mid := i, m_miid := j, m_gkv := None\<rparr>)"
    if "find (\<lambda>x. m_tag x = tag) (stream_module_list E) = Some x" for x i j
    using that module_tables(1) [of x E] by (auto simp: fresh_module_def find_Some_iff in_set_conv_nth intro!: bexI [of _ x])
  have hw: "fresh_module E (Some d) (x\<lparr>m_mid := i, m_miid := j, m_dev := Some d, m_gkv := Some l\<rparr>)"
    if "find (\<lambda>x. m_tag x = tag) (hw_ep_module E) = Some x" for x i j d l
  proof -
    have "x \<in> set (hw_ep_module E)" using that by (auto simp: find_Some_iff)
    then show ?thesis using module_tables(2) [of x E] stream_tables_nonempty [of E]
      by (auto simp: fresh_module_def neq_Nil_conv)
  qed
  show ?case unfolding e open_tags.simps
    by (intro res_rules Cons.IH) (use Cons.prems stream hw in auto)
qed (simp add: wlp_simps)

text \<open>\<^bold>\<open>C33.\<close> Opening a graph opens one graph at GSL when it hands one out and none otherwise (a
  graph whose event registration fails is closed again), never hands one out together with an
  error, and touches no device. A new graph is OPENED and its modules are unconfigured ones of
  the module tables, the endpoint modules bound to the device of the call.\<close>

theorem open_accounts:
  assumes "graph_open E cfg mp dev s = Some ((ret, gp), t)"
  shows "gsl_live E (hist t) = gsl_live E (hist s) + (if gp = None then 0 else 1)
    \<and> (ret \<noteq> 0 \<longrightarrow> gp = None) \<and> devs t = devs s \<and> grps t = grps s
    \<and> (\<forall>g. gp = Some g \<longrightarrow> g_state g = OPENED \<and> list_all (fresh_module E dev) (g_mods g))"
proof -
  have mods: "wlp (open_modules E cfg m dev u) (\<lambda>r t. list_all (fresh_module E dev) (snd r))" for m u
    unfolding open_modules_def by (intro res_rules open_tags_fresh) simp_all
  have "wlp (graph_open E cfg mp dev s) (\<lambda>r t. \<forall>g. snd r = Some g \<longrightarrow> g_state g = OPENED \<and> list_all (fresh_module E dev) (g_mods g))"
  proof (cases mp)
    case (Some m)
    show ?thesis unfolding graph_open_def Some option.case
      by (rule res_bind, rule inv_if, simp add: wlp_simps, rule res_bind, rule wlp_bindI [OF mods])
         (auto simp: wlp_simps split: option.splits)
  qed (simp add: graph_open_def wlp_simps)
  from wlpD [OF this assms] wlpD [OF graph_open_frame assms] show ?thesis by simp
qed

theorem open_accounts_witness:
  "\<exists>g t. graph_open env0 cfg0 (Some metadata0) None world0 = Some ((0, Some g), t) \<and> gsl_live env0 (hist t) = 1
     \<and> g_state g = OPENED"
proof -
  obtain g t where t: "graph_open env0 cfg0 (Some metadata0) None world0 = Some ((0, Some g), t)"
    by (simp add: cfg0_def agm_eval numeral_eq_Suc cong: bind_eval_cong)
  moreover have "gsl_live env0 (hist world0) = 0" by (simp add: world0_def)
  ultimately show ?thesis using open_accounts [OF t] by simp
qed

text \<open>When the first tag GSL reports is that of a stream module and names more than one
  module, the open gives up without setting an error: it returns 0 and hands out no graph.\<close>

theorem open_ambiguous_tag:
  fixes s :: "'z world_scheme"
  assumes "\<forall>h. ext_ret E h CALLOC = 0" "\<forall>h n. ext_ret E h (GSL_GET_TAGS_WITH_MODULE_INFO (gkvs m) n) = 0"
    "\<forall>h. ext_tags E h (gkvs m) = (tag, ids) # es" "tag \<in> m_tag ` set (stream_module_list E)" "length ids > 1"
    "sc_sess_mode (stream_config cfg) \<noteq> AGM_SESSION_NO_CONFIG"
  shows "\<exists>t. graph_open E cfg (Some m) dev s = Some ((0, None), t)"
proof -
  have mem: "\<exists>v. calloc E u = Some (True, v)" for u :: "'z world_scheme"
    using assms(1) by (simp add: calloc_def ecall_def)
  have add: "\<exists>v. add_to_list E n u = Some (0, v)" for n and u :: "'z world_scheme"
  proof (induction n arbitrary: u)
    case (Suc n)
    obtain v where "calloc E u = Some (True, v)" using mem by blast
    with Suc [of v] show ?case by simp
  qed simp
  obtain x where x: "find (\<lambda>x. m_tag x = tag) (stream_module_list E) = Some x"
    using assms(4) by (cases "find (\<lambda>x. m_tag x = tag) (stream_module_list E)") (auto simp: find_None_iff)
  have mods: "\<exists>v. open_modules E cfg m dev u = Some ((Some 0, []), v)" for u :: "'z world_scheme"
  proof -
    obtain v where v: "get_tags_with_module_info E m u = Some ((0, Some ((tag, ids) # es)), v)"
      using assms(1,2,3) by (simp add: get_tags_with_module_info_def calloc_def ecall_def to_u32_def)
    obtain w where w: "add_to_list E (length (stream_module_list E)) v = Some (0, w)" using add by blast
    obtain z where z: "add_to_list E (length (hw_ep_module E)) w = Some (0, z)" using add by blast
    show ?thesis using v w z x assms(5,6) by (simp add: open_modules_def)
  qed
  obtain u where u: "calloc E s = Some (True, u)" using mem by blast
  have "\<exists>v. print_graph_alias E m u = Some ((), v)" by (simp add: print_graph_alias_def ecall_def)
  then obtain v where v: "print_graph_alias E m u = Some ((), v)" by blast
  obtain w where w: "open_modules E cfg m dev v = Some ((Some 0, []), w)" using mods by blast
  show ?thesis using u v w by (simp add: graph_open_def)
qed

theorem open_ambiguous_tag_witness:
  "\<exists>t. graph_open (env0\<lparr>ext_tags := (\<lambda>_ _. [(0xC000000A, [(1, 2), (3, 4)])])\<rparr>) cfg0 (Some metadata0) None world0
     = Some ((0, None), t)"
  by (rule open_ambiguous_tag) (auto simp: cfg0_def session_config0_def env0_def stream_module_list_def new_module_def)

section \<open>Stopping and changing\<close>

text \<open>A stop of the whole graph leaves it STOPPED whatever GSL answers, and a second stop
  sends nothing. The state CLOSED, which the code means to refuse, is not refused: its value is
  0 and the test is a bit test.\<close>

theorem stop_once:
  "(\<exists>ret. graph_stop E (Some g) None s = (if g_state g AND STOPPED \<noteq> 0 then Some ((0, Some g), s)
      else Some ((ret, Some (g\<lparr>g_state := STOPPED\<rparr>)), s\<lparr>hist := hist s @ [GSL_IOCTL (g_handle g) (GSL_CMD_STOP None)]\<rparr>)))
   \<and> graph_stop E (Some (g\<lparr>g_state := STOPPED\<rparr>)) None s = Some ((0, Some (g\<lparr>g_state := STOPPED\<rparr>)), s)
   \<and> (\<exists>ret t. graph_stop E (Some (g\<lparr>g_state := CLOSED\<rparr>)) None s = Some ((ret, Some (g\<lparr>g_state := STOPPED\<rparr>)), t)
        \<and> hist t = hist s @ [GSL_IOCTL (g_handle g) (GSL_CMD_STOP None)])"
  by (auto simp: graph_stop_def ecall_def)

lemma reset_first_spec:
  "reset_first k ms = (found, ms') \<Longrightarrow> found = (k \<in> m_miid ` set ms) \<and> map unmark ms' = map unmark ms"
  by (induction ms arbitrary: found ms') (auto simp: unmark_def split: if_splits prod.splits)

text \<open>The streams modules of a graph, without the configuration marks.\<close>

definition stream_part :: "env \<Rightarrow> graph_obj \<Rightarrow> module_info list" where
  "stream_part E g = filter (\<lambda>m. \<not> is_hw_ep E m) (map unmark (g_mods g))"

definition one_endpoint :: "env \<Rightarrow> u32 \<Rightarrow> graph_obj \<Rightarrow> graph_obj \<Rightarrow> bool" where
  "one_endpoint E k g h \<longleftrightarrow> stream_part E h = stream_part E g
     \<and> (\<forall>m \<in> set (g_mods h). is_hw_ep E m \<longrightarrow> m_miid m = k) \<and> (\<exists>m \<in> set (g_mods h). m_miid m = k)"

lemma unmark_keeps [simp]:
  "is_hw_ep E (unmark m) = is_hw_ep E m" "m_miid (unmark m) = m_miid m"
  by (simp_all add: unmark_def is_hw_ep_def)

lemma one_endpoint_kept:
  assumes "one_endpoint E k g h" "map unmark (g_mods h') = map unmark (g_mods h)"
  shows "one_endpoint E k g h'"
proof -
  have "unmark ` set (g_mods h') = unmark ` set (g_mods h)"
    using arg_cong [OF assms(2), of set] by simp
  then have "(\<exists>m \<in> set (g_mods h'). P (unmark m)) = (\<exists>m \<in> set (g_mods h). P (unmark m))" for P by (metis (no_types) image_iff)
  from this [of "\<lambda>m. is_hw_ep E m \<and> m_miid m \<noteq> k"] this [of "\<lambda>m. m_miid m = k"] assms
  show ?thesis by (auto simp: one_endpoint_def stream_part_def)
qed

lemma change_loop:
  "wlp (mods_loop (change_module_cfg E cfg) is g s) (\<lambda>r t. map unmark (g_mods (snd r)) = map unmark (g_mods g))"
proof (induction "is" arbitrary: g s)
  case (Cons i "is")
  have step: "wlp (change_module_cfg E cfg (g_mods g ! i) g s) (\<lambda>r t. same_graph g (snd (snd r)))"
    unfolding change_module_cfg_def call_configure_def
    by (intro inv_case_option inv_if) (auto simp: wlp_simps intro!: wlp_mono [OF configure_same_graph])
  have mark: "map unmark (g_mods (mark_configured i h)) = map unmark (g_mods h)" for h
  proof (cases "i < length (g_mods h)")
    case True
    then show ?thesis using mods_kept_mark [of h h i] by (simp add: mods_kept_def)
  qed (simp add: mark_configured_def list_update_beyond)
  show ?case unfolding mods_loop.simps
    by (rule wlp_bindI [OF step])
       (auto simp: wlp_simps same_graph_def mark split: prod.splits intro!: wlp_mono [OF Cons])
qed (simp add: wlp_simps)

lemma change_loop_endpoint:
  "one_endpoint E k g h \<Longrightarrow>
     wlp (mods_loop (change_module_cfg E cfg) is h s) (\<lambda>r t. fst r = 0 \<longrightarrow> one_endpoint E k g (snd r))"
  by (rule wlp_mono [OF change_loop]) (blast intro: one_endpoint_kept)

lemma alias_any: "(\<And>r t. Q r t) \<Longrightarrow> wlp (print_graph_alias E m s) Q"
  by (simp add: wlp_def)

text \<open>Moving a graph to another device: after a change that GSL accepted, every endpoint
  module of the graph has the instance id of the new device's endpoint, which is there, and the
  stream modules are the ones from before, in order.\<close>

theorem change_endpoint:
  assumes "graph_change E cfg (Some g) m (Some d) s = Some ((0, gp), t)" "env_ok E"
    "ext_ret E (hist s) (GSL_GET_TAGGED_MODULE_INFO (gkvs m) (m_tag (dev_hw_module E d s))) = 0"
  shows "\<exists>h. gp = Some h \<and> one_endpoint E
     (snd (ext_tagged E (hist s @ [GSL_GET_TAGGED_MODULE_INFO (gkvs m) (m_tag (dev_hw_module E d s))]) (gkvs m)
        (m_tag (dev_hw_module E d s)))) g h"
proof -
  let ?call = "GSL_GET_TAGGED_MODULE_INFO (gkvs m) (m_tag (dev_hw_module E d s))"
  let ?tagged = "ext_tagged E (hist s @ [?call]) (gkvs m) (m_tag (dev_hw_module E d s))"
  obtain mid k where k: "?tagged = (mid, k)" by (cases ?tagged)
  obtain found ms where r: "reset_first k (g_mods g) = (found, ms)" by (cases "reset_first k (g_mods g)")
  note rs = reset_first_spec [OF r]
  let ?g = "g\<lparr>g_mods := filter (\<lambda>x. \<not> (is_hw_ep E x \<and> m_miid x \<noteq> k)) ms\<rparr>"
  have hw: "is_hw_ep E (dev_hw_module E d u)" for u
    by (simp add: is_hw_ep_def dev_hw_module_def hw_ep_module_def new_module_def)
  have part: "stream_part E ?g = stream_part E g"
  proof -
    have "map unmark (filter (\<lambda>x. \<not> is_hw_ep E x) ms) = map unmark (filter (\<lambda>x. \<not> is_hw_ep E x) (g_mods g))"
      using arg_cong [OF conjunct2 [OF rs], of "filter (\<lambda>x. \<not> is_hw_ep E x)"] by (simp add: filter_map comp_def)
    moreover have "filter (\<lambda>x. (is_hw_ep E x \<longrightarrow> m_miid x = k) \<and> \<not> is_hw_ep E x) ms = filter (\<lambda>x. \<not> is_hw_ep E x) ms"
      by (rule filter_cong) auto
    ultimately show ?thesis by (simp add: stream_part_def filter_map comp_def)
  qed
  have "wlp (graph_change E cfg (Some g) m (Some d) s) (\<lambda>r t. fst r = 0 \<longrightarrow> (\<exists>h. snd r = Some h \<and> one_endpoint E k g h))"
    unfolding graph_change_def option.case
  proof (rule wlp_bindI [where P = "\<lambda>r t. fst r = 0 \<longrightarrow> one_endpoint E k g (snd r)"])
    have old: "one_endpoint E k g ?g" if found
    proof -
      have "map m_miid ms = map m_miid (g_mods g)"
        using arg_cong [OF conjunct2 [OF rs], of "map m_miid"] by (simp add: comp_def)
      from arg_cong [OF this, of set] have "k \<in> m_miid ` set ms" using rs that by simp
      with part show ?thesis by (auto simp: one_endpoint_def)
    qed
    have hw_new: "is_hw_ep E ((dev_hw_module E d u)\<lparr>m_mid := mid, m_miid := k, m_dev := Some d, m_gkv := kvs\<rparr>)" for kvs u
      using hw [of u] by (simp add: is_hw_ep_def)
    have new: "one_endpoint E k g (?g\<lparr>g_mods := g_mods ?g @ [x]\<rparr>)" if "is_hw_ep E x" "m_miid x = k" for x
      using part that by (auto simp: one_endpoint_def stream_part_def)
    show "wlp (let tag = m_tag (dev_hw_module E d s) in do {
        (ret, s) \<leftarrow> ecall E (GSL_GET_TAGGED_MODULE_INFO (gkvs m) tag) s;
        if ret \<noteq> 0 then Some ((lnx E ret, g), s)
        else case ext_tagged E (hist s) (gkvs m) tag of (mid, miid) \<Rightarrow>
          case reset_first miid (g_mods g) of (found, ms) \<Rightarrow>
          let ms = filter (\<lambda>x. \<not> (is_hw_ep E x \<and> m_miid x \<noteq> miid)) ms; g = g\<lparr>g_mods := ms\<rparr>
          in if found then Some ((0, g), s) else add_dev_module E m d mid miid g s })
      (\<lambda>r t. fst r = 0 \<longrightarrow> one_endpoint E k g (snd r))"
      using old new [OF hw_new]
      by (simp add: ecall_def assms(3) k r Let_def add_dev_module_def wlp_simps) (auto intro: wlpI)
  qed (auto simp: wlp_simps case_prod_beta lnx_zero_iff [OF assms(2)]
      intro!: alias_any change_loop_endpoint)
  from wlpD [OF this assms(1)] show ?thesis by (simp add: k)
qed

theorem change_endpoint_witness:
  "\<exists>h t. graph_change env1 cfg0 (Some graph0) metadata0 (Some 0) world0 = Some ((0, Some h), t) \<and> one_endpoint env1 0 graph0 h"
proof -
  obtain h t where t: "graph_change env1 cfg0 (Some graph0) metadata0 (Some 0) world0 = Some ((0, Some h), t)"
    by (simp add: env1_def graph0_def cfg0_def agm_eval upt_rec cong: bind_eval_cong)
  show ?thesis
    using change_endpoint [OF t env_ok0(2)] t by (simp add: env1_def env0_def)
qed

section \<open>Compressed formats\<close>

text \<open>An error of the write that carries the media format on the data path is translated
  twice: whatever GSL reported, the caller sees \<open>-EADV\<close>.\<close>

theorem datapath_error_masked:
  assumes "env_ok E" "\<forall>h. ext_ret E h CALLOC = 0" "\<forall>h p t b. ext_ret E h (GSL_WRITE p t b) = err" "err \<noteq> 0"
    "is_media_config_needed_on_datapath (mc_format (out_media_config cfg))"
    "sc_sess_mode (stream_config cfg) \<noteq> AGM_SESSION_NON_TUNNEL"
  shows "\<exists>t. configure_compress_shared_mem_ep_datapath E cfg mi g s = Some (- EADV, t)"
proof -
  have f: "\<not> is_format_bypassed (mc_format (out_media_config cfg))"
      "fst (get_media_fmt_id E (mc_format (out_media_config cfg))) = 0"
      "fst (set_compressed_media_format E (mc_format (out_media_config cfg)) cfg) = 0"
    using assms(5) by (auto simp: is_media_config_needed_on_datapath_def is_format_bypassed_def get_media_fmt_id_def
        is_format_pcm_def set_compressed_media_format_def Let_def)
  have "err = ext_ret E [] (GSL_WRITE 0 0 undefined)" using assms(3) by simp
  then have "0 < to_u32 err" using assms(1,4) to_u32_eq_0_iff [of err] by (simp add: env_ok_def)
  then have "lnx E (lnx E err) = - EADV" "lnx E err \<noteq> 0"
    using assms(1) lnx_twice [of E "to_u32 err"] lnx_negative [of E "to_u32 err"] by (auto simp: env_ok_def)
  then show ?thesis
    using f assms(2,3,4,6)
    by (simp add: configure_compress_shared_mem_ep_datapath_def graph_write_def calloc_def ecall_def case_prod_beta Let_def)
qed

theorem datapath_error_masked_witness:
  "\<exists>t. configure_compress_shared_mem_ep_datapath (env0\<lparr>ext_ret := (\<lambda>h c. case c of GSL_WRITE _ _ _ \<Rightarrow> 18 | _ \<Rightarrow> 0)\<rparr>)
     (cfg0\<lparr>out_media_config := media0\<lparr>mc_format := AGM_FORMAT_MP3\<rparr>\<rparr>) (new_module MODULE_WR_SHARED_MEM 0 None) graph0 world0
     = Some (- EADV, t)"
  by (rule datapath_error_masked)
     (auto simp: env_ok_def osal_codes_ok_def env0_def cfg0_def session_config0_def is_media_config_needed_on_datapath_def
        split: ext_call.splits)

text \<open>Formats that have a format id but no format block (the speech codecs) are refused with
  \<open>-EINVAL\<close> when the shared memory endpoint is configured, although the code announces
  that they are left to the client.\<close>

theorem speech_formats_refused:
  assumes "mc_format (out_media_config cfg) \<in> {AGM_FORMAT_AMR_NB, AGM_FORMAT_AMR_WB, AGM_FORMAT_AMR_WB_PLUS,
      AGM_FORMAT_EVRC, AGM_FORMAT_G711, AGM_FORMAT_QCELP}"
    "sc_sess_mode (stream_config cfg) \<noteq> AGM_SESSION_NON_TUNNEL" "ext_ret E (hist s) CALLOC = 0"
  shows "configure_wr_shared_mem_ep E cfg mi g s = Some (- EINVAL, s\<lparr>hist := hist s @ [CALLOC]\<rparr>)"
  using assms
  by (auto simp: configure_wr_shared_mem_ep_def configure_compress_shared_mem_ep_def
      configure_compress_shared_mem_ep_datapath_def is_format_pcm_def is_format_bypassed_def get_media_fmt_id_def
      set_compressed_media_format_def calloc_def ecall_def)

theorem speech_formats_refused_witness:
  "configure_wr_shared_mem_ep env0 (cfg0\<lparr>out_media_config := media0\<lparr>mc_format := AGM_FORMAT_AMR_NB\<rparr>\<rparr>)
     (new_module MODULE_WR_SHARED_MEM 0 None) graph0 world0 = Some (- EINVAL, world0\<lparr>hist := [CALLOC]\<rparr>)"
  using speech_formats_refused [of "cfg0\<lparr>out_media_config := media0\<lparr>mc_format := AGM_FORMAT_AMR_NB\<rparr>\<rparr>" env0 world0]
  by (simp add: cfg0_def session_config0_def env0_def world0_def)

end
