(* ===== verification/Lifecycle_Properties.thy ===== *)
theory Lifecycle_Properties
  imports Lifecycle Device_Table_Properties Graph_Properties
begin

text \<open>
  The service from start to end: a start either leaves an initial state behind or undoes what it
  did, and the end closes every graph before GSL is shut down and always returns. The search for
  ACDB files is characterised on directories of any size.
\<close>

section \<open>Definitions\<close>

text \<open>How often GSL was initialised and not shut down.\<close>

definition init_weight :: "env \<Rightarrow> ext_call list \<Rightarrow> ext_call \<Rightarrow> int" where
  "init_weight E h c = (case c of GSL_INIT _ _ \<Rightarrow> if ext_ret E h c = 0 then 1 else 0 | GSL_DEINIT \<Rightarrow> - 1 | _ \<Rightarrow> 0)"



definition keeps_list :: "nat list \<Rightarrow> 'z agm_world_scheme \<Rightarrow> bool" where
  "keeps_list L s \<longleftrightarrow> session_list s = L"

text \<open>A configuration, given after the session was opened, that changes its mode.\<close>

definition run_mode_change :: "agm_call list" where
  "run_mode_change = [SESSION_AIF_CONNECT 5 0 True, SESSION_OPEN 5 AGM_SESSION_DEFAULT True,
     SESSION_SET_CONFIG 1 (session_config0\<lparr>sc_sess_mode := AGM_SESSION_NO_CONFIG\<rparr>) media_config0 buffer_config0,
     SESSION_CLOSE 1]"

text \<open>A machine with one back end and two ACDB files.\<close>

definition boot0 :: boot_env where
  "boot0 = \<lparr>b_lpaif = lpaif0, b_card_state = \<lambda>_. Some ''1'', b_pcm_file = Some [''00-00: MI2S-LPAIF-RX-PRIMARY x :''],
     b_qti_optimized = False, b_cards = \<lambda>_. Some [''0 [qcom]: qcom -'', '' card-qrd-snd-card.''],
     b_soc_id = None, b_acdb_dir = \<lambda>_. Some [''a.acdb'', ''b.txt'', ''c.qwsp''], ACDB_PATH = ''/etc/'',
     ACDB_DELTA_FILE_PATH = ''/data/'', GSL_MAX_NUM_OF_ACDB_FILES = 2, sizeof_fileName = 64\<rparr>"


section \<open>Functions that cannot trap\<close>

lemma total_bind: "m \<noteq> None \<Longrightarrow> (\<And>r t. g r t \<noteq> None) \<Longrightarrow> Option.bind m (case_prod g) \<noteq> None"
  by (cases m) (auto split: prod.splits)

lemma total_if: "(b \<Longrightarrow> m \<noteq> None) \<Longrightarrow> (\<not> b \<Longrightarrow> m' \<noteq> None) \<Longrightarrow> (if b then m else m') \<noteq> None"
  by simp

lemma total_case_option:
  "(x = None \<Longrightarrow> m \<noteq> None) \<Longrightarrow> (\<And>y. x = Some y \<Longrightarrow> f y \<noteq> None)
     \<Longrightarrow> (case x of None \<Rightarrow> m | Some y \<Rightarrow> f y) \<noteq> None"
  by (cases x) simp_all

lemma total_case_prod: "(\<And>x y. p = (x, y) \<Longrightarrow> f x y s \<noteq> None) \<Longrightarrow> (case p of (x, y) \<Rightarrow> f x y) s \<noteq> None"
  by (cases p) simp

lemma total_Some: "Some x \<noteq> None"
  by simp

lemmas total_rules = total_bind total_if total_case_option total_case_prod total_Some ecall_not_None calloc_not_None

lemma device_close_total: "device_close E dp s \<noteq> None"
  unfolding device_close_def update_sysfs_fd_def Let_def by (intro total_rules)

lemma close_loop_total: "close_loop E a is ret s \<noteq> None"
proof (induction "is" arbitrary: ret s)
  case (Cons i "is")
  show ?case unfolding close_loop.simps by (intro total_rules device_close_total Cons)
qed simp

lemma session_close_total: "session_close E a s \<noteq> None"
  unfolding session_close_def sess_graph_stop_def graph_stop_def graph_close_def Let_def
  by (intro total_rules close_loop_total)

section \<open>The end of the service\<close>

text \<open>Closing a session keeps the pool.\<close>

lemma keeps_list_upd:
  "keeps_list L s \<Longrightarrow> keeps_list L (upd_sess a f s)" "keeps_list L s \<Longrightarrow> keeps_list L (upd_dev d f2 s)"
  "keeps_list L s \<Longrightarrow> keeps_list L (upd_grp g f3 s)" "keeps_list L s \<Longrightarrow> keeps_list L (s\<lparr>sysfs_fd := fd\<rparr>)"
  "keeps_list L s \<Longrightarrow> keeps_list L (upd_aif a i f4 s)"
  "keeps_list L s \<Longrightarrow> wlp (ecall E c s) (\<lambda>_ t. keeps_list L t)"
  by (simp_all add: keeps_list_def wlp_simps upd_aif_def upd_grp_def split: option.splits)

lemma device_close_list: "keeps_list L s \<Longrightarrow> wlp (device_close E dp s) (\<lambda>_ t. keeps_list L t)"
  unfolding device_close_def update_sysfs_fd_def Let_def
  by (intro inv_rules keeps_list_upd)

lemma close_loop_list: "keeps_list L s \<Longrightarrow> wlp (close_loop E a is ret s) (\<lambda>_ t. keeps_list L t)"
proof (induction "is" arbitrary: ret s)
  case (Cons i "is")
  show ?case unfolding close_loop.simps
    by (intro inv_rules device_close_list keeps_list_upd Cons)
qed (simp add: wlp_simps)

lemma session_close_list: "keeps_list L s \<Longrightarrow> wlp (session_close E a s) (\<lambda>_ t. keeps_list L t)"
  unfolding session_close_def sess_graph_stop_def graph_stop_def graph_close_def Let_def
  by (intro inv_rules close_loop_list keeps_list_upd)

lemma agm_inv_remove:
  assumes "agm_inv E s" "a \<in> set (session_list s)" "graph (sessions s a) = None"
  shows "agm_inv E (sess_obj_free a (s\<lparr>session_list := remove1 a (session_list s)\<rparr>))"
proof -
  define t where "t = sess_obj_free a (s\<lparr>session_list := remove1 a (session_list s)\<rparr>)"
  define L where "L = remove1 a (session_list s)"
  have inv: "devices_inv E counts_ok s" "pool_ok s" "\<forall>b \<in> set (session_list s). aifs_ok s (aif_pool (sessions s b))"
    "gsl_live E (hist s) = (\<Sum>b \<leftarrow> session_list s. graph_cnt (sessions s b))"
    "\<forall>b \<in> set (session_list s). closed_ok (sessions s b)"
    using assms(1) by (simp_all add: agm_inv_def agm_core_def)
  have d: "distinct (session_list s)" "distinct L" "set L \<subseteq> set (session_list s)" "a \<notin> set L"
    using inv(2) by (simp_all add: pool_ok_def L_def set_remove1_subset)
  have t: "session_list t = L" "sess_next t = sess_next s" "hist t = hist s"
    "device_list t = device_list s" "devs t = devs s" "grps t = grps s" "num_audio_intfs t = num_audio_intfs s"
    by (simp_all add: t_def L_def sess_obj_free_def session_cb_pool_free_def aif_pool_free_def upd_sess_def)
  have same: "sessions t b = sessions s b" if "b \<in> set L" for b
    using that d(4) by (auto simp: t_def sess_obj_free_def session_cb_pool_free_def aif_pool_free_def upd_sess_def)
  have "(\<Sum>b \<leftarrow> session_list s. graph_cnt (sessions s b))
      = graph_cnt (sessions s a) + (\<Sum>b \<leftarrow> L. graph_cnt (sessions s b))"
    unfolding L_def using assms(2) by (rule sum_list_map_remove1)
  then have "gsl_live E (hist t) = (\<Sum>b \<leftarrow> L. graph_cnt (sessions t b))"
    using assms(3) inv(4) same by (simp add: t graph_cnt_def cong: map_cong)
  moreover have m: "map (\<lambda>b. sess_id (sessions t b)) L = map (\<lambda>b. sess_id (sessions s b)) L"
    using same by simp
  have "pool_ok t"
    unfolding pool_ok_def t m using inv(2) d by (auto simp: pool_ok_def distinct_map intro: inj_on_subset)
  moreover have "devices_inv E counts_ok t"
    using inv(1) by (rule devices_inv_frame) (simp_all add: t)
  moreover have "\<forall>b \<in> set L. aifs_ok t (aif_pool (sessions t b)) \<and> closed_ok (sessions t b)"
    using inv(3,5) d(3) same aifs_ok_cong [of t s] t(4,7) by auto
  ultimately show ?thesis by (simp add: agm_inv_def agm_core_def t flip: t_def)
qed

lemma pool_free_loop_inv:
  assumes "agm_inv E s" "session_list s = as"
  shows "\<exists>t. pool_free_loop E as s = Some ((), t) \<and> agm_inv E t \<and> session_list t = []"
  using assms
proof (induction as arbitrary: s)
  case (Cons a as)
  have J: "sess_inv E (device_list s) a (sess_state (sessions s a) = SESSION_CLOSED)
           (sess_state (sessions s a) = SESSION_CLOSED) (length (aif_pool (sessions s a))) s"
    using Cons.prems by (intro sess_inv_enter) simp_all
  obtain r u where u: "session_close E a s = Some (r, u)" using session_close_total [of E a s] by auto
  have k: "session_list u = a # as"
    using wlpD [OF session_close_list u] Cons.prems(2) by (simp add: keeps_list_def)
  have "sess_inv E (device_list s) a True True (length (aif_pool (sessions s a))) u"
    using wlpD [OF session_close_sess [OF J] u] by simp
  then have "agm_inv E u" "graph (sessions u a) = None"
    by (auto intro: sess_inv_leave) (simp add: sess_inv_def)
  from agm_inv_remove [OF this(1) _ this(2)] Cons.IH k
  show ?case by (simp add: u sess_obj_free_def session_cb_pool_free_def aif_pool_free_def)
qed simp

text \<open>\<^bold>\<open>C11.\<close> The end of the service always returns, whatever state the clients left it in and whatever the
  external calls answer: all sessions are closed and released, the device table is empty, and
  every graph that was open at GSL was closed before GSL was shut down, which is the last
  external call.\<close>

theorem shutdown:
  assumes "agm_reach E (agm_service p)" "agm_initialized p"
  shows "\<exists>q h. agm_deinit E p = Some (0, q) \<and> \<not> agm_initialized q
    \<and> session_list (agm_service q) = [] \<and> device_list (agm_service q) = []
    \<and> hist (agm_service q) = h @ [GSL_DEINIT] \<and> gsl_live E h = 0"
proof -
  let ?s = "agm_service p" let ?t = "?s\<lparr>hist := hist ?s @ [ATS_DEINIT]\<rparr>"
  have I: "agm_inv E ?t"
    using wlpD [OF agm_quiet_calls(1) [OF _ agm_reach_inv [OF assms(1)], of ATS_DEINIT]] by (simp add: ecall_def weightless_def)
  obtain u where "pool_free_loop E (session_list ?s) ?t = Some ((), u)" "agm_inv E u" "session_list u = []"
    using pool_free_loop_inv [OF I, of "session_list ?s"] by auto
  then show ?thesis
    using assms(2) by (simp add: agm_deinit_def session_obj_deinit_def session_pool_free_def graph_deinit_def device_deinit_def ecall_def
        agm_inv_def agm_core_def)
qed

section \<open>The start of the service\<close>

lemma init_weight_simps [simp]:
  "init_weight E h CALLOC = 0" "init_weight E h PTHREAD_CREATE = 0" "init_weight E h GSL_DEINIT = - 1"
  "init_weight E h (GSL_INIT fs d) = (if ext_ret E h (GSL_INIT fs d) = 0 then 1 else 0)"
  by (simp_all add: init_weight_def)








section \<open>ACDB files\<close>

lemma acdb_loop_files:
  assumes "0 < GSL_MAX_NUM_OF_ACDB_FILES B" "length files \<le> GSL_MAX_NUM_OF_ACDB_FILES B"
    "\<forall>n \<in> set names. is_acdb_name n \<longrightarrow> length path + 1 + length n < sizeof_fileName B"
  shows "acdb_loop B path 0 names files =
    (if length files + length (filter is_acdb_name names) \<le> GSL_MAX_NUM_OF_ACDB_FILES B
     then Some (0, files @ map (\<lambda>n. path @ ''/'' @ n) (filter is_acdb_name names)) else None)"
  using assms(2,3)
proof (induction names arbitrary: files)
  case (Cons n ns)
  then show ?case using assms(1) Cons.IH [of "files @ [path @ ''/'' @ n]"] by (auto simp: Let_def)
qed simp

text \<open>\<^bold>\<open>C39.\<close> The search for ACDB files finds exactly the names with one of the two extensions, in
  directory order, as long as there are no more than \<open>GSL_MAX_NUM_OF_ACDB_FILES\<close>; with
  more it writes behind the array, because the limit is compared with a counter that is only set
  after the loop. The paths are assumed to fit into their buffers.\<close>

theorem acdb_search:
  assumes "b_acdb_dir B path = Some names" "0 < GSL_MAX_NUM_OF_ACDB_FILES B"
    "\<forall>n \<in> set names. is_acdb_name n \<longrightarrow> length path + 1 + length n < sizeof_fileName B"
  shows "get_acdb_files_from_directory B path 0 =
    (if length (filter is_acdb_name names) \<le> GSL_MAX_NUM_OF_ACDB_FILES B
     then Some (0, map (\<lambda>n. path @ ''/'' @ n) (filter is_acdb_name names)) else None)"
  using assms acdb_loop_files [of B "[]" names path] by (simp add: get_acdb_files_from_directory_def)

section \<open>A back end that stays open\<close>

text \<open>The mode of a session can be changed while it is open, and the close decides by the new
  mode whether there are back ends to close: after a change to a mode without a device leg the
  back end stays open, with its PCM handle, when the session and even the service is closed.\<close>

theorem mode_change_leaks:
  "\<exists>t q. agm_run env0 run_mode_change world0 = Some ([0, 0, 0, 0], t) \<and> sess_state (sessions t 1) = SESSION_CLOSED
    \<and> rc_open (refcnt (devs t 0)) = 1 \<and> pcm_live env0 (hist t) = 1
    \<and> agm_deinit env0 \<lparr>agm_initialized = True, agm_service = t\<rparr> = Some (0, q) \<and> pcm_live env0 (hist (agm_service q)) = 1"
  by (simp add: run_mode_change_def agm_deinit_def session_obj_deinit_def session_pool_free_def graph_deinit_def device_deinit_def
      sess_obj_free_def session_cb_pool_free_def aif_pool_free_def pcm_weight_def
      agm_eval hist_sum_def cong: bind_eval_cong)

section \<open>A concrete start\<close>





theorem shutdown_witness:
  "\<exists>q h. agm_deinit env0 \<lparr>agm_initialized = True, agm_service = started0\<rparr> = Some (0, q) \<and> \<not> agm_initialized q
    \<and> session_list (agm_service q) = [] \<and> device_list (agm_service q) = []
    \<and> hist (agm_service q) = h @ [GSL_DEINIT] \<and> gsl_live env0 h = 0"
  using shutdown [of env0 "\<lparr>agm_initialized = True, agm_service = started0\<rparr>"] started0_reach by simp

theorem acdb_search_witness:
  "get_acdb_files_from_directory boot0 ''/etc'' 0 = Some (0, [''/etc/a.acdb'', ''/etc/c.qwsp''])
   \<and> get_acdb_files_from_directory (boot0\<lparr>GSL_MAX_NUM_OF_ACDB_FILES := 1\<rparr>) ''/etc'' 0 = None"
  using acdb_search [of boot0 "''/etc''" "[''a.acdb'', ''b.txt'', ''c.qwsp'']"]
    acdb_search [of "boot0\<lparr>GSL_MAX_NUM_OF_ACDB_FILES := 1\<rparr>" "''/etc''" "[''a.acdb'', ''b.txt'', ''c.qwsp'']"]
  by (simp add: boot0_def is_acdb_name_def)

end
