(* ===== verification/Metadata_Properties.thy ===== *)
theory Metadata_Properties
  imports Scenario
begin

text \<open>
  The properties of \<open>service/src/metadata.c\<close>: what merging, duplicate removal, decoding
  of client payloads and calibration updates compute, and when they refuse.
\<close>

section \<open>Merging\<close>

text \<open>\<^bold>\<open>C8.\<close> Merging key vectors (the path of every graph open and connect): when the sizes fit and
  memory is there, the result has each key once, a key has the value of the first input that
  defines it, and the property values are the union of the inputs'.\<close>

theorem merge_first_wins:
  assumes "\<forall>m \<in> set ins. meta_ok m" "(\<Sum>m \<leftarrow> ins. num_values (sg_props m)) < 2 ^ 32"
    "merge_fits E ins" "allocs_ok E 4 (hist s)"
  shows "\<exists>r. metadata_merge E (map Some ins) s = Some (Some r, s\<lparr>hist := hist s @ replicate 4 CALLOC\<rparr>)
    \<and> distinct (map fst (gkvs r)) \<and> map_of (gkvs r) = map_of (concat (map gkvs ins))
    \<and> distinct (map fst (ckvs r)) \<and> map_of (ckvs r) = map_of (concat (map ckvs ins))
    \<and> distinct (props r) \<and> set (props r) = (\<Union>m \<in> set ins. set (props m)) \<and> meta_ok r"
proof -
  have filter: "List.map_filter id (map Some ins) = ins"
    by (simp add: List.map_filter_def)
  have ok: "meta_ok (concat_meta ins)" by (rule concat_meta_ok [OF assms(1,2)])
  note dup = metadata_remove_dup_spec [OF ok, unfolded concat_meta_live [OF assms(1)]]
  have "metadata_merge E (map Some ins) s = Some (Some (metadata_remove_dup (concat_meta ins)),
      s\<lparr>hist := hist s @ replicate 4 CALLOC\<rparr>)"
    using metadata_merge_success [of "map Some ins" E s] assms unfolding filter by simp
  moreover have "set (keep_first id (concat (map props ins))) = (\<Union>m \<in> set ins. set (props m))"
    using keys_keep_first [of id "concat (map props ins)"] by simp
  ultimately show ?thesis
    using dup distinct_keep_first [of fst "concat (map gkvs ins)"] distinct_keep_first [of fst "concat (map ckvs ins)"]
      distinct_keep_first [of id "concat (map props ins)"]
    by (simp add: map_of_keep_first)
qed

definition meta_a :: agm_meta_data_gsl where
  "meta_a = \<lparr>gkv = \<lparr>num_kvs = 2, kv = Some [(1, 10), (2, 20)]\<rparr>, ckv = \<lparr>num_kvs = 0, kv = None\<rparr>,
             sg_props = \<lparr>prop_id = 5, num_values = 1, prop_values = Some [8]\<rparr>\<rparr>"

definition meta_b :: agm_meta_data_gsl where
  "meta_b = \<lparr>gkv = \<lparr>num_kvs = 2, kv = Some [(2, 99), (3, 30)]\<rparr>, ckv = \<lparr>num_kvs = 1, kv = Some [(7, 70)]\<rparr>,
             sg_props = \<lparr>prop_id = 6, num_values = 2, prop_values = Some [8, 9]\<rparr>\<rparr>"

lemmas meta_eval = meta_a_def meta_b_def live_def meta_ok_def arr_ok_def merge_fits_def MAX_KVPAIR_def

theorem merge_first_wins_witness:
  "\<exists>r t. metadata_merge env0 [Some meta_a, Some meta_b] world0 = Some (Some r, t)
     \<and> map_of (gkvs r) 2 = Some 20 \<and> map_of (gkvs r) 3 = Some 30 \<and> set (props r) = {8, 9}"
proof -
  have "allocs_ok env0 4 (hist world0)"
    by (simp add: allocs_ok_4 allocs_ok_3 env0_def)
  then show ?thesis
    using merge_first_wins [of "[meta_a, meta_b]" env0 world0] by (auto simp: meta_eval env0_def)
qed

text \<open>A merge whose graph keys or calibration keys exceed the limit gives no metadata, and
  touches nothing but the history of allocations.\<close>

theorem merge_too_large:
  assumes "(\<Sum>m \<leftarrow> ins. num_kvs (gkv m)) > MAX_KVPAIR E \<or> (\<Sum>m \<leftarrow> ins. num_kvs (ckv m)) > MAX_KVPAIR E"
  shows "\<exists>h. metadata_merge E (map Some ins) s = Some (None, s\<lparr>hist := hist s @ h\<rparr>)"
  using metadata_merge_None [of E "map Some ins" s] assms by (auto simp: merge_fits_def List.map_filter_def)

theorem merge_too_large_witness:
  "\<exists>h. metadata_merge env0 (map Some (replicate 25 meta_a)) world0 = Some (None, world0\<lparr>hist := hist world0 @ h\<rparr>)"
  using merge_too_large [of env0 "replicate 25 meta_a" world0]
  by (simp add: meta_eval env0_def sum_list_replicate)

section \<open>Removing duplicates\<close>



section \<open>Client payloads\<close>

text \<open>\<^bold>\<open>C10.\<close> A metadata payload in the documented layout is decoded to exactly the keys, values and
  properties that were encoded, whatever follows it in memory.\<close>

theorem payload_roundtrip:
  assumes "length gs \<le> MAX_KVPAIR E" "length cs \<le> MAX_KVPAIR E" "length ps < 2 ^ 32"
    and "allocs_ok E 3 (hist s)"
  shows "metadata_copy E dest n (Some (encode_metadata gs cs pid ps @ trailing)) s =
     Some ((0, \<lparr>gkv = \<lparr>num_kvs = length gs, kv = Some gs\<rparr>,
                ckv = \<lparr>num_kvs = length cs, kv = Some cs\<rparr>,
                sg_props = \<lparr>prop_id = pid, num_values = length ps, prop_values = Some ps\<rparr>\<rparr>),
           s\<lparr>hist := hist s @ replicate 3 CALLOC\<rparr>)"
  using assms by (rule metadata_copy_roundtrip)

theorem payload_roundtrip_witness:
  "\<exists>t. metadata_copy env0 metadata0 0 (Some (encode_metadata [(1, 10)] [] 5 [8, 9])) world0 =
     Some ((0, \<lparr>gkv = \<lparr>num_kvs = 1, kv = Some [(1, 10)]\<rparr>, ckv = \<lparr>num_kvs = 0, kv = Some []\<rparr>,
                sg_props = \<lparr>prop_id = 5, num_values = 2, prop_values = Some [8, 9]\<rparr>\<rparr>), t)"
proof -
  have "allocs_ok env0 3 (hist world0)" by (simp add: allocs_ok_3 env0_def)
  then show ?thesis
    using payload_roundtrip [of "[(1, 10)]" env0 "[]" "[8, 9]" world0 metadata0 0 5 "[]"]
    by (simp add: MAX_KVPAIR_def env0_def)
qed

text \<open>A payload that announces more graph or calibration keys than the limit is rejected
  with \<open>-EINVAL\<close> before anything is allocated or copied; but the rejection itself reads
  the second count behind the announced keys, so a payload that ends before it is read outside
  its bounds.\<close>

theorem payload_too_large:
  assumes "rd32 bs 0 = Some w"
  shows "(\<forall>v. rd32 bs (4 + unat w * 8) = Some v \<and> (unat w > MAX_KVPAIR E \<or> unat v > MAX_KVPAIR E) \<longrightarrow>
           metadata_copy E dest n (Some bs) s = Some ((- EINVAL, dest), s))
    \<and> (rd32 bs (4 + unat w * 8) = None \<longrightarrow> metadata_copy E dest n (Some bs) s = None)"
  using assms by (auto simp: metadata_copy_def)

theorem payload_too_large_witness:
  "metadata_copy env0 metadata0 4 (Some (49 # replicate 399 0)) world0 = Some ((- EINVAL, metadata0), world0)
   \<and> metadata_copy env0 metadata0 4 (Some [49, 0, 0, 0]) world0 = None"
proof -
  have "rd32 (49 # replicate 399 0) 0 = Some 49" "rd32 (49 # replicate 399 0) 396 = Some 0"
    "rd32 [49, 0, 0, 0] 0 = Some 49" "rd32 [49, 0, 0, 0] 396 = None"
    by (simp_all add: rd32_def nth_Cons')
  then show ?thesis
    using payload_too_large [of "49 # replicate 399 0" 49 env0 metadata0 4 world0]
      payload_too_large [of "[49, 0, 0, 0]" 49 env0 metadata0 4 world0]
    by (auto simp: MAX_KVPAIR_def env0_def)
qed

text \<open>A calibration update changes the values of the calibration keys it names (the last
  one given for a key wins) and nothing else: no key is added, removed or reordered.\<close>

theorem update_cal_last_wins:
  assumes "kv c = Some cs" "kv (ckv m) = Some xs"
  shows "ckvs (metadata_update_cal m c) =
      map (\<lambda>(k, v). (k, case map_of (rev (take (num_kvs c) cs)) k of None \<Rightarrow> v | Some w \<Rightarrow> w)) (ckvs m)
    \<and> gkv (metadata_update_cal m c) = gkv m \<and> sg_props (metadata_update_cal m c) = sg_props m
    \<and> num_kvs (ckv (metadata_update_cal m c)) = num_kvs (ckv m)"
  using metadata_update_cal_spec [OF assms(1), of m] assms(2) by simp

theorem update_cal_last_wins_witness:
  "ckvs (metadata_update_cal meta_b \<lparr>num_kvs = 2, kv = Some [(7, 71), (7, 72)]\<rparr>) = [(7, 72)]"
proof -
  have "ckvs meta_b = [(7, 70)]" "kv (ckv meta_b) = Some [(7, 70)]" by (simp_all add: meta_eval)
  then show ?thesis
    using update_cal_last_wins [of "\<lparr>num_kvs = 2, kv = Some [(7, 71), (7, 72)]\<rparr>" _ meta_b "[(7, 70)]", THEN conjunct1] by simp
qed

end
