(* ===== verification/Device_Properties.thy ===== *)
theory Device_Properties
  imports Scenario
begin

text \<open>
  The properties of \<open>service/src/device.c\<close>: the state machine of a back end against
  its reference counts, the open and close contract, lookups and the PCM configuration.
\<close>

section \<open>A concrete table\<close>

definition devs0 :: dev_world where
  "devs0 = dev_world.truncate world0"

lemma devs0_inv: "devices_inv env0 dev_ok devs0"
  by (auto simp: devices_inv_def devs0_def dev_world.defs world0_def topology_ok_def dev_ok_def counts_ok_def
      device0_def refcnt0_def sum_devs_def is_open_cnt_def group_open_cnt_def group0_def)

section \<open>State and counts belong together\<close>

text \<open>The operations of the device table as sessions use them: a device is prepared only
  while it is open.\<close>

inductive dev_reach :: "env \<Rightarrow> dev_world \<Rightarrow> bool" for E where
  dev_init: "devices_inv E dev_ok s \<Longrightarrow> \<forall>d \<in> set (device_list s). dev_state (devs s d) = DEV_CLOSED \<Longrightarrow> dev_reach E s"
| dev_open: "dev_reach E s \<Longrightarrow> d \<in> set (device_list s) \<Longrightarrow> device_open E (Some d) s = Some (r, t) \<Longrightarrow> dev_reach E t"
| dev_prepare: "dev_reach E s \<Longrightarrow> d \<in> set (device_list s) \<Longrightarrow>
    0 < rc_open (refcnt (devs s (device_get_pcm_obj s d))) \<Longrightarrow>
    device_prepare E (Some d) s = Some (r, t) \<Longrightarrow> dev_reach E t"
| dev_start: "dev_reach E s \<Longrightarrow> d \<in> set (device_list s) \<Longrightarrow> device_start E (Some d) s = Some (r, t) \<Longrightarrow> dev_reach E t"
| dev_stop: "dev_reach E s \<Longrightarrow> d \<in> set (device_list s) \<Longrightarrow> device_stop E (Some d) s = Some (r, t) \<Longrightarrow> dev_reach E t"
| dev_close: "dev_reach E s \<Longrightarrow> d \<in> set (device_list s) \<Longrightarrow> device_close E (Some d) s = Some (r, t) \<Longrightarrow> dev_reach E t"

lemma dev_reach_inv: "dev_reach E s \<Longrightarrow> devices_inv E dev_ok s"
proof (induction rule: dev_reach.induct)
  case (dev_open s d r t)
  then show ?case using wlpD [OF disc.device_open_inv] by blast
next
  case (dev_prepare s d r t)
  then have "dev_opened (devs s (device_get_pcm_obj s d))" by (simp add: dev_opened_def)
  with dev_prepare show ?case using wlpD [OF disc.device_prepare_inv] by blast
next
  case (dev_start s d r t)
  then show ?case using wlpD [OF disc.device_start_inv] by blast
next
  case (dev_stop s d r t)
  then show ?case using wlpD [OF disc.device_stop_inv] by blast
next
  case (dev_close s d r t)
  then show ?case using wlpD [OF disc.device_close_inv] by blast
qed

text \<open>\<^bold>\<open>C7.\<close> Whatever sequence of opens, prepares of open devices, starts, stops and closes runs on
  the table, succeed or fail: a device is closed exactly when it has no open reference, past
  the opened state exactly when it has been prepared, and started exactly when it has a start
  reference.\<close>

theorem device_state_machine:
  assumes "dev_reach E s" "d \<in> set (device_list s)"
  shows "(dev_state (devs s d) = DEV_CLOSED \<longleftrightarrow> rc_open (refcnt (devs s d)) = 0)
    \<and> (dev_state (devs s d) \<in> {DEV_CLOSED, DEV_OPENED} \<longleftrightarrow> rc_prepare (refcnt (devs s d)) = 0)
    \<and> (dev_state (devs s d) = DEV_STARTED \<longleftrightarrow> rc_start (refcnt (devs s d)) > 0)"
  using dev_reach_inv [OF assms(1)] assms(2) by (auto simp: devices_inv_def dev_ok_def)

lemma devs0_reach: "dev_reach env0 devs0"
  by (rule dev_init [OF devs0_inv]) (simp add: devs0_def dev_world.defs world0_def device0_def)

lemma open_devs0: "\<exists>t. device_open env0 (Some 0) devs0 = Some (0, t) \<and> device_list t = [0, 1, 2, 3] \<and> dev_state (devs t 0) = DEV_OPENED"
  by (simp add: devs0_def dev_world.defs agm_eval cong: bind_eval_cong)

theorem device_state_machine_witness: "\<exists>t. dev_reach env0 t \<and> rc_open (refcnt (devs t 0)) \<noteq> 0"
proof -
  obtain t where t: "device_open env0 (Some 0) devs0 = Some (0, t)" "device_list t = [0, 1, 2, 3]"
    "dev_state (devs t 0) = DEV_OPENED" using open_devs0 by blast
  have "0 \<in> set (device_list devs0)" by (simp add: devs0_def dev_world.defs world0_def)
  from dev_open [OF devs0_reach this t(1)] have r: "dev_reach env0 t" .
  with device_state_machine [OF r, of 0] t show ?thesis by auto
qed

section \<open>Reference counting\<close>

text \<open>Opening a back end that is open already, or one that shares an open parent, makes no
  driver call: it adds one reference to the back end and to its group and changes nothing
  else.\<close>

theorem open_shared:
  assumes "rc_open (refcnt (devs s (device_get_pcm_obj s d))) \<noteq> 0"
  shows "device_open E (Some d) s = Some (0,
    upd_grp_refcnt (group_data (devs s (device_get_pcm_obj s d))) (add_open 1)
      (upd_refcnt (device_get_pcm_obj s d) (add_open 1) s))"
  using assms by (simp add: device_open_def Let_def)

lemmas devs_eval = devs0_def dev_world.defs agm_eval

theorem open_shared_witness:
  "\<exists>t u. device_open env0 (Some 2) devs0 = Some (0, t) \<and> device_open env0 (Some 2) t = Some (0, u)
     \<and> hist u = hist t \<and> rc_open (grp_refcnt (grps u 0)) = 2"
proof -
  obtain t where t: "device_open env0 (Some 2) devs0 = Some (0, t)" "device_get_pcm_obj t 2 = 2"
    "rc_open (refcnt (devs t 2)) = 1" "group_data (devs t 2) = Some 0" "rc_open (grp_refcnt (grps t 0)) = 1"
    by (simp add: devs_eval cong: bind_eval_cong)
  then show ?thesis using open_shared [of t 2 env0] by (auto simp: grps_upd_grp)
qed

text \<open>An open that fails leaves every reference count and every device state as it was.\<close>

theorem open_failure:
  assumes "device_open E dp s = Some (ret, t)" "ret \<noteq> 0"
  shows "devs t = devs s \<and> grps t = grps s \<and> device_list t = device_list s"
  using assms
  by (auto simp: device_open_def Let_def ecall_def bind_eq_Some_conv split: option.splits if_splits)

theorem open_failure_witness:
  "\<exists>t. device_open (env0\<lparr>ext_ret := (\<lambda>_ _. 0)\<rparr>) (Some 0) devs0 = Some (- EIO, t) \<and> devs t = devs devs0"
proof -
  obtain t where t: "device_open (env0\<lparr>ext_ret := (\<lambda>_ _. 0)\<rparr>) (Some 0) devs0 = Some (- EIO, t)"
    by (simp add: devs_eval cong: bind_eval_cong)
  then show ?thesis using open_failure [OF t] by simp
qed

text \<open>Opening and closing a back end gives back the open counts of the back end and of its
  group, whether or not the close was of the last reference.\<close>

theorem open_close_roundtrip:
  assumes "device_open E (Some d) s = Some (0, t)" "device_close E (Some d) t = Some (ret, u)"
    "0 \<le> rc_open (refcnt (devs s (device_get_pcm_obj s d)))"
  shows "rc_open (refcnt (devs u (device_get_pcm_obj s d))) = rc_open (refcnt (devs s (device_get_pcm_obj s d)))
    \<and> (\<forall>g. rc_open (grp_refcnt (grps u g)) = rc_open (grp_refcnt (grps s g)))
    \<and> (\<forall>e. e \<noteq> device_get_pcm_obj s d \<longrightarrow> devs u e = devs s e)"
proof -
  let ?o = "device_get_pcm_obj s d"
  have t: "parent_dev (devs t d) = parent_dev (devs s d)" "group_data (devs t ?o) = group_data (devs s ?o)"
    "rc_open (refcnt (devs t ?o)) = rc_open (refcnt (devs s ?o)) + 1"
    "\<And>e. e \<noteq> ?o \<Longrightarrow> devs t e = devs s e"
    "\<And>g. rc_open (grp_refcnt (grps t g)) = rc_open (grp_refcnt (grps s g)) + (if group_data (devs s ?o) = Some g then 1 else 0)"
    using assms(1)
    by (auto simp: device_open_def Let_def ecall_def bind_eq_Some_conv update_sysfs_fd_def grps_upd_grp split: if_splits)
  have "device_get_pcm_obj t d = ?o" using t(1) by (simp add: device_get_pcm_obj_def)
  with assms(2,3) t show ?thesis
    by (auto simp: device_close_def Let_def ecall_def bind_eq_Some_conv update_sysfs_fd_def grps_upd_grp split: if_splits)
qed

theorem open_close_roundtrip_witness:
  "\<exists>t u. device_open env0 (Some 2) devs0 = Some (0, t) \<and> device_close env0 (Some 2) t = Some (0, u)
     \<and> rc_open (grp_refcnt (grps u 0)) = 0"
proof -
  obtain t u where t: "device_open env0 (Some 2) devs0 = Some (0, t)" "device_close env0 (Some 2) t = Some (0, u)"
    by (simp add: devs_eval cong: bind_eval_cong)
  have "0 \<le> rc_open (refcnt (devs devs0 (device_get_pcm_obj devs0 2)))" "rc_open (grp_refcnt (grps devs0 0)) = 0"
    by (simp_all add: devs_eval)
  with open_close_roundtrip [OF t] t show ?thesis by auto
qed

text \<open>When the last reference to a back end is closed while another member keeps its group
  open, the back end's start count is reset and the group's is not: the group still counts as
  started.\<close>

theorem close_leaves_group_started:
  assumes "device_close E (Some d) s = Some (ret, t)" "device_get_pcm_obj s d = d" "group_data (devs s d) = Some g"
    "rc_open (refcnt (devs s d)) = 1" "rc_open (grp_refcnt (grps s g)) > 1"
  shows "rc_start (refcnt (devs t d)) = 0 \<and> rc_start (grp_refcnt (grps t g)) = rc_start (grp_refcnt (grps s g))
    \<and> device_get_start_refcnt (Some d) t = rc_start (grp_refcnt (grps s g))"
  using assms
  by (auto simp: device_close_def Let_def ecall_def bind_eq_Some_conv update_sysfs_fd_def grps_upd_grp
      device_get_start_refcnt_def split: if_splits)

definition devs1 :: dev_world where
  "devs1 = devs0\<lparr>devs := (devs devs0)(2 := (devs devs0 2)\<lparr>refcnt := \<lparr>rc_open = 1, rc_prepare = 1, rc_start = 1\<rparr>, dev_state := DEV_STARTED\<rparr>,
       3 := (devs devs0 3)\<lparr>refcnt := \<lparr>rc_open = 1, rc_prepare = 0, rc_start = 0\<rparr>, dev_state := DEV_OPENED\<rparr>),
     grps := (\<lambda>_. group0\<lparr>grp_refcnt := \<lparr>rc_open = 2, rc_prepare = 1, rc_start = 1\<rparr>\<rparr>)\<rparr>"

theorem close_leaves_group_started_witness:
  "\<exists>t. device_close env0 (Some 2) devs1 = Some (0, t) \<and> rc_start (refcnt (devs t 2)) = 0
     \<and> device_get_start_refcnt (Some 2) t = 1"
proof -
  obtain t where t: "device_close env0 (Some 2) devs1 = Some (0, t)"
    by (simp add: devs1_def devs_eval cong: bind_eval_cong)
  then show ?thesis
    using close_leaves_group_started [OF t, of 0] by (simp add: devs1_def devs_eval)
qed

section \<open>Lookup\<close>

text \<open>A lookup by AIF id returns the back end at that position of the device table, and
  \<open>-EINVAL\<close> for every id outside it, also for the id just behind the end that the range
  check lets through.\<close>

theorem get_obj_nth:
  assumes "num_audio_intfs s = length (device_list s)"
  shows "device_get_obj k s = (if unat k < length (device_list s) then (0, Some (device_list s ! unat k)) else (- EINVAL, None))"
proof (cases "nth_node 0 (unat k) (device_list s)")
  case None
  then have "\<not> unat k < length (device_list s)" using nth_node_Some [of 0 "unat k" "device_list s"] by auto
  with None show ?thesis by (simp add: device_get_obj_def)
next
  case (Some d)
  then have "unat k < length (device_list s)" "device_list s ! unat k = d"
    using nth_node_Some [of 0 "unat k" "device_list s" d] by auto
  with Some assms show ?thesis by (simp add: device_get_obj_def)
qed

theorem get_obj_nth_witness:
  "device_get_obj 3 devs0 = (0, Some 3) \<and> device_get_obj 4 devs0 = (- EINVAL, None)"
  using get_obj_nth [of devs0 3] get_obj_nth [of devs0 4] by (simp add: devs0_def dev_world.defs world0_def)

lemma copy_names_prefix:
  assumes "copied < requested"
  shows "copy_names item copied requested xs = map item (take (requested - copied) xs)"
  using assms
proof (induction xs arbitrary: copied)
  case (Cons x xs)
  show ?case
  proof (cases "copied + 1 = requested")
    case False
    with Cons have "copy_names item (copied + 1) requested xs = map item (take (requested - (copied + 1)) xs)" by simp
    moreover have "requested - copied = Suc (requested - (copied + 1))" using Cons.prems by simp
    ultimately show ?thesis using False by simp
  qed auto
qed simp

text \<open>A query for the names of \<open>n\<close> audio interfaces writes at most \<open>n\<close>
  entries, the first ones of the table in order; a query with 0 only reports how many there
  are.\<close>

theorem aif_list_prefix:
  assumes "0 < n" "n < 2 ^ 32"
  shows "device_get_aif_info_list n s = (min n (length (device_list s)),
      map (\<lambda>d. (take 31 (dev_name (devs s d)), dir (hw_ep (devs s d)))) (take n (device_list s)))
    \<and> device_get_aif_info_list 0 s = (num_audio_intfs s, [])"
  using assms by (simp add: device_get_aif_info_list_def Let_def copy_names_prefix)

theorem aif_list_prefix_witness:
  "device_get_aif_info_list 2 devs0 = (2, [(''BE'', AUDIO_OUTPUT), (''BE'', AUDIO_OUTPUT)])"
  using aif_list_prefix [of 2 devs0] by (simp add: devs0_def dev_world.defs world0_def device0_def)

section \<open>PCM configuration\<close>

text \<open>A PCM configuration is made exactly when the frame size (channels times bytes per
  sample, as a 32-bit product) is not zero; then one period holds at most 8192 bytes, the
  start threshold lies within a period and the rate is one of the supported ones.\<close>

theorem pcm_config_bounds:
  "(open_pcm_config mc = None \<longleftrightarrow> mc_channels mc * of_int (get_pcm_bits_per_sample (mc_format mc) div 8) = 0)
   \<and> (\<forall>cfg. open_pcm_config mc = Some cfg \<longrightarrow>
        unat (pc_period_size cfg) * unat (mc_channels mc * of_int (get_pcm_bits_per_sample (mc_format mc) div 8)) \<le> 8192
      \<and> pc_start_threshold cfg \<le> pc_period_size cfg \<and> device_pcm_is_rate_supported (pc_rate cfg))"
proof -
  let ?f = "mc_channels mc * of_int (get_pcm_bits_per_sample (mc_format mc) div 8)"
  have "unat (8192 div ?f) * unat ?f \<le> 8192"
    using div_times_less_eq_dividend [of 8192 "unat ?f"] by (simp add: unat_div)
  moreover have "x div 4 \<le> x" for x :: u32
    by (simp add: word_le_nat_alt unat_div)
  ultimately show ?thesis
    by (auto simp: open_pcm_config_def Let_def device_pcm_is_rate_supported_def split: if_splits)
qed

theorem pcm_config_bounds_witness:
  "\<exists>cfg. open_pcm_config media0 = Some cfg \<and> unat (pc_period_size cfg) * 4 \<le> 8192"
  using pcm_config_bounds [of media0] by (auto simp: media0_def get_pcm_bits_per_sample_def)

text \<open>A configuration of 22050 Hz is opened at 48000 Hz: the constant for the rate is
  mistyped, and 2205 Hz is accepted in its place.\<close>

theorem rate_22050_replaced:
  "\<not> device_pcm_is_rate_supported 22050 \<and> device_pcm_is_rate_supported 2205
   \<and> (\<forall>mc cfg. mc_rate mc = 22050 \<and> open_pcm_config mc = Some cfg \<longrightarrow> pc_rate cfg = 48000)"
  by (auto simp: device_pcm_is_rate_supported_def open_pcm_config_def Let_def split: if_splits)

theorem rate_22050_replaced_witness:
  "\<exists>cfg. open_pcm_config (media0\<lparr>mc_rate := 22050\<rparr>) = Some cfg \<and> pc_rate cfg = 48000"
proof -
  have "\<exists>cfg. open_pcm_config (media0\<lparr>mc_rate := 22050\<rparr>) = Some cfg"
    by (simp add: open_pcm_config_def media0_def get_pcm_bits_per_sample_def Let_def)
  then show ?thesis using rate_22050_replaced by (metis agm_media_config.select_convs(1) agm_media_config.update_convs(1) agm_media_config.surjective)
qed

end
