(* ===== verification/Session_Properties.thy ===== *)
theory Session_Properties
  imports Scenario
begin

text \<open>
  The properties of \<open>service/src/session_obj.c\<close> besides the refinement: the state
  gates, events and callbacks, the references that connecting an audio interface holds, and
  error paths that lose their error or trap.
\<close>

section \<open>Gates\<close>

text \<open>\<^bold>\<open>C34.\<close> The state gates of the session interface: on a closed session, data transfer, end of
  stream, timestamps, buffer queries, gapless metadata and event registration return
  \<open>-EINVAL\<close> without touching anything, closing returns \<open>-EALREADY\<close>; stopping
  and pausing need a started session; opening needs a closed one.\<close>

theorem session_gates:
  "(sess_state (sessions s a) = SESSION_CLOSED \<longrightarrow>
      session_obj_read_with_metadata E a buf s = Some ((- EINVAL, None), s)
    \<and> session_obj_write_with_metadata E a buf s = Some ((- EINVAL, None), s)
    \<and> session_obj_read E a p n s = Some ((- EINVAL, None), s)
    \<and> session_obj_write E a p n s = Some ((- EINVAL, None), s)
    \<and> session_obj_eos E a s = Some (- EINVAL, s)
    \<and> session_obj_get_timestamp E a s = Some ((- EINVAL, None), s)
    \<and> session_obj_buffer_timestamp a s = (- EINVAL, None)
    \<and> session_obj_get_sess_buf_info E a bi flag s = Some ((- EINVAL, bi), s)
    \<and> session_obj_set_gapless_metadata E a ty sil s = Some (- EINVAL, s)
    \<and> session_obj_register_for_events E a ep s = Some (- EINVAL, s)
    \<and> session_obj_close E a s = Some (- EALREADY, s))
   \<and> (sess_state (sessions s a) \<noteq> SESSION_STARTED \<longrightarrow>
      session_obj_stop E a s = Some (- EINVAL, s) \<and> session_obj_pause E a s = Some (- EINVAL, s))
   \<and> (session_obj_retrieve_from_pool k s = Some a \<and> sess_state (sessions s a) \<noteq> SESSION_CLOSED \<longrightarrow>
      session_obj_open E k mode s = Some ((- EALREADY, None), s))"
  by (simp add: session_obj_read_with_metadata_def session_obj_write_with_metadata_def session_obj_read_def
      session_obj_write_def session_obj_eos_def session_obj_get_timestamp_def session_obj_buffer_timestamp_def
      session_obj_get_sess_buf_info_def session_obj_set_gapless_metadata_def session_obj_register_for_events_def
      session_obj_close_def session_close_def session_obj_stop_def session_stop_def session_obj_pause_def
      session_obj_open_def session_obj_get_def session_obj_get_from_pool_def session_obj_retrieve_from_pool_def)

theorem session_gates_witness:
  "session_obj_open env0 5 AGM_SESSION_DEFAULT started0 = Some ((- EALREADY, None), started0)"
proof -
  have "session_obj_retrieve_from_pool 5 started0 = Some 1"
    by (simp add: started0_def run0_def agm_eval cong: bind_eval_cong)
  then show ?thesis using session_gates [of started0 1] started0_eval by simp
qed

section \<open>Events\<close>



text \<open>Unregistering a callback that was just registered gives back the callback pool, provided
  no callback with the same type and client data was there before; a callback is registered at
  the end of the pool.\<close>

theorem cb_roundtrip:
  assumes "cb \<noteq> 0" "ext_ret E (hist s) CALLOC = 0"
    "\<forall>c \<in> set (cb_pool (sessions s a)). \<not> (cb_evt_type c = ty \<and> cb_client_data c = data)"
  shows "\<exists>t u. session_obj_register_cb E a cb ty data s = Some (0, t)
    \<and> cb_pool (sessions t a) = cb_pool (sessions s a) @ [\<lparr>cb_fn = cb, cb_evt_type = ty, cb_client_data = data\<rparr>]
    \<and> session_obj_register_cb E a 0 ty data t = Some (0, u) \<and> sessions u = sessions s"
proof -
  have "filter (\<lambda>c. cb_evt_type c = ty \<longrightarrow> cb_client_data c \<noteq> data) (cb_pool (sessions s a)) = cb_pool (sessions s a)"
    using assms(3) by (simp add: filter_id_conv)
  then show ?thesis using assms(1,2)
    by (auto simp: session_obj_register_cb_def calloc_def ecall_def)
qed

theorem cb_roundtrip_witness:
  "\<exists>t u. session_obj_register_cb env0 1 9 AGM_EVENT_MODULE 4 started0 = Some (0, t)
     \<and> session_obj_register_cb env0 1 0 AGM_EVENT_MODULE 4 t = Some (0, u) \<and> sessions u = sessions started0"
proof -
  have "cb_pool (sessions started0 1) = []" by (simp add: started0_def run0_def agm_eval cong: bind_eval_cong)
  then show ?thesis using cb_roundtrip [of 9 env0 started0 1 AGM_EVENT_MODULE 4] by (auto simp: env0_def)
qed

section \<open>Connecting an audio interface\<close>

text \<open>What the graph operations of a connect leave alone: the reference counts, the topology of
  the devices and the device of each AIF.\<close>

definition refs_same :: "nat \<Rightarrow> 'z agm_world_scheme \<Rightarrow> 'z agm_world_scheme \<Rightarrow> bool" where
  "refs_same a s t \<longleftrightarrow> (\<forall>d. refcnt (devs t d) = refcnt (devs s d) \<and> parent_dev (devs t d) = parent_dev (devs s d)
     \<and> group_data (devs t d) = group_data (devs s d)) \<and> (\<forall>g. grp_refcnt (grps t g) = grp_refcnt (grps s g))
     \<and> map aif_dev (aif_pool (sessions t a)) = map aif_dev (aif_pool (sessions s a))"

lemma refs_same_refl [simp]: "refs_same a s s"
  by (simp add: refs_same_def)

lemma refs_same_quiet: "refs_same a s t \<Longrightarrow> quiet E t u \<Longrightarrow> refs_same a s u"
  using more_fields [of u t] by (auto simp: refs_same_def quiet_def)

lemma refs_same_upd_sess [simp]:
  "(\<And>x. aif_pool (f x) = aif_pool x) \<Longrightarrow> refs_same a s (upd_sess b f t) = refs_same a s t"
  by (simp add: refs_same_def)

lemma refs_same_upd_aif [simp]:
  "(\<And>x. aif_dev (f x) = aif_dev x) \<Longrightarrow> refs_same a s (upd_aif b i f t) = refs_same a s t"
  by (auto simp: refs_same_def upd_aif_def map_upd_same)

lemma refs_same_upd_dev [simp]:
  "refs_same a s (upd_dev d (\<lambda>x. x\<lparr>dev_params := p, dev_params_size := n\<rparr>) t) = refs_same a s t"
  by (auto simp: refs_same_def upd_dev_def)

lemma graph_calls_refs:
  assumes "refs_same a s t"
  shows "wlp (graph_change E cfg gp m dev t) (\<lambda>_ u. refs_same a s u)"
    "wlp (graph_add E cfg gp m dev t) (\<lambda>_ u. refs_same a s u)"
    "wlp (graph_set_config E gp p t) (\<lambda>_ u. refs_same a s u)"
    "wlp (graph_set_config_with_tag E gp kvs tc t) (\<lambda>_ u. refs_same a s u)"
    "wlp (graph_remove E gp m t) (\<lambda>_ u. refs_same a s u)"
    "wlp (merge_sess_aif_dev E a i t) (\<lambda>_ u. refs_same a s u)"
  by (rule wlp_mono, rule quiet_calls, rule quiet_refl, erule refs_same_quiet [OF assms])+

lemma graph_open_refs: "refs_same a s t \<Longrightarrow> wlp (graph_open E cfg mp dev t) (\<lambda>_ u. refs_same a s u)"
  by (rule wlp_mono [OF graph_open_frame]) (auto simp: refs_same_def dest: more_fields(1))

lemma graph_close_refs: "refs_same a s t \<Longrightarrow> wlp (graph_close E gp t) (\<lambda>_ u. refs_same a s u)"
  by (auto simp: graph_close_def wlp_simps refs_same_def split: option.splits)

lemma connect_graph_refs:
  assumes "refs_same a s t"
  shows "wlp (connect_graph E a d m n t) (\<lambda>_ u. refs_same a s u)"
  unfolding connect_graph_def Let_def
  by (intro inv_rules graph_open_refs graph_calls_refs assms)
     (auto simp: assms split: option.splits)

lemma connect_params_refs:
  assumes "refs_same a s t"
  shows "wlp (connect_params E a i m t) (\<lambda>_ u. refs_same a s u)"
  unfolding connect_params_def connect_sess_params_def session_apply_aif_device_params_def session_apply_aif_tag_params_def
  by (intro inv_rules graph_calls_refs assms) (simp_all add: assms)

lemma cleanup_refs:
  assumes "refs_same a s t"
  shows "wlp (connect_graph_cleanup E a m n t) (\<lambda>_ u. refs_same a s u)"
  unfolding connect_graph_cleanup_def
  by (intro inv_rules graph_close_refs graph_calls_refs assms) simp_all

text \<open>The open counts of \<open>t\<close> are those of \<open>s\<close>, plus \<open>k\<close> for the
  back end \<open>obj\<close> and its group.\<close>

definition opens_plus :: "int \<Rightarrow> nat \<Rightarrow> 'z dev_world_scheme \<Rightarrow> 'z dev_world_scheme \<Rightarrow> bool" where
  "opens_plus k obj s t \<longleftrightarrow>
     (\<forall>e. rc_open (refcnt (devs t e)) = rc_open (refcnt (devs s e)) + (if e = obj then k else 0))
     \<and> (\<forall>g. rc_open (grp_refcnt (grps t g)) = rc_open (grp_refcnt (grps s g)) + (if group_data (devs s obj) = Some g then k else 0))"

definition topology_same :: "nat \<Rightarrow> 'z agm_world_scheme \<Rightarrow> 'z agm_world_scheme \<Rightarrow> bool" where
  "topology_same a s t \<longleftrightarrow> (\<forall>d. parent_dev (devs t d) = parent_dev (devs s d) \<and> group_data (devs t d) = group_data (devs s d))
     \<and> map aif_dev (aif_pool (sessions t a)) = map aif_dev (aif_pool (sessions s a))"

lemma upd_grp_sessions [simp]: "sessions (upd_grp g f s) = sessions s"
  by (simp add: upd_grp_def split: option.splits)

lemma device_open_opens:
  "wlp (device_open E (Some d) s) (\<lambda>r t. topology_same a s t \<and> opens_plus (if r = 0 then 1 else 0) (device_get_pcm_obj s d) s t)"
  by (auto simp: device_open_def Let_def wlp_simps wlp_bind_gen topology_same_def opens_plus_def update_sysfs_fd_def grps_upd_grp)

lemma device_close_opens:
  assumes "0 < rc_open (refcnt (devs s (device_get_pcm_obj s d)))"
  shows "wlp (device_close E (Some d) s) (\<lambda>_ t. opens_plus (- 1) (device_get_pcm_obj s d) s t)"
  using assms
  by (auto simp: device_close_def Let_def wlp_simps wlp_bind_gen opens_plus_def update_sysfs_fd_def grps_upd_grp)

text \<open>\<^bold>\<open>C5.\<close> Connecting an audio interface holds one open reference to its back end, and one to the
  group, exactly when it succeeds; on every error exit (merge, device, graph or parameters) the
  references are given back.\<close>

theorem connect_references:
  assumes "session_connect_aif E a i n s = Some (ret, t)" "i < length (aif_pool (sessions s a))"
    "0 \<le> rc_open (refcnt (devs s (device_get_pcm_obj s (aif_dev (the_aif s a i)))))"
  shows "opens_plus (if ret = 0 then 1 else 0) (device_get_pcm_obj s (aif_dev (the_aif s a i))) s t"
proof -
  let ?obj = "device_get_pcm_obj s (aif_dev (the_aif s a i))"
  let ?Q = "\<lambda>r t. opens_plus (if r = (0 :: int) then 1 else 0) ?obj s t"
  let ?K = "\<lambda>t. topology_same a s t \<and> opens_plus 1 ?obj s t"
  have keep: "wlp m (\<lambda>_ u. ?K u)" if "wlp m (\<lambda>_ u. refs_same a t u)" "?K t" for m t
    using that(1) by (rule wlp_mono) (use that(2) in \<open>auto simp: refs_same_def topology_same_def opens_plus_def\<close>)
  note calls = keep [OF connect_graph_refs [OF refs_same_refl]] keep [OF connect_params_refs [OF refs_same_refl]]
    keep [OF cleanup_refs [OF refs_same_refl]]
  have close: "wlp (do { (_, u) \<leftarrow> connect_close_device E a i t; Some (r, u) }) ?Q" if "?K t" "r \<noteq> 0" for t r
  proof -
    have dev: "aif_dev (the_aif t a i) = aif_dev (the_aif s a i)" "i < length (aif_pool (sessions t a))"
      using that assms(2) unfolding topology_same_def by (metis length_map nth_map)+
    let ?t = "upd_aif a i (\<lambda>f. f\<lparr>aif_params := None\<rparr>) t"
    have t: "devs ?t = devs t" "grps ?t = grps t" "aif_dev (the_aif ?t a i) = aif_dev (the_aif s a i)"
      using dev by (simp_all add: upd_aif_def)
    then have obj: "device_get_pcm_obj ?t (aif_dev (the_aif s a i)) = ?obj"
      using that by (simp add: device_get_pcm_obj_def topology_same_def)
    then have "0 < rc_open (refcnt (devs ?t (device_get_pcm_obj ?t (aif_dev (the_aif s a i)))))"
      using that assms(3) t by (simp add: opens_plus_def)
    from device_close_opens [OF this, of E] show ?thesis
      unfolding connect_close_device_def Let_def t(3) obj
      by (auto simp: wlp_simps elim!: wlp_mono) (use that t in \<open>auto simp: opens_plus_def topology_same_def\<close>)
  qed
  have "wlp (session_connect_aif E a i n s) ?Q"
    unfolding session_connect_aif_def
  proof (rule wlp_bindI [OF graph_calls_refs(6) [OF refs_same_refl]], rule inv_case_option)
    fix mm s1
    assume s1: "refs_same a s s1"
    then show "wlp (Some (- ENOMEM, s1)) ?Q" by (simp add: wlp_simps opens_plus_def refs_same_def)
    have d1: "aif_dev (the_aif s1 a i) = aif_dev (the_aif s a i)"
      using s1 assms(2) unfolding refs_same_def by (metis length_map nth_map)
    have o1: "device_get_pcm_obj s1 (aif_dev (the_aif s a i)) = ?obj"
      using s1 by (simp add: device_get_pcm_obj_def refs_same_def)
    have opened: "wlp (device_open E (Some (aif_dev (the_aif s1 a i))) s1) (\<lambda>r u. if r = 0 then ?K u else ?Q r u)"
      unfolding d1 using device_open_opens [of E "aif_dev (the_aif s a i)" s1 a] s1
      by (auto simp: o1 elim!: wlp_mono) (auto simp: opens_plus_def topology_same_def refs_same_def)
    fix m
    show "wlp (let d = aif_dev (the_aif s1 a i) in do {
       (ret, s) \<leftarrow> device_open E (Some d) s1;
       if ret \<noteq> 0 then Some (ret, s) else do {
       ((ret, cleanup), s) \<leftarrow> connect_graph E a d m n s;
       if ret \<noteq> 0 \<and> \<not> cleanup
       then do { (_, s) \<leftarrow> connect_close_device E a i s; Some (ret, s) }
       else do {
       (ret, s) \<leftarrow> (if ret \<noteq> 0 then Some (ret, s) else connect_params E a i m s);
       if ret = 0 then Some (0, s)
       else do {
         (_, s) \<leftarrow> connect_graph_cleanup E a m n s;
         (_, s) \<leftarrow> connect_close_device E a i s;
         Some (ret, s) }}}}) ?Q"
      unfolding Let_def
      by (rule wlp_bindI [OF opened], rule inv_if, simp add: wlp_simps, rule wlp_bindI [OF calls(1)], simp, rule inv_case_prod_app,
          rule inv_if, rule close, assumption, simp, rule wlp_bindI [where P = "\<lambda>_ u. ?K u"], rule inv_if, rule res_Some, assumption,
          rule calls(2), assumption, rule inv_if, simp add: wlp_simps,
          rule wlp_bindI [OF calls(3)], assumption, rule close, assumption, assumption)
  qed
  from wlpD [OF this assms(1)] show ?thesis .
qed

theorem connect_references_witness:
  "\<exists>s t. agm_run env0 [SESSION_AIF_CONNECT 5 0 True] world0 = Some ([0], s)
     \<and> session_connect_aif env0 1 0 0 s = Some (0, t) \<and> rc_open (refcnt (devs t 0)) = 1"
proof -
  have "\<exists>s t. agm_run env0 [SESSION_AIF_CONNECT 5 0 True] world0 = Some ([0], s)
      \<and> session_connect_aif env0 1 0 0 s = Some (0, t) \<and> length (aif_pool (sessions s 1)) = 1
      \<and> device_get_pcm_obj s (aif_dev (the_aif s 1 0)) = 0 \<and> rc_open (refcnt (devs s 0)) = 0"
    by (simp add: agm_eval cong: bind_eval_cong)
  then obtain s t where s: "agm_run env0 [SESSION_AIF_CONNECT 5 0 True] world0 = Some ([0], s)"
      "session_connect_aif env0 1 0 0 s = Some (0, t)" "length (aif_pool (sessions s 1)) = 1"
      "device_get_pcm_obj s (aif_dev (the_aif s 1 0)) = 0" "rc_open (refcnt (devs s 0)) = 0" by blast
  have "rc_open (refcnt (devs t 0)) = 1"
    using connect_references [OF s(2)] s(3-5) by (cases "aif_pool (sessions s 1)") (simp_all add: opens_plus_def)
  with s show ?thesis by blast
qed

section \<open>Errors that are lost\<close>



text \<open>A loopback on a session in non-tunnel mode frees the session's own metadata: whenever
  the merge finds memory the call ends in a free of memory that was not allocated (a trap of the
  model).\<close>

theorem non_tunnel_loopback_traps:
  assumes "session_obj_get E pb s = Some ((0, Some b), t)" "sess_mode t a = AGM_SESSION_NON_TUNNEL"
  shows "session_set_loopback E a pb en s = None"
proof -
  have "session_set_loopback E a pb en s \<noteq> Some (r, u)" for r u
    using assms by (auto simp: session_set_loopback_def session_get_merged_metadata_def bind_eq_Some_conv Let_def)
  then show ?thesis by (cases "session_set_loopback E a pb en s") auto
qed

theorem non_tunnel_loopback_traps_witness:
  "\<exists>s. agm_run env0 [SESSION_OPEN 5 AGM_SESSION_NON_TUNNEL True, SESSION_OPEN 6 AGM_SESSION_NON_TUNNEL True] world0 = Some ([0, 0], s)
     \<and> session_set_loopback env0 1 6 True s = None"
proof -
  have "\<exists>s. agm_run env0 [SESSION_OPEN 5 AGM_SESSION_NON_TUNNEL True, SESSION_OPEN 6 AGM_SESSION_NON_TUNNEL True] world0 = Some ([0, 0], s)
      \<and> session_obj_get env0 6 s = Some ((0, Some 2), s) \<and> sess_mode s 1 = AGM_SESSION_NON_TUNNEL"
    by (simp add: agm_eval cong: bind_eval_cong)
  then show ?thesis using non_tunnel_loopback_traps by blast
qed

end
