(* ===== verification/Session_Refinement.thy ===== *)
theory Session_Refinement
  imports Scenario
begin

text \<open>
  An abstract machine for the life of a session (its state and the states of its audio
  interfaces) and the proof that \<open>session_prepare\<close>, \<open>session_start\<close>,
  \<open>session_stop\<close> and \<open>session_close\<close> of
  \<open>service/src/session_obj.c\<close> implement it, with all their error exits.
\<close>

section \<open>The abstract session\<close>

text \<open>What a client can know of a session: its state and the states of its AIFs.\<close>

type_synonym sess_view = "session_state \<times> aif_state list"

definition sess_view :: "nat \<Rightarrow> 'z agm_world_scheme \<Rightarrow> sess_view" where
  "sess_view a s = (sess_state (sessions s a), map aif_st (aif_pool (sessions s a)))"

datatype sess_op = PREPARE_OP | START_OP | STOP_OP | CLOSE_OP

definition to_started :: "aif_state \<Rightarrow> aif_state" where
  "to_started f = (if f \<ge> AIF_OPENED then AIF_STARTED else f)"

definition to_stopped :: "aif_state \<Rightarrow> aif_state" where
  "to_stopped f = (if f = AIF_STARTED then AIF_STOPPED else f)"

definition to_closed :: "aif_state \<Rightarrow> aif_state" where
  "to_closed f = (if f \<ge> AIF_OPENED then AIF_CLOSED else f)"

definition may_prepare :: "aif_state \<Rightarrow> aif_state \<Rightarrow> bool" where
  "may_prepare f f' \<longleftrightarrow> f' = f \<or> f \<in> {AIF_OPENED, AIF_STOPPED} \<and> f' = AIF_PREPARED"

definition start_failed :: "aif_state \<Rightarrow> aif_state \<Rightarrow> bool" where
  "start_failed f f' \<longleftrightarrow> f' = f \<or> AIF_OPENED \<le> f \<and> AIF_OPENED \<le> f' \<and> f' < AIF_STARTED"

text \<open>The transitions of a session; the first argument says whether its mode has a device
  leg.\<close>

inductive sess_step :: "bool \<Rightarrow> sess_op \<Rightarrow> sess_view \<Rightarrow> int \<Rightarrow> sess_view \<Rightarrow> bool" for leg where
  prepared: "list_all2 may_prepare fs fs' \<Longrightarrow> st' = st \<or> st \<noteq> SESSION_STARTED \<and> st' = SESSION_PREPARED
     \<Longrightarrow> sess_step leg PREPARE_OP (st, fs) 0 (st', fs')"
| prepare_failed: "list_all2 may_prepare fs fs' \<Longrightarrow> r \<noteq> 0 \<Longrightarrow> sess_step leg PREPARE_OP (st, fs) r (st, fs')"
| started: "sess_step leg START_OP (st, fs) 0 (SESSION_STARTED, if leg then map to_started fs else fs)"
| start_failed: "list_all2 start_failed fs fs' \<Longrightarrow> r \<noteq> 0 \<Longrightarrow> sess_step leg START_OP (st, fs) r (st, fs')"
| stopped: "sess_step leg STOP_OP (SESSION_STARTED, fs) r (SESSION_STOPPED, if leg then map to_stopped fs else fs)"
| stop_failed: "r \<noteq> 0 \<Longrightarrow> sess_step leg STOP_OP v r v"
| closed: "st \<noteq> SESSION_CLOSED \<Longrightarrow>
     sess_step leg CLOSE_OP (st, fs) r (SESSION_CLOSED, if leg then map to_closed fs else fs)"
| close_refused: "sess_step leg CLOSE_OP (SESSION_CLOSED, fs) (- EALREADY) (SESSION_CLOSED, fs)"

section \<open>Frames\<close>

text \<open>The states of the AIFs, their interfaces, and what an operation on session \<open>a\<close>
  leaves alone besides them.\<close>

definition aif_states :: "nat \<Rightarrow> 'z agm_world_scheme \<Rightarrow> aif_state list" where
  "aif_states a s = map aif_st (aif_pool (sessions s a))"

definition aif_intfs :: "nat \<Rightarrow> 'z agm_world_scheme \<Rightarrow> u32 list" where
  "aif_intfs a s = map (\<lambda>f. intf (hw_ep (devs s (aif_dev f)))) (aif_pool (sessions s a))"

definition sess_frame :: "nat \<Rightarrow> 'z agm_world_scheme \<Rightarrow> 'z agm_world_scheme \<Rightarrow> bool" where
  "sess_frame a s t \<longleftrightarrow> sess_state (sessions t a) = sess_state (sessions s a)
     \<and> stream_config (sessions t a) = stream_config (sessions s a) \<and> aif_intfs a t = aif_intfs a s"

lemma sess_frame_refl [simp]: "sess_frame a s s"
  by (simp add: sess_frame_def)

lemma sess_frame_trans: "sess_frame a s t \<Longrightarrow> sess_frame a t u \<Longrightarrow> sess_frame a s u"
  by (simp add: sess_frame_def)

lemma aif_states_length: "length (aif_states a s) = length (aif_pool (sessions s a))"
  "length (aif_intfs a s) = length (aif_pool (sessions s a))"
  by (simp_all add: aif_states_def aif_intfs_def)

lemma sess_frame_length: "sess_frame a s t \<Longrightarrow> length (aif_states a t) = length (aif_states a s)"
  unfolding sess_frame_def by (metis aif_states_length)

lemma set_aif_state_view [simp]:
  "aif_states b (set_aif_state a i st s) = (if a = b then (aif_states b s)[i := st] else aif_states b s)"
  "aif_intfs b (set_aif_state a i st s) = aif_intfs b s"
proof -
  show "aif_states b (set_aif_state a i st s) = (if a = b then (aif_states b s)[i := st] else aif_states b s)"
    by (auto simp: aif_states_def upd_aif_def map_update)
  show "aif_intfs b (set_aif_state a i st s) = aif_intfs b s"
    by (simp add: aif_intfs_def upd_aif_def map_upd_same)
qed

lemma upd_sess_view:
  assumes "\<And>x. aif_pool (f x) = aif_pool x"
  shows "aif_states b (upd_sess a f s) = aif_states b s" "aif_intfs b (upd_sess a f s) = aif_intfs b s"
  using assms by (simp_all add: aif_states_def aif_intfs_def)

lemma sess_frame_set_aif [simp]: "sess_frame a s (set_aif_state a i st t) = sess_frame a s t"
  by (simp add: sess_frame_def) (simp add: upd_aif_def)

definition hw_same :: "'z dev_world_scheme \<Rightarrow> 'z dev_world_scheme \<Rightarrow> bool" where
  "hw_same s t \<longleftrightarrow> (\<forall>d. hw_ep (devs t d) = hw_ep (devs s d)) \<and> dev_world.more t = dev_world.more s"

lemma hw_same_refl [simp]: "hw_same s s"
  by (simp add: hw_same_def)

lemma hw_same_upd [simp]:
  "(\<And>x. hw_ep (f x) = hw_ep x) \<Longrightarrow> hw_same s0 (upd_dev d f s) = hw_same s0 s"
  "hw_same s0 (upd_grp g f2 s) = hw_same s0 s" "hw_same s0 (s\<lparr>hist := h\<rparr>) = hw_same s0 s"
  "hw_same s0 (s\<lparr>sysfs_fd := fd\<rparr>) = hw_same s0 s"
  by (auto simp: hw_same_def upd_dev_def upd_grp_def split: option.splits)

lemma ecall_hw: "hw_same s0 s \<Longrightarrow> wlp (ecall E c s) (\<lambda>_ t. hw_same s0 t)"
  by (simp add: wlp_simps)

lemma sysfs_hw: "hw_same s0 s \<Longrightarrow> wlp (update_sysfs_fd E i st s) (\<lambda>_ t. hw_same s0 t)"
  unfolding update_sysfs_fd_def Let_def by (intro inv_rules ecall_hw) simp_all

lemma device_ops_hw:
  assumes "hw_same s0 s"
  shows "wlp (device_prepare E dp s) (\<lambda>_ t. hw_same s0 t)" "wlp (device_start E dp s) (\<lambda>_ t. hw_same s0 t)"
    "wlp (device_stop E dp s) (\<lambda>_ t. hw_same s0 t)" "wlp (device_close E dp s) (\<lambda>_ t. hw_same s0 t)"
  unfolding device_prepare_def device_start_def device_stop_def device_close_def Let_def
  by (intro inv_rules inv_bind_value ecall_hw sysfs_hw; simp add: assms)+

text \<open>Everything that leaves the AIFs alone.\<close>

definition still :: "nat \<Rightarrow> 'z agm_world_scheme \<Rightarrow> 'z agm_world_scheme \<Rightarrow> bool" where
  "still a s t \<longleftrightarrow> sess_frame a s t \<and> aif_states a t = aif_states a s"

lemma still_refl [simp]: "still a s s"
  by (simp add: still_def)

lemma still_hw: "hw_same s t \<Longrightarrow> still a s t"
  using more_fields [of t s] by (auto simp: still_def hw_same_def sess_frame_def aif_states_def aif_intfs_def)

lemma still_quiet: "quiet E s t \<Longrightarrow> still a s t"
  by (rule still_hw) (simp add: quiet_def hw_same_def)

lemma still_graph [simp]: "still a s (set_graph b g t) = still a s t"
  by (simp add: still_def sess_frame_def upd_sess_view)

lemma graph_steps_still:
  "wlp (sess_graph_prepare E a s) (\<lambda>_ t. still a s t)" "wlp (sess_graph_start E a s) (\<lambda>_ t. still a s t)"
  "wlp (sess_graph_stop E a s) (\<lambda>_ t. still a s t)"
  unfolding sess_graph_prepare_def sess_graph_start_def sess_graph_stop_def
  by (rule wlp_bindI, rule quiet_calls, rule quiet_refl, force simp: wlp_simps intro: still_quiet)+

lemma device_steps_still:
  "wlp (device_prepare E dp s) (\<lambda>_ t. still a s t)" "wlp (device_start E dp s) (\<lambda>_ t. still a s t)"
  "wlp (device_stop E dp s) (\<lambda>_ t. still a s t)" "wlp (device_close E dp s) (\<lambda>_ t. still a s t)"
  by (rule wlp_mono, rule device_ops_hw, rule hw_same_refl, erule still_hw)+

lemma upd_aif_still:
  assumes "\<And>x. aif_st (f x) = aif_st x" "\<And>x. aif_dev (f x) = aif_dev x"
  shows "still a s (upd_aif b i f s)"
  by (auto simp: still_def sess_frame_def aif_states_def aif_intfs_def upd_aif_def assms map_upd_same)

lemma still_trans: "still a s t \<Longrightarrow> still a t u \<Longrightarrow> still a s u"
  by (auto simp: still_def intro: sess_frame_trans)

lemma device_params_still: "wlp (session_apply_aif_device_params E a d s) (\<lambda>_ t. still a s t)"
proof -
  have "still a s (upd_dev d (\<lambda>x. x\<lparr>dev_params := None, dev_params_size := 0\<rparr>) t)" if "quiet E s t" for t
    using that by (intro still_hw) (simp add: quiet_def hw_same_def upd_dev_def)
  then show ?thesis unfolding session_apply_aif_device_params_def
    by (intro inv_case_option inv_if wlp_bindI [OF graph_commands_quiet(4) [OF quiet_refl]]) (simp_all add: wlp_simps)
qed

lemma session_get_still:
  assumes "pool_ok s" "a \<in> set (session_list s)"
  shows "wlp (session_obj_get E k s) (\<lambda>_ t. still a s t)"
proof -
  have "a \<noteq> sess_next s" using assms by (auto simp: pool_ok_def)
  then have "wlp (session_obj_get E k s) (\<lambda>_ t. sessions t a = sessions s a \<and> devs t = devs s)"
    unfolding session_obj_get_def session_obj_get_from_pool_def session_obj_create_def
    by (auto simp: wlp_simps split: option.splits)
  then show ?thesis
    by (rule wlp_mono) (simp add: still_def sess_frame_def aif_states_def aif_intfs_def)
qed

section \<open>One AIF\<close>

lemma aif_st_nth: "i < length (aif_states a s) \<Longrightarrow> aif_st (the_aif s a i) = aif_states a s ! i"
  by (simp add: aif_states_def)

text \<open>An operation that moves one AIF from a set of states to a new one when it succeeds.\<close>

definition moves :: "nat \<Rightarrow> nat \<Rightarrow> (aif_state \<Rightarrow> aif_state) \<Rightarrow> 'z agm_world_scheme \<Rightarrow> 'z agm_world_scheme \<Rightarrow> bool" where
  "moves a i f s t \<longleftrightarrow> sess_frame a s t \<and> aif_states a t = (aif_states a s)[i := f (aif_states a s ! i)]"

lemma moves_still: "moves a i f s t \<Longrightarrow> still a t u \<Longrightarrow> moves a i f s u"
  by (auto simp: moves_def still_def intro: sess_frame_trans)

lemma still_moves: "still a s t \<Longrightarrow> moves a i f t u \<Longrightarrow> moves a i f s u"
  by (auto simp: moves_def still_def intro: sess_frame_trans)

lemma still_set_aif: "still a s t \<Longrightarrow> f (aif_states a s ! i) = st \<Longrightarrow> moves a i f s (set_aif_state a i st t)"
  by (auto simp: moves_def still_def)

lemma moves_id: "still a s t \<Longrightarrow> f (aif_states a s ! i) = aif_states a s ! i \<Longrightarrow> moves a i f s t"
  by (simp add: moves_def still_def)

definition prep :: "aif_state \<Rightarrow> aif_state" where
  "prep f = (if f \<in> {AIF_OPENED, AIF_STOPPED} then AIF_PREPARED else f)"

lemma prepare_aif_moves:
  assumes "i < length (aif_states a s)"
  shows "wlp (prepare_aif E a i s) (\<lambda>r t. if r = 0 then moves a i prep s t else still a s t)"
  unfolding prepare_aif_def using aif_st_nth [OF assms]
  by (intro inv_if wlp_bindI [OF device_steps_still(1)])
     (auto simp: wlp_simps prep_def intro: moves_id still_set_aif)

lemma start_aif_moves:
  assumes "i < length (aif_states a s)"
  shows "wlp (start_aif E a i s) (\<lambda>r t. if r = 0 then moves a i to_started s t else still a s t)"
proof -
  have "to_started (aif_states a s ! i) = aif_states a s ! i" if "aif_states a s ! i \<notin> {AIF_OPENED, AIF_PREPARED, AIF_STOPPED}"
    using that by (cases "aif_states a s ! i") (auto simp: to_started_def aif_state_order)
  moreover have "to_started (aif_states a s ! i) = AIF_STARTED" if "aif_states a s ! i \<in> {AIF_OPENED, AIF_PREPARED, AIF_STOPPED}"
    using that by (auto simp: to_started_def aif_state_order)
  ultimately show ?thesis unfolding start_aif_def using aif_st_nth [OF assms]
    by (intro inv_if wlp_bindI [OF device_steps_still(2)])
       (auto simp: wlp_simps intro: moves_id still_set_aif)
qed

lemma prepare_start_aif_moves:
  assumes "i < length (aif_states a s)"
  shows "wlp (prepare_start_aif E a i s)
    (\<lambda>r t. if r = 0 then moves a i to_started s t else still a s t \<or> moves a i prep s t)"
  unfolding prepare_start_aif_def
proof (rule wlp_bindI [OF prepare_aif_moves [OF assms]])
  fix r :: int and t
  assume t: "if r = 0 then moves a i prep s t else still a s t"
  have "to_started (prep f) = to_started f" for f
    by (cases f) (simp_all add: to_started_def prep_def aif_state_order)
  then have step: "moves a i to_started t u \<Longrightarrow> moves a i prep s t \<Longrightarrow> moves a i to_started s u" for u
    using assms by (auto simp: moves_def intro: sess_frame_trans)
  show "wlp (if r \<noteq> 0 then Some (r, t) else start_aif E a i t)
      (\<lambda>r t. if r = 0 then moves a i to_started s t else still a s t \<or> moves a i prep s t)"
  proof (cases "r = 0")
    case True
    with t have m: "moves a i prep s t" by simp
    then have "i < length (aif_states a t)" using assms by (simp add: moves_def)
    from start_aif_moves [OF this, of E] True m show ?thesis
      by (auto elim!: wlp_mono split: if_splits intro: step moves_still)
  qed (use t in \<open>simp add: wlp_simps\<close>)
qed

lemma stop_started_aif_moves:
  assumes "i < length (aif_states a s)"
  shows "wlp (stop_started_aif E a st i s) (\<lambda>_ t. moves a i (\<lambda>f. if f = AIF_STARTED then st else f) s t)"
  unfolding stop_started_aif_def using aif_st_nth [OF assms]
  by (intro inv_if wlp_bindI [OF device_steps_still(3)])
     (auto simp: wlp_simps intro: moves_id still_set_aif)

section \<open>Sweeps over the AIFs\<close>

text \<open>The AIFs at the positions in \<open>D\<close> have been moved, the others not yet.\<close>

definition swept :: "nat \<Rightarrow> (aif_state \<Rightarrow> aif_state) \<Rightarrow> nat set \<Rightarrow> 'z agm_world_scheme \<Rightarrow> 'z agm_world_scheme \<Rightarrow> bool" where
  "swept a f D s t \<longleftrightarrow> sess_frame a s t \<and>
     (\<forall>j < length (aif_states a s). aif_states a t ! j = (if j \<in> D then f (aif_states a s ! j) else aif_states a s ! j))"

lemma swept_length: "swept a f D s t \<Longrightarrow> length (aif_states a t) = length (aif_states a s)"
  by (simp add: swept_def sess_frame_length)

lemma swept_step:
  assumes "swept a f D s t" "moves a i f t u" "i < length (aif_states a s)" "\<And>x. f (f x) = f x"
  shows "swept a f (insert i D) s u"
  using assms swept_length [OF assms(1)]
  by (auto simp: swept_def moves_def nth_list_update intro: sess_frame_trans)

lemma swept_still: "swept a f D s t \<Longrightarrow> still a t u \<Longrightarrow> swept a f D s u"
  by (auto simp: swept_def still_def intro: sess_frame_trans)

lemma still_swept: "still a s t \<Longrightarrow> swept a f {} s t"
  by (simp add: swept_def still_def)

lemma swept_cong:
  "swept a f D s t \<Longrightarrow> (\<And>j. j < length (aif_states a s) \<Longrightarrow> j \<in> D \<longleftrightarrow> j \<in> D') \<Longrightarrow> swept a f D' s t"
  by (simp add: swept_def)

lemma swept_all:
  assumes "swept a f D s t" "{..<length (aif_states a s)} \<subseteq> D"
  shows "aif_states a t = map f (aif_states a s)"
  using assms swept_length [OF assms(1)] by (intro nth_equalityI) (auto simp: swept_def)

lemma idempotent_moves: "to_started (to_started f) = to_started f" "to_stopped (to_stopped f) = to_stopped f"
  "to_closed (to_closed f) = to_closed f"
  by (cases f; simp add: to_started_def to_stopped_def to_closed_def aif_state_order)+

lemma aif_indices_upt: "aif_indices s a = [0..<length (aif_states a s)]"
  by (simp add: aif_states_def)

lemma stop_loop_swept:
  assumes "n \<le> length (aif_states a s0)" "swept a to_stopped {..<n} s0 s"
  shows "wlp (stop_loop E a [n..<length (aif_states a s0)] ret s) (\<lambda>_ t. swept a to_stopped {..<length (aif_states a s0)} s0 t)"
  using assms
proof (induction "length (aif_states a s0) - n" arbitrary: n ret s)
  case (Suc k)
  have n: "n < length (aif_states a s0)" "n < length (aif_states a s)" using Suc swept_length [OF Suc.prems(2)] by simp_all
  have upt: "[n..<length (aif_states a s0)] = n # [Suc n..<length (aif_states a s0)]"
    using n by (simp add: upt_conv_Cons)
  have IH: "wlp (stop_loop E a [Suc n..<length (aif_states a s0)] r t)
      (\<lambda>_ t. swept a to_stopped {..<length (aif_states a s0)} s0 t)" if "moves a n to_stopped s t" for r t
    using Suc.hyps(2) n swept_step [OF Suc.prems(2) that n(1) idempotent_moves(2)]
    by (intro Suc.hyps(1)) (simp_all add: lessThan_Suc)
  show ?case unfolding upt stop_loop.simps aif_st_nth [OF n(2)]
    by (intro inv_if wlp_bindI [OF device_steps_still(3)] IH)
       (auto simp: to_stopped_def intro: still_set_aif moves_id)
qed (simp add: wlp_simps)

lemma close_loop_swept:
  assumes "n \<le> length (aif_states a s0)" "swept a to_closed {..<n} s0 s"
  shows "wlp (close_loop E a [n..<length (aif_states a s0)] ret s) (\<lambda>_ t. swept a to_closed {..<length (aif_states a s0)} s0 t)"
  using assms
proof (induction "length (aif_states a s0) - n" arbitrary: n ret s)
  case (Suc k)
  have n: "n < length (aif_states a s0)" "n < length (aif_states a s)" using Suc swept_length [OF Suc.prems(2)] by simp_all
  have upt: "[n..<length (aif_states a s0)] = n # [Suc n..<length (aif_states a s0)]"
    using n by (simp add: upt_conv_Cons)
  have tag: "still a t (upd_aif a i (\<lambda>f. f\<lparr>aif_tag_config := None\<rparr>) t)" for t i
    by (rule upd_aif_still) simp_all
  have IH: "wlp (close_loop E a [Suc n..<length (aif_states a s0)] r (upd_aif a n (\<lambda>f. f\<lparr>aif_tag_config := None\<rparr>) t))
      (\<lambda>_ t. swept a to_closed {..<length (aif_states a s0)} s0 t)" if "moves a n to_closed s t" for r t
    using Suc.hyps(2) n swept_step [OF Suc.prems(2) moves_still [OF that tag] n(1) idempotent_moves(3)]
    by (intro Suc.hyps(1)) (simp_all add: lessThan_Suc)
  show ?case unfolding upt close_loop.simps aif_st_nth [OF n(2)]
    by (rule wlp_bindI [where P = "\<lambda>_ t. moves a n to_closed s t"], intro inv_if wlp_bindI [OF device_steps_still(4)])
       (auto simp: to_closed_def wlp_simps intro: still_set_aif moves_id IH)
qed (simp add: wlp_simps)

section \<open>The operations\<close>

lemma sess_view_states: "sess_view a s = (sess_state (sessions s a), aif_states a s)"
  by (simp add: sess_view_def aif_states_def)

lemma may_prepare_prep: "may_prepare f f' \<Longrightarrow> may_prepare f (prep f')"
  by (auto simp: may_prepare_def prep_def)

definition may_prepared :: "nat \<Rightarrow> 'z agm_world_scheme \<Rightarrow> 'z agm_world_scheme \<Rightarrow> bool" where
  "may_prepared a s t \<longleftrightarrow> sess_frame a s t \<and> list_all2 may_prepare (aif_states a s) (aif_states a t)"

lemma may_prepared_still: "may_prepared a s t \<Longrightarrow> still a t u \<Longrightarrow> may_prepared a s u"
  by (auto simp: may_prepared_def still_def intro: sess_frame_trans)

lemma still_may_prepared: "still a s t \<Longrightarrow> may_prepared a s t"
  by (auto simp: may_prepared_def still_def may_prepare_def intro: list_all2_refl)

lemma list_all2_upd:
  "list_all2 P xs ys \<Longrightarrow> (\<And>x y. P x y \<Longrightarrow> P x (g y)) \<Longrightarrow> list_all2 P xs (ys[i := g (ys ! i)])"
  by (induction xs ys arbitrary: i rule: list_all2_induct) (auto split: nat.splits)

lemma may_prepared_moves: "may_prepared a s t \<Longrightarrow> moves a i prep t u \<Longrightarrow> may_prepared a s u"
  unfolding may_prepared_def moves_def by (simp add: list_all2_upd may_prepare_prep sess_frame_trans [of a s t u])

lemma prepare_aifs:
  assumes "may_prepared a s0 s"
  shows "wlp (for_each_until (prepare_aif E a) (aif_indices s a) s) (\<lambda>_ t. may_prepared a s0 t)"
proof (rule for_each_until_inv [where I = "may_prepared a s0"])
  fix i t
  assume i: "i \<in> set (aif_indices s a)" and t: "may_prepared a s0 t"
  have "i < length (aif_states a t)" using i t assms sess_frame_length [of a s0 s] sess_frame_length [of a s0 t]
    by (simp add: may_prepared_def aif_states_length)
  from prepare_aif_moves [OF this] show "wlp (prepare_aif E a i t) (\<lambda>_ u. may_prepared a s0 u)"
    by (rule wlp_mono) (use t in \<open>auto split: if_splits intro: may_prepared_moves may_prepared_still\<close>)
qed (rule assms)

lemma prepared_result:
  assumes "may_prepared a s t" "sess_state (sessions t a) = SESSION_STARTED \<longrightarrow> st = SESSION_STARTED"
    "st = sess_state (sessions t a) \<or> r = 0 \<and> st = SESSION_PREPARED \<and> sess_state (sessions s a) \<noteq> SESSION_STARTED"
  shows "sess_step leg PREPARE_OP (sess_view a s) r (st, aif_states a t)"
  using assms by (cases "r = 0") (auto simp: sess_view_states may_prepared_def sess_frame_def intro: prepared prepare_failed)

lemma session_prepare_refines:
  "wlp (session_prepare E a s) (\<lambda>r t. sess_step (has_device_leg (sess_mode s a)) PREPARE_OP (sess_view a s) r (sess_view a t))"
proof -
  let ?leg = "has_device_leg (sess_mode s a)"
  let ?Q = "\<lambda>r t. sess_step ?leg PREPARE_OP (sess_view a s) r (sess_view a t)"
  have stay: "?Q r t" if "may_prepared a s t" for r t
    using prepared_result [OF that, of "sess_state (sessions t a)"] that by (auto simp: sess_view_states)
  have to: "wlp (do { (ret, u) \<leftarrow> sess_graph_prepare E a t;
        Some (ret, if ret \<noteq> 0 then u else set_sess_state a SESSION_PREPARED u) }) ?Q"
    if "may_prepared a s t" "sess_state (sessions s a) \<noteq> SESSION_STARTED" for t
  proof (rule wlp_bindI [OF graph_steps_still(1)])
    fix r u
    assume "still a t u"
    with that(1) have u: "may_prepared a s u" by (rule may_prepared_still)
    have "sess_step ?leg PREPARE_OP (sess_view a s) 0 (SESSION_PREPARED, aif_states a u)"
      by (rule prepared_result [OF u]) (use u that(2) in \<open>auto simp: may_prepared_def sess_frame_def\<close>)
    with stay [OF u] show "wlp (Some (r, if r \<noteq> 0 then u else set_sess_state a SESSION_PREPARED u)) ?Q"
      by (auto simp: wlp_simps sess_view_states upd_sess_view)
  qed
  have params: "wlp (for_each_until (\<lambda>i s. session_apply_aif_device_params E a (aif_dev (the_aif s a i)) s) (aif_indices s a) s)
      (\<lambda>_ t. may_prepared a s t)"
    by (rule for_each_until_inv)
       (auto intro: still_may_prepared wlp_mono [OF device_params_still] may_prepared_still)
  have first: "wlp (if b then sess_graph_prepare E a t else Some (0, t)) (\<lambda>_ u. may_prepared a s u)" if "may_prepared a s t" for b t
    using that by (auto simp: wlp_simps intro: wlp_mono [OF graph_steps_still(1)] may_prepared_still)
  have s: "may_prepared a s s" by (simp add: still_may_prepared)
  show ?thesis unfolding session_prepare_def Let_def
    by (intro inv_if to stay s wlp_bindI [OF params] wlp_bindI [OF first] wlp_bindI [OF prepare_aifs] res_Some)
       (auto intro: stay)
qed

lemma session_stop_refines:
  "wlp (session_stop E a s) (\<lambda>r t. sess_step (has_device_leg (sess_mode s a)) STOP_OP (sess_view a s) r (sess_view a t))"
proof (cases "sess_state (sessions s a) = SESSION_STARTED")
  case started: True
  let ?leg = "has_device_leg (sess_mode s a)"
  let ?n = "length (aif_states a s)"
  let ?Q = "\<lambda>r t. sess_step ?leg STOP_OP (sess_view a s) r (sess_view a t)"
  have stopped: "?Q r (set_sess_state a SESSION_STOPPED t)"
    if "aif_states a t = (if ?leg then map to_stopped (aif_states a s) else aif_states a s)" for r t
    using sess_step.stopped [of ?leg "aif_states a s" r] started that by (simp add: sess_view_states upd_sess_view)
  have failed: "?Q r t" if "still a s t" "r \<noteq> 0" for r t
    using that sess_step.stop_failed [of r ?leg "sess_view a s"] by (simp add: sess_view_states still_def sess_frame_def)
  have stop: "wlp (if b then sess_graph_stop E a t else Some (r, t)) (\<lambda>_ u. still a t u)" for b t r
    by (simp add: wlp_simps graph_steps_still)
  have loop: "wlp (stop_loop E a (aif_indices t a) r t) (\<lambda>_ u. swept a to_stopped {..<?n} s u)" if "still a s t" for r t
    using stop_loop_swept [of 0 a s t E r] that by (simp add: aif_indices_upt still_def still_swept)
  have swept: "wlp (if b then sess_graph_stop E a t else Some (r, t)) (\<lambda>_ u. swept a to_stopped {..<?n} s u)"
    if "swept a to_stopped {..<?n} s t" for b t r
    using that by (auto simp: wlp_simps intro: wlp_mono [OF graph_steps_still(3)] swept_still)
  show ?thesis unfolding session_stop_def Let_def
    by (intro inv_if wlp_bindI [OF stop] wlp_bindI [OF loop] wlp_bindI [OF swept] wlp_bindI [OF graph_steps_still(3)] res_Some stopped failed)
       (auto simp: started still_def intro: swept_all)
qed (auto simp: session_stop_def wlp_simps intro: sess_step.stop_failed)

lemma session_close_refines:
  "wlp (session_close E a s) (\<lambda>r t. sess_step (has_device_leg (sess_mode s a)) CLOSE_OP (sess_view a s) r (sess_view a t))"
proof (cases "sess_state (sessions s a) = SESSION_CLOSED")
  case not_closed: False
  let ?leg = "has_device_leg (sess_mode s a)"
  let ?n = "length (aif_states a s)"
  let ?Q = "\<lambda>r t. sess_step ?leg CLOSE_OP (sess_view a s) r (sess_view a t)"
  let ?reset = "upd_sess a (\<lambda>x. x\<lparr>graph := None, ec_ref_state := False, loopback_state := False\<rparr>)"
  have closed: "?Q r (set_sess_state a SESSION_CLOSED t)"
    if "aif_states a t = (if ?leg then map to_closed (aif_states a s) else aif_states a s)" for r t
    using sess_step.closed [of "sess_state (sessions s a)" ?leg "aif_states a s" r] not_closed that
    by (simp add: sess_view_states upd_sess_view)
  have stop: "wlp (if b then sess_graph_stop E a s else Some (0, s)) (\<lambda>_ u. still a s u)" for b
    by (simp add: wlp_simps graph_steps_still)
  have gclose: "wlp (graph_close E (graph (sessions t a)) t) (\<lambda>_ u. still a s (?reset u))" if "still a s t" for t
    using that by (auto simp: graph_close_def wlp_simps still_def sess_frame_def aif_states_def aif_intfs_def split: option.splits)
  have loop: "wlp (close_loop E a (aif_indices t a) r t) (\<lambda>_ u. swept a to_closed {..<?n} s u)" if "still a s t" for r t
    using close_loop_swept [of 0 a s t E r] that by (simp add: aif_indices_upt still_def still_swept)
  have mode: "sess_mode t a = sess_mode s a" if "still a s t" for t
    using that by (simp add: still_def sess_frame_def)
  have rest: "wlp (do { (ret, u) \<leftarrow> (if has_device_leg (sess_mode t a) then close_loop E a (aif_indices t a) r t else Some (r, t));
      Some (ret, set_sess_state a SESSION_CLOSED u) }) ?Q" if "still a s t" for r t
  proof (cases ?leg)
    case True
    show ?thesis
      unfolding mode [OF that] if_P [OF True]
      by (rule wlp_bindI [OF loop [OF that]], rule res_Some, rule closed) (simp add: True swept_all)
  next
    case False
    with that show ?thesis unfolding mode [OF that] if_not_P [OF False]
      by (intro wlp_bindI [OF res_Some] res_Some closed) (auto simp: still_def)
  qed
  show ?thesis unfolding session_close_def Let_def if_not_P [OF not_closed]
    by (rule wlp_bindI [OF stop], rule wlp_bindI [OF gclose], assumption, rule rest)
qed (auto simp: session_close_def wlp_simps sess_view_states intro: sess_step.close_refused)

text \<open>Starting.\<close>

definition unstart :: "aif_state \<Rightarrow> aif_state" where
  "unstart f = (if f = AIF_STARTED then AIF_OPENED else f)"

definition mid_state :: "aif_state \<Rightarrow> aif_state \<Rightarrow> bool" where
  "mid_state f f' \<longleftrightarrow> f' = f \<or> AIF_OPENED \<le> f \<and> AIF_OPENED \<le> f'"

definition mid_start :: "nat \<Rightarrow> 'z agm_world_scheme \<Rightarrow> 'z agm_world_scheme \<Rightarrow> bool" where
  "mid_start a s t \<longleftrightarrow> sess_frame a s t \<and> list_all2 mid_state (aif_states a s) (aif_states a t)"

lemma mid_state_moves: "mid_state f f' \<Longrightarrow> mid_state f (prep f')" "mid_state f (to_started f)"
  "mid_state f f' \<Longrightarrow> start_failed f (unstart f')" "unstart (unstart f) = unstart f"
  by (cases f; cases f'; simp add: unstart_def mid_state_def prep_def to_started_def start_failed_def aif_state_order)+

lemma swept_mid: "swept a to_started D s t \<Longrightarrow> mid_start a s t"
  using swept_length [of a to_started D s t] mid_state_moves(2)
  by (simp add: swept_def mid_start_def list_all2_conv_all_nth) (simp add: mid_state_def)

lemma mid_moves_prep: "mid_start a s t \<Longrightarrow> moves a i prep t u \<Longrightarrow> mid_start a s u"
  unfolding mid_start_def moves_def by (simp add: list_all2_upd mid_state_moves(1) sess_frame_trans [of a s t u])

lemma mid_still: "mid_start a s t \<Longrightarrow> still a t u \<Longrightarrow> mid_start a s u"
  by (auto simp: mid_start_def still_def intro: sess_frame_trans)

lemma still_mid: "still a s t \<Longrightarrow> mid_start a s t"
  by (auto simp: mid_start_def still_def mid_state_def intro: list_all2_refl)

lemma start_failed_step:
  assumes "sess_frame a s u" "list_all2 start_failed (aif_states a s) (aif_states a u)" "r \<noteq> 0"
  shows "sess_step leg START_OP (sess_view a s) r (sess_view a u)"
  using assms sess_step.start_failed by (simp add: sess_view_states sess_frame_def)

lemma still_start_failed: "still a s u \<Longrightarrow> r \<noteq> 0 \<Longrightarrow> sess_step leg START_OP (sess_view a s) r (sess_view a u)"
  by (rule start_failed_step) (auto simp: still_def start_failed_def intro: list_all2_refl)

lemma start_unwind_refines:
  assumes "mid_start a s t" "r \<noteq> 0" "\<not> has_device_leg (sess_mode s a) \<longrightarrow> still a s t"
  shows "wlp (start_unwind E a b r t) (\<lambda>r u. sess_step leg START_OP (sess_view a s) r (sess_view a u))"
proof -
  have stop: "wlp (if c then sess_graph_stop E a t else Some (0, t)) (\<lambda>_ u. still a t u)" for c
    by (simp add: wlp_simps graph_steps_still)
  have loop: "wlp (for_each (stop_started_aif E a AIF_OPENED) (aif_indices u a) u)
      (\<lambda>_ v. sess_step leg START_OP (sess_view a s) r (sess_view a v))" if u: "still a t u" for u
  proof -
    have n: "length (aif_states a u) = length (aif_states a s)"
      using u assms(1) list_all2_lengthD [of mid_state] by (fastforce simp: still_def mid_start_def)
    have "wlp (for_each (stop_started_aif E a AIF_OPENED) [0..<length (aif_states a u)] u) (\<lambda>_ v. swept a unstart {..<length (aif_states a u)} u v)"
    proof (rule for_each_upto [where P = "\<lambda>i. swept a unstart {..<i} u"])
      fix i v
      assume i: "i < length (aif_states a u)" and v: "swept a unstart {..<i} u v"
      have "i < length (aif_states a v)" using i swept_length [OF v] by simp
      from stop_started_aif_moves [OF this, of E AIF_OPENED] show "wlp (stop_started_aif E a AIF_OPENED i v) (\<lambda>_. swept a unstart {..<Suc i} u)"
        unfolding unstart_def [symmetric, abs_def]
        by (rule wlp_mono) (use swept_step [OF v _ i mid_state_moves(4)] in \<open>simp add: lessThan_Suc\<close>)
    qed (simp_all add: still_swept)
    then show ?thesis unfolding aif_indices_upt
    proof (rule wlp_mono)
      fix x v
      assume v: "swept a unstart {..<length (aif_states a u)} u v"
      have "aif_states a v = map unstart (aif_states a t)" using swept_all [OF v] u by (simp add: still_def)
      moreover have "sess_frame a s v"
        using assms(1) u v sess_frame_trans by (simp add: mid_start_def still_def swept_def) blast
      ultimately show "sess_step leg START_OP (sess_view a s) r (sess_view a v)"
        using assms(1,2)
        by (intro start_failed_step)
           (auto simp: mid_start_def list_all2_map2 intro: list_all2_mono mid_state_moves(3))
    qed
  qed
  have mode: "sess_mode u a = sess_mode s a" if "still a t u" for u
    using that assms(1) by (simp add: still_def sess_frame_def mid_start_def)
  have none: "sess_step leg START_OP (sess_view a s) r (sess_view a u)"
    if "still a t u" "\<not> has_device_leg (sess_mode s a)" for u
    using that assms(2,3) still_trans by (blast intro: still_start_failed)
  show ?thesis unfolding start_unwind_def
    by (rule wlp_bindI [OF stop], subst mode, assumption,
        rule wlp_bindI [where P = "\<lambda>_ v. sess_step leg START_OP (sess_view a s) r (sess_view a v)"])
       (auto simp: wlp_simps intro: loop none)
qed

lemma start_checks_still:
  assumes "pool_ok s" "a \<in> set (session_list s)"
  shows "wlp (start_checks E a s) (\<lambda>_ t. still a s t)"
proof -
  have "wlp (if loopback_state (sessions s a) then do {
          ((ret, p), s) \<leftarrow> session_obj_get E (loopback_sess_id (sessions s a)) s;
          case p of None \<Rightarrow> Some (ret, s)
          | Some b \<Rightarrow> Some (if sess_state (sessions s b) \<noteq> SESSION_STARTED then - EINVAL else 0, s) }
        else Some (0, s)) (\<lambda>_ t. still a s t)"
    by (intro inv_if wlp_bindI [OF session_get_still [OF assms]]) (auto simp: wlp_simps split: option.splits)
  then show ?thesis unfolding start_checks_def
    by (rule wlp_bindI) (auto simp: wlp_simps split: prod.splits)
qed

text \<open>The positions of the SLIMbus AIFs, which are started first.\<close>

definition slims :: "nat \<Rightarrow> 'z agm_world_scheme \<Rightarrow> nat set" where
  "slims a s = {j. aif_intfs a s ! j = SLIMBUS}"

lemma is_slimbus_slims:
  assumes "sess_frame a s t" "i < length (aif_states a s)"
  shows "is_slimbus a i t \<longleftrightarrow> i \<in> slims a s"
  using assms sess_frame_length [OF assms(1)]
  by (auto simp: slims_def is_slimbus_def sess_frame_def aif_intfs_def aif_states_def dest: arg_cong [where f = "\<lambda>l. l ! i"])

lemma start_one:
  assumes t: "swept a to_started D s t" and i: "i < length (aif_states a s)"
  shows "wlp (prepare_start_aif E a i t) (\<lambda>r u. if r = 0 then swept a to_started (insert i D) s u else mid_start a s u)"
    "wlp (start_aif E a i t) (\<lambda>r u. if r = 0 then swept a to_started (insert i D) s u else mid_start a s u)"
proof -
  have n: "i < length (aif_states a t)" using i swept_length [OF t] by simp
  note step = swept_step [OF t _ i idempotent_moves(1)]
  show "wlp (prepare_start_aif E a i t) (\<lambda>r u. if r = 0 then swept a to_started (insert i D) s u else mid_start a s u)"
    by (rule wlp_mono [OF prepare_start_aif_moves [OF n]])
       (use t in \<open>auto split: if_splits intro: step mid_still mid_moves_prep swept_mid\<close>)
  show "wlp (start_aif E a i t) (\<lambda>r u. if r = 0 then swept a to_started (insert i D) s u else mid_start a s u)"
    by (rule wlp_mono [OF start_aif_moves [OF n]])
       (use t in \<open>auto split: if_splits intro: step mid_still swept_mid\<close>)
qed

lemma aif_indices_frame: "sess_frame a s t \<Longrightarrow> aif_indices t a = [0..<length (aif_states a s)]"
  using sess_frame_length [of a s t] by (simp add: aif_states_length)

lemma start_slims:
  assumes "still a s t"
  shows "wlp (for_each_until (\<lambda>i s. if is_slimbus a i s then prepare_start_aif E a i s else Some (0, s)) (aif_indices t a) t)
      (\<lambda>r u. if r = 0 then swept a to_started ({..<length (aif_states a s)} \<inter> slims a s) s u else mid_start a s u)"
  unfolding aif_indices_frame [OF assms [unfolded still_def, THEN conjunct1]]
proof (rule for_each_until_upto [where P = "\<lambda>i. swept a to_started ({..<i} \<inter> slims a s) s"])
  fix i u
  assume i: "i < length (aif_states a s)" and u: "swept a to_started ({..<i} \<inter> slims a s) s u"
  have "{..<Suc i} \<inter> slims a s = (if i \<in> slims a s then insert i ({..<i} \<inter> slims a s) else {..<i} \<inter> slims a s)"
    by (auto simp: less_Suc_eq)
  moreover have "is_slimbus a i u \<longleftrightarrow> i \<in> slims a s" using is_slimbus_slims [OF _ i] u by (simp add: swept_def)
  ultimately show "wlp (if is_slimbus a i u then prepare_start_aif E a i u else Some (0, u))
      (\<lambda>r v. if r = 0 then swept a to_started ({..<Suc i} \<inter> slims a s) s v else mid_start a s v)"
    using start_one(1) [OF u i] u
    by (cases "i \<in> slims a s") (simp_all add: wlp_Some cong: if_cong split del: if_split)
qed (use assms in \<open>simp_all add: still_swept\<close>)

lemma start_others:
  assumes "swept a to_started ({..<length (aif_states a s)} \<inter> slims a s) s t"
  shows "wlp (for_each_until (\<lambda>i s. if is_slimbus a i s then Some (0, s)
        else if early then start_aif E a i s else prepare_start_aif E a i s) (aif_indices t a) t)
      (\<lambda>r u. if r = 0 then swept a to_started ({..<length (aif_states a s)} \<union> slims a s) s u else mid_start a s u)"
  unfolding aif_indices_frame [OF assms [unfolded swept_def, THEN conjunct1]]
proof (rule for_each_until_upto [where P = "\<lambda>i. swept a to_started ({..<i} \<union> slims a s) s"])
  fix i u
  assume i: "i < length (aif_states a s)" and u: "swept a to_started ({..<i} \<union> slims a s) s u"
  have "{..<Suc i} \<union> slims a s = insert i ({..<i} \<union> slims a s)" by (auto simp: less_Suc_eq)
  moreover have "insert i ({..<i} \<union> slims a s) = {..<i} \<union> slims a s" if "i \<in> slims a s" using that by auto
  moreover have "is_slimbus a i u \<longleftrightarrow> i \<in> slims a s" using is_slimbus_slims [OF _ i] u by (simp add: swept_def)
  ultimately show "wlp (if is_slimbus a i u then Some (0, u)
        else if early then start_aif E a i u else prepare_start_aif E a i u)
      (\<lambda>r v. if r = 0 then swept a to_started ({..<Suc i} \<union> slims a s) s v else mid_start a s v)"
    using start_one [OF u i] u
    by (cases "i \<in> slims a s"; cases early) (simp_all add: wlp_Some cong: if_cong split del: if_split)
qed (use assms in \<open>auto intro: swept_cong\<close>)

text \<open>A graph start in between, in the three places where it happens.\<close>

lemma graph_start_between:
  "still a s t \<Longrightarrow> wlp (if sess_dir t a = TX \<and> b then sess_graph_start E a t else Some (0, t)) (\<lambda>_ u. still a s u)"
  "swept a f D s t \<Longrightarrow> wlp (if \<not> b then sess_graph_start E a t else Some (0, t)) (\<lambda>_ u. swept a f D s u)"
  "swept a f D s t \<Longrightarrow> wlp (if sess_dir t a = RX \<and> b then sess_graph_start E a t else Some (0, t)) (\<lambda>_ u. swept a f D s u)"
  by (auto simp: wlp_simps intro: wlp_mono [OF graph_steps_still(2)] still_trans swept_still)

lemma session_start_refines:
  assumes "pool_ok s" "a \<in> set (session_list s)"
  shows "wlp (session_start E a s) (\<lambda>r t. sess_step (has_device_leg (sess_mode s a)) START_OP (sess_view a s) r (sess_view a t))"
proof -
  let ?leg = "has_device_leg (sess_mode s a)"
  let ?Q = "\<lambda>r t. sess_step ?leg START_OP (sess_view a s) r (sess_view a t)"
  have fail: "?Q r t" if "still a s t" "r \<noteq> 0" for r t
    using that by (rule still_start_failed)
  have ok: "?Q 0 (set_sess_state a SESSION_STARTED t)"
    if "aif_states a t = (if ?leg then map to_started (aif_states a s) else aif_states a s)" for t
    using sess_step.started [of ?leg "sess_state (sessions s a)" "aif_states a s"] that
    by (simp add: sess_view_states upd_sess_view)
  have checks: "wlp (if b then start_checks E a s else Some (0, s)) (\<lambda>_ t. still a s t)" for b
    by (simp add: wlp_simps start_checks_still assms)
  have unwind: "wlp (start_unwind E a b r t) ?Q" if "mid_start a s t" "r \<noteq> 0" "\<not> ?leg \<longrightarrow> still a s t" for b r t
    using that by (rule start_unwind_refines)
  show ?thesis
  proof (cases ?leg)
    case False
    show ?thesis unfolding session_start_def Let_def if_P [OF False]
      by (intro inv_if wlp_bindI [OF graph_steps_still(2)] unwind res_Some ok) (auto simp: still_mid False still_def)
  next
    case leg: True
    then have neg: "\<not> \<not> ?leg" by simp
    show ?thesis unfolding session_start_def Let_def if_not_P [OF neg]
      by (intro inv_if wlp_bindI [OF checks] wlp_bindI [OF graph_start_between(1)] wlp_bindI [OF graph_start_between(2)]
            wlp_bindI [OF graph_start_between(3)] wlp_bindI [OF start_slims] wlp_bindI [OF start_others] unwind res_Some ok fail)
         (auto simp: leg swept_all split: if_splits intro: swept_mid)
  qed
qed

section \<open>Refinement\<close>

definition sess_call :: "sess_op \<Rightarrow> nat \<Rightarrow> agm_call" where
  "sess_call op h = (case op of PREPARE_OP \<Rightarrow> SESSION_PREPARE h | START_OP \<Rightarrow> SESSION_START h
     | STOP_OP \<Rightarrow> SESSION_STOP h | CLOSE_OP \<Rightarrow> SESSION_CLOSE h)"

text \<open>\<^bold>\<open>C3.\<close> In every reachable state, preparing, starting, stopping or closing a session is a
  transition of the abstract session machine: a successful start leaves every opened AIF
  started, a failed one leaves none started that was not and the session in its state, a stop
  leaves none started, a close leaves none opened and the session closed whatever the calls
  below it returned.\<close>

theorem session_refines:
  assumes "agm_reach E s" "h \<in> set (session_list s)" "agm_exec E (sess_call op h) s = Some (r, t)"
  shows "sess_step (has_device_leg (sess_mode s h)) op (sess_view h s) r (sess_view h t)"
proof -
  have p: "pool_ok s" using agm_reach_inv [OF assms(1)] by (simp add: agm_inv_def agm_core_def)
  then have "h \<noteq> 0" using assms(2) by (auto simp: pool_ok_def)
  moreover have "session_obj_valid_check h s" using assms(2) by (simp add: session_obj_valid_check_def list_ex_iff)
  ultimately show ?thesis
    using assms(2,3) wlpD [OF session_prepare_refines] wlpD [OF session_start_refines [OF p assms(2)]]
      wlpD [OF session_stop_refines] wlpD [OF session_close_refines]
    by (cases op) (simp_all add: sess_call_def agm_session_prepare_def agm_session_start_def agm_session_stop_def
        agm_session_close_def with_handle_def session_obj_prepare_def session_obj_start_def session_obj_stop_def
        session_obj_close_def)
qed

theorem session_refines_witness:
  "\<exists>t. agm_exec env0 (sess_call STOP_OP 1) started0 = Some (0, t)
     \<and> sess_step True STOP_OP (SESSION_STARTED, [AIF_STARTED]) 0 (sess_view 1 t)"
proof -
  have "\<exists>t. agm_exec env0 (sess_call STOP_OP 1) started0 = Some (0, t)"
    by (simp add: sess_call_def started0_def run0_def agm_eval cong: bind_eval_cong)
  then obtain t where t: "agm_exec env0 (sess_call STOP_OP 1) started0 = Some (0, t)" by blast
  have "sess_view 1 started0 = (SESSION_STARTED, [AIF_STARTED])" "has_device_leg (sess_mode started0 1)"
    by (simp_all add: sess_view_def started0_def run0_def agm_eval cong: bind_eval_cong)
  then show ?thesis using session_refines [OF started0_reach _ t] t started0_eval by auto
qed

end
