(* ===== verification/Snd_Card.thy ===== *)
theory Snd_Card
  imports C_Library
begin

text \<open>
  Model of \<open>snd_parser/src/snd-card-parser.c\<close>: the definitions of the virtual
  sound cards. The library runs in the process of the client, so the state of that process is
  kept apart from the state of the service. The XML parser expat is outside the repository:
  a definition file is the sequence of the handler calls it makes and whether it ends without an
  error. A card is an object of a store; the devices of a card never change once it
  was parsed, and a pointer to a device is the card, the kind of its list and its position.
\<close>

section \<open>The process of the client\<close>

text \<open>Calls to the system, and an oracle for what they return.\<close>

datatype (plugins only: code size) client_call =
    CL_CALLOC
  | CL_MMAP u64 int
  | CL_MUNMAP u64 u64
  | CL_CLOSE int
  | CL_COND_WAIT
  | CL_COND_TIMEDWAIT int
  | CL_MIXER_EVENT_CB u64
  | CL_EVENTFD
  | CL_IOPLUG_CREATE
  | CL_IOPLUG_PARAM_LIST int "int list"
  | CL_IOPLUG_PARAM_MINMAX int int int
  | CL_IOPLUG_DELETE
  | CL_CTL_EXT_CREATE

record client_env =
  cl_ret :: "client_call list \<Rightarrow> client_call \<Rightarrow> int"

record client_world =
  cl_hist :: "client_call list"

definition client_ecall ::
    "'k client_env_scheme \<Rightarrow> client_call \<Rightarrow> 'z client_world_scheme \<Rightarrow> (int \<times> 'z client_world_scheme) option" where
  "client_ecall K c s = Some (cl_ret K (cl_hist s) c, s\<lparr>cl_hist := cl_hist s @ [c]\<rparr>)"

definition client_calloc :: "'k client_env_scheme \<Rightarrow> 'z client_world_scheme \<Rightarrow> (bool \<times> 'z client_world_scheme) option" where
  "client_calloc K s = do { (r, s) \<leftarrow> client_ecall K CL_CALLOC s; Some (r = 0, s) }"

lemma wlp_client_ecall [wlp_simps]:
  "wlp (client_ecall K c s) Q \<longleftrightarrow> Q (cl_ret K (cl_hist s) c) (s\<lparr>cl_hist := cl_hist s @ [c]\<rparr>)"
  by (simp add: client_ecall_def wlp_simps)

lemma wlp_client_calloc [wlp_simps]:
  "wlp (client_calloc K s) Q \<longleftrightarrow> Q (cl_ret K (cl_hist s) CL_CALLOC = 0) (s\<lparr>cl_hist := cl_hist s @ [CL_CALLOC]\<rparr>)"
  by (simp add: client_calloc_def wlp_simps)

section \<open>Definitions of cards and devices\<close>

datatype snd_node_type = SND_NODE_TYPE_PCM | SND_NODE_TYPE_MIXER | SND_NODE_TYPE_COMPR

text \<open>The back pointer of a device to its card is written but never read.\<close>

record snd_dev_def =
  nd_node_type :: snd_node_type
  nd_device :: u32
  nd_type :: int
  nd_name :: "string option"
  nd_so_name :: "string option"
  prop_val_list :: "(string \<times> string) list"

abbreviation (input) SND_NODE_DEV_TYPE_HW :: int where "SND_NODE_DEV_TYPE_HW \<equiv> 0"
abbreviation (input) SND_NODE_DEV_TYPE_PLUGIN :: int where "SND_NODE_DEV_TYPE_PLUGIN \<equiv> 1"

record snd_dev_def_card =
  sd_card :: u32
  sd_name :: "string option"
  sd_refcnt :: int
  devs_list :: "snd_node_type \<Rightarrow> snd_dev_def list"

definition card_zero :: snd_dev_def_card where
  "card_zero = \<lparr>sd_card = 0, sd_name = None, sd_refcnt = 0, devs_list = (\<lambda>_. [])\<rparr>"

datatype snd_card_defs_xml_tags = TAG_ROOT | TAG_CARD | TAG_DEVICE | TAG_PLUGIN | TAG_DEV_PROPS

record xml_userdata =
  data_buf :: string
  offs :: nat
  xd_card :: u32
  card_name :: "string option"
  cur_card_def :: "snd_dev_def_card option"
  cur_dev_def :: "(snd_node_type \<times> nat) option"
  card_found :: bool
  card_parsed :: bool
  current_tag :: snd_card_defs_xml_tags

record snd_world = client_world +
  cards :: "nat \<Rightarrow> snd_dev_def_card"
  snd_card_list :: "nat list"
  card_next :: nat

section \<open>The handlers\<close>

abbreviation (input) BUF_SIZE :: nat where "BUF_SIZE \<equiv> 1024"

definition snd_reset_data_buf :: "xml_userdata \<Rightarrow> xml_userdata" where
  "snd_reset_data_buf x = x\<lparr>offs := 0, data_buf := []\<rparr>"

text \<open>An update of the device under construction, which is in a list of the card under
  construction.\<close>

definition upd_cur_dev :: "(snd_dev_def \<Rightarrow> snd_dev_def) \<Rightarrow> xml_userdata \<Rightarrow> xml_userdata" where
  "upd_cur_dev f x =
     (case (cur_card_def x, cur_dev_def x) of
        (Some c, Some (t, i)) \<Rightarrow>
          x\<lparr>cur_card_def := Some (c\<lparr>devs_list := (devs_list c)(t := (devs_list c t)[i := f (devs_list c t ! i)])\<rparr>)\<rparr>
      | _ \<Rightarrow> x)"

definition snd_dev_set_type :: "int \<Rightarrow> xml_userdata \<Rightarrow> xml_userdata" where
  "snd_dev_set_type ty x = upd_cur_dev (\<lambda>d. d\<lparr>nd_type := ty\<rparr>) x"

definition snd_dev_def_init ::
    "'k client_env_scheme \<Rightarrow> string \<Rightarrow> snd_node_type option \<Rightarrow> xml_userdata \<Rightarrow> 'z client_world_scheme \<Rightarrow>
       (xml_userdata \<times> 'z client_world_scheme) option" where
  "snd_dev_def_init K tag_name node_type x s =
     (case (cur_card_def x, node_type) of
        (Some c, Some t) \<Rightarrow>
          if tag_name \<noteq> ''pcm-device'' \<and> tag_name \<noteq> ''compress-device'' \<and> tag_name \<noteq> ''mixer'' then Some (x, s)
          else do {
            (ok, s) \<leftarrow> client_calloc K s;
            if \<not> ok then Some (x, s)
            else let d = \<lparr>nd_node_type = t, nd_device = 0, nd_type = SND_NODE_DEV_TYPE_HW, nd_name = None,
                          nd_so_name = None, prop_val_list = []\<rparr>
                 in Some (x\<lparr>cur_card_def := Some (c\<lparr>devs_list := (devs_list c)(t := devs_list c t @ [d])\<rparr>),
                            cur_dev_def := Some (t, length (devs_list c t))\<rparr>, s) }
      | _ \<Rightarrow> Some (x, s))"

definition snd_start_tag ::
    "'k client_env_scheme \<Rightarrow> string \<Rightarrow> xml_userdata \<Rightarrow> 'z client_world_scheme \<Rightarrow>
       (xml_userdata \<times> 'z client_world_scheme) option" where
  "snd_start_tag K tag_name x s =
     (if card_parsed x then Some (x, s)
      else
        let x = snd_reset_data_buf x;
            x = (if tag_name = ''card'' then x\<lparr>current_tag := TAG_CARD\<rparr> else x);
            (x, node_type) =
              (if tag_name = ''pcm-device'' then (x\<lparr>current_tag := TAG_DEVICE\<rparr>, Some SND_NODE_TYPE_PCM)
               else if tag_name = ''compress-device'' then (x\<lparr>current_tag := TAG_DEVICE\<rparr>, Some SND_NODE_TYPE_COMPR)
               else if tag_name = ''mixer'' then (x\<lparr>current_tag := TAG_DEVICE\<rparr>, Some SND_NODE_TYPE_MIXER)
               else if strstr ''plugin'' tag_name \<noteq> None
               then ((snd_dev_set_type SND_NODE_DEV_TYPE_PLUGIN x)\<lparr>current_tag := TAG_PLUGIN\<rparr>, None)
               else if tag_name = ''props'' then (x\<lparr>current_tag := TAG_DEV_PROPS\<rparr>, None)
               else (x, None))
        in if current_tag x \<noteq> TAG_CARD \<and> \<not> card_found x then Some (x, s)
           else snd_dev_def_init K tag_name node_type x s)"

text \<open>Text that does not fit is not copied, but its length is counted.\<close>

definition snd_data_handler :: "string \<Rightarrow> xml_userdata \<Rightarrow> xml_userdata" where
  "snd_data_handler t x =
     (if length t + offs x \<ge> BUF_SIZE then x\<lparr>offs := offs x + length t\<rparr>
      else x\<lparr>data_buf := take (offs x) (data_buf x) @ t, offs := offs x + length t\<rparr>)"

definition snd_parse_initialize_card_def ::
    "'k client_env_scheme \<Rightarrow> xml_userdata \<Rightarrow> 'z client_world_scheme \<Rightarrow> ((bool \<times> xml_userdata) \<times> 'z client_world_scheme) option" where
  "snd_parse_initialize_card_def K x s =
     (case cur_card_def x of Some _ \<Rightarrow> Some ((True, x), s)
      | None \<Rightarrow> do {
          (ok, s) \<leftarrow> client_calloc K s;
          if \<not> ok then Some ((False, x), s)
          else Some ((True, x\<lparr>card_found := True, cur_card_def := Some card_zero\<rparr>), s) })"

text \<open>\<open>strncmp(name, token, strlen(name)) == 0\<close>\<close>

abbreviation has_prefix :: "string \<Rightarrow> string \<Rightarrow> bool" where
  "has_prefix name token \<equiv> take (length name) token = name"

text \<open>The name of the card under construction, once the allocation of its copy succeeded.\<close>

definition set_card_name ::
    "'k client_env_scheme \<Rightarrow> xml_userdata \<Rightarrow> 'z client_world_scheme \<Rightarrow> (xml_userdata \<times> 'z client_world_scheme) option" where
  "set_card_name K x s =
     (case cur_card_def x of None \<Rightarrow> None
      | Some c \<Rightarrow> do {
          (ok, s) \<leftarrow> client_calloc K s;
          Some (x\<lparr>cur_card_def := Some (c\<lparr>sd_name := if ok then Some (data_buf x) else None\<rparr>)\<rparr>, s) })"

text \<open>The buffer that \<open>strtok_r\<close> cuts into pieces is reset when the handler returns.\<close>

definition snd_parse_card_properties ::
    "'k client_env_scheme \<Rightarrow> string \<Rightarrow> xml_userdata \<Rightarrow> 'z client_world_scheme \<Rightarrow> (xml_userdata \<times> 'z client_world_scheme) option" where
  "snd_parse_card_properties K tag_name x s =
     (if tag_name = ''id'' then do {
        n \<leftarrow> atoi (data_buf x);
        if (of_int n :: u32) \<noteq> xd_card x then Some (x, s)
        else do {
          ((ok, x), s) \<leftarrow> snd_parse_initialize_card_def K x s;
          Some (if ok then x\<lparr>cur_card_def := map_option (\<lambda>c. c\<lparr>sd_card := of_int n\<rparr>) (cur_card_def x)\<rparr> else x, s) }}
      else if tag_name = ''name''
      then case cur_card_def x of
          Some _ \<Rightarrow> set_card_name K x s
        | None \<Rightarrow>
          (case card_name x of None \<Rightarrow> Some (x, s)
           | Some name \<Rightarrow>
             (case find (has_prefix name) (strtok '', '' (data_buf x)) of
                None \<Rightarrow> Some (x, s)
              | Some token \<Rightarrow> do {
                  ((ok, x), s) \<leftarrow> snd_parse_initialize_card_def K x s;
                  if \<not> ok then Some (x, s) else set_card_name K (x\<lparr>data_buf := token\<rparr>) s }))
      else Some (x, s))"

definition snd_parse_plugin_properties ::
    "'k client_env_scheme \<Rightarrow> string \<Rightarrow> xml_userdata \<Rightarrow> 'z client_world_scheme \<Rightarrow> (xml_userdata \<times> 'z client_world_scheme) option" where
  "snd_parse_plugin_properties K tag_name x s =
     (if cur_dev_def x = None then Some (x, s)
      else if tag_name = ''so-name'' then do {
        (ok, s) \<leftarrow> client_calloc K s;
        Some (upd_cur_dev (\<lambda>d. d\<lparr>nd_so_name := if ok then Some (data_buf x) else None\<rparr>) x, s) }
      else Some (x, s))"

definition snd_parse_device_properties ::
    "'k client_env_scheme \<Rightarrow> string \<Rightarrow> xml_userdata \<Rightarrow> 'z client_world_scheme \<Rightarrow> (xml_userdata \<times> 'z client_world_scheme) option" where
  "snd_parse_device_properties K tag_name x s =
     (if tag_name = ''pcm-device'' \<or> tag_name = ''compress-device'' \<or> tag_name = ''mixer'' then Some (x, s)
      else if cur_dev_def x = None then Some (x, s)
      else if tag_name = ''id'' then do {
        n \<leftarrow> atoi (data_buf x);
        Some (upd_cur_dev (\<lambda>d. d\<lparr>nd_device := of_int n\<rparr>) x, s) }
      else if tag_name = ''name'' then do {
        (ok, s) \<leftarrow> client_calloc K s;
        Some (upd_cur_dev (\<lambda>d. d\<lparr>nd_name := if ok then Some (data_buf x) else None\<rparr>) x, s) }
      else Some (x, s))"

definition snd_parse_device_custom_properties ::
    "'k client_env_scheme \<Rightarrow> string \<Rightarrow> xml_userdata \<Rightarrow> 'z client_world_scheme \<Rightarrow> (xml_userdata \<times> 'z client_world_scheme) option" where
  "snd_parse_device_custom_properties K tag_name x s =
     (if tag_name = ''props'' then Some (x, s)
      else if cur_dev_def x = None then Some (x, s)
      else if data_buf x = [] \<or> tag_name = [] then Some (x, s)
      else do {
        (ok, s) \<leftarrow> client_calloc K s;
        if \<not> ok then Some (x, s)
        else do {
          (ok, s) \<leftarrow> client_calloc K s;
          if \<not> ok then Some (x, s)
          else do {
            (ok, s) \<leftarrow> client_calloc K s;
            if \<not> ok then Some (x, s)
            else Some (upd_cur_dev (\<lambda>d. d\<lparr>prop_val_list := prop_val_list d @ [(tag_name, data_buf x)]\<rparr>) x, s) }}})"

text \<open>The terminating NUL is written at the counted length, outside the buffer when the
  text did not fit.\<close>

definition snd_process_data_buf ::
    "'k client_env_scheme \<Rightarrow> string \<Rightarrow> xml_userdata \<Rightarrow> 'z client_world_scheme \<Rightarrow> (xml_userdata \<times> 'z client_world_scheme) option" where
  "snd_process_data_buf K tag_name x s =
     (if offs x = 0 then Some (x, s)
      else if offs x \<ge> BUF_SIZE then None
      else let x = x\<lparr>data_buf := take (offs x) (data_buf x)\<rparr> in
      if card_parsed x then Some (x, s)
      else case current_tag x of
          TAG_ROOT \<Rightarrow> Some (x, s)
        | TAG_CARD \<Rightarrow> snd_parse_card_properties K tag_name x s
        | TAG_PLUGIN \<Rightarrow> snd_parse_plugin_properties K tag_name x s
        | TAG_DEVICE \<Rightarrow> snd_parse_device_properties K tag_name x s
        | TAG_DEV_PROPS \<Rightarrow> snd_parse_device_custom_properties K tag_name x s)"

definition snd_end_tag ::
    "'k client_env_scheme \<Rightarrow> string \<Rightarrow> xml_userdata \<Rightarrow> 'z client_world_scheme \<Rightarrow> (xml_userdata \<times> 'z client_world_scheme) option" where
  "snd_end_tag K tag_name x s =
     (if card_parsed x then Some (x, s)
      else if current_tag x \<noteq> TAG_CARD \<and> \<not> card_found x then Some (x, s)
      else do {
        (x, s) \<leftarrow> snd_process_data_buf K tag_name x s;
        let x = snd_reset_data_buf x;
        Some (if tag_name = ''mixer'' \<or> tag_name = ''pcm-device'' \<or> tag_name = ''compress-device''
              then x\<lparr>current_tag := TAG_CARD\<rparr>
              else if strstr ''plugin'' tag_name \<noteq> None \<or> tag_name = ''props'' then x\<lparr>current_tag := TAG_DEVICE\<rparr>
              else if tag_name = ''card''
              then let x = x\<lparr>current_tag := TAG_ROOT\<rparr> in if card_found x then x\<lparr>card_parsed := True\<rparr> else x
              else x, s) })"

section \<open>Cards\<close>

text \<open>A call of a handler.\<close>

datatype sax = XML_START string | XML_END string | XML_DATA string

definition handle ::
    "'k client_env_scheme \<Rightarrow> sax \<Rightarrow> xml_userdata \<Rightarrow> 'z client_world_scheme \<Rightarrow> (xml_userdata \<times> 'z client_world_scheme) option" where
  "handle K e x s =
     (case e of XML_START t \<Rightarrow> snd_start_tag K t x s | XML_END t \<Rightarrow> snd_end_tag K t x s
      | XML_DATA t \<Rightarrow> Some (snd_data_handler t x, s))"

fun xml_parse ::
    "'k client_env_scheme \<Rightarrow> sax list \<Rightarrow> xml_userdata \<Rightarrow> 'z client_world_scheme \<Rightarrow> (xml_userdata \<times> 'z client_world_scheme) option" where
  "xml_parse K [] x s = Some (x, s)"
| "xml_parse K (e # es) x s = do { (x, s) \<leftarrow> handle K e x s; xml_parse K es x s }"

definition card_data0 :: "u32 \<Rightarrow> string option \<Rightarrow> xml_userdata" where
  "card_data0 cnum name =
     \<lparr>data_buf = [], offs = 0, xd_card = cnum, card_name = name, cur_card_def = None, cur_dev_def = None,
      card_found = False, card_parsed = False, current_tag = TAG_ROOT\<rparr>"

definition snd_free_card_def :: "nat \<Rightarrow> 'z snd_world_scheme \<Rightarrow> 'z snd_world_scheme" where
  "snd_free_card_def a s = s\<lparr>snd_card_list := remove1 a (snd_card_list s)\<rparr>"

definition upd_card :: "nat \<Rightarrow> (snd_dev_def_card \<Rightarrow> snd_dev_def_card) \<Rightarrow> 'z snd_world_scheme \<Rightarrow> 'z snd_world_scheme" where
  "upd_card a f s = s\<lparr>cards := (cards s)(a := f (cards s a))\<rparr>"

text \<open>
  The name of a physical card: \<open>id_file\<close> is what \<open>fgets\<close> reads of
  \<open>/proc/asound/card<n>/id\<close>, \<open>None\<close> when the file cannot be opened and
  \<open>Some None\<close> when it is empty. The result is \<open>None\<close> when memory ran
  out, else the number and the name to search for.
\<close>

definition read_card_id ::
    "'k client_env_scheme \<Rightarrow> string option option \<Rightarrow> u32 \<Rightarrow> 'z client_world_scheme \<Rightarrow>
       ((u32 \<times> string option) option \<times> 'z client_world_scheme) option" where
  "read_card_id K id_file cnum s =
     (case id_file of None \<Rightarrow> Some (Some (cnum, None), s)
      | Some line \<Rightarrow> do {
          (ok, s) \<leftarrow> client_calloc K s;
          if \<not> ok then Some (None, s)
          else case line of None \<Rightarrow> Some (Some (cnum, None), s)
            | Some l \<Rightarrow> if l = [] then None else Some (Some (- 1, Some (butlast l)), s) })"

text \<open>The search in the list of the cards; a card without a name cannot be compared.\<close>

fun search_card :: "string option \<Rightarrow> u32 \<Rightarrow> nat list \<Rightarrow> 'z snd_world_scheme \<Rightarrow> nat option option" where
  "search_card name cnum [] s = Some None"
| "search_card name cnum (a # as) s =
     (case name of
        Some n \<Rightarrow>
          (case sd_name (cards s a) of None \<Rightarrow> None
           | Some m \<Rightarrow> if has_prefix n m then Some (Some a) else search_card name cnum as s)
      | None \<Rightarrow> if sd_card (cards s a) = cnum then Some (Some a) else search_card name cnum as s)"

text \<open>
  \<open>xml\<close> is \<open>None\<close> when the file or the parser cannot be opened, else the
  calls of the handlers and whether the parser accepts the file. When it does not, the
  function returns the card its search looked at last.
\<close>

definition snd_card_def_get_card ::
    "'k client_env_scheme \<Rightarrow> string option option \<Rightarrow> (sax list \<times> bool) option \<Rightarrow> u32 \<Rightarrow> 'z snd_world_scheme \<Rightarrow>
       (nat option \<times> 'z snd_world_scheme) option" where
  "snd_card_def_get_card K id_file xml cnum s = do {
     (key, s) \<leftarrow> read_card_id K id_file cnum s;
     case key of None \<Rightarrow> Some (None, s)
     | Some (cnum, name) \<Rightarrow> do {
         hit \<leftarrow> search_card name cnum (snd_card_list s) s;
         case hit of
           Some a \<Rightarrow> Some (Some a, upd_card a (\<lambda>c. c\<lparr>sd_refcnt := sd_refcnt c + 1\<rparr>) s)
         | None \<Rightarrow>
           (case xml of None \<Rightarrow> Some (None, s)
            | Some (es, accepted) \<Rightarrow> do {
                (x, s) \<leftarrow> xml_parse K es (card_data0 cnum name) s;
                if \<not> accepted
                then Some (if snd_card_list s = [] then None else Some (last (snd_card_list s)), s)
                else case cur_card_def x of None \<Rightarrow> Some (None, s)
                  | Some c \<Rightarrow>
                    let a = card_next s in
                    Some (Some a, s\<lparr>cards := (cards s)(a := c\<lparr>sd_refcnt := sd_refcnt c + 1\<rparr>),
                                    snd_card_list := snd_card_list s @ [a], card_next := a + 1\<rparr>) })}}"

definition snd_card_def_put_card :: "nat option \<Rightarrow> 'z snd_world_scheme \<Rightarrow> 'z snd_world_scheme" where
  "snd_card_def_put_card p s =
     (case p of None \<Rightarrow> s
      | Some a \<Rightarrow>
        if a \<notin> set (snd_card_list s) then s
        else let s = upd_card a (\<lambda>c. c\<lparr>sd_refcnt := sd_refcnt c - 1\<rparr>) s
             in if sd_refcnt (cards s a) = 0 then snd_free_card_def a s else s)"

section \<open>Devices of a card\<close>

text \<open>Access to a card that was freed is a trap.\<close>

definition live_card :: "nat \<Rightarrow> 'z snd_world_scheme \<Rightarrow> snd_dev_def_card option" where
  "live_card a s = (if a \<in> set (snd_card_list s) then Some (cards s a) else None)"

abbreviation (input) SND_NODE_TYPE_MAX :: int where "SND_NODE_TYPE_MAX \<equiv> 3"

definition node_list_of :: "int \<Rightarrow> snd_node_type" where
  "node_list_of ty = (if ty = 0 then SND_NODE_TYPE_PCM else if ty = 2 then SND_NODE_TYPE_COMPR else SND_NODE_TYPE_MIXER)"

type_synonym node_ptr = "nat \<times> snd_node_type \<times> nat"

definition snd_card_def_get_node ::
    "nat option \<Rightarrow> u32 \<Rightarrow> int \<Rightarrow> 'z snd_world_scheme \<Rightarrow> node_ptr option option" where
  "snd_card_def_get_node p i ty s =
     (case p of None \<Rightarrow> Some None
      | Some a \<Rightarrow>
        if ty \<ge> SND_NODE_TYPE_MAX then Some None
        else do {
          c \<leftarrow> live_card a s;
          let ds = devs_list c (node_list_of ty);
          Some (map_option (\<lambda>n. (a, node_list_of ty, n)) (find (\<lambda>n. nd_device (ds ! n) = i) [0..<length ds])) })"

definition snd_card_def_get_num_node :: "nat option \<Rightarrow> int \<Rightarrow> 'z snd_world_scheme \<Rightarrow> int option" where
  "snd_card_def_get_num_node p ty s =
     (case p of None \<Rightarrow> Some 0
      | Some a \<Rightarrow>
        if ty \<ge> SND_NODE_TYPE_MAX then Some 0
        else do { c \<leftarrow> live_card a s; Some (int (length (devs_list c (node_list_of ty)))) })"

text \<open>The result and the pointers that are written to the list. The loop stops when as many
  as requested were written, which for zero never happens.\<close>

definition snd_card_def_get_nodes_for_type ::
    "nat option \<Rightarrow> int \<Rightarrow> int \<Rightarrow> 'z snd_world_scheme \<Rightarrow> (int \<times> node_ptr list) option" where
  "snd_card_def_get_nodes_for_type p ty num_nodes s =
     (case p of None \<Rightarrow> Some (- EINVAL, [])
      | Some a \<Rightarrow>
        if ty \<ge> SND_NODE_TYPE_MAX then Some (- EINVAL, [])
        else do {
          c \<leftarrow> live_card a s;
          let n = length (devs_list c (node_list_of ty));
          if num_nodes > int n then Some (- EINVAL, [])
          else Some (0, map (\<lambda>i. (a, node_list_of ty, i)) [0..<(if num_nodes > 0 then nat num_nodes else n)]) })"

text \<open>The device behind a pointer.\<close>

definition node_at :: "node_ptr \<Rightarrow> 'z snd_world_scheme \<Rightarrow> snd_dev_def option" where
  "node_at p s =
     (case p of (a, t, i) \<Rightarrow> do {
        c \<leftarrow> live_card a s;
        if i < length (devs_list c t) then Some (devs_list c t ! i) else None })"

text \<open>The result and what was written to the out-parameter.\<close>

definition snd_card_def_get_int ::
    "node_ptr option \<Rightarrow> string \<Rightarrow> 'z snd_world_scheme \<Rightarrow> (int \<times> int option) option" where
  "snd_card_def_get_int p prop s =
     (case p of None \<Rightarrow> Some (- EINVAL, None)
      | Some node \<Rightarrow> do {
          d \<leftarrow> node_at node s;
          if prop = ''type'' then Some (0, Some (nd_type d))
          else if prop = ''id'' then Some (0, Some (sint (nd_device d)))
          else case map_of (prop_val_list d) prop of
              None \<Rightarrow> Some (- EINVAL, None)
            | Some v \<Rightarrow> do { n \<leftarrow> atoi v; Some (0, Some n) } })"

definition snd_card_def_get_str ::
    "node_ptr option \<Rightarrow> string \<Rightarrow> 'z snd_world_scheme \<Rightarrow> (int \<times> string option) option" where
  "snd_card_def_get_str p prop s =
     (case p of None \<Rightarrow> Some (- EINVAL, None)
      | Some node \<Rightarrow> do {
          d \<leftarrow> node_at node s;
          if prop = ''so-name'' then Some (0, nd_so_name d)
          else if prop = ''name'' then Some (0, nd_name d)
          else case map_of (prop_val_list d) prop of
              None \<Rightarrow> Some (- EINVAL, None)
            | Some v \<Rightarrow> Some (0, Some v) })"

end
