(* ===== verification/Snd_Card_Properties.thy ===== *)
theory Snd_Card_Properties
  imports Snd_Card
begin

text \<open>Properties of the sound card definitions: a definition file is read back to what it
  defines, references to cards are balanced, and two ways in which the parser fails.\<close>

section \<open>Definition files\<close>

record dev_spec =
  ds_kind :: snd_node_type
  ds_id :: string
  ds_name :: string
  ds_plugin :: string
  ds_so_name :: string
  ds_props :: "(string \<times> string) list"

record card_spec =
  cs_id :: string
  cs_name :: string
  cs_devs :: "dev_spec list"

fun dev_tag :: "snd_node_type \<Rightarrow> string" where
  "dev_tag SND_NODE_TYPE_PCM = ''pcm-device''"
| "dev_tag SND_NODE_TYPE_COMPR = ''compress-device''"
| "dev_tag SND_NODE_TYPE_MIXER = ''mixer''"

text \<open>An element with text, after some layout; expat may deliver the text in pieces.\<close>

definition line :: "(string \<Rightarrow> string list) \<Rightarrow> string \<Rightarrow> string \<Rightarrow> string \<Rightarrow> sax list" where
  "line pcs w t v = XML_DATA w # XML_START t # map XML_DATA (pcs v) @ [XML_END t]"

definition block :: "string \<Rightarrow> string \<Rightarrow> sax list \<Rightarrow> sax list" where
  "block w t es = XML_DATA w # XML_START t # es @ [XML_DATA w, XML_END t]"

definition dev_events :: "(string \<Rightarrow> string list) \<Rightarrow> string \<Rightarrow> dev_spec \<Rightarrow> sax list" where
  "dev_events pcs w d = block w (dev_tag (ds_kind d))
     (line pcs w ''id'' (ds_id d) @ line pcs w ''name'' (ds_name d)
      @ block w (ds_plugin d) (line pcs w ''so-name'' (ds_so_name d))
      @ block w ''props'' (concat (map (\<lambda>(p, v). line pcs w p v) (ds_props d))))"

definition card_events :: "(string \<Rightarrow> string list) \<Rightarrow> string \<Rightarrow> card_spec \<Rightarrow> sax list" where
  "card_events pcs w c = block w ''card''
     (line pcs w ''id'' (cs_id c) @ line pcs w ''name'' (cs_name c) @ concat (map (dev_events pcs w) (cs_devs c)))"

definition dev_of :: "dev_spec \<Rightarrow> snd_dev_def" where
  "dev_of d = \<lparr>nd_node_type = ds_kind d, nd_device = of_int (the (atoi (ds_id d))), nd_type = SND_NODE_DEV_TYPE_PLUGIN,
     nd_name = Some (ds_name d), nd_so_name = Some (ds_so_name d), prop_val_list = ds_props d\<rparr>"

definition card_of :: "card_spec \<Rightarrow> snd_dev_def_card" where
  "card_of c = \<lparr>sd_card = of_int (the (atoi (cs_id c))), sd_name = Some (cs_name c), sd_refcnt = 0,
     devs_list = (\<lambda>t. map dev_of (filter (\<lambda>d. ds_kind d = t) (cs_devs c)))\<rparr>"

text \<open>Texts that fit the buffer, and tags that are not the names of structural elements.\<close>

definition text_ok :: "string \<Rightarrow> bool" where
  "text_ok v \<longleftrightarrow> v \<noteq> [] \<and> length v < BUF_SIZE"

definition plain_tag :: "string \<Rightarrow> bool" where
  "plain_tag t \<longleftrightarrow> t \<notin> {''card'', ''pcm-device'', ''compress-device'', ''mixer'', ''props''} \<and> strstr ''plugin'' t = None"

definition dev_spec_ok :: "dev_spec \<Rightarrow> bool" where
  "dev_spec_ok d \<longleftrightarrow> text_ok (ds_id d) \<and> atoi (ds_id d) \<noteq> None \<and> text_ok (ds_name d) \<and> text_ok (ds_so_name d)
     \<and> strstr ''plugin'' (ds_plugin d) \<noteq> None
     \<and> (\<forall>(p, v) \<in> set (ds_props d). plain_tag p \<and> p \<noteq> [] \<and> text_ok v)"

definition card_spec_ok :: "card_spec \<Rightarrow> bool" where
  "card_spec_ok c \<longleftrightarrow> text_ok (cs_id c) \<and> atoi (cs_id c) \<noteq> None \<and> text_ok (cs_name c) \<and> list_all dev_spec_ok (cs_devs c)"

section \<open>Runs of the handlers\<close>

text \<open>All allocations succeed; a run changes nothing of the process but its history.\<close>

definition mem_ok :: "client_env \<Rightarrow> bool" where
  "mem_ok K \<longleftrightarrow> (\<forall>h. cl_ret K h CL_CALLOC = 0)"

definition runs :: "client_env \<Rightarrow> sax list \<Rightarrow> xml_userdata \<Rightarrow> xml_userdata \<Rightarrow> bool" where
  "runs K es x y \<longleftrightarrow> (\<forall>s :: snd_world. \<exists>h. xml_parse K es x s = Some (y, s\<lparr>cl_hist := h\<rparr>))"

lemma xml_parse_append:
  "xml_parse K (es @ fs) x s = do { (x, s) \<leftarrow> xml_parse K es x s; xml_parse K fs x s }"
proof (induction es arbitrary: x s)
  case (Cons e es)
  then show ?case by (cases "handle K e x s") auto
qed simp

lemma runs_Nil: "runs K [] x x"
  unfolding runs_def
proof
  fix s :: snd_world
  have "xml_parse K [] x s = Some (x, s\<lparr>cl_hist := cl_hist s\<rparr>)" by simp
  then show "\<exists>h. xml_parse K [] x s = Some (x, s\<lparr>cl_hist := h\<rparr>)" ..
qed

lemma runs_append:
  assumes "runs K es x y" "runs K fs y z"
  shows "runs K (es @ fs) x z"
  unfolding runs_def
proof
  fix s :: snd_world
  obtain h where h: "xml_parse K es x s = Some (y, s\<lparr>cl_hist := h\<rparr>)" using assms(1) unfolding runs_def by blast
  obtain h' where "xml_parse K fs y (s\<lparr>cl_hist := h\<rparr>) = Some (z, s\<lparr>cl_hist := h\<rparr>\<lparr>cl_hist := h'\<rparr>)"
    using assms(2) unfolding runs_def by blast
  with h show "\<exists>h. xml_parse K (es @ fs) x s = Some (z, s\<lparr>cl_hist := h\<rparr>)"
    by (auto simp: xml_parse_append)
qed

lemma runs_concat:
  assumes "\<And>x xs ys. zs = xs @ x # ys \<Longrightarrow> runs K (f x) (g xs) (g (xs @ [x]))"
  shows "runs K (concat (map f zs)) (g []) (g zs)"
  using assms
proof (induction zs rule: rev_induct)
  case (snoc z zs)
  have "runs K (concat (map f zs)) (g []) (g zs)" using snoc.prems by (intro snoc.IH) simp
  moreover have "runs K (f z) (g zs) (g (zs @ [z]))" using snoc.prems [of zs z "[]"] by simp
  ultimately show ?case using runs_append by fastforce
qed (simp add: runs_Nil)

lemma parse_pieces:
  assumes "offs x = length (data_buf x)" "offs x + length (concat vs) < BUF_SIZE"
  shows "xml_parse K (map XML_DATA vs) x s
    = Some (x\<lparr>data_buf := data_buf x @ concat vs, offs := offs x + length (concat vs)\<rparr>, s)"
  using assms
proof (induction vs arbitrary: x)
  case (Cons v vs)
  then show ?case by (simp add: handle_def snd_data_handler_def add.assoc)
qed simp


section \<open>The card that is searched\<close>

text \<open>The state between two elements, and a card with one more device.\<close>

definition cst :: "u32 \<Rightarrow> snd_dev_def_card \<Rightarrow> (snd_node_type \<times> nat) option \<Rightarrow> snd_card_defs_xml_tags \<Rightarrow> xml_userdata" where
  "cst n c dv tag = \<lparr>data_buf = [], offs = 0, xd_card = n, card_name = None, cur_card_def = Some c, cur_dev_def = dv,
     card_found = True, card_parsed = False, current_tag = tag\<rparr>"

definition plus_dev :: "snd_dev_def_card \<Rightarrow> snd_dev_def \<Rightarrow> snd_dev_def_card" where
  "plus_dev c d = c\<lparr>devs_list := (devs_list c)(nd_node_type d := devs_list c (nd_node_type d) @ [d])\<rparr>"

abbreviation dst :: "u32 \<Rightarrow> snd_dev_def_card \<Rightarrow> snd_dev_def \<Rightarrow> snd_card_defs_xml_tags \<Rightarrow> xml_userdata" where
  "dst n c d tag \<equiv> cst n (plus_dev c d) (Some (nd_node_type d, length (devs_list c (nd_node_type d)))) tag"

lemma calloc_ok: "mem_ok K \<Longrightarrow> client_calloc K s = Some (True, s\<lparr>cl_hist := cl_hist s @ [CL_CALLOC]\<rparr>)"
  by (simp add: client_calloc_def client_ecall_def mem_ok_def)

lemma upd_last_dev:
  "nd_node_type (f d) = nd_node_type d \<Longrightarrow> upd_cur_dev f (dst n c d tag) = dst n c (f d) tag"
  by (simp add: upd_cur_dev_def cst_def plus_dev_def)

lemma line_run:
  assumes "plain_tag t" "length v < BUF_SIZE" "concat (pcs v) = v"
    and "\<And>s :: snd_world. \<exists>h. snd_process_data_buf K t ((cst n c dv tag)\<lparr>data_buf := v, offs := length v\<rparr>) s
            = Some ((cst n c' dv tag)\<lparr>data_buf := v, offs := length v\<rparr>, s\<lparr>cl_hist := h\<rparr>)"
  shows "runs K (line pcs w t v) (cst n c dv tag) (cst n c' dv tag)"
  unfolding runs_def
proof
  fix s :: snd_world
  have "xml_parse K [XML_DATA w, XML_START t] (cst n c dv tag) s = Some (cst n c dv tag, s)"
    using assms(1) by (simp add: handle_def snd_start_tag_def snd_data_handler_def snd_reset_data_buf_def
        snd_dev_def_init_def cst_def plain_tag_def Let_def)
  moreover have "xml_parse K (map XML_DATA (pcs v)) (cst n c dv tag) s
      = Some ((cst n c dv tag)\<lparr>data_buf := v, offs := length v\<rparr>, s)"
    using assms(2,3) parse_pieces [of "cst n c dv tag" "pcs v" K s] by (simp add: cst_def)
  moreover obtain h where "snd_process_data_buf K t ((cst n c dv tag)\<lparr>data_buf := v, offs := length v\<rparr>) s
            = Some ((cst n c' dv tag)\<lparr>data_buf := v, offs := length v\<rparr>, s\<lparr>cl_hist := h\<rparr>)"
    using assms(4) by blast
  then have "xml_parse K [XML_END t] ((cst n c dv tag)\<lparr>data_buf := v, offs := length v\<rparr>) s
      = Some (cst n c' dv tag, s\<lparr>cl_hist := h\<rparr>)"
    using assms(1) by (simp add: handle_def snd_end_tag_def plain_tag_def Let_def snd_reset_data_buf_def cst_def)
  moreover have "line pcs w t v = [XML_DATA w, XML_START t] @ map XML_DATA (pcs v) @ [XML_END t]"
    by (simp add: line_def)
  ultimately show "\<exists>h. xml_parse K (line pcs w t v) (cst n c dv tag) s = Some (cst n c' dv tag, s\<lparr>cl_hist := h\<rparr>)"
    by (simp only: xml_parse_append bind.bind_lunit prod.case) blast
qed

lemma upd_cur_dev_buf:
  "upd_cur_dev f (x\<lparr>data_buf := b\<rparr>) = (upd_cur_dev f x)\<lparr>data_buf := b\<rparr>"
  "upd_cur_dev f (x\<lparr>offs := k\<rparr>) = (upd_cur_dev f x)\<lparr>offs := k\<rparr>"
  by (simp_all add: upd_cur_dev_def split: option.split)

lemma cst_fields [simp]:
  "card_parsed (cst n c dv tag) = False" "current_tag (cst n c dv tag) = tag" "cur_dev_def (cst n c dv tag) = dv"
  "cur_card_def (cst n c dv tag) = Some c" "xd_card (cst n c dv tag) = n" "card_name (cst n c dv tag) = None"
  by (simp_all add: cst_def)

lemma dev_line_run:
  assumes "mem_ok K" "text_ok v" "concat (pcs v) = v"
  shows "runs K (line pcs w ''name'' v) (dst n c d TAG_DEVICE) (dst n c (d\<lparr>nd_name := Some v\<rparr>) TAG_DEVICE)"
    and "atoi v = Some k \<Longrightarrow>
      runs K (line pcs w ''id'' v) (dst n c d TAG_DEVICE) (dst n c (d\<lparr>nd_device := of_int k\<rparr>) TAG_DEVICE)"
    and "runs K (line pcs w ''so-name'' v) (dst n c d TAG_PLUGIN) (dst n c (d\<lparr>nd_so_name := Some v\<rparr>) TAG_PLUGIN)"
    and "plain_tag p \<Longrightarrow> p \<noteq> [] \<Longrightarrow> runs K (line pcs w p v) (dst n c d TAG_DEV_PROPS)
      (dst n c (d\<lparr>prop_val_list := prop_val_list d @ [(p, v)]\<rparr>) TAG_DEV_PROPS)"
proof -
  have v: "v \<noteq> []" "length v < BUF_SIZE" using assms(2) by (simp_all add: text_ok_def)
  have plain: "plain_tag ''name''" "plain_tag ''id''" "plain_tag ''so-name''" by (simp_all add: plain_tag_def)
  have keep: "\<exists>h. s = s\<lparr>cl_hist := h\<rparr>" for s :: snd_world by (rule exI [of _ "cl_hist s"]) simp
  note step = line_run [where pcs = pcs and v = v, OF _ v(2) assms(3)]
  note simps = snd_process_data_buf_def v calloc_ok [OF assms(1)] Let_def not_le upd_cur_dev_buf upd_last_dev
  show "runs K (line pcs w ''name'' v) (dst n c d TAG_DEVICE) (dst n c (d\<lparr>nd_name := Some v\<rparr>) TAG_DEVICE)"
    by (simp, rule step [OF plain(1)]) (simp add: simps snd_parse_device_properties_def, blast)
  show "runs K (line pcs w ''id'' v) (dst n c d TAG_DEVICE) (dst n c (d\<lparr>nd_device := of_int k\<rparr>) TAG_DEVICE)"
    if "atoi v = Some k"
    by (simp, rule step [OF plain(2)]) (use keep that in \<open>simp add: simps snd_parse_device_properties_def\<close>)
  show "runs K (line pcs w ''so-name'' v) (dst n c d TAG_PLUGIN) (dst n c (d\<lparr>nd_so_name := Some v\<rparr>) TAG_PLUGIN)"
    by (simp, rule step [OF plain(3)]) (simp add: simps snd_parse_plugin_properties_def, blast)
  show "runs K (line pcs w p v) (dst n c d TAG_DEV_PROPS)
      (dst n c (d\<lparr>prop_val_list := prop_val_list d @ [(p, v)]\<rparr>) TAG_DEV_PROPS)" if "plain_tag p" "p \<noteq> []"
  proof (simp, rule step [OF that(1)])
    fix s :: snd_world
    have "p \<noteq> ''props''" using that(1) by (auto simp: plain_tag_def)
    then show "\<exists>h. snd_process_data_buf K p ((dst n c d TAG_DEV_PROPS)\<lparr>data_buf := v, offs := length v\<rparr>) s
        = Some ((cst n (plus_dev c (d\<lparr>prop_val_list := prop_val_list d @ [(p, v)]\<rparr>))
             (Some (nd_node_type d, length (devs_list c (nd_node_type d)))) TAG_DEV_PROPS)\<lparr>data_buf := v, offs := length v\<rparr>,
           s\<lparr>cl_hist := h\<rparr>)"
      using that(2) by (simp add: simps snd_parse_device_custom_properties_def) blast
  qed
qed

lemma block_run:
  assumes "runs K [XML_DATA w, XML_START t] x y" "runs K es y z" "runs K [XML_DATA w, XML_END t] z u"
  shows "runs K (block w t es) x u"
  using runs_append [OF assms(1) runs_append [OF assms(2,3)]] by (simp add: block_def)

lemma runs_quiet: "(\<And>s :: snd_world. xml_parse K es x s = Some (y, s)) \<Longrightarrow> runs K es x y"
  using runs_Nil [of K y] by (simp add: runs_def)

lemmas handler_defs = handle_def snd_start_tag_def snd_end_tag_def snd_data_handler_def snd_reset_data_buf_def
  snd_dev_def_init_def snd_process_data_buf_def Let_def cst_def

lemma plugin_tag: "strstr ''plugin'' p \<noteq> None \<Longrightarrow>
    p \<notin> {''card'', ''pcm-device'', ''compress-device'', ''mixer'', ''props'', ''so-name''}"
  by auto

lemma plugin_block:
  assumes "length w < BUF_SIZE" "strstr ''plugin'' p \<noteq> None"
  shows "runs K [XML_DATA w, XML_START p] (dst n c d TAG_DEVICE) (dst n c (d\<lparr>nd_type := SND_NODE_DEV_TYPE_PLUGIN\<rparr>) TAG_PLUGIN)"
    and "runs K [XML_DATA w, XML_END p] (dst n c d TAG_PLUGIN) (dst n c d TAG_DEVICE)"
  using assms(1) plugin_tag [OF assms(2)] assms(2) by (auto intro!: runs_quiet simp: handler_defs snd_dev_set_type_def upd_cur_dev_def
      plus_dev_def snd_parse_plugin_properties_def)

lemma props_block:
  assumes "length w < BUF_SIZE"
  shows "runs K [XML_DATA w, XML_START ''props''] (dst n c d TAG_DEVICE) (dst n c d TAG_DEV_PROPS)"
    and "runs K [XML_DATA w, XML_END ''props''] (dst n c d TAG_DEV_PROPS) (dst n c d TAG_DEVICE)"
  using assms by (auto intro!: runs_quiet simp: handler_defs snd_parse_device_custom_properties_def)

definition dev_zero :: "snd_node_type \<Rightarrow> snd_dev_def" where
  "dev_zero t = \<lparr>nd_node_type = t, nd_device = 0, nd_type = SND_NODE_DEV_TYPE_HW, nd_name = None, nd_so_name = None,
     prop_val_list = []\<rparr>"

lemma dev_block:
  assumes "length w < BUF_SIZE" "mem_ok K"
  shows "runs K [XML_DATA w, XML_START (dev_tag t)] (cst n c dv TAG_CARD) (dst n c (dev_zero t) TAG_DEVICE)"
    and "runs K [XML_DATA w, XML_END (dev_tag t)] (dst n c d TAG_DEVICE) (dst n c d TAG_CARD)"
proof -
  show "runs K [XML_DATA w, XML_START (dev_tag t)] (cst n c dv TAG_CARD) (dst n c (dev_zero t) TAG_DEVICE)"
    unfolding runs_def by (cases t) (auto simp: handler_defs calloc_ok [OF assms(2)] dev_zero_def plus_dev_def)
  show "runs K [XML_DATA w, XML_END (dev_tag t)] (dst n c d TAG_DEVICE) (dst n c d TAG_CARD)"
    using assms(1) by (cases t) (auto intro!: runs_quiet simp: handler_defs snd_parse_device_properties_def)
qed

lemma dev_events_run:
  assumes "mem_ok K" "length w < BUF_SIZE" "\<And>v. concat (pcs v) = v" "dev_spec_ok d"
  shows "runs K (dev_events pcs w d) (cst n c dv TAG_CARD) (dst n c (dev_of d) TAG_CARD)"
proof -
  obtain k where k: "atoi (ds_id d) = Some k" using assms(4) by (auto simp: dev_spec_ok_def)
  define d1 where "d1 = (dev_zero (ds_kind d))\<lparr>nd_device := of_int k\<rparr>\<lparr>nd_name := Some (ds_name d)\<rparr>"
  define d2 where "d2 = d1\<lparr>nd_type := SND_NODE_DEV_TYPE_PLUGIN\<rparr>\<lparr>nd_so_name := Some (ds_so_name d)\<rparr>"
  let ?props = "\<lambda>ps. dst n c (d2\<lparr>prop_val_list := ps\<rparr>) TAG_DEV_PROPS"
  note dl = dev_line_run [where pcs = pcs, OF assms(1) _ assms(3)] and ok = assms(4) [unfolded dev_spec_ok_def]
  have props: "runs K (concat (map (\<lambda>(p, v). line pcs w p v) (ds_props d))) (?props []) (?props (ds_props d))"
  proof (rule runs_concat [where g = ?props])
    fix pv ps qs assume "ds_props d = ps @ pv # qs"
    then have "plain_tag (fst pv)" "fst pv \<noteq> []" "text_ok (snd pv)" using ok by auto
    from dl(4) [OF this(3,1,2), of w n c "d2\<lparr>prop_val_list := ps\<rparr>"]
    show "runs K (case pv of (p, v) \<Rightarrow> line pcs w p v) (?props ps) (?props (ps @ [pv]))"
      by (simp add: case_prod_beta)
  qed
  have d2: "?props [] = dst n c d2 TAG_DEV_PROPS" by (simp add: d2_def d1_def dev_zero_def)
  have "dev_of d = d2\<lparr>prop_val_list := ds_props d\<rparr>" by (simp add: d2_def d1_def dev_zero_def dev_of_def k)
  moreover have "runs K (block w ''props'' (concat (map (\<lambda>(p, v). line pcs w p v) (ds_props d))))
      (dst n c d2 TAG_DEVICE) (dst n c (d2\<lparr>prop_val_list := ds_props d\<rparr>) TAG_DEVICE)"
    by (rule block_run [OF props_block(1) props [unfolded d2]]) (simp_all add: assms(2) props_block(2) [of w K n c "d2\<lparr>prop_val_list := ds_props d\<rparr>", simplified])
  moreover have "runs K (block w (ds_plugin d) (line pcs w ''so-name'' (ds_so_name d))) (dst n c d1 TAG_DEVICE) (dst n c d2 TAG_DEVICE)"
    unfolding d2_def by (rule block_run [OF plugin_block(1) dl(3) plugin_block(2)]) (simp_all add: assms(2) ok)
  moreover have "runs K (line pcs w ''id'' (ds_id d)) (dst n c (dev_zero (ds_kind d)) TAG_DEVICE)
      (dst n c ((dev_zero (ds_kind d))\<lparr>nd_device := of_int k\<rparr>) TAG_DEVICE)"
    "runs K (line pcs w ''name'' (ds_name d)) (dst n c ((dev_zero (ds_kind d))\<lparr>nd_device := of_int k\<rparr>) TAG_DEVICE)
      (dst n c d1 TAG_DEVICE)"
    unfolding d1_def by (rule dl(2) [OF _ k] dl(1); simp add: ok)+
  ultimately show ?thesis
    unfolding dev_events_def
    by (intro block_run [OF dev_block(1) _ dev_block(2)] runs_append) (simp_all add: assms(1,2))
qed

section \<open>Cards that are skipped\<close>

text \<open>Nothing was found yet.\<close>

definition outside :: "u32 \<Rightarrow> xml_userdata \<Rightarrow> bool" where
  "outside n x \<longleftrightarrow> xd_card x = n \<and> card_name x = None \<and> cur_card_def x = None \<and> cur_dev_def x = None
     \<and> \<not> card_found x \<and> \<not> card_parsed x"

lemma upd_cur_dev_outside: "outside n x \<Longrightarrow> upd_cur_dev f x = x"
  by (simp add: outside_def upd_cur_dev_def)

lemma skip_event:
  assumes "outside n x" "current_tag x \<noteq> TAG_CARD" "e \<noteq> XML_START ''card''"
  shows "\<exists>y. outside n y \<and> current_tag y \<noteq> TAG_CARD \<and> (\<forall>s :: snd_world. handle K e x s = Some (y, s))"
  using assms by (cases e) (auto simp: handle_def snd_start_tag_def snd_end_tag_def snd_data_handler_def
      snd_reset_data_buf_def snd_dev_set_type_def upd_cur_dev_outside outside_def upd_cur_dev_def Let_def)

lemma skip_events:
  assumes "outside n x" "current_tag x \<noteq> TAG_CARD" "XML_START ''card'' \<notin> set es"
  shows "\<exists>y. outside n y \<and> runs K es x y"
  using assms
proof (induction es arbitrary: x)
  case (Cons e es)
  obtain y where y: "outside n y" "current_tag y \<noteq> TAG_CARD" "\<And>s :: snd_world. handle K e x s = Some (y, s)"
    using skip_event [of n x e K] Cons.prems by (auto simp: eq_commute)
  obtain z where z: "outside n z" "runs K es y z" using Cons.IH [OF y(1,2)] Cons.prems by auto
  have "runs K [e] x y" by (rule runs_quiet) (simp add: y(3))
  then show ?case using z runs_append [of K "[e]" x y es z] by auto
qed (use runs_Nil in blast)

lemma line_events: "XML_START ''card'' \<in> set (line pcs w t v) \<longleftrightarrow> t = ''card''"
  by (auto simp: line_def)

lemma block_events: "XML_START ''card'' \<in> set (block w t es) \<longleftrightarrow> t = ''card'' \<or> XML_START ''card'' \<in> set es"
  by (auto simp: block_def)

lemma dev_tag_not_card: "dev_tag t \<noteq> ''card''"
  by (cases t) simp_all

lemma dev_events_no_card: "dev_spec_ok d \<Longrightarrow> XML_START ''card'' \<notin> set (dev_events pcs w d)"
  by (auto simp: dev_events_def dev_spec_ok_def line_events block_events dev_tag_not_card plain_tag_def dest: plugin_tag)

text \<open>The identification of a card: it opens the card that is searched, and only that one.\<close>

lemma outside_line:
  assumes "outside n x" "current_tag x = TAG_CARD" "text_ok v" "concat (pcs v) = v" "plain_tag t"
  shows "xml_parse K (line pcs w t v) x s
    = do { (y, s) \<leftarrow> snd_parse_card_properties K t (x\<lparr>offs := length v, data_buf := v\<rparr>) s; Some (snd_reset_data_buf y, s) }"
proof -
  let ?x = "x\<lparr>offs := length v, data_buf := v\<rparr>"
  have "xml_parse K [XML_DATA w, XML_START t] x s = Some (snd_reset_data_buf x, s)"
    using assms by (simp add: handle_def snd_start_tag_def snd_data_handler_def snd_reset_data_buf_def
        snd_dev_def_init_def outside_def plain_tag_def Let_def)
  moreover have "xml_parse K (map XML_DATA (pcs v)) (snd_reset_data_buf x) s = Some (?x, s)"
    using assms(3,4) parse_pieces [of "snd_reset_data_buf x" "pcs v" K s] by (simp add: snd_reset_data_buf_def text_ok_def)
  moreover have "xml_parse K [XML_END t] ?x s
      = do { (y, s) \<leftarrow> snd_parse_card_properties K t ?x s; Some (snd_reset_data_buf y, s) }"
    using assms by (simp add: handle_def snd_end_tag_def snd_process_data_buf_def outside_def plain_tag_def Let_def text_ok_def
        not_le split: bind_split)
  moreover have "line pcs w t v = [XML_DATA w, XML_START t] @ map XML_DATA (pcs v) @ [XML_END t]"
    by (simp add: line_def)
  ultimately show ?thesis by (simp only: xml_parse_append bind.bind_lunit prod.case)
qed

lemma card_line:
  assumes "outside n x" "current_tag x = TAG_CARD" "mem_ok K" "text_ok v" "concat (pcs v) = v"
  shows "atoi v = Some k \<Longrightarrow> (of_int k :: u32) \<noteq> n \<Longrightarrow> runs K (line pcs w ''id'' v) x (snd_reset_data_buf x)"
    and "runs K (line pcs w ''name'' v) x (snd_reset_data_buf x)"
    and "atoi v = Some k \<Longrightarrow> of_int k = n \<Longrightarrow>
      runs K (line pcs w ''id'' v) x (cst n (card_zero\<lparr>sd_card := n\<rparr>) None TAG_CARD)"
proof -
  have plain: "plain_tag ''name''" "plain_tag ''id''" by (simp_all add: plain_tag_def)
  note step = outside_line [where pcs = pcs, OF assms(1,2,4,5)]
  note simps = snd_parse_card_properties_def snd_reset_data_buf_def
  show "runs K (line pcs w ''name'' v) x (snd_reset_data_buf x)"
    by (rule runs_quiet) (use assms(1) in \<open>simp add: step plain simps outside_def\<close>)
  show "runs K (line pcs w ''id'' v) x (snd_reset_data_buf x)" if "atoi v = Some k" "(of_int k :: u32) \<noteq> n"
    by (rule runs_quiet) (use that assms(1) in \<open>simp add: step plain simps outside_def\<close>)
  show "runs K (line pcs w ''id'' v) x (cst n (card_zero\<lparr>sd_card := n\<rparr>) None TAG_CARD)"
    if "atoi v = Some k" "of_int k = n"
    unfolding runs_def using that assms(1,2)
    by (auto simp: step plain simps outside_def snd_parse_initialize_card_def_def calloc_ok [OF assms(3)] cst_def)
qed

lemma card_open:
  assumes "outside n x"
  shows "\<exists>y. outside n y \<and> current_tag y = TAG_CARD \<and> runs K [XML_DATA w, XML_START ''card''] x y"
proof -
  let ?y = "(snd_reset_data_buf x)\<lparr>current_tag := TAG_CARD\<rparr>"
  have "runs K [XML_DATA w, XML_START ''card''] x ?y"
    by (rule runs_quiet) (use assms in \<open>simp add: handle_def snd_start_tag_def snd_data_handler_def snd_reset_data_buf_def
        snd_dev_def_init_def outside_def Let_def\<close>)
  moreover have "outside n ?y" using assms by (simp add: outside_def snd_reset_data_buf_def)
  ultimately show ?thesis by fastforce
qed

lemma outside_reset: "outside n x \<Longrightarrow> outside n (snd_reset_data_buf x)" "current_tag (snd_reset_data_buf x) = current_tag x"
  by (simp_all add: outside_def snd_reset_data_buf_def)

lemma skip_card:
  assumes "outside n x" "mem_ok K" "length w < BUF_SIZE" "\<And>v. concat (pcs v) = v" "card_spec_ok c"
    "atoi (cs_id c) = Some k" "(of_int k :: u32) \<noteq> n"
  shows "\<exists>y. outside n y \<and> runs K (card_events pcs w c) x y"
proof -
  note ok = assms(5) [unfolded card_spec_ok_def]
  obtain y where y: "outside n y" "current_tag y = TAG_CARD" "runs K [XML_DATA w, XML_START ''card''] x y"
    using card_open [OF assms(1)] by blast
  let ?y = "snd_reset_data_buf y"
  have y': "outside n ?y" "current_tag ?y = TAG_CARD" using y outside_reset by simp_all
  have "snd_reset_data_buf ?y = ?y" by (simp add: snd_reset_data_buf_def)
  with card_line(1) [where pcs = pcs, OF y(1,2) assms(2) _ assms(4) assms(6,7)] card_line(2) [where pcs = pcs, OF y' assms(2) _ assms(4)] ok
  have lines: "runs K (line pcs w ''id'' (cs_id c)) y ?y" "runs K (line pcs w ''name'' (cs_name c)) ?y ?y" by simp_all
  have "\<exists>z. outside n z \<and> runs K (concat (map (dev_events pcs w) (cs_devs c)) @ [XML_DATA w, XML_END ''card'']) ?y z"
  proof (cases "cs_devs c")
    case Nil
    have "runs K [XML_DATA w, XML_END ''card''] ?y (?y\<lparr>current_tag := TAG_ROOT\<rparr>)"
      by (rule runs_quiet) (use y'(1) y(2) assms(3) in \<open>auto simp: handle_def snd_end_tag_def snd_data_handler_def
          snd_process_data_buf_def snd_parse_card_properties_def snd_reset_data_buf_def outside_def Let_def\<close>)
    moreover have "outside n (?y\<lparr>current_tag := TAG_ROOT\<rparr>)" using y'(1) by (simp add: outside_def)
    ultimately show ?thesis using Nil by auto
  next
    case (Cons d ds)
    let ?z = "?y\<lparr>current_tag := TAG_DEVICE\<rparr>" and ?t = "dev_tag (ds_kind d)"
    have "runs K [XML_DATA w, XML_START ?t] ?y ?z"
      by (rule runs_quiet, cases "ds_kind d") (use y'(1) in \<open>simp_all add: handle_def snd_start_tag_def snd_data_handler_def
          snd_reset_data_buf_def outside_def Let_def\<close>)
    moreover obtain es where es: "dev_events pcs w d = [XML_DATA w, XML_START ?t] @ es"
      by (simp add: dev_events_def block_def)
    let ?rest = "es @ concat (map (dev_events pcs w) ds) @ [XML_DATA w, XML_END ''card'']"
    have "XML_START ''card'' \<notin> set (dev_events pcs w e)" if "e \<in> set (d # ds)" for e
      using dev_events_no_card ok that Cons by (auto simp: list_all_iff)
    then have "XML_START ''card'' \<notin> set ?rest" using es by fastforce
    moreover have "outside n ?z" using y'(1) by (simp add: outside_def)
    ultimately show ?thesis
      using skip_events [of n ?z ?rest K] runs_append [of K "[XML_DATA w, XML_START ?t]" ?y ?z ?rest] es Cons by fastforce
  qed
  then show ?thesis
    using runs_append [OF y(3) runs_append [OF lines(1) runs_append [OF lines(2)]]] by (auto simp: card_events_def block_def)
qed

section \<open>The whole file\<close>

definition card_with :: "card_spec \<Rightarrow> dev_spec list \<Rightarrow> snd_dev_def_card" where
  "card_with c ds = card_of (c\<lparr>cs_devs := ds\<rparr>)"

definition last_dev :: "dev_spec list \<Rightarrow> (snd_node_type \<times> nat) option" where
  "last_dev ds = (if ds = [] then None
     else Some (ds_kind (last ds), length (filter (\<lambda>d. ds_kind d = ds_kind (last ds)) (butlast ds))))"

lemma plus_dev_card_with: "plus_dev (card_with c ds) (dev_of d) = card_with c (ds @ [d])"
  by (auto simp: plus_dev_def card_with_def card_of_def dev_of_def)

lemma last_dev_snoc:
  "last_dev (ds @ [d]) = Some (nd_node_type (dev_of d), length (devs_list (card_with c ds) (nd_node_type (dev_of d))))"
  by (simp add: last_dev_def card_with_def card_of_def dev_of_def)

lemma devs_run:
  assumes "mem_ok K" "length w < BUF_SIZE" "\<And>v. concat (pcs v) = v" "list_all dev_spec_ok ds"
  shows "runs K (concat (map (dev_events pcs w) ds)) (cst n (card_with c []) (last_dev []) TAG_CARD)
    (cst n (card_with c ds) (last_dev ds) TAG_CARD)"
proof (rule runs_concat [where g = "\<lambda>ds. cst n (card_with c ds) (last_dev ds) TAG_CARD"])
  fix d xs ys assume "ds = xs @ d # ys"
  then have "dev_spec_ok d" using assms(4) by simp
  from dev_events_run [where pcs = pcs, OF assms(1-3) this, of n "card_with c xs" "last_dev xs"]
  show "runs K (dev_events pcs w d) (cst n (card_with c xs) (last_dev xs) TAG_CARD)
      (cst n (card_with c (xs @ [d])) (last_dev (xs @ [d])) TAG_CARD)"
    by (simp only: plus_dev_card_with last_dev_snoc [of xs d c])
qed

lemma found_card:
  assumes "outside n x" "mem_ok K" "length w < BUF_SIZE" "\<And>v. concat (pcs v) = v" "card_spec_ok c"
    "atoi (cs_id c) = Some k" "of_int k = n"
  shows "runs K (card_events pcs w c) x ((cst n (card_of c) (last_dev (cs_devs c)) TAG_ROOT)\<lparr>card_parsed := True\<rparr>)"
proof -
  note ok = assms(5) [unfolded card_spec_ok_def]
  obtain y where y: "outside n y" "current_tag y = TAG_CARD" "runs K [XML_DATA w, XML_START ''card''] x y"
    using card_open [OF assms(1)] by blast
  let ?c = "card_zero\<lparr>sd_card := n\<rparr>"
  have id: "runs K (line pcs w ''id'' (cs_id c)) y (cst n ?c None TAG_CARD)"
    using card_line(3) [where pcs = pcs, OF y(1,2) assms(2) _ assms(4) assms(6,7)] ok by simp
  have "card_with c [] = ?c\<lparr>sd_name := Some (cs_name c)\<rparr>"
    using assms(6,7) by (simp add: card_with_def card_of_def card_zero_def)
  moreover have "runs K (line pcs w ''name'' (cs_name c)) (cst n ?c None TAG_CARD)
      (cst n (?c\<lparr>sd_name := Some (cs_name c)\<rparr>) None TAG_CARD)"
  proof (rule line_run [where pcs = pcs, OF _ _ assms(4)])
    show "plain_tag ''name''" by (simp add: plain_tag_def)
    show "length (cs_name c) < BUF_SIZE" using ok by (simp add: text_ok_def)
    fix s :: snd_world
    show "\<exists>h. snd_process_data_buf K ''name'' ((cst n ?c None TAG_CARD)\<lparr>data_buf := cs_name c, offs := length (cs_name c)\<rparr>) s
      = Some ((cst n (?c\<lparr>sd_name := Some (cs_name c)\<rparr>) None TAG_CARD)\<lparr>data_buf := cs_name c, offs := length (cs_name c)\<rparr>,
          s\<lparr>cl_hist := h\<rparr>)"
      using ok by (auto simp: snd_process_data_buf_def text_ok_def snd_parse_card_properties_def set_card_name_def
          calloc_ok [OF assms(2)] cst_def Let_def)
  qed
  ultimately have name: "runs K (line pcs w ''name'' (cs_name c)) (cst n ?c None TAG_CARD)
      (cst n (card_with c []) (last_dev []) TAG_CARD)" by (simp add: last_dev_def)
  have "card_with c (cs_devs c) = card_of c" by (simp add: card_with_def)
  moreover have "runs K [XML_DATA w, XML_END ''card''] (cst n (card_of c) dv TAG_CARD)
      ((cst n (card_of c) dv TAG_ROOT)\<lparr>card_parsed := True\<rparr>)" for dv
    by (rule runs_quiet) (use assms(3) in \<open>auto simp: handler_defs snd_parse_card_properties_def\<close>)
  ultimately show ?thesis
    using runs_append [OF y(3) runs_append [OF id runs_append [OF name
            runs_append [OF devs_run [where pcs = pcs, OF assms(2-4), of "cs_devs c"]]]]] ok
    by (auto simp: card_events_def block_def)
qed

text \<open>What follows the card is not read.\<close>

lemma data_handler_keeps:
  "card_parsed (snd_data_handler t x) = card_parsed x" "cur_card_def (snd_data_handler t x) = cur_card_def x"
  by (simp_all add: snd_data_handler_def)

lemma parsed_rest:
  "card_parsed x \<Longrightarrow> \<exists>y. cur_card_def y = cur_card_def x \<and> runs K es x y"
proof (induction es arbitrary: x)
  case (Cons e es)
  define y where "y = (case e of XML_DATA t \<Rightarrow> snd_data_handler t x | _ \<Rightarrow> x)"
  have y: "card_parsed y" "cur_card_def y = cur_card_def x" "\<And>s :: snd_world. handle K e x s = Some (y, s)"
    using Cons.prems by (auto simp: y_def handle_def snd_start_tag_def snd_end_tag_def data_handler_keeps split: sax.split)
  obtain z where "cur_card_def z = cur_card_def y" "runs K es y z" using Cons.IH [OF y(1)] by blast
  moreover have "runs K [e] x y" by (rule runs_quiet) (simp add: y(3))
  ultimately show ?case using y(2) runs_append [of K "[e]" x y es z] by auto
qed (use runs_Nil in blast)

lemma skip_cards:
  assumes "outside n x" "mem_ok K" "length w < BUF_SIZE" "\<And>v. concat (pcs v) = v"
    "\<And>c. c \<in> set cs \<Longrightarrow> card_spec_ok c \<and> (of_int (the (atoi (cs_id c))) :: u32) \<noteq> n"
  shows "\<exists>y. outside n y \<and> runs K (concat (map (card_events pcs w) cs)) x y"
  using assms(1,5)
proof (induction cs arbitrary: x)
  case (Cons c cs)
  obtain k where k: "atoi (cs_id c) = Some k" using Cons.prems(2) by (fastforce simp: card_spec_ok_def)
  obtain y where y: "outside n y" "runs K (card_events pcs w c) x y"
    using skip_card [where pcs = pcs, OF Cons.prems(1) assms(2-4) _ k] Cons.prems(2) [of c] k by auto
  obtain z where "outside n z" "runs K (concat (map (card_events pcs w) cs)) y z" using Cons.IH [OF y(1)] Cons.prems(2) by auto
  then show ?case using runs_append [OF y(2)] by auto
qed (use runs_Nil in auto)

lemma search_missing:
  "(\<And>a. a \<in> set as \<Longrightarrow> sd_card (cards s a) \<noteq> n) \<Longrightarrow> search_card None n as s = Some None"
  by (induction as) auto

text \<open>\<^bold>\<open>C30.\<close> A definition file is read back: the first card with the number that is searched is parsed
  into exactly its definition, every device in the list of its kind and in the order of the file, whatever the
  layout, however expat cuts the text, whatever cards with other numbers come before it and whatever comes after.\<close>

theorem card_file_roundtrip:
  fixes s :: snd_world
  assumes "mem_ok K" "length w < BUF_SIZE" "\<And>v. concat (pcs v) = v" "XML_START ''card'' \<notin> set prolog"
    and "\<And>c'. c' \<in> set before \<Longrightarrow> card_spec_ok c' \<and> (of_int (the (atoi (cs_id c'))) :: u32) \<noteq> n"
    and "card_spec_ok c" "of_int (the (atoi (cs_id c))) = n"
    and "\<And>a. a \<in> set (snd_card_list s) \<Longrightarrow> sd_card (cards s a) \<noteq> n"
  shows "\<exists>t. snd_card_def_get_card K None
        (Some (prolog @ concat (map (card_events pcs w) before) @ card_events pcs w c @ after, True)) n s = Some (Some (card_next s), t)
      \<and> snd_card_list t = snd_card_list s @ [card_next s]
      \<and> cards t = (cards s)(card_next s := (card_of c)\<lparr>sd_refcnt := 1\<rparr>)"
proof -
  let ?es = "prolog @ concat (map (card_events pcs w) before) @ card_events pcs w c @ after"
  obtain k where k: "atoi (cs_id c) = Some k" using assms(6) by (auto simp: card_spec_ok_def)
  have "outside n (card_data0 n None)" "current_tag (card_data0 n None) \<noteq> TAG_CARD" by (simp_all add: outside_def card_data0_def)
  then obtain x where x: "outside n x" "runs K prolog (card_data0 n None) x" using skip_events assms(4) by blast
  then obtain y where y: "outside n y" "runs K (concat (map (card_events pcs w) before)) x y"
    using skip_cards [where pcs = pcs, OF _ assms(1-3) assms(5)] by blast
  let ?z = "(cst n (card_of c) (last_dev (cs_devs c)) TAG_ROOT)\<lparr>card_parsed := True\<rparr>"
  have "runs K (card_events pcs w c) y ?z"
    using found_card [where pcs = pcs, OF y(1) assms(1-3,6) k] assms(7) k by simp
  moreover obtain u where "cur_card_def u = Some (card_of c)" "runs K after ?z u"
    using parsed_rest [of ?z K after] by (auto simp: cst_def)
  ultimately have "runs K ?es (card_data0 n None) u" "cur_card_def u = Some (card_of c)"
    using runs_append [OF x(2) runs_append [OF y(2) runs_append]] by blast+
  then obtain h where "xml_parse K ?es (card_data0 n None) s = Some (u, s\<lparr>cl_hist := h\<rparr>)" unfolding runs_def by blast
  with \<open>cur_card_def u = Some (card_of c)\<close> show ?thesis
    using search_missing [of "snd_card_list s" s n] assms(8)
    by (simp add: snd_card_def_get_card_def read_card_id_def Let_def card_of_def)
qed

text \<open>Text that does not fit the buffer: an element of a card with 1024 or more characters makes the
  handler of its end tag write outside the buffer, whatever the tag.\<close>

theorem long_text_overflows:
  assumes "plain_tag t" "length v \<ge> 1024" "search_card None n (snd_card_list s) s = Some None"
  shows "snd_card_def_get_card K None
    (Some (XML_START ''defs'' # XML_START ''card'' # XML_START t # XML_DATA v # XML_END t # es, accepted)) n s = None"
  using assms by (cases "v = []") (simp_all add: snd_card_def_get_card_def read_card_id_def handle_def snd_start_tag_def snd_end_tag_def
      snd_data_handler_def snd_reset_data_buf_def snd_dev_def_init_def snd_process_data_buf_def card_data0_def plain_tag_def Let_def)

section \<open>References to cards\<close>

definition card_refs :: "'z snd_world_scheme \<Rightarrow> nat \<Rightarrow> int" where
  "card_refs s a = (if a \<in> set (snd_card_list s) then sd_refcnt (cards s a) else 0)"

definition cards_ok :: "'z snd_world_scheme \<Rightarrow> bool" where
  "cards_ok s \<longleftrightarrow> distinct (snd_card_list s) \<and> (\<forall>a \<in> set (snd_card_list s). a < card_next s \<and> 0 < sd_refcnt (cards s a))"

text \<open>Parsing touches no card but the one under construction.\<close>

definition same_cards :: "'z client_world_scheme \<Rightarrow> 'z client_world_scheme \<Rightarrow> bool" where
  "same_cards s t \<longleftrightarrow> client_world.more t = client_world.more s"

lemma same_cards_refl: "same_cards s s"
  by (simp add: same_cards_def)

lemma same_cards_iff:
  fixes s t :: "'z snd_world_scheme"
  shows "same_cards s t \<longleftrightarrow> cards t = cards s \<and> snd_card_list t = snd_card_list s \<and> card_next t = card_next s
    \<and> snd_world.more t = snd_world.more s"
  by (cases s; cases t) (auto simp: same_cards_def)

lemma calloc_same: "same_cards s0 s \<Longrightarrow> wlp (client_calloc K s) (\<lambda>_ t. same_cards s0 t)"
  by (simp add: wlp_simps same_cards_def)

lemma init_same: "same_cards s0 s \<Longrightarrow> wlp (snd_parse_initialize_card_def K x s) (\<lambda>_ t. same_cards s0 t)"
  unfolding snd_parse_initialize_card_def_def by (intro inv_rules calloc_same)

lemma name_same: "same_cards s0 s \<Longrightarrow> wlp (set_card_name K x s) (\<lambda>_ t. same_cards s0 t)"
  unfolding set_card_name_def by (intro inv_rules calloc_same)

lemma start_same: "same_cards s0 s \<Longrightarrow> wlp (snd_start_tag K t x s) (\<lambda>_ t. same_cards s0 t)"
  unfolding snd_start_tag_def snd_dev_def_init_def by (intro inv_rules calloc_same)

lemma card_props_same: "same_cards s0 s \<Longrightarrow> wlp (snd_parse_card_properties K t x s) (\<lambda>_ t. same_cards s0 t)"
  unfolding snd_parse_card_properties_def by (intro inv_rules inv_bind_value calloc_same init_same name_same)

lemma plugin_props_same: "same_cards s0 s \<Longrightarrow> wlp (snd_parse_plugin_properties K t x s) (\<lambda>_ t. same_cards s0 t)"
  unfolding snd_parse_plugin_properties_def by (intro inv_rules inv_bind_value calloc_same init_same name_same)

lemma dev_props_same: "same_cards s0 s \<Longrightarrow> wlp (snd_parse_device_properties K t x s) (\<lambda>_ t. same_cards s0 t)"
  unfolding snd_parse_device_properties_def by (intro inv_rules inv_bind_value calloc_same init_same name_same)

lemma custom_props_same: "same_cards s0 s \<Longrightarrow> wlp (snd_parse_device_custom_properties K t x s) (\<lambda>_ t. same_cards s0 t)"
  unfolding snd_parse_device_custom_properties_def by (intro inv_rules inv_bind_value calloc_same init_same name_same)

lemma process_same: "same_cards s0 s \<Longrightarrow> wlp (snd_process_data_buf K t x s) (\<lambda>_ t. same_cards s0 t)"
  by (simp add: snd_process_data_buf_def wlp_simps card_props_same plugin_props_same dev_props_same
      custom_props_same Let_def split: snd_card_defs_xml_tags.split)

lemma end_same: "same_cards s0 s \<Longrightarrow> wlp (snd_end_tag K t x s) (\<lambda>_ t. same_cards s0 t)"
  unfolding snd_end_tag_def by (intro inv_rules process_same)

lemma handle_same: "same_cards s0 s \<Longrightarrow> wlp (handle K e x s) (\<lambda>_ t. same_cards s0 t)"
  by (cases e) (simp_all add: handle_def start_same end_same wlp_simps)

lemma xml_parse_same: "same_cards s0 s \<Longrightarrow> wlp (xml_parse K es x s) (\<lambda>_ t. same_cards s0 t)"
proof (induction es arbitrary: x s)
  case (Cons e es)
  then show ?case by (simp only: xml_parse.simps) (rule inv_bind [OF handle_same])
qed (simp add: wlp_simps)

lemma read_card_id_same: "wlp (read_card_id K id_file n s) (\<lambda>_ t. same_cards s t)"
  unfolding read_card_id_def by (intro inv_rules calloc_same) (simp_all add: same_cards_refl)

lemma search_card_in: "search_card name n as s = Some (Some a) \<Longrightarrow> a \<in> set as"
  by (induction as) (auto split: option.splits if_splits)

text \<open>The card under construction has no references yet.\<close>

definition unreferenced :: "xml_userdata \<Rightarrow> bool" where
  "unreferenced x \<longleftrightarrow> (\<forall>c. cur_card_def x = Some c \<longrightarrow> sd_refcnt c = 0)"

lemma upd_cur_dev_unreferenced: "unreferenced x \<Longrightarrow> unreferenced (upd_cur_dev f x)"
  by (auto simp: unreferenced_def upd_cur_dev_def split: option.splits)

lemma start_unreferenced: "unreferenced x \<Longrightarrow> wlp (snd_start_tag K t x s) (\<lambda>y _. unreferenced y)"
  using upd_cur_dev_unreferenced [of "snd_reset_data_buf x"]
  by (auto simp: snd_start_tag_def snd_dev_def_init_def snd_dev_set_type_def unreferenced_def snd_reset_data_buf_def
      wlp_simps Let_def split: option.split)

lemma init_unreferenced:
  "unreferenced x \<Longrightarrow> wlp (snd_parse_initialize_card_def K x s) (\<lambda>r _. unreferenced (snd r))"
  by (auto simp: snd_parse_initialize_card_def_def wlp_simps unreferenced_def card_zero_def split: option.split)

lemma name_unreferenced: "unreferenced x \<Longrightarrow> wlp (set_card_name K x s) (\<lambda>y _. unreferenced y)"
  by (auto simp: set_card_name_def wlp_simps unreferenced_def split: option.split)

lemma unreferenced_upd: "unreferenced x \<Longrightarrow> unreferenced (x\<lparr>cur_card_def := map_option (\<lambda>c. c\<lparr>sd_card := n\<rparr>) (cur_card_def x)\<rparr>)"
  "unreferenced (x\<lparr>data_buf := b\<rparr>) = unreferenced x" "unreferenced (snd_reset_data_buf x) = unreferenced x"
  "unreferenced (x\<lparr>current_tag := tag\<rparr>) = unreferenced x" "unreferenced (x\<lparr>card_parsed := p\<rparr>) = unreferenced x"
  by (auto simp: unreferenced_def snd_reset_data_buf_def)

lemma card_props_unreferenced: "unreferenced x \<Longrightarrow> wlp (snd_parse_card_properties K t x s) (\<lambda>y _. unreferenced y)"
  unfolding snd_parse_card_properties_def
  by (intro inv_if inv_bind_value wlp_bindI [OF init_unreferenced] inv_case_option inv_case_prod_app res_Some name_unreferenced)
     (auto simp: unreferenced_upd)

lemma plugin_props_unreferenced: "unreferenced x \<Longrightarrow> wlp (snd_parse_plugin_properties K t x s) (\<lambda>y _. unreferenced y)"
  unfolding snd_parse_plugin_properties_def
  by (intro res_rules inv_bind_value) (simp_all add: upd_cur_dev_unreferenced)

lemma dev_props_unreferenced: "unreferenced x \<Longrightarrow> wlp (snd_parse_device_properties K t x s) (\<lambda>y _. unreferenced y)"
  unfolding snd_parse_device_properties_def
  by (intro res_rules inv_bind_value) (simp_all add: upd_cur_dev_unreferenced)

lemma custom_props_unreferenced: "unreferenced x \<Longrightarrow> wlp (snd_parse_device_custom_properties K t x s) (\<lambda>y _. unreferenced y)"
  unfolding snd_parse_device_custom_properties_def
  by (intro res_rules inv_bind_value) (simp_all add: upd_cur_dev_unreferenced)

lemma process_unreferenced: "unreferenced x \<Longrightarrow> wlp (snd_process_data_buf K t x s) (\<lambda>y _. unreferenced y)"
  by (simp add: snd_process_data_buf_def wlp_simps card_props_unreferenced plugin_props_unreferenced dev_props_unreferenced
      custom_props_unreferenced unreferenced_upd Let_def split: snd_card_defs_xml_tags.split)

lemma end_unreferenced: "unreferenced x \<Longrightarrow> wlp (snd_end_tag K t x s) (\<lambda>y _. unreferenced y)"
  unfolding snd_end_tag_def
  by (intro inv_if res_Some wlp_bindI [OF process_unreferenced] inv_Let) (simp_all add: unreferenced_upd Let_def)

lemma xml_parse_unreferenced: "unreferenced x \<Longrightarrow> wlp (xml_parse K es x s) (\<lambda>y _. unreferenced y)"
proof (induction es arbitrary: x s)
  case (Cons e es)
  have "unreferenced (snd_data_handler t x)" for t using Cons.prems by (simp add: unreferenced_def data_handler_keeps)
  then have "wlp (handle K e x s) (\<lambda>y _. unreferenced y)"
    using Cons.prems by (cases e) (simp_all add: handle_def start_unreferenced end_unreferenced wlp_simps)
  then show ?case unfolding xml_parse.simps by (rule wlp_bindI) (rule Cons.IH)
qed (simp add: wlp_simps)

lemma snd_more_upd [simp]:
  "snd_world.more (t\<lparr>cards := c\<rparr>) = snd_world.more t" "snd_world.more (t\<lparr>snd_card_list := l\<rparr>) = snd_world.more t"
  "snd_world.more (t\<lparr>card_next := k\<rparr>) = snd_world.more t" "snd_world.more (upd_card a f t) = snd_world.more t"
  by (cases t; simp add: upd_card_def)+

text \<open>A card that is got has one reference more, in a list that stays well formed.\<close>

lemma get_card_refs:
  assumes "cards_ok s"
  shows "wlp (snd_card_def_get_card K id_file (Some (es, True)) n s) (\<lambda>r t. cards_ok t \<and> snd_world.more t = snd_world.more s
    \<and> card_refs t = (case r of None \<Rightarrow> card_refs s | Some a \<Rightarrow> (card_refs s)(a := card_refs s a + 1)))"
    (is "wlp _ ?Q")
proof -
  have more: "snd_world.more t = snd_world.more s" if "same_cards s t" for t using that by (simp add: same_cards_iff)
  have same: "cards_ok t" "card_refs t = card_refs s" if "same_cards s t" for t
    using assms that by (auto simp: same_cards_iff cards_ok_def card_refs_def fun_eq_iff)
  have hit: "cards_ok (upd_card a (\<lambda>c. c\<lparr>sd_refcnt := sd_refcnt c + 1\<rparr>) t)"
    "card_refs (upd_card a (\<lambda>c. c\<lparr>sd_refcnt := sd_refcnt c + 1\<rparr>) t) = (card_refs s)(a := card_refs s a + 1)"
    if "same_cards s t" "a \<in> set (snd_card_list t)" for a t
    using that assms by (auto simp: same_cards_iff cards_ok_def card_refs_def fun_eq_iff upd_card_def)
  have new: "cards_ok (u\<lparr>cards := (cards u)(card_next u := c\<lparr>sd_refcnt := sd_refcnt c + 1\<rparr>),
      snd_card_list := snd_card_list u @ [card_next u], card_next := Suc (card_next u)\<rparr>)"
    "card_refs (u\<lparr>cards := (cards u)(card_next u := c\<lparr>sd_refcnt := sd_refcnt c + 1\<rparr>),
      snd_card_list := snd_card_list u @ [card_next u], card_next := Suc (card_next u)\<rparr>)
     = (card_refs s)(card_next u := card_refs s (card_next u) + 1)"
    if "same_cards s u" "unreferenced x" "cur_card_def x = Some c" for u c x
    using that assms by (auto simp: same_cards_iff cards_ok_def card_refs_def fun_eq_iff unreferenced_def less_Suc_eq)
  have parse: "wlp (xml_parse K es (card_data0 m nm) t) (\<lambda>x u. unreferenced x \<and> same_cards s u)" if "same_cards s t" for m nm t
    by (rule wlp_conj [OF xml_parse_unreferenced xml_parse_same [OF that]]) (simp add: unreferenced_def card_data0_def)
  show ?thesis
    unfolding snd_card_def_get_card_def
  proof (rule wlp_bindI [OF read_card_id_same], goal_cases)
    case (1 key t)
    note t = same [OF 1] hit [OF 1] and parseD = wlpD [OF parse [OF 1]]
    show ?case
      by (intro inv_case_option inv_case_prod inv_bind_value) (auto simp: wlp_simps t same new more [OF 1] more Let_def dest: search_card_in
          dest!: parseD
          split: option.split)
  qed
qed

lemma put_card_refs:
  assumes "cards_ok s" "a \<in> set (snd_card_list s)"
  shows "cards_ok (snd_card_def_put_card (Some a) s)
    \<and> card_refs (snd_card_def_put_card (Some a) s) = (card_refs s)(a := card_refs s a - 1)"
  using assms by (auto simp: snd_card_def_put_card_def cards_ok_def card_refs_def upd_card_def snd_free_card_def_def
      Let_def fun_eq_iff)

text \<open>Getting a card and giving it back restores the references of every card, whether the card was
  known or was read from the file; in between it has exactly one more, and a card without references is
  never kept.\<close>

theorem card_get_put:
  assumes "cards_ok s" "snd_card_def_get_card K id_file (Some (es, True)) n s = Some (Some a, t)"
  shows "cards_ok t \<and> card_refs t = (card_refs s)(a := card_refs s a + 1)
    \<and> cards_ok (snd_card_def_put_card (Some a) t) \<and> card_refs (snd_card_def_put_card (Some a) t) = card_refs s"
proof -
  have t: "cards_ok t" "card_refs t = (card_refs s)(a := card_refs s a + 1)"
    using wlpD [OF get_card_refs [OF assms(1)] assms(2)] by simp_all
  have "0 \<le> card_refs s a" using assms(1) by (auto simp: cards_ok_def card_refs_def intro: less_imp_le)
  then have "card_refs t a > 0" by (simp add: t(2))
  then have "a \<in> set (snd_card_list t)" by (auto simp: card_refs_def split: if_splits)
  from put_card_refs [OF t(1) this] show ?thesis using t by (simp add: fun_eq_iff)
qed

text \<open>When the parser rejects the definition file, the function returns the last card of the list,
  a card with another number, without counting a reference: giving it back takes away the reference of another
  client, and frees the card when that was the only one.\<close>

theorem rejected_file_returns_other:
  fixes s :: snd_world
  assumes "cards_ok s" "snd_card_list s = as @ [a]" "\<And>b. b \<in> set (snd_card_list s) \<Longrightarrow> sd_card (cards s b) \<noteq> n"
    "xml_parse K es (card_data0 n None) s = Some (x, u)"
  shows "\<exists>t. snd_card_def_get_card K None (Some (es, False)) n s = Some (Some a, t)
      \<and> card_refs t = card_refs s \<and> sd_card (cards t a) \<noteq> n
      \<and> card_refs (snd_card_def_put_card (Some a) t) a = card_refs s a - 1"
proof -
  have u: "same_cards s u" using wlpD [OF xml_parse_same [of s s] assms(4)] by (simp add: same_cards_refl)
  then have ok: "cards_ok u" "a \<in> set (snd_card_list u)" "card_refs u = card_refs s"
    using assms(1,2) by (auto simp: same_cards_iff cards_ok_def card_refs_def fun_eq_iff)
  have "snd_card_def_get_card K None (Some (es, False)) n s = Some (Some a, u)"
    using search_missing [of "snd_card_list s" s n] assms(2-4) u
    by (auto simp: snd_card_def_get_card_def read_card_id_def same_cards_iff)
  moreover have "sd_card (cards u a) \<noteq> n" using assms(2,3) u by (simp add: same_cards_iff)
  ultimately show ?thesis using ok put_card_refs [OF ok(1,2)] by auto
qed

section \<open>A definition file\<close>

definition client_env0 :: client_env where
  "client_env0 = \<lparr>cl_ret = (\<lambda>_ _. 0)\<rparr>"

definition snd_world0 :: snd_world where
  "snd_world0 = \<lparr>cl_hist = [], cards = (\<lambda>_. card_zero), snd_card_list = [], card_next = 1\<rparr>"

definition pcm_spec0 :: dev_spec where
  "pcm_spec0 = \<lparr>ds_kind = SND_NODE_TYPE_PCM, ds_id = ''100'', ds_name = ''PCM100'', ds_plugin = ''pcm_plugin'',
     ds_so_name = ''libagm_pcm_plugin.so'', ds_props = [(''playback'', ''1''), (''session_mode'', ''0'')]\<rparr>"

definition card_spec0 :: card_spec where
  "card_spec0 = \<lparr>cs_id = ''100'', cs_name = ''dummy'', cs_devs = [pcm_spec0]\<rparr>"

definition card_spec1 :: card_spec where
  "card_spec1 = \<lparr>cs_id = ''7'', cs_name = ''other'', cs_devs = []\<rparr>"

lemmas card_eval = card_spec0_def card_spec1_def pcm_spec0_def card_spec_ok_def dev_spec_ok_def text_ok_def plain_tag_def
  atoi_def scan_sign_def is_space_def is_digit_def digits_val_def

theorem card_file_roundtrip_witness:
  "\<exists>t. snd_card_def_get_card client_env0 None
       (Some ([XML_START ''defs''] @ concat (map (card_events (\<lambda>v. [v]) ''  '') [card_spec1])
          @ card_events (\<lambda>v. [v]) ''  '' card_spec0 @ [XML_END ''defs''], True)) 100 snd_world0 = Some (Some 1, t)
    \<and> devs_list (cards t 1) SND_NODE_TYPE_PCM = [dev_of pcm_spec0]"
proof -
  have "\<exists>t. snd_card_def_get_card client_env0 None
       (Some ([XML_START ''defs''] @ concat (map (card_events (\<lambda>v. [v]) ''  '') [card_spec1])
          @ card_events (\<lambda>v. [v]) ''  '' card_spec0 @ [XML_END ''defs''], True)) 100 snd_world0 = Some (Some (card_next snd_world0), t)
    \<and> snd_card_list t = snd_card_list snd_world0 @ [card_next snd_world0]
    \<and> cards t = (cards snd_world0)(card_next snd_world0 := (card_of card_spec0)\<lparr>sd_refcnt := 1\<rparr>)"
    by (rule card_file_roundtrip) (simp_all add: card_eval mem_ok_def client_env0_def snd_world0_def)
  then show ?thesis by (auto simp: snd_world0_def card_of_def card_spec0_def pcm_spec0_def)
qed

theorem long_text_overflows_witness:
  "snd_card_def_get_card client_env0 None (Some (XML_START ''defs'' # XML_START ''card'' # XML_START ''name''
     # XML_DATA (replicate 1024 (CHR ''x'')) # XML_END ''name'' # [], True)) 100 snd_world0 = None"
  by (rule long_text_overflows) (simp_all add: plain_tag_def snd_world0_def)

definition snd_world1 :: snd_world where
  "snd_world1 = snd_world0\<lparr>cards := (\<lambda>_. card_zero\<lparr>sd_card := 7, sd_refcnt := 1\<rparr>), snd_card_list := [1], card_next := 2\<rparr>"

theorem card_get_put_witness:
  "\<exists>t. snd_card_def_get_card client_env0 None (Some ([], True)) 7 snd_world1 = Some (Some 1, t)
     \<and> card_refs t 1 = 2 \<and> card_refs (snd_card_def_put_card (Some 1) t) 1 = 1"
proof -
  obtain t where t: "snd_card_def_get_card client_env0 None (Some ([], True)) 7 snd_world1 = Some (Some 1, t)"
    by (simp add: snd_card_def_get_card_def read_card_id_def snd_world1_def)
  have "cards_ok snd_world1" "card_refs snd_world1 1 = 1" by (simp_all add: cards_ok_def snd_world1_def card_refs_def)
  with card_get_put [OF this(1) t] t show ?thesis by auto
qed

theorem rejected_file_returns_other_witness:
  "\<exists>t. snd_card_def_get_card client_env0 None (Some ([], False)) 100 snd_world1 = Some (Some 1, t)
     \<and> card_refs (snd_card_def_put_card (Some 1) t) 1 = 0"
  using rejected_file_returns_other [of snd_world1 "[]" 1 100 client_env0 "[]"]
  by (auto simp: cards_ok_def snd_world1_def card_refs_def)

end
