(* ===== verification/Plugin.thy ===== *)
theory Plugin
  imports Agm Snd_Card
begin

text \<open>
  What the plugins under \<open>plugins/tinyalsa/src\<close> and \<open>plugins/alsalib/src\<close> share: the state of the client
  process with the state of the service it talks to, and the definition of the node a plugin was
  opened for. A plugin calls the entry points of the service; the transport between the two
  processes is not modelled.
\<close>

record plugin_env = client_env +
  card_id_file :: "u32 \<Rightarrow> string option option"
  card_def_file :: "(sax list \<times> bool) option"
  svc_env :: env

record plugin_world = snd_world +
  svc :: agm_world

definition service ::
    "(agm_world \<Rightarrow> ('r \<times> agm_world) option) \<Rightarrow> 'z plugin_world_scheme \<Rightarrow> ('r \<times> 'z plugin_world_scheme) option" where
  "service f s = do { (r, w) \<leftarrow> f (svc s); Some (r, s\<lparr>svc := w\<rparr>) }"

abbreviation get_card ::
    "'k plugin_env_scheme \<Rightarrow> u32 \<Rightarrow> 'z plugin_world_scheme \<Rightarrow> (nat option \<times> 'z plugin_world_scheme) option" where
  "get_card K n s \<equiv> snd_card_def_get_card K (card_id_file K n) (card_def_file K) n s"

text \<open>A number of the definition file as the session mode it stands for; a number that is no
  session mode has no model.\<close>

definition session_mode_of :: "int \<Rightarrow> agm_session_mode option" where
  "session_mode_of n =
     (if n = 0 then Some AGM_SESSION_DEFAULT else if n = 1 then Some AGM_SESSION_NO_HOST
      else if n = 2 then Some AGM_SESSION_NON_TUNNEL else if n = 3 then Some AGM_SESSION_NO_CONFIG
      else if n = 4 then Some AGM_SESSION_COMPRESS else None)"

text \<open>The session mode of a PCM node in the definition file; one without it has the default mode.\<close>

definition pcm_session_mode :: "node_ptr \<Rightarrow> 'z snd_world_scheme \<Rightarrow> agm_session_mode option" where
  "pcm_session_mode node s = do {
     (_, m) \<leftarrow> snd_card_def_get_int (Some node) ''session_mode'' s;
     session_mode_of (case m of None \<Rightarrow> 0 | Some n \<Rightarrow> n) }"

text \<open>Allocations one after the other, up to the first that fails.\<close>

fun client_callocs :: "nat \<Rightarrow> 'k client_env_scheme \<Rightarrow> 'z client_world_scheme \<Rightarrow> (bool \<times> 'z client_world_scheme) option" where
  "client_callocs 0 K s = Some (True, s)"
| "client_callocs (Suc n) K s = do { (ok, s) \<leftarrow> client_calloc K s; if \<not> ok then Some (False, s) else client_callocs n K s }"

lemma wlp_service [wlp_simps]: "wlp (service f s) Q \<longleftrightarrow> wlp (f (svc s)) (\<lambda>r w. Q r (s\<lparr>svc := w\<rparr>))"
  by (simp add: service_def wlp_simps)

text \<open>The end of a failing open function: a positive code is negated.\<close>

definition negative_code :: "int \<Rightarrow> int" where
  "negative_code ret = (if ret < 0 then ret else - ret)"

text \<open>Array accesses with a C \<open>int\<close> as the index.\<close>

definition load :: "'a list \<Rightarrow> int \<Rightarrow> 'a option" where
  "load xs i = (if 0 \<le> i \<and> i < int (length xs) then Some (xs ! nat i) else None)"

definition store :: "int \<Rightarrow> 'a \<Rightarrow> 'a list \<Rightarrow> 'a list option" where
  "store i x xs = (if 0 \<le> i \<and> i < int (length xs) then Some (xs[nat i := x]) else None)"

text \<open>The value of a property of a node; it keeps its old value when the property is missing.\<close>

definition node_int :: "node_ptr \<Rightarrow> string \<Rightarrow> int \<Rightarrow> 'z snd_world_scheme \<Rightarrow> int option" where
  "node_int node prop val s = do {
     (_, r) \<leftarrow> snd_card_def_get_int (Some node) prop s;
     Some (case r of None \<Rightarrow> val | Some v \<Rightarrow> v) }"

text \<open>\<open>-EALREADY\<close> of the service is no error for a client of the mixer.\<close>

definition not_already :: "int \<Rightarrow> int" where
  "not_already ret = (if ret = - EALREADY then 0 else ret)"

abbreviation already_ok :: "(int \<times> 's) option \<Rightarrow> (int \<times> 's) option" where
  "already_ok m \<equiv> map_option (map_prod not_already id) m"

text \<open>The size of a payload is kept as an \<open>int\<close> and used as a \<open>size_t\<close>.\<close>

definition as_size :: "int \<Rightarrow> nat" where
  "as_size n = nat (n mod 2 ^ 64)"

end
