(* ===== verification/Pcm_Plugin.thy ===== *)
theory Pcm_Plugin
  imports Plugin
begin

text \<open>
  Model of \<open>plugins/tinyalsa/src/agm_pcm_plugin.c\<close>: PCM streams on sessions, and the
  pull and push mode in which the client and the DSP share a circular buffer and a position that
  the DSP updates. The position is volatile memory: each read of it is one tick, and what it holds at
  a tick is arbitrary. The samples in the shared buffer and \<open>errno\<close> are not modelled.
\<close>

unbundle bit_operations_syntax

section \<open>State\<close>

record agm_shared_pos_buffer =
  frame_counter :: u32
  read_index :: u32
  wall_clock_us_lsw :: u32
  wall_clock_us_msw :: u32

record pcm_plugin_pos_buf_info =
  pos_buf_addr :: u64
  boundary :: u32
  hw_ptr :: u64
  hw_ptr_base :: u64
  tstamp :: int
  appl_ptr :: u64
  avail_min :: u64
  wall_clk_msw :: u32
  wall_clk_lsw :: u32

record agm_pcm_priv =
  pp_media_config :: agm_media_config
  pp_buffer_config :: agm_buffer_config
  pp_session_config :: agm_session_config
  pp_buf_info :: "agm_buf_info option"
  pos_buf :: "pcm_plugin_pos_buf_info option"
  pp_handle :: nat
  pp_card_node :: "nat option"
  pp_session_id :: u32
  period_size :: u32
  total_size_frames :: u64
  mmap_buffer_port :: "direction \<Rightarrow> u64 \<times> u64"
  mmap_status :: bool
  mmap_buf_tout :: u32

text \<open>The plugin with the three bits of its mode that are read.\<close>

record pcm_plugin =
  pl_in :: bool
  pl_mmap :: bool
  pl_noirq :: bool
  pl_node :: node_ptr
  pl_priv :: agm_pcm_priv

text \<open>\<open>plugin\<close> is the object the functions are called with, \<open>None\<close> once it
  was freed.\<close>

record pcm_env = plugin_env +
  pos_mem :: "nat \<Rightarrow> agm_shared_pos_buffer"
  clock :: "nat \<Rightarrow> int"

record pcm_world = plugin_world +
  plugin :: "pcm_plugin option"
  pos_reads :: nat

definition upd_priv :: "(agm_pcm_priv \<Rightarrow> agm_pcm_priv) \<Rightarrow> 'z pcm_world_scheme \<Rightarrow> 'z pcm_world_scheme" where
  "upd_priv f s = s\<lparr>plugin := map_option (\<lambda>p. p\<lparr>pl_priv := f (pl_priv p)\<rparr>) (plugin s)\<rparr>"

definition with_plugin ::
    "(pcm_plugin \<Rightarrow> 'z pcm_world_scheme \<Rightarrow> ('r \<times> 'z pcm_world_scheme) option) \<Rightarrow> 'z pcm_world_scheme \<Rightarrow>
       ('r \<times> 'z pcm_world_scheme) option" where
  "with_plugin f s = (case plugin s of None \<Rightarrow> None | Some p \<Rightarrow> f p s)"

text \<open>\<open>agm_get_session_handle\<close>: the result and the handle.\<close>

definition pcm_get_session_handle :: "agm_pcm_priv \<Rightarrow> int \<times> nat" where
  "pcm_get_session_handle v = (if pp_handle v = 0 then - EINVAL else 0, pp_handle v)"

section \<open>Parameters\<close>

text \<open>Intervals have a flag that they hold an integer and a maximum; the format mask has two
  words.\<close>

record snd_pcm_hw_params =
  hp_rate :: "bool \<times> u32"
  hp_channels :: "bool \<times> u32"
  hp_periods :: "bool \<times> u32"
  hp_period_size :: "bool \<times> u32"
  hp_format :: "u32 \<times> u32"

definition param_get_int :: "bool \<times> u32 \<Rightarrow> u32" where
  "param_get_int i = (if fst i then snd i else 0)"

text \<open>The position of the lowest bit, from 1.\<close>

definition ffs :: "u32 \<Rightarrow> nat" where
  "ffs w = (case find (bit w) [0..<32] of None \<Rightarrow> 0 | Some i \<Rightarrow> i + 1)"

definition snd_mask_val :: "u32 \<times> u32 \<Rightarrow> nat" where
  "snd_mask_val m = (if fst m \<noteq> 0 then ffs (fst m) - 1 else if snd m \<noteq> 0 then ffs (snd m) + 32 - 1 else 0)"

definition agm_format_to_bits :: "agm_media_format \<Rightarrow> u32" where
  "agm_format_to_bits f =
     (case f of AGM_FORMAT_PCM_S32_LE \<Rightarrow> 32 | AGM_FORMAT_PCM_S24_LE \<Rightarrow> 32 | AGM_FORMAT_PCM_S24_3LE \<Rightarrow> 24 | _ \<Rightarrow> 16)"

definition alsa_to_agm_format :: "nat \<Rightarrow> agm_media_format" where
  "alsa_to_agm_format f =
     (if f = 10 then AGM_FORMAT_PCM_S32_LE else if f = 0 then AGM_FORMAT_PCM_S8
      else if f = 32 then AGM_FORMAT_PCM_S24_3LE else if f = 6 then AGM_FORMAT_PCM_S24_LE else AGM_FORMAT_PCM_S16_LE)"

definition param_get_mask_val :: "u32 \<times> u32 \<Rightarrow> agm_media_format" where
  "param_get_mask_val m = alsa_to_agm_format (snd_mask_val m)"

definition agm_pcm_frames_to_bytes :: "agm_media_config \<Rightarrow> u32 \<Rightarrow> u32" where
  "agm_pcm_frames_to_bytes mc frames = frames * mc_channels mc * (agm_format_to_bits (mc_format mc) div 8)"

definition agm_pcm_bytes_to_frames :: "u32 \<Rightarrow> agm_media_config \<Rightarrow> u32 option" where
  "agm_pcm_bytes_to_frames bytes mc =
     (let frame_bits = mc_channels mc * agm_format_to_bits (mc_format mc)
      in if frame_bits = 0 then None else Some (bytes * 8 div frame_bits))"

section \<open>The shared position\<close>

fun frame_cnt_loop :: "(nat \<Rightarrow> agm_shared_pos_buffer) \<Rightarrow> nat \<Rightarrow> nat \<Rightarrow> u32 \<times> nat" where
  "frame_cnt_loop M 0 n = (0, n)"
| "frame_cnt_loop M (Suc j) n =
     (let c = frame_counter (M n) in if c \<noteq> 0 \<or> j = 0 then (c, n + 1) else frame_cnt_loop M j (n + 1))"

text \<open>The result, the read index with the two words of the clock, and the next tick. The
  values are only used when the result is 0.\<close>

fun agm_pcm_plugin_get_shared_pos ::
    "(nat \<Rightarrow> agm_shared_pos_buffer) \<Rightarrow> nat \<Rightarrow> nat \<Rightarrow> int \<times> (u32 \<times> u32 \<times> u32) \<times> nat" where
  "agm_pcm_plugin_get_shared_pos M 0 n = (- EAGAIN, (0, 0, 0), n)"
| "agm_pcm_plugin_get_shared_pos M (Suc i) n =
     (let (frame_cnt1, n) = frame_cnt_loop M 5 n;
          msw = wall_clock_us_msw (M n); lsw = wall_clock_us_lsw (M (n + 1));
          idx = read_index (M (n + 2)); frame_cnt2 = frame_counter (M (n + 3))
      in if frame_cnt1 \<noteq> frame_cnt2 then agm_pcm_plugin_get_shared_pos M i (n + 4)
         else (0, (idx, msw, lsw), n + 4))"

abbreviation (input) AGM_PULL_PUSH_IDX_RETRY_COUNT :: nat where "AGM_PULL_PUSH_IDX_RETRY_COUNT \<equiv> 2"

fun shared_pos_retry :: "(nat \<Rightarrow> agm_shared_pos_buffer) \<Rightarrow> nat \<Rightarrow> nat \<Rightarrow> int \<times> (u32 \<times> u32 \<times> u32) \<times> nat" where
  "shared_pos_retry M 0 n = (- EAGAIN, (0, 0, 0), n)"
| "shared_pos_retry M (Suc retries) n =
     (case agm_pcm_plugin_get_shared_pos M AGM_PULL_PUSH_IDX_RETRY_COUNT n of
        (ret, v, n) \<Rightarrow> if ret = - EAGAIN \<and> retries \<noteq> 0 then shared_pos_retry M retries n else (ret, v, n))"

text \<open>The signed number of microseconds since the last position, 0 for the first one and when
  the clock did not advance.\<close>

definition delta_wall_clk_us :: "pcm_plugin_pos_buf_info \<Rightarrow> u32 \<Rightarrow> u32 \<Rightarrow> int" where
  "delta_wall_clk_us b msw lsw =
     (if wall_clk_msw b \<noteq> 0 \<or> wall_clk_lsw b \<noteq> 0
      then let dsp_wall_clk = (push_bit 32 (ucast msw) OR ucast lsw :: u64);
               cached_wall_clk = push_bit 32 (ucast (wall_clk_msw b)) OR ucast (wall_clk_lsw b)
           in if dsp_wall_clk > cached_wall_clk then sint (dsp_wall_clk - cached_wall_clk) else 0
      else 0)"

text \<open>How often the buffer was passed in that time; a product outside \<open>int64_t\<close> is
  undefined.\<close>

definition crossed_boundary :: "agm_pcm_priv \<Rightarrow> int \<Rightarrow> u32 option" where
  "crossed_boundary v delta =
     (if delta \<le> 0 then Some 0
      else let frames = delta div 1000000 * uint (mc_rate (pp_media_config v)) * uint (mc_channels (pp_media_config v))
           in if frames \<ge> 2 ^ 63 \<or> total_size_frames v = 0 then None
              else Some (ucast ((ucast (of_int frames :: u32) :: u64) div total_size_frames v)))"

definition next_hw_ptr :: "agm_pcm_priv \<Rightarrow> pcm_plugin_pos_buf_info \<Rightarrow> u64 \<Rightarrow> u32 \<Rightarrow> pcm_plugin_pos_buf_info" where
  "next_hw_ptr v b pos crossed =
     (let wrap = (\<lambda>base. if base \<ge> ucast (boundary b) then 0 else base);
          new_hw_ptr = hw_ptr_base b + pos in
      if crossed > 0
      then let base = wrap (hw_ptr_base b + ucast crossed * total_size_frames v)
           in b\<lparr>hw_ptr := base + pos, hw_ptr_base := base\<rparr>
      else if new_hw_ptr < hw_ptr b
      then let base = wrap (hw_ptr_base b + total_size_frames v)
           in b\<lparr>hw_ptr := base + pos, hw_ptr_base := base\<rparr>
      else b\<lparr>hw_ptr := new_hw_ptr\<rparr>)"

definition agm_pcm_plugin_update_hw_ptr ::
    "'k pcm_env_scheme \<Rightarrow> 'z pcm_world_scheme \<Rightarrow> (int \<times> 'z pcm_world_scheme) option" where
  "agm_pcm_plugin_update_hw_ptr K = with_plugin (\<lambda>p s.
     let v = pl_priv p in
     case pos_buf v of None \<Rightarrow> None
     | Some b \<Rightarrow>
       (case shared_pos_retry (pos_mem K) 10 (pos_reads s) of (ret, (idx, msw, lsw), n) \<Rightarrow>
        let s = s\<lparr>pos_reads := n\<rparr> in
        if ret \<noteq> 0 then Some (ret, s)
        else do {
          circ_buf_pos \<leftarrow> agm_pcm_bytes_to_frames idx (pp_media_config v);
          if period_size v = 0 then None
          else do {
            let pos = ((ucast circ_buf_pos div ucast (period_size v)) * ucast (period_size v) :: u64);
            crossed \<leftarrow> crossed_boundary v (delta_wall_clk_us b msw lsw);
            let b = (next_hw_ptr v b pos crossed)\<lparr>wall_clk_lsw := lsw, wall_clk_msw := msw, tstamp := clock K n\<rparr>;
            Some (ret, upd_priv (\<lambda>v. v\<lparr>pos_buf := Some b\<rparr>) s) }}))"

section \<open>Operations\<close>

definition pcm_dir :: "pcm_plugin \<Rightarrow> direction" where
  "pcm_dir p = (if pl_in p then TX else RX)"

definition agm_pcm_plugin_reset ::
    "'k pcm_env_scheme \<Rightarrow> 'z pcm_world_scheme \<Rightarrow> (int \<times> 'z pcm_world_scheme) option" where
  "agm_pcm_plugin_reset K = with_plugin (\<lambda>p s.
     let v = pl_priv p; (ret, handle) = pcm_get_session_handle v in
     if \<not> pl_noirq p then Some (- EOPNOTSUPP, s)
     else if ret \<noteq> 0 then Some (ret, s)
     else if pp_buf_info v = None then Some (- EINVAL, s)
     else do {
       let (addr, len) = mmap_buffer_port v (pcm_dir p);
       let ret = (if addr \<noteq> 0 \<and> len \<noteq> 0 then ret else - EINVAL);
       (_, s) \<leftarrow> agm_pcm_plugin_update_hw_ptr K s;
       with_plugin (\<lambda>p s.
         case pos_buf (pl_priv p) of None \<Rightarrow> None
         | Some b \<Rightarrow>
           if total_size_frames (pl_priv p) = 0 then None
           else Some (ret, upd_priv (\<lambda>v. v\<lparr>pos_buf := Some (b\<lparr>hw_ptr := hw_ptr b mod total_size_frames v,
                             hw_ptr_base := 0, wall_clk_msw := 0, wall_clk_lsw := 0\<rparr>)\<rparr>) s)) s })"

definition pcm_set_config :: "'k plugin_env_scheme \<Rightarrow> 'z pcm_world_scheme \<Rightarrow> (int \<times> 'z pcm_world_scheme) option" where
  "pcm_set_config K = with_plugin (\<lambda>p.
     let v = pl_priv p in service (agm_session_set_config (svc_env K) (pp_handle v) (pp_session_config v)
                                     (pp_media_config v) (pp_buffer_config v)))"

definition agm_pcm_hw_params ::
    "'k plugin_env_scheme \<Rightarrow> snd_pcm_hw_params \<Rightarrow> 'z pcm_world_scheme \<Rightarrow> (int \<times> 'z pcm_world_scheme) option" where
  "agm_pcm_hw_params K params = with_plugin (\<lambda>p s.
     let (ret, handle) = pcm_get_session_handle (pl_priv p) in
     if ret \<noteq> 0 then Some (ret, s)
     else do {
       sess_mode \<leftarrow> pcm_session_mode (pl_node p) s;
       let period = param_get_int (hp_period_size params);
       let cnt = param_get_int (hp_periods params);
       let mc = (pp_media_config (pl_priv p))\<lparr>mc_rate := param_get_int (hp_rate params),
                  mc_channels := param_get_int (hp_channels params), mc_format := param_get_mask_val (hp_format params)\<rparr>;
       let bc = (pp_buffer_config (pl_priv p))\<lparr>bc_count := cnt, bc_max_metadata_size := 0,
                  bc_size := ucast (agm_pcm_frames_to_bytes mc period)\<rparr>;
       let sc = (pp_session_config (pl_priv p))\<lparr>sc_dir := pcm_dir p, sc_sess_mode := sess_mode\<rparr>;
       let sc = (if pl_mmap p \<and> pl_noirq p then sc\<lparr>sc_data_mode := AGM_DATA_PUSH_PULL\<rparr> else sc);
       pcm_set_config K (upd_priv (\<lambda>v. v\<lparr>pp_media_config := mc, pp_buffer_config := bc, pp_session_config := sc,
                           period_size := period, total_size_frames := ucast (cnt * period)\<rparr>) s) })"

definition agm_pcm_sw_params ::
    "'k plugin_env_scheme \<Rightarrow> u64 \<Rightarrow> u64 \<Rightarrow> 'z pcm_world_scheme \<Rightarrow> (int \<times> 'z pcm_world_scheme) option" where
  "agm_pcm_sw_params K start_threshold stop_threshold = with_plugin (\<lambda>p s.
     let (ret, handle) = pcm_get_session_handle (pl_priv p) in
     if ret \<noteq> 0 then Some (ret, s)
     else do {
       sess_mode \<leftarrow> pcm_session_mode (pl_node p) s;
       pcm_set_config K (upd_priv (\<lambda>v. v\<lparr>pp_session_config := (pp_session_config v)\<lparr>sc_dir := pcm_dir p, sc_sess_mode := sess_mode,
           sc_start_threshold := ucast start_threshold, sc_stop_threshold := ucast stop_threshold\<rparr>\<rparr>) s) })"

record snd_pcm_sync_ptr =
  sp_hwsync :: bool
  sp_appl :: bool
  sp_avail_min :: bool
  c_appl_ptr :: u64
  c_avail_min :: u64
  s_hw_ptr :: u64
  s_tstamp :: int

definition agm_pcm_sync_ptr ::
    "'k pcm_env_scheme \<Rightarrow> snd_pcm_sync_ptr \<Rightarrow> 'z pcm_world_scheme \<Rightarrow> ((int \<times> snd_pcm_sync_ptr) \<times> 'z pcm_world_scheme) option" where
  "agm_pcm_sync_ptr K y = with_plugin (\<lambda>p s.
     let v = pl_priv p; (ret, handle) = pcm_get_session_handle v in
     if \<not> pl_noirq p then Some ((- EOPNOTSUPP, y), s)
     else if ret \<noteq> 0 then Some ((ret, y), s)
     else if pp_buf_info v = None then Some ((- EINVAL, y), s)
     else do {
       (ret, s) \<leftarrow> (if sp_hwsync y then agm_pcm_plugin_update_hw_ptr K s else Some (0, s));
       if ret < 0 then Some ((ret, y), s)
       else with_plugin (\<lambda>p s.
         case pos_buf (pl_priv p) of None \<Rightarrow> None
         | Some b \<Rightarrow>
           let b = (if \<not> sp_appl y then b\<lparr>appl_ptr := c_appl_ptr y\<rparr> else b);
               b = (if \<not> sp_avail_min y then b\<lparr>avail_min := c_avail_min y\<rparr> else b)
           in Some ((ret, y\<lparr>c_appl_ptr := appl_ptr b, c_avail_min := avail_min b, s_hw_ptr := hw_ptr b, s_tstamp := tstamp b\<rparr>),
                    upd_priv (\<lambda>v. v\<lparr>pos_buf := Some b\<rparr>) s)) s })"

definition pcm_bytes :: "agm_pcm_priv \<Rightarrow> u64 \<Rightarrow> u64" where
  "pcm_bytes v frames =
     frames * ucast (mc_channels (pp_media_config v) * agm_format_to_bits (mc_format (pp_media_config v)) div 8)"

definition agm_pcm_writei_frames ::
    "'k plugin_env_scheme \<Rightarrow> u64 \<Rightarrow> u64 \<Rightarrow> 'z pcm_world_scheme \<Rightarrow> (int \<times> 'z pcm_world_scheme) option" where
  "agm_pcm_writei_frames K buff frames = with_plugin (\<lambda>p s.
     let (ret, handle) = pcm_get_session_handle (pl_priv p) in
     if ret \<noteq> 0 then Some (ret, s)
     else do {
       ((ret, _), s) \<leftarrow> service (agm_session_write (svc_env K) handle buff (pcm_bytes (pl_priv p) frames)) s;
       Some (ret, s) })"

definition agm_pcm_readi_frames ::
    "'k plugin_env_scheme \<Rightarrow> u64 \<Rightarrow> u64 \<Rightarrow> 'z pcm_world_scheme \<Rightarrow> (int \<times> 'z pcm_world_scheme) option" where
  "agm_pcm_readi_frames K buff frames = with_plugin (\<lambda>p s.
     let (ret, handle) = pcm_get_session_handle (pl_priv p) in
     if ret \<noteq> 0 then Some (ret, s)
     else do {
       ((ret, _), s) \<leftarrow> service (agm_session_read (svc_env K) handle buff (pcm_bytes (pl_priv p) frames)) s;
       Some (ret, s) })"

definition agm_pcm_ttstamp :: "'z pcm_world_scheme \<Rightarrow> (int \<times> 'z pcm_world_scheme) option" where
  "agm_pcm_ttstamp = with_plugin (\<lambda>p s. Some (fst (pcm_get_session_handle (pl_priv p)), s))"

text \<open>Prepare, start and drop are calls of the service with the handle.\<close>

definition pcm_session_call ::
    "(env \<Rightarrow> nat \<Rightarrow> agm_world \<Rightarrow> (int \<times> agm_world) option) \<Rightarrow> 'k plugin_env_scheme \<Rightarrow> 'z pcm_world_scheme \<Rightarrow>
       (int \<times> 'z pcm_world_scheme) option" where
  "pcm_session_call f K = with_plugin (\<lambda>p s.
     let (ret, handle) = pcm_get_session_handle (pl_priv p) in
     if ret \<noteq> 0 then Some (ret, s) else service (f (svc_env K) handle) s)"

definition agm_pcm_prepare :: "'k plugin_env_scheme \<Rightarrow> 'z pcm_world_scheme \<Rightarrow> (int \<times> 'z pcm_world_scheme) option" where
  "agm_pcm_prepare K s =
     pcm_session_call agm_session_prepare K
       (upd_priv (\<lambda>v. v\<lparr>pos_buf := map_option (\<lambda>b. b\<lparr>wall_clk_msw := 0, wall_clk_lsw := 0\<rparr>) (pos_buf v)\<rparr>) s)"

definition agm_pcm_start :: "'k plugin_env_scheme \<Rightarrow> 'z pcm_world_scheme \<Rightarrow> (int \<times> 'z pcm_world_scheme) option" where
  "agm_pcm_start K s = pcm_session_call agm_session_start K s"

definition agm_pcm_drop :: "'k plugin_env_scheme \<Rightarrow> 'z pcm_world_scheme \<Rightarrow> (int \<times> 'z pcm_world_scheme) option" where
  "agm_pcm_drop K s = pcm_session_call agm_session_stop K s"

text \<open>The mapping of the position, if there is one.\<close>

definition unmap_pos ::
    "'k client_env_scheme \<Rightarrow> 'z pcm_world_scheme \<Rightarrow> (unit \<times> 'z pcm_world_scheme) option" where
  "unmap_pos K = with_plugin (\<lambda>p s.
     if \<not> pl_noirq p then Some ((), s)
     else case pos_buf (pl_priv p) of None \<Rightarrow> Some ((), s)
       | Some b \<Rightarrow>
         (case pp_buf_info (pl_priv p) of None \<Rightarrow> None
          | Some bi \<Rightarrow> do {
              (_, s) \<leftarrow> client_ecall K (CL_MUNMAP (pos_buf_addr b) (of_int (sint (pos_buf_size bi)))) s;
              Some ((), upd_priv (\<lambda>v. v\<lparr>pos_buf := None\<rparr>) s) }))"

definition close_fd :: "'k client_env_scheme \<Rightarrow> u32 \<Rightarrow> 'z client_world_scheme \<Rightarrow> (unit \<times> 'z client_world_scheme) option" where
  "close_fd K fd s = (if fd = -1 then Some ((), s) else do { (_, s) \<leftarrow> client_ecall K (CL_CLOSE (sint fd)) s; Some ((), s) })"

text \<open>The mappings that \<open>agm_pcm_munmap\<close> did not remove, and the files.\<close>

definition pcm_release :: "'k client_env_scheme \<Rightarrow> pcm_plugin \<Rightarrow> 'z pcm_world_scheme \<Rightarrow> (unit \<times> 'z pcm_world_scheme) option" where
  "pcm_release K p s =
     (let v = pl_priv p; (addr, len) = mmap_buffer_port v (pcm_dir p) in do {
      (_, s) \<leftarrow> (if \<not> mmap_status v then Some ((), s)
                 else do {
                   (_, s) \<leftarrow> unmap_pos K s;
                   (_, s) \<leftarrow> client_ecall K (CL_MUNMAP addr len) s;
                   Some ((), upd_priv (\<lambda>v. v\<lparr>mmap_status := False\<rparr>) s) });
      (case pp_buf_info v of None \<Rightarrow> Some ((), s)
       | Some bi \<Rightarrow> do { (_, s) \<leftarrow> close_fd K (data_buf_fd bi) s; close_fd K (pos_buf_fd bi) s }) })"

definition agm_pcm_close :: "'k plugin_env_scheme \<Rightarrow> 'z pcm_world_scheme \<Rightarrow> (int \<times> 'z pcm_world_scheme) option" where
  "agm_pcm_close K = with_plugin (\<lambda>p s.
     let (ret, handle) = pcm_get_session_handle (pl_priv p) in
     if ret \<noteq> 0 then Some (ret, s)
     else do {
       (ret, s) \<leftarrow> service (agm_session_close (svc_env K) handle) s;
       (_, s) \<leftarrow> pcm_release K p (snd_card_def_put_card (pp_card_node (pl_priv p)) s);
       Some (ret, s\<lparr>plugin := None\<rparr>) })"

text \<open>The available frames, a signed number.\<close>

definition agm_pcm_get_avail :: "pcm_plugin \<Rightarrow> int option" where
  "agm_pcm_get_avail p =
     (let v = pl_priv p in
      case pos_buf v of None \<Rightarrow> None
      | Some b \<Rightarrow>
        if pcm_dir p = RX
        then let avail = sint (hw_ptr b + total_size_frames v - appl_ptr b)
             in Some (if avail < 0 then avail + uint (boundary b)
                      else if avail \<ge> uint (boundary b) then avail - uint (boundary b) else avail)
        else let avail = sint (hw_ptr b - appl_ptr b)
             in Some (if avail < 0 then avail + uint (boundary b) else avail))"

abbreviation (input) POLLIN :: int where "POLLIN \<equiv> 1"
abbreviation (input) POLLOUT :: int where "POLLOUT \<equiv> 4"

text \<open>The result and the events that were set.\<close>

definition agm_pcm_poll ::
    "'k pcm_env_scheme \<Rightarrow> int \<Rightarrow> 'z pcm_world_scheme \<Rightarrow> ((int \<times> int option) \<times> 'z pcm_world_scheme) option" where
  "agm_pcm_poll K timeout = with_plugin (\<lambda>p s.
     let v = pl_priv p; period = uint (period_size v); rate_ms = mc_rate (pp_media_config v) div 1000 in
     if rate_ms = 0 then None
     else do {
       let period_to_msec = period_size v div rate_ms;
       avail \<leftarrow> agm_pcm_get_avail p;
       let timeout = (if avail < period \<and> timeout = 0 then 1 else timeout);
       (avail, s) \<leftarrow> (if avail < period
          then do {
            (ret, s) \<leftarrow> agm_pcm_plugin_update_hw_ptr K s;
            if ret = 0 then with_plugin (\<lambda>p s. do { a \<leftarrow> agm_pcm_get_avail p; Some (a, s) }) s else Some (avail, s) }
          else Some (avail, s));
       if avail \<ge> period
       then Some (if pl_in p then (POLLIN, Some (POLLIN + POLLOUT)) else (POLLOUT, Some POLLOUT),
                  upd_priv (\<lambda>v. v\<lparr>mmap_buf_tout := 0\<rparr>) s)
       else let tout = mmap_buf_tout v + of_int timeout in
         if tout > period_to_msec * 4 then Some ((- ETIMEDOUT, None), upd_priv (\<lambda>v. v\<lparr>mmap_buf_tout := 0\<rparr>) s)
         else Some ((0, None), upd_priv (\<lambda>v. v\<lparr>mmap_buf_tout := tout\<rparr>) s) })"

text \<open>The loop that doubles the boundary, with the product in 32 bits and the comparison in 64;
  \<open>None\<close> when it never ends.\<close>

partial_function (option) boundary_loop :: "u64 \<Rightarrow> u32 \<Rightarrow> u32 option" where
  "boundary_loop n b =
     (if (ucast (b * 2) :: u64) \<le> 0x7fffffff - n then boundary_loop n (b * 2) else Some b)"

definition pos_buf0 :: pcm_plugin_pos_buf_info where
  "pos_buf0 = \<lparr>pos_buf_addr = 0, boundary = 0, hw_ptr = 0, hw_ptr_base = 0, tstamp = 0, appl_ptr = 0, avail_min = 0,
               wall_clk_msw = 0, wall_clk_lsw = 0\<rparr>"

definition buf_info0 :: agm_buf_info where
  "buf_info0 = \<lparr>data_buf_fd = 0, data_buf_size = 0, pos_buf_fd = 0, pos_buf_size = 0\<rparr>"

text \<open>The buffers of the session, asked for once; false when that fails.\<close>

definition pcm_buf_info :: "'k plugin_env_scheme \<Rightarrow> 'z pcm_world_scheme \<Rightarrow> (bool \<times> 'z pcm_world_scheme) option" where
  "pcm_buf_info K = with_plugin (\<lambda>p s.
     if pp_buf_info (pl_priv p) \<noteq> None then Some (True, s)
     else do {
       (ok, s) \<leftarrow> client_calloc K s;
       if \<not> ok then Some (False, s)
       else do {
         ((ret, bi), s) \<leftarrow> service (agm_session_get_buf_info (svc_env K) (pp_session_id (pl_priv p)) buf_info0
                                     (if pl_noirq p then 3 else 1)) s;
         if ret \<noteq> 0 then Some (False, s) else Some (True, upd_priv (\<lambda>v. v\<lparr>pp_buf_info := Some bi\<rparr>) s) }})"

text \<open>The position, mapped once.\<close>

definition pcm_pos_buf :: "'k client_env_scheme \<Rightarrow> 'z pcm_world_scheme \<Rightarrow> (bool \<times> 'z pcm_world_scheme) option" where
  "pcm_pos_buf K = with_plugin (\<lambda>p s.
     let v = pl_priv p in
     if \<not> pl_noirq p \<or> pos_buf v \<noteq> None then Some (True, s)
     else do {
       (ok, s) \<leftarrow> client_calloc K s;
       if \<not> ok then Some (False, s)
       else case pp_buf_info v of None \<Rightarrow> None
         | Some bi \<Rightarrow> do {
             (addr, s) \<leftarrow> client_ecall K (CL_MMAP (of_int (sint (pos_buf_size bi))) (sint (pos_buf_fd bi))) s;
             if addr = - 1 then Some (False, s)
             else do {
               b \<leftarrow> boundary_loop (total_size_frames v) (ucast (total_size_frames v));
               Some (True, upd_priv (\<lambda>v. v\<lparr>pos_buf := Some (pos_buf0\<lparr>pos_buf_addr := of_int addr, boundary := b\<rparr>)\<rparr>) s) }}})"

text \<open>The address, or \<open>None\<close> for \<open>MAP_FAILED\<close>.\<close>

definition agm_pcm_mmap ::
    "'k plugin_env_scheme \<Rightarrow> u64 \<Rightarrow> int \<Rightarrow> 'z pcm_world_scheme \<Rightarrow> (u64 option \<times> 'z pcm_world_scheme) option" where
  "agm_pcm_mmap K len offset = with_plugin (\<lambda>p s.
     if offset \<noteq> 0 then Some (None, s)
     else if fst (pcm_get_session_handle (pl_priv p)) \<noteq> 0 then Some (None, s)
     else do {
       (ok, s) \<leftarrow> pcm_buf_info K s;
       if \<not> ok then Some (None, s)
       else do {
         (ok, s) \<leftarrow> pcm_pos_buf K s;
         if \<not> ok then Some (None, s)
         else with_plugin (\<lambda>p s.
           case pp_buf_info (pl_priv p) of None \<Rightarrow> None
           | Some bi \<Rightarrow>
             if len > of_int (sint (data_buf_size bi)) then Some (None, s)
             else do {
               (addr, s) \<leftarrow> client_ecall K (CL_MMAP len (sint (data_buf_fd bi))) s;
               let s = (if addr = - 1 then s
                        else upd_priv (\<lambda>v. v\<lparr>mmap_buffer_port := (mmap_buffer_port v)(pcm_dir p := (of_int addr, len))\<rparr>) s);
               Some (if addr = - 1 then None else Some (of_int addr), upd_priv (\<lambda>v. v\<lparr>mmap_status := True\<rparr>) s) }) s }})"

definition agm_pcm_munmap ::
    "'k client_env_scheme \<Rightarrow> u64 \<Rightarrow> u64 \<Rightarrow> 'z pcm_world_scheme \<Rightarrow> (int \<times> 'z pcm_world_scheme) option" where
  "agm_pcm_munmap K addr len s = do {
     (_, s) \<leftarrow> with_plugin (\<lambda>p s. unmap_pos K (upd_priv (\<lambda>v. v\<lparr>mmap_status := False\<rparr>) s)) s;
     client_ecall K (CL_MUNMAP addr len) s }"

text \<open>\<open>reset\<close> says that the command is \<open>SNDRV_PCM_IOCTL_RESET\<close>.\<close>

definition agm_pcm_ioctl :: "'k pcm_env_scheme \<Rightarrow> bool \<Rightarrow> 'z pcm_world_scheme \<Rightarrow> (int \<times> 'z pcm_world_scheme) option" where
  "agm_pcm_ioctl K reset = with_plugin (\<lambda>p s.
     let ret = fst (pcm_get_session_handle (pl_priv p)) in
     if ret \<noteq> 0 then Some (ret, s) else if reset then agm_pcm_plugin_reset K s else Some (ret, s))"

section \<open>Opening\<close>

definition pcm_priv0 :: agm_pcm_priv where
  "pcm_priv0 = \<lparr>pp_media_config = media_config0, pp_buffer_config = buffer_config0, pp_session_config = session_config0,
     pp_buf_info = None, pos_buf = None, pp_handle = 0, pp_card_node = None, pp_session_id = 0, period_size = 0,
     total_size_frames = 0, mmap_buffer_port = (\<lambda>_. (0, 0)), mmap_status = False, mmap_buf_tout = 0\<rparr>"

definition pcm_open_session ::
    "'k plugin_env_scheme \<Rightarrow> nat \<Rightarrow> u32 \<Rightarrow> 'z pcm_world_scheme \<Rightarrow> ((int \<times> nat \<times> node_ptr) \<times> 'z pcm_world_scheme) option" where
  "pcm_open_session K c device s = do {
     node \<leftarrow> snd_card_def_get_node (Some c) device 0 s;
     case node of None \<Rightarrow> Some ((- EINVAL, 0, (0, SND_NODE_TYPE_PCM, 0)), s)
     | Some n \<Rightarrow> do {
         sess_mode \<leftarrow> pcm_session_mode n s;
         ((ret, h), s) \<leftarrow> service (agm_session_open (svc_env K) device sess_mode True) s;
         if ret \<noteq> 0 then Some ((ret, 0, n), s)
         else case h of None \<Rightarrow> None | Some h \<Rightarrow> Some ((0, h, n), s) }}"

definition agm_pcm_plugin_open ::
    "'k plugin_env_scheme \<Rightarrow> u32 \<Rightarrow> u32 \<Rightarrow> bool \<Rightarrow> bool \<Rightarrow> bool \<Rightarrow> 'z pcm_world_scheme \<Rightarrow> (int \<times> 'z pcm_world_scheme) option" where
  "agm_pcm_plugin_open K cnum device is_in is_mmap is_noirq s = do {
     (ok, s) \<leftarrow> client_callocs 5 K s;
     if \<not> ok then Some (- ENOMEM, s)
     else do {
       (card_node, s) \<leftarrow> get_card K cnum s;
       case card_node of None \<Rightarrow> Some (- EINVAL, s)
       | Some c \<Rightarrow> do {
           ((ret, h, n), s) \<leftarrow> pcm_open_session K c device s;
           if ret \<noteq> 0 then Some (negative_code ret, snd_card_def_put_card card_node s)
           else Some (0, s\<lparr>plugin := Some \<lparr>pl_in = is_in, pl_mmap = is_mmap, pl_noirq = is_noirq, pl_node = n,
                  pl_priv = pcm_priv0\<lparr>pp_handle := h, pp_card_node := card_node, pp_session_id := device\<rparr>\<rparr>\<rparr>) }}}"

end
