(* ===== verification/Plugin_Properties.thy ===== *)
theory Plugin_Properties
  imports Plugin Snd_Card_Properties
begin

text \<open>
  What the properties of the plugins share: facts on 64-bit words, the frame of allocations and of calls of the
  service, and the contract between a plugin and the sound cards it holds references to.
\<close>

section \<open>Words\<close>

lemma uint_ucast_32: "uint (ucast (b :: u32) :: u64) = uint b"
  using unsigned_less [of b, where 'a = int] by (simp add: unsigned_ucast_eq take_bit_int_eq_self_iff)

lemma add_64: "uint (a :: u64) + uint b < 2 ^ 64 \<Longrightarrow> uint (a + b) = uint a + uint b"
  using uint_add_lem [of a b] by simp

lemma mult_64: "uint (a :: u64) * uint b < 2 ^ 64 \<Longrightarrow> uint (a * b) = uint a * uint b"
  using uint_mult_lem [of a b] by simp

text \<open>The distance of two small numbers as a signed word.\<close>

lemma sint_diff_64:
  assumes "uint (a :: u64) < 0x4000000000000000" "uint b < 0x4000000000000000"
  shows "sint (a - b) = uint a - uint b"
proof -
  have "0 \<le> uint a" "0 \<le> uint b" by simp_all
  then have "- 0x8000000000000000 \<le> uint a - uint b" "uint a - uint b < 0x8000000000000000" using assms by linarith+
  then show ?thesis unfolding word_sub_wi by (subst sint_sbintrunc') (simp add: signed_take_bit_int_eq_self_iff)
qed

section \<open>Calls of the service and of the system\<close>

lemma session_open_handle:
  assumes "agm_inv E s"
  shows "wlp (agm_session_open E k mode b s) (\<lambda>r _. \<forall>a. snd r = Some a \<longrightarrow> 0 < a)"
proof -
  have "wlp (session_obj_open E k mode s) (\<lambda>r _. \<forall>a. snd r = Some a \<longrightarrow> 0 < a)"
    unfolding session_obj_open_def
  proof (rule wlp_bindI [OF session_obj_get_agm [OF assms]], goal_cases)
    case (1 r t)
    then have "0 < a" if "snd r = Some a" for a
      using that by (auto simp: agm_inv_def agm_core_def pool_ok_def)
    then show ?case by (cases r) (auto intro!: res_rules)
  qed
  then show ?thesis by (simp add: agm_session_open_def wlp_simps)
qed

lemma agm_calls:
  fixes w :: agm_world
  assumes "agm_inv E w"
  shows "wlp (agm_session_open E k m b w) (\<lambda>_ w. agm_inv E w)" "wlp (agm_session_close E h w) (\<lambda>_ w. agm_inv E w)"
    "wlp (agm_session_register_cb E k f ty d w) (\<lambda>_ w. agm_inv E w)"
  using agm_exec_inv [OF assms, of "SESSION_OPEN k m b"] agm_exec_inv [OF assms, of "SESSION_CLOSE h"]
    agm_exec_inv [OF assms, of "SESSION_REGISTER_CB k f ty d"]
  by (auto simp: wlp_def)

text \<open>A call with its result changed.\<close>

definition result_of :: "('r \<Rightarrow> 'q) \<Rightarrow> ('r \<times> 's) option \<Rightarrow> ('q \<times> 's) option" where
  "result_of f m = map_option (map_prod f id) m"

lemma wlp_result_of [wlp_simps]: "wlp (result_of f m) Q \<longleftrightarrow> wlp m (\<lambda>r t. Q (f r) t)"
  by (cases m) (auto simp: result_of_def wlp_simps split: prod.splits)

lemma wlp_already: "wlp m (\<lambda>_ t. I t) \<Longrightarrow> wlp (already_ok m) (\<lambda>_ t. I t)"
  by (cases m) (auto simp: wlp_def)

text \<open>A service call in the middle of a function: only the service has changed.\<close>

definition only_service :: "env \<Rightarrow> 'z plugin_world_scheme \<Rightarrow> 'z plugin_world_scheme \<Rightarrow> bool" where
  "only_service E s t \<longleftrightarrow> (\<exists>w. t = s\<lparr>svc := w\<rparr> \<and> agm_inv E w)"

lemma only_service_refl: "agm_inv E (svc s) \<Longrightarrow> only_service E s s"
  unfolding only_service_def by (rule exI [of _ "svc s"]) simp

lemma only_service_call:
  fixes f :: "agm_world \<Rightarrow> ('r \<times> agm_world) option"
  assumes "only_service E s t" "\<And>w. agm_inv E w \<Longrightarrow> wlp (f w) (\<lambda>_ w. agm_inv E w)"
  shows "wlp (service f t) (\<lambda>_ u. only_service E s u)"
proof -
  obtain w where w: "t = s\<lparr>svc := w\<rparr>" "agm_inv E w" using assms(1) by (auto simp: only_service_def)
  show ?thesis unfolding wlp_service w(1) by (rule wlp_mono [OF assms(2)]) (use w(2) in \<open>auto simp: only_service_def\<close>)
qed

lemma refs_hist [simp]: "cards_ok (s\<lparr>cl_hist := h\<rparr>) = cards_ok s" "card_refs (s\<lparr>cl_hist := h\<rparr>) = card_refs s"
  by (simp_all add: cards_ok_def card_refs_def fun_eq_iff)

lemma refs_service [simp]:
  fixes s :: "'z plugin_world_scheme"
  shows "cards_ok (s\<lparr>svc := w\<rparr>) = cards_ok s" "card_refs (s\<lparr>svc := w\<rparr>) = card_refs s"
  by (simp_all add: cards_ok_def card_refs_def fun_eq_iff)

lemma callocs_frame:
  "wlp (client_callocs n K s) (\<lambda>_ t. \<exists>h. t = s\<lparr>cl_hist := h\<rparr>)"
proof (induction n arbitrary: s)
  case (Suc n)
  have "\<exists>h. s\<lparr>cl_hist := k\<rparr> = s\<lparr>cl_hist := h\<rparr>" for k by blast
  then show ?case by (auto simp: wlp_simps intro!: wlp_mono [OF Suc])
next
  case 0
  show ?case unfolding client_callocs.simps wlp_Some by (rule exI [of _ "cl_hist s"]) simp
qed

text \<open>Only the history of the client process has changed.\<close>

definition only_hist :: "'z client_world_scheme \<Rightarrow> 'z client_world_scheme \<Rightarrow> bool" where
  "only_hist s t \<longleftrightarrow> (\<exists>h. t = s\<lparr>cl_hist := h\<rparr>)"

lemma only_hist_refl [simp]: "only_hist s s"
  unfolding only_hist_def by (rule exI [of _ "cl_hist s"]) simp

lemma only_hist_trans: "only_hist s t \<Longrightarrow> only_hist t u \<Longrightarrow> only_hist s u"
  by (auto simp: only_hist_def)

lemma only_hist_client_calloc: "only_hist s t \<Longrightarrow> wlp (client_calloc K t) (\<lambda>_ u. only_hist s u)"
  by (auto simp: wlp_simps only_hist_def)

lemma put_card_more: "snd_world.more (snd_card_def_put_card q s) = snd_world.more s"
  by (cases s) (simp add: snd_card_def_put_card_def upd_card_def snd_free_card_def_def Let_def split: option.split)

section \<open>Card references\<close>

lemma refs_in_list:
  assumes "cards_ok s" "card_refs t = (card_refs s)(a := card_refs s a + 1)"
  shows "a \<in> set (snd_card_list t)"
proof -
  have "0 \<le> card_refs s a" using assms(1) by (auto simp: cards_ok_def card_refs_def intro: less_imp_le)
  then have "card_refs t a > 0" by (simp add: assms(2))
  then show ?thesis by (auto simp: card_refs_def split: if_splits)
qed

text \<open>The contract between a plugin and the cards: a plugin that was opened holds one reference to its card, a
  failed open none, and a close gives the reference back.\<close>

locale card_holder =
  fixes opn :: "'s \<Rightarrow> (int \<times> 's) option" and cls :: "'s \<Rightarrow> ('r \<times> 's) option" and ok :: "'s \<Rightarrow> bool"
    and refs :: "'s \<Rightarrow> nat \<Rightarrow> int" and held :: "'s \<Rightarrow> nat option"
  assumes opn: "ok s \<Longrightarrow> held s = None \<Longrightarrow>
      wlp (opn s) (\<lambda>_ t. ok t \<and> refs t = (case held t of None \<Rightarrow> refs s | Some a \<Rightarrow> (refs s)(a := refs s a + 1)))"
    and cls: "ok s \<Longrightarrow> held s = Some a \<Longrightarrow> wlp (cls s) (\<lambda>_ t. ok t \<and> held t = None \<and> refs t = (refs s)(a := refs s a - 1))"
begin

text \<open>Any number of uses, one after the other.\<close>

inductive uses :: "'s \<Rightarrow> 's \<Rightarrow> bool" for s where
  uses_none: "uses s s"
| uses_open: "uses s t \<Longrightarrow> held t = None \<Longrightarrow> opn t = Some (r, u) \<Longrightarrow> uses s u"
| uses_close: "uses s t \<Longrightarrow> held t = Some a \<Longrightarrow> cls t = Some (q, u) \<Longrightarrow> uses s u"

lemma uses_refs:
  assumes "uses s t" "ok s" "held s = None"
  shows "ok t \<and> refs t = (case held t of None \<Rightarrow> refs s | Some a \<Rightarrow> (refs s)(a := refs s a + 1))"
  using assms
proof (induction rule: uses.induct)
  case (uses_open t r u)
  then show ?case using wlpD [OF opn, of t r u] by (auto split: option.splits)
next
  case (uses_close t a q u)
  then show ?case using wlpD [OF cls, of t a q u] by (simp add: fun_eq_iff)
qed simp

lemma balanced: "uses s t \<Longrightarrow> ok s \<Longrightarrow> held s = None \<Longrightarrow> held t = None \<Longrightarrow> refs t = refs s"
  using uses_refs by fastforce

end

text \<open>A holder of a card that is used while it is open: the use keeps the reference.\<close>

locale card_user = card_holder opn cls ok refs held
  for opn :: "'s \<Rightarrow> (int \<times> 's) option" and cls :: "'s \<Rightarrow> ('r \<times> 's) option" and ok :: "'s \<Rightarrow> bool"
    and refs :: "'s \<Rightarrow> nat \<Rightarrow> int" and held :: "'s \<Rightarrow> nat option" +
  fixes call :: "'o \<Rightarrow> 's \<Rightarrow> ('q \<times> 's) option"
  assumes call: "ok s \<Longrightarrow> held s = Some a \<Longrightarrow> wlp (call x s) (\<lambda>_ t. ok t \<and> held t = Some a \<and> refs t = refs s)"
begin

inductive life :: "'s \<Rightarrow> 's \<Rightarrow> bool" for s where
  life_new: "life s s"
| life_open: "life s t \<Longrightarrow> held t = None \<Longrightarrow> opn t = Some (r, u) \<Longrightarrow> life s u"
| life_call: "life s t \<Longrightarrow> held t = Some a \<Longrightarrow> call x t = Some (y, u) \<Longrightarrow> life s u"
| life_close: "life s t \<Longrightarrow> held t = Some a \<Longrightarrow> cls t = Some (q, u) \<Longrightarrow> life s u"

lemma life_refs:
  assumes "life s t" "ok s" "held s = None"
  shows "ok t \<and> refs t = (case held t of None \<Rightarrow> refs s | Some a \<Rightarrow> (refs s)(a := refs s a + 1))"
  using assms
proof (induction rule: life.induct)
  case (life_open t r u)
  then show ?case using wlpD [OF opn, of t r u] by (auto split: option.splits)
next
  case (life_call t a x y u)
  then show ?case using wlpD [OF call, of t a x y u] by simp
next
  case (life_close t a q u)
  then show ?case using wlpD [OF cls, of t a q u] by (simp add: fun_eq_iff)
qed simp

end

end
