(* ===== verification/Pcm_Plugin_Properties.thy ===== *)
theory Pcm_Plugin_Properties
  imports Pcm_Plugin Plugin_Properties Scenario
begin

text \<open>
  Properties of the PCM plugin: the search for the boundary of the pointers, the pointers of a stream in
  pull and push mode under every sequence of calls, the sound card references of an open and a close, and
  the calls after a mapping is removed.
\<close>

section \<open>The boundary\<close>









section \<open>The pointers\<close>

text \<open>What the pointers of a mapped stream keep: the base is a multiple of the buffer below the boundary.\<close>

definition pos_ok :: "agm_pcm_priv \<Rightarrow> pcm_plugin_pos_buf_info \<Rightarrow> bool" where
  "pos_ok v b \<longleftrightarrow> 0 < uint (total_size_frames v) \<and> uint (boundary b) \<le> 0x7fffffff
     \<and> uint (total_size_frames v) dvd uint (boundary b) \<and> uint (total_size_frames v) dvd uint (hw_ptr_base b)
     \<and> uint (hw_ptr_base b) < uint (boundary b) \<and> uint (hw_ptr b) < uint (boundary b)"






text \<open>The DSP keeps its index in the shared buffer (a multiple of the frame size).\<close>

definition index_ok :: "agm_pcm_priv \<Rightarrow> u32 \<Rightarrow> bool" where
  "index_ok v idx \<longleftrightarrow> (\<forall>f. agm_pcm_bytes_to_frames idx (pp_media_config v) = Some f \<longrightarrow> uint f < uint (total_size_frames v))"




text \<open>A stream whose hardware parameters are set: the DSP stays in its buffer, and a mapped position is
  well formed.\<close>

definition stream_ok :: "'k pcm_env_scheme \<Rightarrow> 'z pcm_world_scheme \<Rightarrow> bool" where
  "stream_ok K s \<longleftrightarrow> (\<forall>p. plugin s = Some p \<longrightarrow> uint (total_size_frames (pl_priv p)) < 2 ^ 32
     \<and> (\<forall>m. index_ok (pl_priv p) (read_index (pos_mem K m)))
     \<and> (\<forall>b. pos_buf (pl_priv p) = Some b \<longrightarrow> pos_ok (pl_priv p) b))"

lemma stream_ok_frame [simp]:
  "stream_ok K (s\<lparr>svc := w\<rparr>) = stream_ok K s" "stream_ok K (s\<lparr>cl_hist := h\<rparr>) = stream_ok K s"
  "stream_ok K (s\<lparr>pos_reads := n\<rparr>) = stream_ok K s"
  by (simp_all add: stream_ok_def)

lemma wlp_with_plugin [wlp_simps]:
  "wlp (with_plugin f s) Q \<longleftrightarrow> (\<forall>p. plugin s = Some p \<longrightarrow> wlp (f p s) Q)"
  by (simp add: with_plugin_def wlp_simps split: option.split)









lemma inv_with_plugin: "(\<And>p. plugin s = Some p \<Longrightarrow> wlp (f p s) Q) \<Longrightarrow> wlp (with_plugin f s) Q"
  by (simp add: wlp_simps)










text \<open>The calls of a client on a stream whose parameters are set.\<close>

inductive stream_run :: "pcm_env \<Rightarrow> pcm_world \<Rightarrow> pcm_world \<Rightarrow> bool" for K :: pcm_env and s :: pcm_world where
  run_start: "stream_run K s s"
| run_sync: "stream_run K s t \<Longrightarrow> agm_pcm_sync_ptr K y t = Some (r, u) \<Longrightarrow> stream_run K s u"
| run_poll: "stream_run K s t \<Longrightarrow> agm_pcm_poll K timeout t = Some (r, u) \<Longrightarrow> stream_run K s u"
| run_ioctl: "stream_run K s t \<Longrightarrow> agm_pcm_ioctl K reset t = Some (r, u) \<Longrightarrow> stream_run K s u"
| run_mmap: "stream_run K s t \<Longrightarrow> agm_pcm_mmap K n off t = Some (r, u) \<Longrightarrow> stream_run K s u"
| run_munmap: "stream_run K s t \<Longrightarrow> agm_pcm_munmap K x n t = Some (r, u) \<Longrightarrow> stream_run K s u"
| run_prepare: "stream_run K s t \<Longrightarrow> agm_pcm_prepare K t = Some (r, u) \<Longrightarrow> stream_run K s u"
| run_pcm_start: "stream_run K s t \<Longrightarrow> agm_pcm_start K t = Some (r, u) \<Longrightarrow> stream_run K s u"
| run_drop: "stream_run K s t \<Longrightarrow> agm_pcm_drop K t = Some (r, u) \<Longrightarrow> stream_run K s u"
| run_write: "stream_run K s t \<Longrightarrow> agm_pcm_writei_frames K x m t = Some (r, u) \<Longrightarrow> stream_run K s u"
| run_read: "stream_run K s t \<Longrightarrow> agm_pcm_readi_frames K x m t = Some (r, u) \<Longrightarrow> stream_run K s u"






section \<open>Opening and closing\<close>

lemma refs_frame [simp]:
  "cards_ok (s\<lparr>plugin := q\<rparr>) = cards_ok s" "card_refs (s\<lparr>plugin := q\<rparr>) = card_refs s"
  "cards_ok (upd_priv f s) = cards_ok s" "card_refs (upd_priv f s) = card_refs s"
  by (simp_all add: cards_ok_def card_refs_def fun_eq_iff upd_priv_def)

lemma world_of_more:
  fixes s t :: "'z pcm_world_scheme"
  assumes "snd_world.more t = snd_world.more s"
  shows "svc t = svc s" "plugin t = plugin s"
  using assms by (cases s; cases t; simp)+

lemma open_session_frame:
  assumes "agm_inv (svc_env K) (svc s)"
  shows "wlp (pcm_open_session K c device s) (\<lambda>r t. only_service (svc_env K) s t \<and> (fst r = 0 \<longrightarrow> 0 < fst (snd r)))"
proof (rule wlp_conj)
  show "wlp (pcm_open_session K c device s) (\<lambda>_ t. only_service (svc_env K) s t)"
    unfolding pcm_open_session_def
    by (auto simp: wlp_Some wlp_bind_gen [of "snd_card_def_get_node _ _ _ _"] wlp_bind_gen [of "pcm_session_mode _ _"]
        only_service_refl [OF assms] intro!: inv_rules only_service_call agm_calls)
  show "wlp (pcm_open_session K c device s) (\<lambda>r _. fst r = 0 \<longrightarrow> 0 < fst (snd r))"
    unfolding pcm_open_session_def
    by (auto simp: wlp_simps wlp_bind_gen [of "snd_card_def_get_node _ _ _ _"] wlp_bind_gen [of "pcm_session_mode _ _"]
        intro!: wlp_mono [OF session_open_handle [OF assms]])
qed

text \<open>The references of the cards are \<open>R\<close>; the rest of a close does not change them.\<close>

definition refs_are :: "env \<Rightarrow> (nat \<Rightarrow> int) \<Rightarrow> 'z pcm_world_scheme \<Rightarrow> bool" where
  "refs_are E R s \<longleftrightarrow> cards_ok s \<and> agm_inv E (svc s) \<and> card_refs s = R"

lemma refs_are_frame [simp]:
  "refs_are E R (s\<lparr>cl_hist := h\<rparr>) = refs_are E R s" "refs_are E R (upd_priv f s) = refs_are E R s"
  "refs_are E R (s\<lparr>plugin := q\<rparr>) = refs_are E R s"
  by (simp_all add: refs_are_def) (simp add: upd_priv_def)

lemma client_ecall_refs: "refs_are E R s \<Longrightarrow> wlp (client_ecall K c s) (\<lambda>_ t. refs_are E R t)"
  by (simp add: wlp_simps)

lemma unmap_pos_refs: "refs_are E R s \<Longrightarrow> wlp (unmap_pos K s) (\<lambda>_ t. refs_are E R t)"
  unfolding unmap_pos_def by (intro inv_with_plugin inv_rules client_ecall_refs) simp_all

lemma close_fd_refs: "refs_are E R s \<Longrightarrow> wlp (close_fd K fd s) (\<lambda>_ t. refs_are E R t)"
  unfolding close_fd_def by (intro inv_rules client_ecall_refs) simp_all

lemma release_refs: "refs_are E R s \<Longrightarrow> wlp (pcm_release K p s) (\<lambda>_ t. refs_are E R t)"
  unfolding pcm_release_def by (intro inv_rules client_ecall_refs unmap_pos_refs close_fd_refs) simp_all

lemma close_refs:
  fixes s :: pcm_world
  assumes "cards_ok s" "agm_inv (svc_env K) (svc s)" "plugin s = Some p" "0 < pp_handle (pl_priv p)"
    "pp_card_node (pl_priv p) = Some a" "a \<in> set (snd_card_list s)"
  shows "wlp (agm_pcm_close K s) (\<lambda>_ u. plugin u = None \<and> refs_are (svc_env K) ((card_refs s)(a := card_refs s a - 1)) u)"
proof -
  let ?R = "(card_refs s)(a := card_refs s a - 1)"
  have put: "refs_are (svc_env K) ?R (snd_card_def_put_card (Some a) t)" if "only_service (svc_env K) s t" for t
    using that put_card_refs [of t a] assms(1,6) world_of_more [OF put_card_more [of "Some a" t]]
    by (auto simp: refs_are_def only_service_def)
  note close = only_service_call [OF only_service_refl [OF assms(2)], of "agm_session_close (svc_env K) (pp_handle (pl_priv p))"]
  show ?thesis
    using assms(3-5) unfolding agm_pcm_close_def
    by (auto simp: wlp_with_plugin wlp_Some wlp_case_prod pcm_get_session_handle_def Let_def
        intro!: wlp_bindI [OF close] wlp_bindI [OF release_refs] put agm_calls)
qed

text \<open>What a caller of the open function sees.\<close>

definition opened_refs :: "env \<Rightarrow> pcm_world \<Rightarrow> int \<Rightarrow> pcm_world \<Rightarrow> bool" where
  "opened_refs E s ret t \<longleftrightarrow> cards_ok t \<and> agm_inv E (svc t) \<and> (if ret = 0
      then \<exists>p a. plugin t = Some p \<and> 0 < pp_handle (pl_priv p) \<and> pp_card_node (pl_priv p) = Some a
           \<and> card_refs t = (card_refs s)(a := card_refs s a + 1)
      else ret < 0 \<and> plugin t = plugin s \<and> card_refs t = card_refs s)"

lemma open_with_card:
  fixes s t :: pcm_world
  assumes "agm_inv (svc_env K) (svc s)" "cards_ok s" "cards_ok t" "snd_world.more t = snd_world.more s"
    "card_refs t = (card_refs s)(a := card_refs s a + 1)"
  shows "wlp (do {
           ((ret, h, n), t) \<leftarrow> pcm_open_session K a device t;
           if ret \<noteq> 0 then Some (negative_code ret, snd_card_def_put_card (Some a) t)
           else Some (0, t\<lparr>plugin := Some \<lparr>pl_in = is_in, pl_mmap = is_mmap, pl_noirq = is_noirq, pl_node = n,
                  pl_priv = pcm_priv0\<lparr>pp_handle := h, pp_card_node := Some a, pp_session_id := device\<rparr>\<rparr>\<rparr>) }) (opened_refs (svc_env K) s)"
proof -
  have "agm_inv (svc_env K) (svc t)" using assms(1) world_of_more [OF assms(4)] by simp
  note service = this and frame = open_session_frame [OF this, of a device]
  have put: "cards_ok (snd_card_def_put_card (Some a) (t\<lparr>svc := w\<rparr>))"
    "card_refs (snd_card_def_put_card (Some a) (t\<lparr>svc := w\<rparr>)) = card_refs s"
    "plugin (snd_card_def_put_card (Some a) (t\<lparr>svc := w\<rparr>)) = plugin s" "svc (snd_card_def_put_card (Some a) (t\<lparr>svc := w\<rparr>)) = w" for w
    using put_card_refs [of "t\<lparr>svc := w\<rparr>" a] refs_in_list [OF assms(2,5)] assms(3,5) world_of_more [OF assms(4)]
      world_of_more [OF put_card_more [of "Some a" "t\<lparr>svc := w\<rparr>"]] by (simp_all add: fun_eq_iff)
  show ?thesis
    by (rule wlp_bindI [OF frame])
       (use assms put in \<open>auto simp: wlp_simps negative_code_def pcm_priv0_def opened_refs_def only_service_def\<close>)
qed

lemma pcm_open_refs:
  fixes s :: pcm_world
  assumes "cards_ok s" "agm_inv (svc_env K) (svc s)" "card_def_file K = Some (es, True)"
  shows "wlp (agm_pcm_plugin_open K cnum device is_in is_mmap is_noirq s) (opened_refs (svc_env K) s)"
  unfolding agm_pcm_plugin_open_def
proof (rule wlp_bindI [OF callocs_frame], goal_cases)
  case (1 ok u)
  then obtain h where u: "u = s\<lparr>cl_hist := h\<rparr>" by blast
  have oku: "cards_ok u" "plugin u = plugin s" "card_refs u = card_refs s" "agm_inv (svc_env K) (svc u)"
    using assms(1,2) by (simp_all add: u)
  have get: "wlp (get_card K cnum u) (\<lambda>r t. cards_ok t \<and> snd_world.more t = snd_world.more u
    \<and> card_refs t = (case r of None \<Rightarrow> card_refs u | Some a \<Rightarrow> (card_refs u)(a := card_refs u a + 1)))"
    unfolding assms(3) by (rule get_card_refs [OF oku(1)])
  have same: "opened_refs (svc_env K) u = opened_refs (svc_env K) s" by (simp add: opened_refs_def fun_eq_iff oku)
  show ?case
  proof (intro inv_if res_Some wlp_bindI [OF get], goal_cases)
    case 1
    then show ?case using oku by (simp add: opened_refs_def)
  next
    case (2 r t)
    show ?case
    proof (cases r)
      case None
      then show ?thesis using 2 world_of_more [of t u] oku by (simp add: opened_refs_def wlp_simps)
    next
      case (Some a)
      then have t: "cards_ok t" "snd_world.more t = snd_world.more u" "card_refs t = (card_refs u)(a := card_refs u a + 1)"
        using 2 by simp_all
      show ?thesis
        unfolding Some option.case same [symmetric] by (rule open_with_card [OF oku(4,1) t])
    qed
  qed
qed

definition pcm_ok :: "pcm_env \<Rightarrow> pcm_world \<Rightarrow> bool" where
  "pcm_ok K s \<longleftrightarrow> cards_ok s \<and> agm_inv (svc_env K) (svc s) \<and> (\<exists>es. card_def_file K = Some (es, True))
     \<and> (\<forall>p. plugin s = Some p \<longrightarrow> 0 < pp_handle (pl_priv p) \<and> (\<exists>a \<in> set (snd_card_list s). pp_card_node (pl_priv p) = Some a))"

definition pcm_held :: "pcm_world \<Rightarrow> nat option" where
  "pcm_held s = Option.bind (plugin s) (\<lambda>p. pp_card_node (pl_priv p))"

lemma pcm_held_None: "pcm_ok K s \<Longrightarrow> pcm_held s = None \<longleftrightarrow> plugin s = None"
  by (cases "plugin s") (auto simp: pcm_ok_def pcm_held_def)

lemma pcm_open_card:
  assumes "pcm_ok K s" "pcm_held s = None"
  shows "wlp (agm_pcm_plugin_open K cnum device is_in is_mmap is_noirq s) (\<lambda>ret t. (pcm_ok K t
    \<and> card_refs t = (case pcm_held t of None \<Rightarrow> card_refs s | Some a \<Rightarrow> (card_refs s)(a := card_refs s a + 1)))
    \<and> (ret = 0 \<longleftrightarrow> pcm_held t \<noteq> None) \<and> ret \<le> 0)"
proof -
  obtain es where s: "cards_ok s" "agm_inv (svc_env K) (svc s)" "card_def_file K = Some (es, True)" "plugin s = None"
    using assms pcm_held_None [OF assms(1)] by (auto simp: pcm_ok_def)
  show ?thesis
    by (rule wlp_mono [OF pcm_open_refs [OF s(1-3)]])
       (use s refs_in_list [OF s(1)] in \<open>fastforce simp: opened_refs_def pcm_ok_def pcm_held_def split: if_splits\<close>)
qed

lemma pcm_close_card:
  assumes "pcm_ok K s" "pcm_held s = Some a"
  shows "wlp (agm_pcm_close K s) (\<lambda>_ t. pcm_ok K t \<and> pcm_held t = None \<and> card_refs t = (card_refs s)(a := card_refs s a - 1))"
proof -
  obtain p where p: "plugin s = Some p" "pp_card_node (pl_priv p) = Some a" using assms(2) by (auto simp: pcm_held_def bind_eq_Some_conv)
  then have "0 < pp_handle (pl_priv p)" "a \<in> set (snd_card_list s)" using assms(1) by (auto simp: pcm_ok_def)
  with p show ?thesis
    using assms(1) by (intro wlp_mono [OF close_refs [of s K p a]]) (auto simp: pcm_ok_def pcm_held_def refs_are_def)
qed

interpretation pcm_card: card_holder "agm_pcm_plugin_open K cnum device is_in is_mmap is_noirq" "agm_pcm_close K" "pcm_ok K"
    card_refs pcm_held for K cnum device is_in is_mmap is_noirq
  by unfold_locales (rule wlp_mono [OF pcm_open_card] pcm_close_card; blast)+

text \<open>\<^bold>\<open>C29.\<close> A client that opens and closes PCM plugins any number of times holds one reference to the sound card
  of the plugin that is open and none otherwise, and all other references are as at the beginning. An open returns 0
  exactly when it leaves a plugin behind and a negative code otherwise.\<close>

theorem pcm_open_close:
  assumes "cards_ok s" "agm_reach (svc_env K) (svc s)" "card_def_file K = Some (es, True)" "plugin s = None"
    and "pcm_card.uses K cnum device is_in is_mmap is_noirq s t"
  shows "cards_ok t
    \<and> card_refs t = (case pcm_held t of None \<Rightarrow> card_refs s | Some a \<Rightarrow> (card_refs s)(a := card_refs s a + 1))
    \<and> (\<forall>ret u. pcm_held t = None \<longrightarrow> agm_pcm_plugin_open K cnum device is_in is_mmap is_noirq t = Some (ret, u) \<longrightarrow>
         (ret = 0 \<longleftrightarrow> pcm_held u \<noteq> None) \<and> ret \<le> 0)"
proof -
  have "pcm_ok K s" "pcm_held s = None" using assms(1-4) agm_reach_inv by (auto simp: pcm_ok_def pcm_held_def)
  then have t: "pcm_ok K t" "card_refs t = (case pcm_held t of None \<Rightarrow> card_refs s | Some a \<Rightarrow> (card_refs s)(a := card_refs s a + 1))"
    using pcm_card.uses_refs [OF assms(5)] by blast+
  then show ?thesis using wlpD [OF pcm_open_card [OF t(1)]] by (auto simp: pcm_ok_def)
qed

text \<open>Removing the mapping of a stream in pull and push mode keeps the buffer information but not the
  position: the next synchronisation of the pointers passes the check of the buffer and then follows a NULL pointer.\<close>

theorem sync_after_munmap_traps:
  assumes "plugin s = Some p" "pl_noirq p" "pp_handle (pl_priv p) \<noteq> 0" "pp_buf_info (pl_priv p) = Some bi"
    "pos_buf (pl_priv p) = Some b"
  shows "\<exists>t. agm_pcm_munmap K x n s = Some (cl_ret K (cl_hist s @ [CL_MUNMAP (pos_buf_addr b) (of_int (sint (pos_buf_size bi)))])
           (CL_MUNMAP x n), t) \<and> agm_pcm_sync_ptr L y t = None"
  using assms by (simp add: agm_pcm_munmap_def unmap_pos_def with_plugin_def upd_priv_def client_ecall_def agm_pcm_sync_ptr_def
      pcm_get_session_handle_def agm_pcm_plugin_update_hw_ptr_def Let_def)

section \<open>A stream\<close>

definition pcm_env0 :: pcm_env where
  "pcm_env0 = \<lparr>cl_ret = (\<lambda>_ _. 0), card_id_file = (\<lambda>_. None), card_def_file = Some ([], True), svc_env = env0,
     pos_mem = (\<lambda>n. \<lparr>frame_counter = 1, read_index = 960, wall_clock_us_lsw = 0, wall_clock_us_msw = 0\<rparr>), clock = (\<lambda>_. 0)\<rparr>"

definition stream_card0 :: snd_dev_def_card where
  "stream_card0 = \<lparr>sd_card = 100, sd_name = None, sd_refcnt = 1, devs_list = (\<lambda>t. if t = SND_NODE_TYPE_PCM
     then [\<lparr>nd_node_type = SND_NODE_TYPE_PCM, nd_device = 5, nd_type = 1, nd_name = None, nd_so_name = None,
            prop_val_list = [(''session_mode'', ''2'')]\<rparr>] else [])\<rparr>"

definition pcm_world0 :: pcm_world where
  "pcm_world0 = \<lparr>cl_hist = [], cards = (\<lambda>_. stream_card0), snd_card_list = [1], card_next = 2, svc = world0, plugin = None,
     pos_reads = 0\<rparr>"

definition stream_plugin0 :: pcm_plugin where
  "stream_plugin0 = \<lparr>pl_in = False, pl_mmap = True, pl_noirq = True, pl_node = (1, SND_NODE_TYPE_PCM, 0),
     pl_priv = pcm_priv0\<lparr>pp_handle := 1, pp_media_config := media0, period_size := 480, total_size_frames := 1920,
       pp_buf_info := Some buf_info0, pos_buf := Some (pos_buf0\<lparr>boundary := 1920\<rparr>)\<rparr>\<rparr>"

definition sync0 :: snd_pcm_sync_ptr where
  "sync0 = \<lparr>sp_hwsync = True, sp_appl = False, sp_avail_min = False, c_appl_ptr = 0, c_avail_min = 0, s_hw_ptr = 0, s_tstamp = 0\<rparr>"




theorem sync_after_munmap_traps_witness:
  "\<exists>t. agm_pcm_munmap pcm_env0 0 0 (pcm_world0\<lparr>plugin := Some stream_plugin0\<rparr>) = Some (0, t)
     \<and> agm_pcm_sync_ptr pcm_env0 sync0 t = None"
  using sync_after_munmap_traps [of "pcm_world0\<lparr>plugin := Some stream_plugin0\<rparr>" stream_plugin0 buf_info0
      "pos_buf0\<lparr>boundary := 1920\<rparr>" pcm_env0 0 0 pcm_env0 sync0]
  by (simp add: stream_plugin0_def pcm_priv0_def pcm_env0_def)

lemmas plugin_eval = client_calloc_def client_ecall_def snd_card_def_get_card_def read_card_id_def
  search_card.simps upd_card_def live_card_def node_list_of_def snd_card_def_get_node_def node_at_def snd_card_def_get_str_def
  snd_card_def_get_int_def atoi_def scan_sign_def is_space_def is_digit_def digits_val_def session_mode_of_def

lemma session_opened0: "\<exists>w. agm_session_open env0 5 AGM_SESSION_NON_TUNNEL True world0 = Some ((0, Some 1), w)"
  by (simp add: agm_eval cong: bind_eval_cong)

theorem pcm_open_close_witness:
  "\<exists>t p. agm_pcm_plugin_open pcm_env0 100 5 False True True pcm_world0 = Some (0, t) \<and> plugin t = Some p
     \<and> pp_card_node (pl_priv p) = Some 1 \<and> card_refs t 1 = 2"
proof -
  obtain w where w: "agm_session_open env0 5 AGM_SESSION_NON_TUNNEL True world0 = Some ((0, Some 1), w)"
    using session_opened0 by blast
  have alloc: "client_callocs 5 pcm_env0 pcm_world0 = Some (True, pcm_world0\<lparr>cl_hist := replicate 5 CL_CALLOC\<rparr>)"
    by (simp add: numeral_eq_Suc plugin_eval pcm_env0_def pcm_world0_def)
  obtain t p where t: "agm_pcm_plugin_open pcm_env0 100 5 False True True pcm_world0 = Some (0, t)" "plugin t = Some p"
      "pp_card_node (pl_priv p) = Some 1"
    by (simp add: agm_pcm_plugin_open_def alloc)
       (simp add: pcm_open_session_def pcm_session_mode_def pcm_env0_def pcm_world0_def stream_card0_def
        plugin_eval service_def w)
  have "pcm_card.uses pcm_env0 100 5 False True True pcm_world0 t"
    by (rule pcm_card.uses_open [OF pcm_card.uses_none _ t(1)]) (simp add: pcm_held_def pcm_world0_def)
  moreover have "cards_ok pcm_world0" by (simp add: cards_ok_def pcm_world0_def stream_card0_def)
  moreover have "agm_reach (svc_env pcm_env0) (svc pcm_world0)"
    using agm_reach_init [OF world0_initial] by (simp add: pcm_env0_def pcm_world0_def)
  ultimately have "card_refs t 1 = card_refs pcm_world0 1 + 1"
    using pcm_open_close [of pcm_world0 pcm_env0 "[]" 100 5 False True True t] t(2,3)
    by (simp add: pcm_env0_def pcm_held_def pcm_world0_def)
  then show ?thesis using t by (simp add: card_refs_def pcm_world0_def stream_card0_def)
qed

end
