(* ===== verification/Compress_Plugin.thy ===== *)
theory Compress_Plugin
  imports Plugin
begin

text \<open>
  Model of \<open>plugins/tinyalsa/src/agm_compress_plugin.c\<close>: compressed streams on sessions. The service
  reports consumed fragments and the end of the stream through a callback that runs in a thread of its
  own; a drain blocks on a condition variable until the callback, a stop or a close signals it. A call
  that blocks is two definitions, up to the wait and after it, so that the callback and other calls can
  run in between. Each mutex is held over one definition only and has no state of its own here. The
  constants of the kernel's headers (codec ids, stream formats, profiles) are parameters.
\<close>

section \<open>State\<close>

datatype snd_codec_id =
    SND_AUDIOCODEC_MP3 | SND_AUDIOCODEC_AAC | SND_AUDIOCODEC_WMA | SND_AUDIOCODEC_FLAC | SND_AUDIOCODEC_VORBIS
  | SND_AUDIOCODEC_ALAC | SND_AUDIOCODEC_APE | SND_AUDIOCODEC_OTHER u32

record snd_codec =
  cd_id :: snd_codec_id
  ch_in :: u32
  ch_out :: u32
  cd_sample_rate :: u32
  cd_bit_rate :: u32
  cd_profile :: u32
  cd_format :: u32
  cd_reserved :: "nat \<Rightarrow> u32"

record snd_compr_params =
  fragment_size :: u32
  fragments :: u32
  cp_codec :: snd_codec

record snd_compr_caps =
  cap_playback :: bool
  min_fragment_size :: u32
  max_fragment_size :: u32
  min_fragments :: u32
  max_fragments :: u32
  cap_codecs :: "snd_codec_id list"

record snd_compr_tstamp =
  ts_sampling_rate :: u32
  ts_copied_total :: u32
  ts_pcm_io_frames :: u32

datatype snd_compr_key = SNDRV_COMPRESS_ENCODER_PADDING | SNDRV_COMPRESS_ENCODER_DELAY | SNDRV_COMPRESS_KEY_OTHER

record agm_compress_priv =
  cz_media_config :: agm_media_config
  cz_buffer_config :: agm_buffer_config
  cz_session_config :: agm_session_config
  compr_cap :: snd_compr_caps
  cz_handle :: nat
  prepared :: bool
  bytes_copied :: u64
  total_buf_size :: u64
  bytes_avail :: u64
  bytes_received :: u64
  bytes_read :: u64
  cz_eos :: bool
  early_eos :: bool
  eos_received :: bool
  silence_type :: agm_gapless_silence_type
  silence :: u32
  cz_card_node :: "nat option"
  cz_session_id :: u32

record compress_plugin =
  cz_addr :: u64
  cz_node :: node_ptr
  cz_priv :: agm_compress_priv

text \<open>A thread in a call that waits for a condition: not in the call, blocked, or signalled.\<close>

datatype waiter = NOT_WAITING | BLOCKED | SIGNALLED

definition cond_signal :: "waiter \<Rightarrow> waiter" where
  "cond_signal w = (if w = BLOCKED then SIGNALLED else w)"

record compress_env = plugin_env +
  SND_AUDIOSTREAMFORMAT_MP4LATM :: u32
  SND_AUDIOSTREAMFORMAT_ADIF :: u32
  SND_AUDIOSTREAMFORMAT_MP4ADTS :: u32
  wmapro_profiles :: "u32 list"
  has_alac :: bool
  has_ape :: bool
  plugin_addr :: "client_call list \<Rightarrow> u64"
  event_cb_addr :: u64

record compress_world = plugin_world +
  cplugin :: "compress_plugin option"
  drain_wait :: waiter
  early_wait :: waiter

definition upd_cpriv ::
    "(agm_compress_priv \<Rightarrow> agm_compress_priv) \<Rightarrow> 'z compress_world_scheme \<Rightarrow> 'z compress_world_scheme" where
  "upd_cpriv f s = s\<lparr>cplugin := map_option (\<lambda>p. p\<lparr>cz_priv := f (cz_priv p)\<rparr>) (cplugin s)\<rparr>"

definition with_cplugin ::
    "(compress_plugin \<Rightarrow> 'z compress_world_scheme \<Rightarrow> ('r \<times> 'z compress_world_scheme) option) \<Rightarrow>
       'z compress_world_scheme \<Rightarrow> ('r \<times> 'z compress_world_scheme) option" where
  "with_cplugin f s = (case cplugin s of None \<Rightarrow> None | Some p \<Rightarrow> f p s)"

definition compress_get_session_handle :: "agm_compress_priv \<Rightarrow> int \<times> nat" where
  "compress_get_session_handle v = (if cz_handle v = 0 then (- EINVAL, 0) else (0, cz_handle v))"

section \<open>Events\<close>

text \<open>A signal for a drain that waits for the end of the stream.\<close>

definition signal_eos :: "'z compress_world_scheme \<Rightarrow> 'z compress_world_scheme" where
  "signal_eos s = upd_cpriv (\<lambda>v. v\<lparr>cz_eos := False\<rparr>) (s\<lparr>drain_wait := cond_signal (drain_wait s)\<rparr>)"

definition signal_early_eos :: "'z compress_world_scheme \<Rightarrow> 'z compress_world_scheme" where
  "signal_early_eos s = upd_cpriv (\<lambda>v. v\<lparr>early_eos := False\<rparr>) (s\<lparr>early_wait := cond_signal (early_wait s)\<rparr>)"

text \<open>The client data is the plugin. No call ever waits for \<open>drain_cond\<close>, so the signal after a
  completed write has no effect. \<open>None\<close> for the event is a NULL pointer.\<close>

definition agm_compress_event_cb ::
    "u32 option \<Rightarrow> 'z compress_world_scheme \<Rightarrow> (unit \<times> 'z compress_world_scheme) option" where
  "agm_compress_event_cb event_params = with_cplugin (\<lambda>p s.
     case event_params of None \<Rightarrow> Some ((), s)
     | Some event \<Rightarrow>
       let v = cz_priv p; frag = bc_size (cz_buffer_config v) in
       if event = AGM_EVENT_WRITE_DONE then Some ((), upd_cpriv (\<lambda>v. v\<lparr>bytes_avail := bytes_avail v + frag\<rparr>) s)
       else if event = AGM_EVENT_READ_DONE
       then Some ((), upd_cpriv (\<lambda>v. v\<lparr>bytes_avail := bytes_avail v + frag, bytes_received := bytes_received v + frag\<rparr>) s)
       else if event = AGM_EVENT_EOS_RENDERED
       then Some ((), if cz_eos v then signal_eos s else upd_cpriv (\<lambda>v. v\<lparr>eos_received := True\<rparr>) s)
       else if event = AGM_EVENT_EARLY_EOS then Some ((), if early_eos v then signal_early_eos s else s)
       else Some ((), s))"

section \<open>Data\<close>

text \<open>The first call that needs it prepares the session.\<close>

definition compress_prepare ::
    "'k plugin_env_scheme \<Rightarrow> nat \<Rightarrow> 'z compress_world_scheme \<Rightarrow> (int \<times> 'z compress_world_scheme) option" where
  "compress_prepare K h = with_cplugin (\<lambda>p s.
     if prepared (cz_priv p) then Some (0, s)
     else do {
       (ret, s) \<leftarrow> service (agm_session_prepare (svc_env K) h) s;
       if ret \<noteq> 0 then Some (ret, s) else Some (0, upd_cpriv (\<lambda>v. v\<lparr>prepared := True\<rparr>) s) })"

text \<open>The accounting after a write: the fragments of a size, and what they leave of the buffer, a
  signed number. A fragment size of 0 is a division by zero.\<close>

definition fragments_of :: "u64 \<Rightarrow> u64 \<Rightarrow> u64" where
  "fragments_of sz frag = (if sz mod frag \<noteq> 0 then sz div frag + 1 else sz div frag)"

definition compress_written ::
    "u64 \<Rightarrow> 'z compress_world_scheme \<Rightarrow> (int \<times> 'z compress_world_scheme) option" where
  "compress_written sz = with_cplugin (\<lambda>p s.
     let v = cz_priv p; frag = bc_size (cz_buffer_config v); avail = bytes_avail v - fragments_of sz frag * frag in
     if frag = 0 then None
     else if sint avail < 0 then Some (- EINVAL, upd_cpriv (\<lambda>v. v\<lparr>bytes_avail := avail\<rparr>) s)
     else Some (sint (ucast sz :: u32),
                upd_cpriv (\<lambda>v. v\<lparr>bytes_avail := avail, bytes_copied := bytes_copied v + sz\<rparr>) s))"

definition agm_compress_write ::
    "'k plugin_env_scheme \<Rightarrow> u64 \<Rightarrow> u64 \<Rightarrow> 'z compress_world_scheme \<Rightarrow> (int \<times> 'z compress_world_scheme) option" where
  "agm_compress_write K buff count = with_cplugin (\<lambda>p s.
     let (ret, handle) = compress_get_session_handle (cz_priv p) in
     if ret \<noteq> 0 then Some (ret, s)
     else let s = upd_cpriv (\<lambda>v. v\<lparr>eos_received := False\<rparr>) s in
     if count > total_buf_size (cz_priv p) then Some (- EINVAL, s)
     else do {
       (ret, s) \<leftarrow> compress_prepare K handle s;
       if ret \<noteq> 0 then Some (ret, s)
       else do {
         ((ret, n), s) \<leftarrow> service (agm_session_write (svc_env K) handle buff count) s;
         if ret \<noteq> 0 then Some (ret, s)
         else compress_written (case n of None \<Rightarrow> count | Some m \<Rightarrow> ucast m) s }})"

definition agm_compress_read ::
    "'k plugin_env_scheme \<Rightarrow> u64 \<Rightarrow> u64 \<Rightarrow> 'z compress_world_scheme \<Rightarrow> (int \<times> 'z compress_world_scheme) option" where
  "agm_compress_read K buff count = with_cplugin (\<lambda>p s.
     let (ret, handle) = compress_get_session_handle (cz_priv p) in
     if ret \<noteq> 0 then Some (ret, s)
     else if count > bytes_avail (cz_priv p) then Some (- EINVAL, s)
     else do {
       ((ret, n), s) \<leftarrow> service (agm_session_read (svc_env K) handle buff count) s;
       if ret < 0 then Some (ret, s)
       else let count = (case n of None \<Rightarrow> count | Some m \<Rightarrow> m)
            in Some (sint (ucast count :: u32), upd_cpriv (\<lambda>v. v\<lparr>bytes_read := bytes_read v + count\<rparr>) s) })"

section \<open>Queries\<close>

definition agm_compress_tstamp ::
    "'k plugin_env_scheme \<Rightarrow> snd_compr_tstamp \<Rightarrow> 'z compress_world_scheme \<Rightarrow>
       ((int \<times> snd_compr_tstamp) \<times> 'z compress_world_scheme) option" where
  "agm_compress_tstamp K ts = with_cplugin (\<lambda>p s.
     let v = cz_priv p; (ret, handle) = compress_get_session_handle v in
     if ret \<noteq> 0 then Some ((ret, ts), s)
     else let ts = ts\<lparr>ts_sampling_rate := mc_rate (cz_media_config v), ts_copied_total := ucast (bytes_copied v)\<rparr> in do {
       ((ret, t), s) \<leftarrow> (if sc_dir (cz_session_config v) = TX
                            then service (agm_get_buffer_timestamp (svc_env K) (cz_session_id v) True) s
                            else service (agm_get_session_time (svc_env K) handle True) s);
       if ret \<noteq> 0 then Some ((ret, ts), s)
       else let timestamp = (case t of None \<Rightarrow> 0 | Some t \<Rightarrow> t) * ucast (ts_sampling_rate ts)
            in Some ((0, ts\<lparr>ts_pcm_io_frames := ucast (timestamp div 1000000)\<rparr>), s) })"

definition agm_compress_avail ::
    "'k plugin_env_scheme \<Rightarrow> snd_compr_tstamp \<Rightarrow> u64 \<Rightarrow> 'z compress_world_scheme \<Rightarrow>
       ((int \<times> snd_compr_tstamp \<times> u64) \<times> 'z compress_world_scheme) option" where
  "agm_compress_avail K ts avail = with_cplugin (\<lambda>p s.
     let (ret, handle) = compress_get_session_handle (cz_priv p) in
     if ret \<noteq> 0 then Some ((ret, ts, avail), s)
     else do {
       ((_, ts), s) \<leftarrow> agm_compress_tstamp K ts s;
       with_cplugin (\<lambda>p s. Some ((0, ts, bytes_avail (cz_priv p)), s)) s })"

definition agm_compress_get_caps ::
    "bool \<Rightarrow> 'z compress_world_scheme \<Rightarrow> ((int \<times> snd_compr_caps option) \<times> 'z compress_world_scheme) option" where
  "agm_compress_get_caps have_caps = with_cplugin (\<lambda>p s.
     let (ret, handle) = compress_get_session_handle (cz_priv p) in
     if ret \<noteq> 0 then Some ((ret, None), s)
     else if have_caps then Some ((0, Some (compr_cap (cz_priv p))), s)
     else Some ((- EINVAL, None), s))"

section \<open>Parameters\<close>

text \<open>Assignments to the members of the codec union, by their offsets.\<close>

definition codec_put :: "nat \<Rightarrow> u8 list \<Rightarrow> u8 list \<Rightarrow> u8 list" where
  "codec_put off bs c = take off c @ bs @ drop (off + length bs) c"

abbreviation put8 :: "nat \<Rightarrow> u32 \<Rightarrow> u8 list \<Rightarrow> u8 list" where "put8 off w \<equiv> codec_put off (take 1 (wr32 w))"
abbreviation put16 :: "nat \<Rightarrow> u32 \<Rightarrow> u8 list \<Rightarrow> u8 list" where "put16 off w \<equiv> codec_put off (take 2 (wr32 w))"
abbreviation put32 :: "nat \<Rightarrow> u32 \<Rightarrow> u8 list \<Rightarrow> u8 list" where "put32 off w \<equiv> codec_put off (wr32 w)"

definition aac_fmt_flag :: "'k compress_env_scheme \<Rightarrow> u32 \<Rightarrow> u32" where
  "aac_fmt_flag K f =
     (if f = SND_AUDIOSTREAMFORMAT_MP4LATM K then 4 else if f = SND_AUDIOSTREAMFORMAT_ADIF K then 2
      else if f = SND_AUDIOSTREAMFORMAT_MP4ADTS K then 0 else 3)"

definition codec_config_rx ::
    "'k compress_env_scheme \<Rightarrow> snd_codec \<Rightarrow> agm_media_format \<times> u8 list \<Rightarrow> agm_media_format \<times> u8 list" where
  "codec_config_rx K c = (\<lambda>(f, b).
     case cd_id c of
       SND_AUDIOCODEC_MP3 \<Rightarrow> (AGM_FORMAT_MP3, b)
     | SND_AUDIOCODEC_AAC \<Rightarrow>
         (AGM_FORMAT_AAC, put32 8 (cd_sample_rate c) (put16 4 (ch_in c) (put16 0 (aac_fmt_flag K (cd_format c)) b)))
     | SND_AUDIOCODEC_FLAC \<Rightarrow> (AGM_FORMAT_FLAC, put32 8 (cd_sample_rate c) (put16 0 (ch_in c) b))
     | SND_AUDIOCODEC_ALAC \<Rightarrow>
         if has_alac K then (AGM_FORMAT_ALAC, put32 20 (cd_sample_rate c) (put8 9 (ch_in c) b)) else (f, b)
     | SND_AUDIOCODEC_APE \<Rightarrow>
         if has_ape K then (AGM_FORMAT_APE, put32 24 (cd_sample_rate c) (put16 22 (ch_in c) b)) else (f, b)
     | SND_AUDIOCODEC_WMA \<Rightarrow>
         (if cd_profile c \<in> set (wmapro_profiles K) then AGM_FORMAT_WMAPRO else AGM_FORMAT_WMASTD,
          put32 4 (cd_sample_rate c) (put16 2 (ch_in c) (put16 0 (cd_format c) b)))
     | SND_AUDIOCODEC_VORBIS \<Rightarrow> (AGM_FORMAT_VORBIS, b)
     | SND_AUDIOCODEC_OTHER _ \<Rightarrow> (f, b))"

definition codec_config_tx :: "snd_codec \<Rightarrow> agm_media_format \<times> u8 list \<Rightarrow> agm_media_format \<times> u8 list" where
  "codec_config_tx c = (\<lambda>(f, b).
     if cd_id c = SND_AUDIOCODEC_AAC
     then (AGM_FORMAT_AAC, put16 6 (cd_format c) (put16 4 (cd_profile c) (put32 0 (cd_bit_rate c) b)))
     else (f, b))"

definition agm_session_update_codec_options :: "'k compress_env_scheme \<Rightarrow> direction \<Rightarrow> snd_codec \<Rightarrow> u8 list \<Rightarrow> u8 list" where
  "agm_session_update_codec_options K d c b =
     (let r = cd_reserved c in
      if d \<noteq> RX then b
      else case cd_id c of
        SND_AUDIOCODEC_AAC \<Rightarrow> put16 6 (r 1) (put16 2 (r 0) b)
      | SND_AUDIOCODEC_FLAC \<Rightarrow>
          put32 16 (r 4) (put32 12 (r 3) (put16 6 (r 2) (put16 4 (r 1) (put16 2 (r 0) b))))
      | SND_AUDIOCODEC_ALAC \<Rightarrow>
          if \<not> has_alac K then b
          else put32 24 (r 9) (put32 16 (r 8) (put32 12 (r 7) (put16 10 (r 6) (put8 8 (r 5) (put8 7 (r 4)
                 (put8 6 (r 3) (put8 5 (r 2) (put8 4 (r 1) (put32 0 (r 0) b)))))))))
      | SND_AUDIOCODEC_APE \<Rightarrow>
          if \<not> has_ape K then b
          else put32 28 (r 7) (put32 16 (r 6) (put32 12 (r 5) (put32 8 (r 4) (put32 4 (r 3) (put16 2 (r 2)
                 (put16 0 (r 1) (put16 20 (r 0) b)))))))
      | SND_AUDIOCODEC_WMA \<Rightarrow>
          (let wma = put16 20 (r 4) (put32 16 (r 3) (put16 14 (r 2) (put16 12 (r 1) (put32 8 (r 0) b)))) in
           if cd_profile c \<in> set (wmapro_profiles K) then put32 24 (r 6) (put16 22 (r 5) wma) else wma)
      | _ \<Rightarrow> b)"

definition agm_session_update_codec_config ::
    "'k compress_env_scheme \<Rightarrow> snd_compr_params \<Rightarrow> agm_compress_priv \<Rightarrow> agm_compress_priv" where
  "agm_session_update_codec_config K params v =
     (let c = cp_codec params; sc = cz_session_config v; d = sc_dir sc;
          fb = (mc_format (cz_media_config v), sc_codec sc);
          fb = (if d = RX then codec_config_rx K c fb else fb);
          (f, b) = (if d = TX then codec_config_tx c fb else fb)
      in v\<lparr>cz_media_config := (cz_media_config v)\<lparr>mc_rate := cd_sample_rate c, mc_channels := ch_out c, mc_format := f\<rparr>,
           cz_session_config := sc\<lparr>sc_codec := agm_session_update_codec_options K d c b\<rparr>\<rparr>)"

definition compress_buffer :: "snd_compr_params \<Rightarrow> agm_compress_priv \<Rightarrow> agm_compress_priv" where
  "compress_buffer params v =
     (let bc = (cz_buffer_config v)\<lparr>bc_count := fragments params, bc_size := ucast (fragment_size params),
                 bc_max_metadata_size := 0\<rparr>;
          tot = bc_size bc * ucast (bc_count bc);
          sc = cz_session_config v
      in v\<lparr>cz_buffer_config := bc, total_buf_size := tot, bytes_avail := tot,
           cz_session_config := sc\<lparr>sc_start_threshold := 0, sc_stop_threshold := 0,
             sc_data_mode := if sc_dir sc = RX then AGM_DATA_NON_BLOCKING else AGM_DATA_BLOCKING\<rparr>\<rparr>)"

definition agm_compress_set_params ::
    "'k compress_env_scheme \<Rightarrow> snd_compr_params \<Rightarrow> 'z compress_world_scheme \<Rightarrow> (int \<times> 'z compress_world_scheme) option" where
  "agm_compress_set_params K params = with_cplugin (\<lambda>p s.
     let (ret, handle) = compress_get_session_handle (cz_priv p) in
     if ret \<noteq> 0 then Some (ret, s)
     else with_cplugin (\<lambda>p. let v = cz_priv p in
            service (agm_session_set_config (svc_env K) (cz_handle v) (cz_session_config v) (cz_media_config v)
                       (cz_buffer_config v)))
            (upd_cpriv (agm_session_update_codec_config K params \<circ> compress_buffer params) s))"

definition agm_compress_set_metadata ::
    "'k plugin_env_scheme \<Rightarrow> snd_compr_key \<Rightarrow> u32 \<Rightarrow> 'z compress_world_scheme \<Rightarrow> (int \<times> 'z compress_world_scheme) option" where
  "agm_compress_set_metadata K key value = with_cplugin (\<lambda>p s.
     let (ret, handle) = compress_get_session_handle (cz_priv p) in
     if ret \<noteq> 0 then Some (ret, s)
     else let v = cz_priv p;
              v = (if key = SNDRV_COMPRESS_ENCODER_PADDING then v\<lparr>silence_type := TRAILING_SILENCE, silence := value\<rparr> else v);
              v = (if key = SNDRV_COMPRESS_ENCODER_DELAY then v\<lparr>silence_type := INITIAL_SILENCE, silence := value\<rparr> else v)
          in service (agm_set_gapless_session_metadata (svc_env K) handle (silence_type v) (silence v))
               (upd_cpriv (\<lambda>_. v) s))"

definition agm_compress_ioctl ::
    "'k plugin_env_scheme \<Rightarrow> (snd_compr_key \<times> u32) option \<Rightarrow> 'z compress_world_scheme \<Rightarrow> (int \<times> 'z compress_world_scheme) option" where
  "agm_compress_ioctl K set_metadata = with_cplugin (\<lambda>p s.
     let (ret, handle) = compress_get_session_handle (cz_priv p) in
     if ret \<noteq> 0 then Some (ret, s)
     else case set_metadata of None \<Rightarrow> Some (0, s) | Some (key, value) \<Rightarrow> agm_compress_set_metadata K key value s)"

section \<open>Control\<close>

definition agm_compress_start ::
    "'k plugin_env_scheme \<Rightarrow> 'z compress_world_scheme \<Rightarrow> (int \<times> 'z compress_world_scheme) option" where
  "agm_compress_start K = with_cplugin (\<lambda>p s.
     let (ret, handle) = compress_get_session_handle (cz_priv p) in
     if ret \<noteq> 0 then Some (ret, s)
     else do {
       (ret, s) \<leftarrow> compress_prepare K handle s;
       if ret \<noteq> 0 then Some (ret, s) else service (agm_session_start (svc_env K) handle) s })"

definition wake_drains :: "'z compress_world_scheme \<Rightarrow> ('z compress_world_scheme) option" where
  "wake_drains s = (case cplugin s of None \<Rightarrow> None
     | Some p \<Rightarrow> let s = (if cz_eos (cz_priv p) then signal_eos s else s)
                in Some (if early_eos (cz_priv p) then signal_early_eos s else s))"

definition agm_compress_stop ::
    "'k plugin_env_scheme \<Rightarrow> 'z compress_world_scheme \<Rightarrow> (int \<times> 'z compress_world_scheme) option" where
  "agm_compress_stop K = with_cplugin (\<lambda>p s.
     let (ret, handle) = compress_get_session_handle (cz_priv p) in
     if ret \<noteq> 0 then Some (ret, s)
     else do {
       s \<leftarrow> wake_drains s;
       (ret, s) \<leftarrow> service (agm_session_stop (svc_env K) handle) (upd_cpriv (\<lambda>v. v\<lparr>eos_received := True\<rparr>) s);
       if ret \<noteq> 0 then Some (ret, s)
       else Some (0, upd_cpriv (\<lambda>v. v\<lparr>bytes_avail := total_buf_size v, bytes_copied := 0\<rparr>) s) })"

definition compress_session_call ::
    "(env \<Rightarrow> nat \<Rightarrow> agm_world \<Rightarrow> (int \<times> agm_world) option) \<Rightarrow> 'k plugin_env_scheme \<Rightarrow> 'z compress_world_scheme \<Rightarrow>
       (int \<times> 'z compress_world_scheme) option" where
  "compress_session_call f K = with_cplugin (\<lambda>p s.
     let (ret, handle) = compress_get_session_handle (cz_priv p) in
     if ret \<noteq> 0 then Some (ret, s) else service (f (svc_env K) handle) s)"

definition agm_compress_pause ::
    "'k plugin_env_scheme \<Rightarrow> 'z compress_world_scheme \<Rightarrow> (int \<times> 'z compress_world_scheme) option" where
  "agm_compress_pause K s = compress_session_call agm_session_pause K s"

definition agm_compress_resume ::
    "'k plugin_env_scheme \<Rightarrow> 'z compress_world_scheme \<Rightarrow> (int \<times> 'z compress_world_scheme) option" where
  "agm_compress_resume K s = compress_session_call agm_session_resume K s"

text \<open>A drain up to its wait; \<open>None\<close> as the result is a blocked call.\<close>

definition agm_compress_drain ::
    "'k plugin_env_scheme \<Rightarrow> 'z compress_world_scheme \<Rightarrow> (int option \<times> 'z compress_world_scheme) option" where
  "agm_compress_drain K = with_cplugin (\<lambda>p s.
     let (ret, handle) = compress_get_session_handle (cz_priv p) in
     if ret \<noteq> 0 then Some (Some ret, s)
     else if eos_received (cz_priv p) then Some (Some 0, upd_cpriv (\<lambda>v. v\<lparr>eos_received := False\<rparr>) s)
     else do {
       (ret, s) \<leftarrow> service (agm_session_eos (svc_env K) handle) (upd_cpriv (\<lambda>v. v\<lparr>cz_eos := True\<rparr>) s);
       if ret \<noteq> 0 then Some (Some ret, s) else Some (None, s\<lparr>drain_wait := BLOCKED\<rparr>) })"

text \<open>The rest of the drain once the wait is over. The plugin it works on must still be there.\<close>

definition drain_resume :: "'z compress_world_scheme \<Rightarrow> (int \<times> 'z compress_world_scheme) option" where
  "drain_resume = with_cplugin (\<lambda>p s. Some (0, upd_cpriv (\<lambda>v. v\<lparr>eos_received := False\<rparr>) (s\<lparr>drain_wait := NOT_WAITING\<rparr>)))"

definition agm_compress_partial_drain ::
    "'k plugin_env_scheme \<Rightarrow> 'z compress_world_scheme \<Rightarrow> (int option \<times> 'z compress_world_scheme) option" where
  "agm_compress_partial_drain K = with_cplugin (\<lambda>p s.
     let (ret, handle) = compress_get_session_handle (cz_priv p) in
     if ret \<noteq> 0 then Some (Some ret, s)
     else do {
       (ret, s) \<leftarrow> service (agm_session_eos (svc_env K) handle) (upd_cpriv (\<lambda>v. v\<lparr>early_eos := True\<rparr>) s);
       if ret \<noteq> 0 then Some (Some ret, s) else Some (None, s\<lparr>early_wait := BLOCKED\<rparr>) })"

definition partial_drain_resume :: "'z compress_world_scheme \<Rightarrow> (int \<times> 'z compress_world_scheme) option" where
  "partial_drain_resume = with_cplugin (\<lambda>p s. Some (0, s\<lparr>early_wait := NOT_WAITING\<rparr>))"

definition agm_compress_next_track :: int where
  "agm_compress_next_track = 0"

text \<open>The result, and whether POLLOUT is set in the events.\<close>

definition agm_compress_poll ::
    "'k client_env_scheme \<Rightarrow> int \<Rightarrow> 'z compress_world_scheme \<Rightarrow> ((int \<times> bool) \<times> 'z compress_world_scheme) option" where
  "agm_compress_poll K timeout = with_cplugin (\<lambda>p s.
     let (ret, handle) = compress_get_session_handle (cz_priv p) in
     if ret \<noteq> 0 then Some ((ret, False), s)
     else do {
       (ret, s) \<leftarrow> client_ecall K (if timeout < 0 then CL_COND_WAIT else CL_COND_TIMEDWAIT (timeout div 1000)) s;
       if ret = ETIMEDOUT then Some ((0, False), s) else Some ((4, True), s) })"

section \<open>Close and open\<close>

definition compress_unregister ::
    "'k plugin_env_scheme \<Rightarrow> compress_plugin \<Rightarrow> 'z compress_world_scheme \<Rightarrow> (unit \<times> 'z compress_world_scheme) option" where
  "compress_unregister K p s =
     (if sc_dir (cz_session_config (cz_priv p)) \<noteq> RX then Some ((), s)
      else do {
        (_, s) \<leftarrow> service (agm_session_register_cb (svc_env K) (cz_session_id (cz_priv p)) 0 AGM_EVENT_DATA_PATH (cz_addr p)) s;
        (_, s) \<leftarrow> service (agm_session_register_cb (svc_env K) (cz_session_id (cz_priv p)) 0 AGM_EVENT_MODULE (cz_addr p)) s;
        Some ((), s) })"

definition agm_compress_close ::
    "'k plugin_env_scheme \<Rightarrow> 'z compress_world_scheme \<Rightarrow> (unit \<times> 'z compress_world_scheme) option" where
  "agm_compress_close K = with_cplugin (\<lambda>p s.
     let (ret, handle) = compress_get_session_handle (cz_priv p) in
     if ret \<noteq> 0 then Some ((), s)
     else do {
       (_, s) \<leftarrow> compress_unregister K p s;
       (_, s) \<leftarrow> service (agm_session_close (svc_env K) handle) s;
       s \<leftarrow> wake_drains (snd_card_def_put_card (cz_card_node (cz_priv p)) s);
       Some ((), s\<lparr>cplugin := None\<rparr>) })"

definition agm_populate_codec_caps :: "'k compress_env_scheme \<Rightarrow> direction \<Rightarrow> snd_compr_caps" where
  "agm_populate_codec_caps K d =
     \<lparr>cap_playback = (d = RX), min_fragment_size = 8 * 1024, max_fragment_size = 128 * 1024, min_fragments = 4,
      max_fragments = 16,
      cap_codecs = [SND_AUDIOCODEC_MP3, SND_AUDIOCODEC_AAC, SND_AUDIOCODEC_WMA, SND_AUDIOCODEC_FLAC, SND_AUDIOCODEC_VORBIS]
        @ (if has_alac K then [SND_AUDIOCODEC_ALAC] else []) @ (if has_ape K then [SND_AUDIOCODEC_APE] else [])\<rparr>"

text \<open>The private data as \<open>calloc\<close> gives it, with the fields the open function sets.\<close>

definition compress_priv0 :: "agm_session_mode \<Rightarrow> direction \<Rightarrow> nat \<Rightarrow> u32 \<Rightarrow> agm_compress_priv" where
  "compress_priv0 mode d c device =
     \<lparr>cz_media_config = \<lparr>mc_rate = 0, mc_channels = 0, mc_format = AGM_FORMAT_INVALID, mc_data_format = 0\<rparr>,
      cz_buffer_config = \<lparr>bc_count = 0, bc_size = 0, bc_max_metadata_size = 0\<rparr>,
      cz_session_config = \<lparr>sc_dir = d, sc_sess_mode = mode, sc_start_threshold = 0, sc_stop_threshold = 0,
        sc_codec = replicate 32 0, sc_data_mode = AGM_DATA_INVALID, sc_sess_flags = 0\<rparr>,
      compr_cap = \<lparr>cap_playback = True, min_fragment_size = 0, max_fragment_size = 0, min_fragments = 0, max_fragments = 0,
        cap_codecs = []\<rparr>,
      cz_handle = 0, prepared = False, bytes_copied = 0, total_buf_size = 0, bytes_avail = 0, bytes_received = 0,
      bytes_read = 0, cz_eos = False, early_eos = False, eos_received = False, silence_type = INITIAL_SILENCE, silence = 0,
      cz_card_node = Some c, cz_session_id = device\<rparr>"

text \<open>The three numbers of the node, in the order they are read: the first that is missing is the error.\<close>

definition compress_node_ints :: "node_ptr \<Rightarrow> 'z snd_world_scheme \<Rightarrow> (int \<times> int \<times> int \<times> int) option" where
  "compress_node_ints n s = do {
     let get = case_option 0 id;
     (ret, playback) \<leftarrow> snd_card_def_get_int (Some n) ''playback'' s;
     if ret \<noteq> 0 then Some (ret, 0, 0, 0)
     else do {
       (ret, capture) \<leftarrow> snd_card_def_get_int (Some n) ''capture'' s;
       if ret \<noteq> 0 then Some (ret, 0, 0, 0)
       else do {
         (ret, mode) \<leftarrow> snd_card_def_get_int (Some n) ''session_mode'' s;
         Some (ret, get playback, get capture, get mode) }}}"

text \<open>The callbacks of a playback stream; the first error ends it.\<close>

definition compress_register ::
    "'k compress_env_scheme \<Rightarrow> direction \<Rightarrow> u32 \<Rightarrow> u64 \<Rightarrow> 'z compress_world_scheme \<Rightarrow> (int \<times> 'z compress_world_scheme) option" where
  "compress_register K d device self s =
     (if d \<noteq> RX then Some (0, s)
      else do {
        (ret, s) \<leftarrow> service (agm_session_register_cb (svc_env K) device (event_cb_addr K) AGM_EVENT_DATA_PATH self) s;
        if ret \<noteq> 0 then Some (ret, s)
        else service (agm_session_register_cb (svc_env K) device (event_cb_addr K) AGM_EVENT_MODULE self) s })"

definition compress_open_session ::
    "'k compress_env_scheme \<Rightarrow> u32 \<Rightarrow> agm_session_mode \<Rightarrow> direction \<Rightarrow> u64 \<Rightarrow> 'z compress_world_scheme \<Rightarrow>
       ((int \<times> nat) \<times> 'z compress_world_scheme) option" where
  "compress_open_session K device mode d self s = do {
     ((ret, h), s) \<leftarrow> service (agm_session_open (svc_env K) device mode True) s;
     if ret \<noteq> 0 then Some ((ret, 0), s)
     else case h of None \<Rightarrow> None
     | Some h \<Rightarrow> do {
         (ret, s) \<leftarrow> compress_register K d device self s;
         if ret \<noteq> 0 then do { (_, s) \<leftarrow> service (agm_session_close (svc_env K) h) s; Some ((ret, 0), s) }
         else Some ((0, h), s) }}"

text \<open>The part of the open function that holds a reference to the card. A direction the node does not
  support leaves with the code 0; \<open>None\<close> as the plugin is an error exit.\<close>

definition compress_open_node ::
    "'k compress_env_scheme \<Rightarrow> nat \<Rightarrow> u32 \<Rightarrow> bool \<Rightarrow> u64 \<Rightarrow> 'z compress_world_scheme \<Rightarrow>
       ((int \<times> compress_plugin option) \<times> 'z compress_world_scheme) option" where
  "compress_open_node K c device is_in self s = do {
     node \<leftarrow> snd_card_def_get_node (Some c) device 2 s;
     case node of None \<Rightarrow> Some ((- EINVAL, None), s)
     | Some n \<Rightarrow> do {
         (ret, is_playback, is_capture, m) \<leftarrow> compress_node_ints n s;
         if ret \<noteq> 0 then Some ((ret, None), s)
         else do {
           mode \<leftarrow> session_mode_of m;
           let d = (if is_in then RX else TX);
           if d = RX \<and> is_playback = 0 \<or> d = TX \<and> is_capture = 0 then Some ((0, None), s)
           else do {
             ((ret, h), s) \<leftarrow> compress_open_session K device mode d self s;
             if ret \<noteq> 0 then Some ((ret, None), s)
             else Some ((0, Some \<lparr>cz_addr = self, cz_node = n,
                      cz_priv = (compress_priv0 mode d c device)\<lparr>compr_cap := agm_populate_codec_caps K d,
                                  cz_handle := h\<rparr>\<rparr>), s) }}}}"

definition agm_compress_plugin_open ::
    "'k compress_env_scheme \<Rightarrow> u32 \<Rightarrow> u32 \<Rightarrow> bool \<Rightarrow> 'z compress_world_scheme \<Rightarrow> (int \<times> 'z compress_world_scheme) option" where
  "agm_compress_plugin_open K cnum device is_in s = do {
     (ok, s) \<leftarrow> client_callocs 2 K s;
     if \<not> ok then Some (- ENOMEM, s)
     else let self = plugin_addr K (cl_hist s) in do {
       (card_node, s) \<leftarrow> get_card K cnum s;
       case card_node of None \<Rightarrow> Some (- EINVAL, s)
       | Some c \<Rightarrow> do {
           ((ret, p), s) \<leftarrow> compress_open_node K c device is_in self s;
           case p of None \<Rightarrow> Some (negative_code ret, snd_card_def_put_card (Some c) s)
           | Some p \<Rightarrow> Some (0, s\<lparr>cplugin := Some p\<rparr>) }}}"

end
