(* ===== verification/Compress_Plugin_Properties.thy ===== *)
theory Compress_Plugin_Properties
  imports Compress_Plugin Plugin_Properties Scenario
begin

text \<open>
  Properties of the compress plugin: the accounting of the buffer and the wake-up of drains under every
  sequence of calls and events, the references to the sound cards over any number of opens and closes, and
  the way of the codec parameters from the client to the configuration of the graph.
\<close>

section \<open>The calls of a client and the events of the DSP\<close>



lemma wlp_with_cplugin [wlp_simps]:
  "wlp (with_cplugin f s) Q \<longleftrightarrow> (\<forall>p. cplugin s = Some p \<longrightarrow> wlp (f p s) Q)"
  by (simp add: with_cplugin_def wlp_simps split: option.split)


section \<open>Calls that neither count nor wait\<close>




section \<open>Blocked drains\<close>

text \<open>A drain that is blocked has its flag set, so the event it waits for will signal it.\<close>

definition waits_ok :: "compress_world \<Rightarrow> bool" where
  "waits_ok s \<longleftrightarrow> (\<forall>p. cplugin s = Some p \<longrightarrow> (drain_wait s = BLOCKED \<longrightarrow> cz_eos (cz_priv p))
     \<and> (early_wait s = BLOCKED \<longrightarrow> early_eos (cz_priv p)))"












section \<open>Fragments\<close>


text \<open>\<open>n\<close> fragments are with the DSP: the rest of the buffer is available.\<close>

definition frags_ok :: "int \<Rightarrow> agm_compress_priv \<Rightarrow> bool" where
  "frags_ok n v \<longleftrightarrow> (let frag = uint (bc_size (cz_buffer_config v)) in
      0 < frag \<and> 0 \<le> n \<and> frag \<le> uint (total_buf_size v) \<and> uint (total_buf_size v) < 2 ^ 61
      \<and> n * frag \<le> uint (total_buf_size v) \<and> uint (bytes_avail v) = uint (total_buf_size v) - n * frag)"

definition fragments_ok :: "int \<Rightarrow> compress_world \<Rightarrow> bool" where
  "fragments_ok n s \<longleftrightarrow> (\<forall>p. cplugin s = Some p \<longrightarrow> frags_ok n (cz_priv p))"




text \<open>The fragments that a number of bytes fills.\<close>

abbreviation filled :: "int \<Rightarrow> int \<Rightarrow> int" where "filled z f \<equiv> (z + f - 1) div f"

lemma filled_0 [simp]: "0 < f \<Longrightarrow> filled 0 f = 0"
  by (simp add: div_pos_pos_trivial)








lemma frags_flags: "frags_ok n (v\<lparr>cz_eos := x\<rparr>) = frags_ok n v" "frags_ok n (v\<lparr>early_eos := x\<rparr>) = frags_ok n v"
    "frags_ok n (v\<lparr>eos_received := x\<rparr>) = frags_ok n v"
  by (simp_all add: frags_ok_def)

lemma fragments_ok_signal [simp]:
  "fragments_ok n (signal_eos s) = fragments_ok n s" "fragments_ok n (signal_early_eos s) = fragments_ok n s"
  "fragments_ok n (s\<lparr>drain_wait := w\<rparr>) = fragments_ok n s" "fragments_ok n (s\<lparr>early_wait := w\<rparr>) = fragments_ok n s"
  "fragments_ok n (upd_cpriv (\<lambda>v. v\<lparr>eos_received := x\<rparr>) s) = fragments_ok n s"
  "fragments_ok n (upd_cpriv (\<lambda>v. v\<lparr>cz_eos := x\<rparr>) s) = fragments_ok n s"
  "fragments_ok n (upd_cpriv (\<lambda>v. v\<lparr>early_eos := x\<rparr>) s) = fragments_ok n s"
  by (auto simp: fragments_ok_def signal_eos_def signal_early_eos_def upd_cpriv_def frags_flags)















lemma signal_waits [simp]:
  "drain_wait (signal_eos s) = cond_signal (drain_wait s)" "early_wait (signal_eos s) = early_wait s"
  "drain_wait (signal_early_eos s) = drain_wait s" "early_wait (signal_early_eos s) = cond_signal (early_wait s)"
  "drain_wait (upd_cpriv f s) = drain_wait s" "early_wait (upd_cpriv f s) = early_wait s"
  by (simp_all add: signal_eos_def signal_early_eos_def upd_cpriv_def)

lemma wake_signals:
  assumes "wake_drains s = Some t" "waits_ok s"
  shows "drain_wait s = BLOCKED \<Longrightarrow> drain_wait t = SIGNALLED" "early_wait s = BLOCKED \<Longrightarrow> early_wait t = SIGNALLED"
  using assms by (auto simp: wake_drains_def waits_ok_def cond_signal_def Let_def split: option.splits)



section \<open>Opening and closing\<close>

lemma cworld_of_more:
  fixes s t :: "'z compress_world_scheme"
  assumes "snd_world.more t = snd_world.more s"
  shows "svc t = svc s" "cplugin t = cplugin s" "drain_wait t = drain_wait s" "early_wait t = early_wait s"
  using assms by (cases s; cases t; simp)+

lemma refs_cframe [simp]:
  "cards_ok (s\<lparr>cplugin := q\<rparr>) = cards_ok s" "card_refs (s\<lparr>cplugin := q\<rparr>) = card_refs s"
  "cards_ok (upd_cpriv f s) = cards_ok s" "card_refs (upd_cpriv f s) = card_refs s"
  "cards_ok (signal_eos s) = cards_ok s" "card_refs (signal_eos s) = card_refs s"
  "cards_ok (signal_early_eos s) = cards_ok s" "card_refs (signal_early_eos s) = card_refs s"
  "svc (signal_eos s) = svc s" "svc (signal_early_eos s) = svc s"
  by (simp_all add: cards_ok_def card_refs_def fun_eq_iff upd_cpriv_def signal_eos_def signal_early_eos_def)

lemma register_only: "only_service (svc_env K) s t \<Longrightarrow> wlp (compress_register K d k self t) (\<lambda>_ u. only_service (svc_env K) s u)"
  unfolding compress_register_def by (intro inv_rules only_service_call agm_calls)

lemma unregister_only: "only_service (svc_env K) s t \<Longrightarrow> wlp (compress_unregister K p t) (\<lambda>_ u. only_service (svc_env K) s u)"
  unfolding compress_unregister_def by (intro inv_rules only_service_call agm_calls)

lemma unregister_frame:
  "wlp (compress_unregister K p s) (\<lambda>_ t. \<exists>w. t = s\<lparr>svc := w\<rparr> \<and> (agm_inv (svc_env K) (svc s) \<longrightarrow> agm_inv (svc_env K) w))"
proof (cases "agm_inv (svc_env K) (svc s)")
  case True
  then show ?thesis
    by (intro wlp_mono [OF unregister_only [OF only_service_refl]]) (auto simp: only_service_def)
next
  case False
  have "\<exists>w. s = s\<lparr>svc := w\<rparr>" by (rule exI [of _ "svc s"]) simp
  with False show ?thesis by (auto simp: compress_unregister_def wlp_simps intro!: wlpI)
qed

text \<open>A close up to the wake-up of the drains, and what is left when the plugin is freed.\<close>

lemma close_shape:
  assumes "cplugin s = Some p" "cz_handle (cz_priv p) \<noteq> 0"
  shows "wlp (agm_compress_close K s) (\<lambda>_ t. \<exists>w u. (agm_inv (svc_env K) (svc s) \<longrightarrow> agm_inv (svc_env K) w)
    \<and> wake_drains (snd_card_def_put_card (cz_card_node (cz_priv p)) (s\<lparr>svc := w\<rparr>)) = Some u \<and> t = u\<lparr>cplugin := None\<rparr>)"
  using assms unfolding agm_compress_close_def
  by (auto simp: wlp_with_cplugin compress_get_session_handle_def Let_def wlp_bind wlp_service wlp_case_prod
      wlp_bind_gen [of "wake_drains _"] wlp_Some intro!: wlpI dest!: wlpD [OF unregister_frame])
     (blast dest: wlpD [OF agm_calls(2)])+

text \<open>\<^bold>\<open>C40.\<close> A close that interrupts a blocked drain wakes it up and frees the plugin it is about to use.\<close>

theorem close_frees_blocked_drain:
  assumes "waits_ok s" "cplugin s = Some p" "cz_handle (cz_priv p) \<noteq> 0" "drain_wait s = BLOCKED"
    and "agm_compress_close K s = Some (r, t)"
  shows "drain_wait t = SIGNALLED \<and> drain_resume t = None"
proof -
  obtain w u where u: "wake_drains (snd_card_def_put_card (cz_card_node (cz_priv p)) (s\<lparr>svc := w\<rparr>)) = Some u" "t = u\<lparr>cplugin := None\<rparr>"
    using wlpD [OF close_shape [OF assms(2,3)] assms(5)] by blast
  let ?s = "snd_card_def_put_card (cz_card_node (cz_priv p)) (s\<lparr>svc := w\<rparr>)"
  have same: "cplugin ?s = cplugin s" "drain_wait ?s = drain_wait s" "early_wait ?s = early_wait s"
    using cworld_of_more [OF put_card_more [of "cz_card_node (cz_priv p)" "s\<lparr>svc := w\<rparr>"]] by simp_all
  then have "waits_ok ?s" using assms(1) by (simp add: waits_ok_def)
  then show ?thesis using wake_signals [OF u(1)] u(2) same assms(4) by (simp add: drain_resume_def with_cplugin_def)
qed

definition compress_ok :: "compress_env \<Rightarrow> compress_world \<Rightarrow> bool" where
  "compress_ok K s \<longleftrightarrow> cards_ok s \<and> agm_inv (svc_env K) (svc s) \<and> (\<exists>es. card_def_file K = Some (es, True))
     \<and> (\<forall>p. cplugin s = Some p \<longrightarrow> 0 < cz_handle (cz_priv p) \<and> (\<exists>a \<in> set (snd_card_list s). cz_card_node (cz_priv p) = Some a))"

definition held_card :: "compress_world \<Rightarrow> nat option" where
  "held_card s = Option.bind (cplugin s) (\<lambda>p. cz_card_node (cz_priv p))"

lemma open_session_only:
  "only_service (svc_env K) s t \<Longrightarrow> wlp (compress_open_session K k m d self t) (\<lambda>_ u. only_service (svc_env K) s u)"
  unfolding compress_open_session_def by (intro inv_rules only_service_call agm_calls register_only)

lemma open_session_handle:
  assumes "only_service (svc_env K) s t"
  shows "wlp (compress_open_session K k m d self t) (\<lambda>r u. only_service (svc_env K) s u \<and> (fst r = 0 \<longrightarrow> 0 < snd r))"
proof (rule wlp_conj [OF open_session_only [OF assms]])
  have "agm_inv (svc_env K) (svc t)" using assms by (auto simp: only_service_def)
  from session_open_handle [OF this]
  have opened: "wlp (service (agm_session_open (svc_env K) k m True) t) (\<lambda>r _. \<forall>a. snd r = Some a \<longrightarrow> 0 < a)"
    by (simp add: wlp_service)
  show "wlp (compress_open_session K k m d self t) (\<lambda>r u. fst r = 0 \<longrightarrow> 0 < snd r)"
    unfolding compress_open_session_def by (rule wlp_bindI [OF opened]) (auto simp: wlp_Some split: prod.split intro!: res_rules)
qed

lemma open_node_frame:
  assumes "only_service (svc_env K) s t"
  shows "wlp (compress_open_node K c k b self t) (\<lambda>r u. only_service (svc_env K) s u
    \<and> (\<forall>p. snd r = Some p \<longrightarrow> 0 < cz_handle (cz_priv p) \<and> cz_card_node (cz_priv p) = Some c))"
  unfolding compress_open_node_def
  by (auto simp: wlp_Some wlp_bind_gen [of "snd_card_def_get_node _ _ _ _"] wlp_bind_gen [of "compress_node_ints _ _"]
      wlp_bind_gen [of "session_mode_of _"] wlp_if compress_priv0_def assms
      intro!: inv_case_option inv_case_prod wlp_bindI [OF open_session_handle [OF assms]])

lemma compress_held_None: "compress_ok K s \<Longrightarrow> held_card s = None \<longleftrightarrow> cplugin s = None"
  by (cases "cplugin s") (auto simp: compress_ok_def held_card_def)

text \<open>The reference is counted; what follows keeps it in the plugin or gives it back.\<close>

lemma open_node_card:
  assumes s: "compress_ok K s" "cplugin s = None"
    and t: "cards_ok t" "snd_world.more t = snd_world.more s" "card_refs t = (card_refs s)(c := card_refs s c + 1)"
  shows "wlp (do {
           ((ret, p), t) \<leftarrow> compress_open_node K c device is_in self t;
           case p of None \<Rightarrow> Some (negative_code ret, snd_card_def_put_card (Some c) t)
           | Some p \<Rightarrow> Some (0, t\<lparr>cplugin := Some p\<rparr>) }) (\<lambda>_ t. compress_ok K t
    \<and> card_refs t = (case held_card t of None \<Rightarrow> card_refs s | Some a \<Rightarrow> (card_refs s)(a := card_refs s a + 1)))"
proof -
  have listed: "c \<in> set (snd_card_list t)" by (rule refs_in_list) (use s t in \<open>auto simp: compress_ok_def\<close>)
  have more: "svc t = svc s" "cplugin t = None" using cworld_of_more [OF t(2)] s(2) by simp_all
  have put: "cards_ok (snd_card_def_put_card (Some c) u)" "card_refs (snd_card_def_put_card (Some c) u) = card_refs s"
    "cplugin (snd_card_def_put_card (Some c) u) = None" "agm_inv (svc_env K) (svc (snd_card_def_put_card (Some c) u))"
    if "only_service (svc_env K) t u" for u
    using that put_card_refs [of u c] cworld_of_more [OF put_card_more [of "Some c" u]] listed t more
    by (auto simp: only_service_def fun_eq_iff)
  have keep: "cards_ok u" "card_refs u = card_refs t" "c \<in> set (snd_card_list u)" "agm_inv (svc_env K) (svc u)"
    if "only_service (svc_env K) t u" for u
    using that listed t by (auto simp: only_service_def)
  have "only_service (svc_env K) t t" by (rule only_service_refl) (use s more in \<open>simp add: compress_ok_def\<close>)
  note node = open_node_frame [OF this]
  show ?thesis
    by (rule wlp_bindI [OF node])
       (use s put keep t in \<open>auto simp: compress_ok_def held_card_def wlp_Some split: option.split\<close>)
qed

lemma compress_open_card:
  assumes "compress_ok K s" "held_card s = None"
  shows "wlp (agm_compress_plugin_open K cnum device is_in s) (\<lambda>_ t. compress_ok K t
    \<and> card_refs t = (case held_card t of None \<Rightarrow> card_refs s | Some a \<Rightarrow> (card_refs s)(a := card_refs s a + 1)))"
  unfolding agm_compress_plugin_open_def
proof (rule wlp_bindI [OF callocs_frame], goal_cases)
  case (1 b u)
  then obtain h where u: "u = s\<lparr>cl_hist := h\<rparr>" by blast
  have closed: "cplugin s = None" using assms compress_held_None by blast
  have ok: "compress_ok K u" "cplugin u = None" "card_refs u = card_refs s"
    using assms(1) closed by (simp_all add: u compress_ok_def)
  obtain es where def_file: "card_def_file K = Some (es, True)" using assms(1) by (auto simp: compress_ok_def)
  have get: "wlp (get_card K cnum u) (\<lambda>r t. cards_ok t \<and> snd_world.more t = snd_world.more u
    \<and> card_refs t = (case r of None \<Rightarrow> card_refs u | Some a \<Rightarrow> (card_refs u)(a := card_refs u a + 1)))"
    unfolding def_file by (rule get_card_refs) (use ok in \<open>simp add: compress_ok_def\<close>)
  show ?case
  proof (intro inv_if inv_Let res_Some wlp_bindI [OF get], goal_cases)
    case 1
    then show ?case using ok by (simp add: held_card_def)
  next
    case (2 r t)
    show ?case
    proof (cases r)
      case None
      then show ?thesis using 2 ok cworld_of_more [of t u] by (simp add: wlp_Some compress_ok_def held_card_def)
    next
      case (Some c)
      then have t: "cards_ok t" "snd_world.more t = snd_world.more u" "card_refs t = (card_refs u)(c := card_refs u c + 1)"
        using 2 by simp_all
      show ?thesis unfolding Some option.case ok(3) [symmetric] by (rule open_node_card [OF ok(1,2) t])
    qed
  qed
qed

lemma compress_close_card:
  assumes "compress_ok K s" "held_card s = Some a"
  shows "wlp (agm_compress_close K s) (\<lambda>_ t. compress_ok K t \<and> held_card t = None
    \<and> card_refs t = (card_refs s)(a := card_refs s a - 1))"
proof -
  obtain p where p: "cplugin s = Some p" "cz_card_node (cz_priv p) = Some a" using assms(2) by (auto simp: held_card_def bind_eq_Some_conv)
  then have h: "cz_handle (cz_priv p) \<noteq> 0" "a \<in> set (snd_card_list s)" using assms(1) by (auto simp: compress_ok_def)
  have wake: "cards_ok u = cards_ok t \<and> card_refs u = card_refs t \<and> svc u = svc t" if "wake_drains t = Some u" for t u :: compress_world
    using that by (auto simp: wake_drains_def Let_def split: option.splits if_splits)
  have put: "cards_ok (snd_card_def_put_card (Some a) (s\<lparr>svc := w\<rparr>))" "svc (snd_card_def_put_card (Some a) (s\<lparr>svc := w\<rparr>)) = w"
    "card_refs (snd_card_def_put_card (Some a) (s\<lparr>svc := w\<rparr>)) = (card_refs s)(a := card_refs s a - 1)" for w
    using put_card_refs [of "s\<lparr>svc := w\<rparr>" a] cworld_of_more [OF put_card_more [of "Some a" "s\<lparr>svc := w\<rparr>"]] assms(1) h
    by (auto simp: compress_ok_def)
  show ?thesis
    by (rule wlp_mono [OF close_shape [OF p(1) h(1)]])
       (use assms(1) put p(2) in \<open>auto simp: compress_ok_def held_card_def dest!: wake\<close>)
qed

interpretation compress_card: card_holder "agm_compress_plugin_open K cnum device is_in" "agm_compress_close K" "compress_ok K"
    card_refs held_card for K cnum device is_in
  by unfold_locales (rule compress_open_card compress_close_card; assumption)+

text \<open>A client that opens and closes compress plugins any number of times, successfully or not, holds one
  reference to the sound card of the plugin that is open and none otherwise.\<close>

theorem compress_open_close:
  assumes "cards_ok s" "agm_reach (svc_env K) (svc s)" "card_def_file K = Some (es, True)" "cplugin s = None"
    and "compress_card.uses K cnum device is_in s t"
  shows "cards_ok t \<and> card_refs t = (case held_card t of None \<Rightarrow> card_refs s | Some a \<Rightarrow> (card_refs s)(a := card_refs s a + 1))"
proof -
  have "compress_ok K s" "held_card s = None" using assms(1-4) agm_reach_inv by (auto simp: compress_ok_def held_card_def)
  then show ?thesis using compress_card.uses_refs [OF assms(5)] by (auto simp: compress_ok_def)
qed

text \<open>Opening a node for a direction that it does not support returns 0, as a successful open does, but leaves
  no plugin and gives the card back.\<close>

theorem unsupported_direction_succeeds:
  assumes "client_callocs 2 K s = Some (True, s1)" "get_card K cnum s1 = Some (Some c, s2)"
    and "snd_card_def_get_node (Some c) device 2 s2 = Some (Some n)" "compress_node_ints n s2 = Some (0, playback, capture, m)"
    and "session_mode_of m = Some mode" "(if is_in then playback else capture) = 0"
  shows "agm_compress_plugin_open K cnum device is_in s = Some (0, snd_card_def_put_card (Some c) s2)"
  using assms by (cases is_in) (simp_all add: agm_compress_plugin_open_def compress_open_node_def Let_def negative_code_def)

section \<open>Codec parameters\<close>

lemma length_codec_put [simp]: "off + length bs \<le> length c \<Longrightarrow> length (codec_put off bs c) = length c"
  by (simp add: codec_put_def)

lemma codec_u8_put:
  assumes "off + length bs \<le> length c"
  shows "codec_u8 (codec_put off bs c) i = (if off \<le> i \<and> i < off + length bs then uint (bs ! (i - off)) else codec_u8 c i)"
  using assms by (auto simp: codec_u8_def codec_put_def nth_append min_def not_less)

lemma uint_of_nat_8: "uint (of_nat n :: u8) = int (n mod 256)"
  by (simp add: uint_nat unat_of_nat)

lemma put16_u16: "off + 2 \<le> length c \<Longrightarrow> codec_u16 (put16 off w c) off = uint w mod 65536"
proof -
  assume "off + 2 \<le> length c"
  then have "codec_u16 (put16 off w c) off = int (unat w mod 256 + 256 * (unat w div 256 mod 256))"
    by (simp add: codec_u16_def codec_u8_put wr32_def uint_of_nat_8 del: of_nat_unat)
  also have "unat w mod 256 + 256 * (unat w div 256 mod 256) = unat w mod 65536"
    using mod_mult2_eq [of "unat w" 256 256] by simp
  finally show ?thesis by (simp add: zmod_int uint_nat [symmetric])
qed

lemma put8_u8: "off < length c \<Longrightarrow> codec_u8 (put8 off w c) off = uint w mod 256"
  by (simp add: codec_u8_put wr32_def uint_of_nat_8 zmod_int uint_nat [symmetric] del: of_nat_unat)

lemma codec_u16_put:
  assumes "i + 2 \<le> off \<or> off + length bs \<le> i" "off + length bs \<le> length c"
  shows "codec_u16 (codec_put off bs c) i = codec_u16 c i"
  using assms by (auto simp: codec_u16_def codec_u8_put)

text \<open>The sample width that the client gives for a decoder arrives in the place where the service reads it when
  it configures the graph, truncated to the width of the field, for every codec and build variant.\<close>

theorem codec_bit_width:
  assumes "sc_dir (cz_session_config v) = RX" "length (sc_codec (cz_session_config v)) = 32"
    and "w = agm_session_update_codec_config K params v" "stream_config cfg = cz_session_config w"
    and "c = cp_codec params" "cd_id c = SND_AUDIOCODEC_ALAC \<longrightarrow> has_alac K" "cd_id c = SND_AUDIOCODEC_APE \<longrightarrow> has_ape K"
    and "\<forall>n. cd_id c \<noteq> SND_AUDIOCODEC_OTHER n"
  shows "get_media_bit_width cfg (cz_media_config w) = (case cd_id c of
       SND_AUDIOCODEC_FLAC \<Rightarrow> uint (cd_reserved c 0) mod 65536
     | SND_AUDIOCODEC_ALAC \<Rightarrow> uint (cd_reserved c 2) mod 256
     | SND_AUDIOCODEC_APE \<Rightarrow> uint (cd_reserved c 0) mod 65536
     | SND_AUDIOCODEC_WMA \<Rightarrow> uint (cd_reserved c 2) mod 65536
     | _ \<Rightarrow> 16)"
proof -
  have u8: "codec_u8 (put32 24 x9 (put32 16 x8 (put32 12 x7 (put16 10 x6 (put8 8 x5 (put8 7 x4 (put8 6 x3 (put8 5 x2 b)))))))) 5
      = uint x2 mod 256" if "length b = 32" for b x2 x3 x4 x5 x6 x7 x8 x9
    using that by (simp add: codec_u8_put put8_u8 wr32_def uint_of_nat_8 zmod_int uint_nat [symmetric] del: of_nat_unat)
  show ?thesis
    using assms
    by (cases "cd_id c") (auto simp: agm_session_update_codec_config_def codec_config_rx_def agm_session_update_codec_options_def
        get_media_bit_width_def is_format_pcm_def Let_def codec_u16_put put16_u16 u8 [unfolded One_nat_def])
qed

section \<open>A stream\<close>

definition compress_env0 :: compress_env where
  "compress_env0 = \<lparr>cl_ret = (\<lambda>_ _. 0), card_id_file = (\<lambda>_. None), card_def_file = Some ([], True),
     svc_env = env0\<lparr>ext_xfer := \<lambda>_. (4096, 0)\<rparr>, SND_AUDIOSTREAMFORMAT_MP4LATM = 8, SND_AUDIOSTREAMFORMAT_ADIF = 16,
     SND_AUDIOSTREAMFORMAT_MP4ADTS = 2, wmapro_profiles = [], has_alac = True, has_ape = True,
     plugin_addr = (\<lambda>_. 64), event_cb_addr = 32\<rparr>"

text \<open>A card with a node that can only play.\<close>

definition compress_card0 :: snd_dev_def_card where
  "compress_card0 = \<lparr>sd_card = 100, sd_name = None, sd_refcnt = 1, devs_list = (\<lambda>t. if t = SND_NODE_TYPE_COMPR
     then [\<lparr>nd_node_type = SND_NODE_TYPE_COMPR, nd_device = 6, nd_type = 1, nd_name = None, nd_so_name = None,
            prop_val_list = [(''playback'', ''1''), (''capture'', ''0''), (''session_mode'', ''2'')]\<rparr>] else [])\<rparr>"

definition compress_plugin0 :: compress_plugin where
  "compress_plugin0 = \<lparr>cz_addr = 64, cz_node = (1, SND_NODE_TYPE_COMPR, 0),
     cz_priv = (compress_priv0 AGM_SESSION_DEFAULT RX 1 6)\<lparr>cz_handle := 1, prepared := True\<rparr>\<rparr>"

definition compress_world0 :: compress_world where
  "compress_world0 = \<lparr>cl_hist = [], cards = (\<lambda>_. compress_card0), snd_card_list = [1], card_next = 2, svc = world0,
     cplugin = None, drain_wait = NOT_WAITING, early_wait = NOT_WAITING\<rparr>"

definition playing0 :: compress_world where
  "playing0 = compress_world0\<lparr>svc := started0, cplugin := Some compress_plugin0\<rparr>"

definition mp3_0 :: snd_compr_params where
  "mp3_0 = \<lparr>fragment_size = 4096, fragments = 4, cp_codec = \<lparr>cd_id = SND_AUDIOCODEC_MP3, ch_in = 2, ch_out = 2,
     cd_sample_rate = 44100, cd_bit_rate = 0, cd_profile = 0, cd_format = 0, cd_reserved = (\<lambda>_. 0)\<rparr>\<rparr>"

lemmas compress_eval = with_cplugin_def upd_cpriv_def compress_get_session_handle_def service_def compress_priv0_def
  compress_buffer_def agm_session_update_codec_config_def codec_config_rx_def codec_config_tx_def
  agm_session_update_codec_options_def compress_prepare_def compress_written_def fragments_of_def
  playing0_def compress_plugin0_def compress_world0_def mp3_0_def compress_env0_def compress_card0_def started0_def run0_def





lemma closed0:
  "\<exists>t. agm_compress_close compress_env0 (playing0\<lparr>cplugin := Some (compress_plugin0\<lparr>cz_priv := (cz_priv compress_plugin0)\<lparr>cz_eos := True\<rparr>\<rparr>),
     drain_wait := BLOCKED\<rparr>) = Some ((), t)"
  by (simp add: agm_compress_close_def compress_unregister_def wake_drains_def snd_card_def_put_card_def snd_free_card_def_def
      upd_card_def compress_eval agm_eval cong: bind_eval_cong)

theorem close_frees_blocked_drain_witness:
  "\<exists>t. agm_compress_close compress_env0 (playing0\<lparr>cplugin := Some (compress_plugin0\<lparr>cz_priv := (cz_priv compress_plugin0)\<lparr>cz_eos := True\<rparr>\<rparr>),
     drain_wait := BLOCKED\<rparr>) = Some ((), t) \<and> drain_wait t = SIGNALLED \<and> drain_resume t = None"
proof -
  obtain t where t: "agm_compress_close compress_env0 (playing0\<lparr>cplugin := Some (compress_plugin0\<lparr>cz_priv := (cz_priv compress_plugin0)\<lparr>cz_eos := True\<rparr>\<rparr>),
     drain_wait := BLOCKED\<rparr>) = Some ((), t)" using closed0 by blast
  then show ?thesis
    using close_frees_blocked_drain [OF _ _ _ _ t, of "compress_plugin0\<lparr>cz_priv := (cz_priv compress_plugin0)\<lparr>cz_eos := True\<rparr>\<rparr>"]
    by (simp add: waits_ok_def compress_plugin0_def playing0_def compress_world0_def)
qed

lemma allocated0: "client_callocs 2 compress_env0 compress_world0 = Some (True, compress_world0\<lparr>cl_hist := [CL_CALLOC, CL_CALLOC]\<rparr>)"
  by (simp add: numeral_eq_Suc client_calloc_def client_ecall_def compress_env0_def compress_world0_def)

lemmas card_eval = snd_card_def_get_card_def read_card_id_def search_card.simps upd_card_def live_card_def node_list_of_def
  snd_card_def_get_node_def node_at_def snd_card_def_get_int_def atoi_def scan_sign_def is_space_def is_digit_def digits_val_def
  session_mode_of_def compress_node_ints_def

lemma registered0:
  "\<exists>w1 w2 w3. agm_session_open (svc_env compress_env0) 6 AGM_SESSION_NON_TUNNEL True world0 = Some ((0, Some 1), w1)
     \<and> agm_session_register_cb (svc_env compress_env0) 6 32 AGM_EVENT_DATA_PATH 64 w1 = Some (0, w2)
     \<and> agm_session_register_cb (svc_env compress_env0) 6 32 AGM_EVENT_MODULE 64 w2 = Some (0, w3)"
  by (simp add: compress_env0_def agm_eval cong: bind_eval_cong)

theorem compress_open_close_witness:
  "\<exists>t. compress_card.uses compress_env0 100 6 True compress_world0 t \<and> held_card t = Some 1 \<and> card_refs t 1 = 2"
proof -
  obtain w1 w2 w3 where w: "agm_session_open (svc_env compress_env0) 6 AGM_SESSION_NON_TUNNEL True world0 = Some ((0, Some 1), w1)"
    "agm_session_register_cb (svc_env compress_env0) 6 32 AGM_EVENT_DATA_PATH 64 w1 = Some (0, w2)"
    "agm_session_register_cb (svc_env compress_env0) 6 32 AGM_EVENT_MODULE 64 w2 = Some (0, w3)"
    using registered0 by blast
  obtain t where t: "agm_compress_plugin_open compress_env0 100 6 True compress_world0 = Some (0, t)" "held_card t = Some 1"
    using w by (simp add: agm_compress_plugin_open_def allocated0)
      (simp add: compress_open_node_def compress_open_session_def compress_register_def service_def card_eval held_card_def
        compress_env0_def compress_world0_def compress_card0_def compress_priv0_def)
  have uses: "compress_card.uses compress_env0 100 6 True compress_world0 t"
    by (rule compress_card.uses_open [OF compress_card.uses_none _ t(1)]) (simp add: held_card_def compress_world0_def)
  have "cards_ok compress_world0" by (simp add: cards_ok_def compress_world0_def compress_card0_def)
  moreover have "agm_reach (svc_env compress_env0) (svc compress_world0)"
    using agm_reach_init [OF world0_initial] by (simp add: compress_world0_def)
  ultimately have "card_refs t 1 = card_refs compress_world0 1 + 1"
    using compress_open_close [OF _ _ _ _ uses, of "[]"] t(2) by (simp add: compress_env0_def compress_world0_def)
  moreover have "card_refs compress_world0 1 = 1" by (simp add: card_refs_def compress_world0_def compress_card0_def)
  ultimately show ?thesis using uses t(2) by auto
qed

theorem unsupported_direction_succeeds_witness:
  "\<exists>t. agm_compress_plugin_open compress_env0 100 6 False compress_world0 = Some (0, t) \<and> cplugin t = None"
proof -
  let ?s = "compress_world0\<lparr>cl_hist := [CL_CALLOC, CL_CALLOC], cards := (cards compress_world0)(1 := compress_card0\<lparr>sd_refcnt := 2\<rparr>)\<rparr>"
  have "get_card compress_env0 100 (compress_world0\<lparr>cl_hist := [CL_CALLOC, CL_CALLOC]\<rparr>) = Some (Some 1, ?s)"
    by (simp add: card_eval compress_env0_def compress_world0_def compress_card0_def)
  moreover have "snd_card_def_get_node (Some 1) 6 2 ?s = Some (Some (1, SND_NODE_TYPE_COMPR, 0))"
    by (simp add: card_eval compress_world0_def compress_card0_def)
  moreover have "compress_node_ints (1, SND_NODE_TYPE_COMPR, 0) ?s = Some (0, 1, 0, 2)"
    by (simp add: card_eval compress_world0_def compress_card0_def)
  ultimately have "agm_compress_plugin_open compress_env0 100 6 False compress_world0 = Some (0, snd_card_def_put_card (Some 1) ?s)"
    using unsupported_direction_succeeds [OF allocated0] by (simp add: session_mode_of_def)
  then show ?thesis using cworld_of_more [OF put_card_more [of "Some 1" ?s]] by (simp add: compress_world0_def)
qed

theorem codec_bit_width_witness:
  "get_media_bit_width (session_obj0 6\<lparr>stream_config := cz_session_config (agm_session_update_codec_config compress_env0
       (mp3_0\<lparr>cp_codec := (cp_codec mp3_0)\<lparr>cd_id := SND_AUDIOCODEC_FLAC, cd_reserved := \<lambda>_. 24\<rparr>\<rparr>) (cz_priv compress_plugin0))\<rparr>)
     (cz_media_config (agm_session_update_codec_config compress_env0
       (mp3_0\<lparr>cp_codec := (cp_codec mp3_0)\<lparr>cd_id := SND_AUDIOCODEC_FLAC, cd_reserved := \<lambda>_. 24\<rparr>\<rparr>) (cz_priv compress_plugin0))) = 24"
  by (subst codec_bit_width [OF _ _ refl _ refl]) (simp_all add: compress_plugin0_def compress_priv0_def mp3_0_def)

end
