(* ===== verification/Mixer_Plugin.thy ===== *)
theory Mixer_Plugin
  imports Plugin
begin

text \<open>
  Model of \<open>plugins/tinyalsa/src/agm_mixer_plugin.c\<close>: the mixer controls of a card. Opening the
  plugin reads the back ends from the service and the streams from the card definition, and creates
  one control for each operation on each of them; a control keeps its name, the pair of functions
  that get and put its value, a number and the list it belongs to. The functions call the entry
  points of the service. Events of the sessions are queued until the client reads them.

  A payload is given to a function as the structure that the function casts it to. A NULL array
  is the empty list; an access outside an array is a trap. The mutex is held over one definition
  only. The build with \<open>AGM_NO_IPC\<close> is not modelled, and \<open>strdup\<close> is taken to succeed.
\<close>

section \<open>State\<close>

record amp_get_param_info =
  get_param_payload :: "u8 list option"
  get_param_payload_size :: int

text \<open>\<open>pcm_mtd_ctl\<close> may be left dangling by a failed start; \<open>mtd_dangling\<close> says so.\<close>

record amp_dev_info =
  names :: "string option list"
  idx_arr :: "int list"
  adi_count :: int
  enum_items :: int
  adi_dir :: direction
  pcm_mtd_ctl :: "int list"
  mtd_dangling :: bool
  get_param_info :: "amp_get_param_info list"

record amp_be_group_info =
  grp_names :: "string list"
  grp_idx_arr :: "int list"
  grp_count :: int

text \<open>The lists a control can belong to.\<close>

datatype amp_list = RX_BE_DEVS | TX_BE_DEVS | RX_PCM_DEVS | TX_PCM_DEVS | ACDB_TUNNELS | GROUP_BE_DEVS

datatype snd_value =
    VALUE_ENUM amp_list
  | VALUE_INTEGER nat int int
  | VALUE_BYTES nat
  | VALUE_TLV_BYTES nat

text \<open>The pairs of get and put functions.\<close>

datatype (plugins only: code size) amp_ctl_ops =
    OPS_BE_MEDIA_FMT | OPS_BE_METADATA | OPS_BE_SET_PARAM | OPS_GROUP_BE_MEDIA_FMT
  | OPS_PCM_AIF_CONNECT | OPS_PCM_MTD_CONTROL | OPS_PCM_EVENT | OPS_PCM_METADATA | OPS_PCM_SET_PARAM
  | OPS_PCM_GET_PARAM | OPS_PCM_TAG_INFO | OPS_PCM_CALIBRATION | OPS_PCM_BUF_INFO | OPS_PCM_LOOPBACK
  | OPS_PCM_ECHOREF | OPS_PCM_BUF_TSTAMP | OPS_PCM_SIDETONE | OPS_PCM_WRITE_DATAPATH_PARAMS
  | OPS_PCM_FLUSH | OPS_SET_ACDB_TUNNEL

record snd_control =
  ctl_name :: string
  ctl_ops :: amp_ctl_ops
  ctl_value :: snd_value
  private_value :: int
  private_data :: amp_list

record event_params_node =
  en_session_id :: u32
  en_source_module_id :: u32
  en_event_id :: u32
  en_payload :: "u8 list"

record amp_priv =
  amp_card :: u32
  amp_card_node :: "nat option"
  aif_list :: "(string \<times> direction) list"
  events_list :: "string list"
  events_paramlist :: "event_params_node list"
  rx_be_devs :: amp_dev_info
  tx_be_devs :: amp_dev_info
  rx_pcm_devs :: amp_dev_info
  tx_pcm_devs :: amp_dev_info
  acdb_tunnels :: amp_dev_info
  group_be_devs :: amp_be_group_info
  ctls :: "snd_control option list"
  ctl_count :: int
  event_cb :: u64

text \<open>\<open>subscribed\<close> belongs to the mixer library, which sets it.\<close>

record mixer_plugin =
  mx_addr :: u64
  subscribed :: bool
  num_controls :: int
  mx_priv :: amp_priv

record mixer_env = plugin_env +
  mixer_addr :: "client_call list \<Rightarrow> u64"
  amp_event_cb_addr :: u64
  sizeof_elem_name :: nat
  sizeof_ctl_event :: nat
  sizeof_event_cb_params :: nat

record mixer_world = plugin_world +
  mplugin :: "mixer_plugin option"

definition dev_info0 :: "direction \<Rightarrow> amp_dev_info" where
  "dev_info0 d = \<lparr>names = [], idx_arr = [], adi_count = 0, enum_items = 0, adi_dir = d, pcm_mtd_ctl = [],
                  mtd_dangling = False, get_param_info = []\<rparr>"

definition amp_priv0 :: amp_priv where
  "amp_priv0 = \<lparr>amp_card = 0, amp_card_node = None, aif_list = [], events_list = [], events_paramlist = [],
     rx_be_devs = dev_info0 0, tx_be_devs = dev_info0 0, rx_pcm_devs = dev_info0 0, tx_pcm_devs = dev_info0 0,
     acdb_tunnels = dev_info0 0, group_be_devs = \<lparr>grp_names = [], grp_idx_arr = [], grp_count = 0\<rparr>,
     ctls = [], ctl_count = 0, event_cb = 0\<rparr>"

definition with_amp ::
    "(amp_priv \<Rightarrow> 'z mixer_world_scheme \<Rightarrow> ('r \<times> 'z mixer_world_scheme) option) \<Rightarrow>
       'z mixer_world_scheme \<Rightarrow> ('r \<times> 'z mixer_world_scheme) option" where
  "with_amp f s = (case mplugin s of None \<Rightarrow> None | Some p \<Rightarrow> f (mx_priv p) s)"

definition upd_amp :: "(amp_priv \<Rightarrow> amp_priv) \<Rightarrow> 'z mixer_world_scheme \<Rightarrow> 'z mixer_world_scheme" where
  "upd_amp f s = s\<lparr>mplugin := map_option (\<lambda>p. p\<lparr>mx_priv := f (mx_priv p)\<rparr>) (mplugin s)\<rparr>"

text \<open>The PCM lists by reference: the data of a control of a stream.\<close>

definition pcm_adi :: "snd_control \<Rightarrow> amp_priv \<Rightarrow> amp_dev_info option" where
  "pcm_adi ctl v = (case private_data ctl of RX_PCM_DEVS \<Rightarrow> Some (rx_pcm_devs v) | TX_PCM_DEVS \<Rightarrow> Some (tx_pcm_devs v) | _ \<Rightarrow> None)"

definition upd_pcm_adi :: "snd_control \<Rightarrow> (amp_dev_info \<Rightarrow> amp_dev_info) \<Rightarrow> amp_priv \<Rightarrow> amp_priv" where
  "upd_pcm_adi ctl f v =
     (case private_data ctl of RX_PCM_DEVS \<Rightarrow> v\<lparr>rx_pcm_devs := f (rx_pcm_devs v)\<rparr>
      | TX_PCM_DEVS \<Rightarrow> v\<lparr>tx_pcm_devs := f (tx_pcm_devs v)\<rparr> | _ \<Rightarrow> v)"

section \<open>Names of controls\<close>

definition amp_be_ctl_name_extn :: "string list" where
  "amp_be_ctl_name_extn = [''rate ch fmt'', ''metadata'', ''setParam'']"

definition static_acdb_ctl_name_extn :: "string list" where
  "static_acdb_ctl_name_extn = [''setACDBTunnel'']"

definition amp_group_be_ctl_name_extn :: "string list" where
  "amp_group_be_ctl_name_extn = [''grp config'']"

definition amp_pcm_ctl_name_extn :: "string list" where
  "amp_pcm_ctl_name_extn =
     [''connect'', ''disconnect'', ''control'', ''metadata'', ''setParam'', ''setParamTag'', ''setParamTagACDB'',
      ''getTaggedInfo'', ''event'', ''setCalibration'', ''getParam'', ''getBufInfo'']"

definition amp_pcm_tx_ctl_names :: "string list" where
  "amp_pcm_tx_ctl_names = [''loopback'', ''echoReference'', ''bufTimestamp'']"

definition amp_pcm_rx_ctl_names :: "string list" where
  "amp_pcm_rx_ctl_names = [''sidetone'', ''datapathParams'', ''flush'']"

section \<open>Formats and lists\<close>

definition alsa_to_agm_fmt :: "int \<Rightarrow> agm_media_format" where
  "alsa_to_agm_fmt fmt =
     (if fmt = 0 then AGM_FORMAT_PCM_S8 else if fmt = 2 then AGM_FORMAT_PCM_S16_LE
      else if fmt = 6 then AGM_FORMAT_PCM_S24_LE else if fmt = 32 then AGM_FORMAT_PCM_S24_3LE
      else if fmt = 10 then AGM_FORMAT_PCM_S32_LE else AGM_FORMAT_INVALID)"

definition amp_get_be_adi :: "amp_priv \<Rightarrow> direction \<Rightarrow> amp_dev_info option" where
  "amp_get_be_adi v d = (if d = RX then Some (rx_be_devs v) else if d = TX then Some (tx_be_devs v) else None)"

text \<open>A second \<open>free\<close> of the dangling array is a trap.\<close>

definition amp_free_dev_info :: "amp_dev_info \<Rightarrow> amp_dev_info option" where
  "amp_free_dev_info adi =
     (if mtd_dangling adi then None
      else Some (adi\<lparr>names := [], idx_arr := [], pcm_mtd_ctl := [], get_param_info := [], adi_count := 0\<rparr>))"

definition amp_free_be_dev_info :: "amp_priv \<Rightarrow> amp_priv option" where
  "amp_free_be_dev_info v = do {
     rx \<leftarrow> amp_free_dev_info (rx_be_devs v);
     tx \<leftarrow> amp_free_dev_info (tx_be_devs v);
     Some (v\<lparr>rx_be_devs := rx, tx_be_devs := tx, aif_list := []\<rparr>) }"

definition amp_free_group_be_dev_info :: "amp_priv \<Rightarrow> amp_priv" where
  "amp_free_group_be_dev_info v = v\<lparr>group_be_devs := (group_be_devs v)\<lparr>grp_names := [], grp_idx_arr := []\<rparr>\<rparr>"

definition amp_free_acdb_dev_info :: "amp_priv \<Rightarrow> amp_priv option" where
  "amp_free_acdb_dev_info v = do { a \<leftarrow> amp_free_dev_info (acdb_tunnels v); Some (v\<lparr>acdb_tunnels := a\<rparr>) }"

definition amp_free_pcm_dev_info :: "amp_priv \<Rightarrow> amp_priv option" where
  "amp_free_pcm_dev_info v = do {
     rx \<leftarrow> amp_free_dev_info (rx_pcm_devs v);
     tx \<leftarrow> amp_free_dev_info (tx_pcm_devs v);
     Some (v\<lparr>rx_pcm_devs := rx, tx_pcm_devs := tx\<rparr>) }"

definition amp_free_ctls :: "amp_priv \<Rightarrow> amp_priv" where
  "amp_free_ctls v = v\<lparr>ctls := [], ctl_count := 0\<rparr>"

section \<open>Events\<close>

definition amp_add_event_params ::
    "'k client_env_scheme \<Rightarrow> event_params_node \<Rightarrow> 'z mixer_world_scheme \<Rightarrow> (unit \<times> 'z mixer_world_scheme) option" where
  "amp_add_event_params K ev s = do {
     (ok, s) \<leftarrow> client_calloc K s;
     Some ((), if ok then upd_amp (\<lambda>v. v\<lparr>events_paramlist := events_paramlist v @ [ev]\<rparr>) s else s) }"

text \<open>The name of the first stream with the session's number, from position 0.\<close>

definition stream_name :: "u32 \<Rightarrow> amp_dev_info \<Rightarrow> string option option" where
  "stream_name session_id adi =
     map_option (\<lambda>i. names adi ! i) (find (\<lambda>i. of_int (idx_arr adi ! i) = session_id) [0..<nat (adi_count adi)])"

definition amp_event_cb ::
    "'k mixer_env_scheme \<Rightarrow> event_params_node \<Rightarrow> 'z mixer_world_scheme \<Rightarrow> (unit \<times> 'z mixer_world_scheme) option" where
  "amp_event_cb K ev s =
     (case mplugin s of None \<Rightarrow> None
      | Some p \<Rightarrow>
        if \<not> subscribed p then Some ((), s)
        else let stream = (case stream_name (en_session_id ev) (rx_pcm_devs (mx_priv p)) of
                  Some n \<Rightarrow> Some n | None \<Rightarrow> stream_name (en_session_id ev) (tx_pcm_devs (mx_priv p)))
        in case stream of None \<Rightarrow> Some ((), s)
        | Some None \<Rightarrow> None
        | Some (Some stream) \<Rightarrow> do {
            (_, s) \<leftarrow> amp_add_event_params K ev s;
            (ok, s) \<leftarrow> client_calloc K s;
            if \<not> ok then Some ((), s) else do {
            let n = take (sizeof_elem_name K - 1) (stream @ '' event'');
            (ok, s) \<leftarrow> client_calloc K s;
            if \<not> ok then Some ((), s) else do {
            let s = upd_amp (\<lambda>v. v\<lparr>events_list := events_list v @ [n]\<rparr>) s;
            if event_cb (mx_priv p) \<noteq> 0
            then do { (_, s) \<leftarrow> client_ecall K (CL_MIXER_EVENT_CB (mx_addr p)) s; Some ((), s) }
            else Some ((), s) }}})"

text \<open>
  The buffer of the client as an array of events, and the pointer as a position in it: the
  increment by \<open>sizeof (struct ctl_event)\<close> moves it by that many events. The result is in
  bytes.
\<close>

fun read_event_loop ::
    "nat \<Rightarrow> nat \<Rightarrow> nat \<Rightarrow> string list \<Rightarrow> string option list \<Rightarrow> (nat \<times> string list \<times> string option list) option" where
  "read_event_loop sz pos 0 evs buf = Some (0, evs, buf)"
| "read_event_loop sz pos (Suc n) [] buf = Some (0, [], buf)"
| "read_event_loop sz pos (Suc n) (e # evs) buf =
     (if pos < length buf
      then do { (r, evs, buf) \<leftarrow> read_event_loop sz (pos + sz) n evs (buf[pos := Some e]); Some (r + sz, evs, buf) }
      else None)"

definition amp_read_event ::
    "'k mixer_env_scheme \<Rightarrow> string option list \<Rightarrow> nat \<Rightarrow> 'z mixer_world_scheme \<Rightarrow>
       ((nat \<times> string option list) \<times> 'z mixer_world_scheme) option" where
  "amp_read_event K buf len = with_amp (\<lambda>v s. do {
     (r, evs, buf) \<leftarrow> read_event_loop (sizeof_ctl_event K) 0 (len div sizeof_ctl_event K) (events_list v) buf;
     Some ((r, buf), upd_amp (\<lambda>v. v\<lparr>events_list := evs\<rparr>) s) })"

definition amp_subscribe_events :: "u64 \<Rightarrow> 'z mixer_world_scheme \<Rightarrow> (int \<times> 'z mixer_world_scheme) option" where
  "amp_subscribe_events cb = with_amp (\<lambda>v s.
     Some (0, upd_amp (\<lambda>v. let v = v\<lparr>event_cb := cb\<rparr> in
       if cb = 0 then v\<lparr>events_paramlist := [], events_list := []\<rparr> else v) s))"

section \<open>Back ends and streams\<close>

text \<open>Allocations that are all made before they are checked.\<close>

fun callocs_all :: "nat \<Rightarrow> 'k client_env_scheme \<Rightarrow> 'z client_world_scheme \<Rightarrow> (bool \<times> 'z client_world_scheme) option" where
  "callocs_all 0 K s = Some (True, s)"
| "callocs_all (Suc n) K s = do { (ok, s) \<leftarrow> client_calloc K s; (ok', s) \<leftarrow> callocs_all n K s; Some (ok \<and> ok', s) }"

text \<open>The arrays of a list, as they come from \<open>calloc\<close>, and an entry of them.\<close>

definition adi_alloc :: "nat \<Rightarrow> amp_dev_info \<Rightarrow> amp_dev_info" where
  "adi_alloc n adi = adi\<lparr>names := replicate n None, idx_arr := replicate n 0\<rparr>"

definition adi_store :: "int \<Rightarrow> string option \<Rightarrow> int \<Rightarrow> amp_dev_info \<Rightarrow> amp_dev_info option" where
  "adi_store i n k adi = do {
     ns \<leftarrow> store i n (names adi);
     ks \<leftarrow> store i k (idx_arr adi);
     Some (adi\<lparr>names := ns, idx_arr := ks\<rparr>) }"

fun be_names_loop ::
    "direction \<Rightarrow> int \<Rightarrow> int \<Rightarrow> (string \<times> direction) list \<Rightarrow> amp_dev_info \<Rightarrow> (int \<times> amp_dev_info) option" where
  "be_names_loop d i be_idx [] adi = Some (be_idx, adi)"
| "be_names_loop d i be_idx ((n, d') # ls) adi =
     (if d' \<noteq> d then be_names_loop d (i + 1) be_idx ls adi
      else do { adi \<leftarrow> adi_store be_idx (Some n) i adi; be_names_loop d (i + 1) (be_idx + 1) ls adi })"

definition amp_copy_be_names_from_aif_list ::
    "(string \<times> direction) list \<Rightarrow> direction \<Rightarrow> amp_dev_info \<Rightarrow> amp_dev_info option" where
  "amp_copy_be_names_from_aif_list l d adi = do {
     adi \<leftarrow> adi_store 0 (Some ''ZERO'') 0 adi;
     (n, adi) \<leftarrow> be_names_loop d 0 1 l adi;
     Some (adi\<lparr>adi_count := n, enum_items := n\<rparr>) }"

definition amp_copy_group_be_names_from_aif_list :: "string list \<Rightarrow> amp_be_group_info \<Rightarrow> amp_be_group_info" where
  "amp_copy_group_be_names_from_aif_list l gi =
     gi\<lparr>grp_names := l, grp_idx_arr := map int [0..<length l]\<rparr>"

text \<open>The result and the changed private data.\<close>

definition amp_get_be_info ::
    "'k client_env_scheme \<Rightarrow> amp_priv \<Rightarrow> 'z plugin_world_scheme \<Rightarrow> ((int \<times> amp_priv) \<times> 'z plugin_world_scheme) option" where
  "amp_get_be_info K v s =
     (case agm_get_aif_info_list False (Some 0) (svc s) of
        (ret, Some (n, _)) \<Rightarrow>
          if ret \<noteq> 0 \<or> n = 0 then Some ((- EINVAL, v), s) else do {
          (ok, s) \<leftarrow> client_calloc K s;
          if \<not> ok then Some ((- ENOMEM, v), s)
          else case agm_get_aif_info_list True (Some n) (svc s) of
            (ret, Some (_, l)) \<Rightarrow>
              if ret \<noteq> 0 then do { v \<leftarrow> amp_free_be_dev_info v; Some ((ret, v), s) } else do {
              let nrx = length (filter (\<lambda>(_, d). d = RX) l);
              let ntx = length (filter (\<lambda>(_, d). d = TX) l);
              (ok, s) \<leftarrow> callocs_all 4 K s;
              if \<not> ok then do { v \<leftarrow> amp_free_be_dev_info v; Some ((- ENOMEM, v), s) } else do {
              rx \<leftarrow> amp_copy_be_names_from_aif_list l RX (adi_alloc (nrx + 1) (rx_be_devs v));
              tx \<leftarrow> amp_copy_be_names_from_aif_list l TX (adi_alloc (ntx + 1) (tx_be_devs v));
              Some ((0, v\<lparr>rx_be_devs := rx, tx_be_devs := tx, aif_list := l\<rparr>), s) }}
          | (ret, None) \<Rightarrow> do { v \<leftarrow> amp_free_be_dev_info v; Some ((ret, v), s) } }
      | (_, None) \<Rightarrow> Some ((- EINVAL, v), s))"

definition amp_get_group_be_info ::
    "'k client_env_scheme \<Rightarrow> amp_priv \<Rightarrow> 'z plugin_world_scheme \<Rightarrow> ((int \<times> amp_priv) \<times> 'z plugin_world_scheme) option" where
  "amp_get_group_be_info K v s =
     (case agm_get_group_aif_info_list False (Some 0) (svc s) of
        (ret, Some (n, _)) \<Rightarrow>
          if ret \<noteq> 0 then Some ((- EINVAL, v), s)
          else if n = 0 then Some ((0, v), s) else do {
          (ok, s) \<leftarrow> client_calloc K s;
          if \<not> ok then Some ((- ENOMEM, v), s)
          else case agm_get_group_aif_info_list True (Some n) (svc s) of
            (ret, Some (m, l)) \<Rightarrow>
              if ret \<noteq> 0 then Some ((ret, amp_free_group_be_dev_info v), s) else do {
              let v = v\<lparr>group_be_devs := (group_be_devs v)\<lparr>grp_count := int m\<rparr>\<rparr>;
              (ok, s) \<leftarrow> callocs_all 2 K s;
              if \<not> ok then Some ((- ENOMEM, amp_free_group_be_dev_info v), s)
              else Some ((0, v\<lparr>group_be_devs := amp_copy_group_be_names_from_aif_list l (group_be_devs v)\<rparr>), s) }
          | (ret, None) \<Rightarrow> Some ((ret, amp_free_group_be_dev_info v), s) }
      | (_, None) \<Rightarrow> Some ((- EINVAL, v), s))"

fun pcm_info_loop ::
    "string \<Rightarrow> node_ptr list \<Rightarrow> int \<Rightarrow> int \<Rightarrow> amp_dev_info \<Rightarrow> 'z snd_world_scheme \<Rightarrow> (int \<times> amp_dev_info) option" where
  "pcm_info_loop dname [] val idx adi s = Some (0, adi\<lparr>adi_count := idx\<rparr>)"
| "pcm_info_loop dname (node # nodes) val idx adi s = do {
     val \<leftarrow> node_int node dname val s;
     if val = 0 then pcm_info_loop dname nodes val idx adi s else do {
     (ret, n) \<leftarrow> snd_card_def_get_str (Some node) ''name'' s;
     if ret \<noteq> 0 then Some (- EINVAL, adi) else do {
     (ret, i) \<leftarrow> snd_card_def_get_int (Some node) ''id'' s;
     case i of None \<Rightarrow> Some (- EINVAL, adi)
     | Some i \<Rightarrow> do { adi \<leftarrow> adi_store idx n i adi; pcm_info_loop dname nodes val (idx + 1) adi s }}}}"

definition amp_create_pcm_info_from_card ::
    "amp_dev_info \<Rightarrow> string \<Rightarrow> node_ptr list \<Rightarrow> 'z snd_world_scheme \<Rightarrow> (int \<times> amp_dev_info) option" where
  "amp_create_pcm_info_from_card adi dname nodes s = do {
     adi \<leftarrow> adi_store 0 (Some ''ZERO'') 0 adi;
     pcm_info_loop dname nodes 0 1 adi s }"

fun count_pcms :: "string \<Rightarrow> node_ptr list \<Rightarrow> int \<Rightarrow> 'z snd_world_scheme \<Rightarrow> (nat \<times> int) option" where
  "count_pcms dname [] val s = Some (0, val)"
| "count_pcms dname (node # nodes) val s = do {
     val \<leftarrow> node_int node dname val s;
     (n, val') \<leftarrow> count_pcms dname nodes val s;
     Some (if val = 1 then n + 1 else n, val') }"

definition card_nodes :: "amp_priv \<Rightarrow> 'z snd_world_scheme \<Rightarrow> (int \<times> node_ptr list) option" where
  "card_nodes v s = do {
     np \<leftarrow> snd_card_def_get_num_node (amp_card_node v) 0 s;
     nc \<leftarrow> snd_card_def_get_num_node (amp_card_node v) 2 s;
     (ret, pcms) \<leftarrow> (if np > 0 then snd_card_def_get_nodes_for_type (amp_card_node v) 0 np s else Some (0, []));
     if ret \<noteq> 0 then Some (ret, []) else do {
     (ret, comprs) \<leftarrow> (if nc > 0 then snd_card_def_get_nodes_for_type (amp_card_node v) 2 nc s else Some (0, []));
     Some (ret, pcms @ comprs) }}"

definition amp_get_pcm_info ::
    "'k client_env_scheme \<Rightarrow> amp_priv \<Rightarrow> 'z snd_world_scheme \<Rightarrow> ((int \<times> amp_priv) \<times> 'z snd_world_scheme) option" where
  "amp_get_pcm_info K v s = do {
     np \<leftarrow> snd_card_def_get_num_node (amp_card_node v) 0 s;
     nc \<leftarrow> snd_card_def_get_num_node (amp_card_node v) 2 s;
     if np \<le> 0 \<and> nc \<le> 0 then Some ((- EINVAL, v), s) else do {
     (ok, s) \<leftarrow> client_calloc K s;
     if \<not> ok then Some ((- ENOMEM, v), s) else do {
     (ret, nodes) \<leftarrow> card_nodes v s;
     if ret \<noteq> 0 then Some ((ret, v), s) else do {
     (nrx, _) \<leftarrow> count_pcms ''playback'' nodes 0 s;
     (ntx, _) \<leftarrow> count_pcms ''capture'' nodes 0 s;
     (ok, s) \<leftarrow> callocs_all 4 K s;
     if \<not> ok then do { v \<leftarrow> amp_free_pcm_dev_info v; Some ((- ENOMEM, v), s) } else do {
     (ret, rx) \<leftarrow> amp_create_pcm_info_from_card (adi_alloc (nrx + 1) (rx_pcm_devs v)) ''playback'' nodes s;
     if ret \<noteq> 0 then do { v \<leftarrow> amp_free_pcm_dev_info v; Some ((ret, v), s) } else do {
     (ret, tx) \<leftarrow> amp_create_pcm_info_from_card (adi_alloc (ntx + 1) (tx_pcm_devs v)) ''capture'' nodes s;
     if ret \<noteq> 0 then do { v \<leftarrow> amp_free_pcm_dev_info v; Some ((ret, v), s) }
     else Some ((0, v\<lparr>rx_pcm_devs := rx\<lparr>enum_items := adi_count rx\<rparr>, tx_pcm_devs := tx\<lparr>enum_items := adi_count tx\<rparr>\<rparr>), s)
     }}}}}}"

text \<open>The error exit frees the lists of the streams, not that of the tunnel.\<close>

definition amp_get_acdb_info ::
    "'k client_env_scheme \<Rightarrow> amp_priv \<Rightarrow> 'z client_world_scheme \<Rightarrow> ((int \<times> amp_priv) \<times> 'z client_world_scheme) option" where
  "amp_get_acdb_info K v s = do {
     let v = v\<lparr>acdb_tunnels := (acdb_tunnels v)\<lparr>adi_count := 1\<rparr>\<rparr>;
     (ok, s) \<leftarrow> client_calloc K s;
     if \<not> ok then Some ((- ENOMEM, v), s) else do {
     (ok, s) \<leftarrow> callocs_all 2 K s;
     if \<not> ok then do { v \<leftarrow> amp_free_pcm_dev_info v; Some ((- ENOMEM, v), s) }
     else Some ((0, v\<lparr>acdb_tunnels := (adi_alloc 1 (acdb_tunnels v))\<lparr>enum_items := 1\<rparr>\<rparr>), s) }}"

section \<open>Callbacks and counts\<close>

definition register_cb ::
    "'k mixer_env_scheme \<Rightarrow> u64 \<Rightarrow> u64 \<Rightarrow> amp_dev_info \<Rightarrow> nat \<Rightarrow> 'z plugin_world_scheme \<Rightarrow> (unit \<times> 'z plugin_world_scheme) option" where
  "register_cb K cb self adi i s = do {
     k \<leftarrow> load (idx_arr adi) (int i);
     (_, s) \<leftarrow> service (agm_session_register_cb (svc_env K) (of_int k) cb AGM_EVENT_MODULE self) s;
     Some ((), s) }"

definition amp_register_event_callback ::
    "'k mixer_env_scheme \<Rightarrow> bool \<Rightarrow> u64 \<Rightarrow> amp_priv \<Rightarrow> 'z plugin_world_scheme \<Rightarrow> (unit \<times> 'z plugin_world_scheme) option" where
  "amp_register_event_callback K enable self v s = do {
     let cb = (if enable then amp_event_cb_addr K else 0);
     (_, s) \<leftarrow> for_each (register_cb K cb self (rx_pcm_devs v)) [1..<nat (adi_count (rx_pcm_devs v))] s;
     for_each (register_cb K cb self (tx_pcm_devs v)) [1..<nat (adi_count (tx_pcm_devs v))] s }"

definition amp_get_be_ctl_count :: "amp_priv \<Rightarrow> int" where
  "amp_get_be_ctl_count v =
     (let ctl_per_be = int (length amp_be_ctl_name_extn)
      in (adi_count (rx_be_devs v) - 1) * ctl_per_be + (adi_count (tx_be_devs v) - 1) * ctl_per_be)"

definition amp_get_group_be_ctl_count :: "amp_priv \<Rightarrow> int" where
  "amp_get_group_be_ctl_count v = grp_count (group_be_devs v) * int (length amp_group_be_ctl_name_extn)"

definition amp_get_pcm_ctl_count :: "amp_priv \<Rightarrow> int" where
  "amp_get_pcm_ctl_count v =
     (let ctl_per_pcm = int (length amp_pcm_ctl_name_extn)
      in (adi_count (rx_pcm_devs v) - 1) * ctl_per_pcm + (adi_count (tx_pcm_devs v) - 1) * ctl_per_pcm
         + (adi_count (tx_pcm_devs v) - 1) * int (length amp_pcm_tx_ctl_names)
         + (adi_count (rx_pcm_devs v) - 1) * int (length amp_pcm_rx_ctl_names))"

text \<open>The value of the control that selects the back end of a stream; a negative value is an
  error code.\<close>

definition amp_pcm_get_control_value :: "int \<Rightarrow> amp_dev_info \<Rightarrow> int option" where
  "amp_pcm_get_control_value pcm_idx adi =
     (case find (\<lambda>i. idx_arr adi ! i = pcm_idx) [1..<nat (adi_count adi)] of
        None \<Rightarrow> Some (- EINVAL)
      | Some i \<Rightarrow> load (pcm_mtd_ctl adi) (int i))"

section \<open>Values of controls\<close>

text \<open>The types of the values: an array of integers (128 in the kernel's structure), the number
  of an enumerated item, a payload with its length.\<close>

record snd_ctl_tlv =
  tlv_length :: u32
  tlv :: "u8 list"

text \<open>The payload of a control for parameters, as bytes and as the two structures that the
  function casts it to.\<close>

record param_payload = snd_ctl_tlv +
  as_tag_config :: agm_tag_config
  as_acdb_param :: agm_acdb_param

definition media_config_of :: "(nat \<Rightarrow> int) \<Rightarrow> agm_media_config" where
  "media_config_of value =
     \<lparr>mc_rate = of_int (value 0), mc_channels = of_int (value 1),
      mc_format = alsa_to_agm_fmt (sint (of_int (value 2) :: u32)), mc_data_format = of_int (value 3)\<rparr>"

text \<open>Functions that have nothing to do return 0.\<close>

definition amp_no_op :: "'z mixer_world_scheme \<Rightarrow> (int \<times> 'z mixer_world_scheme) option" where
  "amp_no_op s = Some (0, s)"

definition amp_be_media_fmt_put where
  "amp_be_media_fmt_put ctl value s =
     service (agm_aif_set_media_config (of_int (private_value ctl)) (Some (media_config_of value))) s"

definition amp_group_be_media_fmt_put where
  "amp_group_be_media_fmt_put ctl value s =
     service (\<lambda>w. Some (agm_aif_group_set_media_config (of_int (private_value ctl))
        (Some \<lparr>gmc_config = media_config_of value, gmc_slot_mask = of_int (value 4)\<rparr>) w)) s"

definition amp_pcm_buf_info_get where
  "amp_pcm_buf_info_get K ctl bi s =
     service (agm_session_get_buf_info (svc_env K) (of_int (private_value ctl)) bi 1) s"

definition amp_be_set_param_put where
  "amp_be_set_param_put K ctl t s =
     service (agm_aif_set_params (svc_env K) (of_int (private_value ctl)) (Some (tlv t)) (unat (tlv_length t))) s"

definition amp_be_metadata_put ::
    "'k plugin_env_scheme \<Rightarrow> snd_control \<Rightarrow> snd_ctl_tlv option \<Rightarrow> 'z plugin_world_scheme \<Rightarrow>
       (int \<times> 'z plugin_world_scheme) option" where
  "amp_be_metadata_put K ctl tp s =
     (case tp of None \<Rightarrow> Some (- EINVAL, s)
      | Some t \<Rightarrow>
        if tlv_length t = 0 then Some (- EINVAL, s)
        else already_ok (service (agm_aif_set_metadata (svc_env K) (of_int (private_value ctl))
               (unat (tlv_length t)) (Some (tlv t))) s))"

definition amp_pcm_aif_connect_put ::
    "'k plugin_env_scheme \<Rightarrow> snd_control \<Rightarrow> u32 \<Rightarrow> 'z mixer_world_scheme \<Rightarrow> (int \<times> 'z mixer_world_scheme) option" where
  "amp_pcm_aif_connect_put K ctl item = with_amp (\<lambda>v s. do {
     adi \<leftarrow> pcm_adi ctl v;
     case amp_get_be_adi v (adi_dir adi) of None \<Rightarrow> Some (- EINVAL, s)
     | Some be \<Rightarrow>
       if item = 0 then Some (0, s) else do {
       let state = (strstr ''disconnect'' (ctl_name ctl) = None);
       be_idx \<leftarrow> load (idx_arr be) (uint item);
       already_ok (service (agm_session_aif_connect (svc_env K) (of_int (private_value ctl)) (of_int be_idx) state) s) }})"

definition amp_pcm_mtd_control_get ::
    "snd_control \<Rightarrow> 'z mixer_world_scheme \<Rightarrow> ((int \<times> u32) \<times> 'z mixer_world_scheme) option" where
  "amp_pcm_mtd_control_get ctl = with_amp (\<lambda>v s. do {
     adi \<leftarrow> pcm_adi ctl v;
     n \<leftarrow> load (pcm_mtd_ctl adi) (private_value ctl);
     Some ((0, of_int n), s) })"

definition amp_pcm_mtd_control_put ::
    "snd_control \<Rightarrow> u32 \<Rightarrow> 'z mixer_world_scheme \<Rightarrow> (int \<times> 'z mixer_world_scheme) option" where
  "amp_pcm_mtd_control_put ctl item = with_amp (\<lambda>v s. do {
     adi \<leftarrow> pcm_adi ctl v;
     ms \<leftarrow> store (private_value ctl) (sint item) (pcm_mtd_ctl adi);
     Some (0, upd_amp (upd_pcm_adi ctl (\<lambda>a. a\<lparr>pcm_mtd_ctl := ms\<rparr>)) s) })"

text \<open>The first queued event of the session is copied out and removed, if it fits.\<close>

fun take_event :: "u32 \<Rightarrow> event_params_node list \<Rightarrow> (event_params_node \<times> event_params_node list) option" where
  "take_event k [] = None"
| "take_event k (e # es) =
     (if en_session_id e = k then Some (e, es) else map_option (\<lambda>(x, xs). (x, e # xs)) (take_event k es))"

definition amp_pcm_event_get ::
    "'k mixer_env_scheme \<Rightarrow> snd_control \<Rightarrow> u32 \<Rightarrow> 'z mixer_world_scheme \<Rightarrow>
       ((int \<times> event_params_node option) \<times> 'z mixer_world_scheme) option" where
  "amp_pcm_event_get K ctl tlv_size = with_amp (\<lambda>v s.
     if tlv_size = 0 then Some ((- EINVAL, None), s)
     else case take_event (of_int (private_value ctl)) (events_paramlist v) of
       None \<Rightarrow> Some ((0, None), s)
     | Some (e, es) \<Rightarrow>
       if tlv_size < of_nat (sizeof_event_cb_params K + length (en_payload e)) then Some ((- EINVAL, None), s)
       else Some ((0, Some e), upd_amp (\<lambda>v. v\<lparr>events_paramlist := es\<rparr>) s))"

definition amp_pcm_event_put where
  "amp_pcm_event_put K ctl tlv_size cfg s =
     (if tlv_size = (0 :: u32) then Some (- EINVAL, s)
      else already_ok (service (agm_session_register_for_events (svc_env K) (of_int (private_value ctl)) (Some cfg)) s))"

text \<open>The back end that the control of the stream selects, \<open>-1\<close> for none; the result
  is an error code or the number and the control value.\<close>

definition selected_be :: "snd_control \<Rightarrow> amp_priv \<Rightarrow> (int + int \<times> int) option" where
  "selected_be ctl v = do {
     adi \<leftarrow> pcm_adi ctl v;
     n \<leftarrow> amp_pcm_get_control_value (private_value ctl) adi;
     if n < 0 then Some (Inl n)
     else if n = 0 then Some (Inr (0, - 1))
     else do {
       be \<leftarrow> amp_get_be_adi v (adi_dir adi);
       k \<leftarrow> load (idx_arr be) n;
       Some (Inr (n, k)) }}"

definition amp_pcm_metadata_put ::
    "'k plugin_env_scheme \<Rightarrow> snd_control \<Rightarrow> snd_ctl_tlv \<Rightarrow> 'z mixer_world_scheme \<Rightarrow> (int \<times> 'z mixer_world_scheme) option" where
  "amp_pcm_metadata_put K ctl t = with_amp (\<lambda>v s. do {
     adi \<leftarrow> pcm_adi ctl v;
     n \<leftarrow> amp_pcm_get_control_value (private_value ctl) adi;
     if n < 0 then Some (n, s)
     else if tlv_length t = 0 then Some (- EINVAL, s)
     else if n = 0
     then already_ok (service (agm_session_set_metadata (svc_env K) (of_int (private_value ctl))
            (unat (tlv_length t)) (Some (tlv t))) s)
     else do {
       be \<leftarrow> amp_get_be_adi v (adi_dir adi);
       be_idx \<leftarrow> load (idx_arr be) n;
       already_ok (service (agm_session_aif_set_metadata (svc_env K) (of_int (private_value ctl)) (of_int be_idx)
            (unat (tlv_length t)) (Some (tlv t))) s) }})"

definition amp_pcm_buf_tstamp_get where
  "amp_pcm_buf_tstamp_get K ctl s =
     service (agm_get_buffer_timestamp (svc_env K) (of_int (private_value ctl)) True) s"

text \<open>Here a missing list of back ends is an error, in the functions below it is not checked.\<close>

definition amp_pcm_calibration_put ::
    "'k plugin_env_scheme \<Rightarrow> snd_control \<Rightarrow> agm_key_vector_gsl \<Rightarrow> 'z mixer_world_scheme \<Rightarrow> (int \<times> 'z mixer_world_scheme) option" where
  "amp_pcm_calibration_put K ctl cal = with_amp (\<lambda>v s. do {
     adi \<leftarrow> pcm_adi ctl v;
     n \<leftarrow> amp_pcm_get_control_value (private_value ctl) adi;
     if n < 0 then Some (n, s)
     else if n > 0 \<and> amp_get_be_adi v (adi_dir adi) = None then Some (- EINVAL, s)
     else do {
       be_idx \<leftarrow> (case amp_get_be_adi v (adi_dir adi) of
          Some be \<Rightarrow> if n > 0 then load (idx_arr be) n else Some (- 1) | None \<Rightarrow> Some (- 1));
       service (agm_session_aif_set_cal (svc_env K) (of_int (private_value ctl)) (of_int be_idx) cal) s }})"

definition amp_pcm_set_acdb_tunnel_put where
  "amp_pcm_set_acdb_tunnel_put K payload s = service (agm_set_params_to_acdb_tunnel (svc_env K) (Some payload)) s"

definition amp_pcm_set_param_put ::
    "'k plugin_env_scheme \<Rightarrow> snd_control \<Rightarrow> param_payload \<Rightarrow> 'z mixer_world_scheme \<Rightarrow> (int \<times> 'z mixer_world_scheme) option" where
  "amp_pcm_set_param_put K ctl t = with_amp (\<lambda>v s. do {
     be \<leftarrow> selected_be ctl v;
     let E = svc_env K;
     let pcm_idx = of_int (private_value ctl);
     case be of Inl ret \<Rightarrow> Some (ret, s)
     | Inr (pcm_control, be_idx) \<Rightarrow>
       already_ok
         (if strstr ''setParamTagACDB'' (ctl_name ctl) \<noteq> None
          then service (agm_set_params_with_tag_to_acdb E pcm_idx (of_int be_idx) (as_acdb_param t)) s
          else if strstr ''setParamTag'' (ctl_name ctl) \<noteq> None
          then service (agm_set_params_with_tag E pcm_idx (of_int be_idx) (as_tag_config t)) s
          else if pcm_control = 0
          then service (agm_session_set_params E pcm_idx (Some (tlv t)) (unat (tlv_length t))) s
          else service (agm_session_aif_set_params E pcm_idx (of_int be_idx) (Some (tlv t)) (unat (tlv_length t))) s) })"

definition amp_pcm_get_param_get ::
    "'k plugin_env_scheme \<Rightarrow> snd_control \<Rightarrow> snd_ctl_tlv \<Rightarrow> 'z mixer_world_scheme \<Rightarrow> (int \<times> 'z mixer_world_scheme) option" where
  "amp_pcm_get_param_get K ctl t = with_amp (\<lambda>v s. do {
     let i = private_value ctl;
     adi \<leftarrow> pcm_adi ctl v;
     pcm_idx \<leftarrow> load (idx_arr adi) i;
     g \<leftarrow> load (get_param_info adi) i;
     case get_param_payload g of None \<Rightarrow> Some (- EINVAL, s)
     | Some bytes \<Rightarrow>
       if unat (tlv_length t) < as_size (get_param_payload_size g) then Some (- EINVAL, s)
       else do {
         payload \<leftarrow> memcpy_at 0 bytes (tlv t);
         p \<leftarrow> memcpy_from (Some payload) (unat (tlv_length t));
         (ret, s) \<leftarrow> already_ok (service (agm_session_get_params (svc_env K) (of_int pcm_idx) p) s);
         gs \<leftarrow> store i \<lparr>get_param_payload = None, get_param_payload_size = 0\<rparr> (get_param_info adi);
         Some (ret, upd_amp (upd_pcm_adi ctl (\<lambda>a. a\<lparr>get_param_info := gs\<rparr>)) s) }})"

definition amp_pcm_get_param_put ::
    "'k client_env_scheme \<Rightarrow> snd_control \<Rightarrow> snd_ctl_tlv \<Rightarrow> 'z mixer_world_scheme \<Rightarrow> (int \<times> 'z mixer_world_scheme) option" where
  "amp_pcm_get_param_put K ctl t = with_amp (\<lambda>v s. do {
     let i = private_value ctl;
     let n = sint (tlv_length t);
     adi \<leftarrow> pcm_adi ctl v;
     (ok, s) \<leftarrow> client_calloc K s;
     bytes \<leftarrow> (if ok then map_option Some (memcpy_from (Some (tlv t)) (as_size n)) else Some None);
     gs \<leftarrow> store i \<lparr>get_param_payload = bytes, get_param_payload_size = n\<rparr> (get_param_info adi);
     Some (if ok then 0 else - ENOMEM, upd_amp (upd_pcm_adi ctl (\<lambda>a. a\<lparr>get_param_info := gs\<rparr>)) s) })"

definition amp_pcm_tag_info_get ::
    "'k plugin_env_scheme \<Rightarrow> snd_control \<Rightarrow> snd_ctl_tlv \<Rightarrow> 'z mixer_world_scheme \<Rightarrow> (int \<times> 'z mixer_world_scheme) option" where
  "amp_pcm_tag_info_get K ctl t = with_amp (\<lambda>v s. do {
     be \<leftarrow> selected_be ctl v;
     case be of Inl ret \<Rightarrow> Some (ret, s)
     | Inr (_, be_idx) \<Rightarrow>
       service (agm_session_aif_get_tag_module_info (svc_env K) (of_int (private_value ctl)) (of_int be_idx)
         (unat (tlv_length t))) s })"

text \<open>The result of the service is only logged.\<close>

definition amp_pcm_loopback_put ::
    "'k plugin_env_scheme \<Rightarrow> snd_control \<Rightarrow> u32 \<Rightarrow> 'z mixer_world_scheme \<Rightarrow> (int \<times> 'z mixer_world_scheme) option" where
  "amp_pcm_loopback_put K ctl item = with_amp (\<lambda>v s. do {
     rx_pcm_idx \<leftarrow> (if item = 0 then Some 0 else load (idx_arr (rx_pcm_devs v)) (uint item));
     (_, s) \<leftarrow> service (agm_session_set_loopback (svc_env K) (of_int (private_value ctl)) (of_int rx_pcm_idx) (item \<noteq> 0)) s;
     Some (0, s) })"

definition amp_pcm_echoref_put ::
    "'k plugin_env_scheme \<Rightarrow> snd_control \<Rightarrow> u32 \<Rightarrow> 'z mixer_world_scheme \<Rightarrow> (int \<times> 'z mixer_world_scheme) option" where
  "amp_pcm_echoref_put K ctl item = with_amp (\<lambda>v s. do {
     be_idx \<leftarrow> load (idx_arr (rx_be_devs v)) (uint item);
     already_ok (service (agm_session_set_ec_ref (svc_env K) (of_int (private_value ctl)) (of_int be_idx) (item \<noteq> 0)) s) })"

definition amp_pcm_write_datapath_params_put where
  "amp_pcm_write_datapath_params_put K ctl buffer s =
     service (agm_session_write_datapath_params (svc_env K) (of_int (private_value ctl)) buffer) s"

definition amp_pcm_flush_put where
  "amp_pcm_flush_put K ctl value s =
     (if value (0 :: nat) \<noteq> (0 :: int) then service (agm_sessionid_flush (svc_env K) (of_int (private_value ctl))) s
      else Some (0, s))"

section \<open>Creation of the controls\<close>

text \<open>The positions of the names.\<close>

abbreviation (input) PCM_CTL_NAME_CONNECT :: nat where "PCM_CTL_NAME_CONNECT \<equiv> 0"
abbreviation (input) PCM_CTL_NAME_DISCONNECT :: nat where "PCM_CTL_NAME_DISCONNECT \<equiv> 1"
abbreviation (input) PCM_CTL_NAME_MTD_CONTROL :: nat where "PCM_CTL_NAME_MTD_CONTROL \<equiv> 2"
abbreviation (input) PCM_CTL_NAME_METADATA :: nat where "PCM_CTL_NAME_METADATA \<equiv> 3"
abbreviation (input) PCM_CTL_NAME_SET_PARAM :: nat where "PCM_CTL_NAME_SET_PARAM \<equiv> 4"
abbreviation (input) PCM_CTL_NAME_SET_PARAM_TAG :: nat where "PCM_CTL_NAME_SET_PARAM_TAG \<equiv> 5"
abbreviation (input) PCM_CTL_NAME_SET_PARAM_TAG_ACDB :: nat where "PCM_CTL_NAME_SET_PARAM_TAG_ACDB \<equiv> 6"
abbreviation (input) PCM_CTL_NAME_GET_TAG_INFO :: nat where "PCM_CTL_NAME_GET_TAG_INFO \<equiv> 7"
abbreviation (input) PCM_CTL_NAME_EVENT :: nat where "PCM_CTL_NAME_EVENT \<equiv> 8"
abbreviation (input) PCM_CTL_NAME_SET_CALIBRATION :: nat where "PCM_CTL_NAME_SET_CALIBRATION \<equiv> 9"
abbreviation (input) PCM_CTL_NAME_GET_PARAM :: nat where "PCM_CTL_NAME_GET_PARAM \<equiv> 10"
abbreviation (input) PCM_CTL_NAME_BUF_INFO :: nat where "PCM_CTL_NAME_BUF_INFO \<equiv> 11"
abbreviation (input) PCM_TX_CTL_NAME_LOOPBACK :: nat where "PCM_TX_CTL_NAME_LOOPBACK \<equiv> 0"
abbreviation (input) PCM_TX_CTL_NAME_ECHOREF :: nat where "PCM_TX_CTL_NAME_ECHOREF \<equiv> 1"
abbreviation (input) PCM_CTL_NAME_BUF_TSTAMP :: nat where "PCM_CTL_NAME_BUF_TSTAMP \<equiv> 2"
abbreviation (input) PCM_RX_CTL_NAME_SIDETONE :: nat where "PCM_RX_CTL_NAME_SIDETONE \<equiv> 0"
abbreviation (input) PCM_RX_CTL_NAME_DATAPATH_PARAMS :: nat where "PCM_RX_CTL_NAME_DATAPATH_PARAMS \<equiv> 1"
abbreviation (input) PCM_RX_CTL_NAME_FLUSH :: nat where "PCM_RX_CTL_NAME_FLUSH \<equiv> 2"
abbreviation (input) STATIC_CTL_SET_ACDB_TUNNEL :: nat where "STATIC_CTL_SET_ACDB_TUNNEL \<equiv> 0"
abbreviation (input) BE_CTL_NAME_MEDIA_CONFIG :: nat where "BE_CTL_NAME_MEDIA_CONFIG \<equiv> 0"
abbreviation (input) BE_CTL_NAME_METADATA :: nat where "BE_CTL_NAME_METADATA \<equiv> 1"
abbreviation (input) BE_CTL_NAME_SET_PARAM :: nat where "BE_CTL_NAME_SET_PARAM \<equiv> 2"
abbreviation (input) BE_GROUP_CTL_NAME_MEDIA_CONFIG :: nat where "BE_GROUP_CTL_NAME_MEDIA_CONFIG \<equiv> 0"

text \<open>\<open>snprintf\<close> into the name of the control, which has \<open>AIF_NAME_MAX_LEN + 16\<close>
  bytes, and the initialisation of the control.\<close>

definition set_ctl ::
    "int \<Rightarrow> string \<Rightarrow> amp_ctl_ops \<Rightarrow> snd_value \<Rightarrow> int \<Rightarrow> amp_list \<Rightarrow> amp_priv \<Rightarrow> amp_priv option" where
  "set_ctl i name ops val pval pdata v = do {
     cs \<leftarrow> store i (Some \<lparr>ctl_name = take (32 + 16 - 1) name, ctl_ops = ops, ctl_value = val,
                         private_value = pval, private_data = pdata\<rparr>) (ctls v);
     Some (v\<lparr>ctls := cs\<rparr>) }"

definition amp_create_connect_ctl where
  "amp_create_connect_ctl pname i e pval pdata v =
     set_ctl i (pname @ '' '' @ amp_pcm_ctl_name_extn ! PCM_CTL_NAME_CONNECT) OPS_PCM_AIF_CONNECT (VALUE_ENUM e) pval pdata v"

definition amp_create_disconnect_ctl where
  "amp_create_disconnect_ctl pname i e pval pdata v =
     set_ctl i (pname @ '' '' @ amp_pcm_ctl_name_extn ! PCM_CTL_NAME_DISCONNECT) OPS_PCM_AIF_CONNECT (VALUE_ENUM e) pval pdata v"

definition amp_create_mtd_control_ctl where
  "amp_create_mtd_control_ctl pname i e pval pdata v =
     set_ctl i (pname @ '' '' @ amp_pcm_ctl_name_extn ! PCM_CTL_NAME_MTD_CONTROL) OPS_PCM_MTD_CONTROL (VALUE_ENUM e) pval pdata v"

definition amp_create_pcm_event_ctl where
  "amp_create_pcm_event_ctl name i pval pdata v =
     set_ctl i (name @ '' '' @ amp_pcm_ctl_name_extn ! PCM_CTL_NAME_EVENT) OPS_PCM_EVENT (VALUE_TLV_BYTES (128 * 1024)) pval pdata v"

definition amp_create_pcm_metadata_ctl where
  "amp_create_pcm_metadata_ctl name i pval pdata v =
     set_ctl i (name @ '' '' @ amp_pcm_ctl_name_extn ! PCM_CTL_NAME_METADATA) OPS_PCM_METADATA (VALUE_TLV_BYTES 1024) pval pdata v"

definition amp_create_pcm_set_param_ctl where
  "amp_create_pcm_set_param_ctl name i pval pdata istagged_setparam is_acdb v =
     (if \<not> istagged_setparam
      then set_ctl i (name @ '' '' @ amp_pcm_ctl_name_extn ! PCM_CTL_NAME_SET_PARAM) OPS_PCM_SET_PARAM
             (VALUE_TLV_BYTES (512 * 1024)) pval pdata v
      else if \<not> is_acdb
      then set_ctl i (name @ '' '' @ amp_pcm_ctl_name_extn ! PCM_CTL_NAME_SET_PARAM_TAG) OPS_PCM_SET_PARAM
             (VALUE_TLV_BYTES (256 * 1024)) pval pdata v
      else set_ctl i (name @ '' '' @ amp_pcm_ctl_name_extn ! PCM_CTL_NAME_SET_PARAM_TAG_ACDB) OPS_PCM_SET_PARAM
             (VALUE_TLV_BYTES (256 * 1024)) pval pdata v)"

definition amp_create_pcm_get_param_ctl where
  "amp_create_pcm_get_param_ctl name i pval pdata v =
     set_ctl i (name @ '' '' @ amp_pcm_ctl_name_extn ! PCM_CTL_NAME_GET_PARAM) OPS_PCM_GET_PARAM (VALUE_TLV_BYTES (128 * 1024)) pval pdata v"

definition amp_create_pcm_get_tag_info_ctl where
  "amp_create_pcm_get_tag_info_ctl name i pval pdata v =
     set_ctl i (name @ '' '' @ amp_pcm_ctl_name_extn ! PCM_CTL_NAME_GET_TAG_INFO) OPS_PCM_TAG_INFO (VALUE_TLV_BYTES 1024) pval pdata v"

definition amp_create_pcm_loopback_ctl where
  "amp_create_pcm_loopback_ctl pname i e pval pdata v =
     set_ctl i (pname @ '' '' @ amp_pcm_tx_ctl_names ! PCM_TX_CTL_NAME_LOOPBACK) OPS_PCM_LOOPBACK (VALUE_ENUM e) pval pdata v"

definition amp_create_pcm_echoref_ctl where
  "amp_create_pcm_echoref_ctl pname i e pval pdata v =
     set_ctl i (pname @ '' '' @ amp_pcm_tx_ctl_names ! PCM_TX_CTL_NAME_ECHOREF) OPS_PCM_ECHOREF (VALUE_ENUM e) pval pdata v"

definition amp_create_pcm_sidetone_ctl where
  "amp_create_pcm_sidetone_ctl pname i e pval pdata v =
     set_ctl i (pname @ '' '' @ amp_pcm_rx_ctl_names ! PCM_RX_CTL_NAME_SIDETONE) OPS_PCM_SIDETONE (VALUE_ENUM e) pval pdata v"

definition amp_create_pcm_calibration_ctl where
  "amp_create_pcm_calibration_ctl name i pval pdata v =
     set_ctl i (name @ '' '' @ amp_pcm_ctl_name_extn ! PCM_CTL_NAME_SET_CALIBRATION) OPS_PCM_CALIBRATION (VALUE_BYTES (512 - 16)) pval pdata v"

definition amp_create_pcm_buf_tstamp_ctl where
  "amp_create_pcm_buf_tstamp_ctl name i pval pdata v =
     set_ctl i (name @ '' '' @ amp_pcm_tx_ctl_names ! PCM_CTL_NAME_BUF_TSTAMP) OPS_PCM_BUF_TSTAMP (VALUE_BYTES (512 - 16)) pval pdata v"

definition amp_create_pcm_bufinfo_ctl where
  "amp_create_pcm_bufinfo_ctl name i pval pdata v =
     set_ctl i (name @ '' '' @ amp_pcm_ctl_name_extn ! PCM_CTL_NAME_BUF_INFO) OPS_PCM_BUF_INFO (VALUE_BYTES (512 - 16)) pval pdata v"

definition amp_create_pcm_write_with_metadata_ctl where
  "amp_create_pcm_write_with_metadata_ctl name i pval pdata v =
     set_ctl i (name @ '' '' @ amp_pcm_rx_ctl_names ! PCM_RX_CTL_NAME_DATAPATH_PARAMS) OPS_PCM_WRITE_DATAPATH_PARAMS (VALUE_BYTES (512 - 16)) pval pdata v"

definition amp_create_pcm_flush_ctl where
  "amp_create_pcm_flush_ctl name i pval pdata v =
     set_ctl i (name @ '' '' @ amp_pcm_rx_ctl_names ! PCM_RX_CTL_NAME_FLUSH) OPS_PCM_FLUSH (VALUE_INTEGER 1 0 1) pval pdata v"

definition amp_create_acdb_tunnel_set_ctl where
  "amp_create_acdb_tunnel_set_ctl i pval pdata v =
     set_ctl i (static_acdb_ctl_name_extn ! STATIC_CTL_SET_ACDB_TUNNEL) OPS_SET_ACDB_TUNNEL
       (VALUE_TLV_BYTES (256 * 1024)) pval pdata v"

definition amp_create_metadata_ctl where
  "amp_create_metadata_ctl name i pval pdata v =
     set_ctl i (name @ '' '' @ amp_be_ctl_name_extn ! BE_CTL_NAME_METADATA) OPS_BE_METADATA (VALUE_TLV_BYTES 1024) pval pdata v"

definition amp_create_media_fmt_ctl where
  "amp_create_media_fmt_ctl name i pval pdata v =
     set_ctl i (name @ '' '' @ amp_be_ctl_name_extn ! BE_CTL_NAME_MEDIA_CONFIG) OPS_BE_MEDIA_FMT (VALUE_INTEGER 4 0 384000) pval pdata v"

definition amp_create_be_set_param_ctl where
  "amp_create_be_set_param_ctl name i pval pdata v =
     set_ctl i (name @ '' '' @ amp_be_ctl_name_extn ! BE_CTL_NAME_SET_PARAM) OPS_BE_SET_PARAM (VALUE_TLV_BYTES (64 * 1024)) pval pdata v"

definition amp_create_group_be_media_fmt_ctl where
  "amp_create_group_be_media_fmt_ctl name i pval pdata v =
     set_ctl i (name @ '' '' @ amp_group_be_ctl_name_extn ! BE_GROUP_CTL_NAME_MEDIA_CONFIG) OPS_GROUP_BE_MEDIA_FMT (VALUE_INTEGER 5 0 384000) pval pdata v"

text \<open>The controls of one back end, from position \<open>ctl_idx\<close>; the name of an entry is
  needed, a NULL name is a trap.\<close>

definition be_ctls :: "amp_list \<Rightarrow> amp_dev_info \<Rightarrow> nat \<Rightarrow> int \<times> amp_priv \<Rightarrow> (int \<times> amp_priv) option" where
  "be_ctls l adi i = (\<lambda>(ctl_idx, v). do {
     n \<leftarrow> load (names adi) (int i);
     name \<leftarrow> n;
     k \<leftarrow> load (idx_arr adi) (int i);
     v \<leftarrow> amp_create_media_fmt_ctl name ctl_idx k l v;
     v \<leftarrow> amp_create_metadata_ctl name (ctl_idx + 1) k l v;
     v \<leftarrow> amp_create_be_set_param_ctl name (ctl_idx + 2) k l v;
     Some (ctl_idx + 3, v) })"

fun ctl_loop :: "(nat \<Rightarrow> int \<times> amp_priv \<Rightarrow> (int \<times> amp_priv) option) \<Rightarrow> nat list \<Rightarrow> int \<times> amp_priv \<Rightarrow> (int \<times> amp_priv) option" where
  "ctl_loop body [] p = Some p"
| "ctl_loop body (i # is) p = do { p \<leftarrow> body i p; ctl_loop body is p }"

definition amp_form_be_ctls :: "int \<Rightarrow> amp_priv \<Rightarrow> (int \<times> amp_priv) option" where
  "amp_form_be_ctls ctl_idx v = do {
     p \<leftarrow> ctl_loop (be_ctls RX_BE_DEVS (rx_be_devs v)) [1..<nat (adi_count (rx_be_devs v))] (ctl_idx, v);
     (_, v) \<leftarrow> ctl_loop (be_ctls TX_BE_DEVS (tx_be_devs v)) [1..<nat (adi_count (tx_be_devs v))] p;
     Some (0, v) }"

definition amp_form_group_be_ctls :: "int \<Rightarrow> amp_priv \<Rightarrow> (int \<times> amp_priv) option" where
  "amp_form_group_be_ctls ctl_idx v = do {
     let gi = group_be_devs v;
     (_, v) \<leftarrow> ctl_loop (\<lambda>i (ctl_idx, v). do {
        name \<leftarrow> load (grp_names gi) (int i);
        k \<leftarrow> load (grp_idx_arr gi) (int i);
        v \<leftarrow> amp_create_group_be_media_fmt_ctl name ctl_idx k GROUP_BE_DEVS v;
        Some (ctl_idx + 1, v) }) [0..<nat (grp_count gi)] (ctl_idx, v);
     Some (0, v) }"

definition common_pcm_ctls :: "amp_list \<Rightarrow> amp_list \<Rightarrow> amp_dev_info \<Rightarrow> nat \<Rightarrow> int \<times> amp_priv \<Rightarrow> (int \<times> amp_priv) option" where
  "common_pcm_ctls l be adi i = (\<lambda>(c, v). do {
     n \<leftarrow> load (names adi) (int i);
     name \<leftarrow> n;
     k \<leftarrow> load (idx_arr adi) (int i);
     v \<leftarrow> amp_create_connect_ctl name c be k l v;
     v \<leftarrow> amp_create_disconnect_ctl name (c + 1) be k l v;
     v \<leftarrow> amp_create_mtd_control_ctl name (c + 2) be (int i) l v;
     v \<leftarrow> amp_create_pcm_metadata_ctl name (c + 3) k l v;
     v \<leftarrow> amp_create_pcm_set_param_ctl name (c + 4) k l False False v;
     v \<leftarrow> amp_create_pcm_set_param_ctl name (c + 5) k l True False v;
     v \<leftarrow> amp_create_pcm_set_param_ctl name (c + 6) k l True True v;
     v \<leftarrow> amp_create_pcm_get_tag_info_ctl name (c + 7) k l v;
     v \<leftarrow> amp_create_pcm_event_ctl name (c + 8) k l v;
     v \<leftarrow> amp_create_pcm_calibration_ctl name (c + 9) k l v;
     v \<leftarrow> amp_create_pcm_get_param_ctl name (c + 10) (int i) l v;
     v \<leftarrow> amp_create_pcm_bufinfo_ctl name (c + 11) k l v;
     Some (c + 12, v) })"

text \<open>When the second allocation fails, the first array is freed but the pointer is kept.\<close>

definition amp_form_common_pcm_ctls ::
    "'k client_env_scheme \<Rightarrow> amp_list \<Rightarrow> amp_list \<Rightarrow> ((amp_dev_info \<Rightarrow> amp_dev_info) \<Rightarrow> amp_priv \<Rightarrow> amp_priv) \<Rightarrow>
       amp_dev_info \<Rightarrow> int \<times> amp_priv \<Rightarrow> 'z client_world_scheme \<Rightarrow> ((int \<times> int \<times> amp_priv) \<times> 'z client_world_scheme) option" where
  "amp_form_common_pcm_ctls K l be upd adi p s =
     (case p of (ctl_idx, v) \<Rightarrow> do {
      let n = nat (adi_count adi);
      (ok, s) \<leftarrow> client_calloc K s;
      if \<not> ok then Some ((- ENOMEM, ctl_idx, v), s) else do {
      (ok, s) \<leftarrow> client_calloc K s;
      if \<not> ok then Some ((- ENOMEM, ctl_idx, upd (\<lambda>a. a\<lparr>mtd_dangling := True\<rparr>) v), s) else do {
      let v = upd (\<lambda>a. a\<lparr>pcm_mtd_ctl := replicate n 0,
                get_param_info := replicate n \<lparr>get_param_payload = None, get_param_payload_size = 0\<rparr>\<rparr>) v;
      (c, v) \<leftarrow> ctl_loop (common_pcm_ctls l be adi) [1..<n] (ctl_idx, v);
      Some ((0, c, v), s) }}})"

definition tx_pcm_ctls :: "amp_dev_info \<Rightarrow> nat \<Rightarrow> int \<times> amp_priv \<Rightarrow> (int \<times> amp_priv) option" where
  "tx_pcm_ctls adi i = (\<lambda>(c, v). do {
     n \<leftarrow> load (names adi) (int i);
     name \<leftarrow> n;
     k \<leftarrow> load (idx_arr adi) (int i);
     v \<leftarrow> amp_create_pcm_loopback_ctl name c RX_PCM_DEVS k TX_PCM_DEVS v;
     v \<leftarrow> amp_create_pcm_echoref_ctl name (c + 1) RX_BE_DEVS k TX_PCM_DEVS v;
     v \<leftarrow> amp_create_pcm_buf_tstamp_ctl name (c + 2) k TX_PCM_DEVS v;
     Some (c + 3, v) })"

definition amp_form_tx_pcm_ctls :: "int \<times> amp_priv \<Rightarrow> (int \<times> amp_priv) option" where
  "amp_form_tx_pcm_ctls p =
     ctl_loop (tx_pcm_ctls (tx_pcm_devs (snd p))) [1..<nat (adi_count (tx_pcm_devs (snd p)))] p"

definition rx_pcm_ctls :: "amp_dev_info \<Rightarrow> nat \<Rightarrow> int \<times> amp_priv \<Rightarrow> (int \<times> amp_priv) option" where
  "rx_pcm_ctls adi i = (\<lambda>(c, v). do {
     n \<leftarrow> load (names adi) (int i);
     name \<leftarrow> n;
     k \<leftarrow> load (idx_arr adi) (int i);
     v \<leftarrow> amp_create_pcm_sidetone_ctl name c TX_BE_DEVS k RX_PCM_DEVS v;
     v \<leftarrow> amp_create_pcm_write_with_metadata_ctl name (c + 1) k RX_PCM_DEVS v;
     v \<leftarrow> amp_create_pcm_flush_ctl name (c + 2) k RX_PCM_DEVS v;
     Some (c + 3, v) })"

definition amp_form_rx_pcm_ctls :: "int \<times> amp_priv \<Rightarrow> (int \<times> amp_priv) option" where
  "amp_form_rx_pcm_ctls p =
     ctl_loop (rx_pcm_ctls (rx_pcm_devs (snd p))) [1..<nat (adi_count (rx_pcm_devs (snd p)))] p"

definition upd_rx_pcm :: "(amp_dev_info \<Rightarrow> amp_dev_info) \<Rightarrow> amp_priv \<Rightarrow> amp_priv" where
  "upd_rx_pcm f v = v\<lparr>rx_pcm_devs := f (rx_pcm_devs v)\<rparr>"

definition upd_tx_pcm :: "(amp_dev_info \<Rightarrow> amp_dev_info) \<Rightarrow> amp_priv \<Rightarrow> amp_priv" where
  "upd_tx_pcm f v = v\<lparr>tx_pcm_devs := f (tx_pcm_devs v)\<rparr>"

definition amp_form_pcm_ctls ::
    "'k client_env_scheme \<Rightarrow> int \<Rightarrow> amp_priv \<Rightarrow> 'z client_world_scheme \<Rightarrow> ((int \<times> amp_priv) \<times> 'z client_world_scheme) option" where
  "amp_form_pcm_ctls K ctl_idx v s = do {
     ((ret, c, v), s) \<leftarrow> amp_form_common_pcm_ctls K RX_PCM_DEVS RX_BE_DEVS upd_rx_pcm (rx_pcm_devs v) (ctl_idx, v) s;
     if ret \<noteq> 0 then Some ((ret, v), s) else do {
     (c, v) \<leftarrow> amp_form_rx_pcm_ctls (c, v);
     ((ret, c, v), s) \<leftarrow> amp_form_common_pcm_ctls K TX_PCM_DEVS TX_BE_DEVS upd_tx_pcm (tx_pcm_devs v) (c, v) s;
     if ret \<noteq> 0 then Some ((ret, v), s) else do {
     (c, v) \<leftarrow> amp_form_tx_pcm_ctls (c, v);
     Some ((0, v), s) }}}"

definition amp_form_acdb_ctls :: "int \<Rightarrow> amp_priv \<Rightarrow> (int \<times> amp_priv) option" where
  "amp_form_acdb_ctls ctl_idx v = do {
     k \<leftarrow> load (idx_arr (acdb_tunnels v)) 0;
     v \<leftarrow> amp_create_acdb_tunnel_set_ctl ctl_idx k ACDB_TUNNELS v;
     Some (0, v) }"

section \<open>Open and close\<close>

text \<open>The list of the tunnel is not freed.\<close>

definition amp_close :: "'k mixer_env_scheme \<Rightarrow> 'z mixer_world_scheme \<Rightarrow> (unit \<times> 'z mixer_world_scheme) option" where
  "amp_close K s =
     (case mplugin s of None \<Rightarrow> None
      | Some p \<Rightarrow> do {
        let v = mx_priv p;
        (_, s) \<leftarrow> (if event_cb v \<noteq> 0 then client_ecall K (CL_MIXER_EVENT_CB (mx_addr p)) s else Some (0, s));
        (_, s) \<leftarrow> amp_register_event_callback K False (mx_addr p) v s;
        (_, s) \<leftarrow> amp_subscribe_events 0 s;
        let s = snd_card_def_put_card (amp_card_node v) s;
        v \<leftarrow> amp_free_pcm_dev_info v;
        let v = amp_free_group_be_dev_info v;
        v \<leftarrow> amp_free_be_dev_info v;
        let v = amp_free_ctls v;
        Some ((), s\<lparr>mplugin := None\<rparr>) })"

text \<open>The controls: allocated, created, and the number of them. The result is 0 or the code that
  leads to the error exit.\<close>

definition amp_form_ctls ::
    "'k client_env_scheme \<Rightarrow> amp_priv \<Rightarrow> 'z client_world_scheme \<Rightarrow> ((bool \<times> amp_priv) \<times> 'z client_world_scheme) option" where
  "amp_form_ctls K v s = do {
     let be_ctl_cnt = amp_get_be_ctl_count v;
     let be_grp_ctl_cnt = amp_get_group_be_ctl_count v;
     let pcm_ctl_cnt = amp_get_pcm_ctl_count v;
     let total_ctl_cnt = be_ctl_cnt + be_grp_ctl_cnt + pcm_ctl_cnt + 1;
     (ok, s) \<leftarrow> callocs_all 2 K s;
     if \<not> ok then Some ((False, v), s) else do {
     let v = v\<lparr>ctls := replicate (nat total_ctl_cnt) None\<rparr>;
     (_, v) \<leftarrow> amp_form_be_ctls 0 v;
     (_, v) \<leftarrow> (if be_grp_ctl_cnt \<noteq> 0 then amp_form_group_be_ctls be_ctl_cnt v else Some (0, v));
     ((ret, v), s) \<leftarrow> amp_form_pcm_ctls K (be_ctl_cnt + be_grp_ctl_cnt) v s;
     if ret \<noteq> 0 then Some ((False, v), s) else do {
     (_, v) \<leftarrow> amp_form_acdb_ctls (be_ctl_cnt + be_grp_ctl_cnt + pcm_ctl_cnt) v;
     Some ((True, if total_ctl_cnt > 0 then v\<lparr>ctl_count := total_ctl_cnt\<rparr> else v), s) }}}"

text \<open>The error exits, from the innermost: each frees what the steps before it made. The flag is
  that of the number of group controls, which is 0 until the controls are counted.\<close>

definition amp_undo_pcm :: "amp_priv \<Rightarrow> bool \<Rightarrow> amp_priv option" where
  "amp_undo_pcm v have_grp = do {
     v \<leftarrow> amp_free_pcm_dev_info v;
     amp_free_be_dev_info (if have_grp then amp_free_group_be_dev_info v else v) }"

definition amp_undo_ctls :: "amp_priv \<Rightarrow> bool \<Rightarrow> amp_priv option" where
  "amp_undo_ctls v have_grp = do {
     v \<leftarrow> amp_free_acdb_dev_info (amp_free_ctls v);
     amp_undo_pcm v have_grp }"

definition amp_build ::
    "'k client_env_scheme \<Rightarrow> amp_priv \<Rightarrow> 'z plugin_world_scheme \<Rightarrow> ((amp_priv option) \<times> 'z plugin_world_scheme) option" where
  "amp_build K v s = do {
     ((ret, v), s) \<leftarrow> amp_get_be_info K v s;
     if ret \<noteq> 0 then Some (None, s) else do {
     ((ret, v), s) \<leftarrow> amp_get_group_be_info K v s;
     if ret \<noteq> 0 then do { _ \<leftarrow> amp_free_be_dev_info v; Some (None, s) } else do {
     ((ret, v), s) \<leftarrow> amp_get_pcm_info K v s;
     if ret \<noteq> 0 then do { _ \<leftarrow> amp_free_be_dev_info v; Some (None, s) } else do {
     ((ret, v), s) \<leftarrow> amp_get_acdb_info K v s;
     if ret \<noteq> 0 then do { _ \<leftarrow> amp_undo_pcm v False; Some (None, s) } else do {
     let have_grp = (amp_get_group_be_ctl_count v \<noteq> 0);
     ((ok, v), s) \<leftarrow> amp_form_ctls K v s;
     if \<not> ok then do { _ \<leftarrow> amp_undo_ctls v have_grp; Some (None, s) }
     else Some (Some v, s) }}}}}"

text \<open>Every failure returns \<open>-ENOMEM\<close>.\<close>

definition agm_mixer_plugin_open ::
    "'k mixer_env_scheme \<Rightarrow> u32 \<Rightarrow> 'z mixer_world_scheme \<Rightarrow> (int \<times> 'z mixer_world_scheme) option" where
  "agm_mixer_plugin_open K cnum s = do {
     (ok, s) \<leftarrow> client_callocs 2 K s;
     if \<not> ok then Some (- ENOMEM, s) else do {
     let self = mixer_addr K (cl_hist s);
     (card_node, s) \<leftarrow> get_card K cnum s;
     case card_node of None \<Rightarrow> Some (- ENOMEM, s)
     | Some c \<Rightarrow> do {
       let v = amp_priv0\<lparr>amp_card := cnum, amp_card_node := card_node, rx_be_devs := dev_info0 RX,
                 tx_be_devs := dev_info0 TX, rx_pcm_devs := dev_info0 RX, tx_pcm_devs := dev_info0 TX\<rparr>;
       (r, s) \<leftarrow> amp_build K v s;
       case r of None \<Rightarrow> Some (- ENOMEM, snd_card_def_put_card card_node s)
       | Some v \<Rightarrow> do {
         (_, s) \<leftarrow> amp_register_event_callback K True self v s;
         Some (0, s\<lparr>mplugin := Some \<lparr>mx_addr = self, subscribed = False, num_controls = ctl_count v, mx_priv = v\<rparr>\<rparr>) }}}}"

end
