(* ===== verification/Mixer_Controls.thy ===== *)
theory Mixer_Controls
  imports Mixer_Plugin Plugin_Properties
begin

text \<open>
  The controls that an open of the mixer plugin creates. \<open>control_list\<close> says which they are, as one list
  made from tables; the code counts them beforehand, allocates one array and fills it with running positions. The
  lemmas show that the array is that list.
\<close>

section \<open>The table of controls\<close>

text \<open>The controls of a mixer as one list: for every back end, group and stream its controls, one after the
  other. Each entry of a table is the end of the name, the functions and the value of a control.\<close>

definition control :: "string \<Rightarrow> amp_ctl_ops \<Rightarrow> snd_value \<Rightarrow> int \<Rightarrow> amp_list \<Rightarrow> snd_control" where
  "control name ops val k l = \<lparr>ctl_name = take 47 name, ctl_ops = ops, ctl_value = val, private_value = k, private_data = l\<rparr>"

definition controls :: "amp_list \<Rightarrow> (string \<times> amp_ctl_ops \<times> snd_value) list \<Rightarrow> amp_dev_info \<Rightarrow> nat \<Rightarrow> snd_control list" where
  "controls l tab adi i =
     map (\<lambda>(x, ops, val). control (the (names adi ! i) @ '' '' @ x) ops val
            (if ops = OPS_PCM_MTD_CONTROL \<or> ops = OPS_PCM_GET_PARAM then int i else idx_arr adi ! i) l) tab"

definition be_table :: "(string \<times> amp_ctl_ops \<times> snd_value) list" where
  "be_table = [(''rate ch fmt'', OPS_BE_MEDIA_FMT, VALUE_INTEGER 4 0 384000),
     (''metadata'', OPS_BE_METADATA, VALUE_TLV_BYTES 1024), (''setParam'', OPS_BE_SET_PARAM, VALUE_TLV_BYTES 65536)]"

definition common_table :: "amp_list \<Rightarrow> (string \<times> amp_ctl_ops \<times> snd_value) list" where
  "common_table be =
     [(''connect'', OPS_PCM_AIF_CONNECT, VALUE_ENUM be), (''disconnect'', OPS_PCM_AIF_CONNECT, VALUE_ENUM be),
      (''control'', OPS_PCM_MTD_CONTROL, VALUE_ENUM be), (''metadata'', OPS_PCM_METADATA, VALUE_TLV_BYTES 1024),
      (''setParam'', OPS_PCM_SET_PARAM, VALUE_TLV_BYTES 524288), (''setParamTag'', OPS_PCM_SET_PARAM, VALUE_TLV_BYTES 262144),
      (''setParamTagACDB'', OPS_PCM_SET_PARAM, VALUE_TLV_BYTES 262144),
      (''getTaggedInfo'', OPS_PCM_TAG_INFO, VALUE_TLV_BYTES 1024), (''event'', OPS_PCM_EVENT, VALUE_TLV_BYTES 131072),
      (''setCalibration'', OPS_PCM_CALIBRATION, VALUE_BYTES 496), (''getParam'', OPS_PCM_GET_PARAM, VALUE_TLV_BYTES 131072),
      (''getBufInfo'', OPS_PCM_BUF_INFO, VALUE_BYTES 496)]"

definition rx_table :: "(string \<times> amp_ctl_ops \<times> snd_value) list" where
  "rx_table = [(''sidetone'', OPS_PCM_SIDETONE, VALUE_ENUM TX_BE_DEVS),
     (''datapathParams'', OPS_PCM_WRITE_DATAPATH_PARAMS, VALUE_BYTES 496), (''flush'', OPS_PCM_FLUSH, VALUE_INTEGER 1 0 1)]"

definition tx_table :: "(string \<times> amp_ctl_ops \<times> snd_value) list" where
  "tx_table = [(''loopback'', OPS_PCM_LOOPBACK, VALUE_ENUM RX_PCM_DEVS), (''echoReference'', OPS_PCM_ECHOREF, VALUE_ENUM RX_BE_DEVS),
     (''bufTimestamp'', OPS_PCM_BUF_TSTAMP, VALUE_BYTES 496)]"

definition group_control :: "amp_be_group_info \<Rightarrow> nat \<Rightarrow> snd_control" where
  "group_control gi i = control (grp_names gi ! i @ '' grp config'') OPS_GROUP_BE_MEDIA_FMT (VALUE_INTEGER 5 0 384000)
     (grp_idx_arr gi ! i) GROUP_BE_DEVS"

definition rows :: "amp_list \<Rightarrow> (string \<times> amp_ctl_ops \<times> snd_value) list \<Rightarrow> amp_dev_info \<Rightarrow> snd_control list" where
  "rows l tab adi = concat (map (controls l tab adi) [1..<nat (adi_count adi)])"

definition be_part :: "amp_priv \<Rightarrow> snd_control list" where
  "be_part v = rows RX_BE_DEVS be_table (rx_be_devs v) @ rows TX_BE_DEVS be_table (tx_be_devs v)"

definition group_part :: "amp_priv \<Rightarrow> snd_control list" where
  "group_part v = map (group_control (group_be_devs v)) [0..<nat (grp_count (group_be_devs v))]"

definition pcm_part :: "amp_priv \<Rightarrow> snd_control list" where
  "pcm_part v =
     rows RX_PCM_DEVS (common_table RX_BE_DEVS) (rx_pcm_devs v) @ rows RX_PCM_DEVS rx_table (rx_pcm_devs v) @
     rows TX_PCM_DEVS (common_table TX_BE_DEVS) (tx_pcm_devs v) @ rows TX_PCM_DEVS tx_table (tx_pcm_devs v)"

definition acdb_part :: "amp_priv \<Rightarrow> snd_control list" where
  "acdb_part v = [control ''setACDBTunnel'' OPS_SET_ACDB_TUNNEL (VALUE_TLV_BYTES 262144) (idx_arr (acdb_tunnels v) ! 0) ACDB_TUNNELS]"

definition control_list :: "amp_priv \<Rightarrow> snd_control list" where
  "control_list v = be_part v @ group_part v @ pcm_part v @ acdb_part v"

section \<open>Building the array\<close>

text \<open>The first controls of the array, and what their creation leaves alone.\<close>

definition holds :: "snd_control list \<Rightarrow> nat \<Rightarrow> amp_priv \<Rightarrow> bool" where
  "holds xs n v \<longleftrightarrow> length (ctls v) = n \<and> length xs \<le> n \<and> take (length xs) (ctls v) = map Some xs"

definition bare :: "amp_dev_info \<Rightarrow> amp_dev_info" where
  "bare a = a\<lparr>pcm_mtd_ctl := [], get_param_info := []\<rparr>"

definition fixed :: "amp_priv \<Rightarrow> amp_priv" where
  "fixed v = v\<lparr>ctls := [], ctl_count := 0, rx_pcm_devs := bare (rx_pcm_devs v), tx_pcm_devs := bare (tx_pcm_devs v)\<rparr>"

lemma fixed_ctls [simp]: "fixed (v\<lparr>ctls := xs\<rparr>) = fixed v" "fixed (v\<lparr>ctl_count := n\<rparr>) = fixed v"
  by (simp_all add: fixed_def)

lemma bare_eq: "bare a = bare b \<Longrightarrow> names a = names b \<and> idx_arr a = idx_arr b \<and> adi_count a = adi_count b"
  by (cases a; cases b) (simp add: bare_def)

lemma fixed_eq:
  assumes "fixed u = fixed v"
  shows "rx_be_devs u = rx_be_devs v" "tx_be_devs u = tx_be_devs v" "group_be_devs u = group_be_devs v"
    "acdb_tunnels u = acdb_tunnels v" "bare (rx_pcm_devs u) = bare (rx_pcm_devs v)" "bare (tx_pcm_devs u) = bare (tx_pcm_devs v)"
    "amp_card_node u = amp_card_node v"
  using assms by (cases u; cases v; simp add: fixed_def)+

lemma rows_bare: "bare a = bare b \<Longrightarrow> rows l tab a = rows l tab b"
  by (drule bare_eq) (simp add: rows_def controls_def [abs_def] cong: if_cong)

lemma parts_fixed:
  assumes "fixed u = fixed v"
  shows "be_part u = be_part v" "group_part u = group_part v" "pcm_part u = pcm_part v" "acdb_part u = acdb_part v"
  using fixed_eq [OF assms] rows_bare [of "rx_pcm_devs u" "rx_pcm_devs v"] rows_bare [of "tx_pcm_devs u" "tx_pcm_devs v"]
  by (simp_all add: be_part_def group_part_def pcm_part_def acdb_part_def)

lemma control_list_fixed: "fixed u = fixed v \<Longrightarrow> control_list u = control_list v"
  by (simp add: control_list_def parts_fixed [of u v])

lemma set_ctl_holds:
  assumes "set_ctl c name ops val k l v = Some u" "holds xs n v" "c = int (length xs)"
  shows "holds (xs @ [control name ops val k l]) n u \<and> fixed u = fixed v"
proof -
  let ?x = "Some (control name ops val k l)"
  have c: "length xs < length (ctls v)" and u: "u = v\<lparr>ctls := (ctls v)[length xs := ?x]\<rparr>"
    using assms(1,3) by (auto simp: set_ctl_def store_def control_def split: if_splits)
  have "take (Suc (length xs)) ((ctls v)[length xs := ?x]) = take (length xs) (ctls v) @ [?x]"
    using c by (simp add: take_Suc_conv_app_nth)
  then show ?thesis using assms(2) c u by (auto simp: holds_def)
qed

lemmas create_defs =
  amp_create_connect_ctl_def amp_create_disconnect_ctl_def amp_create_mtd_control_ctl_def
  amp_create_pcm_event_ctl_def amp_create_pcm_metadata_ctl_def amp_create_pcm_set_param_ctl_def
  amp_create_pcm_get_param_ctl_def amp_create_pcm_get_tag_info_ctl_def amp_create_pcm_loopback_ctl_def
  amp_create_pcm_echoref_ctl_def amp_create_pcm_sidetone_ctl_def amp_create_pcm_calibration_ctl_def
  amp_create_pcm_buf_tstamp_ctl_def amp_create_pcm_bufinfo_ctl_def
  amp_create_pcm_write_with_metadata_ctl_def amp_create_pcm_flush_ctl_def
  amp_create_acdb_tunnel_set_ctl_def amp_create_metadata_ctl_def amp_create_media_fmt_ctl_def
  amp_create_be_set_param_ctl_def amp_create_group_be_media_fmt_ctl_def

text \<open>What holds of a result, if there is one.\<close>

definition post :: "'a option \<Rightarrow> ('a \<Rightarrow> bool) \<Rightarrow> bool" where
  "post m Q \<longleftrightarrow> (\<forall>u. m = Some u \<longrightarrow> Q u)"

lemma post_simps [simp]: "post (Some u) Q \<longleftrightarrow> Q u" "post None Q"
  by (simp_all add: post_def)

lemma postD: "post m Q \<Longrightarrow> m = Some u \<Longrightarrow> Q u"
  by (simp add: post_def)

lemma post_bind: "post m P \<Longrightarrow> (\<And>u. P u \<Longrightarrow> post (f u) Q) \<Longrightarrow> post (Option.bind m f) Q"
  by (cases m) (simp_all add: post_def)

lemma load_nth: "load xs (int i) = Some x \<Longrightarrow> xs ! i = x"
  by (simp add: load_def split: if_splits)

lemma post_value: "(\<And>u. m = Some u \<Longrightarrow> post (f u) Q) \<Longrightarrow> post (Option.bind m f) Q"
  by (cases m) simp_all

lemma post_entry:
  "(\<And>n k. names adi ! i = Some n \<Longrightarrow> idx_arr adi ! i = k \<Longrightarrow> post (f n k) Q) \<Longrightarrow>
     post (do { n \<leftarrow> load (names adi) (int i); name \<leftarrow> n; k \<leftarrow> load (idx_arr adi) (int i); f name k }) Q"
  by (auto simp: post_def bind_eq_Some_conv dest!: load_nth)

lemma post_set_ctl:
  assumes "holds xs n u \<and> fixed u = fixed v" "c = int (length xs)"
    and "\<And>w. holds (xs @ [control name ops val k l]) n w \<and> fixed w = fixed v \<Longrightarrow> post (f w) Q"
  shows "post (Option.bind (set_ctl c name ops val k l u) f) Q"
  by (rule post_value) (use assms set_ctl_holds in metis)

text \<open>\<open>builds ys body\<close>: the body puts the controls \<open>ys\<close> behind those that are there.\<close>

definition built :: "snd_control list \<Rightarrow> nat \<Rightarrow> amp_priv \<Rightarrow> int \<Rightarrow> amp_priv \<Rightarrow> bool" where
  "built xs n v c w \<longleftrightarrow> c = int (length xs) \<and> holds xs n w \<and> fixed w = fixed v"

definition builds :: "snd_control list \<Rightarrow> (int \<times> amp_priv \<Rightarrow> (int \<times> amp_priv) option) \<Rightarrow> bool" where
  "builds ys body \<longleftrightarrow> (\<forall>xs v n c u. built xs n v c u \<longrightarrow> wlp (body (c, u)) (built (xs @ ys) n v))"

lemma post_prod: "post m (\<lambda>(c, w). Q c w) \<longleftrightarrow> wlp m Q"
  by (auto simp: post_def wlp_def)

lemma buildsI:
  assumes "\<And>xs v n u. holds xs n u \<and> fixed u = fixed v \<Longrightarrow>
    post (body (int (length xs), u)) (\<lambda>(c, w). built (xs @ ys) n v c w)"
  shows "builds ys body"
  using assms by (auto simp: builds_def built_def post_prod [symmetric])

lemmas row_defs = controls_def be_table_def common_table_def rx_table_def tx_table_def amp_be_ctl_name_extn_def
  amp_pcm_ctl_name_extn_def amp_pcm_tx_ctl_names_def amp_pcm_rx_ctl_names_def amp_group_be_ctl_name_extn_def
  static_acdb_ctl_name_extn_def

lemma be_ctls_build: "builds (controls l be_table adi i) (be_ctls l adi i)"
  unfolding be_ctls_def create_defs
  by (rule buildsI, unfold prod.case, rule post_entry, (rule post_set_ctl, assumption, simp)+)
    (simp add: row_defs built_def)

lemma common_pcm_ctls_build: "builds (controls l (common_table be) adi i) (common_pcm_ctls l be adi i)"
  unfolding common_pcm_ctls_def create_defs
  by (rule buildsI, unfold prod.case if_True if_False not_True_eq_False not_False_eq_True, rule post_entry,
      (rule post_set_ctl, assumption, simp)+) (simp add: row_defs built_def)

lemma tx_pcm_ctls_build: "builds (controls TX_PCM_DEVS tx_table adi i) (tx_pcm_ctls adi i)"
  unfolding tx_pcm_ctls_def create_defs
  by (rule buildsI, unfold prod.case, rule post_entry, (rule post_set_ctl, assumption, simp)+) (simp add: row_defs built_def)

lemma rx_pcm_ctls_build: "builds (controls RX_PCM_DEVS rx_table adi i) (rx_pcm_ctls adi i)"
  unfolding rx_pcm_ctls_def create_defs
  by (rule buildsI, unfold prod.case, rule post_entry, (rule post_set_ctl, assumption, simp)+) (simp add: row_defs built_def)

lemma group_ctls_build:
  "builds [group_control gi i] (\<lambda>(c, v). do { name \<leftarrow> load (grp_names gi) (int i); k \<leftarrow> load (grp_idx_arr gi) (int i);
     v \<leftarrow> amp_create_group_be_media_fmt_ctl name c k GROUP_BE_DEVS v; Some (c + 1, v) })"
  unfolding create_defs
  by (rule buildsI, unfold prod.case, rule post_value, rule post_value, rule post_set_ctl, assumption)
    (auto simp: row_defs built_def group_control_def dest!: load_nth)

lemma ctl_loop_build:
  assumes "\<And>i. builds (f i) (body i)" "built xs n v c u"
  shows "wlp (ctl_loop body ks (c, u)) (built (xs @ concat (map f ks)) n v)"
  using assms(2)
proof (induction ks arbitrary: xs c u)
  case (Cons i ks)
  have "wlp (body i (c, u)) (built (xs @ f i) n v)" using assms(1) Cons.prems by (simp add: builds_def)
  then show ?case using Cons.IH by (fastforce simp: wlp_simps elim: wlp_mono)
qed (simp add: wlp_simps)

lemma rows_build:
  assumes "\<And>i. builds (controls l tab adi i) (body i)" "built xs n v c u"
  shows "wlp (ctl_loop body [1..<nat (adi_count adi)] (c, u)) (built (xs @ rows l tab adi) n v)"
  unfolding rows_def by (rule ctl_loop_build [OF assms])

lemma form_be_build:
  assumes "built xs n v c u"
  shows "wlp (amp_form_be_ctls c u) (\<lambda>_ w. built (xs @ be_part v) n v (c + int (length (be_part v))) w)"
proof -
  have v: "rx_be_devs u = rx_be_devs v" "tx_be_devs u = tx_be_devs v"
    using fixed_eq assms unfolding built_def by blast+
  have "wlp (ctl_loop (be_ctls RX_BE_DEVS (rx_be_devs v)) [1..<nat (adi_count (rx_be_devs v))] (c, u))
    (\<lambda>a s. wlp (ctl_loop (be_ctls TX_BE_DEVS (tx_be_devs v)) [1..<nat (adi_count (tx_be_devs v))] (a, s))
      (built (xs @ be_part v) n v))"
    unfolding be_part_def append_assoc [symmetric]
    by (rule wlp_mono [OF rows_build [OF be_ctls_build assms]]) (rule rows_build [OF be_ctls_build])
  then show ?thesis
    using assms unfolding amp_form_be_ctls_def v
    by (auto simp: wlp_simps built_def elim!: wlp_mono)
qed

lemma form_group_build:
  assumes "built xs n v c u"
  shows "wlp (amp_form_group_be_ctls c u) (\<lambda>_ w. built (xs @ group_part v) n v (c + int (length (group_part v))) w)"
proof -
  have v: "group_be_devs u = group_be_devs v" using fixed_eq assms unfolding built_def by blast
  show ?thesis
    unfolding amp_form_group_be_ctls_def Let_def v group_part_def
    by (rule wlp_bindI [OF ctl_loop_build [OF group_ctls_build assms]])
      (use assms in \<open>auto simp: wlp_simps built_def concat_map_singleton\<close>)
qed

definition keeps_fixed :: "((amp_dev_info \<Rightarrow> amp_dev_info) \<Rightarrow> amp_priv \<Rightarrow> amp_priv) \<Rightarrow> bool" where
  "keeps_fixed upd \<longleftrightarrow> (\<forall>f x. (\<forall>a. bare (f a) = bare a) \<longrightarrow> fixed (upd f x) = fixed x \<and> ctls (upd f x) = ctls x)"

lemma upd_keeps: "keeps_fixed upd_rx_pcm" "keeps_fixed upd_tx_pcm"
  by (simp_all add: keeps_fixed_def fixed_def upd_rx_pcm_def upd_tx_pcm_def)

lemma form_common_build:
  assumes "built xs n v c u" "keeps_fixed upd"
  shows "wlp (amp_form_common_pcm_ctls K l be upd adi (c, u) s) (\<lambda>(ret, c', w) t. ret = 0 \<longrightarrow>
    built (xs @ rows l (common_table be) adi) n v c' w)"
proof -
  define u' where "u' = upd (\<lambda>a. a\<lparr>pcm_mtd_ctl := replicate (nat (adi_count adi)) 0, get_param_info :=
    replicate (nat (adi_count adi)) \<lparr>get_param_payload = None, get_param_payload_size = 0\<rparr>\<rparr>) u"
  have "built xs n v c u'"
    using assms unfolding u'_def built_def by (simp add: holds_def keeps_fixed_def bare_def)
  then show ?thesis
    using rows_build [OF common_pcm_ctls_build]
    unfolding amp_form_common_pcm_ctls_def Let_def prod.case u'_def [symmetric] by (auto simp: wlp_simps)
qed

lemma form_pcm_build:
  assumes "built xs n v c u"
  shows "wlp (amp_form_pcm_ctls K c u s) (\<lambda>(ret, w) t. ret = 0 \<longrightarrow>
    built (xs @ pcm_part v) n v (c + int (length (pcm_part v))) w)"
proof -
  have rows: "rows l tab (rx_pcm_devs w) = rows l tab (rx_pcm_devs v)" "rows l tab (tx_pcm_devs w) = rows l tab (tx_pcm_devs v)"
    if "built ys m v d w" for ys m d w l tab
    using that fixed_eq(5,6) [of w v] by (auto simp: built_def intro: rows_bare)
  have rx: "wlp (amp_form_rx_pcm_ctls (d, w)) (built (ys @ rows RX_PCM_DEVS rx_table (rx_pcm_devs v)) n v)"
    and tx: "wlp (amp_form_tx_pcm_ctls (d, w)) (built (ys @ rows TX_PCM_DEVS tx_table (tx_pcm_devs v)) n v)"
    if "built ys n v d w" for ys d w
    using rows_build [OF rx_pcm_ctls_build that, of "rx_pcm_devs w"] rows_build [OF tx_pcm_ctls_build that, of "tx_pcm_devs w"]
    by (simp_all add: amp_form_rx_pcm_ctls_def amp_form_tx_pcm_ctls_def rows [OF that])
  have com: "wlp (amp_form_common_pcm_ctls K TX_PCM_DEVS TX_BE_DEVS upd_tx_pcm (tx_pcm_devs w) (d, w) t)
      (\<lambda>(ret, c', x) _. ret = 0 \<longrightarrow> built (ys @ rows TX_PCM_DEVS (common_table TX_BE_DEVS) (tx_pcm_devs v)) n v c' x)"
    if "built ys n v d w" for ys d w t
    using form_common_build [OF that upd_keeps(2), of K TX_PCM_DEVS TX_BE_DEVS "tx_pcm_devs w" t] by (simp add: rows [OF that])
  show ?thesis
    unfolding amp_form_pcm_ctls_def
    apply (rule wlp_bindI [OF form_common_build [OF assms upd_keeps(1)]], clarify, rule inv_if, simp add: wlp_simps)
    apply (rule wlp_bindI [OF rx], simp, simp only: rows [OF assms])
    apply (rule wlp_bindI [OF com], assumption)
    apply (rule inv_case_prod_app, rule inv_case_prod_app, rule inv_if, simp add: wlp_simps)
    apply (rule wlp_bindI [OF tx], simp)
    using assms by (auto simp: wlp_simps pcm_part_def built_def)
qed

lemma form_acdb_build:
  assumes "built xs n v c u"
  shows "wlp (amp_form_acdb_ctls c u) (\<lambda>_ w. built (xs @ acdb_part v) n v (c + 1) w)"
proof -
  have v: "acdb_tunnels u = acdb_tunnels v" using fixed_eq assms unfolding built_def by blast
  show ?thesis
    using assms unfolding amp_form_acdb_ctls_def create_defs v post_prod [symmetric]
    by (intro post_value post_set_ctl [of xs n u v])
      (auto simp: built_def acdb_part_def row_defs load_def split: if_splits)
qed

section \<open>Counts\<close>

lemma callocs_all_frame: "wlp (callocs_all n K s) (\<lambda>_ t. \<exists>h. t = s\<lparr>cl_hist := h\<rparr>)"
proof (induction n arbitrary: s)
  case (Suc n)
  have "\<exists>h. s\<lparr>cl_hist := k\<rparr> = s\<lparr>cl_hist := h\<rparr>" for k by blast
  then show ?case by (auto simp: wlp_simps intro!: wlp_mono [OF Suc])
next
  case 0
  show ?case unfolding callocs_all.simps wlp_Some by (rule exI [of _ "cl_hist s"]) simp
qed


text \<open>The steps of an open before the controls: the allocations are all they do to the world.\<close>

lemma only_hist_callocs_all: "only_hist s t \<Longrightarrow> wlp (callocs_all n K t) (\<lambda>_ u. only_hist s u)"
  by (rule wlp_mono [OF callocs_all_frame]) (auto simp: only_hist_def)

definition info_post ::
    "(amp_priv \<Rightarrow> bool) \<Rightarrow> nat option \<Rightarrow> 'z client_world_scheme \<Rightarrow> int \<times> amp_priv \<Rightarrow> 'z client_world_scheme \<Rightarrow> bool" where
  "info_post P c s r t \<longleftrightarrow> (fst r = 0 \<longrightarrow> P (snd r) \<and> amp_card_node (snd r) = c) \<and> only_hist s t"

lemma info_ret: "only_hist s t \<Longrightarrow> (r = 0 \<Longrightarrow> P w) \<Longrightarrow> (r = 0 \<Longrightarrow> amp_card_node w = c) \<Longrightarrow> wlp (Some ((r, w), t)) (info_post P c s)"
  by (simp add: wlp_simps info_post_def)

lemma info_bind:
  "wlp m (\<lambda>_ u. only_hist s u) \<Longrightarrow> (\<And>r u. only_hist s u \<Longrightarrow> wlp (f r u) Q) \<Longrightarrow> wlp (Option.bind m (case_prod f)) Q"
  by (rule wlp_bindI)

lemmas info_rules = only_hist_refl info_ret info_bind [OF only_hist_client_calloc] info_bind [OF only_hist_callocs_all]
  inv_if inv_case_option inv_case_prod_app inv_case_prod inv_Let inv_bind_value

lemma only_hist_form_common: "only_hist s t \<Longrightarrow> wlp (amp_form_common_pcm_ctls K l be upd adi p t) (\<lambda>_ u. only_hist s u)"
  unfolding amp_form_common_pcm_ctls_def by (intro inv_rules inv_bind_value only_hist_client_calloc)

lemma only_hist_form_pcm: "only_hist s t \<Longrightarrow> wlp (amp_form_pcm_ctls K c u t) (\<lambda>_ u. only_hist s u)"
  unfolding amp_form_pcm_ctls_def by (intro inv_rules inv_bind_value only_hist_form_common)

text \<open>The counts that the code computes are the lengths of the parts; position 0 of every list is taken.\<close>

definition be_counted :: "amp_priv \<Rightarrow> bool" where
  "be_counted v \<longleftrightarrow> 0 < adi_count (rx_be_devs v) \<and> 0 < adi_count (tx_be_devs v) \<and> 0 \<le> grp_count (group_be_devs v)"

definition counted :: "amp_priv \<Rightarrow> bool" where
  "counted v \<longleftrightarrow> be_counted v \<and> 0 < adi_count (rx_pcm_devs v) \<and> 0 < adi_count (tx_pcm_devs v)"

lemma rows_length: "0 < adi_count adi \<Longrightarrow> int (length (rows l tab adi)) = (adi_count adi - 1) * int (length tab)"
  by (simp add: rows_def length_concat comp_def controls_def sum_list_triv of_nat_diff)

lemma part_lengths:
  assumes "counted v"
  shows "amp_get_be_ctl_count v = int (length (be_part v))" "amp_get_group_be_ctl_count v = int (length (group_part v))"
    "amp_get_pcm_ctl_count v = int (length (pcm_part v))"
  using assms
  by (simp_all add: counted_def be_counted_def amp_get_be_ctl_count_def amp_get_group_be_ctl_count_def amp_get_pcm_ctl_count_def
      be_part_def group_part_def pcm_part_def rows_length Let_def row_defs)

definition all_created :: "amp_priv \<Rightarrow> bool" where
  "all_created v \<longleftrightarrow> ctls v = map Some (control_list v) \<and> ctl_count v = int (length (control_list v))"

lemma form_ctls_all:
  assumes "counted v"
  shows "wlp (amp_form_ctls K v s) (\<lambda>(ok, w) t. (ok \<longrightarrow> all_created w \<and> fixed w = fixed v) \<and> only_hist s t)"
proof -
  define n where "n = length (control_list v)"
  define u where "u = v\<lparr>ctls := replicate n None\<rparr>"
  let ?b = "int (length (be_part v))" and ?g = "int (length (group_part v))"
  have n: "?b + ?g + int (length (pcm_part v)) + 1 = int n" "n \<noteq> 0"
    by (simp_all add: n_def control_list_def acdb_part_def)
  have u: "built [] n v 0 u" by (simp add: u_def built_def holds_def)
  have grp: "wlp (if ?g \<noteq> 0 then amp_form_group_be_ctls ?b w else Some (0, w))
      (\<lambda>_ x. built (be_part v @ group_part v) n v (?b + ?g) x)" if "built (be_part v) n v ?b w" for w
    using form_group_build [OF that] that by (auto simp: wlp_simps)
  have fin: "all_created (w\<lparr>ctl_count := int n\<rparr>)" "fixed w = fixed v" if "built (control_list v) n v d w" for d w
  proof -
    show f: "fixed w = fixed v" using that by (simp add: built_def)
    then have "control_list (w\<lparr>ctl_count := int n\<rparr>) = control_list v"
      by (intro control_list_fixed) simp
    then show "all_created (w\<lparr>ctl_count := int n\<rparr>)" using that by (auto simp: all_created_def built_def holds_def n_def)
  qed
  show ?thesis
    unfolding amp_form_ctls_def Let_def part_lengths [OF assms] n(1) nat_int u_def [symmetric]
    apply (rule info_bind [OF only_hist_callocs_all [OF only_hist_refl]], rule inv_if, simp add: wlp_simps)
    apply (rule wlp_bindI [OF form_be_build [OF u]], simp only: append_Nil add_0)
    apply (rule wlp_bindI [OF grp], assumption)
    apply (rule wlp_bindI [OF wlp_conj [OF form_pcm_build only_hist_form_pcm]], assumption, assumption)
    apply (rule inv_case_prod_app, rule inv_if, simp add: wlp_simps)
    apply (rule wlp_bindI [OF form_acdb_build], simp)
    using fin n(2) by (auto simp: wlp_simps control_list_def)
qed

lemma be_names_count: "be_names_loop d i k ls adi = Some (m, adi') \<Longrightarrow> k \<le> m"
  by (induction d i k ls adi rule: be_names_loop.induct) (fastforce simp: bind_eq_Some_conv split: if_splits)+

lemma copy_be_names_count: "post (amp_copy_be_names_from_aif_list l d adi) (\<lambda>a. 0 < adi_count a)"
  by (auto simp: post_def amp_copy_be_names_from_aif_list_def bind_eq_Some_conv dest!: be_names_count)

lemma pcm_loop_count: "pcm_info_loop dname nodes val k adi s = Some (0, adi') \<Longrightarrow> k \<le> adi_count adi'"
proof (induction dname nodes val k adi s rule: pcm_info_loop.induct)
  case (2 dname node nodes val k adi s)
  then show ?case by (fastforce simp: bind_eq_Some_conv split: if_splits option.splits)
qed auto

lemma create_pcm_info_count: "post (amp_create_pcm_info_from_card adi dname nodes s) (\<lambda>(ret, a). ret = 0 \<longrightarrow> 0 < adi_count a)"
  by (auto simp: post_def amp_create_pcm_info_from_card_def bind_eq_Some_conv dest!: pcm_loop_count)

lemma get_be_info_counts:
  assumes "grp_count (group_be_devs v) = 0" "amp_card_node v = c"
  shows "wlp (amp_get_be_info K v s) (info_post be_counted c s)"
  unfolding amp_get_be_info_def
  by (intro info_rules) (use assms in \<open>auto simp: be_counted_def agm_get_aif_info_list_def dest!: postD [OF copy_be_names_count]\<close>)

lemma get_group_be_info_counts:
  assumes "be_counted v" "amp_card_node v = c"
  shows "wlp (amp_get_group_be_info K v s) (info_post be_counted c s)"
  unfolding amp_get_group_be_info_def
  by (intro info_rules) (use assms in \<open>auto simp: be_counted_def agm_get_group_aif_info_list_def amp_copy_group_be_names_from_aif_list_def\<close>)

lemma get_pcm_info_counts:
  assumes "be_counted v" "amp_card_node v = c"
  shows "wlp (amp_get_pcm_info K v s) (info_post counted c s)"
  unfolding amp_get_pcm_info_def
  by (intro info_rules) (use assms in \<open>auto simp: counted_def be_counted_def dest!: postD [OF create_pcm_info_count]\<close>)

lemma get_acdb_info_counts:
  assumes "counted v" "amp_card_node v = c"
  shows "wlp (amp_get_acdb_info K v s) (info_post counted c s)"
  unfolding amp_get_acdb_info_def
  by (intro info_rules) (use assms in \<open>auto simp: counted_def be_counted_def\<close>)

lemma counted_fixed: "fixed u = fixed v \<Longrightarrow> counted u = counted v"
  using fixed_eq [of u v] bare_eq [of "rx_pcm_devs u" "rx_pcm_devs v"] bare_eq [of "tx_pcm_devs u" "tx_pcm_devs v"]
  by (simp add: counted_def be_counted_def)

text \<open>What an open builds.\<close>

definition build_post :: "nat option \<Rightarrow> 'z client_world_scheme \<Rightarrow> amp_priv option \<Rightarrow> 'z client_world_scheme \<Rightarrow> bool" where
  "build_post c s r t \<longleftrightarrow> only_hist s t \<and> (\<forall>v. r = Some v \<longrightarrow> counted v \<and> all_created v \<and> amp_card_node v = c)"

lemma build_fail: "only_hist s t \<Longrightarrow> wlp (do { _ \<leftarrow> m; Some (None, t) }) (build_post c s)"
  by (cases m) (simp_all add: wlp_simps build_post_def)

lemma build_step:
  assumes "\<And>t. wlp (m t) (info_post P c t)" "only_hist s t"
    "\<And>ret v u. only_hist s u \<Longrightarrow> (ret = 0 \<Longrightarrow> P v \<and> amp_card_node v = c) \<Longrightarrow> wlp (f (ret, v) u) (build_post c s)"
  shows "wlp (Option.bind (m t) (case_prod f)) (build_post c s)"
  by (rule wlp_bindI [OF assms(1)]) (use assms(2,3) in \<open>auto simp: info_post_def split_paired_all dest: only_hist_trans\<close>)

lemma build_last:
  assumes "counted v" "amp_card_node v = c" "only_hist s t"
  shows "wlp (do { ((ok, v), u) \<leftarrow> amp_form_ctls K v t; if \<not> ok then do { _ \<leftarrow> m v; Some (None, u) } else Some (Some v, u) })
    (build_post c s)"
proof (rule wlp_bindI [OF form_ctls_all [OF assms(1)]], goal_cases)
  case (1 r u)
  obtain ok w where r: "r = (ok, w)" by (cases r)
  have u: "only_hist s u" using 1 assms(3) r by (auto dest: only_hist_trans)
  show ?case
  proof (cases ok)
    case True
    then show ?thesis using 1 u assms counted_fixed [of w v] fixed_eq(7) [of w v] by (simp add: r wlp_simps build_post_def)
  next
    case False
    then show ?thesis using build_fail [OF u, of "m w"] by (simp add: r)
  qed
qed

lemma build_all:
  assumes "grp_count (group_be_devs v) = 0" "amp_card_node v = c"
  shows "wlp (amp_build K v s) (build_post c s)"
  unfolding amp_build_def
  apply (rule build_step [OF get_be_info_counts [OF assms] only_hist_refl], unfold prod.case, rule inv_if)
  apply (simp add: wlp_simps build_post_def)
  apply (rule build_step [OF get_group_be_info_counts], simp, simp, assumption, unfold prod.case, rule inv_if, erule build_fail)
  apply (rule build_step [OF get_pcm_info_counts], simp, simp, assumption, unfold prod.case, rule inv_if, erule build_fail)
  apply (rule build_step [OF get_acdb_info_counts], simp, simp, assumption, unfold prod.case, rule inv_if, erule build_fail)
  by (rule inv_Let, rule build_last) simp_all

end
