(* ===== verification/Mixer_Plugin_Properties.thy ===== *)
theory Mixer_Plugin_Properties
  imports Mixer_Controls Scenario "HOL-Library.Sublist"
begin

text \<open>
  Properties of the mixer plugin: the controls and the reference to the card over the whole life of a mixer, the
  order in which events reach the client, the functions that tell their controls apart by name, and reads of events.
\<close>

section \<open>The calls of a client\<close>

datatype mixer_op =
    PUT_BE_MEDIA_FMT snd_control "nat \<Rightarrow> int" | PUT_GROUP_MEDIA_FMT snd_control "nat \<Rightarrow> int"
  | PUT_BE_METADATA snd_control "snd_ctl_tlv option" | PUT_BE_PARAM snd_control snd_ctl_tlv
  | PUT_CONNECT snd_control u32 | GET_CONTROL snd_control | PUT_CONTROL snd_control u32
  | GET_EVENT snd_control u32 | PUT_EVENT snd_control u32 agm_event_reg_cfg
  | PUT_METADATA snd_control snd_ctl_tlv | GET_TSTAMP snd_control | PUT_CALIBRATION snd_control agm_key_vector_gsl
  | PUT_ACDB_TUNNEL agm_acdb_tunnel_param | PUT_PARAM snd_control param_payload
  | GET_PARAM snd_control snd_ctl_tlv | PUT_GET_PARAM snd_control snd_ctl_tlv | GET_TAG_INFO snd_control snd_ctl_tlv
  | PUT_LOOPBACK snd_control u32 | PUT_ECHOREF snd_control u32 | PUT_DATAPATH snd_control agm_buff
  | PUT_FLUSH snd_control "nat \<Rightarrow> int" | GET_BUF_INFO snd_control agm_buf_info
  | READ_EVENT "string option list" nat | SUBSCRIBE u64 | EVENT event_params_node

abbreviation no_event :: "('r \<times> 's) option \<Rightarrow> (event_params_node option \<times> 's) option" where
  "no_event m \<equiv> result_of (\<lambda>_. None) m"

text \<open>A call, and the event that it gives to the client.\<close>

fun mixer_exec :: "mixer_env \<Rightarrow> mixer_op \<Rightarrow> mixer_world \<Rightarrow> (event_params_node option \<times> mixer_world) option" where
  "mixer_exec K (PUT_BE_MEDIA_FMT c x) s = no_event (amp_be_media_fmt_put c x s)"
| "mixer_exec K (PUT_GROUP_MEDIA_FMT c x) s = no_event (amp_group_be_media_fmt_put c x s)"
| "mixer_exec K (PUT_BE_METADATA c x) s = no_event (amp_be_metadata_put K c x s)"
| "mixer_exec K (PUT_BE_PARAM c x) s = no_event (amp_be_set_param_put K c x s)"
| "mixer_exec K (PUT_CONNECT c i) s = no_event (amp_pcm_aif_connect_put K c i s)"
| "mixer_exec K (GET_CONTROL c) s = no_event (amp_pcm_mtd_control_get c s)"
| "mixer_exec K (PUT_CONTROL c i) s = no_event (amp_pcm_mtd_control_put c i s)"
| "mixer_exec K (GET_EVENT c n) s = result_of snd (amp_pcm_event_get K c n s)"
| "mixer_exec K (PUT_EVENT c n x) s = no_event (amp_pcm_event_put K c n x s)"
| "mixer_exec K (PUT_METADATA c x) s = no_event (amp_pcm_metadata_put K c x s)"
| "mixer_exec K (GET_TSTAMP c) s = no_event (amp_pcm_buf_tstamp_get K c s)"
| "mixer_exec K (PUT_CALIBRATION c x) s = no_event (amp_pcm_calibration_put K c x s)"
| "mixer_exec K (PUT_ACDB_TUNNEL x) s = no_event (amp_pcm_set_acdb_tunnel_put K x s)"
| "mixer_exec K (PUT_PARAM c x) s = no_event (amp_pcm_set_param_put K c x s)"
| "mixer_exec K (GET_PARAM c x) s = no_event (amp_pcm_get_param_get K c x s)"
| "mixer_exec K (PUT_GET_PARAM c x) s = no_event (amp_pcm_get_param_put K c x s)"
| "mixer_exec K (GET_TAG_INFO c x) s = no_event (amp_pcm_tag_info_get K c x s)"
| "mixer_exec K (PUT_LOOPBACK c i) s = no_event (amp_pcm_loopback_put K c i s)"
| "mixer_exec K (PUT_ECHOREF c i) s = no_event (amp_pcm_echoref_put K c i s)"
| "mixer_exec K (PUT_DATAPATH c x) s = no_event (amp_pcm_write_datapath_params_put K c x s)"
| "mixer_exec K (PUT_FLUSH c x) s = no_event (amp_pcm_flush_put K c x s)"
| "mixer_exec K (GET_BUF_INFO c x) s = no_event (amp_pcm_buf_info_get K c x s)"
| "mixer_exec K (READ_EVENT buf n) s = no_event (amp_read_event K buf n s)"
| "mixer_exec K (SUBSCRIBE cb) s = no_event (amp_subscribe_events cb s)"
| "mixer_exec K (EVENT e) s = no_event (amp_event_cb K e s)"

lemma inv_case_sum:
  assumes "\<And>y. x = Inl y \<Longrightarrow> wlp (f y) Q" and "\<And>y. x = Inr y \<Longrightarrow> wlp (g y) Q"
  shows "wlp (case x of Inl y \<Rightarrow> f y | Inr y \<Rightarrow> g y) Q"
  using assms by (cases x) simp_all

lemma inv_with_amp: "(\<And>p. mplugin s = Some p \<Longrightarrow> wlp (f (mx_priv p) s) Q) \<Longrightarrow> wlp (with_amp f s) Q"
  by (simp add: with_amp_def wlp_simps split: option.split)

text \<open>An invariant that does not look at what the controls hold. The calls that do not deal with events keep it.\<close>

definition about_events :: "mixer_op \<Rightarrow> bool" where
  "about_events x \<longleftrightarrow> (case x of GET_EVENT _ _ \<Rightarrow> True | READ_EVENT _ _ \<Rightarrow> True | SUBSCRIBE _ \<Rightarrow> True | EVENT _ \<Rightarrow> True | _ \<Rightarrow> False)"

locale mixer_invariant =
  fixes I :: "mixer_world \<Rightarrow> bool"
  assumes svc: "I s \<Longrightarrow> I (s\<lparr>svc := w\<rparr>)"
    and hist: "I s \<Longrightarrow> I (s\<lparr>cl_hist := h\<rparr>)"
    and upd: "I s \<Longrightarrow> (\<And>v. fixed (f v) = fixed v \<and> ctls (f v) = ctls v \<and> ctl_count (f v) = ctl_count v) \<Longrightarrow> I (upd_amp f s)"
begin

lemma service: "I s \<Longrightarrow> wlp (service f s) (\<lambda>_ t. I t)"
  unfolding wlp_service by (rule wlpI) (rule svc)

lemma ecall: "I s \<Longrightarrow> wlp (client_ecall K c s) (\<lambda>_ t. I t)"
  by (simp add: wlp_simps hist)

lemma calloc: "I s \<Longrightarrow> wlp (client_calloc K s) (\<lambda>_ t. I t)"
  by (simp add: wlp_simps hist)

lemma upd_adi: "I s \<Longrightarrow> (\<And>a. bare (f a) = bare a) \<Longrightarrow> I (upd_amp (upd_pcm_adi ctl f) s)"
  by (rule upd) (simp_all add: upd_pcm_adi_def fixed_def split: amp_list.split)

lemmas rules = inv_with_amp inv_rules inv_case_sum inv_bind_value service ecall calloc wlp_already upd_adi

lemma plain_calls:
  assumes "I s"
  shows "wlp (amp_be_media_fmt_put c x s) (\<lambda>_ t. I t)" "wlp (amp_group_be_media_fmt_put c x s) (\<lambda>_ t. I t)"
    "wlp (amp_be_set_param_put K c y s) (\<lambda>_ t. I t)" "wlp (amp_pcm_buf_tstamp_get K c s) (\<lambda>_ t. I t)"
    "wlp (amp_pcm_set_acdb_tunnel_put K z s) (\<lambda>_ t. I t)" "wlp (amp_pcm_write_datapath_params_put K c b s) (\<lambda>_ t. I t)"
    "wlp (amp_pcm_buf_info_get K c bi s) (\<lambda>_ t. I t)"
  unfolding amp_be_media_fmt_put_def amp_group_be_media_fmt_put_def amp_be_set_param_put_def amp_pcm_buf_tstamp_get_def
    amp_pcm_set_acdb_tunnel_put_def amp_pcm_write_datapath_params_put_def amp_pcm_buf_info_get_def
  by (rule service, rule assms)+

lemma be_metadata: "I s \<Longrightarrow> wlp (amp_be_metadata_put K c x s) (\<lambda>_ t. I t)"
  unfolding amp_be_metadata_put_def by (intro rules)

lemma connect: "I s \<Longrightarrow> wlp (amp_pcm_aif_connect_put K c i s) (\<lambda>_ t. I t)"
  unfolding amp_pcm_aif_connect_put_def by (intro rules)

lemma control_get: "I s \<Longrightarrow> wlp (amp_pcm_mtd_control_get c s) (\<lambda>_ t. I t)"
  unfolding amp_pcm_mtd_control_get_def by (intro rules)

lemma control_put: "I s \<Longrightarrow> wlp (amp_pcm_mtd_control_put c i s) (\<lambda>_ t. I t)"
  unfolding amp_pcm_mtd_control_put_def by (intro rules) (simp_all add: bare_def)

lemma event_put: "I s \<Longrightarrow> wlp (amp_pcm_event_put K c n x s) (\<lambda>_ t. I t)"
  unfolding amp_pcm_event_put_def by (intro rules)

lemma metadata: "I s \<Longrightarrow> wlp (amp_pcm_metadata_put K c x s) (\<lambda>_ t. I t)"
  unfolding amp_pcm_metadata_put_def by (intro rules)

lemma calibration: "I s \<Longrightarrow> wlp (amp_pcm_calibration_put K c x s) (\<lambda>_ t. I t)"
  unfolding amp_pcm_calibration_put_def by (intro rules)

lemma set_param: "I s \<Longrightarrow> wlp (amp_pcm_set_param_put K c x s) (\<lambda>_ t. I t)"
  unfolding amp_pcm_set_param_put_def by (intro rules)

lemma get_param_get: "I s \<Longrightarrow> wlp (amp_pcm_get_param_get K c x s) (\<lambda>_ t. I t)"
  unfolding amp_pcm_get_param_get_def by (intro rules) (simp_all add: bare_def)

lemma get_param_put: "I s \<Longrightarrow> wlp (amp_pcm_get_param_put K c x s) (\<lambda>_ t. I t)"
  unfolding amp_pcm_get_param_put_def by (intro rules) (simp_all add: bare_def)

lemma tag_info: "I s \<Longrightarrow> wlp (amp_pcm_tag_info_get K c x s) (\<lambda>_ t. I t)"
  unfolding amp_pcm_tag_info_get_def by (intro rules)

lemma loopback: "I s \<Longrightarrow> wlp (amp_pcm_loopback_put K c i s) (\<lambda>_ t. I t)"
  unfolding amp_pcm_loopback_put_def by (intro rules)

lemma echoref: "I s \<Longrightarrow> wlp (amp_pcm_echoref_put K c i s) (\<lambda>_ t. I t)"
  unfolding amp_pcm_echoref_put_def by (intro rules)

lemma flush: "I s \<Longrightarrow> wlp (amp_pcm_flush_put K c x s) (\<lambda>_ t. I t)"
  unfolding amp_pcm_flush_put_def by (intro rules)

lemmas calls = plain_calls be_metadata connect control_get control_put event_put metadata calibration set_param get_param_get
  get_param_put tag_info loopback echoref flush

lemma exec: "I s \<Longrightarrow> \<not> about_events x \<Longrightarrow> wlp (mixer_exec K x s) (\<lambda>_ t. I t)"
  by (cases x; simp only: mixer_exec.simps wlp_result_of about_events_def mixer_op.case simp_thms; erule calls)

end

section \<open>The queue of events\<close>

definition queue_is :: "event_params_node list \<Rightarrow> mixer_world \<Rightarrow> bool" where
  "queue_is q s \<longleftrightarrow> (\<exists>p. mplugin s = Some p \<and> events_paramlist (mx_priv p) = q)"

lemma queue_is_frame [simp]: "queue_is q (s\<lparr>svc := w\<rparr>) = queue_is q s" "queue_is q (s\<lparr>cl_hist := h\<rparr>) = queue_is q s"
  by (simp_all add: queue_is_def)

lemma queue_is_upd:
  "queue_is q s \<Longrightarrow> (\<And>v. events_paramlist (f v) = g (events_paramlist v)) \<Longrightarrow> queue_is (g q) (upd_amp f s)"
  by (auto simp: queue_is_def upd_amp_def)

lemma fixed_queue: "fixed u = fixed v \<Longrightarrow> events_paramlist u = events_paramlist v"
  by (cases u; cases v) (simp add: fixed_def)

interpretation queue: mixer_invariant "queue_is q" for q
proof (unfold_locales, goal_cases)
  case (3 s f)
  have "events_paramlist (f v) = id (events_paramlist v)" for v using 3(2) [of v] fixed_queue [of "f v" v] by simp
  then show ?case using queue_is_upd [of q s f id] 3(1) by simp
qed simp_all

text \<open>The callback of the service queues an event that a stream of the mixer belongs to, if there is memory for it.\<close>

definition arrives :: "mixer_env \<Rightarrow> event_params_node \<Rightarrow> mixer_world \<Rightarrow> bool" where
  "arrives K e s \<longleftrightarrow> (case mplugin s of None \<Rightarrow> False
     | Some p \<Rightarrow> subscribed p \<and> (stream_name (en_session_id e) (rx_pcm_devs (mx_priv p)) \<noteq> None
         \<or> stream_name (en_session_id e) (tx_pcm_devs (mx_priv p)) \<noteq> None) \<and> cl_ret K (cl_hist s) CL_CALLOC = 0)"

fun arrivals :: "mixer_env \<Rightarrow> mixer_op \<Rightarrow> mixer_world \<Rightarrow> event_params_node list" where
  "arrivals K (EVENT e) s = (if arrives K e s then [e] else [])"
| "arrivals K _ s = []"

lemma event_cb_queue:
  assumes "queue_is q s"
  shows "wlp (amp_event_cb K e s) (\<lambda>_ t. queue_is (q @ (if arrives K e s then [e] else [])) t)"
proof -
  obtain p where p: "mplugin s = Some p" "events_paramlist (mx_priv p) = q" using assms by (auto simp: queue_is_def)
  show ?thesis
    by (auto simp: amp_event_cb_def amp_add_event_params_def p arrives_def wlp_simps Let_def queue_is_def upd_amp_def
        split: option.split)
qed

lemma take_event_filter:
  "(case take_event k es of None \<Rightarrow> filter (\<lambda>e. en_session_id e = k) es = []
    | Some (x, xs) \<Rightarrow> en_session_id x = k \<and> (\<forall>j. filter (\<lambda>e. en_session_id e = j) es
        = (if j = k then [x] else []) @ filter (\<lambda>e. en_session_id e = j) xs))"
  by (induction es) (auto split: option.splits)

definition of_session :: "u32 \<Rightarrow> event_params_node list \<Rightarrow> event_params_node list" where
  "of_session k = filter (\<lambda>e. en_session_id e = k)"

lemma of_session_append [simp]: "of_session k [] = []" "of_session k (xs @ ys) = of_session k xs @ of_session k ys"
  by (simp_all add: of_session_def)

fun deliveries :: "mixer_op \<Rightarrow> event_params_node option \<Rightarrow> (snd_control \<times> event_params_node) list" where
  "deliveries (GET_EVENT c n) (Some e) = [(c, e)]"
| "deliveries _ _ = []"

text \<open>The calls of a client and the events of the service in any order, until the client ends its
  subscription: the events that arrived, and those that were given to a control.\<close>

inductive mixer_run ::
    "mixer_env \<Rightarrow> mixer_world \<Rightarrow> event_params_node list \<Rightarrow> (snd_control \<times> event_params_node) list \<Rightarrow> mixer_world \<Rightarrow> bool"
  for K s where
  run_start: "mixer_run K s [] [] s"
| run_step: "mixer_run K s ins outs t \<Longrightarrow> x \<noteq> SUBSCRIBE 0 \<Longrightarrow> mixer_exec K x t = Some (r, u) \<Longrightarrow>
    mixer_run K s (ins @ arrivals K x t) (outs @ deliveries x r) u"

definition queue_step :: "mixer_env \<Rightarrow> mixer_op \<Rightarrow> mixer_world \<Rightarrow> event_params_node list \<Rightarrow> event_params_node option \<Rightarrow> mixer_world \<Rightarrow> bool" where
  "queue_step K x s q r t \<longleftrightarrow> (\<exists>q'. queue_is q' t
     \<and> (\<forall>k. of_session k (q @ arrivals K x s) = of_session k (map snd (deliveries x r)) @ of_session k q')
     \<and> (\<forall>(c, e) \<in> set (deliveries x r). en_session_id e = of_int (private_value c)))"

lemma event_get_queue:
  assumes "queue_is q s"
  shows "wlp (amp_pcm_event_get K c n s) (\<lambda>r t. queue_step K (GET_EVENT c n) s q (snd r) t)"
proof -
  obtain p where p: "mplugin s = Some p" "events_paramlist (mx_priv p) = q" using assms by (auto simp: queue_is_def)
  have none: "queue_step K (GET_EVENT c m) s q None s" for m using assms by (auto simp: queue_step_def)
  have some: "queue_step K (GET_EVENT c n) s q (Some e) (upd_amp (\<lambda>v. v\<lparr>events_paramlist := es\<rparr>) s)"
    if "take_event (of_int (private_value c)) q = Some (e, es)" for e es
    using take_event_filter [of "of_int (private_value c)" q] that p
    by (auto simp: queue_step_def queue_is_def upd_amp_def of_session_def)
  show ?thesis
    by (auto simp: amp_pcm_event_get_def with_amp_def p wlp_simps none some split: option.split)
qed

lemma quiet_queue:
  assumes "wlp (mixer_exec K x s) (\<lambda>_ t. queue_is q t)" "\<forall>e. x \<noteq> EVENT e" "\<forall>c n. x \<noteq> GET_EVENT c n"
  shows "wlp (mixer_exec K x s) (queue_step K x s q)"
proof -
  have "arrivals K x s = []" "deliveries x r = []" for r using assms(2,3) by (cases x; simp)+
  then show ?thesis using assms(1) by (auto simp: queue_step_def elim!: wlp_mono)
qed

lemma exec_queue:
  assumes "queue_is q s" "x \<noteq> SUBSCRIBE 0"
  shows "wlp (mixer_exec K x s) (queue_step K x s q)"
proof (cases "about_events x")
  case False
  then show ?thesis using queue.exec [OF assms(1) False] by (intro quiet_queue) (auto simp: about_events_def)
next
  case True
  consider (get) c n where "x = GET_EVENT c n" | (event) e where "x = EVENT e" | (read) b n where "x = READ_EVENT b n"
    | (sub) cb where "x = SUBSCRIBE cb" "cb \<noteq> 0"
    using True assms(2) by (cases x) (auto simp: about_events_def)
  then show ?thesis
  proof cases
    case get
    then show ?thesis using event_get_queue [OF assms(1)] by (simp add: wlp_result_of)
  next
    case event
    then show ?thesis using event_cb_queue [OF assms(1), of K e] by (auto simp: wlp_result_of queue_step_def elim!: wlp_mono)
  next
    case read
    have "wlp (mixer_exec K x s) (\<lambda>_ t. queue_is q t)"
      unfolding read mixer_exec.simps wlp_result_of amp_read_event_def
      by (intro queue.rules) (use assms(1) queue_is_upd [of q s _ id] in auto)
    then show ?thesis by (rule quiet_queue) (simp_all add: read)
  next
    case sub
    have "wlp (mixer_exec K x s) (\<lambda>_ t. queue_is q t)"
      unfolding sub mixer_exec.simps wlp_result_of amp_subscribe_events_def
      by (intro queue.rules) (use assms(1) queue_is_upd [of q s _ id] sub in \<open>auto simp: Let_def\<close>)
    then show ?thesis by (rule quiet_queue) (simp_all add: sub)
  qed
qed

text \<open>\<^bold>\<open>C28.\<close> Events reach the client in order: whatever calls and events come in between, the events of a session that
  were given to the client, followed by those still in the queue, are the events of the session that arrived; and an
  event is only given to the control of its session.\<close>

theorem event_fifo:
  assumes "mixer_run K s ins outs t" "queue_is [] s"
  shows "\<exists>q. queue_is q t \<and> (\<forall>k. of_session k ins = of_session k (map snd outs) @ of_session k q)
    \<and> (\<forall>(c, e) \<in> set outs. en_session_id e = of_int (private_value c))"
  using assms
proof (induction rule: mixer_run.induct)
  case (run_step ins outs t x r u)
  then obtain q where q: "queue_is q t" "\<And>k. of_session k ins = of_session k (map snd outs) @ of_session k q"
    "\<forall>(c, e) \<in> set outs. en_session_id e = of_int (private_value c)" by auto
  have "queue_step K x t q r u" using wlpD [OF exec_queue [OF q(1) run_step.hyps(2)] run_step.hyps(3)] .
  then show ?case using q(2,3) by (fastforce simp: queue_step_def)
qed auto

section \<open>The controls over the life of a mixer\<close>

definition mx_card :: "mixer_world \<Rightarrow> nat option" where
  "mx_card s = Option.bind (mplugin s) (\<lambda>p. amp_card_node (mx_priv p))"

definition complete :: "mixer_plugin \<Rightarrow> bool" where
  "complete p \<longleftrightarrow> all_created (mx_priv p) \<and> num_controls p = ctl_count (mx_priv p)"

definition mixer_ok :: "mixer_env \<Rightarrow> mixer_world \<Rightarrow> bool" where
  "mixer_ok K s \<longleftrightarrow> cards_ok s \<and> (\<exists>es. card_def_file K = Some (es, True))
     \<and> (\<forall>p. mplugin s = Some p \<longrightarrow> complete p \<and> (\<exists>a. mx_card s = Some a \<and> a \<in> set (snd_card_list s)))"

text \<open>One open mixer and its card.\<close>

definition open_with :: "mixer_env \<Rightarrow> nat \<Rightarrow> (nat \<Rightarrow> int) \<Rightarrow> mixer_world \<Rightarrow> bool" where
  "open_with K a R s \<longleftrightarrow> mixer_ok K s \<and> mx_card s = Some a \<and> card_refs s = R"

lemma refs_mplugin [simp]:
  "cards_ok (s\<lparr>mplugin := q\<rparr>) = cards_ok s" "card_refs (s\<lparr>mplugin := q\<rparr>) = card_refs s"
  "cards_ok (upd_amp f s) = cards_ok s" "card_refs (upd_amp f s) = card_refs s"
  by (simp_all add: cards_ok_def card_refs_def upd_amp_def fun_eq_iff)

lemma open_with_frame: "open_with K a R (s\<lparr>svc := w\<rparr>) = open_with K a R s" "open_with K a R (s\<lparr>cl_hist := h\<rparr>) = open_with K a R s"
  by (simp_all add: open_with_def mixer_ok_def mx_card_def)

lemma open_with_upd:
  assumes "open_with K a R s"
    "\<And>v. all_created v \<Longrightarrow> all_created (f v) \<and> ctl_count (f v) = ctl_count v \<and> amp_card_node (f v) = amp_card_node v"
  shows "open_with K a R (upd_amp f s)"
proof -
  obtain p where p: "mplugin s = Some p" "complete p" "mx_card s = Some a" "a \<in> set (snd_card_list s)"
    using assms(1) by (cases "mplugin s") (auto simp: open_with_def mixer_ok_def mx_card_def)
  then show ?thesis using assms by (auto simp: open_with_def mixer_ok_def mx_card_def upd_amp_def complete_def)
qed

lemma all_created_cong:
  "fixed u = fixed v \<Longrightarrow> ctls u = ctls v \<Longrightarrow> ctl_count u = ctl_count v \<Longrightarrow> all_created u = all_created v"
  by (simp add: all_created_def control_list_fixed [of u v])

interpretation table: mixer_invariant "open_with K a R" for K a R
proof (unfold_locales, goal_cases)
  case (3 s f)
  have "all_created (f v) = all_created v" "ctl_count (f v) = ctl_count v" "amp_card_node (f v) = amp_card_node v" for v
    using all_created_cong [of "f v" v] fixed_eq(7) [of "f v" v] 3(2) [of v] by simp_all
  then show ?case using 3(1) by (intro open_with_upd) simp_all
qed (simp_all add: open_with_frame)

lemma events_created [simp]:
  "all_created (v\<lparr>events_list := x\<rparr>) = all_created v" "all_created (v\<lparr>events_paramlist := y\<rparr>) = all_created v"
  "all_created (v\<lparr>event_cb := z\<rparr>) = all_created v"
  by (simp_all add: all_created_def control_list_def be_part_def group_part_def pcm_part_def acdb_part_def)

lemma event_cb_table: "open_with K a R s \<Longrightarrow> wlp (amp_event_cb K' e s) (\<lambda>_ t. open_with K a R t)"
  unfolding amp_event_cb_def amp_add_event_params_def
  by (intro table.rules open_with_upd) (auto intro: open_with_upd)

lemma exec_table: "open_with K a R s \<Longrightarrow> wlp (mixer_exec K' x s) (\<lambda>_ t. open_with K a R t)"
proof (cases "about_events x")
  case True
  assume s: "open_with K a R s"
  consider (get) c n where "x = GET_EVENT c n" | (event) e where "x = EVENT e" | (read) b n where "x = READ_EVENT b n"
    | (sub) cb where "x = SUBSCRIBE cb"
    using True by (cases x) (auto simp: about_events_def)
  then show ?thesis
    by cases (auto simp: wlp_result_of event_cb_table [OF s] amp_pcm_event_get_def amp_read_event_def amp_subscribe_events_def
        Let_def intro!: table.rules open_with_upd s)
qed (rule table.exec)

lemma mixer_of_more:
  fixes s t :: mixer_world
  assumes "snd_world.more t = snd_world.more s"
  shows "svc t = svc s" "mplugin t = mplugin s"
  using assms by (cases s; cases t; simp)+

text \<open>Calls of the service for every stream: only the service changes.\<close>

definition only_svc :: "'z plugin_world_scheme \<Rightarrow> 'z plugin_world_scheme \<Rightarrow> bool" where
  "only_svc s t \<longleftrightarrow> (\<exists>w. t = s\<lparr>svc := w\<rparr>)"

lemma only_svc_service: "only_svc s t \<Longrightarrow> wlp (service f t) (\<lambda>_ u. only_svc s u)"
  by (auto simp: service_def wlp_def only_svc_def bind_eq_Some_conv)

lemma register_callbacks_frame: "wlp (amp_register_event_callback K b self v s) (\<lambda>_ t. only_svc s t)"
proof -
  have step: "wlp (register_cb K cb self adi i t) (\<lambda>_ u. only_svc s u)" if "only_svc s t" for cb adi i t
    unfolding register_cb_def by (intro inv_rules inv_bind_value only_svc_service that)
  have refl: "only_svc s s" unfolding only_svc_def by (rule exI [of _ "svc s"]) simp
  show ?thesis
    unfolding amp_register_event_callback_def by (intro inv_Let inv_bind for_each_inv step refl)
qed

definition held_after :: "mixer_env \<Rightarrow> (nat \<Rightarrow> int) \<Rightarrow> mixer_world \<Rightarrow> bool" where
  "held_after K R t \<longleftrightarrow> mixer_ok K t \<and> card_refs t = (case mx_card t of None \<Rightarrow> R | Some a \<Rightarrow> R(a := R a + 1))"

lemma held_after_closed:
  assumes "cards_ok t" "mplugin t = None" "card_refs t = R" "card_def_file K = Some (es, True)"
  shows "held_after K R t"
  using assms by (simp add: held_after_def mixer_ok_def mx_card_def)

text \<open>The card is there; what follows keeps the reference in the plugin or gives it back.\<close>

lemma mixer_open_rest:
  assumes t: "cards_ok t" "mplugin t = None" "card_refs t = R(c := R c + 1)" "c \<in> set (snd_card_list t)"
    and v: "grp_count (group_be_devs v) = 0" "amp_card_node v = Some c" and es: "card_def_file K = Some (es, True)"
  shows "wlp (do { (r, s) \<leftarrow> amp_build K v t;
       case r of None \<Rightarrow> Some (- ENOMEM, snd_card_def_put_card (Some c) s)
       | Some v \<Rightarrow> do {
         (_, s) \<leftarrow> amp_register_event_callback K True self v s;
         Some (0, s\<lparr>mplugin := Some \<lparr>mx_addr = self, subscribed = False, num_controls = ctl_count v, mx_priv = v\<rparr>\<rparr>) }})
     (\<lambda>_ t. held_after K R t)"
proof (rule wlp_bindI [OF build_all [OF v]], goal_cases)
  case (1 q x)
  then obtain h where x: "x = t\<lparr>cl_hist := h\<rparr>" by (auto simp: build_post_def only_hist_def)
  show ?case
  proof (cases q)
    case None
    have "mplugin (snd_card_def_put_card (Some c) x) = None"
      using mixer_of_more(2) [OF put_card_more [of "Some c" x]] t(2) by (simp add: x)
    then show ?thesis
      using put_card_refs [of x c] t by (auto simp: None wlp_simps x fun_eq_iff intro!: held_after_closed [OF _ _ _ es])
  next
    case (Some w)
    then have "all_created w" "amp_card_node w = Some c" using 1 by (simp_all add: build_post_def)
    then show ?thesis
      unfolding Some option.case
      by (intro wlp_bindI [OF register_callbacks_frame])
        (use t es in \<open>auto simp: wlp_simps only_svc_def x held_after_def mixer_ok_def mx_card_def complete_def\<close>)
  qed
qed

lemma mixer_open_card:
  assumes "mixer_ok K s" "mx_card s = None"
  shows "wlp (agm_mixer_plugin_open K cnum s) (\<lambda>_ t. mixer_ok K t
    \<and> card_refs t = (case mx_card t of None \<Rightarrow> card_refs s | Some a \<Rightarrow> (card_refs s)(a := card_refs s a + 1)))"
  unfolding agm_mixer_plugin_open_def held_after_def [symmetric]
proof (rule wlp_bindI [OF callocs_frame], goal_cases)
  case (1 b u)
  then obtain h where u: "u = s\<lparr>cl_hist := h\<rparr>" by blast
  have "mplugin s = None" using assms by (cases "mplugin s") (auto simp: mixer_ok_def)
  then have u': "cards_ok u" "mplugin u = None" "card_refs u = card_refs s" using assms(1) by (simp_all add: u mixer_ok_def)
  obtain es where es: "card_def_file K = Some (es, True)" using assms(1) by (auto simp: mixer_ok_def)
  have get: "wlp (get_card K cnum u) (\<lambda>r t. cards_ok t \<and> snd_world.more t = snd_world.more u
    \<and> card_refs t = (case r of None \<Rightarrow> card_refs u | Some a \<Rightarrow> (card_refs u)(a := card_refs u a + 1)))"
    unfolding es by (rule get_card_refs [OF u'(1)])
  show ?case
  proof (intro inv_if inv_Let res_Some held_after_closed [OF u' es] wlp_bindI [OF get], goal_cases)
    case (1 r t)
    then have t: "cards_ok t" "mplugin t = None" using mixer_of_more [of t u] u'(2) by simp_all
    show ?case
    proof (cases r)
      case None
      then show ?thesis using 1 t u'(3) by (simp add: wlp_simps held_after_closed [OF _ _ _ es])
    next
      case (Some c)
      then have refs: "card_refs t = (card_refs s)(c := card_refs s c + 1)" using 1 u'(3) by simp
      then have "c \<in> set (snd_card_list t)" using refs_in_list [of u t c] u'(1,3) by simp
      then show ?thesis
        unfolding Some option.case by (intro inv_Let mixer_open_rest [OF t refs _ _ _ es]) (simp_all add: amp_priv0_def)
    qed
  qed
qed

lemma mixer_close_card:
  assumes "mixer_ok K s" "mx_card s = Some a"
  shows "wlp (amp_close K s) (\<lambda>_ t. mixer_ok K t \<and> mx_card t = None \<and> card_refs t = (card_refs s)(a := card_refs s a - 1))"
proof -
  obtain p where p: "mplugin s = Some p" "amp_card_node (mx_priv p) = Some a"
    using assms(2) by (auto simp: mx_card_def bind_eq_Some_conv)
  define R where "R = card_refs s"
  have s: "open_with K a R s" using assms by (simp add: open_with_def R_def)
  have cb: "wlp (if event_cb (mx_priv p) \<noteq> 0 then client_ecall K c s else Some (0, s)) (\<lambda>_ t. open_with K a R t)" for c
    by (intro table.rules s)
  have reg: "wlp (amp_register_event_callback K b self v t) (\<lambda>_ u. open_with K a R u)" if "open_with K a R t" for b self v t
    by (rule wlp_mono [OF register_callbacks_frame]) (use that in \<open>auto simp: only_svc_def open_with_frame\<close>)
  have sub: "wlp (amp_subscribe_events 0 t) (\<lambda>_ u. open_with K a R u)" if "open_with K a R t" for t
    using exec_table [OF that, of K "SUBSCRIBE 0"] by (simp add: wlp_result_of)
  have fin: "mixer_ok K (snd_card_def_put_card (Some a) t\<lparr>mplugin := None\<rparr>)
      \<and> mx_card (snd_card_def_put_card (Some a) t\<lparr>mplugin := None\<rparr>) = None
      \<and> card_refs (snd_card_def_put_card (Some a) t\<lparr>mplugin := None\<rparr>) = R(a := R a - 1)" if "open_with K a R t" for t
    using that put_card_refs [of t a] by (cases "mplugin t") (auto simp: open_with_def mixer_ok_def mx_card_def)
  show ?thesis
    unfolding amp_close_def p option.case Let_def R_def [symmetric]
    apply (rule wlp_bindI [OF cb], rule wlp_bindI [OF reg], assumption, rule wlp_bindI [OF sub], assumption)
    by (intro inv_bind_value res_Some fin)
qed

interpretation mixer_card: card_user "agm_mixer_plugin_open K cnum" "amp_close K" "mixer_ok K" card_refs mx_card "mixer_exec K"
  for K cnum
proof (unfold_locales, goal_cases)
  case (3 s a x)
  then have "open_with K a (card_refs s) s" by (simp add: open_with_def)
  from exec_table [OF this] show ?case by (auto simp: open_with_def elim: wlp_mono)
qed (rule mixer_open_card mixer_close_card; assumption)+

text \<open>\<^bold>\<open>C23.\<close> Over the whole life of mixers - opens that succeed or fail, calls of every control, events, closes, in any
  order - the array of an open mixer is exactly the list of controls that its back ends, groups and streams call for,
  without a gap, and the number of controls is its length; and exactly the open mixer holds a reference to its card.\<close>

theorem mixer_controls:
  assumes "mixer_card.life K cnum s t" "cards_ok s" "card_def_file K = Some (es, True)" "mplugin s = None"
  shows "(\<forall>p. mplugin t = Some p \<longrightarrow> ctls (mx_priv p) = map Some (control_list (mx_priv p))
      \<and> num_controls p = int (length (control_list (mx_priv p))))
    \<and> card_refs t = (case mx_card t of None \<Rightarrow> card_refs s | Some a \<Rightarrow> (card_refs s)(a := card_refs s a + 1))"
proof -
  have "mixer_ok K s" "mx_card s = None" using assms(2-4) by (auto simp: mixer_ok_def mx_card_def)
  from mixer_card.life_refs [OF assms(1) this] show ?thesis
    by (auto simp: mixer_ok_def complete_def all_created_def)
qed

section \<open>Names of controls\<close>

text \<open>Some functions tell the controls they serve apart by a part of the name.\<close>

lemma strstr_sublist: "strstr p s = None \<longleftrightarrow> \<not> sublist p s"
proof (induction p s rule: strstr.induct)
  case (2 p c cs)
  have "take (length p) (c # cs) = p \<longleftrightarrow> prefix p (c # cs)"
    by (auto simp: prefix_def) (metis append_take_drop_id)
  then show ?case using 2 by (auto simp: sublist_Cons_right)
qed simp

lemma sublist_around:
  assumes "x \<notin> set p" "p \<noteq> []"
  shows "sublist p (n @ x # m) \<longleftrightarrow> sublist p n \<or> sublist p m"
proof
  assume "sublist p (n @ x # m)"
  then consider "sublist p n" | "sublist p (x # m)" | u v where "p = u @ v" "suffix u n" "prefix v (x # m)"
    by (auto simp: sublist_append)
  then show "sublist p n \<or> sublist p m"
  proof cases
    case 3
    then have "v = []" using assms(1) by (cases v) auto
    then show ?thesis using 3 by (auto dest: suffix_imp_sublist)
  qed (use assms in \<open>auto simp: sublist_Cons_right prefix_Cons\<close>)
qed (auto simp: sublist_append sublist_Cons_right)

text \<open>A name that fits into a control together with the longest ending, and does not look like an ending.\<close>

definition stream_name_ok :: "string \<Rightarrow> bool" where
  "stream_name_ok n \<longleftrightarrow> length n \<le> 31 \<and> strstr ''disconnect'' n = None \<and> strstr ''setParamTag'' n = None"

lemma ending_found:
  assumes "length n \<le> 31" "length x \<le> 15" "CHR '' '' \<notin> set p" "p \<noteq> []"
  shows "strstr p (ctl_name (control (n @ '' '' @ x) ops val k l)) = None \<longleftrightarrow> strstr p n = None \<and> strstr p x = None"
  using assms sublist_around [of "CHR '' ''" p n x] by (simp add: control_def strstr_sublist)

lemma tag_in_name:
  assumes "strstr ''setParamTag'' n = None"
  shows "strstr ''setParamTagACDB'' n = None"
proof -
  have "sublist ''setParamTag'' ''setParamTagACDB''" by (simp add: sublist_code)
  then show ?thesis using assms sublist_order.order_trans unfolding strstr_sublist by blast
qed

lemma connect_ending:
  assumes "stream_name_ok n"
  shows "strstr ''disconnect'' (ctl_name (control (n @ '' connect'') ops val k l)) = None"
    "strstr ''disconnect'' (ctl_name (control (n @ '' disconnect'') ops val k l)) \<noteq> None"
  using ending_found [of n "''connect''" "''disconnect''" ops val k l] ending_found [of n "''disconnect''" "''disconnect''" ops val k l] assms
  by (simp_all add: stream_name_ok_def)

lemma param_ending:
  assumes "stream_name_ok n"
  shows "strstr ''setParamTagACDB'' (ctl_name (control (n @ '' setParamTagACDB'') ops val k l)) \<noteq> None"
    "strstr ''setParamTagACDB'' (ctl_name (control (n @ '' setParamTag'') ops val k l)) = None"
    "strstr ''setParamTag'' (ctl_name (control (n @ '' setParamTag'') ops val k l)) \<noteq> None"
    "strstr ''setParamTagACDB'' (ctl_name (control (n @ '' setParam'') ops val k l)) = None"
    "strstr ''setParamTag'' (ctl_name (control (n @ '' setParam'') ops val k l)) = None"
  using assms ending_found [of n _ "''setParamTag''" ops val k l] ending_found [of n _ "''setParamTagACDB''" ops val k l] tag_in_name [of n]
  by (simp_all add: stream_name_ok_def)

text \<open>The controls for connecting and disconnecting a back end share one function, which looks for a part of the
  name of its control. For every stream name of up to 31 characters that does not itself contain an ending, the
  function connects for the first and disconnects for the second, with the session of the control and the back end of the
  selected item.\<close>

theorem connect_dispatch:
  assumes "stream_name_ok n" "mplugin s = Some p" "item \<noteq> 0"
    and "pcm_adi (control (n @ '' connect'') OPS_PCM_AIF_CONNECT e k l) (mx_priv p) = Some adi"
    and "amp_get_be_adi (mx_priv p) (adi_dir adi) = Some be" "load (idx_arr be) (uint item) = Some j"
  shows "amp_pcm_aif_connect_put K (control (n @ '' connect'') OPS_PCM_AIF_CONNECT e k l) item s
       = already_ok (service (agm_session_aif_connect (svc_env K) (of_int k) (of_int j) True) s)
    \<and> amp_pcm_aif_connect_put K (control (n @ '' disconnect'') OPS_PCM_AIF_CONNECT e k l) item s
       = already_ok (service (agm_session_aif_connect (svc_env K) (of_int k) (of_int j) False) s)"
proof -
  define c d where "c = control (n @ '' connect'') OPS_PCM_AIF_CONNECT e k l" and "d = control (n @ '' disconnect'') OPS_PCM_AIF_CONNECT e k l"
  have fields: "private_value c = k" "private_value d = k" "pcm_adi c (mx_priv p) = Some adi" "pcm_adi d (mx_priv p) = Some adi"
    using assms(4) by (simp_all add: c_def d_def control_def pcm_adi_def)
  have e: "strstr ''disconnect'' (ctl_name c) = None" "(strstr ''disconnect'' (ctl_name d) = None) = False"
    using connect_ending [OF assms(1), of OPS_PCM_AIF_CONNECT e k l] by (simp_all add: c_def d_def)
  show ?thesis
    unfolding c_def [symmetric] d_def [symmetric] by (simp add: amp_pcm_aif_connect_put_def with_amp_def assms fields e)
qed

text \<open>The same for the three controls that set parameters.\<close>

theorem param_dispatch:
  assumes "stream_name_ok n" "mplugin s = Some p"
    and "selected_be (control (n @ '' setParam'') OPS_PCM_SET_PARAM e k l) (mx_priv p) = Some (Inr (b, j))"
    and put: "put = (\<lambda>x. amp_pcm_set_param_put K (control (n @ '' '' @ x) OPS_PCM_SET_PARAM e k l) t s)"
  shows "put ''setParam'' = already_ok (service (if b = 0
        then agm_session_set_params (svc_env K) (of_int k) (Some (tlv t)) (unat (tlv_length t))
        else agm_session_aif_set_params (svc_env K) (of_int k) (of_int j) (Some (tlv t)) (unat (tlv_length t))) s)
    \<and> put ''setParamTag'' = already_ok (service (agm_set_params_with_tag (svc_env K) (of_int k) (of_int j) (as_tag_config t)) s)
    \<and> put ''setParamTagACDB'' =
        already_ok (service (agm_set_params_with_tag_to_acdb (svc_env K) (of_int k) (of_int j) (as_acdb_param t)) s)"
proof -
  define c where "c x = control (n @ '' '' @ x) OPS_PCM_SET_PARAM e k l" for x
  have fields: "private_value (c x) = k" "selected_be (c x) (mx_priv p) = Some (Inr (b, j))" for x
    using assms(3) by (simp_all add: c_def control_def selected_be_def pcm_adi_def)
  have "(strstr ''setParamTagACDB'' (ctl_name (c ''setParamTagACDB'')) = None) = False"
    "strstr ''setParamTagACDB'' (ctl_name (c ''setParamTag'')) = None" "(strstr ''setParamTag'' (ctl_name (c ''setParamTag'')) = None) = False"
    "strstr ''setParamTagACDB'' (ctl_name (c ''setParam'')) = None" "strstr ''setParamTag'' (ctl_name (c ''setParam'')) = None"
    using param_ending [OF assms(1), of OPS_PCM_SET_PARAM e k l] by (simp_all add: c_def)
  then show ?thesis
    unfolding put c_def [symmetric] by (simp add: amp_pcm_set_param_put_def with_amp_def assms(2) fields Let_def)
qed

section \<open>Reading events\<close>

text \<open>A read with room for one event gives the oldest event and removes it. A read with room for more, while more
  than one event waits, writes outside of the buffer of the client: the pointer to the next event is advanced by the
  size of an event in units of events.\<close>

theorem read_event:
  assumes "mplugin s = Some p" "events_list (mx_priv p) = e # es" "0 < sizeof_ctl_event K"
  shows "amp_read_event K [b] (sizeof_ctl_event K) s
      = Some ((sizeof_ctl_event K, [Some e]), upd_amp (\<lambda>v. v\<lparr>events_list := es\<rparr>) s)
    \<and> (es \<noteq> [] \<longrightarrow> 2 \<le> length buf \<longrightarrow> length buf \<le> sizeof_ctl_event K \<longrightarrow>
         amp_read_event K buf (length buf * sizeof_ctl_event K) s = None)"
proof -
  have "read_event_loop sz 0 (length buf) (e # x # xs) buf = None" if le: "2 \<le> length buf" "length buf \<le> sz" for sz x xs
  proof -
    obtain n where "length buf = 2 + n" using le_Suc_ex [OF le(1)] by blast
    then show ?thesis using le(2) by simp
  qed
  then show ?thesis using assms by (cases es) (simp_all add: amp_read_event_def with_amp_def)
qed

section \<open>Witnesses\<close>

text \<open>A card with one stream, a service with one back end and one group.\<close>

definition mixer_env0 :: mixer_env where
  "mixer_env0 = \<lparr>cl_ret = (\<lambda>_ _. 0), card_id_file = (\<lambda>_. None), card_def_file = Some ([], True), svc_env = env0,
     mixer_addr = (\<lambda>_. 64), amp_event_cb_addr = 32, sizeof_elem_name = 44, sizeof_ctl_event = 72, sizeof_event_cb_params = 16\<rparr>"

definition mixer_card0 :: snd_dev_def_card where
  "mixer_card0 = \<lparr>sd_card = 100, sd_name = None, sd_refcnt = 1, devs_list = (\<lambda>t. if t = SND_NODE_TYPE_PCM
     then [\<lparr>nd_node_type = SND_NODE_TYPE_PCM, nd_device = 6, nd_type = 1, nd_name = Some ''PCM6'', nd_so_name = None,
            prop_val_list = [(''playback'', ''1''), (''capture'', ''0'')]\<rparr>] else [])\<rparr>"

definition mixer_world0 :: mixer_world where
  "mixer_world0 = \<lparr>cl_hist = [], cards = (\<lambda>_. mixer_card0), snd_card_list = [1], card_next = 2,
     svc = world0\<lparr>device_list := [0], num_audio_intfs := 1\<rparr>, mplugin = None\<rparr>"

lemmas node_eval = snd_card_def_get_num_node_def snd_card_def_get_nodes_for_type_def live_card_def node_list_of_def node_int_def
  snd_card_def_get_int_def snd_card_def_get_str_def node_at_def atoi_def scan_sign_def is_space_def is_digit_def digits_val_def

lemmas build_eval = amp_build_def amp_get_be_info_def amp_get_group_be_info_def amp_get_pcm_info_def amp_get_acdb_info_def card_nodes_def
  adi_alloc_def adi_store_def store_def load_def amp_copy_be_names_from_aif_list_def amp_copy_group_be_names_from_aif_list_def
  amp_create_pcm_info_from_card_def amp_priv0_def dev_info0_def agm_get_aif_info_list_def agm_get_group_aif_info_list_def
  device_get_aif_info_list_def device_get_group_list_def copy_names.simps

definition built0 :: "amp_priv" where
  "built0 = amp_priv0\<lparr>amp_card := 100, amp_card_node := Some 1, 
     aif_list := [(''BE'', 1)],
     rx_be_devs := (dev_info0 RX)\<lparr>names := [Some ''ZERO'', Some ''BE''], idx_arr := [0, 0], adi_count := 2, enum_items := 2\<rparr>,
     tx_be_devs := (dev_info0 TX)\<lparr>names := [Some ''ZERO''], idx_arr := [0], adi_count := 1, enum_items := 1\<rparr>,
     rx_pcm_devs := (dev_info0 RX)\<lparr>names := [Some ''ZERO'', Some ''PCM6''], idx_arr := [0, 6], adi_count := 2, enum_items := 2\<rparr>,
     tx_pcm_devs := (dev_info0 TX)\<lparr>names := [Some ''ZERO''], idx_arr := [0], adi_count := 1, enum_items := 1\<rparr>,
     acdb_tunnels := (dev_info0 0)\<lparr>names := [None], idx_arr := [0], adi_count := 1, enum_items := 1\<rparr>,
     group_be_devs := \<lparr>grp_names = [''GRP''], grp_idx_arr = [0], grp_count = 1\<rparr>\<rparr>"

definition card0_used :: mixer_world where
  "card0_used = mixer_world0\<lparr>cl_hist := [CL_CALLOC, CL_CALLOC], cards := (cards mixer_world0)(1 := mixer_card0\<lparr>sd_refcnt := 2\<rparr>)\<rparr>"

lemma card0: "client_callocs 2 mixer_env0 mixer_world0 = Some (True, mixer_world0\<lparr>cl_hist := [CL_CALLOC, CL_CALLOC]\<rparr>)"
   "get_card mixer_env0 100 (mixer_world0\<lparr>cl_hist := [CL_CALLOC, CL_CALLOC]\<rparr>) = Some (Some 1, card0_used)"
  by (simp_all add: numeral_eq_Suc client_calloc_def client_ecall_def mixer_env0_def mixer_world0_def mixer_card0_def card0_used_def
     snd_card_def_get_card_def read_card_id_def search_card.simps upd_card_def)

definition started_priv :: amp_priv where
  "started_priv = amp_priv0\<lparr>amp_card := 100, amp_card_node := Some 1, rx_be_devs := dev_info0 RX,
      tx_be_devs := dev_info0 TX, rx_pcm_devs := dev_info0 RX, tx_pcm_devs := dev_info0 TX\<rparr>"

lemma calloc0: "client_calloc mixer_env0 s = Some (True, s\<lparr>cl_hist := cl_hist s @ [CL_CALLOC]\<rparr>)"
  by (simp add: client_calloc_def client_ecall_def mixer_env0_def)

lemma callocs0: "callocs_all n mixer_env0 s = Some (True, s\<lparr>cl_hist := cl_hist s @ replicate n CL_CALLOC\<rparr>)"
  by (induction n arbitrary: s) (simp_all add: calloc0)

lemma hist_ex: "only_hist s (s\<lparr>cl_hist := x\<rparr>)"
  by (auto simp: only_hist_def)

lemma only_hist_fields:
  assumes "only_hist s (t :: mixer_world)"
  shows "svc t = svc s" "cards t = cards s" "snd_card_list t = snd_card_list s" "mplugin t = mplugin s"
  using assms by (auto simp: only_hist_def)

lemmas info_eval = build_eval calloc0 callocs0 hist_ex

lemma be0:
  assumes "svc s = svc mixer_world0"
  shows "\<exists>t. amp_get_be_info mixer_env0 started_priv s = Some ((0, started_priv\<lparr>
     aif_list := [(''BE'', 1)],
     rx_be_devs := (dev_info0 RX)\<lparr>names := [Some ''ZERO'', Some ''BE''], idx_arr := [0, 0], adi_count := 2, enum_items := 2\<rparr>,
     tx_be_devs := (dev_info0 TX)\<lparr>names := [Some ''ZERO''], idx_arr := [0], adi_count := 1, enum_items := 1\<rparr>\<rparr>), t) \<and> only_hist s t"
  using assms by (simp add: started_priv_def info_eval mixer_world0_def world0_def device0_def cong: bind_eval_cong)

lemma grp0:
  assumes "svc s = svc mixer_world0"
  shows "\<exists>t. amp_get_group_be_info mixer_env0 v s = Some ((0, v\<lparr>
     group_be_devs := \<lparr>grp_names = [''GRP''], grp_idx_arr = [0], grp_count = 1\<rparr>\<rparr>), t) \<and> only_hist s t"
  using assms by (simp add: info_eval mixer_world0_def world0_def group0_def cong: bind_eval_cong)

lemma pcm0:
  assumes "amp_card_node v = Some 1" "rx_pcm_devs v = dev_info0 RX" "tx_pcm_devs v = dev_info0 TX"
    "cards s = cards card0_used" "snd_card_list s = [1]"
  shows "\<exists>t. amp_get_pcm_info mixer_env0 v s = Some ((0, v\<lparr>
     rx_pcm_devs := (dev_info0 RX)\<lparr>names := [Some ''ZERO'', Some ''PCM6''], idx_arr := [0, 6], adi_count := 2, enum_items := 2\<rparr>,
     tx_pcm_devs := (dev_info0 TX)\<lparr>names := [Some ''ZERO''], idx_arr := [0], adi_count := 1, enum_items := 1\<rparr>\<rparr>), t) \<and> only_hist s t"
  using assms by (simp add: info_eval node_eval card0_used_def mixer_world0_def mixer_card0_def cong: bind_eval_cong)

lemma acdb0:
  assumes "acdb_tunnels v = dev_info0 0"
  shows "\<exists>t. amp_get_acdb_info mixer_env0 v s = Some ((0, v\<lparr>
     acdb_tunnels := (dev_info0 0)\<lparr>names := [None], idx_arr := [0], adi_count := 1, enum_items := 1\<rparr>\<rparr>), t) \<and> only_hist s t"
  using assms by (simp add: info_eval cong: bind_eval_cong)

lemmas form_eval = amp_form_ctls_def amp_form_be_ctls_def amp_form_group_be_ctls_def amp_form_pcm_ctls_def amp_form_common_pcm_ctls_def
  amp_form_rx_pcm_ctls_def amp_form_tx_pcm_ctls_def amp_form_acdb_ctls_def amp_get_be_ctl_count_def amp_get_group_be_ctl_count_def
  amp_get_pcm_ctl_count_def be_ctls_def common_pcm_ctls_def tx_pcm_ctls_def rx_pcm_ctls_def create_defs set_ctl_def
  store_def load_def row_defs upd_rx_pcm_def upd_tx_pcm_def

lemma upt_12: "[Suc 0..<2] = [1]"
  by (simp add: numeral_2_eq_2)

lemma forms0: "\<exists>v t. amp_form_ctls mixer_env0 built0 s = Some ((True, v), t) \<and> fixed v = fixed built0 \<and> only_hist s t"
  by (simp add: form_eval upt_12 fixed_def bare_def calloc0 callocs0 hist_ex built0_def amp_priv0_def dev_info0_def Let_def cong: bind_eval_cong)

lemma build0:
  fixes s :: mixer_world
  assumes "svc s = svc mixer_world0" "cards s = cards card0_used" "snd_card_list s = [1]"
  shows "\<exists>v t. amp_build mixer_env0 started_priv s = Some (Some v, t) \<and> fixed v = fixed built0 \<and> only_hist s t"
proof -
  obtain v1 t1 where 1: "amp_get_be_info mixer_env0 started_priv s = Some ((0, v1), t1)" "only_hist s t1"
    and v1: "v1 = started_priv\<lparr>aif_list := [(''BE'', 1)],
     rx_be_devs := (dev_info0 RX)\<lparr>names := [Some ''ZERO'', Some ''BE''], idx_arr := [0, 0], adi_count := 2, enum_items := 2\<rparr>,
     tx_be_devs := (dev_info0 TX)\<lparr>names := [Some ''ZERO''], idx_arr := [0], adi_count := 1, enum_items := 1\<rparr>\<rparr>"
    using be0 [OF assms(1)] by blast
  obtain v2 t2 where 2: "amp_get_group_be_info mixer_env0 v1 t1 = Some ((0, v2), t2)" "only_hist t1 t2"
    and v2: "v2 = v1\<lparr>group_be_devs := \<lparr>grp_names = [''GRP''], grp_idx_arr = [0], grp_count = 1\<rparr>\<rparr>"
    using grp0 [of t1 v1] only_hist_fields [OF 1(2)] assms(1) by auto
  obtain v3 t3 where 3: "amp_get_pcm_info mixer_env0 v2 t2 = Some ((0, v3), t3)" "only_hist t2 t3"
    and v3: "v3 = v2\<lparr>rx_pcm_devs := (dev_info0 RX)\<lparr>names := [Some ''ZERO'', Some ''PCM6''], idx_arr := [0, 6], adi_count := 2, enum_items := 2\<rparr>,
     tx_pcm_devs := (dev_info0 TX)\<lparr>names := [Some ''ZERO''], idx_arr := [0], adi_count := 1, enum_items := 1\<rparr>\<rparr>"
    using pcm0 [of v2 t2] only_hist_fields [OF 1(2)] only_hist_fields [OF 2(2)] assms by (auto simp: v2 v1 started_priv_def)
  obtain t4 where 4: "amp_get_acdb_info mixer_env0 v3 t3 = Some ((0, built0), t4)" "only_hist t3 t4"
    using acdb0 [of v3 t3] by (auto simp: v3 v2 v1 started_priv_def built0_def amp_priv0_def)
  obtain v t where 5: "amp_form_ctls mixer_env0 built0 t4 = Some ((True, v), t)" "fixed v = fixed built0" "only_hist t4 t"
    using forms0 by blast
  have "only_hist s t" using 1(2) 2(2) 3(2) 4(2) 5(3) by (blast intro: only_hist_trans)
  then show ?thesis using 1 2 3 4 5 by (simp add: amp_build_def)
qed

lemma register0:
  "\<exists>w. agm_session_register_cb env0 6 32 AGM_EVENT_MODULE 64 (svc mixer_world0) = Some (0, w)"
  by (simp add: mixer_world0_def agm_eval cong: bind_eval_cong)

lemma opened0:
  "\<exists>t v. agm_mixer_plugin_open mixer_env0 100 mixer_world0 = Some (0, t) \<and> fixed v = fixed built0
     \<and> mplugin t = Some \<lparr>mx_addr = 64, subscribed = False, num_controls = ctl_count v, mx_priv = v\<rparr>"
proof -
  obtain v u where u: "amp_build mixer_env0 started_priv card0_used = Some (Some v, u)" "fixed v = fixed built0" "only_hist card0_used u"
    using build0 [of card0_used] by (auto simp: card0_used_def mixer_world0_def)
  obtain w where w: "agm_session_register_cb env0 6 32 AGM_EVENT_MODULE 64 (svc u) = Some (0, w)"
    using register0 only_hist_fields [OF u(3)] by (auto simp: card0_used_def)
  have v: "adi_count (rx_pcm_devs v) = 2" "idx_arr (rx_pcm_devs v) = [0, 6]" "adi_count (tx_pcm_devs v) = 1"
    using bare_eq [OF fixed_eq(5) [OF u(2)]] bare_eq [OF fixed_eq(6) [OF u(2)]] by (simp_all add: built0_def)
  have "amp_register_event_callback mixer_env0 True 64 v u = Some ((), u\<lparr>svc := w\<rparr>)"
    using w by (simp add: amp_register_event_callback_def register_cb_def v upt_12 load_def service_def mixer_env0_def)
  moreover have "mixer_addr mixer_env0 h = 64" for h by (simp add: mixer_env0_def)
  ultimately have "agm_mixer_plugin_open mixer_env0 100 mixer_world0 = Some (0, u\<lparr>svc := w,
      mplugin := Some \<lparr>mx_addr = 64, subscribed = False, num_controls = ctl_count v, mx_priv = v\<rparr>\<rparr>)"
    using u(1) by (simp add: agm_mixer_plugin_open_def card0 started_priv_def)
  then show ?thesis using u(2) by auto
qed

theorem mixer_controls_witness:
  "\<exists>t p. mixer_card.life mixer_env0 100 mixer_world0 t \<and> mplugin t = Some p \<and> num_controls p = 20
     \<and> ctls (mx_priv p) ! 5 = Some (control ''PCM6 disconnect'' OPS_PCM_AIF_CONNECT (VALUE_ENUM RX_BE_DEVS) 6 RX_PCM_DEVS)"
proof -
  obtain t v where t: "agm_mixer_plugin_open mixer_env0 100 mixer_world0 = Some (0, t)" "fixed v = fixed built0"
    "mplugin t = Some \<lparr>mx_addr = 64, subscribed = False, num_controls = ctl_count v, mx_priv = v\<rparr>" using opened0 by blast
  have life: "mixer_card.life mixer_env0 100 mixer_world0 t"
    by (rule mixer_card.life_open [OF mixer_card.life_new _ t(1)]) (simp add: mx_card_def mixer_world0_def)
  have l: "control_list v = control_list built0" by (rule control_list_fixed [OF t(2)])
  have "length (control_list built0) = 20"
    "control_list built0 ! 5 = control ''PCM6 disconnect'' OPS_PCM_AIF_CONNECT (VALUE_ENUM RX_BE_DEVS) 6 RX_PCM_DEVS"
    by (simp_all add: control_list_def be_part_def group_part_def pcm_part_def acdb_part_def rows_def row_defs upt_12 built0_def nth_Cons')
  then have "ctls v ! 5 = Some (control ''PCM6 disconnect'' OPS_PCM_AIF_CONNECT (VALUE_ENUM RX_BE_DEVS) 6 RX_PCM_DEVS) \<and> ctl_count v = 20"
    using mixer_controls [OF life, of "[]"] t(3) l
    by (auto simp: mixer_env0_def mixer_world0_def cards_ok_def mixer_card0_def)
  then show ?thesis using life t(3) by auto
qed

text \<open>A mixer that a client reads events from.\<close>

definition listening0 :: mixer_world where
  "listening0 = mixer_world0\<lparr>mplugin := Some \<lparr>mx_addr = 64, subscribed = True, num_controls = 20, mx_priv = built0\<rparr>\<rparr>"

definition event0 :: "u8 \<Rightarrow> event_params_node" where
  "event0 b = \<lparr>en_session_id = 6, en_source_module_id = 1, en_event_id = 2, en_payload = [b]\<rparr>"

definition event_ctl0 :: snd_control where
  "event_ctl0 = control ''PCM6 event'' OPS_PCM_EVENT (VALUE_TLV_BYTES 131072) 6 RX_PCM_DEVS"

lemma stream0: "stream_name 6 (rx_pcm_devs built0) = Some (Some ''PCM6'')"
proof -
  have "[0..<nat 2] = [0, 1]" by (simp add: numeral_2_eq_2)
  then show ?thesis by (simp add: stream_name_def built0_def dev_info0_def)
qed

lemma listening0_event:
  "\<exists>t. mixer_exec mixer_env0 (EVENT (event0 b)) listening0 = Some (None, t) \<and> mplugin t
      = Some \<lparr>mx_addr = 64, subscribed = True, num_controls = 20, mx_priv = built0\<lparr>events_paramlist := [event0 b], events_list := [''PCM6 event'']\<rparr>\<rparr>"
proof -
  have q: "events_paramlist built0 = []" "events_list built0 = []" "event_cb built0 = 0" by (simp_all add: built0_def amp_priv0_def)
  have n: "sizeof_elem_name mixer_env0 = 44" by (simp add: mixer_env0_def)
  show ?thesis
    by (simp add: result_of_def amp_event_cb_def amp_add_event_params_def calloc0 stream0 event0_def upd_amp_def listening0_def q n)
qed

theorem event_fifo_witness:
  "\<exists>t outs. mixer_run mixer_env0 listening0 [event0 9] outs t \<and> outs = [(event_ctl0, event0 9)] \<and> queue_is [] t
     \<and> of_session 6 [event0 9] = of_session 6 (map snd outs) @ of_session 6 []"
proof -
  obtain t where t: "mixer_exec mixer_env0 (EVENT (event0 9)) listening0 = Some (None, t)"
    "mplugin t = Some \<lparr>mx_addr = 64, subscribed = True, num_controls = 20, mx_priv = built0\<lparr>events_paramlist := [event0 9], events_list := [''PCM6 event'']\<rparr>\<rparr>"
    using listening0_event by blast
  have arr: "arrivals mixer_env0 (EVENT (event0 9)) listening0 = [event0 9]"
    by (simp add: arrives_def listening0_def event0_def stream0 mixer_env0_def)
  have one: "mixer_run mixer_env0 listening0 [event0 9] [] t"
    using run_step [OF run_start [of mixer_env0 listening0] _ t(1)] arr by simp
  define u where "u = upd_amp (\<lambda>v. v\<lparr>events_paramlist := []\<rparr>) t"
  have "mixer_exec mixer_env0 (GET_EVENT event_ctl0 100) t = Some (Some (event0 9), u)"
    using t(2) by (simp add: result_of_def amp_pcm_event_get_def with_amp_def u_def event0_def event_ctl0_def control_def mixer_env0_def)
  from run_step [OF one _ this] have two: "mixer_run mixer_env0 listening0 [event0 9] [(event_ctl0, event0 9)] u" by simp
  have "queue_is [] listening0" by (simp add: queue_is_def listening0_def built0_def amp_priv0_def)
  from event_fifo [OF two this] obtain q where "queue_is q u"
    "\<forall>k. of_session k [event0 9] = of_session k (map snd [(event_ctl0, event0 9)]) @ of_session k q" by blast
  moreover have "queue_is [] u" using t(2) by (simp add: u_def queue_is_def upd_amp_def)
  ultimately show ?thesis using two by (auto simp: queue_is_def)
qed

theorem connect_dispatch_witness:
  "amp_pcm_aif_connect_put mixer_env0 (control ''PCM6 disconnect'' OPS_PCM_AIF_CONNECT (VALUE_ENUM RX_BE_DEVS) 6 RX_PCM_DEVS) 1 listening0
     = already_ok (service (agm_session_aif_connect env0 6 0 False) listening0)"
proof -
  let ?p = "\<lparr>mx_addr = 64, subscribed = True, num_controls = 20, mx_priv = built0\<rparr>"
  have "stream_name_ok ''PCM6''" by (simp add: stream_name_ok_def)
  moreover have "mplugin listening0 = Some ?p" by (simp add: listening0_def)
  ultimately show ?thesis
    using connect_dispatch [of "''PCM6''" listening0 ?p 1 "VALUE_ENUM RX_BE_DEVS" 6 RX_PCM_DEVS "rx_pcm_devs built0" "rx_be_devs built0" 0 mixer_env0]
    by (simp add: pcm_adi_def control_def amp_get_be_adi_def built0_def dev_info0_def load_def mixer_env0_def)
qed

theorem read_event_witness:
  "\<exists>s :: mixer_world. amp_read_event mixer_env0 [None] 72 s \<noteq> None \<and> amp_read_event mixer_env0 [None, None] 144 s = None"
proof -
  let ?p = "\<lparr>mx_addr = 64, subscribed = True, num_controls = 20, mx_priv = built0\<lparr>events_list := [''PCM6 event'', ''PCM6 event'']\<rparr>\<rparr>"
  let ?s = "listening0\<lparr>mplugin := Some ?p\<rparr>"
  have n: "sizeof_ctl_event mixer_env0 = 72" by (simp add: mixer_env0_def)
  have "amp_read_event mixer_env0 [None] 72 ?s \<noteq> None \<and> amp_read_event mixer_env0 [None, None] 144 ?s = None"
    using read_event [of ?s ?p "''PCM6 event''" "[''PCM6 event'']" mixer_env0 None "[None, None]"] by (simp add: n)
  then show ?thesis by blast
qed

end
