(* ===== verification/Io_Plugin.thy ===== *)
theory Io_Plugin
  imports Plugin
begin

text \<open>
  Model of \<open>plugins/alsalib/src/agm_io_plugin.c\<close>: PCM streams of alsa-lib on sessions. The
  library is outside the repository: what it computes from formats and sizes and whether
  \<open>snd_pcm_ioplug_delete\<close> calls the close callback are parameters, what its other functions return
  is the oracle of the client process. The samples and \<open>errno\<close> are not modelled.
\<close>

section \<open>State\<close>

datatype io_state = AGM_IO_STATE_OPEN | AGM_IO_STATE_SETUP | AGM_IO_STATE_PREPARED | AGM_IO_STATE_RUNNING

fun io_rank :: "io_state \<Rightarrow> nat" where
  "io_rank AGM_IO_STATE_OPEN = 1"
| "io_rank AGM_IO_STATE_SETUP = 2"
| "io_rank AGM_IO_STATE_PREPARED = 3"
| "io_rank AGM_IO_STATE_RUNNING = 4"

instantiation io_state :: linorder
begin

definition less_eq_io_state :: "io_state \<Rightarrow> io_state \<Rightarrow> bool" where
  "less_eq_io_state a b \<longleftrightarrow> io_rank a \<le> io_rank b"

definition less_io_state :: "io_state \<Rightarrow> io_state \<Rightarrow> bool" where
  "less_io_state a b \<longleftrightarrow> io_rank a < io_rank b"

instance
proof
  fix x y :: io_state
  show "x \<le> y \<Longrightarrow> y \<le> x \<Longrightarrow> x = y"
    by (cases x; cases y) (simp_all add: less_eq_io_state_def)
qed (auto simp: less_eq_io_state_def less_io_state_def)

end

lemmas io_state_order = less_eq_io_state_def less_io_state_def

text \<open>What the plugin reads of the object that alsa-lib shares with it.\<close>

record snd_pcm_ioplug =
  io_playback :: bool
  io_format :: int
  io_channels :: u32
  io_rate :: u32
  io_period_size :: u64
  io_buffer_size :: u64

record agmio_priv =
  ap_io :: snd_pcm_ioplug
  ap_card_node :: "nat option"
  ap_pcm_node :: node_ptr
  ap_handle :: nat
  ap_media_config :: agm_media_config
  ap_buffer_config :: agm_buffer_config
  ap_session_config :: agm_session_config
  ap_period_size :: u32
  ap_frame_size :: u64
  ap_state :: io_state
  ap_hw_pointer :: u64
  ap_boundary :: u64
  ap_event_fd :: int

record io_env = plugin_env +
  snd_pcm_format_physical_width :: "int \<Rightarrow> int"
  snd_pcm_bytes_to_frames :: "snd_pcm_ioplug \<Rightarrow> u64 \<Rightarrow> int"
  delete_closes :: bool

text \<open>\<open>io_plug\<close> is the object the callbacks are called with, \<open>None\<close> once it was
  freed.\<close>

record io_world = plugin_world +
  io_plug :: "agmio_priv option"

definition upd_io :: "(agmio_priv \<Rightarrow> agmio_priv) \<Rightarrow> 'z io_world_scheme \<Rightarrow> 'z io_world_scheme" where
  "upd_io f s = s\<lparr>io_plug := map_option f (io_plug s)\<rparr>"

definition with_io ::
    "(agmio_priv \<Rightarrow> 'z io_world_scheme \<Rightarrow> ('r \<times> 'z io_world_scheme) option) \<Rightarrow> 'z io_world_scheme \<Rightarrow>
       ('r \<times> 'z io_world_scheme) option" where
  "with_io f s = (case io_plug s of None \<Rightarrow> None | Some v \<Rightarrow> f v s)"

definition io_get_session_handle :: "agmio_priv \<Rightarrow> int \<times> nat" where
  "io_get_session_handle v = (if ap_handle v = 0 then - EINVAL else 0, ap_handle v)"

section \<open>Callbacks\<close>

definition agm_io_start :: "'k plugin_env_scheme \<Rightarrow> 'z io_world_scheme \<Rightarrow> (int \<times> 'z io_world_scheme) option" where
  "agm_io_start K = with_io (\<lambda>v s.
     let (ret, handle) = io_get_session_handle v in
     if ret \<noteq> 0 then Some (ret, s)
     else do {
       (ret, s) \<leftarrow> (if ap_state v < AGM_IO_STATE_PREPARED
                    then do {
                      (ret, s) \<leftarrow> service (agm_session_prepare (svc_env K) handle) s;
                      Some (ret, if ret \<noteq> 0 then s else upd_io (\<lambda>v. v\<lparr>ap_state := AGM_IO_STATE_PREPARED\<rparr>) s) }
                    else Some (ret, s));
       if ret \<noteq> 0 then Some (ret, s)
       else if ap_state v \<noteq> AGM_IO_STATE_RUNNING
       then do {
         (ret, s) \<leftarrow> service (agm_session_start (svc_env K) handle) s;
         Some (ret, if ret \<noteq> 0 then s else upd_io (\<lambda>v. v\<lparr>ap_state := AGM_IO_STATE_RUNNING\<rparr>) s) }
       else Some (ret, s) })"

text \<open>Stop, prepare and pause are calls of the service with the handle.\<close>

definition io_session_call ::
    "(env \<Rightarrow> nat \<Rightarrow> agm_world \<Rightarrow> (int \<times> agm_world) option) \<Rightarrow> 'k plugin_env_scheme \<Rightarrow> 'z io_world_scheme \<Rightarrow>
       (int \<times> 'z io_world_scheme) option" where
  "io_session_call f K = with_io (\<lambda>v s.
     let (ret, handle) = io_get_session_handle v in
     if ret \<noteq> 0 then Some (ret, s) else service (f (svc_env K) handle) s)"

definition agm_io_stop :: "'k plugin_env_scheme \<Rightarrow> 'z io_world_scheme \<Rightarrow> (int \<times> 'z io_world_scheme) option" where
  "agm_io_stop K s = io_session_call agm_session_stop K s"

definition agm_io_drain :: "'z io_world_scheme \<Rightarrow> (int \<times> 'z io_world_scheme) option" where
  "agm_io_drain s = Some (0, s)"

text \<open>A position: the frames so far, and for a capture stream at 0 the size of a period in bytes.\<close>

definition agm_io_pointer :: "'z io_world_scheme \<Rightarrow> (int \<times> 'z io_world_scheme) option" where
  "agm_io_pointer = with_io (\<lambda>v s.
     Some (sint (if \<not> io_playback (ap_io v) \<and> ap_hw_pointer v = 0
                 then io_period_size (ap_io v) * ap_frame_size v else ap_hw_pointer v), s))"

text \<open>An area of samples: its address, its first bit and the bits from one sample to the next.\<close>

record channel_area =
  ca_addr :: u64
  ca_first :: u32
  ca_step :: u32

definition area_at :: "channel_area \<Rightarrow> u64 \<Rightarrow> u64" where
  "area_at a offset = ca_addr a + (ucast (ca_first a) + ucast (ca_step a) * offset) div 8"

text \<open>The pointer after a transfer; \<open>ret\<close> is an \<open>int\<close> that is added to an
  \<open>unsigned long\<close>.\<close>

definition advance :: "int \<Rightarrow> u64 \<Rightarrow> u64 \<Rightarrow> u64" where
  "advance ret bound p = (let p = p + of_int ret in if p > bound then p - bound else p)"

definition io_move ::
    "'k plugin_env_scheme \<Rightarrow> bool \<Rightarrow> nat \<Rightarrow> u64 \<Rightarrow> u64 \<Rightarrow> 'z io_world_scheme \<Rightarrow> ((int \<times> u64) \<times> 'z io_world_scheme) option" where
  "io_move K playback h buf count s =
     (if playback
      then do {
        ((ret, c), s) \<leftarrow> service (agm_session_write (svc_env K) h buf count) s;
        Some ((ret, case c of None \<Rightarrow> count | Some c \<Rightarrow> ucast c), s) }
      else do {
        ((ret, c), s) \<leftarrow> service (agm_session_read (svc_env K) h buf count) s;
        Some ((ret, case c of None \<Rightarrow> count | Some c \<Rightarrow> c), s) })"

definition agm_io_transfer ::
    "'k io_env_scheme \<Rightarrow> channel_area \<Rightarrow> u64 \<Rightarrow> u64 \<Rightarrow> 'z io_world_scheme \<Rightarrow> (int \<times> 'z io_world_scheme) option" where
  "agm_io_transfer K areas offset nframes = with_io (\<lambda>v s.
     let (ret, handle) = io_get_session_handle v in
     if ret \<noteq> 0 then Some (ret, s)
     else do {
       (ret, s) \<leftarrow> (if ap_state v \<noteq> AGM_IO_STATE_RUNNING then agm_io_start K s else Some (ret, s));
       if ret \<noteq> 0 then Some (ret, s)
       else do {
         ((ret, count), s) \<leftarrow> io_move K (io_playback (ap_io v)) handle (area_at areas offset) (nframes * ap_frame_size v) s;
         let frames = (if ret = 0 then sint (of_int (snd_pcm_bytes_to_frames K (ap_io v) count) :: u32) else 0);
         Some (if ret = 0 then frames else ret,
               upd_io (\<lambda>v. v\<lparr>ap_hw_pointer := advance frames (ap_boundary v) (ap_hw_pointer v)\<rparr>) s) }})"

definition agm_io_prepare :: "'k plugin_env_scheme \<Rightarrow> 'z io_world_scheme \<Rightarrow> (int \<times> 'z io_world_scheme) option" where
  "agm_io_prepare K s = io_session_call agm_session_prepare K s"

text \<open>The number of an ALSA format stored as an AGM format; a number past the last of them has no
  model.\<close>

definition agm_formats :: "agm_media_format list" where
  "agm_formats = [AGM_FORMAT_INVALID, AGM_FORMAT_PCM_S8, AGM_FORMAT_PCM_S16_LE, AGM_FORMAT_PCM_S24_LE, AGM_FORMAT_PCM_S24_3LE,
     AGM_FORMAT_PCM_S32_LE, AGM_FORMAT_MP3, AGM_FORMAT_AAC, AGM_FORMAT_FLAC, AGM_FORMAT_ALAC, AGM_FORMAT_APE, AGM_FORMAT_WMASTD,
     AGM_FORMAT_WMAPRO, AGM_FORMAT_VORBIS, AGM_FORMAT_AMR_NB, AGM_FORMAT_AMR_WB, AGM_FORMAT_AMR_WB_PLUS, AGM_FORMAT_EVRC,
     AGM_FORMAT_G711, AGM_FORMAT_QCELP, AGM_FORMAT_MAX]"

definition format_of_number :: "int \<Rightarrow> agm_media_format option" where
  "format_of_number n = (if 0 \<le> n \<and> n < int (length agm_formats) then Some (agm_formats ! nat n) else None)"

definition io_dir :: "agmio_priv \<Rightarrow> direction" where
  "io_dir v = (if io_playback (ap_io v) then RX else TX)"

definition io_set_config :: "'k plugin_env_scheme \<Rightarrow> 'z io_world_scheme \<Rightarrow> (int \<times> 'z io_world_scheme) option" where
  "io_set_config K = with_io (\<lambda>v.
     service (agm_session_set_config (svc_env K) (ap_handle v) (ap_session_config v) (ap_media_config v) (ap_buffer_config v)))"

definition agm_io_hw_params :: "'k io_env_scheme \<Rightarrow> 'z io_world_scheme \<Rightarrow> (int \<times> 'z io_world_scheme) option" where
  "agm_io_hw_params K = with_io (\<lambda>v s.
     let io = ap_io v;
         fsize = (ucast (of_int (snd_pcm_format_physical_width K (io_format io)) * io_channels io div 8 :: u32) :: u64) in
     if io_period_size io = 0 then None
     else do {
       fmt \<leftarrow> format_of_number (io_format io);
       sess_mode \<leftarrow> pcm_session_mode (ap_pcm_node v) s;
       let mc = (ap_media_config v)\<lparr>mc_rate := io_rate io, mc_channels := io_channels io, mc_format := fmt\<rparr>;
       let bc = (ap_buffer_config v)\<lparr>bc_count := ucast (io_buffer_size io div io_period_size io),
                  bc_size := io_period_size io * fsize\<rparr>;
       let sc = (ap_session_config v)\<lparr>sc_dir := io_dir v, sc_sess_mode := sess_mode\<rparr>;
       (ret, s) \<leftarrow> io_set_config K (upd_io (\<lambda>v. v\<lparr>ap_frame_size := fsize, ap_media_config := mc, ap_buffer_config := bc,
                     ap_session_config := sc, ap_period_size := ucast (io_period_size io), ap_hw_pointer := 0\<rparr>) s);
       Some (ret, if ret \<noteq> 0 then s else upd_io (\<lambda>v. v\<lparr>ap_state := AGM_IO_STATE_SETUP\<rparr>) s) })"

text \<open>The arguments are the two thresholds and the boundary of the software parameters.\<close>

definition agm_io_sw_params ::
    "'k plugin_env_scheme \<Rightarrow> u64 \<Rightarrow> u64 \<Rightarrow> u64 \<Rightarrow> 'z io_world_scheme \<Rightarrow> (int \<times> 'z io_world_scheme) option" where
  "agm_io_sw_params K start_threshold stop_threshold bound = with_io (\<lambda>v s.
     let (ret, handle) = io_get_session_handle v in
     if ret \<noteq> 0 then Some (ret, s)
     else do {
       sess_mode \<leftarrow> pcm_session_mode (ap_pcm_node v) s;
       let sc = (ap_session_config v)\<lparr>sc_dir := io_dir v, sc_sess_mode := sess_mode,
                  sc_start_threshold := ucast start_threshold, sc_stop_threshold := ucast stop_threshold\<rparr>;
       io_set_config K (upd_io (\<lambda>v. v\<lparr>ap_session_config := sc, ap_boundary := bound\<rparr>) s) })"

text \<open>The result of closing the session is not returned.\<close>

definition agm_io_close :: "'k plugin_env_scheme \<Rightarrow> 'z io_world_scheme \<Rightarrow> (int \<times> 'z io_world_scheme) option" where
  "agm_io_close K = with_io (\<lambda>v s.
     let (ret, handle) = io_get_session_handle v in
     if ret \<noteq> 0 then Some (ret, s)
     else do {
       (_, s) \<leftarrow> service (agm_session_close (svc_env K) handle) s;
       Some (0, (snd_card_def_put_card (ap_card_node v) s)\<lparr>io_plug := None\<rparr>) })"

definition agm_io_pause :: "'k plugin_env_scheme \<Rightarrow> bool \<Rightarrow> 'z io_world_scheme \<Rightarrow> (int \<times> 'z io_world_scheme) option" where
  "agm_io_pause K enable s = io_session_call (if enable then agm_session_pause else agm_session_resume) K s"

definition agm_io_poll_desc_count :: "'z io_world_scheme \<Rightarrow> (int \<times> 'z io_world_scheme) option" where
  "agm_io_poll_desc_count s = Some (1, s)"

abbreviation (input) IO_POLLIN :: int where "IO_POLLIN \<equiv> 1"
abbreviation (input) IO_POLLOUT :: int where "IO_POLLOUT \<equiv> 4"

text \<open>The result with the file and the events that are written to the descriptor.\<close>

definition agm_io_poll_desc :: "u32 \<Rightarrow> 'z io_world_scheme \<Rightarrow> ((int \<times> (int \<times> int) option) \<times> 'z io_world_scheme) option" where
  "agm_io_poll_desc space = with_io (\<lambda>v s.
     Some (if space \<noteq> 1 then (- EINVAL, None)
           else (1, Some (ap_event_fd v, if io_playback (ap_io v) then IO_POLLOUT else IO_POLLIN)), s))"

text \<open>The two arguments say which of the two events the descriptor has; the result comes with the
  events that are written, if any.\<close>

definition agm_io_poll_revents :: "bool \<Rightarrow> bool \<Rightarrow> u32 \<Rightarrow> 'z io_world_scheme \<Rightarrow> ((int \<times> int option) \<times> 'z io_world_scheme) option" where
  "agm_io_poll_revents pollin pollout nfds s =
     Some (if nfds \<noteq> 1 then (- EINVAL, None)
           else (0, if pollin then Some IO_POLLIN else if pollout then Some IO_POLLOUT else None), s)"

section \<open>Opening\<close>

abbreviation (input) SND_PCM_IOPLUG_HW_ACCESS :: int where "SND_PCM_IOPLUG_HW_ACCESS \<equiv> 0"
abbreviation (input) SND_PCM_IOPLUG_HW_FORMAT :: int where "SND_PCM_IOPLUG_HW_FORMAT \<equiv> 1"
abbreviation (input) SND_PCM_IOPLUG_HW_CHANNELS :: int where "SND_PCM_IOPLUG_HW_CHANNELS \<equiv> 2"
abbreviation (input) SND_PCM_IOPLUG_HW_RATE :: int where "SND_PCM_IOPLUG_HW_RATE \<equiv> 3"
abbreviation (input) SND_PCM_IOPLUG_HW_PERIOD_BYTES :: int where "SND_PCM_IOPLUG_HW_PERIOD_BYTES \<equiv> 4"
abbreviation (input) SND_PCM_IOPLUG_HW_PERIODS :: int where "SND_PCM_IOPLUG_HW_PERIODS \<equiv> 6"

text \<open>Interleaved access by copying and by mapping; the formats U8, S16_LE, S32_LE, S24_3LE and
  S24_LE.\<close>

definition io_access_list :: "int list" where
  "io_access_list = [3, 0]"

definition io_format_list :: "int list" where
  "io_format_list = [1, 2, 10, 32, 6]"

definition io_constraints :: "client_call list" where
  "io_constraints =
     [CL_IOPLUG_PARAM_LIST SND_PCM_IOPLUG_HW_ACCESS io_access_list,
      CL_IOPLUG_PARAM_LIST SND_PCM_IOPLUG_HW_FORMAT io_format_list,
      CL_IOPLUG_PARAM_MINMAX SND_PCM_IOPLUG_HW_CHANNELS 1 8,
      CL_IOPLUG_PARAM_MINMAX SND_PCM_IOPLUG_HW_RATE 8000 384000,
      CL_IOPLUG_PARAM_MINMAX SND_PCM_IOPLUG_HW_PERIOD_BYTES 64 122880,
      CL_IOPLUG_PARAM_MINMAX SND_PCM_IOPLUG_HW_PERIODS 1 8]"

text \<open>Calls up to the first that returns a negative code.\<close>

fun calls_until_negative :: "'k client_env_scheme \<Rightarrow> client_call list \<Rightarrow> 'z client_world_scheme \<Rightarrow> (int \<times> 'z client_world_scheme) option" where
  "calls_until_negative K [] s = Some (0, s)"
| "calls_until_negative K (c # cs) s = do {
     (ret, s) \<leftarrow> client_ecall K c s;
     if ret < 0 then Some (ret, s) else calls_until_negative K cs s }"

definition agm_hw_constraint :: "'k client_env_scheme \<Rightarrow> 'z client_world_scheme \<Rightarrow> (int \<times> 'z client_world_scheme) option" where
  "agm_hw_constraint K s = calls_until_negative K io_constraints s"

text \<open>The configuration of the plugin, as the name of each field, if it can be read, and its
  value, if that is an integer. The result is the card, the node and the device number
  kept in the object, or \<open>None\<close> when a value has the wrong type.\<close>

fun io_config :: "(string option \<times> int option) list \<Rightarrow> int \<times> int \<times> u32 \<Rightarrow> (int \<times> int \<times> u32) option" where
  "io_config [] x = Some x"
| "io_config ((key, val) # conf) (cnum, device, priv_device) =
     (if key = Some ''card''
      then (case val of None \<Rightarrow> None | Some n \<Rightarrow> io_config conf (n, device, priv_device))
      else if key = Some ''device''
      then (case val of None \<Rightarrow> None | Some n \<Rightarrow> io_config conf (cnum, n, of_int n))
      else io_config conf (cnum, device, priv_device))"

definition agmio_priv0 :: agmio_priv where
  "agmio_priv0 = \<lparr>ap_io = \<lparr>io_playback = True, io_format = 0, io_channels = 0, io_rate = 0, io_period_size = 0, io_buffer_size = 0\<rparr>,
     ap_card_node = None, ap_pcm_node = (0, SND_NODE_TYPE_PCM, 0), ap_handle = 0, ap_media_config = media_config0,
     ap_buffer_config = buffer_config0, ap_session_config = session_config0, ap_period_size = 0, ap_frame_size = 0,
     ap_state = AGM_IO_STATE_OPEN, ap_hw_pointer = 0, ap_boundary = 0, ap_event_fd = - 1\<rparr>"

text \<open>\<open>free(priv)\<close> at the end of a failing open; freeing the object twice is undefined.\<close>

definition io_free :: "int \<Rightarrow> 'z io_world_scheme \<Rightarrow> (int \<times> 'z io_world_scheme) option" where
  "io_free ret = with_io (\<lambda>v s. Some (ret, s\<lparr>io_plug := None\<rparr>))"

definition ioplug_delete :: "'k io_env_scheme \<Rightarrow> 'z io_world_scheme \<Rightarrow> (unit \<times> 'z io_world_scheme) option" where
  "ioplug_delete K s = do {
     (_, s) \<leftarrow> client_ecall K CL_IOPLUG_DELETE s;
     if \<not> delete_closes K then Some ((), s) else do { (_, s) \<leftarrow> agm_io_close K s; Some ((), s) } }"

definition io_create :: "'k io_env_scheme \<Rightarrow> 'z io_world_scheme \<Rightarrow> (int \<times> 'z io_world_scheme) option" where
  "io_create K s = do {
     (ret, s) \<leftarrow> client_ecall K CL_IOPLUG_CREATE s;
     if ret < 0 then io_free ret s
     else do {
       (fd, s) \<leftarrow> client_ecall K CL_EVENTFD s;
       let s = upd_io (\<lambda>v. v\<lparr>ap_event_fd := fd\<rparr>) s;
       if fd = - 1 then io_free (- EINVAL) s
       else do {
         (ret, s) \<leftarrow> agm_hw_constraint K s;
         if ret < 0 then do { (_, s) \<leftarrow> ioplug_delete K s; io_free ret s } else Some (0, s) }}}"

definition io_open_session ::
    "'k plugin_env_scheme \<Rightarrow> nat \<Rightarrow> u32 \<Rightarrow> u32 \<Rightarrow> 'z io_world_scheme \<Rightarrow> ((nat \<times> node_ptr) option \<times> 'z io_world_scheme) option" where
  "io_open_session K c device session_id s = do {
     node \<leftarrow> snd_card_def_get_node (Some c) device 0 s;
     case node of None \<Rightarrow> Some (None, s)
     | Some n \<Rightarrow> do {
         sess_mode \<leftarrow> pcm_session_mode n s;
         ((ret, h), s) \<leftarrow> service (agm_session_open (svc_env K) session_id sess_mode True) s;
         if ret \<noteq> 0 then Some (None, s)
         else case h of None \<Rightarrow> None | Some h \<Rightarrow> Some (Some (h, n), s) }}"

definition agm_io_open ::
    "'k io_env_scheme \<Rightarrow> (string option \<times> int option) list \<Rightarrow> bool \<Rightarrow> 'z io_world_scheme \<Rightarrow> (int \<times> 'z io_world_scheme) option" where
  "agm_io_open K conf playback s = do {
     (ok, s) \<leftarrow> client_callocs 4 K s;
     if \<not> ok then Some (- ENOMEM, s)
     else case io_config conf (0, 100, 0) of
       None \<Rightarrow> Some (- EINVAL, s)
     | Some (cnum, device, priv_device) \<Rightarrow> do {
         (card_node, s) \<leftarrow> get_card K (of_int cnum) s;
         case card_node of None \<Rightarrow> Some (- EINVAL, s)
         | Some c \<Rightarrow> do {
             (r, s) \<leftarrow> io_open_session K c (of_int device) priv_device s;
             case r of None \<Rightarrow> Some (- EINVAL, s)
             | Some (h, n) \<Rightarrow>
                 io_create K (s\<lparr>io_plug := Some (agmio_priv0\<lparr>ap_card_node := card_node, ap_pcm_node := n, ap_handle := h,
                   ap_io := (ap_io agmio_priv0)\<lparr>io_playback := playback\<rparr>\<rparr>)\<rparr>) }}}"

end
