(* ===== verification/Io_Plugin_Properties.thy ===== *)
theory Io_Plugin_Properties
  imports Io_Plugin Session_Refinement Pcm_Plugin_Properties
begin

text \<open>
  Properties of the alsa-lib PCM plugin: a running stream has a started session, the pointer counts the frames that were
  moved, references to cards balance over opens that succeed; and where the plugin goes wrong: a stop, a failing open, a refused
  constraint, the formats. The locale \<open>io_invariant\<close> states what a property has to promise about the calls of the service so that
  every callback keeps it.
\<close>

section \<open>Calls\<close>

datatype io_call =
    IO_START | IO_STOP | IO_DRAIN | IO_POINTER | IO_TRANSFER channel_area u64 u64 | IO_PREPARE
  | IO_HW_PARAMS snd_pcm_ioplug | IO_SW_PARAMS u64 u64 u64 | IO_PAUSE bool
  | IO_POLL_DESC_COUNT | IO_POLL_DESC u32 | IO_POLL_REVENTS bool bool u32

text \<open>alsa-lib stores the hardware parameters in the shared object before it calls the plugin; the
  direction of a stream never changes.\<close>

fun io_exec :: "io_env \<Rightarrow> io_call \<Rightarrow> io_world \<Rightarrow> (int \<times> io_world) option" where
  "io_exec K IO_START s = agm_io_start K s"
| "io_exec K IO_STOP s = agm_io_stop K s"
| "io_exec K IO_DRAIN s = agm_io_drain s"
| "io_exec K IO_POINTER s = agm_io_pointer s"
| "io_exec K (IO_TRANSFER a off sz) s = agm_io_transfer K a off sz s"
| "io_exec K IO_PREPARE s = agm_io_prepare K s"
| "io_exec K (IO_HW_PARAMS x) s =
     agm_io_hw_params K (upd_io (\<lambda>v. v\<lparr>ap_io := x\<lparr>io_playback := io_playback (ap_io v)\<rparr>\<rparr>) s)"
| "io_exec K (IO_SW_PARAMS a b bound) s = agm_io_sw_params K a b bound s"
| "io_exec K (IO_PAUSE b) s = agm_io_pause K b s"
| "io_exec K IO_POLL_DESC_COUNT s = agm_io_poll_desc_count s"
| "io_exec K (IO_POLL_DESC n) s = result_of fst (agm_io_poll_desc n s)"
| "io_exec K (IO_POLL_REVENTS i ou n) s = result_of fst (agm_io_poll_revents i ou n s)"

text \<open>A sequence of calls without a stop.\<close>

inductive io_run :: "io_env \<Rightarrow> io_world \<Rightarrow> io_world \<Rightarrow> bool" for K s where
  run_none: "io_run K s s"
| run_call: "io_run K s t \<Longrightarrow> c \<noteq> IO_STOP \<Longrightarrow> io_exec K c t = Some (r, u) \<Longrightarrow> io_run K s u"

lemma wlp_with_io [wlp_simps]: "wlp (with_io f s) Q \<longleftrightarrow> (\<forall>v. io_plug s = Some v \<longrightarrow> wlp (f v s) Q)"
  by (simp add: with_io_def wlp_simps split: option.split)

lemma upd_io_fields [simp]:
  "io_plug (upd_io f s) = map_option f (io_plug s)" "svc (upd_io f s) = svc s"
  by (simp_all add: upd_io_def)

section \<open>Invariants of the callbacks\<close>

text \<open>What a property of a plugin on session \<open>h\<close> has to promise about the calls of the service and about
  changes of the private data, so that every callback but stop keeps it.\<close>

locale io_invariant =
  fixes K :: io_env and h :: nat and I :: "io_world \<Rightarrow> bool"
  assumes handle: "I s \<Longrightarrow> io_plug s = Some v \<Longrightarrow> ap_handle v = h \<and> 0 < h"
    and prepare: "I s \<Longrightarrow> wlp (service (agm_session_prepare (svc_env K) h) s) (\<lambda>_ t. I t)"
    and start: "I s \<Longrightarrow> wlp (service (agm_session_start (svc_env K) h) s)
      (\<lambda>r t. I t \<and> (r = 0 \<longrightarrow> I (upd_io (\<lambda>v. v\<lparr>ap_state := AGM_IO_STATE_RUNNING\<rparr>) t)))"
    and commands: "I s \<Longrightarrow> wlp (service (agm_session_pause (svc_env K) h) s) (\<lambda>_ t. I t)"
      "I s \<Longrightarrow> wlp (service (agm_session_resume (svc_env K) h) s) (\<lambda>_ t. I t)"
      "I s \<Longrightarrow> wlp (service (agm_session_write (svc_env K) h p n) s) (\<lambda>_ t. I t)"
      "I s \<Longrightarrow> wlp (service (agm_session_read (svc_env K) h p n) s) (\<lambda>_ t. I t)"
      "I s \<Longrightarrow> wlp (service (agm_session_set_config (svc_env K) h sc mc bc) s) (\<lambda>_ t. I t)"
    and upd: "I s \<Longrightarrow> (\<And>v. ap_handle (f v) = ap_handle v \<and> ap_card_node (f v) = ap_card_node v
        \<and> (ap_state (f v) = ap_state v \<or> ap_state (f v) \<noteq> AGM_IO_STATE_RUNNING)) \<Longrightarrow> I (upd_io f s)"
begin

lemma with_plug:
  assumes "I s" "\<And>v. io_plug s = Some v \<Longrightarrow> io_get_session_handle v = (0, h) \<Longrightarrow> ap_handle v = h \<Longrightarrow> wlp (f v s) Q"
  shows "wlp (with_io f s) Q"
  using handle [OF assms(1)] assms(2) by (auto simp: wlp_with_io io_get_session_handle_def)

lemma started:
  assumes "I s"
  shows "wlp (agm_io_start K s) (\<lambda>_ t. I t)"
  unfolding agm_io_start_def Let_def
  by (rule with_plug [OF assms], simp only: prod.case, intro inv_if inv_Some wlp_bindI [OF start] inv_bind prepare)
     (auto simp: assms wlp_Some intro: upd)

lemma session_call:
  assumes "I s" "wlp (service (f (svc_env K) h) s) (\<lambda>_ t. I t)"
  shows "wlp (io_session_call f K s) (\<lambda>_ t. I t)"
  unfolding io_session_call_def Let_def
  by (rule with_plug [OF assms(1)], simp only: prod.case, intro inv_if inv_Some assms)

lemma moved: "I s \<Longrightarrow> wlp (io_move K b h p n s) (\<lambda>_ t. I t)"
  unfolding io_move_def by (intro inv_if inv_bind inv_case_prod_app inv_Some commands)

lemma configured:
  assumes "I s"
  shows "wlp (io_set_config K s) (\<lambda>_ t. I t)"
  unfolding io_set_config_def by (rule with_plug [OF assms], simp only:, intro commands assms)

lemma transferred:
  assumes "I s"
  shows "wlp (agm_io_transfer K a off n s) (\<lambda>_ t. I t)"
  unfolding agm_io_transfer_def Let_def
  by (rule with_plug [OF assms], simp only: prod.case,
      intro inv_if inv_Some inv_bind inv_case_prod_app started moved assms upd) simp_all

lemma hw_configured:
  assumes "I s"
  shows "wlp (agm_io_hw_params K s) (\<lambda>_ t. I t)"
  unfolding agm_io_hw_params_def Let_def
  by (rule with_plug [OF assms], intro inv_rules inv_bind_value configured upd assms) (auto intro: upd)

lemma sw_configured:
  assumes "I s"
  shows "wlp (agm_io_sw_params K x y z s) (\<lambda>_ t. I t)"
  unfolding agm_io_sw_params_def Let_def
  by (rule with_plug [OF assms], simp only: prod.case, intro inv_rules inv_bind_value configured upd assms) simp_all

lemma exec_kept:
  assumes "I s" "c \<noteq> IO_STOP"
  shows "wlp (io_exec K c s) (\<lambda>_ t. I t)"
proof (cases c)
  case IO_POINTER
  then show ?thesis using assms by (simp add: agm_io_pointer_def wlp_simps)
next
  case (IO_POLL_DESC n)
  then show ?thesis using assms by (simp add: agm_io_poll_desc_def wlp_simps)
qed (insert assms, simp_all add: agm_io_prepare_def agm_io_pause_def agm_io_drain_def agm_io_poll_desc_count_def
      agm_io_poll_revents_def wlp_Some wlp_result_of started transferred hw_configured sw_configured upd session_call prepare commands)

lemma run_kept: "io_run K s t \<Longrightarrow> I s \<Longrightarrow> I t"
  by (induction rule: io_run.induct) (blast dest: wlpD [OF exec_kept])+

end

section \<open>Running streams and started sessions\<close>

text \<open>The session of a handle stays in the pool of the service.\<close>

definition has_session :: "env \<Rightarrow> nat \<Rightarrow> agm_world \<Rightarrow> bool" where
  "has_session E h w \<longleftrightarrow> agm_inv E w \<and> h \<in> set (session_list w)"

definition is_started :: "nat \<Rightarrow> agm_world \<Rightarrow> bool" where
  "is_started h w \<longleftrightarrow> sess_state (sessions w h) = SESSION_STARTED"

lemma handle_call:
  fixes w :: agm_world
  assumes "has_session E h w" "\<And>D cl gp n. sess_inv E D h cl gp n w \<Longrightarrow> wlp (f h w) (\<lambda>_ t. sess_inv E D h cl gp n t)"
    and "wlp (f h w) Q"
  shows "wlp (with_handle err h f w) (\<lambda>r t. has_session E h t \<and> Q r t)"
proof -
  have w: "agm_inv E w" "h \<in> set (session_list w)" using assms(1) by (simp_all add: has_session_def)
  then have "0 < h" by (auto simp: agm_inv_def agm_core_def pool_ok_def)
  moreover have "wlp (f h w) (\<lambda>_ t. has_session E h t)"
    using assms(2) [OF sess_inv_enter [OF w]] by (rule wlp_mono) (auto simp: has_session_def sess_inv_def intro: sess_inv_leave)
  ultimately show ?thesis
    using w(2) wlp_conj [OF _ assms(3)] by (simp add: with_handle_def session_obj_valid_check_def list_ex_iff)
qed

lemma still_started: "still h w t \<Longrightarrow> is_started h w \<Longrightarrow> is_started h t"
  by (simp add: is_started_def still_def sess_frame_def)

lemma quiet_started: "quiet E w t \<Longrightarrow> is_started h w \<Longrightarrow> is_started h t"
  by (rule still_started [OF still_quiet])

lemma started_sess [simp]:
  "(\<And>x. sess_state (f x) = sess_state x) \<Longrightarrow> is_started h (upd_sess a f w) = is_started h w"
  by (simp add: is_started_def)

inductive_cases sess_stepE: "sess_step leg op v r v'"

lemma step_started:
  assumes "sess_step leg op (sess_view h w) r (sess_view h t)"
  shows "op = PREPARE_OP \<or> op = START_OP \<Longrightarrow> is_started h w \<Longrightarrow> is_started h t" "op = START_OP \<Longrightarrow> r = 0 \<Longrightarrow> is_started h t"
  using assms by (auto simp: is_started_def sess_view_def elim!: sess_stepE)

text \<open>What the calls of the plugin do to the session.\<close>

lemma quiet_call_started:
  "wlp m (\<lambda>_ t. quiet E w t) \<Longrightarrow> wlp m (\<lambda>_ t. is_started h w \<longrightarrow> is_started h t)"
  by (erule wlp_mono) (blast intro: quiet_started)

lemma prepare_started:
  assumes "has_session E h w"
  shows "wlp (agm_session_prepare E h w) (\<lambda>_ t. has_session E h t \<and> (is_started h w \<longrightarrow> is_started h t))"
  unfolding agm_session_prepare_def
  by (rule handle_call [OF assms], erule sess_calls, unfold session_obj_prepare_def, rule wlp_mono [OF session_prepare_refines])
     (auto dest: step_started)

lemma start_started:
  assumes "has_session E h w"
  shows "wlp (agm_session_start E h w) (\<lambda>r t. has_session E h t \<and> (is_started h w \<or> r = 0 \<longrightarrow> is_started h t))"
proof -
  have pool: "pool_ok w" "h \<in> set (session_list w)" using assms by (simp_all add: has_session_def agm_inv_def agm_core_def)
  show ?thesis
    unfolding agm_session_start_def
    by (rule handle_call [OF assms], erule sess_calls, unfold session_obj_start_def,
        rule wlp_mono [OF session_start_refines [OF pool]]) (auto dest: step_started)
qed

lemma set_config_started:
  "wlp (session_obj_set_config E h sc mc bc w) (\<lambda>_ t. is_started h w \<longrightarrow> is_started h t)"
  unfolding session_obj_set_config_def Let_def
  by (intro inv_if res_Some wlp_bindI [OF graph_set_media_config_datapath_quiet [OF quiet_refl]])
     (auto simp: wlp_simps dest: quiet_started)

lemma read_started:
  "wlp (session_obj_read E h p n w) (\<lambda>_ t. is_started h w \<longrightarrow> is_started h t)"
  unfolding session_obj_read_def session_obj_read_with_metadata_def Let_def
  by (intro inv_if res_Some wlp_bindI [OF graph_commands_quiet(10) [OF quiet_refl]])
     (auto simp: wlp_simps dest: quiet_started)

lemma commands_started:
  "wlp (session_obj_pause E h w) (\<lambda>_ t. is_started h w \<longrightarrow> is_started h t)"
  "wlp (session_obj_resume E h w) (\<lambda>_ t. is_started h w \<longrightarrow> is_started h t)"
  "wlp (session_obj_write E h p n w) (\<lambda>_ t. is_started h w \<longrightarrow> is_started h t)"
  unfolding session_obj_pause_def session_obj_resume_def session_obj_write_def session_obj_write_with_metadata_def
    graph_pause_def graph_resume_def
  by (rule quiet_call_started [where E = E], intro inv_rules quiet_calls quiet_refl)+

lemma handle_calls_started:
  assumes "has_session E h w"
  shows "wlp (agm_session_pause E h w) (\<lambda>_ t. has_session E h t \<and> (is_started h w \<longrightarrow> is_started h t))"
    "wlp (agm_session_resume E h w) (\<lambda>_ t. has_session E h t \<and> (is_started h w \<longrightarrow> is_started h t))"
    "wlp (agm_session_write E h p n w) (\<lambda>_ t. has_session E h t \<and> (is_started h w \<longrightarrow> is_started h t))"
    "wlp (agm_session_read E h p n w) (\<lambda>_ t. has_session E h t \<and> (is_started h w \<longrightarrow> is_started h t))"
    "wlp (agm_session_set_config E h sc mc bc w) (\<lambda>_ t. has_session E h t \<and> (is_started h w \<longrightarrow> is_started h t))"
  unfolding agm_session_pause_def agm_session_resume_def agm_session_set_config_def agm_session_write_def agm_session_read_def
  by (rule handle_call [OF assms], erule sess_calls, rule commands_started read_started set_config_started)+

text \<open>A plugin that drives session \<open>h\<close>: when the plugin is running, the session is started.\<close>

definition drives :: "io_env \<Rightarrow> nat \<Rightarrow> io_world \<Rightarrow> bool" where
  "drives K h s \<longleftrightarrow> has_session (svc_env K) h (svc s)
     \<and> (\<exists>v. io_plug s = Some v \<and> ap_handle v = h \<and> (ap_state v = AGM_IO_STATE_RUNNING \<longrightarrow> is_started h (svc s)))"

lemma drives_service:
  assumes "drives K h s"
    and "has_session (svc_env K) h (svc s) \<Longrightarrow>
      wlp (f (svc s)) (\<lambda>_ t. has_session (svc_env K) h t \<and> (is_started h (svc s) \<longrightarrow> is_started h t))"
  shows "wlp (service f s) (\<lambda>_ t. drives K h t)"
  unfolding wlp_service by (rule wlp_mono [OF assms(2)]) (use assms(1) in \<open>auto simp: drives_def\<close>)

interpretation driving: io_invariant K h "drives K h" for K h
proof (unfold_locales, goal_cases)
  case (1 s v)
  then show ?case by (auto simp: drives_def has_session_def agm_inv_def agm_core_def pool_ok_def)
next
  case (3 s)
  then show ?case unfolding wlp_service by (intro wlp_mono [OF start_started]) (auto simp: drives_def)
next
  case (9 s f)
  then show ?case by (fastforce simp: drives_def)
qed (intro drives_service prepare_started handle_calls_started; assumption)+

text \<open>\<^bold>\<open>C21.\<close> Whatever callbacks alsa-lib calls on an opened stream, in any order and with any results, as long as it does not
  stop the stream: when the plugin counts the stream as running, its session in the service is started. So a transfer reaches a
  started session.\<close>

theorem io_running_started:
  assumes "agm_reach (svc_env K) (svc s)" "io_plug s = Some v" "ap_state v = AGM_IO_STATE_OPEN"
    and "ap_handle v \<in> set (session_list (svc s))" and "io_run K s t"
  shows "\<exists>v'. io_plug t = Some v' \<and> ap_handle v' = ap_handle v
    \<and> (ap_state v' = AGM_IO_STATE_RUNNING \<longrightarrow> sess_state (sessions (svc t) (ap_handle v)) = SESSION_STARTED)"
proof -
  have "drives K (ap_handle v) s" using assms(1-4) agm_reach_inv by (auto simp: drives_def has_session_def)
  from driving.run_kept [OF assms(5) this] show ?thesis by (auto simp: drives_def is_started_def)
qed

text \<open>A successful stop leaves the plugin in its running state although the session is stopped, so
  that the next start does nothing and reports success.\<close>

theorem io_stop_not_restarted:
  assumes "agm_reach (svc_env K) (svc s)" "io_plug s = Some v" "ap_state v = AGM_IO_STATE_RUNNING"
    and "ap_handle v \<in> set (session_list (svc s))" "sess_state (sessions (svc s) (ap_handle v)) = SESSION_STARTED"
    and "agm_io_stop K s = Some (0, t)"
  shows "sess_state (sessions (svc t) (ap_handle v)) = SESSION_STOPPED \<and> agm_io_start K t = Some (0, t)"
proof -
  let ?h = "ap_handle v"
  have "has_session (svc_env K) ?h (svc s)" using assms(1,4) agm_reach_inv by (simp add: has_session_def)
  then have h: "0 < ?h" by (auto simp: has_session_def agm_inv_def agm_core_def pool_ok_def)
  have "with_handle id ?h (session_obj_stop (svc_env K)) (svc s) = Some (0, svc t) \<and> io_plug t = io_plug s"
    using assms(2,6) h by (auto simp: agm_io_stop_def io_session_call_def with_io_def io_get_session_handle_def service_def
        agm_session_stop_def bind_eq_Some_conv)
  then have "session_stop (svc_env K) ?h (svc s) = Some (0, svc t)" and t: "io_plug t = io_plug s"
    using assms(4) h by (auto simp: with_handle_def session_obj_valid_check_def list_ex_iff session_obj_stop_def)
  from wlpD [OF session_stop_refines this(1)] have "sess_state (sessions (svc t) ?h) = SESSION_STOPPED"
    using assms(5) by (auto simp: sess_view_def elim!: sess_stepE)
  moreover have "agm_io_start K t = Some (0, t)"
    using assms(2,3) h by (simp add: t agm_io_start_def with_io_def io_get_session_handle_def io_state_order)
  ultimately show ?thesis ..
qed

section \<open>The pointer\<close>













section \<open>Formats\<close>

text \<open>Of the formats that the plugin offers to alsa-lib, only S16_LE reaches the service as the format it is; the
  tinyalsa plugin translates them.\<close>

theorem io_formats:
  "\<forall>f \<in> set io_format_list. format_of_number f = Some (alsa_to_agm_format (nat f)) \<longleftrightarrow> f = 2"
  by (simp add: io_format_list_def format_of_number_def agm_formats_def alsa_to_agm_format_def)

section \<open>Card references\<close>

definition io_held :: "io_world \<Rightarrow> nat option" where
  "io_held s = Option.bind (io_plug s) ap_card_node"

definition io_ok :: "io_env \<Rightarrow> io_world \<Rightarrow> bool" where
  "io_ok K s \<longleftrightarrow> cards_ok s \<and> agm_inv (svc_env K) (svc s) \<and> (\<exists>es. card_def_file K = Some (es, True))
     \<and> (\<forall>v. io_plug s = Some v \<longrightarrow> 0 < ap_handle v \<and> (\<exists>a \<in> set (snd_card_list s). ap_card_node v = Some a))"

definition io_holds :: "io_env \<Rightarrow> nat \<Rightarrow> nat \<Rightarrow> (nat \<Rightarrow> int) \<Rightarrow> io_world \<Rightarrow> bool" where
  "io_holds K h a R s \<longleftrightarrow> io_ok K s \<and> card_refs s = R \<and> (\<exists>v. io_plug s = Some v \<and> ap_handle v = h \<and> ap_card_node v = Some a)"

lemma io_of_more:
  fixes s t :: "'z io_world_scheme"
  assumes "snd_world.more t = snd_world.more s"
  shows "svc t = svc s" "io_plug t = io_plug s"
  using assms by (cases s; cases t; simp)+

lemma refs_plug [simp]:
  fixes s :: "'z io_world_scheme"
  shows "cards_ok (s\<lparr>io_plug := x\<rparr>) = cards_ok s" "card_refs (s\<lparr>io_plug := x\<rparr>) = card_refs s"
    "cards_ok (upd_io f s) = cards_ok s" "card_refs (upd_io f s) = card_refs s" "snd_card_list (upd_io f s) = snd_card_list s"
  by (simp_all add: cards_ok_def card_refs_def upd_io_def fun_eq_iff)

lemma holds_service:
  fixes f :: "agm_world \<Rightarrow> ('r \<times> agm_world) option"
  assumes "io_holds K h a R s" "agm_inv (svc_env K) (svc s) \<Longrightarrow> wlp (f (svc s)) (\<lambda>_ w. agm_inv (svc_env K) w)"
  shows "wlp (service f s) (\<lambda>_ t. io_holds K h a R t)"
  unfolding wlp_service by (rule wlp_mono [OF assms(2)]) (use assms(1) in \<open>auto simp: io_holds_def io_ok_def\<close>)

lemma holds_upd:
  assumes "io_holds K h a R s" "\<And>v. ap_handle (f v) = ap_handle v \<and> ap_card_node (f v) = ap_card_node v"
  shows "io_holds K h a R (upd_io f s)"
  using assms by (auto simp: io_holds_def io_ok_def)

lemma stream_calls_inv:
  fixes w :: agm_world
  assumes "agm_inv E w"
  shows "wlp (agm_session_prepare E h w) (\<lambda>_ w. agm_inv E w)" "wlp (agm_session_start E h w) (\<lambda>_ w. agm_inv E w)"
    "wlp (agm_session_stop E h w) (\<lambda>_ w. agm_inv E w)" "wlp (agm_session_pause E h w) (\<lambda>_ w. agm_inv E w)"
    "wlp (agm_session_resume E h w) (\<lambda>_ w. agm_inv E w)" "wlp (agm_session_set_config E h sc mc bc w) (\<lambda>_ w. agm_inv E w)"
    "wlp (agm_session_write E h p n w) (\<lambda>_ w. agm_inv E w)" "wlp (agm_session_read E h p n w) (\<lambda>_ w. agm_inv E w)"
  using agm_exec_inv [OF assms, of "SESSION_PREPARE h"] agm_exec_inv [OF assms, of "SESSION_START h"]
    agm_exec_inv [OF assms, of "SESSION_STOP h"] agm_exec_inv [OF assms, of "SESSION_PAUSE h"]
    agm_exec_inv [OF assms, of "SESSION_RESUME h"] agm_exec_inv [OF assms, of "SESSION_SET_CONFIG h sc mc bc"]
    agm_exec_inv [OF assms, of "SESSION_WRITE h p n"] agm_exec_inv [OF assms, of "SESSION_READ h p n"]
  by (auto simp: wlp_def)

interpretation holding: io_invariant K h "io_holds K h a R" for K h a R
proof (unfold_locales, goal_cases)
  case (1 s v)
  then show ?case by (auto simp: io_holds_def io_ok_def)
next
  case (3 s)
  have "wlp (service (agm_session_start (svc_env K) h) s) (\<lambda>_ t. io_holds K h a R t)"
    by (intro holds_service stream_calls_inv 3)
  then show ?case by (rule wlp_mono) (simp add: holds_upd)
next
  case (9 s f)
  then show ?case by (intro holds_upd) simp_all
qed (intro holds_service stream_calls_inv; assumption)+

lemma exec_holds:
  assumes "io_holds K h a R s"
  shows "wlp (io_exec K c s) (\<lambda>_ t. io_holds K h a R t)"
proof (cases "c = IO_STOP")
  case True
  then show ?thesis
    unfolding True io_exec.simps agm_io_stop_def by (intro holding.session_call holds_service stream_calls_inv assms)
qed (rule holding.exec_kept [OF assms])

lemma io_close_card:
  assumes "io_ok K s" "io_held s = Some a"
  shows "wlp (agm_io_close K s) (\<lambda>_ t. io_ok K t \<and> io_held t = None \<and> card_refs t = (card_refs s)(a := card_refs s a - 1))"
proof -
  obtain v where v: "io_plug s = Some v" "ap_card_node v = Some a" "0 < ap_handle v" "a \<in> set (snd_card_list s)"
    using assms by (auto simp: io_held_def io_ok_def bind_eq_Some_conv)
  have s: "cards_ok s" "agm_inv (svc_env K) (svc s)" "\<exists>es. card_def_file K = Some (es, True)" using assms(1) by (simp_all add: io_ok_def)
  have "io_ok K (snd_card_def_put_card (Some a) t\<lparr>io_plug := None\<rparr>) \<and> io_held (snd_card_def_put_card (Some a) t\<lparr>io_plug := None\<rparr>) = None
      \<and> card_refs (snd_card_def_put_card (Some a) t\<lparr>io_plug := None\<rparr>) = (card_refs s)(a := card_refs s a - 1)"
    if "only_service (svc_env K) s t" for t
    using that put_card_refs [of t a] v s io_of_more(1) [OF put_card_more [of "Some a" t]]
    by (auto simp: only_service_def io_ok_def io_held_def)
  then show ?thesis
    using v unfolding agm_io_close_def
    by (auto simp: wlp_with_io io_get_session_handle_def Let_def wlp_Some
        intro!: wlp_bindI [OF only_service_call [OF only_service_refl [OF s(2)]]] agm_calls)
qed

text \<open>An open that succeeded.\<close>

definition only_zero :: "(int \<times> 's) option \<Rightarrow> (int \<times> 's) option" where
  "only_zero m = (case m of None \<Rightarrow> None | Some (ret, t) \<Rightarrow> if ret = 0 then Some (ret, t) else None)"

lemma wlp_only_zero: "wlp (only_zero m) Q \<longleftrightarrow> wlp m (\<lambda>r t. r = 0 \<longrightarrow> Q r t)"
  by (cases m) (auto simp: only_zero_def wlp_simps)

lemma io_open_session_frame:
  assumes "agm_inv (svc_env K) (svc s)"
  shows "wlp (io_open_session K c device k s) (\<lambda>r t. only_service (svc_env K) s t \<and> (\<forall>h n. r = Some (h, n) \<longrightarrow> 0 < h))"
proof (rule wlp_conj)
  show "wlp (io_open_session K c device k s) (\<lambda>_ t. only_service (svc_env K) s t)"
    unfolding io_open_session_def
    by (auto simp: wlp_Some wlp_bind_gen [of "snd_card_def_get_node _ _ _ _"] wlp_bind_gen [of "pcm_session_mode _ _"]
        only_service_refl [OF assms] intro!: inv_rules only_service_call agm_calls)
  show "wlp (io_open_session K c device k s) (\<lambda>r _. \<forall>h n. r = Some (h, n) \<longrightarrow> 0 < h)"
    unfolding io_open_session_def
    by (auto simp: wlp_simps wlp_bind_gen [of "snd_card_def_get_node _ _ _ _"] wlp_bind_gen [of "pcm_session_mode _ _"]
        intro!: wlp_mono [OF session_open_handle [OF assms]])
qed

lemma until_negative_frame: "wlp (calls_until_negative K cs s) (\<lambda>_ t. \<exists>h. t = s\<lparr>cl_hist := h\<rparr>)"
proof (induction cs arbitrary: s)
  case Nil
  show ?case unfolding calls_until_negative.simps wlp_Some by (rule exI [of _ "cl_hist s"]) simp
next
  case (Cons c cs)
  have "\<exists>h. s\<lparr>cl_hist := k\<rparr> = s\<lparr>cl_hist := h\<rparr>" for k by blast
  then show ?case by (auto simp: wlp_simps intro!: wlp_mono [OF Cons])
qed

lemma io_free_code: "wlp (io_free ret s) (\<lambda>r _. r = ret)"
  by (simp add: io_free_def wlp_simps)

lemma hist_upd_io: "upd_io f s\<lparr>cl_hist := k\<rparr> = upd_io f (s\<lparr>cl_hist := k\<rparr>)"
  by (simp add: upd_io_def)

definition created :: "io_world \<Rightarrow> io_world \<Rightarrow> bool" where
  "created s t \<longleftrightarrow> (\<exists>fd h. t = upd_io (\<lambda>v. v\<lparr>ap_event_fd := fd\<rparr>) (s\<lparr>cl_hist := h\<rparr>))"

lemma io_create_frame: "wlp (io_create K s) (\<lambda>r t. r = 0 \<longrightarrow> created s t)"
proof -
  have free: "wlp (io_free ret t) (\<lambda>r t. r = 0 \<longrightarrow> created s t)" if "ret \<noteq> 0" for ret t
    by (rule wlp_mono [OF io_free_code]) (use that in simp)
  have delete: "wlp (ioplug_delete K t) (\<lambda>_ _. True)" for t by (simp add: wlp_def)
  have new: "created s (upd_io (\<lambda>v. v\<lparr>ap_event_fd := fd\<rparr>) (s\<lparr>cl_hist := h\<rparr>))" for fd h
    unfolding created_def by blast
  show ?thesis
    unfolding io_create_def agm_hw_constraint_def Let_def
    by (auto simp: wlp_bind [of "client_ecall _ _ _"] wlp_client_ecall wlp_if wlp_Some hist_upd_io
        intro!: free new wlp_bindI [OF until_negative_frame] wlp_bindI [OF delete])
qed

definition io_opened :: "io_env \<Rightarrow> (nat \<Rightarrow> int) \<Rightarrow> io_world \<Rightarrow> bool" where
  "io_opened K R t \<longleftrightarrow> io_ok K t \<and> (\<exists>a. io_held t = Some a \<and> card_refs t = R(a := R a + 1))"

lemma io_open_card:
  assumes "io_ok K s" "io_held s = None"
  shows "wlp (agm_io_open K conf pb s) (\<lambda>r t. r = 0 \<longrightarrow> io_opened K (card_refs s) t)"
    (is "wlp _ ?Q")
  unfolding agm_io_open_def
proof (rule wlp_bindI [OF callocs_frame], goal_cases)
  case (1 b u)
  then obtain h where u: "u = s\<lparr>cl_hist := h\<rparr>" by blast
  obtain es where es: "card_def_file K = Some (es, True)" using assms(1) by (auto simp: io_ok_def)
  have u': "cards_ok u" "agm_inv (svc_env K) (svc u)" "card_refs u = card_refs s" using assms(1) by (simp_all add: u io_ok_def)
  have get: "wlp (get_card K n u) (\<lambda>r t. cards_ok t \<and> snd_world.more t = snd_world.more u
    \<and> card_refs t = (case r of None \<Rightarrow> card_refs u | Some a \<Rightarrow> (card_refs u)(a := card_refs u a + 1)))" for n
    unfolding es by (rule get_card_refs [OF u'(1)])
  have made: "wlp (io_create K (x\<lparr>io_plug := Some (agmio_priv0\<lparr>ap_card_node := Some c, ap_pcm_node := n, ap_handle := a,
                   ap_io := (ap_io agmio_priv0)\<lparr>io_playback := pb\<rparr>\<rparr>)\<rparr>)) ?Q"
    if "only_service (svc_env K) t x" "0 < a" "cards_ok t" "card_refs t = (card_refs u)(c := card_refs u c + 1)" for t x c n a
    by (rule wlp_mono [OF io_create_frame])
       (use that refs_in_list [OF u'(1) that(4)] u' es in \<open>auto simp: created_def only_service_def io_opened_def io_ok_def io_held_def\<close>)
  have sess: "wlp (io_open_session K c d k t) (\<lambda>r x. only_service (svc_env K) t x \<and> (\<forall>h n. r = Some (h, n) \<longrightarrow> 0 < h))"
    if "snd_world.more t = snd_world.more u" for c d k t
    by (rule io_open_session_frame) (use that u'(2) io_of_more [of t u] in simp)
  show ?case
    by (auto simp: wlp_Some wlp_if split: option.split prod.split
        intro!: wlp_bindI [OF get] wlp_bindI [OF sess] made)
qed

interpretation io_card: card_user "\<lambda>s. only_zero (agm_io_open K conf pb s)" "agm_io_close K" "io_ok K" card_refs io_held "io_exec K"
  for K conf pb
proof (unfold_locales, goal_cases)
  case (1 s)
  then show ?case unfolding wlp_only_zero by (intro wlp_mono [OF io_open_card]) (auto simp: io_opened_def)
next
  case (2 s a)
  then show ?case by (rule io_close_card)
next
  case (3 s a x)
  then obtain v where "io_plug s = Some v" "ap_card_node v = Some a" by (auto simp: io_held_def bind_eq_Some_conv)
  with 3 have "io_holds K (ap_handle v) a (card_refs s) s" by (simp add: io_holds_def)
  from exec_holds [OF this] show ?case by (rule wlp_mono) (auto simp: io_holds_def io_held_def)
qed

text \<open>A client that opens, uses and closes streams, where every open succeeds, holds one reference to the card of the open
  stream and none otherwise; a close gives back what the open took.\<close>

theorem io_open_close:
  assumes "cards_ok s" "agm_reach (svc_env K) (svc s)" "card_def_file K = Some (es, True)" "io_plug s = None"
    and "io_card.life K conf pb s t"
  shows "cards_ok t
    \<and> card_refs t = (case io_held t of None \<Rightarrow> card_refs s | Some a \<Rightarrow> (card_refs s)(a := card_refs s a + 1))
    \<and> (\<forall>ret u. agm_io_close K t = Some (ret, u) \<longrightarrow> io_plug u = None \<and> card_refs u = card_refs s)"
proof -
  have "io_ok K s" "io_held s = None" using assms(1-4) agm_reach_inv by (auto simp: io_ok_def io_held_def)
  then have t: "io_ok K t" "card_refs t = (case io_held t of None \<Rightarrow> card_refs s | Some a \<Rightarrow> (card_refs s)(a := card_refs s a + 1))"
    using io_card.life_refs [OF assms(5)] by blast+
  have "io_plug u = None \<and> card_refs u = card_refs s" if "agm_io_close K t = Some (ret, u)" for ret u
  proof (cases "io_held t")
    case None
    then have "io_plug t = None" using t(1) by (cases "io_plug t") (auto simp: io_held_def io_ok_def)
    then show ?thesis using that by (simp add: agm_io_close_def with_io_def)
  next
    case (Some a)
    from wlpD [OF io_close_card [OF t(1) Some] that] show ?thesis
      using t(2) Some by (cases "io_plug u") (auto simp: io_held_def io_ok_def fun_eq_iff)
  qed
  then show ?thesis using t by (simp add: io_ok_def)
qed

text \<open>When a constraint is refused and \<open>snd_pcm_ioplug_delete\<close> calls the close callback, the object is freed
  twice.\<close>

theorem io_refused_constraint_traps:
  assumes "io_plug s = Some v" "ap_handle v \<noteq> 0" "delete_closes K" "0 \<le> cl_ret K (cl_hist s) CL_IOPLUG_CREATE"
    and "cl_ret K (cl_hist s @ [CL_IOPLUG_CREATE]) CL_EVENTFD = fd" "fd \<noteq> - 1"
    and "agm_hw_constraint K (upd_io (\<lambda>v. v\<lparr>ap_event_fd := fd\<rparr>) (s\<lparr>cl_hist := cl_hist s @ [CL_IOPLUG_CREATE, CL_EVENTFD]\<rparr>)) = Some (ret, t)"
    and "ret < 0"
  shows "io_create K s = None"
proof -
  have del: "wlp (ioplug_delete K t) (\<lambda>_ u. io_plug u = None)" if "io_plug t = Some v'" "ap_handle v' \<noteq> 0" for v'
    using that assms(3)
    by (auto simp: ioplug_delete_def agm_io_close_def wlp_simps io_get_session_handle_def Let_def) (simp add: wlp_def)
  obtain h where "t = upd_io (\<lambda>v. v\<lparr>ap_event_fd := fd\<rparr>) (s\<lparr>cl_hist := h\<rparr>)"
    using wlpD [OF until_negative_frame assms(7) [unfolded agm_hw_constraint_def]] by (auto simp: hist_upd_io)
  then have "io_plug t = Some (v\<lparr>ap_event_fd := fd\<rparr>)" using assms(1) by simp
  from del [OF this] assms(2) have "Option.bind (ioplug_delete K t) (\<lambda>(_, u). io_free ret u) = None"
    by (cases "ioplug_delete K t") (auto simp: wlp_def io_free_def with_io_def)
  then show ?thesis
    using assms(4-8) by (simp add: io_create_def client_ecall_def hist_upd_io)
qed

section \<open>A stream\<close>

definition io_env0 :: io_env where
  "io_env0 = \<lparr>cl_ret = (\<lambda>_ _. 0), card_id_file = (\<lambda>_. None), card_def_file = Some ([], True), svc_env = env0,
     snd_pcm_format_physical_width = (\<lambda>_. 16), snd_pcm_bytes_to_frames = (\<lambda>_ n. uint n div 4 mod 1024), delete_closes = True\<rparr>"

definition io_world0 :: io_world where
  "io_world0 = \<lparr>cl_hist = [], cards = (\<lambda>_. stream_card0), snd_card_list = [1], card_next = 2, svc = world0, io_plug = None\<rparr>"

definition opened0 :: agm_world where
  "opened0 = snd (the (agm_run env0 (take 2 run0) world0))"

lemma opened0_run: "agm_run env0 (take 2 run0) world0 = Some ([0, 0], opened0)" "session_list opened0 = [1]"
  by (simp_all add: opened0_def run0_def agm_eval cong: bind_eval_cong)

lemma opened0_start:
  "\<exists>w. agm_session_prepare env0 1 opened0 = Some (0, w) \<and> agm_session_start env0 1 w = Some (0, started0)"
  using run0_started opened0_run(1) by (auto simp: run0_def bind_eq_Some_conv)

theorem io_running_started_witness:
  "\<exists>v. io_plug (io_world0\<lparr>svc := started0, io_plug := Some (agmio_priv0\<lparr>ap_handle := 1, ap_state := AGM_IO_STATE_RUNNING\<rparr>)\<rparr>) = Some v
     \<and> ap_state v = AGM_IO_STATE_RUNNING \<and> sess_state (sessions started0 1) = SESSION_STARTED"
proof -
  let ?v = "agmio_priv0\<lparr>ap_handle := 1\<rparr>"
  let ?s = "io_world0\<lparr>svc := opened0, io_plug := Some ?v\<rparr>"
  let ?t = "io_world0\<lparr>svc := started0, io_plug := Some (?v\<lparr>ap_state := AGM_IO_STATE_RUNNING\<rparr>)\<rparr>"
  have v: "ap_state ?v = AGM_IO_STATE_OPEN" by (simp add: agmio_priv0_def)
  have "io_exec io_env0 IO_START ?s = Some (0, ?t)"
    using opened0_start v
    by (auto simp: agm_io_start_def with_io_def io_get_session_handle_def service_def io_env0_def upd_io_def io_state_order)
  from run_call [OF run_none _ this] have run: "io_run io_env0 ?s ?t" by simp
  have "agm_reach (svc_env io_env0) (svc ?s)"
    using agm_run_reach [OF agm_reach_init [OF world0_initial] opened0_run(1)] by (simp add: io_env0_def)
  from io_running_started [OF this _ v _ run] show ?thesis using opened0_run(2) by simp
qed





definition io_conf0 :: "(string option \<times> int option) list" where
  "io_conf0 = [(Some ''card'', Some 100), (Some ''device'', Some 5)]"

lemma io_callocs0: "client_callocs 4 io_env0 io_world0 = Some (True, io_world0\<lparr>cl_hist := replicate 4 CL_CALLOC\<rparr>)"
  by (simp add: numeral_eq_Suc plugin_eval io_env0_def io_world0_def)

theorem io_open_close_witness:
  "\<exists>t v. agm_io_open io_env0 io_conf0 True io_world0 = Some (0, t) \<and> io_plug t = Some v \<and> card_refs t 1 = 2"
proof -
  obtain w where w: "agm_session_open env0 5 AGM_SESSION_NON_TUNNEL True world0 = Some ((0, Some 1), w)"
    using session_opened0 by blast
  obtain t v where t: "agm_io_open io_env0 io_conf0 True io_world0 = Some (0, t)" "io_plug t = Some v" "ap_card_node v = Some 1"
    by (simp add: agm_io_open_def io_callocs0 io_conf0_def)
       (simp add: io_open_session_def pcm_session_mode_def io_create_def agm_hw_constraint_def io_constraints_def upd_io_def
        io_env0_def io_world0_def stream_card0_def plugin_eval service_def w)
  have "io_card.life io_env0 io_conf0 True io_world0 t"
  proof (rule io_card.life_open [OF io_card.life_new])
    show "io_held io_world0 = None" by (simp add: io_held_def io_world0_def)
    show "only_zero (agm_io_open io_env0 io_conf0 True io_world0) = Some (0, t)" by (simp add: only_zero_def t(1))
  qed
  moreover have "cards_ok io_world0" by (simp add: cards_ok_def io_world0_def stream_card0_def)
  moreover have "agm_reach (svc_env io_env0) (svc io_world0)"
    using agm_reach_init [OF world0_initial] by (simp add: io_env0_def io_world0_def)
  ultimately have "card_refs t 1 = card_refs io_world0 1 + 1"
    using io_open_close [of io_world0 io_env0 "[]" io_conf0 True t] t(2,3)
    by (simp add: io_env0_def io_held_def io_world0_def)
  then show ?thesis using t by (simp add: card_refs_def io_world0_def stream_card0_def)
qed

text \<open>An open that fails once the card was found keeps the reference to the card: here the node does not exist.\<close>

theorem io_open_leaks:
  "\<exists>t. agm_io_open io_env0 [(Some ''card'', Some 100)] True io_world0 = Some (- EINVAL, t) \<and> io_plug t = None
     \<and> card_refs t 1 = card_refs io_world0 1 + 1"
  by (simp add: agm_io_open_def io_callocs0)
     (simp add: io_open_session_def io_env0_def io_world0_def stream_card0_def plugin_eval card_refs_def)

end
