(* ===== verification/Ctl_Plugin.thy ===== *)
theory Ctl_Plugin
  imports Plugin
begin

text \<open>
  Model of \<open>plugins/alsalib/src/agm_ctl_plugin.c\<close>: the controls of a card for alsa-lib. Opening the
  plugin reads the back ends from the service and the streams from the card definition and fills an
  array of controls; a control has a name, the number of its stream or back end and a kind. alsa-lib finds
  a control by name or number and reads and writes it through one function for each type of value.

  A payload is given as the bytes of the buffer and as the structures that a function casts them
  to. alsa-lib is outside the repository: what an element id gives back for a name that was set is a
  parameter, what \<open>snd_ctl_ext_create\<close> returns is the oracle of the client process. The bytes that the
  service writes into a payload are not modelled.
\<close>

section \<open>Controls\<close>

datatype ctl_id =
    AGM_FE_CTL_NAME_METADATA | AGM_FE_CTL_NAME_SET_PARAM | AGM_FE_CTL_NAME_SET_PARAM_TAG | AGM_FE_CTL_NAME_CONNECT
  | AGM_FE_CTL_NAME_DISCONNECT | AGM_FE_CTL_NAME_CONTROL | AGM_FE_CTL_NAME_GET_TAG_INFO | AGM_FE_CTL_NAME_EVENT
  | AGM_FE_CTL_NAME_SET_CALIBRATION | AGM_FE_CTL_NAME_GET_PARAM | AGM_FE_CTL_NAME_BUF_INFO
  | AGM_FE_TX_CTL_NAME_LOOPBACK | AGM_FE_TX_CTL_NAME_ECHOREF | AGM_FE_TX_CTL_NAME_BUF_TSTAMP
  | AGM_BE_CTL_NAME_MEDIA_CONFIG | AGM_BE_CTL_NAME_METADATA | AGM_BE_CTL_NAME_SET_PARAM

text \<open>The numbers of the enumeration.\<close>

definition ctl_ids :: "ctl_id list" where
  "ctl_ids = [AGM_FE_CTL_NAME_METADATA, AGM_FE_CTL_NAME_SET_PARAM, AGM_FE_CTL_NAME_SET_PARAM_TAG, AGM_FE_CTL_NAME_CONNECT,
     AGM_FE_CTL_NAME_DISCONNECT, AGM_FE_CTL_NAME_CONTROL, AGM_FE_CTL_NAME_GET_TAG_INFO, AGM_FE_CTL_NAME_EVENT,
     AGM_FE_CTL_NAME_SET_CALIBRATION, AGM_FE_CTL_NAME_GET_PARAM, AGM_FE_CTL_NAME_BUF_INFO,
     AGM_FE_TX_CTL_NAME_LOOPBACK, AGM_FE_TX_CTL_NAME_ECHOREF, AGM_FE_TX_CTL_NAME_BUF_TSTAMP,
     AGM_BE_CTL_NAME_MEDIA_CONFIG, AGM_BE_CTL_NAME_METADATA, AGM_BE_CTL_NAME_SET_PARAM]"

abbreviation (input) AGM_FE_CTL_START :: nat where "AGM_FE_CTL_START \<equiv> 0"
abbreviation (input) AGM_TX_CTL_START :: nat where "AGM_TX_CTL_START \<equiv> 11"
abbreviation (input) AGM_BE_CTL_START :: nat where "AGM_BE_CTL_START \<equiv> 14"

datatype elem_type = SND_CTL_ELEM_TYPE_BYTES | SND_CTL_ELEM_TYPE_ENUMERATED | SND_CTL_ELEM_TYPE_INTEGER

abbreviation (input) SND_CTL_EXT_ACCESS_READWRITE :: u32 where "SND_CTL_EXT_ACCESS_READWRITE \<equiv> 3"

text \<open>\<open>SND_CTL_EXT_ACCESS_TLV_READWRITE\<close> with \<open>SND_CTL_EXT_ACCESS_TLV_CALLBACK\<close>.\<close>

abbreviation (input) TLV_ACCESS :: u32 where "TLV_ACCESS \<equiv> 0x10000030"

record agm_ctl_attribute_info =
  at_type :: elem_type
  at_access :: u32
  at_count :: u32

definition attr_bytes :: "u32 \<Rightarrow> agm_ctl_attribute_info" where
  "attr_bytes n = \<lparr>at_type = SND_CTL_ELEM_TYPE_BYTES, at_access = TLV_ACCESS, at_count = n\<rparr>"

definition attr_enum :: agm_ctl_attribute_info where
  "attr_enum = \<lparr>at_type = SND_CTL_ELEM_TYPE_ENUMERATED, at_access = SND_CTL_EXT_ACCESS_READWRITE, at_count = 1\<rparr>"

definition attr_info :: "ctl_id \<Rightarrow> agm_ctl_attribute_info" where
  "attr_info c = (case c of
       AGM_FE_CTL_NAME_METADATA \<Rightarrow> attr_bytes 1024
     | AGM_FE_CTL_NAME_SET_PARAM \<Rightarrow> attr_bytes (128 * 1024)
     | AGM_FE_CTL_NAME_SET_PARAM_TAG \<Rightarrow> attr_bytes 1024
     | AGM_FE_CTL_NAME_CONNECT \<Rightarrow> attr_enum
     | AGM_FE_CTL_NAME_DISCONNECT \<Rightarrow> attr_enum
     | AGM_FE_CTL_NAME_CONTROL \<Rightarrow> attr_enum
     | AGM_FE_CTL_NAME_GET_TAG_INFO \<Rightarrow> attr_bytes 1024
     | AGM_FE_CTL_NAME_EVENT \<Rightarrow> attr_bytes 512
     | AGM_FE_CTL_NAME_SET_CALIBRATION \<Rightarrow> attr_bytes 512
     | AGM_FE_CTL_NAME_GET_PARAM \<Rightarrow> attr_bytes (128 * 1024)
     | AGM_FE_CTL_NAME_BUF_INFO \<Rightarrow> attr_bytes 512
     | AGM_FE_TX_CTL_NAME_LOOPBACK \<Rightarrow> attr_enum
     | AGM_FE_TX_CTL_NAME_ECHOREF \<Rightarrow> attr_enum
     | AGM_FE_TX_CTL_NAME_BUF_TSTAMP \<Rightarrow> attr_bytes 512
     | AGM_BE_CTL_NAME_MEDIA_CONFIG \<Rightarrow>
         \<lparr>at_type = SND_CTL_ELEM_TYPE_INTEGER, at_access = SND_CTL_EXT_ACCESS_READWRITE, at_count = 4\<rparr>
     | AGM_BE_CTL_NAME_METADATA \<Rightarrow> attr_bytes 1024
     | AGM_BE_CTL_NAME_SET_PARAM \<Rightarrow> attr_bytes (64 * 1024))"

definition agm_fe_ctl_name_extn :: "string list" where
  "agm_fe_ctl_name_extn = [''metadata'', ''setParam'', ''setParamTag'', ''connect'', ''disconnect'', ''control'',
     ''getTaggedInfo'', ''event'', ''setCalibration'', ''getParam'', ''getBufInfo'']"

definition agm_tx_ctl_name_extn :: "string list" where
  "agm_tx_ctl_name_extn = [''loopback'', ''echoReference'', ''bufTimestamp'']"

definition agm_be_ctl_name_extn :: "string list" where
  "agm_be_ctl_name_extn = [''rate ch fmt'', ''metadata'', ''setParam'']"

section \<open>State\<close>

text \<open>\<open>has_priv\<close> says that the back pointer of the control was set; an entry that was never
  filled has none.\<close>

record agm_mixer_controls =
  mixer_name :: string
  pcm_be_id :: int
  mx_ctl_id :: ctl_id
  has_priv :: bool

record agmctl_priv =
  ac_card_node :: "nat option"
  ac_aif_count :: nat
  ac_aif_list :: "(string \<times> direction) list"
  ac_rx_count :: nat
  ac_rx_names :: "string list"
  ac_rx_pcm_id :: "int list"
  ac_pcm_count :: nat
  ac_pcm_mtd_ctl :: "int list"
  ac_pcm_idx :: "int list"
  ac_payload :: "u8 list option"
  ac_payload_size :: int
  total_ctl_cnt :: u32
  controls :: "agm_mixer_controls list"

record ctl_env = plugin_env +
  elem_id_name :: "string \<Rightarrow> string"
  tag_info_size :: "ext_call list \<Rightarrow> u64"

record ctl_world = plugin_world +
  ctl_plug :: "agmctl_priv option"

definition upd_ctl :: "(agmctl_priv \<Rightarrow> agmctl_priv) \<Rightarrow> 'z ctl_world_scheme \<Rightarrow> 'z ctl_world_scheme" where
  "upd_ctl f s = s\<lparr>ctl_plug := map_option f (ctl_plug s)\<rparr>"

definition with_ctl ::
    "(agmctl_priv \<Rightarrow> 'z ctl_world_scheme \<Rightarrow> ('r \<times> 'z ctl_world_scheme) option) \<Rightarrow> 'z ctl_world_scheme \<Rightarrow>
       ('r \<times> 'z ctl_world_scheme) option" where
  "with_ctl f s = (case ctl_plug s of None \<Rightarrow> None | Some v \<Rightarrow> f v s)"

text \<open>\<open>control->priv\<close>.\<close>

definition with_priv ::
    "agm_mixer_controls \<Rightarrow> (agmctl_priv \<Rightarrow> 'z ctl_world_scheme \<Rightarrow> ('r \<times> 'z ctl_world_scheme) option) \<Rightarrow> 'z ctl_world_scheme \<Rightarrow>
       ('r \<times> 'z ctl_world_scheme) option" where
  "with_priv c f s = (if has_priv c then with_ctl f s else None)"

section \<open>Values of controls\<close>

definition ctl_alsa_to_agm_fmt :: "int \<Rightarrow> agm_media_format" where
  "ctl_alsa_to_agm_fmt fmt =
     (if fmt = 0 then AGM_FORMAT_PCM_S8 else if fmt = 2 then AGM_FORMAT_PCM_S16_LE
      else if fmt = 6 then AGM_FORMAT_PCM_S24_LE else if fmt = 32 then AGM_FORMAT_PCM_S24_3LE
      else if fmt = 10 then AGM_FORMAT_PCM_S32_LE else AGM_FORMAT_INVALID)"

text \<open>The position of a stream in the array of streams.\<close>

definition pcm_position :: "agmctl_priv \<Rightarrow> int \<Rightarrow> nat option" where
  "pcm_position v pid = find (\<lambda>i. i < length (ac_pcm_idx v) \<and> ac_pcm_idx v ! i = pid) [0..<ac_pcm_count v]"

definition agmctl_pcm_get_control_value :: "agmctl_priv \<Rightarrow> int \<Rightarrow> int option" where
  "agmctl_pcm_get_control_value v pid =
     (case pcm_position v pid of None \<Rightarrow> Some (- EINVAL) | Some i \<Rightarrow> load (ac_pcm_mtd_ctl v) (int i))"

text \<open>The payload of a control for bytes: the data behind the two words of the header, as bytes
  and as structures.\<close>

record ctl_payload =
  pl_data :: "u8 list"
  pl_tag_config :: agm_tag_config
  pl_event_cfg :: agm_event_reg_cfg
  pl_cal_config :: agm_key_vector_gsl
  pl_buf_info :: agm_buf_info

definition agmctl_pcm_metadata_put ::
    "'k plugin_env_scheme \<Rightarrow> agm_mixer_controls \<Rightarrow> ctl_payload \<Rightarrow> nat \<Rightarrow> 'z ctl_world_scheme \<Rightarrow> (int \<times> 'z ctl_world_scheme) option" where
  "agmctl_pcm_metadata_put K c d max_bytes = with_priv c (\<lambda>v s. do {
     n \<leftarrow> agmctl_pcm_get_control_value v (pcm_be_id c);
     already_ok
       (if n > 0
        then service (agm_session_aif_set_metadata (svc_env K) (of_int (pcm_be_id c)) (of_int (n - 1)) max_bytes (Some (pl_data d))) s
        else service (agm_session_set_metadata (svc_env K) (of_int (pcm_be_id c)) max_bytes (Some (pl_data d))) s) })"

definition agmctl_pcm_setparam_put ::
    "'k plugin_env_scheme \<Rightarrow> agm_mixer_controls \<Rightarrow> ctl_payload \<Rightarrow> nat \<Rightarrow> 'z ctl_world_scheme \<Rightarrow> (int \<times> 'z ctl_world_scheme) option" where
  "agmctl_pcm_setparam_put K c d max_bytes = with_priv c (\<lambda>v s. do {
     n \<leftarrow> agmctl_pcm_get_control_value v (pcm_be_id c);
     already_ok
       (if n > 0
        then service (agm_session_aif_set_params (svc_env K) (of_int (pcm_be_id c)) (of_int (n - 1)) (Some (pl_data d)) max_bytes) s
        else service (agm_session_set_params (svc_env K) (of_int (pcm_be_id c)) (Some (pl_data d)) max_bytes) s) })"

definition agmctl_pcm_setparamtag_put ::
    "'k plugin_env_scheme \<Rightarrow> agm_mixer_controls \<Rightarrow> ctl_payload \<Rightarrow> 'z ctl_world_scheme \<Rightarrow> (int \<times> 'z ctl_world_scheme) option" where
  "agmctl_pcm_setparamtag_put K c d = with_priv c (\<lambda>v s. do {
     n \<leftarrow> agmctl_pcm_get_control_value v (pcm_be_id c);
     if n \<le> 0 then Some (- EINVAL, s)
     else already_ok (service (agm_set_params_with_tag (svc_env K) (of_int (pcm_be_id c)) (of_int (n - 1)) (pl_tag_config d)) s) })"

definition agmctl_pcm_event_get :: "'z ctl_world_scheme \<Rightarrow> (int \<times> 'z ctl_world_scheme) option" where
  "agmctl_pcm_event_get s = Some (0, s)"

definition agmctl_pcm_event_put ::
    "'k plugin_env_scheme \<Rightarrow> agm_mixer_controls \<Rightarrow> ctl_payload \<Rightarrow> 'z ctl_world_scheme \<Rightarrow> (int \<times> 'z ctl_world_scheme) option" where
  "agmctl_pcm_event_put K c d s =
     already_ok (service (agm_session_register_for_events (svc_env K) (of_int (pcm_be_id c)) (Some (pl_event_cfg d))) s)"

definition agmctl_pcm_calibration_put ::
    "'k plugin_env_scheme \<Rightarrow> agm_mixer_controls \<Rightarrow> ctl_payload \<Rightarrow> 'z ctl_world_scheme \<Rightarrow> (int \<times> 'z ctl_world_scheme) option" where
  "agmctl_pcm_calibration_put K c d = with_priv c (\<lambda>v s. do {
     n \<leftarrow> agmctl_pcm_get_control_value v (pcm_be_id c);
     if n \<le> 0 then Some (- EINVAL, s)
     else service (agm_session_aif_set_cal (svc_env K) (of_int (pcm_be_id c)) (of_int (n - 1)) (pl_cal_config d)) s })"

definition agmctl_pcm_get_param_get ::
    "'k plugin_env_scheme \<Rightarrow> agm_mixer_controls \<Rightarrow> ctl_payload \<Rightarrow> nat \<Rightarrow> 'z ctl_world_scheme \<Rightarrow> (int \<times> 'z ctl_world_scheme) option" where
  "agmctl_pcm_get_param_get K c d len = with_priv c (\<lambda>v s.
     case ac_payload v of None \<Rightarrow> Some (- EINVAL, s)
     | Some bytes \<Rightarrow>
       if len < as_size (ac_payload_size v) then Some (- EINVAL, s)
       else do {
         payload \<leftarrow> memcpy_at 0 bytes (pl_data d);
         p \<leftarrow> memcpy_from (Some payload) (as_size (ac_payload_size v));
         (ret, s) \<leftarrow> already_ok (service (agm_session_get_params (svc_env K) (of_int (pcm_be_id c)) p) s);
         Some (ret, upd_ctl (\<lambda>v. v\<lparr>ac_payload := None, ac_payload_size := 0\<rparr>) s) })"

text \<open>The length is stored in an \<open>int\<close>.\<close>

definition agmctl_pcm_get_param_put ::
    "'k client_env_scheme \<Rightarrow> agm_mixer_controls \<Rightarrow> ctl_payload \<Rightarrow> nat \<Rightarrow> 'z ctl_world_scheme \<Rightarrow> (int \<times> 'z ctl_world_scheme) option" where
  "agmctl_pcm_get_param_put K c d len = with_priv c (\<lambda>v s. do {
     let n = sint (of_nat len :: u32);
     (ok, s) \<leftarrow> client_calloc K s;
     bytes \<leftarrow> (if ok then map_option Some (memcpy_from (Some (pl_data d)) (as_size n)) else Some None);
     Some (if ok then 0 else - ENOMEM, upd_ctl (\<lambda>v. v\<lparr>ac_payload := bytes, ac_payload_size := n\<rparr>) s) })"

text \<open>The result and the value that is written to the payload.\<close>

definition agmctl_pcm_buf_timestamp_get ::
    "'k plugin_env_scheme \<Rightarrow> agm_mixer_controls \<Rightarrow> 'z ctl_world_scheme \<Rightarrow> ((int \<times> u64 option) \<times> 'z ctl_world_scheme) option" where
  "agmctl_pcm_buf_timestamp_get K c s = service (agm_get_buffer_timestamp (svc_env K) (of_int (pcm_be_id c)) True) s"

definition agmctl_pcm_tag_info_get ::
    "'k ctl_env_scheme \<Rightarrow> agm_mixer_controls \<Rightarrow> nat \<Rightarrow> 'z ctl_world_scheme \<Rightarrow> (int \<times> 'z ctl_world_scheme) option" where
  "agmctl_pcm_tag_info_get K c len = with_priv c (\<lambda>v s. do {
     n \<leftarrow> agmctl_pcm_get_control_value v (pcm_be_id c);
     if n \<le> 0 then Some (- EINVAL, s)
     else do {
       let info = (\<lambda>size. service (agm_session_aif_get_tag_module_info (svc_env K) (of_int (pcm_be_id c)) (of_int (n - 1)) size));
       (ret, s) \<leftarrow> info 0 s;
       let get_size = tag_info_size K (hist (svc s));
       if ret \<noteq> 0 \<or> get_size = 0 \<or> len < unat get_size then Some (- EINVAL, s)
       else info (unat get_size) s }})"

definition agmctl_pcm_connect_put ::
    "'k plugin_env_scheme \<Rightarrow> agm_mixer_controls \<Rightarrow> u32 \<Rightarrow> 'z ctl_world_scheme \<Rightarrow> (int \<times> 'z ctl_world_scheme) option" where
  "agmctl_pcm_connect_put K c item s =
     already_ok (service (agm_session_aif_connect (svc_env K) (of_int (pcm_be_id c)) item
       (mx_ctl_id c \<noteq> AGM_FE_CTL_NAME_DISCONNECT)) s)"

definition agmctl_pcm_loopback_put ::
    "'k plugin_env_scheme \<Rightarrow> agm_mixer_controls \<Rightarrow> u32 \<Rightarrow> 'z ctl_world_scheme \<Rightarrow> (int \<times> 'z ctl_world_scheme) option" where
  "agmctl_pcm_loopback_put K c item s = do {
     (rx_idx, s) \<leftarrow> (if item = 0 then Some (0, s)
                    else with_priv c (\<lambda>v s. do { p \<leftarrow> load (ac_rx_pcm_id v) (sint item - 1); Some (p, s) }) s);
     already_ok (service (agm_session_set_loopback (svc_env K) (of_int (pcm_be_id c)) (of_int rx_idx) (item \<noteq> 0)) s) }"

definition agmctl_pcm_ecref_put ::
    "'k plugin_env_scheme \<Rightarrow> agm_mixer_controls \<Rightarrow> u32 \<Rightarrow> 'z ctl_world_scheme \<Rightarrow> (int \<times> 'z ctl_world_scheme) option" where
  "agmctl_pcm_ecref_put K c item s =
     already_ok (service (agm_session_set_ec_ref (svc_env K) (of_int (pcm_be_id c)) (if item = 0 then 0 else item - 1) (item \<noteq> 0)) s)"

definition agmctl_pcm_control_put ::
    "agm_mixer_controls \<Rightarrow> u32 \<Rightarrow> 'z ctl_world_scheme \<Rightarrow> (int \<times> 'z ctl_world_scheme) option" where
  "agmctl_pcm_control_put c item = with_priv c (\<lambda>v s.
     if unat item > ac_aif_count v then Some (- EINVAL, s)
     else case pcm_position v (pcm_be_id c) of None \<Rightarrow> Some (- EINVAL, s)
       | Some i \<Rightarrow> do {
           ms \<leftarrow> store (int i) (sint item) (ac_pcm_mtd_ctl v);
           Some (0, upd_ctl (\<lambda>v. v\<lparr>ac_pcm_mtd_ctl := ms\<rparr>) s) })"

definition agmctl_pcm_buf_info_get ::
    "'k plugin_env_scheme \<Rightarrow> agm_mixer_controls \<Rightarrow> ctl_payload \<Rightarrow> 'z ctl_world_scheme \<Rightarrow> ((int \<times> agm_buf_info) \<times> 'z ctl_world_scheme) option" where
  "agmctl_pcm_buf_info_get K c d s = service (agm_session_get_buf_info (svc_env K) (of_int (pcm_be_id c)) (pl_buf_info d) 1) s"

definition agmctl_be_metadata_put ::
    "'k plugin_env_scheme \<Rightarrow> agm_mixer_controls \<Rightarrow> ctl_payload \<Rightarrow> nat \<Rightarrow> 'z ctl_world_scheme \<Rightarrow> (int \<times> 'z ctl_world_scheme) option" where
  "agmctl_be_metadata_put K c d len s =
     already_ok (service (agm_aif_set_metadata (svc_env K) (of_int (pcm_be_id c)) len (Some (pl_data d))) s)"

text \<open>The parameters of a back end are set as its metadata.\<close>

definition agmctl_be_setparam_put ::
    "'k plugin_env_scheme \<Rightarrow> agm_mixer_controls \<Rightarrow> ctl_payload \<Rightarrow> nat \<Rightarrow> 'z ctl_world_scheme \<Rightarrow> (int \<times> 'z ctl_world_scheme) option" where
  "agmctl_be_setparam_put K c d len s =
     already_ok (service (agm_aif_set_metadata (svc_env K) (of_int (pcm_be_id c)) len (Some (pl_data d))) s)"

definition agmctl_be_media_config_put ::
    "agm_mixer_controls \<Rightarrow> (nat \<Rightarrow> int) \<Rightarrow> 'z ctl_world_scheme \<Rightarrow> (int \<times> 'z ctl_world_scheme) option" where
  "agmctl_be_media_config_put c val s =
     service (agm_aif_set_media_config (of_int (pcm_be_id c))
       (Some \<lparr>mc_rate = of_int (val 0), mc_channels = of_int (val 1),
              mc_format = ctl_alsa_to_agm_fmt (sint (of_int (val 2) :: u32)), mc_data_format = of_int (val 3)\<rparr>)) s"

section \<open>Creation of the controls\<close>

text \<open>\<open>snprintf\<close> writes at most \<open>MIXER_NAME_LEN\<close> bytes with the terminator.\<close>

definition control_of :: "string \<Rightarrow> int \<Rightarrow> nat \<Rightarrow> string \<Rightarrow> agm_mixer_controls" where
  "control_of base n k extn = \<lparr>mixer_name = take 127 (base @ '' '' @ extn), pcm_be_id = n, mx_ctl_id = ctl_ids ! k, has_priv = True\<rparr>"

definition control0 :: agm_mixer_controls where
  "control0 = \<lparr>mixer_name = [], pcm_be_id = 0, mx_ctl_id = AGM_FE_CTL_NAME_METADATA, has_priv = False\<rparr>"

text \<open>The loop over the names of a group, from number \<open>k\<close> of the enumeration on. The state is the
  next free position and the array.\<close>

fun fill_controls :: "string \<Rightarrow> int \<Rightarrow> nat \<Rightarrow> string list \<Rightarrow> int \<times> agm_mixer_controls list \<Rightarrow> (int \<times> agm_mixer_controls list) option" where
  "fill_controls base n k [] x = Some x"
| "fill_controls base n k (e # es) (ctl_idx, cs) = do {
     cs \<leftarrow> store ctl_idx (control_of base n k e) cs;
     fill_controls base n (k + 1) es (ctl_idx + 1, cs) }"

text \<open>The name and the number of a node; \<open>Inl\<close> is an error code. A node without a name leaves the
  pointer to it uninitialised.\<close>

definition node_name_id :: "node_ptr \<Rightarrow> 'z snd_world_scheme \<Rightarrow> (int + string \<times> int) option" where
  "node_name_id node s = do {
     (ret, n) \<leftarrow> snd_card_def_get_str (Some node) ''name'' s;
     if ret \<noteq> 0 then Some (Inl (- EINVAL))
     else do {
       (ret, i) \<leftarrow> snd_card_def_get_int (Some node) ''id'' s;
       if ret \<noteq> 0 then Some (Inl (- EINVAL))
       else case (n, i) of (Some n, Some i) \<Rightarrow> Some (Inr (n, i)) | _ \<Rightarrow> None }}"

definition agmctl_form_common_fe_controls ::
    "node_ptr \<Rightarrow> int \<times> agmctl_priv \<Rightarrow> 'z snd_world_scheme \<Rightarrow> (int \<times> int \<times> agmctl_priv) option" where
  "agmctl_form_common_fe_controls node x s = do {
     r \<leftarrow> node_name_id node s;
     case r of Inl e \<Rightarrow> Some (e, x)
     | Inr (n, i) \<Rightarrow> do {
         (ctl_idx, cs) \<leftarrow> fill_controls n i AGM_FE_CTL_START agm_fe_ctl_name_extn (fst x, controls (snd x));
         Some (0, ctl_idx, (snd x)\<lparr>controls := cs\<rparr>) }}"

definition agmctl_populate_rx_name ::
    "node_ptr \<Rightarrow> int \<times> agmctl_priv \<Rightarrow> 'z snd_world_scheme \<Rightarrow> (int \<times> int \<times> agmctl_priv) option" where
  "agmctl_populate_rx_name node x s = do {
     r \<leftarrow> node_name_id node s;
     case r of Inl e \<Rightarrow> Some (e, x)
     | Inr (n, i) \<Rightarrow> do {
         ids \<leftarrow> store (fst x) i (ac_rx_pcm_id (snd x));
         ns \<leftarrow> store (fst x) (take 23 n) (ac_rx_names (snd x));
         Some (0, fst x + 1, (snd x)\<lparr>ac_rx_pcm_id := ids, ac_rx_names := ns\<rparr>) }}"

definition agmctl_form_tx_controls ::
    "node_ptr \<Rightarrow> int \<times> agmctl_priv \<Rightarrow> 'z snd_world_scheme \<Rightarrow> (int \<times> int \<times> agmctl_priv) option" where
  "agmctl_form_tx_controls node x s = do {
     r \<leftarrow> node_name_id node s;
     case r of Inl e \<Rightarrow> Some (e, x)
     | Inr (n, i) \<Rightarrow> do {
         (ctl_idx, cs) \<leftarrow> fill_controls n i AGM_TX_CTL_START agm_tx_ctl_name_extn (fst x, controls (snd x));
         Some (0, ctl_idx, (snd x)\<lparr>controls := cs\<rparr>) }}"

definition agmctl_form_be_controls :: "nat \<Rightarrow> int \<times> agmctl_priv \<Rightarrow> (int \<times> int \<times> agmctl_priv) option" where
  "agmctl_form_be_controls be_idx x = do {
     a \<leftarrow> load (ac_aif_list (snd x)) (int be_idx);
     (ctl_idx, cs) \<leftarrow> fill_controls (fst a) (int be_idx) AGM_BE_CTL_START agm_be_ctl_name_extn (fst x, controls (snd x));
     Some (0, ctl_idx, (snd x)\<lparr>controls := cs\<rparr>) }"

text \<open>The loop that counts streams and stores their numbers; an entry keeps its 0 when a node has
  no number. The last components are the counts of playback and capture streams.\<close>

fun count_streams :: "node_ptr list \<Rightarrow> 'z snd_world_scheme \<Rightarrow> (int list \<times> nat \<times> nat) option" where
  "count_streams [] s = Some ([], 0, 0)"
| "count_streams (node # nodes) s = do {
     i \<leftarrow> node_int node ''id'' 0 s;
     p \<leftarrow> node_int node ''playback'' 0 s;
     c \<leftarrow> node_int node ''capture'' 0 s;
     (ids, nrx, ntx) \<leftarrow> count_streams nodes s;
     Some (i # ids, if p = 1 then nrx + 1 else nrx, if c = 1 then ntx + 1 else ntx) }"

text \<open>The results of the three functions are not looked at.\<close>

fun form_streams :: "node_ptr list \<Rightarrow> int \<times> int \<times> agmctl_priv \<Rightarrow> 'z snd_world_scheme \<Rightarrow> (int \<times> int \<times> agmctl_priv) option" where
  "form_streams [] x s = Some x"
| "form_streams (node # nodes) (ctl_idx, rx_idx, v) s = do {
     (_, ctl_idx, v) \<leftarrow> agmctl_form_common_fe_controls node (ctl_idx, v) s;
     p \<leftarrow> node_int node ''playback'' 0 s;
     (_, rx_idx, v) \<leftarrow> (if p = 1 then agmctl_populate_rx_name node (rx_idx, v) s else Some (0, rx_idx, v));
     c \<leftarrow> node_int node ''capture'' 0 s;
     (_, ctl_idx, v) \<leftarrow> (if c = 1 then agmctl_form_tx_controls node (ctl_idx, v) s else Some (0, ctl_idx, v));
     form_streams nodes (ctl_idx, rx_idx, v) s }"

fun form_backends :: "nat list \<Rightarrow> int \<times> agmctl_priv \<Rightarrow> (int \<times> agmctl_priv) option" where
  "form_backends [] x = Some x"
| "form_backends (i # ids) x = do { (_, x) \<leftarrow> agmctl_form_be_controls i x; form_backends ids x }"

definition stream_nodes :: "agmctl_priv \<Rightarrow> int \<Rightarrow> int \<Rightarrow> 'z snd_world_scheme \<Rightarrow> (int \<times> node_ptr list) option" where
  "stream_nodes v np nc s = do {
     (ret, pcms) \<leftarrow> (if np > 0 then snd_card_def_get_nodes_for_type (ac_card_node v) 0 np s else Some (0, []));
     if ret \<noteq> 0 then Some (ret, []) else do {
     (ret, comprs) \<leftarrow> (if nc > 0 then snd_card_def_get_nodes_for_type (ac_card_node v) 2 nc s else Some (0, []));
     Some (ret, pcms @ comprs) }}"

text \<open>The node list, the two arrays of the streams and, further down, the controls and the two
  arrays of the playback streams are allocated; with an error all of them are freed, and the caller frees
  the object.\<close>

definition amp_form_mixer_controls ::
    "'k client_env_scheme \<Rightarrow> agmctl_priv \<Rightarrow> 'z snd_world_scheme \<Rightarrow> ((int \<times> agmctl_priv) \<times> 'z snd_world_scheme) option" where
  "amp_form_mixer_controls K v s = do {
     np \<leftarrow> snd_card_def_get_num_node (ac_card_node v) 0 s;
     nc \<leftarrow> snd_card_def_get_num_node (ac_card_node v) 2 s;
     if np \<le> 0 \<and> nc \<le> 0 then Some ((- EINVAL, v), s) else do {
     let np = max 0 np;
     let nc = max 0 nc;
     let total_pcms = nat (np + nc);
     (ok, s) \<leftarrow> client_callocs 3 K s;
     if \<not> ok then Some ((- ENOMEM, v), s) else do {
     (ret, nodes) \<leftarrow> stream_nodes v np nc s;
     if ret \<noteq> 0 then Some ((ret, v), s) else do {
     (ids, nrx, ntx) \<leftarrow> count_streams nodes s;
     let total = of_nat (total_pcms * length agm_fe_ctl_name_extn) + of_nat (ntx * length agm_tx_ctl_name_extn)
                   + of_nat (ac_aif_count v * length agm_be_ctl_name_extn);
     (ok, s) \<leftarrow> client_callocs 3 K s;
     if \<not> ok then Some ((- ENOMEM, v), s) else do {
     let v = v\<lparr>ac_pcm_count := total_pcms, ac_pcm_mtd_ctl := replicate total_pcms 0, ac_pcm_idx := ids, ac_rx_count := nrx,
               total_ctl_cnt := total, controls := replicate (unat total) control0,
               ac_rx_names := replicate nrx [], ac_rx_pcm_id := replicate nrx 0\<rparr>;
     (ctl_idx, _, v) \<leftarrow> form_streams nodes (0, 0, v) s;
     (_, v) \<leftarrow> form_backends [0..<ac_aif_count v] (ctl_idx, v);
     Some ((0, v), s) }}}}}"

section \<open>Callbacks\<close>

definition agmctl_elem_count :: "'z ctl_world_scheme \<Rightarrow> (int \<times> 'z ctl_world_scheme) option" where
  "agmctl_elem_count = with_ctl (\<lambda>v s. Some (sint (total_ctl_cnt v), s))"

text \<open>What is read and written of an element id.\<close>

record snd_ctl_elem_id =
  ei_mixer_iface :: bool
  ei_name :: string
  ei_numid :: u32

definition agmctl_elem_list ::
    "'k ctl_env_scheme \<Rightarrow> u32 \<Rightarrow> snd_ctl_elem_id \<Rightarrow> 'z ctl_world_scheme \<Rightarrow> ((int \<times> snd_ctl_elem_id) \<times> 'z ctl_world_scheme) option" where
  "agmctl_elem_list K offset eid = with_ctl (\<lambda>v s. do {
     let eid = eid\<lparr>ei_mixer_iface := True\<rparr>;
     if offset < total_ctl_cnt v
     then do { c \<leftarrow> load (controls v) (uint offset); Some ((0, eid\<lparr>ei_name := elem_id_name K (mixer_name c)\<rparr>), s) }
     else Some ((0, eid), s) })"

text \<open>The key and the id, whose number is set when the name is found; \<open>None\<close> is
  \<open>SND_CTL_EXT_KEY_NOT_FOUND\<close>.\<close>

definition agmctl_find_elem ::
    "snd_ctl_elem_id \<Rightarrow> 'z ctl_world_scheme \<Rightarrow> ((nat option \<times> snd_ctl_elem_id) \<times> 'z ctl_world_scheme) option" where
  "agmctl_find_elem eid = with_ctl (\<lambda>v s.
     if 0 < ei_numid eid \<and> ei_numid eid < total_ctl_cnt v then Some ((Some (unat (ei_numid eid) - 1), eid), s)
     else case find (\<lambda>i. i < length (controls v) \<and> mixer_name (controls v ! i) = ei_name eid) [0..<unat (total_ctl_cnt v)] of
         None \<Rightarrow> Some ((None, eid), s)
       | Some i \<Rightarrow> Some ((Some i, eid\<lparr>ei_numid := of_nat (i + 1)\<rparr>), s))"

text \<open>The functions of a key: a key that is too large is refused.\<close>

definition with_key ::
    "'r \<Rightarrow> nat \<Rightarrow> (agmctl_priv \<Rightarrow> agm_mixer_controls \<Rightarrow> 'z ctl_world_scheme \<Rightarrow> ('r \<times> 'z ctl_world_scheme) option) \<Rightarrow>
       'z ctl_world_scheme \<Rightarrow> ('r \<times> 'z ctl_world_scheme) option" where
  "with_key err key f = with_ctl (\<lambda>v s.
     if key \<ge> unat (total_ctl_cnt v) then Some (err, s)
     else do { c \<leftarrow> load (controls v) (int key); f v c s })"

definition agmctl_get_attribute ::
    "nat \<Rightarrow> 'z ctl_world_scheme \<Rightarrow> ((int \<times> agm_ctl_attribute_info option) \<times> 'z ctl_world_scheme) option" where
  "agmctl_get_attribute key = with_key (- EINVAL, None) key (\<lambda>v c s. Some ((0, Some (attr_info (mx_ctl_id c))), s))"

text \<open>Minimum, maximum and step.\<close>

definition agmctl_get_integer_info ::
    "nat \<Rightarrow> 'z ctl_world_scheme \<Rightarrow> ((int \<times> (int \<times> int \<times> int) option) \<times> 'z ctl_world_scheme) option" where
  "agmctl_get_integer_info key = with_key (- EINVAL, None) key (\<lambda>v c s.
     Some (case mx_ctl_id c of AGM_BE_CTL_NAME_MEDIA_CONFIG \<Rightarrow> (0, Some (0, 384000, 1)) | _ \<Rightarrow> (- EINVAL, None), s))"

definition agmctl_get_enumerated_info ::
    "nat \<Rightarrow> 'z ctl_world_scheme \<Rightarrow> ((int \<times> u32 option) \<times> 'z ctl_world_scheme) option" where
  "agmctl_get_enumerated_info key = with_key (- EINVAL, None) key (\<lambda>v c s.
     Some (case mx_ctl_id c of
         AGM_FE_CTL_NAME_CONNECT \<Rightarrow> (0, Some (of_nat (ac_aif_count v)))
       | AGM_FE_CTL_NAME_DISCONNECT \<Rightarrow> (0, Some (of_nat (ac_aif_count v)))
       | AGM_FE_CTL_NAME_CONTROL \<Rightarrow> (0, Some (of_nat (ac_aif_count v + 1)))
       | AGM_FE_TX_CTL_NAME_ECHOREF \<Rightarrow> (0, Some (of_nat (ac_aif_count v + 1)))
       | AGM_FE_TX_CTL_NAME_LOOPBACK \<Rightarrow> (0, Some (of_nat (ac_rx_count v + 1)))
       | _ \<Rightarrow> (- EINVAL, None), s))"

text \<open>The names of items: \<open>strlcpy\<close> cuts them to the buffer; \<open>None\<close> inside of the result says that
  nothing is written.\<close>

definition item_name :: "nat \<Rightarrow> string \<Rightarrow> string" where
  "item_name max_len n = take (max_len - 1) n"

definition zero_or :: "nat \<Rightarrow> string list \<Rightarrow> nat \<Rightarrow> string option option" where
  "zero_or max_len ns item =
     (if item = 0 then Some (Some (item_name max_len ''ZERO''))
      else do { n \<leftarrow> load ns (int item - 1); Some (Some (item_name max_len n)) })"

definition agmctl_get_enumerated_name ::
    "nat \<Rightarrow> u32 \<Rightarrow> nat \<Rightarrow> 'z ctl_world_scheme \<Rightarrow> ((int \<times> string option) \<times> 'z ctl_world_scheme) option" where
  "agmctl_get_enumerated_name key item max_len = with_key (- EINVAL, None) key (\<lambda>v c s.
     let aif_names = map fst (ac_aif_list v); i = unat item;
         connect_name = (if i \<ge> ac_aif_count v then Some None else do { n \<leftarrow> load aif_names (int i); Some (Some (item_name max_len n)) });
         control_name = (if i > ac_aif_count v then Some None else zero_or max_len aif_names i);
         loopback_name = (if i \<ge> ac_rx_count v then Some None else zero_or max_len (ac_rx_names v) i) in
     case mx_ctl_id c of
       AGM_FE_CTL_NAME_CONNECT \<Rightarrow> do { n \<leftarrow> connect_name; Some ((0, n), s) }
     | AGM_FE_CTL_NAME_DISCONNECT \<Rightarrow> do { n \<leftarrow> connect_name; Some ((0, n), s) }
     | AGM_FE_CTL_NAME_CONTROL \<Rightarrow> do { n \<leftarrow> control_name; Some ((0, n), s) }
     | AGM_FE_TX_CTL_NAME_ECHOREF \<Rightarrow> do { n \<leftarrow> control_name; Some ((0, n), s) }
     | AGM_FE_TX_CTL_NAME_LOOPBACK \<Rightarrow> do { n \<leftarrow> loopback_name; Some ((0, n), s) }
     | _ \<Rightarrow> Some ((- EINVAL, None), s))"

text \<open>The values are never read.\<close>

definition agmctl_read_enumerated :: "nat \<Rightarrow> 'z ctl_world_scheme \<Rightarrow> (int \<times> 'z ctl_world_scheme) option" where
  "agmctl_read_enumerated key = with_key (- EINVAL) key (\<lambda>v c s.
     Some (case mx_ctl_id c of
         AGM_FE_CTL_NAME_CONNECT \<Rightarrow> 0 | AGM_FE_CTL_NAME_DISCONNECT \<Rightarrow> 0 | AGM_FE_CTL_NAME_CONTROL \<Rightarrow> 0
       | AGM_FE_TX_CTL_NAME_LOOPBACK \<Rightarrow> 0 | AGM_FE_TX_CTL_NAME_ECHOREF \<Rightarrow> 0 | _ \<Rightarrow> - EINVAL, s))"

definition agmctl_write_enumerated ::
    "'k plugin_env_scheme \<Rightarrow> nat \<Rightarrow> u32 \<Rightarrow> 'z ctl_world_scheme \<Rightarrow> (int \<times> 'z ctl_world_scheme) option" where
  "agmctl_write_enumerated K key item = with_key (- EINVAL) key (\<lambda>v c s.
     case mx_ctl_id c of
       AGM_FE_CTL_NAME_CONNECT \<Rightarrow> agmctl_pcm_connect_put K c item s
     | AGM_FE_CTL_NAME_DISCONNECT \<Rightarrow> agmctl_pcm_connect_put K c item s
     | AGM_FE_TX_CTL_NAME_LOOPBACK \<Rightarrow> agmctl_pcm_loopback_put K c item s
     | AGM_FE_TX_CTL_NAME_ECHOREF \<Rightarrow> agmctl_pcm_ecref_put K c item s
     | AGM_FE_CTL_NAME_CONTROL \<Rightarrow> agmctl_pcm_control_put c item s
     | _ \<Rightarrow> Some (- EINVAL, s))"

definition agmctl_read_integer :: "nat \<Rightarrow> 'z ctl_world_scheme \<Rightarrow> (int \<times> 'z ctl_world_scheme) option" where
  "agmctl_read_integer key = with_key (- EINVAL) key (\<lambda>v c s.
     Some (case mx_ctl_id c of AGM_BE_CTL_NAME_MEDIA_CONFIG \<Rightarrow> 0 | _ \<Rightarrow> - EINVAL, s))"

definition agmctl_write_integer :: "nat \<Rightarrow> (nat \<Rightarrow> int) \<Rightarrow> 'z ctl_world_scheme \<Rightarrow> (int \<times> 'z ctl_world_scheme) option" where
  "agmctl_write_integer key val = with_key (- EINVAL) key (\<lambda>v c s.
     case mx_ctl_id c of AGM_BE_CTL_NAME_MEDIA_CONFIG \<Rightarrow> agmctl_be_media_config_put c val s | _ \<Rightarrow> Some (- EINVAL, s))"

text \<open>A buffer with a header of two words, a number and a length. The length is read as the one byte
  at offset 4; the data are the bytes from offset 8 on.\<close>

record tlv_buffer =
  tl_bytes :: "u8 list"
  tl_payload :: ctl_payload

definition tlv_len :: "u8 list \<Rightarrow> nat option" where
  "tlv_len bs = map_option unat (load bs 4)"

definition tlv_data :: "tlv_buffer \<Rightarrow> ctl_payload" where
  "tlv_data t = (tl_payload t)\<lparr>pl_data := drop 8 (tl_bytes t)\<rparr>"

text \<open>What a read of bytes writes to the buffer besides the bytes of the service.\<close>

datatype bytes_out = NO_OUT | TIMESTAMP_OUT "u64 option" | BUF_INFO_OUT agm_buf_info

definition agmctl_read_bytes ::
    "'k ctl_env_scheme \<Rightarrow> nat \<Rightarrow> tlv_buffer \<Rightarrow> 'z ctl_world_scheme \<Rightarrow> ((int \<times> bytes_out) \<times> 'z ctl_world_scheme) option" where
  "agmctl_read_bytes K key t = with_key (- EINVAL, NO_OUT) key (\<lambda>v c s. do {
     len \<leftarrow> tlv_len (tl_bytes t);
     let d = tlv_data t;
     case mx_ctl_id c of
       AGM_FE_CTL_NAME_GET_TAG_INFO \<Rightarrow> do { (ret, s) \<leftarrow> agmctl_pcm_tag_info_get K c len s; Some ((ret, NO_OUT), s) }
     | AGM_FE_TX_CTL_NAME_BUF_TSTAMP \<Rightarrow> do { ((ret, x), s) \<leftarrow> agmctl_pcm_buf_timestamp_get K c s; Some ((ret, TIMESTAMP_OUT x), s) }
     | AGM_FE_CTL_NAME_BUF_INFO \<Rightarrow> do { ((ret, x), s) \<leftarrow> agmctl_pcm_buf_info_get K c d s; Some ((ret, BUF_INFO_OUT x), s) }
     | AGM_FE_CTL_NAME_GET_PARAM \<Rightarrow> do { (ret, s) \<leftarrow> agmctl_pcm_get_param_get K c d len s; Some ((ret, NO_OUT), s) }
     | AGM_FE_CTL_NAME_EVENT \<Rightarrow> do { (ret, s) \<leftarrow> agmctl_pcm_event_get s; Some ((ret, NO_OUT), s) }
     | _ \<Rightarrow> Some ((- EINVAL, NO_OUT), s) })"

definition agmctl_write_bytes ::
    "'k plugin_env_scheme \<Rightarrow> nat \<Rightarrow> tlv_buffer \<Rightarrow> 'z ctl_world_scheme \<Rightarrow> (int \<times> 'z ctl_world_scheme) option" where
  "agmctl_write_bytes K key t = with_key (- EINVAL) key (\<lambda>v c s. do {
     len \<leftarrow> tlv_len (tl_bytes t);
     let d = tlv_data t;
     case mx_ctl_id c of
       AGM_FE_CTL_NAME_METADATA \<Rightarrow> agmctl_pcm_metadata_put K c d len s
     | AGM_FE_CTL_NAME_SET_PARAM \<Rightarrow> agmctl_pcm_setparam_put K c d len s
     | AGM_FE_CTL_NAME_SET_PARAM_TAG \<Rightarrow> agmctl_pcm_setparamtag_put K c d s
     | AGM_FE_CTL_NAME_EVENT \<Rightarrow> agmctl_pcm_event_put K c d s
     | AGM_FE_CTL_NAME_SET_CALIBRATION \<Rightarrow> agmctl_pcm_calibration_put K c d s
     | AGM_FE_CTL_NAME_GET_PARAM \<Rightarrow> agmctl_pcm_get_param_put K c d len s
     | AGM_BE_CTL_NAME_METADATA \<Rightarrow> agmctl_be_metadata_put K c d len s
     | AGM_BE_CTL_NAME_SET_PARAM \<Rightarrow> agmctl_be_setparam_put K c d len s
     | _ \<Rightarrow> Some (- EINVAL, s) })"

definition agm_ext_tlv_callback ::
    "'k ctl_env_scheme \<Rightarrow> nat \<Rightarrow> int \<Rightarrow> tlv_buffer \<Rightarrow> 'z ctl_world_scheme \<Rightarrow> ((int \<times> bytes_out) \<times> 'z ctl_world_scheme) option" where
  "agm_ext_tlv_callback K key op_flag t = with_ctl (\<lambda>v s.
     if key \<ge> unat (total_ctl_cnt v) then Some ((- EINVAL, NO_OUT), s)
     else if op_flag = 0 then agmctl_read_bytes K key t s
     else if op_flag = 1 then do { (ret, s) \<leftarrow> agmctl_write_bytes K key t s; Some ((ret, NO_OUT), s) }
     else Some ((- EINVAL, NO_OUT), s))"

definition agmctl_close :: "'z ctl_world_scheme \<Rightarrow> (unit \<times> 'z ctl_world_scheme) option" where
  "agmctl_close = with_ctl (\<lambda>v s. Some ((), (snd_card_def_put_card (ac_card_node v) s)\<lparr>ctl_plug := None\<rparr>))"

section \<open>Opening\<close>

text \<open>The configuration, as for the PCM plugin: the name of each field and its value. The result is
  the number of the card, or \<open>None\<close> for a value of the wrong type or an unknown field.\<close>

fun ctl_config :: "(string option \<times> int option) list \<Rightarrow> int \<Rightarrow> int option" where
  "ctl_config [] cnum = Some cnum"
| "ctl_config ((key, val) # conf) cnum =
     (case key of None \<Rightarrow> ctl_config conf cnum
      | Some k \<Rightarrow>
        if k \<in> {''comment'', ''type'', ''hint''} then ctl_config conf cnum
        else if k = ''card'' then (case val of None \<Rightarrow> None | Some n \<Rightarrow> ctl_config conf n)
        else None)"

definition agmctl_priv0 :: agmctl_priv where
  "agmctl_priv0 = \<lparr>ac_card_node = None, ac_aif_count = 0, ac_aif_list = [], ac_rx_count = 0, ac_rx_names = [], ac_rx_pcm_id = [],
     ac_pcm_count = 0, ac_pcm_mtd_ctl = [], ac_pcm_idx = [], ac_payload = None, ac_payload_size = 0, total_ctl_cnt = 0, controls = []\<rparr>"

text \<open>The list of back ends: the result, and the list when there is one. No back ends and a failed
  allocation end the open function with the code 0.\<close>

definition ctl_aif_list ::
    "'k client_env_scheme \<Rightarrow> 'z plugin_world_scheme \<Rightarrow> ((int \<times> (nat \<times> (string \<times> direction) list) option) \<times> 'z plugin_world_scheme) option" where
  "ctl_aif_list K s =
     (case agm_get_aif_info_list False (Some 0) (svc s) of
        (rc, Some (n, _)) \<Rightarrow>
          if rc \<noteq> 0 \<or> n = 0 then Some ((rc, None), s) else do {
          (ok, s) \<leftarrow> client_calloc K s;
          if \<not> ok then Some ((rc, None), s)
          else case agm_get_aif_info_list True (Some n) (svc s) of
              (rc, Some (m, l)) \<Rightarrow> Some ((rc, if rc \<noteq> 0 then None else Some (m, l)), s)
            | (rc, None) \<Rightarrow> Some ((rc, None), s) }
      | (rc, None) \<Rightarrow> Some ((rc, None), s))"

definition agm_ctl_open ::
    "'k ctl_env_scheme \<Rightarrow> (string option \<times> int option) list \<Rightarrow> 'z ctl_world_scheme \<Rightarrow> (int \<times> 'z ctl_world_scheme) option" where
  "agm_ctl_open K conf s = do {
     (ok, s) \<leftarrow> client_calloc K s;
     if \<not> ok then Some (- ENOMEM, s)
     else case ctl_config conf 0 of
       None \<Rightarrow> Some (- EINVAL, s)
     | Some cnum \<Rightarrow> do {
         ((rc, aifs), s) \<leftarrow> ctl_aif_list K s;
         case aifs of None \<Rightarrow> Some (rc, s)
         | Some (m, l) \<Rightarrow> do {
             (card_node, s) \<leftarrow> get_card K (of_int cnum) s;
             case card_node of None \<Rightarrow> Some (- EINVAL, s)
             | Some c \<Rightarrow> do {
                 ((rc, v), s) \<leftarrow> amp_form_mixer_controls K (agmctl_priv0\<lparr>ac_card_node := card_node, ac_aif_count := m, ac_aif_list := l\<rparr>) s;
                 if rc \<noteq> 0 then Some (rc, snd_card_def_put_card card_node s)
                 else do {
                   (rc, s) \<leftarrow> client_ecall K CL_CTL_EXT_CREATE s;
                   if rc < 0 then Some (rc, snd_card_def_put_card card_node s)
                   else Some (0, s\<lparr>ctl_plug := Some v\<rparr>) }}}}}"

end
