(* ===== verification/Ctl_Controls.thy ===== *)
theory Ctl_Controls
  imports Ctl_Plugin Plugin_Properties
begin

text \<open>
  The controls that an open of the alsa-lib control plugin creates. \<open>ctl_table\<close> says which they are: a group for each
  stream of the card, in the order of the definition file, and a group for each back end. The code counts them beforehand, allocates the
  arrays and fills them with running positions; the lemmas show that the arrays are exactly full.
\<close>

section \<open>The table of controls\<close>

text \<open>A stream: its name, its number, and whether it plays and captures.\<close>

type_synonym ctl_stream = "string \<times> int \<times> bool \<times> bool"

definition group_controls :: "string \<Rightarrow> int \<Rightarrow> nat \<Rightarrow> string list \<Rightarrow> agm_mixer_controls list" where
  "group_controls base n k es = map (\<lambda>(i, e). control_of base n i e) (List.enumerate k es)"

fun stream_controls :: "ctl_stream \<Rightarrow> agm_mixer_controls list" where
  "stream_controls (n, i, p, c) = group_controls n i 0 agm_fe_ctl_name_extn @ (if c then group_controls n i 11 agm_tx_ctl_name_extn else [])"

definition backend_controls :: "string list \<Rightarrow> nat \<Rightarrow> agm_mixer_controls list" where
  "backend_controls ns i = group_controls (ns ! i) (int i) 14 agm_be_ctl_name_extn"

definition ctl_table :: "ctl_stream list \<Rightarrow> string list \<Rightarrow> agm_mixer_controls list" where
  "ctl_table xs ns = concat (map stream_controls xs) @ concat (map (backend_controls ns) [0..<length ns])"

definition playbacks :: "ctl_stream list \<Rightarrow> (string \<times> int) list" where
  "playbacks xs = map (\<lambda>(n, i, _). (take 23 n, i)) (filter (\<lambda>(_, _, p, _). p) xs)"

text \<open>An array that is filled up to position \<open>idx\<close> with \<open>pre\<close>.\<close>

definition filled :: "'a list \<Rightarrow> int \<times> 'a list \<Rightarrow> bool" where
  "filled pre x \<longleftrightarrow> fst x = int (length pre) \<and> take (length pre) (snd x) = pre \<and> length pre \<le> length (snd x)"

lemma filled_store:
  assumes "filled pre (idx, xs)" "length pre < length xs"
  shows "\<exists>ys. store idx y xs = Some ys \<and> filled (pre @ [y]) (idx + 1, ys) \<and> length ys = length xs"
  using assms by (auto simp: filled_def store_def take_Suc_conv_app_nth take_update_cancel)

lemma group_controls_Cons: "group_controls base n k (e # es) = control_of base n k e # group_controls base n (k + 1) es"
  by (simp add: group_controls_def)

lemma fill_controls_filled:
  assumes "filled pre (idx, cs)" "length pre + length es \<le> length cs"
  shows "\<exists>x. fill_controls base n k es (idx, cs) = Some x \<and> filled (pre @ group_controls base n k es) x \<and> length (snd x) = length cs"
  using assms
proof (induction es arbitrary: pre idx cs k)
  case Nil
  then show ?case by (simp add: group_controls_def)
next
  case (Cons e es)
  from filled_store [OF Cons.prems(1), of "control_of base n k e"] Cons.prems(2) obtain ds where
    ds: "store idx (control_of base n k e) cs = Some ds" "filled (pre @ [control_of base n k e]) (idx + 1, ds)" "length ds = length cs" by auto
  from Cons.IH [OF ds(2), of "k + 1"] Cons.prems(2) ds show ?case by (simp add: group_controls_Cons)
qed

lemma group_controls_length [simp]: "length (group_controls base n k es) = length es"
  by (simp add: group_controls_def)

text \<open>The streams that the devices of a card stand for.\<close>

definition dev_int :: "snd_dev_def \<Rightarrow> string \<Rightarrow> int option" where
  "dev_int d prop = (case map_of (prop_val_list d) prop of None \<Rightarrow> Some 0 | Some v \<Rightarrow> atoi v)"

definition dev_stream :: "snd_dev_def \<Rightarrow> ctl_stream option" where
  "dev_stream d = do {
     n \<leftarrow> nd_name d;
     p \<leftarrow> dev_int d ''playback'';
     c \<leftarrow> dev_int d ''capture'';
     Some (n, sint (nd_device d), p = 1, c = 1) }"

definition is_stream :: "'z snd_world_scheme \<Rightarrow> node_ptr \<Rightarrow> ctl_stream \<Rightarrow> bool" where
  "is_stream s node x \<longleftrightarrow> (\<exists>d. node_at node s = Some d \<and> dev_stream d = Some x)"

lemma stream_node:
  assumes "is_stream s node (n, i, p, c)"
  shows "node_name_id node s = Some (Inr (n, i))" "node_int node ''id'' 0 s = Some i"
    "\<exists>a. node_int node ''playback'' 0 s = Some a \<and> (a = 1) = p" "\<exists>a. node_int node ''capture'' 0 s = Some a \<and> (a = 1) = c"
proof -
  obtain d where d: "node_at node s = Some d" "dev_stream d = Some (n, i, p, c)" using assms by (auto simp: is_stream_def)
  then obtain a b where ab: "nd_name d = Some n" "dev_int d ''playback'' = Some a" "dev_int d ''capture'' = Some b"
      "i = sint (nd_device d)" "p = (a = 1)" "c = (b = 1)"
    by (auto simp: dev_stream_def bind_eq_Some_conv)
  show "node_name_id node s = Some (Inr (n, i))" "node_int node ''id'' 0 s = Some i"
    using d(1) ab by (simp_all add: node_name_id_def node_int_def snd_card_def_get_str_def snd_card_def_get_int_def)
  show "\<exists>a. node_int node ''playback'' 0 s = Some a \<and> (a = 1) = p" "\<exists>a. node_int node ''capture'' 0 s = Some a \<and> (a = 1) = c"
    using d(1) ab by (auto simp: node_int_def snd_card_def_get_int_def dev_int_def split: option.splits)
qed

text \<open>The counts.\<close>

lemma count_streams_eq:
  "list_all2 (is_stream s) nodes xs \<Longrightarrow> count_streams nodes s = Some (map (\<lambda>(_, i, _). i) xs,
     length (filter (\<lambda>(_, _, p, _). p) xs), length (filter (\<lambda>(_, _, _, c). c) xs))"
proof (induction rule: list_all2_induct)
  case (Cons node nodes x xs)
  obtain n i p c where x: "x = (n, i, p, c)" by (cases x) auto
  note f = stream_node [OF Cons(1) [unfolded x]]
  from f(3,4) obtain a b where "node_int node ''playback'' 0 s = Some a" "(a = 1) = p" "node_int node ''capture'' 0 s = Some b" "(b = 1) = c"
    by auto
  then show ?case using f(2) Cons.IH by (auto simp: x)
qed simp

lemma stream_controls_count:
  "length (concat (map stream_controls xs)) = 11 * length xs + 3 * length (filter (\<lambda>(_, _, _, c). c) xs)"
  by (induction xs rule: list.induct) (auto simp: agm_fe_ctl_name_extn_def agm_tx_ctl_name_extn_def)

text \<open>What the loop over the streams has done.\<close>

definition formed :: "ctl_stream list \<Rightarrow> agmctl_priv \<Rightarrow> int \<times> int \<times> agmctl_priv \<Rightarrow> bool" where
  "formed xs v y \<longleftrightarrow> (case y of (ctl_idx, rx_idx, w) \<Rightarrow>
     filled (concat (map stream_controls xs)) (ctl_idx, controls w) \<and> length (controls w) = length (controls v)
     \<and> filled (map fst (playbacks xs)) (rx_idx, ac_rx_names w) \<and> length (ac_rx_names w) = length (ac_rx_names v)
     \<and> filled (map snd (playbacks xs)) (rx_idx, ac_rx_pcm_id w) \<and> length (ac_rx_pcm_id w) = length (ac_rx_pcm_id v)
     \<and> w\<lparr>controls := controls v, ac_rx_names := ac_rx_names v, ac_rx_pcm_id := ac_rx_pcm_id v\<rparr> = v)"

lemma extn_lengths: "length agm_fe_ctl_name_extn = 11" "length agm_tx_ctl_name_extn = 3" "length agm_be_ctl_name_extn = 3"
  by (simp_all add: agm_fe_ctl_name_extn_def agm_tx_ctl_name_extn_def agm_be_ctl_name_extn_def)

lemma common_formed:
  assumes "is_stream s node (n, i, p, c)" "filled pre (ci, controls w)" "length pre + 11 \<le> length (controls w)"
  shows "\<exists>ci' cs. agmctl_form_common_fe_controls node (ci, w) s = Some (0, ci', w\<lparr>controls := cs\<rparr>)
    \<and> filled (pre @ group_controls n i 0 agm_fe_ctl_name_extn) (ci', cs) \<and> length cs = length (controls w)"
  using fill_controls_filled [OF assms(2), of agm_fe_ctl_name_extn n i 0] assms(3) stream_node(1) [OF assms(1)]
  by (auto simp: agmctl_form_common_fe_controls_def extn_lengths)

lemma tx_formed:
  assumes "is_stream s node (n, i, p, c)" "filled pre (ci, controls w)" "length pre + 3 \<le> length (controls w)"
  shows "\<exists>ci' cs. agmctl_form_tx_controls node (ci, w) s = Some (0, ci', w\<lparr>controls := cs\<rparr>)
    \<and> filled (pre @ group_controls n i 11 agm_tx_ctl_name_extn) (ci', cs) \<and> length cs = length (controls w)"
  using fill_controls_filled [OF assms(2), of agm_tx_ctl_name_extn n i 11] assms(3) stream_node(1) [OF assms(1)]
  by (auto simp: agmctl_form_tx_controls_def extn_lengths)

lemma rx_formed:
  assumes "is_stream s node (n, i, p, c)" "filled ns (ri, ac_rx_names w)" "filled ids (ri, ac_rx_pcm_id w)"
    and "length ns < length (ac_rx_names w)" "length ids < length (ac_rx_pcm_id w)"
  shows "\<exists>ns' ids'. agmctl_populate_rx_name node (ri, w) s = Some (0, ri + 1, w\<lparr>ac_rx_pcm_id := ids', ac_rx_names := ns'\<rparr>)
    \<and> filled (ns @ [take 23 n]) (ri + 1, ns') \<and> length ns' = length (ac_rx_names w)
    \<and> filled (ids @ [i]) (ri + 1, ids') \<and> length ids' = length (ac_rx_pcm_id w)"
  using filled_store [OF assms(2,4), of "take 23 n"] filled_store [OF assms(3,5), of i] stream_node(1) [OF assms(1)]
  by (auto simp: agmctl_populate_rx_name_def) blast

lemma stream_formed:
  assumes x: "is_stream s node x" and f: "formed xs v (ci, ri, w)"
    and room: "length (concat (map stream_controls (xs @ [x]))) \<le> length (controls v)"
      "length (playbacks (xs @ [x])) \<le> length (ac_rx_names v)" "length (playbacks (xs @ [x])) \<le> length (ac_rx_pcm_id v)"
  shows "\<exists>y. form_streams (node # nodes) (ci, ri, w) s = form_streams nodes y s \<and> formed (xs @ [x]) v y"
proof -
  obtain n i p c where x': "x = (n, i, p, c)" by (cases x) auto
  note node = stream_node [OF x [unfolded x']]
  obtain a b where ab: "node_int node ''playback'' 0 s = Some a" "(a = 1) = p" "node_int node ''capture'' 0 s = Some b" "(b = 1) = c"
    using node(3,4) by auto
  let ?pre = "concat (map stream_controls xs)"
  have w: "filled ?pre (ci, controls w)" "length (controls w) = length (controls v)"
    "filled (map fst (playbacks xs)) (ri, ac_rx_names w)" "length (ac_rx_names w) = length (ac_rx_names v)"
    "filled (map snd (playbacks xs)) (ri, ac_rx_pcm_id w)" "length (ac_rx_pcm_id w) = length (ac_rx_pcm_id v)"
    "w\<lparr>controls := controls v, ac_rx_names := ac_rx_names v, ac_rx_pcm_id := ac_rx_pcm_id v\<rparr> = v"
    using f by (simp_all add: formed_def)
  note l = extn_lengths
  obtain ci1 cs1 where s1: "agmctl_form_common_fe_controls node (ci, w) s = Some (0, ci1, w\<lparr>controls := cs1\<rparr>)"
      "filled (?pre @ group_controls n i 0 agm_fe_ctl_name_extn) (ci1, cs1)" "length cs1 = length (controls w)"
    using common_formed [OF x [unfolded x'] w(1)] room(1) w(2) l by (auto simp: x')
  let ?w1 = "w\<lparr>controls := cs1\<rparr>"
  obtain ri2 ns2 ids2 where s2: "(if a = 1 then agmctl_populate_rx_name node (ri, ?w1) s else Some (0, ri, ?w1)) =
        Some (0, ri2, ?w1\<lparr>ac_rx_pcm_id := ids2, ac_rx_names := ns2\<rparr>)"
      "filled (map fst (playbacks (xs @ [x]))) (ri2, ns2)" "length ns2 = length (ac_rx_names v)"
      "filled (map snd (playbacks (xs @ [x]))) (ri2, ids2)" "length ids2 = length (ac_rx_pcm_id v)"
  proof (cases "a = 1")
    case True
    then have "length (playbacks xs) < length (ac_rx_names v)" "length (playbacks xs) < length (ac_rx_pcm_id v)"
      using room(2,3) ab(2) by (simp_all add: x' playbacks_def)
    then show ?thesis
      using that rx_formed [OF x [unfolded x'], of "map fst (playbacks xs)" ri ?w1 "map snd (playbacks xs)"] w True ab(2)
      by (auto simp: x' playbacks_def)
  next
    case False
    then show ?thesis using that [of ri "ac_rx_names w" "ac_rx_pcm_id w"] w ab(2) by (simp add: x' playbacks_def)
  qed
  let ?w2 = "?w1\<lparr>ac_rx_pcm_id := ids2, ac_rx_names := ns2\<rparr>"
  obtain ci3 cs3 where s3: "(if b = 1 then agmctl_form_tx_controls node (ci1, ?w2) s else Some (0, ci1, ?w2)) = Some (0, ci3, ?w2\<lparr>controls := cs3\<rparr>)"
      "filled (concat (map stream_controls (xs @ [x]))) (ci3, cs3)" "length cs3 = length (controls v)"
  proof (cases "b = 1")
    case True
    then have "length (?pre @ group_controls n i 0 agm_fe_ctl_name_extn) + 3 \<le> length (controls ?w2)"
      using room(1) ab(4) s1(3) w(2) l by (simp add: x')
    then show ?thesis
      using that tx_formed [OF x [unfolded x'], of "?pre @ group_controls n i 0 agm_fe_ctl_name_extn" ci1 ?w2] s1 w(2) True ab(4)
      by (auto simp: x')
  next
    case False
    then show ?thesis using that [of ci1 cs1] s1 w(2) ab(4) by (simp add: x')
  qed
  have "form_streams (node # nodes) (ci, ri, w) s = form_streams nodes (ci3, ri2, ?w2\<lparr>controls := cs3\<rparr>) s"
    using s1(1) s2(1) s3(1) ab by (simp only: form_streams.simps bind.simps prod.case)
  moreover have "formed (xs @ [x]) v (ci3, ri2, ?w2\<lparr>controls := cs3\<rparr>)"
    using s2 s3 w(7) by (simp add: formed_def)
  ultimately show ?thesis by blast
qed

lemma form_streams_formed:
  assumes "list_all2 (is_stream s) nodes ys" "formed xs v z"
    "length (concat (map stream_controls (xs @ ys))) \<le> length (controls v)"
    "length (playbacks (xs @ ys)) \<le> length (ac_rx_names v)" "length (playbacks (xs @ ys)) \<le> length (ac_rx_pcm_id v)"
  shows "\<exists>y. form_streams nodes z s = Some y \<and> formed (xs @ ys) v y"
  using assms
proof (induction arbitrary: xs z rule: list_all2_induct)
  case (Cons node nodes x ys)
  obtain ci ri w where z: "z = (ci, ri, w)" by (cases z) auto
  have room: "length (concat (map stream_controls (xs @ [x]))) \<le> length (controls v)"
    "length (playbacks (xs @ [x])) \<le> length (ac_rx_names v)" "length (playbacks (xs @ [x])) \<le> length (ac_rx_pcm_id v)"
    using Cons.prems by (auto simp: playbacks_def)
  from stream_formed [OF Cons.hyps(1) Cons.prems(1) [unfolded z] room] obtain y where
    "form_streams (node # nodes) z s = form_streams nodes y s" "formed (xs @ [x]) v y" unfolding z by blast
  with Cons.IH [of "xs @ [x]" y] Cons.prems show ?case by simp
qed simp

lemma backends_formed:
  assumes "filled pre (ci, controls w)" "length pre + 3 * length ids \<le> length (controls w)" "set ids \<subseteq> {..<length (ac_aif_list w)}"
  shows "\<exists>ci' cs. form_backends ids (ci, w) = Some (ci', w\<lparr>controls := cs\<rparr>)
    \<and> filled (pre @ concat (map (backend_controls (map fst (ac_aif_list w))) ids)) (ci', cs) \<and> length cs = length (controls w)"
  using assms
proof (induction ids arbitrary: pre ci w)
  case Nil
  then show ?case by (intro exI [of _ ci] exI [of _ "controls w"]) simp
next
  case (Cons i ids)
  let ?a = "map fst (ac_aif_list w)"
  have i: "load (ac_aif_list w) (int i) = Some (ac_aif_list w ! i)" "?a ! i = fst (ac_aif_list w ! i)"
    using Cons.prems(3) by (simp_all add: load_def)
  have "length pre + length agm_be_ctl_name_extn \<le> length (controls w)" using Cons.prems(2) by (simp add: extn_lengths)
  from fill_controls_filled [OF Cons.prems(1) this, of "?a ! i" "int i" 14] obtain ci1 cs1 where
    s: "fill_controls (?a ! i) (int i) 14 agm_be_ctl_name_extn (ci, controls w) = Some (ci1, cs1)"
      "filled (pre @ backend_controls ?a i) (ci1, cs1)" "length cs1 = length (controls w)" by (auto simp: backend_controls_def)
  have step: "form_backends (i # ids) (ci, w) = form_backends ids (ci1, w\<lparr>controls := cs1\<rparr>)"
    using s(1) i by (simp add: agmctl_form_be_controls_def)
  have "length (pre @ backend_controls ?a i) + 3 * length ids \<le> length cs1"
    using Cons.prems(2) s(3) by (simp add: backend_controls_def extn_lengths)
  then show ?case using Cons.IH [of "pre @ backend_controls ?a i" ci1 "w\<lparr>controls := cs1\<rparr>"] s Cons.prems(3) unfolding step by auto
qed

lemma is_stream_hist [simp]: "is_stream (s\<lparr>cl_hist := h\<rparr>) = is_stream s"
  by (simp add: is_stream_def node_at_def live_card_def fun_eq_iff)

lemma callocs_total:
  "\<exists>ok h. client_callocs n K s = Some (ok, s\<lparr>cl_hist := h\<rparr>) \<and> ((\<forall>h. cl_ret K h CL_CALLOC = 0) \<longrightarrow> ok)"
proof (induction n arbitrary: s)
  case 0
  show ?case unfolding client_callocs.simps by (intro exI [of _ True] exI [of _ "cl_hist s"]) simp
next
  case (Suc n)
  show ?case using Suc [of "s\<lparr>cl_hist := cl_hist s @ [CL_CALLOC]\<rparr>"] by (auto simp: client_calloc_def client_ecall_def)
qed

lemma those_nth: "those (map f xs) = Some ys \<Longrightarrow> list_all2 (\<lambda>x y. f x = Some y) xs ys"
  by (induction xs arbitrary: ys) (auto split: option.splits)

text \<open>The streams of a card: its PCM and its compress devices.\<close>

definition card_devs :: "snd_dev_def_card \<Rightarrow> snd_dev_def list" where
  "card_devs c = devs_list c SND_NODE_TYPE_PCM @ devs_list c SND_NODE_TYPE_COMPR"

definition card_streams :: "snd_dev_def_card \<Rightarrow> ctl_stream list option" where
  "card_streams c = those (map dev_stream (card_devs c))"

definition dev_nodes :: "nat \<Rightarrow> snd_dev_def_card \<Rightarrow> snd_node_type \<Rightarrow> node_ptr list" where
  "dev_nodes a c ty = map (\<lambda>i. (a, ty, i)) [0..<length (devs_list c ty)]"

lemma stream_nodes_eq:
  assumes "ac_card_node v = Some a" "live_card a s = Some c"
  shows "stream_nodes v (int (length (devs_list c SND_NODE_TYPE_PCM))) (int (length (devs_list c SND_NODE_TYPE_COMPR))) s =
    Some (0, dev_nodes a c SND_NODE_TYPE_PCM @ dev_nodes a c SND_NODE_TYPE_COMPR)"
  using assms by (simp add: stream_nodes_def snd_card_def_get_nodes_for_type_def node_list_of_def dev_nodes_def)

lemma dev_nodes_streams:
  assumes "live_card a s = Some c" "list_all2 (\<lambda>d x. dev_stream d = Some x) (devs_list c ty) xs"
  shows "list_all2 (is_stream s) (dev_nodes a c ty) xs"
  using assms by (auto simp: list_all2_conv_all_nth dev_nodes_def is_stream_def node_at_def)

lemma card_streams_nodes:
  assumes "live_card a s = Some c" "card_streams c = Some xs"
  shows "list_all2 (is_stream s) (dev_nodes a c SND_NODE_TYPE_PCM @ dev_nodes a c SND_NODE_TYPE_COMPR) xs"
proof -
  obtain us vs where "xs = us @ vs" "list_all2 (\<lambda>d x. dev_stream d = Some x) (devs_list c SND_NODE_TYPE_PCM) us"
      "list_all2 (\<lambda>d x. dev_stream d = Some x) (devs_list c SND_NODE_TYPE_COMPR) vs"
    using those_nth [OF assms(2) [unfolded card_streams_def]] by (auto simp: card_devs_def list_all2_append1)
  with dev_nodes_streams [OF assms(1)] show ?thesis by (simp add: list_all2_appendI)
qed

text \<open>What the plugin has when its controls were created.\<close>

definition ctl_made :: "ctl_stream list \<Rightarrow> agmctl_priv \<Rightarrow> agmctl_priv \<Rightarrow> bool" where
  "ctl_made xs v w \<longleftrightarrow> controls w = ctl_table xs (map fst (ac_aif_list v)) \<and> unat (total_ctl_cnt w) = length (controls w)
     \<and> ac_rx_names w = map fst (playbacks xs) \<and> ac_rx_pcm_id w = map snd (playbacks xs) \<and> ac_rx_count w = length (playbacks xs)
     \<and> ac_pcm_idx w = map (\<lambda>(_, i, _). i) xs \<and> ac_pcm_count w = length xs \<and> ac_pcm_mtd_ctl w = replicate (length xs) 0
     \<and> ac_aif_list w = ac_aif_list v \<and> ac_aif_count w = ac_aif_count v \<and> ac_card_node w = ac_card_node v \<and> ac_payload w = ac_payload v"

lemma filled_full: "filled pre (idx, xs) \<Longrightarrow> length xs = length pre \<Longrightarrow> xs = pre"
  by (simp add: filled_def)

lemma backend_controls_count: "length (concat (map (backend_controls ns) ids)) = 3 * length ids"
  by (induction ids) (simp_all add: backend_controls_def extn_lengths)

lemma ctl_table_length:
  "length (ctl_table xs ns) = 11 * length xs + 3 * length (filter (\<lambda>(_, _, _, c). c) xs) + 3 * length ns"
  by (simp add: ctl_table_def stream_controls_count backend_controls_count)

text \<open>The loops fill the arrays exactly.\<close>

lemma form_loops:
  assumes "list_all2 (is_stream s) nodes xs" "length (controls v) = length (ctl_table xs (map fst (ac_aif_list v)))"
    "length (ac_rx_names v) = length (playbacks xs)" "length (ac_rx_pcm_id v) = length (playbacks xs)"
  shows "\<exists>ci ri w ci' cs. form_streams nodes (0, 0, v) s = Some (ci, ri, w)
    \<and> form_backends [0..<length (ac_aif_list v)] (ci, w) = Some (ci', v\<lparr>controls := cs, ac_rx_names := map fst (playbacks xs), ac_rx_pcm_id := map snd (playbacks xs)\<rparr>)
    \<and> cs = ctl_table xs (map fst (ac_aif_list v)) \<and> ac_aif_count w = ac_aif_count v"
proof -
  have "formed [] v (0, 0, v)" by (simp add: formed_def filled_def playbacks_def)
  from form_streams_formed [OF assms(1) this] assms(2-4) obtain ci ri w where
    w: "form_streams nodes (0, 0, v) s = Some (ci, ri, w)" "formed xs v (ci, ri, w)" by (auto simp: ctl_table_def)
  then have f: "filled (concat (map stream_controls xs)) (ci, controls w)" "length (controls w) = length (controls v)"
    and rx: "ac_rx_names w = map fst (playbacks xs)" "ac_rx_pcm_id w = map snd (playbacks xs)"
    and same: "w\<lparr>controls := controls v, ac_rx_names := ac_rx_names v, ac_rx_pcm_id := ac_rx_pcm_id v\<rparr> = v"
    using assms(3,4) by (auto simp: formed_def intro: filled_full)
  from same have aif: "ac_aif_list w = ac_aif_list v" "ac_aif_count w = ac_aif_count v" by (cases w; cases v; simp)+
  have "set [0..<length (ac_aif_list v)] \<subseteq> {..<length (ac_aif_list w)}" using aif by auto
  from backends_formed [OF f(1) _ this] assms(2) f(2) aif obtain ci' cs where
    b: "form_backends [0..<length (ac_aif_list v)] (ci, w) = Some (ci', w\<lparr>controls := cs\<rparr>)"
      "filled (ctl_table xs (map fst (ac_aif_list v))) (ci', cs)" "length cs = length (controls w)"
    by (auto simp: ctl_table_def backend_controls_count)
  then have "cs = ctl_table xs (map fst (ac_aif_list v))" using assms(2) f(2) by (auto intro: filled_full)
  moreover have "w\<lparr>controls := cs\<rparr> = v\<lparr>controls := cs, ac_rx_names := map fst (playbacks xs), ac_rx_pcm_id := map snd (playbacks xs)\<rparr>"
    using same rx by (cases w; cases v) simp
  ultimately show ?thesis using w(1) b(1) aif by auto
qed

lemma form_controls:
  fixes s :: "'z snd_world_scheme"
  assumes "ac_card_node v = Some a" "live_card a s = Some c" "card_streams c = Some xs" "xs \<noteq> []"
    and "ac_aif_count v = length (ac_aif_list v)" "length (ctl_table xs (map fst (ac_aif_list v))) < 2 ^ 32"
  shows "\<exists>r w h. amp_form_mixer_controls K v s = Some ((r, w), s\<lparr>cl_hist := h\<rparr>) 
    \<and> (if r = 0 then ctl_made xs v w else r = - ENOMEM) \<and> ((\<forall>h. cl_ret K h CL_CALLOC = 0) \<longrightarrow> r = 0)"
proof -
  let ?np = "length (devs_list c SND_NODE_TYPE_PCM)" and ?nc = "length (devs_list c SND_NODE_TYPE_COMPR)"
  let ?nodes = "dev_nodes a c SND_NODE_TYPE_PCM @ dev_nodes a c SND_NODE_TYPE_COMPR"
  let ?ntx = "length (filter (\<lambda>(_, _, _, c). c) xs)"
  have len: "length xs = ?np + ?nc"
    using list_all2_lengthD [OF those_nth [OF assms(3) [unfolded card_streams_def]]] by (simp add: card_devs_def)
  have num: "snd_card_def_get_num_node (ac_card_node v) 0 s = Some (int ?np)" "snd_card_def_get_num_node (ac_card_node v) 2 s = Some (int ?nc)"
    using assms(1,2) by (simp_all add: snd_card_def_get_num_node_def node_list_of_def)
  have some: "\<not> (int ?np \<le> 0 \<and> int ?nc \<le> 0)" using len assms(4) by (cases xs) auto
  have live: "live_card a (s\<lparr>cl_hist := h\<rparr>) = Some c" for h using assms(2) by (simp add: live_card_def split: if_splits)
  note nodes = stream_nodes_eq [OF assms(1) live]
  note streams = card_streams_nodes [OF live assms(3)]
  note count = count_streams_eq [OF streams]
  define total where "total = (of_nat ((?np + ?nc) * length agm_fe_ctl_name_extn) + of_nat (?ntx * length agm_tx_ctl_name_extn)
      + of_nat (ac_aif_count v * length agm_be_ctl_name_extn) :: u32)"
  have "total = of_nat (length (ctl_table xs (map fst (ac_aif_list v))))"
    using assms(5) by (simp add: total_def ctl_table_length extn_lengths len algebra_simps)
  then have total: "unat total = length (ctl_table xs (map fst (ac_aif_list v)))"
    using assms(6) by (simp add: unat_of_nat take_bit_nat_eq_self)
  have rx: "length (filter (\<lambda>(_, _, p, _). p) xs) = length (playbacks xs)" by (simp add: playbacks_def)
  obtain ok h where c1: "client_callocs 3 K s = Some (ok, s\<lparr>cl_hist := h\<rparr>)" and ok: "(\<forall>h. cl_ret K h CL_CALLOC = 0) \<longrightarrow> ok"
    using callocs_total [of 3 K s] by blast
  obtain ok' h' where c2: "client_callocs 3 K (s\<lparr>cl_hist := h\<rparr>) = Some (ok', s\<lparr>cl_hist := h'\<rparr>)" and ok': "(\<forall>h. cl_ret K h CL_CALLOC = 0) \<longrightarrow> ok'"
    using callocs_total [of 3 K "s\<lparr>cl_hist := h\<rparr>"] by auto
  define v' where "v' = v\<lparr>ac_pcm_count := ?np + ?nc, ac_pcm_mtd_ctl := replicate (?np + ?nc) 0, ac_pcm_idx := map (\<lambda>(_, i, _). i) xs,
      ac_rx_count := length (playbacks xs), total_ctl_cnt := total, controls := replicate (unat total) control0,
      ac_rx_names := replicate (length (playbacks xs)) [], ac_rx_pcm_id := replicate (length (playbacks xs)) 0\<rparr>"
  from form_loops [OF streams [of h'], of v'] total obtain ci ri w ci' where
    w: "form_streams ?nodes (0, 0, v') (s\<lparr>cl_hist := h'\<rparr>) = Some (ci, ri, w)"
      "form_backends [0..<ac_aif_count w] (ci, w) = Some (ci', v'\<lparr>controls := ctl_table xs (map fst (ac_aif_list v)),
         ac_rx_names := map fst (playbacks xs), ac_rx_pcm_id := map snd (playbacks xs)\<rparr>)"
    using assms(5) by (auto simp: v'_def)
  have "amp_form_mixer_controls K v s = (if \<not> ok then Some ((- ENOMEM, v), s\<lparr>cl_hist := h\<rparr>)
      else if \<not> ok' then Some ((- ENOMEM, v), s\<lparr>cl_hist := h'\<rparr>)
      else Some ((0, v'\<lparr>controls := ctl_table xs (map fst (ac_aif_list v)), ac_rx_names := map fst (playbacks xs), ac_rx_pcm_id := map snd (playbacks xs)\<rparr>), s\<lparr>cl_hist := h'\<rparr>))"
    using some w by (simp add: amp_form_mixer_controls_def num c1 c2 nodes count rx Let_def v'_def total_def nat_int_add)
  then show ?thesis using total len ok ok' by (auto simp: ctl_made_def v'_def)
qed

end
