(* ===== verification/Ctl_Plugin_Properties.thy ===== *)
theory Ctl_Plugin_Properties
  imports Ctl_Controls Pcm_Plugin_Properties
begin

text \<open>
  Properties of the alsa-lib control plugin: selections last until the next one for the stream, listing and finding controls agree, the
  type of a control decides which functions serve it, references to cards balance. The locale \<open>ctl_invariant\<close> states what
  a property has to promise so that every callback keeps it; it is interpreted for the selection of a stream and for
  the references of a card.
\<close>

section \<open>The controls of a card\<close>

text \<open>\<^bold>\<open>C24.\<close> On a card whose devices all have a name, creation of the controls returns, and unless an allocation fails it
  builds exactly the table: for each PCM and compress device of the definition file its group of controls and, when it captures, the
  capture group, then a group for each back end, without a gap and with the count that was computed beforehand; the
  names and numbers of the playback streams are listed in the same order and nothing is selected for any stream.\<close>

theorem ctl_controls:
  fixes s :: "'z snd_world_scheme"
  assumes "ac_card_node v = Some a" "live_card a s = Some c" "card_streams c = Some xs" "xs \<noteq> []"
    and "ac_aif_count v = length (ac_aif_list v)" "length (ctl_table xs (map fst (ac_aif_list v))) < 2 ^ 32"
  shows "\<exists>r w h. amp_form_mixer_controls K v s = Some ((r, w), s\<lparr>cl_hist := h\<rparr>)
    \<and> (if r = 0 then ctl_made xs v w else r = - ENOMEM) \<and> ((\<forall>h. cl_ret K h CL_CALLOC = 0) \<longrightarrow> r = 0)"
  using assms by (rule form_controls)

section \<open>Calls\<close>

datatype ctl_call =
    CTL_COUNT | CTL_LIST u32 snd_ctl_elem_id | CTL_FIND snd_ctl_elem_id | CTL_ATTRIBUTE nat | CTL_INTEGER_INFO nat
  | CTL_ENUMERATED_INFO nat | CTL_ENUMERATED_NAME nat u32 nat | CTL_READ_ENUMERATED nat | CTL_WRITE_ENUMERATED nat u32
  | CTL_READ_INTEGER nat | CTL_WRITE_INTEGER nat "nat \<Rightarrow> int" | CTL_READ_BYTES nat tlv_buffer | CTL_WRITE_BYTES nat tlv_buffer
  | CTL_TLV nat int tlv_buffer

fun ctl_exec :: "ctl_env \<Rightarrow> ctl_call \<Rightarrow> ctl_world \<Rightarrow> (int \<times> ctl_world) option" where
  "ctl_exec K CTL_COUNT s = agmctl_elem_count s"
| "ctl_exec K (CTL_LIST n e) s = result_of fst (agmctl_elem_list K n e s)"
| "ctl_exec K (CTL_FIND e) s = result_of (\<lambda>_. 0) (agmctl_find_elem e s)"
| "ctl_exec K (CTL_ATTRIBUTE k) s = result_of fst (agmctl_get_attribute k s)"
| "ctl_exec K (CTL_INTEGER_INFO k) s = result_of fst (agmctl_get_integer_info k s)"
| "ctl_exec K (CTL_ENUMERATED_INFO k) s = result_of fst (agmctl_get_enumerated_info k s)"
| "ctl_exec K (CTL_ENUMERATED_NAME k i n) s = result_of fst (agmctl_get_enumerated_name k i n s)"
| "ctl_exec K (CTL_READ_ENUMERATED k) s = agmctl_read_enumerated k s"
| "ctl_exec K (CTL_WRITE_ENUMERATED k i) s = agmctl_write_enumerated K k i s"
| "ctl_exec K (CTL_READ_INTEGER k) s = agmctl_read_integer k s"
| "ctl_exec K (CTL_WRITE_INTEGER k v) s = agmctl_write_integer k v s"
| "ctl_exec K (CTL_READ_BYTES k t) s = result_of fst (agmctl_read_bytes K k t s)"
| "ctl_exec K (CTL_WRITE_BYTES k t) s = agmctl_write_bytes K k t s"
| "ctl_exec K (CTL_TLV k f t) s = result_of fst (agm_ext_tlv_callback K k f t s)"

lemma upd_ctl_fields [simp]:
  "ctl_plug (upd_ctl f s) = map_option f (ctl_plug s)" "svc (upd_ctl f s) = svc s" "cl_hist (upd_ctl f s) = cl_hist s"
  by (simp_all add: upd_ctl_def)

lemma inv_with_ctl: "(\<And>v. ctl_plug s = Some v \<Longrightarrow> wlp (f v s) Q) \<Longrightarrow> wlp (with_ctl f s) Q"
  by (simp add: with_ctl_def wlp_simps split: option.split)

lemma inv_with_priv: "(\<And>v. ctl_plug s = Some v \<Longrightarrow> wlp (f v s) Q) \<Longrightarrow> wlp (with_priv c f s) Q"
  by (simp add: with_priv_def inv_with_ctl wlp_None)

lemma inv_with_key:
  assumes "Q err s" "\<And>v. ctl_plug s = Some v \<Longrightarrow> key < unat (total_ctl_cnt v) \<Longrightarrow> key < length (controls v) \<Longrightarrow> wlp (f v (controls v ! key) s) Q"
  shows "wlp (with_key err key f s) Q"
  unfolding with_key_def by (rule inv_with_ctl) (use assms in \<open>auto simp: wlp_simps load_def wlp_bind_gen\<close>)

text \<open>A property of the world that service calls, the history of the client and the saved payload do not
  touch is kept by every callback, when it is kept by the writes of the selecting controls it leaves free.\<close>

locale ctl_invariant =
  fixes K :: ctl_env and I :: "ctl_world \<Rightarrow> bool" and free :: "nat \<Rightarrow> bool"
  assumes svc: "I s \<Longrightarrow> I (s\<lparr>svc := w\<rparr>)"
    and hist: "I s \<Longrightarrow> I (s\<lparr>cl_hist := h\<rparr>)"
    and payload: "I s \<Longrightarrow> I (upd_ctl (\<lambda>v. v\<lparr>ac_payload := p, ac_payload_size := n\<rparr>) s)"
    and selection: "I s \<Longrightarrow> ctl_plug s = Some v \<Longrightarrow> key < length (controls v) \<Longrightarrow> free key
      \<Longrightarrow> wlp (agmctl_pcm_control_put (controls v ! key) item s) (\<lambda>_ t. I t)"
begin

lemma service_kept: "I s \<Longrightarrow> wlp (service f s) (\<lambda>_ t. I t)"
  unfolding wlp_service by (simp add: wlp_def svc)

lemma calloc_kept: "I s \<Longrightarrow> wlp (client_calloc K s) (\<lambda>_ t. I t)"
  by (simp add: wlp_simps hist)

lemmas rules = inv_with_priv inv_rules inv_bind_value service_kept calloc_kept wlp_already payload

lemma pcm_puts:
  assumes "I s"
  shows "wlp (agmctl_pcm_metadata_put K c d n s) (\<lambda>_ t. I t)" "wlp (agmctl_pcm_setparam_put K c d n s) (\<lambda>_ t. I t)"
    "wlp (agmctl_pcm_setparamtag_put K c d s) (\<lambda>_ t. I t)" "wlp (agmctl_pcm_event_put K c d s) (\<lambda>_ t. I t)"
    "wlp (agmctl_pcm_calibration_put K c d s) (\<lambda>_ t. I t)" "wlp (agmctl_pcm_get_param_put K c d n s) (\<lambda>_ t. I t)"
    "wlp (agmctl_pcm_connect_put K c i s) (\<lambda>_ t. I t)" "wlp (agmctl_pcm_loopback_put K c i s) (\<lambda>_ t. I t)"
    "wlp (agmctl_pcm_ecref_put K c i s) (\<lambda>_ t. I t)"
  unfolding agmctl_pcm_metadata_put_def agmctl_pcm_setparam_put_def agmctl_pcm_setparamtag_put_def agmctl_pcm_event_put_def
    agmctl_pcm_calibration_put_def agmctl_pcm_get_param_put_def agmctl_pcm_connect_put_def agmctl_pcm_loopback_put_def
    agmctl_pcm_ecref_put_def Let_def
  by (intro rules assms; assumption)+

lemma be_puts:
  assumes "I s"
  shows "wlp (agmctl_be_metadata_put K c d n s) (\<lambda>_ t. I t)" "wlp (agmctl_be_setparam_put K c d n s) (\<lambda>_ t. I t)"
    "wlp (agmctl_be_media_config_put c val s) (\<lambda>_ t. I t)"
  unfolding agmctl_be_metadata_put_def agmctl_be_setparam_put_def agmctl_be_media_config_put_def
  by (intro rules assms)+

lemma gets:
  assumes "I s"
  shows "wlp (agmctl_pcm_get_param_get K c d n s) (\<lambda>_ t. I t)" "wlp (agmctl_pcm_tag_info_get K c n s) (\<lambda>_ t. I t)"
    "wlp (agmctl_pcm_buf_timestamp_get K c s) (\<lambda>_ t. I t)" "wlp (agmctl_pcm_buf_info_get K c d s) (\<lambda>_ t. I t)"
  unfolding agmctl_pcm_get_param_get_def agmctl_pcm_tag_info_get_def agmctl_pcm_buf_timestamp_get_def agmctl_pcm_buf_info_get_def Let_def
  by (intro rules assms; assumption)+

text \<open>A call that does not write a selecting control, or one that is left free.\<close>

definition allowed :: "ctl_call \<Rightarrow> ctl_world \<Rightarrow> bool" where
  "allowed c s \<longleftrightarrow> (\<forall>v key i. ctl_plug s = Some v \<longrightarrow> c = CTL_WRITE_ENUMERATED key i \<longrightarrow> key < length (controls v)
     \<longrightarrow> mx_ctl_id (controls v ! key) = AGM_FE_CTL_NAME_CONTROL \<longrightarrow> free key)"

lemma enumerated_kept:
  assumes "I s" "allowed (CTL_WRITE_ENUMERATED k i) s"
  shows "wlp (agmctl_write_enumerated K k i s) (\<lambda>_ t. I t)"
  unfolding agmctl_write_enumerated_def
proof (rule inv_with_key, rule assms, goal_cases)
  case (1 v)
  show ?case
    using pcm_puts [OF assms(1)] selection [OF assms(1) 1(1,3)] assms 1
    by (cases "mx_ctl_id (controls v ! k)") (simp_all add: allowed_def wlp_Some)
qed

lemma read_bytes_kept:
  assumes "I s"
  shows "wlp (agmctl_read_bytes K k t s) (\<lambda>_ u. I u)"
  unfolding agmctl_read_bytes_def Let_def
proof (rule inv_with_key, rule assms, rule inv_bind_value, goal_cases)
  case (1 v n)
  show ?case
    by (cases "mx_ctl_id (controls v ! k)", simp_all only: ctl_id.case) (intro rules gets; (rule assms | assumption | simp add: agmctl_pcm_event_get_def wlp_Some assms))+
qed

lemma write_bytes_kept:
  assumes "I s"
  shows "wlp (agmctl_write_bytes K k t s) (\<lambda>_ u. I u)"
  unfolding agmctl_write_bytes_def Let_def
proof (rule inv_with_key, rule assms, rule inv_bind_value, goal_cases)
  case (1 v n)
  show ?case using pcm_puts [OF assms] be_puts [OF assms] assms
    by (cases "mx_ctl_id (controls v ! k)") (simp_all add: wlp_Some)
qed

lemma infos_kept:
  assumes "I s"
  shows "wlp (agmctl_elem_count s) (\<lambda>_ t. I t)" "wlp (agmctl_elem_list K' n e s) (\<lambda>_ t. I t)" "wlp (agmctl_find_elem e s) (\<lambda>_ t. I t)"
    "wlp (agmctl_get_attribute k s) (\<lambda>_ t. I t)" "wlp (agmctl_get_integer_info k s) (\<lambda>_ t. I t)"
    "wlp (agmctl_get_enumerated_info k s) (\<lambda>_ t. I t)"
    "wlp (agmctl_read_enumerated k s) (\<lambda>_ t. I t)" "wlp (agmctl_read_integer k s) (\<lambda>_ t. I t)"
  unfolding agmctl_elem_count_def agmctl_elem_list_def agmctl_find_elem_def agmctl_get_attribute_def agmctl_get_integer_info_def
    agmctl_get_enumerated_info_def agmctl_read_enumerated_def agmctl_read_integer_def Let_def
  by (intro inv_with_ctl inv_with_key rules assms; assumption)+

lemma enumerated_name_kept:
  assumes "I s"
  shows "wlp (agmctl_get_enumerated_name k i n s) (\<lambda>_ t. I t)"
  unfolding agmctl_get_enumerated_name_def Let_def
proof (rule inv_with_key, rule assms, goal_cases)
  case (1 v)
  show ?case
    by (cases "mx_ctl_id (controls v ! k)", simp_all only: ctl_id.case) (intro rules assms; assumption)+
qed

lemma write_integer_kept: "I s \<Longrightarrow> wlp (agmctl_write_integer k val s) (\<lambda>_ t. I t)"
  unfolding agmctl_write_integer_def
  by (rule inv_with_key, assumption) (use be_puts(3) in \<open>auto simp: wlp_Some split: ctl_id.split\<close>)

lemma exec_kept:
  assumes "I s" "allowed c s"
  shows "wlp (ctl_exec K c s) (\<lambda>_ t. I t)"
proof (cases c)
  case (CTL_TLV k f t)
  have "wlp (agm_ext_tlv_callback K k f t s) (\<lambda>_ t. I t)"
    unfolding agm_ext_tlv_callback_def by (intro inv_with_ctl rules read_bytes_kept write_bytes_kept assms; assumption)
  then show ?thesis by (simp add: CTL_TLV wlp_result_of)
qed (use assms in \<open>simp_all add: wlp_result_of infos_kept enumerated_kept read_bytes_kept write_bytes_kept enumerated_name_kept write_integer_kept\<close>)

inductive run :: "ctl_world \<Rightarrow> ctl_world \<Rightarrow> bool" for s where
  run_none: "run s s"
| run_call: "run s t \<Longrightarrow> allowed c t \<Longrightarrow> ctl_exec K c t = Some (r, u) \<Longrightarrow> run s u"

lemma run_kept: "run s t \<Longrightarrow> I s \<Longrightarrow> I t"
  by (induction rule: run.induct) (blast dest: wlpD [OF exec_kept])+

end

section \<open>Selection of a back end\<close>

text \<open>The value that is selected for stream \<open>pid\<close>, with the controls and the streams of \<open>v\<close>.\<close>

definition selected :: "agmctl_priv \<Rightarrow> int \<Rightarrow> int \<Rightarrow> ctl_world \<Rightarrow> bool" where
  "selected v pid n s \<longleftrightarrow> (\<exists>w. ctl_plug s = Some w \<and> controls w = controls v \<and> total_ctl_cnt w = total_ctl_cnt v
     \<and> ac_pcm_idx w = ac_pcm_idx v \<and> ac_pcm_count w = ac_pcm_count v \<and> agmctl_pcm_get_control_value w pid = Some n)"

lemma pcm_position_cong:
  "ac_pcm_idx w = ac_pcm_idx v \<Longrightarrow> ac_pcm_count w = ac_pcm_count v \<Longrightarrow> pcm_position w pid = pcm_position v pid"
  by (simp add: pcm_position_def)

lemma pcm_position_id: "pcm_position v pid = Some i \<Longrightarrow> ac_pcm_idx v ! i = pid"
  by (auto simp: pcm_position_def find_Some_iff)

lemma control_put_value:
  assumes "ctl_plug s = Some v"
  shows "wlp (agmctl_pcm_control_put c item s) (\<lambda>r t. (\<exists>ms. ctl_plug t = Some (v\<lparr>ac_pcm_mtd_ctl := ms\<rparr>)
      \<and> (\<forall>pid. pid \<noteq> pcm_be_id c \<longrightarrow> agmctl_pcm_get_control_value (v\<lparr>ac_pcm_mtd_ctl := ms\<rparr>) pid = agmctl_pcm_get_control_value v pid)
      \<and> (r = 0 \<longrightarrow> unat item \<le> ac_aif_count v \<and> agmctl_pcm_get_control_value (v\<lparr>ac_pcm_mtd_ctl := ms\<rparr>) (pcm_be_id c) = Some (sint item))))"
proof -
  have same: "pcm_position (v\<lparr>ac_pcm_mtd_ctl := ms\<rparr>) = pcm_position v" for ms by (simp add: pcm_position_def fun_eq_iff)
  have keep: "\<exists>ms. ctl_plug s = Some (v\<lparr>ac_pcm_mtd_ctl := ms\<rparr>) \<and> (\<forall>pid. pid \<noteq> pcm_be_id c \<longrightarrow>
      agmctl_pcm_get_control_value (v\<lparr>ac_pcm_mtd_ctl := ms\<rparr>) pid = agmctl_pcm_get_control_value v pid)"
    by (rule exI [of _ "ac_pcm_mtd_ctl v"]) (simp add: assms)
  have put: "agmctl_pcm_get_control_value (v\<lparr>ac_pcm_mtd_ctl := ms\<rparr>) pid = agmctl_pcm_get_control_value v pid"
    if "pid \<noteq> pcm_be_id c" "pcm_position v (pcm_be_id c) = Some i" "store (int i) x (ac_pcm_mtd_ctl v) = Some ms" for pid i x ms
    using that pcm_position_id [of v pid] pcm_position_id [of v "pcm_be_id c" i]
    by (auto simp: agmctl_pcm_get_control_value_def same load_def store_def nth_list_update split: option.split if_splits)
  have own: "agmctl_pcm_get_control_value (v\<lparr>ac_pcm_mtd_ctl := ms\<rparr>) (pcm_be_id c) = Some x"
    if "pcm_position v (pcm_be_id c) = Some i" "store (int i) x (ac_pcm_mtd_ctl v) = Some ms" for i x ms
    using that by (auto simp: agmctl_pcm_get_control_value_def same load_def store_def split: if_splits)
  show ?thesis
    unfolding agmctl_pcm_control_put_def
    by (rule inv_with_priv) (use assms keep put own in \<open>auto simp: wlp_bind_gen wlp_simps split: option.split\<close>)
qed

interpretation selecting: ctl_invariant K "selected v pid n" "\<lambda>key. pcm_be_id (controls v ! key) \<noteq> pid" for K v pid n
proof (unfold_locales, goal_cases)
  case (3 s p m)
  have "agmctl_pcm_get_control_value (w\<lparr>ac_payload := a, ac_payload_size := b\<rparr>) = agmctl_pcm_get_control_value w" for w a b
    by (simp add: agmctl_pcm_get_control_value_def pcm_position_def fun_eq_iff split: option.split)
  with 3 show ?case by (auto simp: selected_def)
next
  case (4 s w key item)
  then have w: "controls w = controls v" "total_ctl_cnt w = total_ctl_cnt v" "ac_pcm_idx w = ac_pcm_idx v"
      "ac_pcm_count w = ac_pcm_count v" "agmctl_pcm_get_control_value w pid = Some n"
    by (auto simp: selected_def)
  show ?case using 4(4) w by (intro wlp_mono [OF control_put_value [OF 4(2)]]) (auto simp: selected_def)
qed (auto simp: selected_def)

lemma sint_small:
  fixes x :: u32
  assumes "uint x < 2 ^ 31"
  shows "sint x = uint x"
proof -
  have "- (2 ^ 31) \<le> uint x" by (rule order_trans [OF _ uint_ge_0]) simp
  with assms show ?thesis unfolding sint_uint by (subst signed_take_bit_int_eq_self_iff) simp
qed

lemma key_control:
  assumes "ctl_plug s = Some v" "key < unat (total_ctl_cnt v)" "key < length (controls v)"
  shows "with_key err key f s = f v (controls v ! key) s"
  using assms by (simp add: with_key_def with_ctl_def load_def)

text \<open>\<^bold>\<open>C25.\<close> Once a client has selected a back end for a stream, by the item of its control, every later write of
  parameters for that stream goes to the service with that back end (item 0: to the stream itself), whatever calls of any
  controls come in between, as long as none of them selects for the same stream.\<close>

theorem ctl_selection:
  assumes s: "ctl_plug s = Some v" "unat (total_ctl_cnt v) = length (controls v)" "ac_aif_count v < 2 ^ 31"
    and k: "k < length (controls v)" "mx_ctl_id (controls v ! k) = AGM_FE_CTL_NAME_CONTROL" "pcm_be_id (controls v ! k) = pid"
    and put: "agmctl_write_enumerated K k item s = Some (0, t)"
    and run: "selecting.run K v pid t u"
    and k': "k' < length (controls v)" "mx_ctl_id (controls v ! k') = AGM_FE_CTL_NAME_SET_PARAM" "pcm_be_id (controls v ! k') = pid"
      "has_priv (controls v ! k')"
    and len: "tlv_len (tl_bytes b) = Some n"
  shows "agmctl_write_bytes K k' b u = already_ok (service
    (if item = 0 then agm_session_set_params (svc_env K) (of_int pid) (Some (drop 8 (tl_bytes b))) n
     else agm_session_aif_set_params (svc_env K) (of_int pid) (item - 1) (Some (drop 8 (tl_bytes b))) n) u)"
proof -
  have "agmctl_pcm_control_put (controls v ! k) item s = Some (0, t)"
    using put s k by (simp add: agmctl_write_enumerated_def key_control)
  from wlpD [OF control_put_value [OF s(1)] this] k(3) have t: "selected v pid (sint item) t" "unat item \<le> ac_aif_count v"
    by (auto simp: selected_def)
  from selecting.run_kept [OF run t(1)] obtain w where
    w: "ctl_plug u = Some w" "controls w = controls v" "total_ctl_cnt w = total_ctl_cnt v" "agmctl_pcm_get_control_value w pid = Some (sint item)"
    by (auto simp: selected_def)
  have "nat (uint item) < 2 ^ 31" using t(2) s(3) unfolding unat_eq_nat_uint by (rule le_less_trans)
  then have small: "uint item < 2 ^ 31" unfolding nat_less_iff [OF uint_ge_0] by simp
  have pos: "0 \<le> sint item" "sint item = 0 \<longleftrightarrow> item = 0"
    using sint_small [of item] small by (simp_all add: uint_0_iff)
  have "of_int (sint item - 1) = item - 1" by simp
  with w k' len s(2) pos show ?thesis
    by (auto simp: agmctl_write_bytes_def key_control agmctl_pcm_setparam_put_def with_priv_def with_ctl_def tlv_data_def)
qed

section \<open>Names, numbers and types\<close>

text \<open>A plugin as opening leaves it: the number of controls is the length of the array, and every stream
  has a selection.\<close>

definition ctl_complete :: "agmctl_priv \<Rightarrow> bool" where
  "ctl_complete v \<longleftrightarrow> unat (total_ctl_cnt v) = length (controls v) \<and> length (ac_pcm_mtd_ctl v) = ac_pcm_count v"


text \<open>The last control is not found by its number.\<close>

theorem ctl_last_number:
  assumes "ctl_plug s = Some v" "ei_numid e = total_ctl_cnt v" "ei_name e \<notin> mixer_name ` set (controls v)"
  shows "agmctl_find_elem e s = Some ((None, e), s)"
proof -
  have "find (\<lambda>i. i < length (controls v) \<and> mixer_name (controls v ! i) = ei_name e) xs = None" for xs
    using assms(3) by (auto simp: find_None_iff image_iff) (metis nth_mem)
  then show ?thesis using assms by (simp add: agmctl_find_elem_def with_ctl_def)
qed

text \<open>The type that a control declares decides which functions serve it, and an enumerated control has as many
  items as it says; each of them has a name, but for the last item of a loopback control.\<close>

lemma enumerated_kinds:
  "at_type (attr_info c) = SND_CTL_ELEM_TYPE_ENUMERATED \<longleftrightarrow> c \<in> {AGM_FE_CTL_NAME_CONNECT, AGM_FE_CTL_NAME_DISCONNECT,
     AGM_FE_CTL_NAME_CONTROL, AGM_FE_TX_CTL_NAME_LOOPBACK, AGM_FE_TX_CTL_NAME_ECHOREF}"
  "at_type (attr_info c) = SND_CTL_ELEM_TYPE_INTEGER \<longleftrightarrow> c = AGM_BE_CTL_NAME_MEDIA_CONFIG"
  by (cases c; simp add: attr_info_def attr_bytes_def attr_enum_def)+

theorem ctl_types:
  assumes "ctl_plug s = Some v" "ctl_complete v" "key < length (controls v)"
  shows "\<exists>a. agmctl_get_attribute key s = Some ((0, Some a), s)
    \<and> (at_type a = SND_CTL_ELEM_TYPE_ENUMERATED \<longleftrightarrow> (\<exists>n. agmctl_get_enumerated_info key s = Some ((0, Some n), s)))
    \<and> (at_type a = SND_CTL_ELEM_TYPE_ENUMERATED \<longleftrightarrow> agmctl_read_enumerated key s = Some (0, s))
    \<and> (at_type a = SND_CTL_ELEM_TYPE_INTEGER \<longleftrightarrow> (\<exists>r. agmctl_get_integer_info key s = Some ((0, Some r), s)))
    \<and> (at_type a = SND_CTL_ELEM_TYPE_INTEGER \<longleftrightarrow> agmctl_read_integer key s = Some (0, s))
    \<and> (at_type a \<noteq> SND_CTL_ELEM_TYPE_ENUMERATED \<longrightarrow> agmctl_write_enumerated K key item s = Some (- EINVAL, s))
    \<and> (at_type a \<noteq> SND_CTL_ELEM_TYPE_INTEGER \<longrightarrow> agmctl_write_integer key val s = Some (- EINVAL, s))"
proof -
  have n: "key < unat (total_ctl_cnt v)" using assms(2,3) by (simp add: ctl_complete_def)
  note k = key_control [OF assms(1) n assms(3)]
  show ?thesis
    unfolding agmctl_get_attribute_def agmctl_get_enumerated_info_def agmctl_read_enumerated_def agmctl_get_integer_info_def
      agmctl_read_integer_def agmctl_write_enumerated_def agmctl_write_integer_def k
    using enumerated_kinds [of "mx_ctl_id (controls v ! key)"] by (cases "mx_ctl_id (controls v ! key)") simp_all
qed

text \<open>A loopback control has one item more than it has names: the last playback stream cannot be read.\<close>

theorem ctl_loopback_unnamed:
  assumes "ctl_plug s = Some v" "ctl_complete v" "key < length (controls v)" "mx_ctl_id (controls v ! key) = AGM_FE_TX_CTL_NAME_LOOPBACK"
    and "ac_rx_count v < 2 ^ 32"
  shows "agmctl_get_enumerated_info key s = Some ((0, Some (of_nat (ac_rx_count v) + 1)), s)"
    "agmctl_get_enumerated_name key (of_nat (ac_rx_count v)) n s = Some ((0, None), s)"
proof -
  have "key < unat (total_ctl_cnt v)" using assms(2,3) by (simp add: ctl_complete_def)
  note k = key_control [OF assms(1) this assms(3)]
  show "agmctl_get_enumerated_info key s = Some ((0, Some (of_nat (ac_rx_count v) + 1)), s)"
    "agmctl_get_enumerated_name key (of_nat (ac_rx_count v)) n s = Some ((0, None), s)"
    using assms(4,5) by (simp_all add: agmctl_get_enumerated_info_def agmctl_get_enumerated_name_def k)
qed

text \<open>Of a length of 32 bits in the header only the lowest byte is read.\<close>

theorem tlv_len_truncates:
  assumes "length hdr = 4"
  shows "tlv_len (hdr @ wr32 n @ data) = Some (unat n mod 256)"
proof -
  have "(hdr @ wr32 n @ data) ! 4 = wr32 n ! 0" using assms by (simp add: nth_append wr32_def)
  then show ?thesis using assms by (simp add: tlv_len_def load_def wr32_def unat_of_nat del: of_nat_unat)
qed

section \<open>Card references\<close>





lemma card_list_upd [simp]:
  fixes s :: ctl_world
  shows "cards_ok (upd_ctl f s) = cards_ok s" "card_refs (upd_ctl f s) = card_refs s" "snd_card_list (upd_ctl f s) = snd_card_list s"
    "cards_ok (s\<lparr>ctl_plug := p\<rparr>) = cards_ok s" "card_refs (s\<lparr>ctl_plug := p\<rparr>) = card_refs s"
  by (simp_all add: upd_ctl_def cards_ok_def card_refs_def fun_eq_iff)

































section \<open>A card\<close>

definition ctl_env0 :: ctl_env where
  "ctl_env0 = \<lparr>cl_ret = (\<lambda>_ _. 0), card_id_file = (\<lambda>_. None), card_def_file = Some ([], True), svc_env = env0,
     elem_id_name = (\<lambda>n. take 43 n), tag_info_size = (\<lambda>_. 0)\<rparr>"

definition ctl_card0 :: snd_dev_def_card where
  "ctl_card0 = \<lparr>sd_card = 100, sd_name = None, sd_refcnt = 1, devs_list = (\<lambda>t. if t = SND_NODE_TYPE_PCM
     then [\<lparr>nd_node_type = SND_NODE_TYPE_PCM, nd_device = 6, nd_type = 1, nd_name = Some ''PCM6'', nd_so_name = None,
            prop_val_list = [(''playback'', ''1''), (''capture'', ''1'')]\<rparr>] else [])\<rparr>"

definition ctl_world0 :: ctl_world where
  "ctl_world0 = \<lparr>cl_hist = [], cards = (\<lambda>_. ctl_card0), snd_card_list = [1], card_next = 2,
     svc = world0\<lparr>device_list := [0], num_audio_intfs := 1\<rparr>, ctl_plug = None\<rparr>"

definition ctl_priv0 :: agmctl_priv where
  "ctl_priv0 = agmctl_priv0\<lparr>ac_card_node := Some 1, ac_aif_count := 1, ac_aif_list := [(''BE'', 1)]\<rparr>"

lemma card_streams0: "card_streams ctl_card0 = Some [(''PCM6'', 6, True, True)]"
  by (simp add: card_streams_def card_devs_def ctl_card0_def dev_stream_def dev_int_def atoi_def scan_sign_def is_space_def is_digit_def digits_val_def)

lemma ctl_table_length0: "length (ctl_table [(''PCM6'', 6, True, True)] [''BE'']) = 17"
  by (simp add: ctl_table_length)

definition ctl_open0 :: agmctl_priv where
  "ctl_open0 = ctl_priv0\<lparr>ac_pcm_count := 1, ac_pcm_mtd_ctl := [0], ac_pcm_idx := [6], ac_rx_count := 1, ac_rx_names := [''PCM6''],
     ac_rx_pcm_id := [6], total_ctl_cnt := 17, controls := ctl_table [(''PCM6'', 6, True, True)] [''BE'']\<rparr>"

lemma controls0: "controls ctl_open0 = ctl_table [(''PCM6'', 6, True, True)] [''BE'']"
  by (simp add: ctl_open0_def)

lemmas table_eval = ctl_table_def group_controls_def backend_controls_def agm_fe_ctl_name_extn_def agm_tx_ctl_name_extn_def
  agm_be_ctl_name_extn_def control_of_def ctl_ids_def

lemma names0: "map mixer_name (controls ctl_open0) = map (\<lambda>e. ''PCM6 '' @ e) (agm_fe_ctl_name_extn @ agm_tx_ctl_name_extn)
    @ map (\<lambda>e. ''BE '' @ e) agm_be_ctl_name_extn"
  by (simp add: controls0 table_eval)

lemma five0: "controls ctl_open0 ! 5 = \<lparr>mixer_name = ''PCM6 control'', pcm_be_id = 6, mx_ctl_id = AGM_FE_CTL_NAME_CONTROL, has_priv = True\<rparr>"
  "controls ctl_open0 ! 1 = \<lparr>mixer_name = ''PCM6 setParam'', pcm_be_id = 6, mx_ctl_id = AGM_FE_CTL_NAME_SET_PARAM, has_priv = True\<rparr>"
  "length (controls ctl_open0) = 17" "ctl_complete ctl_open0"
  by (simp_all add: controls0 table_eval ctl_complete_def ctl_open0_def)

theorem ctl_controls_witness:
  "\<exists>w h. amp_form_mixer_controls ctl_env0 ctl_priv0 ctl_world0 = Some ((0, w), ctl_world0\<lparr>cl_hist := h\<rparr>)
     \<and> map mixer_name (controls w) = map (\<lambda>e. ''PCM6 '' @ e) (agm_fe_ctl_name_extn @ agm_tx_ctl_name_extn)
         @ map (\<lambda>e. ''BE '' @ e) agm_be_ctl_name_extn \<and> ac_rx_names w = [''PCM6''] \<and> total_ctl_cnt w = 17"
proof -
  have "live_card 1 ctl_world0 = Some ctl_card0" by (simp add: live_card_def ctl_world0_def ctl_card0_def)
  moreover have "ac_card_node ctl_priv0 = Some 1" "ac_aif_count ctl_priv0 = length (ac_aif_list ctl_priv0)" "map fst (ac_aif_list ctl_priv0) = [''BE'']"
    by (simp_all add: ctl_priv0_def)
  moreover have "\<forall>h. cl_ret ctl_env0 h CL_CALLOC = 0" by (simp add: ctl_env0_def)
  ultimately obtain w h where w: "amp_form_mixer_controls ctl_env0 ctl_priv0 ctl_world0 = Some ((0, w), ctl_world0\<lparr>cl_hist := h\<rparr>)"
      "ctl_made [(''PCM6'', 6, True, True)] ctl_priv0 w"
    using ctl_controls [OF _ _ card_streams0, of ctl_priv0 1 ctl_world0 ctl_env0] ctl_table_length0 by auto
  then have made: "controls w = ctl_table [(''PCM6'', 6, True, True)] [''BE'']" "ac_rx_names w = [''PCM6'']"
      "unat (total_ctl_cnt w) = length (ctl_table [(''PCM6'', 6, True, True)] [''BE''])"
    by (simp_all add: ctl_made_def ctl_priv0_def playbacks_def)
  then have "map mixer_name (controls w) = map mixer_name (controls ctl_open0)" "unat (total_ctl_cnt w) = unat (17 :: u32)"
    by (simp_all only: controls0 ctl_table_length0) simp
  then show ?thesis using w(1) made(2) unfolding names0 by (intro exI [of _ w] exI [of _ h]) (simp only: word_unat_eq_iff simp_thms)
qed



definition ctl_tlv0 :: "ctl_payload \<Rightarrow> tlv_buffer" where
  "ctl_tlv0 p = \<lparr>tl_bytes = [1, 0, 0, 0, 2, 0, 0, 0, 7, 9], tl_payload = p\<rparr>"

theorem ctl_selection_witness:
  "\<exists>t. agmctl_write_enumerated ctl_env0 5 1 (ctl_world0\<lparr>ctl_plug := Some ctl_open0\<rparr>) = Some (0, t)
     \<and> (\<forall>p. agmctl_write_bytes ctl_env0 1 (ctl_tlv0 p) t = already_ok (service (agm_session_aif_set_params env0 6 0 (Some [7, 9]) 2) t))"
proof -
  let ?s = "ctl_world0\<lparr>ctl_plug := Some ctl_open0\<rparr>"
  have v: "unat (total_ctl_cnt ctl_open0) = length (controls ctl_open0)" "ac_aif_count ctl_open0 = 1" "pcm_position ctl_open0 6 = Some 0"
      "ac_pcm_mtd_ctl ctl_open0 = [0]"
    using five0 by (simp_all add: ctl_complete_def ctl_open0_def ctl_priv0_def pcm_position_def)
  obtain t where t: "agmctl_write_enumerated ctl_env0 5 1 ?s = Some (0, t)"
    by (simp add: agmctl_write_enumerated_def key_control v five0 agmctl_pcm_control_put_def with_priv_def with_ctl_def store_def)
  have "agmctl_write_bytes ctl_env0 1 (ctl_tlv0 p) t = already_ok (service (if (1 :: u32) = 0
      then agm_session_set_params (svc_env ctl_env0) (of_int 6) (Some (drop 8 (tl_bytes (ctl_tlv0 p)))) 2
      else agm_session_aif_set_params (svc_env ctl_env0) (of_int 6) (1 - 1) (Some (drop 8 (tl_bytes (ctl_tlv0 p)))) 2) t)" for p
  proof (rule ctl_selection [where v = ctl_open0 and s = ?s and pid = 6 and k = 5])
    show "agmctl_write_enumerated ctl_env0 5 1 ?s = Some (0, t)" by (rule t)
    show "selecting.run ctl_env0 ctl_open0 6 t t" by (rule selecting.run_none)
    show "tlv_len (tl_bytes (ctl_tlv0 p)) = Some 2" by (simp add: tlv_len_def load_def ctl_tlv0_def)
  qed (use v five0 in simp_all)
  with t show ?thesis by (simp add: ctl_env0_def ctl_tlv0_def)
qed



end
