(* ===== verification/Hw_Server.thy ===== *)
theory Hw_Server
  imports Agm
begin

unbundle bit_operations_syntax

text \<open>
  Model of \<open>ipc/HwBinders/agm_ipc_service/src/agm_server_wrapper.cpp\<close>: the server that gives clients in other
  processes the entry points of the service. It keeps a list of its clients with the sessions each of them uses, and the
  callbacks that clients have registered; when a client dies it takes back what the client had.

  A handler gets the process id of its caller and the arguments as HIDL passes them: a vector is a list, of which
  \<open>data()\<close> of an empty one may not be read. Process ids are positive, so the widths at which the source keeps them do not
  matter. \<open>_hidl_cb\<close> is the result of a handler, \<open>None\<close> where the handler returns without calling it. \<open>SrvrClbk\<close>
  objects live at addresses; what \<open>new\<close>, \<open>calloc\<close>, \<open>dup\<close> and the binder return is an oracle of the calls made before. The bytes
  the service writes into a buffer are not modelled. The locks serialise the handlers; a run of the server is a
  sequence of them.
\<close>

section \<open>State\<close>

record AgmExternAllocBuffInfo =
  ha_handle :: "(int \<times> int) option"
  ha_size :: u32
  ha_offset :: u32

record AgmBuff =
  hb_timestamp :: u64
  hb_flags :: u32
  hb_size :: u32
  hb_buffer :: "u8 list"
  hb_metadata_size :: u32
  hb_metadata :: "u8 list"
  hb_alloc_info :: AgmExternAllocBuffInfo

record AgmKvConfig =
  hk_tag :: u32
  hk_num :: u32
  hk_kv :: "key_value list"

record AgmEventRegCfg =
  hr_module_instance_id :: u32
  hr_event_id :: u32
  hr_payload_size :: u32
  hr_is_register :: u8
  hr_payload :: "u8 list"

text \<open>The payload of an event, as bytes or as the structure of a completed read or write.\<close>

record rw_done_payload =
  rw_tag :: u32
  rw_status :: u32
  rw_md_status :: u32
  rw_timestamp :: u64
  rw_flags :: u32
  rw_size :: u32
  rw_alloc_handle :: int
  rw_alloc_size :: u32
  rw_offset :: u32
  rw_metadata :: "u8 list"

datatype (plugins only: code size) event_payload = EVENT_BYTES "u8 list" | EVENT_RW_DONE rw_done_payload

record agm_event_cb_params =
  ev_source_module_id :: u32
  ev_event_id :: u32
  ev_payload_size :: u32
  ev_payload :: event_payload

text \<open>What the server asks of the system and of the binder.\<close>

datatype (plugins only: code size) srv_call =
    SRV_CALLOC | SRV_NEW | SRV_DUP int | SRV_NATIVE_HANDLE_CREATE | SRV_SIGQUEUE
  | SRV_LINK_TO_DEATH nat u32 | SRV_UNLINK_TO_DEATH nat
  | SRV_EVENT_CALLBACK nat u32 agm_event_cb_params u64
  | SRV_EVENT_CALLBACK_RW_DONE nat u32 agm_event_cb_params int u64

record srv_env =
  srv_ret :: "srv_call list \<Rightarrow> srv_call \<Rightarrow> int"
  ipc_callback_addr :: u64
  build_agm_hidl :: bool
  AID_AUDIOSERVER :: u32
  srv_svc :: env

record agm_client_session_handle =
  ch_session_id :: u32
  ch_handle :: nat
  ch_shared_mem_fd_list :: "(int \<times> int) list"
  ch_aif_id_list :: "u32 list"

record client_info =
  ci_pid :: u32
  ci_clbk_binder :: "nat option"
  ci_agm_client_hndl_list :: "agm_client_session_handle list"

record SrvrClbk =
  sk_session_id :: u32
  sk_event :: u32
  sk_clnt_data :: u64
  sk_pid :: u32

record clbk_data =
  cd_clbk_clt_data :: u64
  cd_srv_clt_data :: u64

text \<open>\<open>srv_clbks\<close> holds the live \<open>SrvrClbk\<close> objects by address, \<open>srv_agm\<close> is the state of the service behind the server.\<close>

record server_world =
  srv_hist :: "srv_call list"
  client_list :: "client_info list"
  clbk_data_list :: "clbk_data list"
  srv_clbks :: "u64 \<Rightarrow> SrvrClbk option"
  mDeathNotifier :: bool
  srv_agm :: agm_world

section \<open>Calls\<close>

definition srv_ecall :: "srv_env \<Rightarrow> srv_call \<Rightarrow> server_world \<Rightarrow> (int \<times> server_world) option" where
  "srv_ecall K c s = Some (srv_ret K (srv_hist s) c, s\<lparr>srv_hist := srv_hist s @ [c]\<rparr>)"

text \<open>The address, 0 for NULL.\<close>

definition srv_calloc :: "srv_env \<Rightarrow> server_world \<Rightarrow> (u64 \<times> server_world) option" where
  "srv_calloc K s = do { (r, s) \<leftarrow> srv_ecall K SRV_CALLOC s; Some (of_int r, s) }"

definition serve :: "(agm_world \<Rightarrow> ('r \<times> agm_world) option) \<Rightarrow> server_world \<Rightarrow> ('r \<times> server_world) option" where
  "serve f s = do { (r, w) \<leftarrow> f (srv_agm s); Some (r, s\<lparr>srv_agm := w\<rparr>) }"

text \<open>\<open>data()\<close> of a HIDL vector, read at its first element.\<close>

definition hidl_data :: "'a list \<Rightarrow> 'a option" where
  "hidl_data v = (case v of [] \<Rightarrow> None | x # _ \<Rightarrow> Some x)"

text \<open>The numbers of \<open>enum event_type\<close>; another number has no model.\<close>

definition event_type_of :: "u32 \<Rightarrow> event_type option" where
  "event_type_of n = (if n = 1 then Some AGM_EVENT_DATA_PATH else if n = 2 then Some AGM_EVENT_MODULE else None)"

text \<open>How most handlers copy a payload: \<open>size\<close> bytes of it, into memory of that size.\<close>

definition with_payload ::
    "srv_env \<Rightarrow> u8 list \<Rightarrow> u32 \<Rightarrow> (u8 list \<Rightarrow> server_world \<Rightarrow> (int \<times> server_world) option) \<Rightarrow>
       server_world \<Rightarrow> (int \<times> server_world) option" where
  "with_payload K payload n f s =
     (if length payload < unat n then Some (- EINVAL, s) else do {
      (p, s) \<leftarrow> srv_calloc K s;
      if p = 0 then Some (- ENOMEM, s) else f (take (unat n) payload) s })"

section \<open>Clients and their sessions\<close>

abbreviation pid_index :: "u32 \<Rightarrow> server_world \<Rightarrow> nat option" where
  "pid_index pid s \<equiv> index_of (\<lambda>c. ci_pid c = pid) (client_list s)"

abbreviation the_client :: "nat \<Rightarrow> server_world \<Rightarrow> client_info" where
  "the_client i s \<equiv> client_list s ! i"

definition upd_client :: "nat \<Rightarrow> (client_info \<Rightarrow> client_info) \<Rightarrow> server_world \<Rightarrow> server_world" where
  "upd_client i f s = s\<lparr>client_list := (client_list s)[i := f (client_list s ! i)]\<rparr>"

definition upd_hndl :: "nat \<Rightarrow> nat \<Rightarrow> (agm_client_session_handle \<Rightarrow> agm_client_session_handle) \<Rightarrow> server_world \<Rightarrow> server_world" where
  "upd_hndl i j f = upd_client i (\<lambda>c. c\<lparr>ci_agm_client_hndl_list :=
     (ci_agm_client_hndl_list c)[j := f (ci_agm_client_hndl_list c ! j)]\<rparr>)"

definition client_info0 :: "u32 \<Rightarrow> client_info" where
  "client_info0 pid = \<lparr>ci_pid = pid, ci_clbk_binder = None, ci_agm_client_hndl_list = []\<rparr>"

definition session_handle0 :: "u32 \<Rightarrow> agm_client_session_handle" where
  "session_handle0 k = \<lparr>ch_session_id = k, ch_handle = 0, ch_shared_mem_fd_list = [], ch_aif_id_list = []\<rparr>"

definition get_client_handle_l :: "srv_env \<Rightarrow> u32 \<Rightarrow> server_world \<Rightarrow> (nat option \<times> server_world) option" where
  "get_client_handle_l K pid s =
     (case pid_index pid s of Some i \<Rightarrow> Some (Some i, s)
      | None \<Rightarrow> do {
        (p, s) \<leftarrow> srv_calloc K s;
        if p = 0 then Some (None, s)
        else Some (Some (length (client_list s)), s\<lparr>client_list := client_list s @ [client_info0 pid]\<rparr>) })"

definition get_session_handle_l :: "srv_env \<Rightarrow> u32 \<Rightarrow> u32 \<Rightarrow> server_world \<Rightarrow> ((nat \<times> nat) option \<times> server_world) option" where
  "get_session_handle_l K pid k s = do {
     (c, s) \<leftarrow> get_client_handle_l K pid s;
     case c of None \<Rightarrow> Some (None, s)
     | Some i \<Rightarrow>
       let l = ci_agm_client_hndl_list (the_client i s) in
       case index_of (\<lambda>h. ch_session_id h = k) l of Some j \<Rightarrow> Some (Some (i, j), s)
       | None \<Rightarrow> do {
         (p, s) \<leftarrow> srv_calloc K s;
         if p = 0 then Some (None, s)
         else Some (Some (i, length l),
           upd_client i (\<lambda>c. c\<lparr>ci_agm_client_hndl_list := ci_agm_client_hndl_list c @ [session_handle0 k]\<rparr>) s) }}"

definition add_session_to_list_l :: "srv_env \<Rightarrow> u32 \<Rightarrow> u32 \<Rightarrow> server_world \<Rightarrow> (unit \<times> server_world) option" where
  "add_session_to_list_l K pid k s = do { (_, s) \<leftarrow> get_session_handle_l K pid k s; Some ((), s) }"

text \<open>A change of the entry of a session, which is made when there is none.\<close>

definition with_entry ::
    "srv_env \<Rightarrow> u32 \<Rightarrow> u32 \<Rightarrow> (agm_client_session_handle \<Rightarrow> agm_client_session_handle) \<Rightarrow> server_world \<Rightarrow> (unit \<times> server_world) option" where
  "with_entry K pid k f s = do {
     (h, s) \<leftarrow> get_session_handle_l K pid k s;
     case h of None \<Rightarrow> Some ((), s) | Some (i, j) \<Rightarrow> Some ((), upd_hndl i j f s) }"

definition add_session_aif_to_list_l :: "srv_env \<Rightarrow> u32 \<Rightarrow> u32 \<Rightarrow> u32 \<Rightarrow> server_world \<Rightarrow> (unit \<times> server_world) option" where
  "add_session_aif_to_list_l K pid k aif = with_entry K pid k
     (\<lambda>h. if aif \<in> set (ch_aif_id_list h) then h else h\<lparr>ch_aif_id_list := ch_aif_id_list h @ [aif]\<rparr>)"

definition remove_session_aif_from_list_l :: "srv_env \<Rightarrow> u32 \<Rightarrow> u32 \<Rightarrow> u32 \<Rightarrow> server_world \<Rightarrow> (unit \<times> server_world) option" where
  "remove_session_aif_from_list_l K pid k aif = with_entry K pid k (\<lambda>h. h\<lparr>ch_aif_id_list := remove1 aif (ch_aif_id_list h)\<rparr>)"

definition add_session_handle_to_list_l :: "srv_env \<Rightarrow> u32 \<Rightarrow> u32 \<Rightarrow> nat \<Rightarrow> server_world \<Rightarrow> (unit \<times> server_world) option" where
  "add_session_handle_to_list_l K pid k handle = with_entry K pid k (\<lambda>h. h\<lparr>ch_handle := handle\<rparr>)"

text \<open>The limit \<open>MAX_CACHE_SIZE\<close> is only logged.\<close>

definition add_fd_to_list :: "nat \<Rightarrow> int \<Rightarrow> int \<Rightarrow> server_world \<Rightarrow> server_world" where
  "add_fd_to_list sess_handle input_fd dup_fd s = s\<lparr>client_list := map (\<lambda>c. c\<lparr>ci_agm_client_hndl_list :=
     map (\<lambda>h. if ch_handle h = sess_handle
              then h\<lparr>ch_shared_mem_fd_list := ch_shared_mem_fd_list h @ [(input_fd, dup_fd)]\<rparr> else h)
       (ci_agm_client_hndl_list c)\<rparr>) (client_list s)\<rparr>"

section \<open>Callback objects\<close>

text \<open>\<open>new\<close> returns an address that is not NULL and not in use; an oracle that does not say so has no model.\<close>

definition new_SrvrClbk :: "srv_env \<Rightarrow> SrvrClbk \<Rightarrow> server_world \<Rightarrow> (u64 \<times> server_world) option" where
  "new_SrvrClbk K x s = do {
     (r, s) \<leftarrow> srv_ecall K SRV_NEW s;
     let p = of_int r;
     if p = 0 \<or> srv_clbks s p \<noteq> None then None
     else Some (p, s\<lparr>srv_clbks := (srv_clbks s)(p := Some x)\<rparr>) }"

definition delete_SrvrClbk :: "u64 \<Rightarrow> server_world \<Rightarrow> server_world" where
  "delete_SrvrClbk p s = s\<lparr>srv_clbks := (srv_clbks s)(p := None)\<rparr>"

section \<open>Death of a client\<close>

text \<open>One callback of the list, which is not the list any more once earlier ones are gone.\<close>

definition died_callback :: "srv_env \<Rightarrow> u32 \<Rightarrow> clbk_data \<Rightarrow> server_world \<Rightarrow> (unit \<times> server_world) option" where
  "died_callback K cookie d s = do {
     k \<leftarrow> srv_clbks s (cd_srv_clt_data d);
     if sk_pid k \<noteq> cookie then Some ((), s) else do {
     ty \<leftarrow> event_type_of (sk_event k);
     (_, s) \<leftarrow> serve (agm_session_register_cb (srv_svc K) (sk_session_id k) 0 ty (cd_srv_clt_data d)) s;
     Some ((), delete_SrvrClbk (cd_srv_clt_data d) (s\<lparr>clbk_data_list := remove1 d (clbk_data_list s)\<rparr>)) }}"

text \<open>What the service is told of a session of the client: it is closed if it is open, and its AIFs are forgotten.\<close>

definition died_aif :: "srv_env \<Rightarrow> agm_client_session_handle \<Rightarrow> u32 \<Rightarrow> agm_world \<Rightarrow> (unit \<times> agm_world) option" where
  "died_aif K h aif w = do {
     (_, w) \<leftarrow> agm_session_aif_set_params (srv_svc K) (ch_session_id h) aif None 0 w;
     (_, w) \<leftarrow> (if ch_handle h = 0 then agm_session_aif_connect (srv_svc K) (ch_session_id h) aif False w else Some (0, w));
     (_, w) \<leftarrow> agm_session_aif_set_metadata (srv_svc K) (ch_session_id h) aif 0 None w;
     Some ((), w) }"

definition died_session :: "srv_env \<Rightarrow> agm_client_session_handle \<Rightarrow> agm_world \<Rightarrow> (unit \<times> agm_world) option" where
  "died_session K h w = do {
     (_, w) \<leftarrow> (if ch_handle h \<noteq> 0 then agm_session_close (srv_svc K) (ch_handle h) w else Some (0, w));
     (_, w) \<leftarrow> for_each (died_aif K h) (ch_aif_id_list h) w;
     (_, w) \<leftarrow> agm_session_set_metadata (srv_svc K) (ch_session_id h) 0 None w;
     (_, w) \<leftarrow> agm_session_set_params (srv_svc K) (ch_session_id h) None 0 w;
     Some ((), w) }"

text \<open>The entries of the sessions go with the client: no handler runs between.\<close>

definition died_client :: "srv_env \<Rightarrow> u32 \<Rightarrow> client_info \<Rightarrow> server_world \<Rightarrow> (unit \<times> server_world) option" where
  "died_client K cookie c s =
     (if ci_pid c \<noteq> cookie then Some ((), s) else do {
      (_, s) \<leftarrow> serve (for_each (died_session K) (ci_agm_client_hndl_list c)) s;
      b \<leftarrow> ci_clbk_binder c;
      (_, s) \<leftarrow> srv_ecall K (SRV_UNLINK_TO_DEATH b) s;
      Some ((), s\<lparr>client_list := remove1 c (client_list s)\<rparr>) })"

definition serviceDied :: "srv_env \<Rightarrow> u32 \<Rightarrow> server_world \<Rightarrow> (unit \<times> server_world) option" where
  "serviceDied K cookie s = do {
     (_, s) \<leftarrow> for_each (died_callback K cookie) (clbk_data_list s) s;
     for_each (died_client K cookie) (client_list s) s }"

section \<open>Events\<close>

text \<open>The descriptor the client gave for a buffer: the first pair of the session with the duplicate leaves the list.\<close>

fun take_fd :: "u32 \<Rightarrow> int \<Rightarrow> int \<Rightarrow> agm_client_session_handle list \<Rightarrow> int \<times> agm_client_session_handle list" where
  "take_fd k fd input [] = (input, [])"
| "take_fd k fd input (h # hs) =
     (case if ch_session_id h = k then find (\<lambda>p. snd p = fd) (ch_shared_mem_fd_list h) else None of
        None \<Rightarrow> apsnd (Cons h) (take_fd k fd input hs)
      | Some p \<Rightarrow> apsnd (Cons (h\<lparr>ch_shared_mem_fd_list := remove1 p (ch_shared_mem_fd_list h)\<rparr>)) (take_fd k fd (fst p) hs))"

text \<open>The callback the server registers with the service. The event is passed to the client of the \<open>SrvrClbk\<close> that
  \<open>client_data\<close> points to.\<close>

definition ipc_callback :: "srv_env \<Rightarrow> u32 \<Rightarrow> agm_event_cb_params \<Rightarrow> u64 \<Rightarrow> server_world \<Rightarrow> (unit \<times> server_world) option" where
  "ipc_callback K k ev client_data s = do {
     x \<leftarrow> srv_clbks s client_data;
     case pid_index (sk_pid x) s of None \<Rightarrow> Some ((), s)
     | Some i \<Rightarrow>
       (case ci_clbk_binder (the_client i s) of None \<Rightarrow> Some ((), s)
        | Some b \<Rightarrow>
          if 0 < ev_payload_size ev \<and> ev_event_id ev \<in> {AGM_EVENT_READ_DONE, AGM_EVENT_WRITE_DONE}
          then case ev_payload ev of EVENT_BYTES _ \<Rightarrow> None
               | EVENT_RW_DONE p \<Rightarrow> do {
                 let (input_fd, l) = take_fd k (rw_alloc_handle p) (- 1) (ci_agm_client_hndl_list (the_client i s));
                 let s = upd_client i (\<lambda>c. c\<lparr>ci_agm_client_hndl_list := l\<rparr>) s;
                 (r, s) \<leftarrow> srv_ecall K SRV_NATIVE_HANDLE_CREATE s;
                 if r = 0 then Some ((), s) else do {
                 (_, s) \<leftarrow> srv_ecall K (SRV_EVENT_CALLBACK_RW_DONE b k ev input_fd (sk_clnt_data x)) s;
                 Some ((), s) }}
          else case ev_payload ev of EVENT_RW_DONE _ \<Rightarrow> None
               | EVENT_BYTES bs \<Rightarrow>
                 if length bs < unat (ev_payload_size ev) then None else do {
                 (_, s) \<leftarrow> srv_ecall K (SRV_EVENT_CALLBACK b k ev (sk_clnt_data x)) s;
                 Some ((), s) }) }"

section \<open>Handlers: audio interfaces and parameters\<close>

definition ipc_agm_init :: "server_world \<Rightarrow> (int \<times> server_world) option" where
  "ipc_agm_init s = Some (0, s)"

definition ipc_agm_deinit :: "server_world \<Rightarrow> (int \<times> server_world) option" where
  "ipc_agm_deinit s = Some (0, s)"

definition ipc_agm_aif_set_media_config :: "srv_env \<Rightarrow> u32 \<Rightarrow> agm_media_config list \<Rightarrow> server_world \<Rightarrow> (int \<times> server_world) option" where
  "ipc_agm_aif_set_media_config K aif media_config s = do {
     (p, s) \<leftarrow> srv_calloc K s;
     if p = 0 then Some (- ENOMEM, s) else do {
     mc \<leftarrow> hidl_data media_config;
     serve (agm_aif_set_media_config aif (Some mc)) s }}"

definition ipc_agm_aif_set_metadata :: "srv_env \<Rightarrow> u32 \<Rightarrow> u32 \<Rightarrow> u8 list \<Rightarrow> server_world \<Rightarrow> (int \<times> server_world) option" where
  "ipc_agm_aif_set_metadata K aif n metadata =
     with_payload K metadata n (\<lambda>m. serve (agm_aif_set_metadata (srv_svc K) aif (unat n) (Some m)))"

text \<open>\<open>NUM_GKV\<close> reads the first four bytes of the copy, however short it is.\<close>

definition ipc_agm_session_set_metadata :: "srv_env \<Rightarrow> u32 \<Rightarrow> u32 \<Rightarrow> u32 \<Rightarrow> u8 list \<Rightarrow> server_world \<Rightarrow> (int \<times> server_world) option" where
  "ipc_agm_session_set_metadata K pid k n metadata =
     with_payload K metadata n (\<lambda>m s. do {
       g \<leftarrow> rd32 m 0;
       (_, s) \<leftarrow> (if g \<noteq> 0 then add_session_to_list_l K pid k s else Some ((), s));
       serve (agm_session_set_metadata (srv_svc K) k (unat n) (Some m)) s })"

definition ipc_agm_session_aif_set_metadata ::
    "srv_env \<Rightarrow> u32 \<Rightarrow> u32 \<Rightarrow> u32 \<Rightarrow> u32 \<Rightarrow> u8 list \<Rightarrow> server_world \<Rightarrow> (int \<times> server_world) option" where
  "ipc_agm_session_aif_set_metadata K pid k aif n metadata =
     with_payload K metadata n (\<lambda>m s. do {
       g \<leftarrow> rd32 m 0;
       (_, s) \<leftarrow> (if g \<noteq> 0 then add_session_aif_to_list_l K pid k aif s else Some ((), s));
       serve (agm_session_aif_set_metadata (srv_svc K) k aif (unat n) (Some m)) s })"

definition ipc_agm_session_aif_connect :: "srv_env \<Rightarrow> u32 \<Rightarrow> u32 \<Rightarrow> u32 \<Rightarrow> bool \<Rightarrow> server_world \<Rightarrow> (int \<times> server_world) option" where
  "ipc_agm_session_aif_connect K pid k aif state s = do {
     (_, s) \<leftarrow> (if state then add_session_aif_to_list_l K pid k aif s else remove_session_aif_from_list_l K pid k aif s);
     serve (agm_session_aif_connect (srv_svc K) k aif state) s }"

definition ipc_agm_session_aif_get_tag_module_info :: "srv_env \<Rightarrow> u32 \<Rightarrow> u32 \<Rightarrow> u32 \<Rightarrow> server_world \<Rightarrow> (int \<times> server_world) option" where
  "ipc_agm_session_aif_get_tag_module_info K k aif n s = do {
     (p, s) \<leftarrow> (if n \<noteq> 0 then srv_calloc K s else Some (0, s));
     if n \<noteq> 0 \<and> p = 0 then Some (- ENOMEM, s)
     else serve (agm_session_aif_get_tag_module_info (srv_svc K) k aif (unat n)) s }"

definition ipc_agm_session_get_params :: "srv_env \<Rightarrow> u32 \<Rightarrow> u32 \<Rightarrow> u8 list \<Rightarrow> server_world \<Rightarrow> (int \<times> server_world) option" where
  "ipc_agm_session_get_params K k n buff = with_payload K buff n (\<lambda>p. serve (agm_session_get_params (srv_svc K) k p))"

definition ipc_agm_aif_set_params :: "srv_env \<Rightarrow> u32 \<Rightarrow> u8 list \<Rightarrow> u32 \<Rightarrow> server_world \<Rightarrow> (int \<times> server_world) option" where
  "ipc_agm_aif_set_params K aif payload n =
     with_payload K payload n (\<lambda>p. serve (agm_aif_set_params (srv_svc K) aif (Some p) (unat n)))"

definition ipc_agm_session_aif_set_params :: "srv_env \<Rightarrow> u32 \<Rightarrow> u32 \<Rightarrow> u8 list \<Rightarrow> u32 \<Rightarrow> server_world \<Rightarrow> (int \<times> server_world) option" where
  "ipc_agm_session_aif_set_params K k aif payload n =
     with_payload K payload n (\<lambda>p. serve (agm_session_aif_set_params (srv_svc K) k aif (Some p) (unat n)))"

definition ipc_agm_session_set_params :: "srv_env \<Rightarrow> u32 \<Rightarrow> u8 list \<Rightarrow> u32 \<Rightarrow> server_world \<Rightarrow> (int \<times> server_world) option" where
  "ipc_agm_session_set_params K k payload n =
     with_payload K payload n (\<lambda>p. serve (agm_session_set_params (srv_svc K) k (Some p) (unat n)))"

text \<open>The key-value pairs of a configuration: a vector that may be shorter than the number that comes with it.\<close>

definition hidl_kvs :: "AgmKvConfig \<Rightarrow> key_value list option" where
  "hidl_kvs c = (if length (hk_kv c) < unat (hk_num c) then None else Some (take (unat (hk_num c)) (hk_kv c)))"

definition ipc_agm_session_aif_set_cal :: "srv_env \<Rightarrow> u32 \<Rightarrow> u32 \<Rightarrow> AgmKvConfig list \<Rightarrow> server_world \<Rightarrow> (int \<times> server_world) option" where
  "ipc_agm_session_aif_set_cal K k aif cal_config s = do {
     c \<leftarrow> hidl_data cal_config;
     if hk_num c > 48 then Some (- ENOMEM, s) else do {
     (p, s) \<leftarrow> srv_calloc K s;
     if p = 0 then Some (- ENOMEM, s) else do {
     kvs \<leftarrow> hidl_kvs c;
     serve (agm_session_aif_set_cal (srv_svc K) k aif \<lparr>num_kvs = unat (hk_num c), kv = Some kvs\<rparr>) s }}}"

definition ipc_agm_set_params_with_tag :: "srv_env \<Rightarrow> u32 \<Rightarrow> u32 \<Rightarrow> AgmKvConfig list \<Rightarrow> server_world \<Rightarrow> (int \<times> server_world) option" where
  "ipc_agm_set_params_with_tag K k aif tag_config s = do {
     c \<leftarrow> hidl_data tag_config;
     if hk_num c > 48 then Some (- ENOMEM, s) else do {
     (p, s) \<leftarrow> srv_calloc K s;
     if p = 0 then Some (- ENOMEM, s) else do {
     kvs \<leftarrow> hidl_kvs c;
     serve (agm_set_params_with_tag (srv_svc K) k aif \<lparr>tc_tag = hk_tag c, tc_kv = kvs\<rparr>) s }}}"

text \<open>The structures the service casts the bytes of an ACDB payload to.\<close>

definition acdb_param_of :: "u8 list \<Rightarrow> agm_acdb_param option" where
  "acdb_param_of bs = do {
     tag \<leftarrow> rd32 bs 4; n \<leftarrow> rd32 bs 8; z \<leftarrow> rd32 bs 12;
     Some \<lparr>ap_isTKV = hd bs \<noteq> 0, ap_tag = tag, ap_num_kvs = n, ap_blob_size = z, ap_blob = drop 16 bs\<rparr> }"

definition acdb_tunnel_param_of :: "u8 list \<Rightarrow> agm_acdb_tunnel_param option" where
  "acdb_tunnel_param_of bs = do {
     tag \<leftarrow> rd32 bs 4; g \<leftarrow> rd32 bs 8; n \<leftarrow> rd32 bs 12; z \<leftarrow> rd32 bs 16;
     Some \<lparr>tp_isTKV = hd bs \<noteq> 0, tp_tag = tag, tp_num_gkvs = g, tp_num_kvs = n, tp_blob_size = z, tp_blob = drop 20 bs\<rparr> }"

definition ipc_agm_set_params_with_tag_to_acdb :: "srv_env \<Rightarrow> u32 \<Rightarrow> u32 \<Rightarrow> u8 list \<Rightarrow> u32 \<Rightarrow> server_world \<Rightarrow> (int \<times> server_world) option" where
  "ipc_agm_set_params_with_tag_to_acdb K k aif payload n =
     with_payload K payload n (\<lambda>p s. do {
       ap \<leftarrow> acdb_param_of p;
       serve (agm_set_params_with_tag_to_acdb (srv_svc K) k aif ap) s })"

definition ipc_agm_set_params_to_acdb_tunnel :: "srv_env \<Rightarrow> u8 list \<Rightarrow> u32 \<Rightarrow> server_world \<Rightarrow> (int \<times> server_world) option" where
  "ipc_agm_set_params_to_acdb_tunnel K payload n =
     with_payload K payload n (\<lambda>p s. do {
       tp \<leftarrow> acdb_tunnel_param_of p;
       ((ret, _), s) \<leftarrow> serve (agm_set_params_to_acdb_tunnel (srv_svc K) (Some tp)) s;
       Some (ret, s) })"

definition ipc_agm_session_register_for_events :: "srv_env \<Rightarrow> u32 \<Rightarrow> AgmEventRegCfg list \<Rightarrow> server_world \<Rightarrow> (int \<times> server_world) option" where
  "ipc_agm_session_register_for_events K k evt_reg_cfg s =
     (case evt_reg_cfg of
        [c] \<Rightarrow>
          if length (hr_payload c) \<noteq> unat (hr_payload_size c) then Some (- EINVAL, s) else do {
          (p, s) \<leftarrow> srv_calloc K s;
          if p = 0 then Some (- ENOMEM, s)
          else serve (agm_session_register_for_events (srv_svc K) k (Some
            \<lparr>er_module_instance_id = hr_module_instance_id c, er_event_id = hr_event_id c, er_payload = hr_payload c,
             er_is_register = hr_is_register c\<rparr>)) s }
      | _ \<Rightarrow> Some (- EINVAL, s))"

definition ipc_agm_session_set_loopback :: "srv_env \<Rightarrow> u32 \<Rightarrow> u32 \<Rightarrow> bool \<Rightarrow> server_world \<Rightarrow> (int \<times> server_world) option" where
  "ipc_agm_session_set_loopback K k pb state = serve (agm_session_set_loopback (srv_svc K) k pb state)"

definition ipc_agm_session_set_ec_ref :: "srv_env \<Rightarrow> u32 \<Rightarrow> u32 \<Rightarrow> bool \<Rightarrow> server_world \<Rightarrow> (int \<times> server_world) option" where
  "ipc_agm_session_set_ec_ref K k aif state = serve (agm_session_set_ec_ref (srv_svc K) k aif state)"

definition ipc_agm_aif_group_set_media_config ::
    "srv_env \<Rightarrow> u32 \<Rightarrow> agm_group_media_config list \<Rightarrow> server_world \<Rightarrow> (int \<times> server_world) option" where
  "ipc_agm_aif_group_set_media_config K gid media_config s = do {
     (p, s) \<leftarrow> srv_calloc K s;
     if p = 0 then Some (- ENOMEM, s) else do {
     mc \<leftarrow> hidl_data media_config;
     serve (\<lambda>w. Some (agm_aif_group_set_media_config gid (Some mc) w)) s }}"

text \<open>The result of the service is replaced by 0; the reply has \<open>n\<close> entries, of which the service fills the first.\<close>

definition pad :: "nat \<Rightarrow> (string \<times> u32) list \<Rightarrow> (string \<times> u32) list" where
  "pad n l = take n l @ replicate (n - length l) ([], 0)"

definition ipc_agm_get_aif_info_list ::
    "srv_env \<Rightarrow> u32 \<Rightarrow> server_world \<Rightarrow> ((int \<times> (string \<times> u32) list \<times> u32) \<times> server_world) option" where
  "ipc_agm_get_aif_info_list K n s = do {
     (p, s) \<leftarrow> (if n \<noteq> 0 then srv_calloc K s else Some (0, s));
     if n \<noteq> 0 \<and> p = 0 then Some ((- ENOMEM, [], n), s)
     else case agm_get_aif_info_list (p \<noteq> 0) (Some (unat n)) (srv_agm s) of
       (_, None) \<Rightarrow> Some ((0, pad (unat n) [], n), s)
     | (_, Some (m, l)) \<Rightarrow> Some ((0, pad (unat n) l, of_nat m), s) }"

definition ipc_agm_get_group_aif_info_list ::
    "srv_env \<Rightarrow> u32 \<Rightarrow> server_world \<Rightarrow> ((int \<times> (string \<times> u32) list \<times> u32) \<times> server_world) option" where
  "ipc_agm_get_group_aif_info_list K n s = do {
     (p, s) \<leftarrow> (if n \<noteq> 0 then srv_calloc K s else Some (0, s));
     if n \<noteq> 0 \<and> p = 0 then Some ((- ENOMEM, [], n), s)
     else case agm_get_group_aif_info_list (p \<noteq> 0) (Some (unat n)) (srv_agm s) of
       (_, None) \<Rightarrow> Some ((0, pad (unat n) [], n), s)
     | (_, Some (m, l)) \<Rightarrow> Some ((0, pad (unat n) (map (\<lambda>x. (x, 0)) l), of_nat m), s) }"

section \<open>Handlers: sessions\<close>

definition ipc_agm_session_open ::
    "srv_env \<Rightarrow> u32 \<Rightarrow> u32 \<Rightarrow> agm_session_mode \<Rightarrow> server_world \<Rightarrow> ((int \<times> nat) \<times> server_world) option" where
  "ipc_agm_session_open K pid k mode s = do {
     (h, s) \<leftarrow> get_session_handle_l K pid k s;
     case h of None \<Rightarrow> Some ((- EINVAL, 0), s)
     | Some _ \<Rightarrow> do {
       ((ret, a), s) \<leftarrow> serve (agm_session_open (srv_svc K) k mode True) s;
       let handle = (case a of None \<Rightarrow> 0 | Some a \<Rightarrow> a);
       (_, s) \<leftarrow> (if ret = 0 then add_session_handle_to_list_l K pid k handle s else Some ((), s));
       Some ((ret, handle), s) }}"

text \<open>The first bytes of the HIDL configuration of a session are copied as they are: they are the structure of the service.\<close>

record AgmBufferConfig =
  hc_count :: u32
  hc_size :: u32
  hc_max_metadata_size :: u32

definition ipc_agm_session_set_config ::
    "srv_env \<Rightarrow> nat \<Rightarrow> agm_session_config list \<Rightarrow> agm_media_config list \<Rightarrow> AgmBufferConfig list \<Rightarrow> server_world \<Rightarrow>
       (int \<times> server_world) option" where
  "ipc_agm_session_set_config K h session_config media_config buffer_config s = do {
     (p, s) \<leftarrow> srv_calloc K s;
     if p = 0 then Some (- ENOMEM, s) else do {
     mc \<leftarrow> hidl_data media_config;
     (p, s) \<leftarrow> srv_calloc K s;
     if p = 0 then Some (- ENOMEM, s) else do {
     sc \<leftarrow> hidl_data session_config;
     (p, s) \<leftarrow> srv_calloc K s;
     if p = 0 then Some (- ENOMEM, s) else do {
     bc \<leftarrow> hidl_data buffer_config;
     serve (agm_session_set_config (srv_svc K) h sc mc
       \<lparr>bc_count = hc_count bc, bc_size = ucast (hc_size bc), bc_max_metadata_size = 0\<rparr>) s }}}}"

definition hidl_buffer_config :: "AgmBufferConfig \<Rightarrow> agm_buffer_config" where
  "hidl_buffer_config bc =
     \<lparr>bc_count = hc_count bc, bc_size = ucast (hc_size bc), bc_max_metadata_size = ucast (hc_max_metadata_size bc)\<rparr>"

fun srv_callocs :: "nat \<Rightarrow> srv_env \<Rightarrow> server_world \<Rightarrow> (bool \<times> server_world) option" where
  "srv_callocs 0 K s = Some (True, s)"
| "srv_callocs (Suc n) K s = do { (p, s) \<leftarrow> srv_calloc K s; if p = 0 then Some (False, s) else srv_callocs n K s }"

definition ipc_agm_session_set_non_tunnel_mode_config ::
    "srv_env \<Rightarrow> nat \<Rightarrow> agm_session_config list \<Rightarrow> agm_media_config list \<Rightarrow> agm_media_config list \<Rightarrow>
       AgmBufferConfig list \<Rightarrow> AgmBufferConfig list \<Rightarrow> server_world \<Rightarrow> (int \<times> server_world) option" where
  "ipc_agm_session_set_non_tunnel_mode_config K h session_config imcs omcs ibcs obcs s = do {
     (ok, s) \<leftarrow> srv_callocs 2 K s;
     if \<not> ok then Some (- ENOMEM, s) else do {
     imc \<leftarrow> hidl_data imcs;
     omc \<leftarrow> hidl_data omcs;
     (p, s) \<leftarrow> srv_calloc K s;
     if p = 0 then Some (- ENOMEM, s) else do {
     sc \<leftarrow> hidl_data session_config;
     (ok, s) \<leftarrow> srv_callocs 2 K s;
     if \<not> ok then Some (- ENOMEM, s) else do {
     ibc \<leftarrow> hidl_data ibcs;
     obc \<leftarrow> hidl_data obcs;
     serve (agm_session_set_non_tunnel_mode_config h sc imc omc (hidl_buffer_config ibc) (hidl_buffer_config obc)) s }}}}"

text \<open>The first entry of the calling client with the handle leaves the list, also for the handle 0.\<close>

fun drop_hndl :: "u32 \<Rightarrow> nat \<Rightarrow> client_info list \<Rightarrow> client_info list" where
  "drop_hndl pid h [] = []"
| "drop_hndl pid h (c # cs) =
     (if ci_pid c \<noteq> pid then c # drop_hndl pid h cs
      else case index_of (\<lambda>x. ch_handle x = h) (ci_agm_client_hndl_list c) of
        None \<Rightarrow> c # drop_hndl pid h cs
      | Some j \<Rightarrow> c\<lparr>ci_agm_client_hndl_list := take j (ci_agm_client_hndl_list c) @ drop (Suc j) (ci_agm_client_hndl_list c)\<rparr> # cs)"

definition ipc_agm_session_close :: "srv_env \<Rightarrow> u32 \<Rightarrow> nat \<Rightarrow> server_world \<Rightarrow> (int \<times> server_world) option" where
  "ipc_agm_session_close K pid h s =
     serve (agm_session_close (srv_svc K) h) (s\<lparr>client_list := drop_hndl pid h (client_list s)\<rparr>)"

definition ipc_agm_session_prepare :: "srv_env \<Rightarrow> nat \<Rightarrow> server_world \<Rightarrow> (int \<times> server_world) option" where
  "ipc_agm_session_prepare K h = serve (agm_session_prepare (srv_svc K) h)"

definition ipc_agm_session_start :: "srv_env \<Rightarrow> nat \<Rightarrow> server_world \<Rightarrow> (int \<times> server_world) option" where
  "ipc_agm_session_start K h = serve (agm_session_start (srv_svc K) h)"

definition ipc_agm_session_stop :: "srv_env \<Rightarrow> nat \<Rightarrow> server_world \<Rightarrow> (int \<times> server_world) option" where
  "ipc_agm_session_stop K h = serve (agm_session_stop (srv_svc K) h)"

definition ipc_agm_session_pause :: "srv_env \<Rightarrow> nat \<Rightarrow> server_world \<Rightarrow> (int \<times> server_world) option" where
  "ipc_agm_session_pause K h = serve (agm_session_pause (srv_svc K) h)"

definition ipc_agm_session_flush :: "srv_env \<Rightarrow> nat \<Rightarrow> server_world \<Rightarrow> (int \<times> server_world) option" where
  "ipc_agm_session_flush K h = serve (agm_session_flush (srv_svc K) h)"

definition ipc_agm_session_resume :: "srv_env \<Rightarrow> nat \<Rightarrow> server_world \<Rightarrow> (int \<times> server_world) option" where
  "ipc_agm_session_resume K h = serve (agm_session_resume (srv_svc K) h)"

definition ipc_agm_session_suspend :: "srv_env \<Rightarrow> nat \<Rightarrow> server_world \<Rightarrow> (int \<times> server_world) option" where
  "ipc_agm_session_suspend K h = serve (agm_session_suspend (srv_svc K) h)"

definition ipc_agm_session_eos :: "srv_env \<Rightarrow> nat \<Rightarrow> server_world \<Rightarrow> (int \<times> server_world) option" where
  "ipc_agm_session_eos K h = serve (agm_session_eos (srv_svc K) h)"

definition ipc_agm_sessionid_flush :: "srv_env \<Rightarrow> u32 \<Rightarrow> server_world \<Rightarrow> (int \<times> server_world) option" where
  "ipc_agm_sessionid_flush K k = serve (agm_sessionid_flush (srv_svc K) k)"

definition ipc_agm_session_read :: "srv_env \<Rightarrow> nat \<Rightarrow> u32 \<Rightarrow> server_world \<Rightarrow> ((int \<times> u32) \<times> server_world) option" where
  "ipc_agm_session_read K h count s = do {
     (p, s) \<leftarrow> srv_calloc K s;
     if p = 0 then Some ((- ENOMEM, count), s) else do {
     ((ret, n), s) \<leftarrow> serve (agm_session_read (srv_svc K) h p (ucast count)) s;
     Some ((ret, case n of None \<Rightarrow> count | Some n \<Rightarrow> ucast n), s) }}"

definition ipc_agm_session_write :: "srv_env \<Rightarrow> nat \<Rightarrow> u8 list \<Rightarrow> u32 \<Rightarrow> server_world \<Rightarrow> ((int \<times> u32) \<times> server_world) option" where
  "ipc_agm_session_write K h buff count s =
     (if length buff < unat count then Some ((- EINVAL, count), s) else do {
      (p, s) \<leftarrow> srv_calloc K s;
      if p = 0 then Some ((- ENOMEM, count), s) else do {
      ((ret, n), s) \<leftarrow> serve (agm_session_write (srv_svc K) h p (ucast count)) s;
      Some ((ret, case n of None \<Rightarrow> count | Some n \<Rightarrow> n), s) }})"

text \<open>The count is returned as an \<open>int32_t\<close>.\<close>

definition ipc_agm_get_hw_processed_buff_cnt :: "nat \<Rightarrow> server_world \<Rightarrow> (int \<times> server_world) option" where
  "ipc_agm_get_hw_processed_buff_cnt h s = do {
     (r, s) \<leftarrow> serve (agm_get_hw_processed_buff_cnt h) s;
     Some (sint (ucast r :: u32), s) }"

text \<open>The time is not initialised: \<open>None\<close> when the service does not set it.\<close>

definition ipc_agm_get_session_time :: "srv_env \<Rightarrow> nat \<Rightarrow> server_world \<Rightarrow> ((int \<times> u64 option) \<times> server_world) option" where
  "ipc_agm_get_session_time K h = serve (agm_get_session_time (srv_svc K) h True)"

definition ipc_agm_get_buffer_timestamp :: "srv_env \<Rightarrow> u32 \<Rightarrow> server_world \<Rightarrow> ((int \<times> u64) \<times> server_world) option" where
  "ipc_agm_get_buffer_timestamp K k s = do {
     ((ret, ts), s) \<leftarrow> serve (agm_get_buffer_timestamp (srv_svc K) k True) s;
     Some ((ret, case ts of None \<Rightarrow> 0 | Some t \<Rightarrow> t), s) }"

text \<open>The descriptors of the data and the position buffer with their sizes. \<open>junk\<close> is the content of the local structure before the call.\<close>

definition hidl_fd :: "srv_env \<Rightarrow> bool \<Rightarrow> u32 \<times> u32 \<Rightarrow> server_world \<Rightarrow> ((bool \<times> (u32 \<times> u32) option) \<times> server_world) option" where
  "hidl_fd K wanted fd s =
     (if \<not> wanted then Some ((True, None), s) else do {
      (r, s) \<leftarrow> srv_ecall K SRV_NATIVE_HANDLE_CREATE s;
      Some ((r \<noteq> 0, if r = 0 then None else Some fd), s) })"

definition ipc_agm_session_get_buf_info ::
    "srv_env \<Rightarrow> agm_buf_info \<Rightarrow> u32 \<Rightarrow> u32 \<Rightarrow> server_world \<Rightarrow>
       ((int \<times> (u32 \<times> u32) option \<times> (u32 \<times> u32) option) option \<times> server_world) option" where
  "ipc_agm_session_get_buf_info K junk k flag s = do {
     ((ret, bi), s) \<leftarrow> serve (agm_session_get_buf_info (srv_svc K) k junk flag) s;
     if ret \<noteq> 0 then Some (Some (ret, None, None), s) else do {
     ((ok, d), s) \<leftarrow> hidl_fd K (flag AND 1 \<noteq> 0) (data_buf_fd bi, data_buf_size bi) s;
     if \<not> ok then Some (None, s) else do {
     ((ok, p), s) \<leftarrow> hidl_fd K (flag AND 2 \<noteq> 0) (pos_buf_fd bi, pos_buf_size bi) s;
     Some (if ok then Some (ret, d, p) else None, s) }}}"

definition ipc_agm_set_gapless_session_metadata ::
    "srv_env \<Rightarrow> nat \<Rightarrow> agm_gapless_silence_type \<Rightarrow> u32 \<Rightarrow> server_world \<Rightarrow> (int \<times> server_world) option" where
  "ipc_agm_set_gapless_session_metadata K h ty silence = serve (agm_set_gapless_session_metadata (srv_svc K) h ty silence)"

section \<open>Handlers: buffers with metadata\<close>

text \<open>The descriptor of the external memory of a buffer is duplicated and remembered for the session of the handle.\<close>

definition hidl_alloc :: "srv_env \<Rightarrow> nat \<Rightarrow> AgmBuff \<Rightarrow> agm_buff \<Rightarrow> server_world \<Rightarrow> (agm_buff \<times> server_world) option" where
  "hidl_alloc K h b buf s = do {
     (fd, input_fd) \<leftarrow> ha_handle (hb_alloc_info b);
     (r, s) \<leftarrow> srv_ecall K (SRV_DUP fd) s;
     Some (buf\<lparr>bf_alloc_handle := r, bf_alloc_size := ha_size (hb_alloc_info b), bf_alloc_offset := ha_offset (hb_alloc_info b)\<rparr>,
           add_fd_to_list h input_fd r s) }"

text \<open>\<open>junk\<close> is the content of the local buffer structure, of which the handlers do not set every field. The size of the
  data is not compared with the size of the vector.\<close>

definition ipc_agm_session_write_with_metadata ::
    "srv_env \<Rightarrow> agm_buff \<Rightarrow> nat \<Rightarrow> AgmBuff list \<Rightarrow> u64 \<Rightarrow> server_world \<Rightarrow> ((int \<times> u64) option \<times> server_world) option" where
  "ipc_agm_session_write_with_metadata K junk h buff consumed_sz s = do {
     b \<leftarrow> hidl_data buff;
     if length (hb_metadata b) < unat (hb_metadata_size b) then Some (Some (- EINVAL, ucast (hb_metadata_size b)), s) else do {
     (p, s) \<leftarrow> srv_calloc K s;
     if p = 0 then Some (None, s) else do {
     let buf = junk\<lparr>bf_addr := CLIENT_PTR p, bf_metadata := 0, bf_size := hb_size b, bf_timestamp := hb_timestamp b, bf_flags := hb_flags b\<rparr>;
     (q, s) \<leftarrow> (if hb_metadata_size b \<noteq> 0 then srv_calloc K s else Some (0, s));
     if hb_metadata_size b \<noteq> 0 \<and> q = 0 then Some (None, s) else do {
     let buf = (if hb_metadata_size b \<noteq> 0 then buf\<lparr>bf_metadata_size := hb_metadata_size b, bf_metadata := q\<rparr> else buf);
     (buf, s) \<leftarrow> hidl_alloc K h b buf s;
     if length (hb_buffer b) < unat (hb_size b) then None else do {
     ((ret, n), s) \<leftarrow> serve (agm_session_write_with_metadata (srv_svc K) h buf) s;
     Some (Some (ret, case n of None \<Rightarrow> consumed_sz | Some n \<Rightarrow> ucast n), s) }}}}}"

definition ipc_agm_session_read_with_metadata ::
    "srv_env \<Rightarrow> nat \<Rightarrow> AgmBuff list \<Rightarrow> u32 \<Rightarrow> server_world \<Rightarrow> ((int \<times> u32) option \<times> server_world) option" where
  "ipc_agm_session_read_with_metadata K h buff captured_sz s = do {
     b \<leftarrow> hidl_data buff;
     (p, s) \<leftarrow> srv_calloc K s;
     (q, s) \<leftarrow> srv_calloc K s;
     if p = 0 \<or> q = 0 then Some (None, s) else do {
     (buf, s) \<leftarrow> hidl_alloc K h b \<lparr>bf_timestamp = 0, bf_flags = 0, bf_size = hb_size b, bf_addr = CLIENT_PTR p,
        bf_metadata_size = hb_metadata_size b, bf_metadata = q, bf_alloc_handle = 0, bf_alloc_size = 0, bf_alloc_offset = 0\<rparr> s;
     ((ret, n), s) \<leftarrow> serve (agm_session_read_with_metadata (srv_svc K) h buf) s;
     Some (Some (ret, case n of None \<Rightarrow> captured_sz | Some n \<Rightarrow> ucast n), s) }}"

definition ipc_agm_session_write_datapath_params ::
    "srv_env \<Rightarrow> agm_buff \<Rightarrow> u32 \<Rightarrow> AgmBuff list \<Rightarrow> server_world \<Rightarrow> (int \<times> server_world) option" where
  "ipc_agm_session_write_datapath_params K junk k buff s =
     (case buff of
        [b] \<Rightarrow> do {
          (p, s) \<leftarrow> srv_calloc K s;
          if p = 0 then Some (- EINVAL, s)
          else if unat (hb_size b) \<noteq> length (hb_buffer b) then Some (- EINVAL, s)
          else if hb_size b = 0 then Some (- EINVAL, s) else do {
          ((ret, _), s) \<leftarrow> serve (agm_session_write_datapath_params (srv_svc K) k
             (junk\<lparr>bf_addr := CLIENT_PTR p, bf_metadata := 0, bf_size := hb_size b, bf_timestamp := hb_timestamp b,
                   bf_flags := hb_flags b\<rparr>)) s;
          Some (ret, s) }}
      | _ \<Rightarrow> Some (- EINVAL, s))"

section \<open>Handlers: callbacks and diagnosis\<close>

definition ipc_agm_client_register_callback :: "srv_env \<Rightarrow> u32 \<Rightarrow> nat \<Rightarrow> server_world \<Rightarrow> (int \<times> server_world) option" where
  "ipc_agm_client_register_callback K pid cb s = do {
     (c, s) \<leftarrow> get_client_handle_l K pid s;
     case c of None \<Rightarrow> Some (- ENOMEM, s)
     | Some i \<Rightarrow> do {
       let s = s\<lparr>mDeathNotifier := True\<rparr>;
       if ci_clbk_binder (the_client i s) \<noteq> None then Some (0, s) else do {
       (_, s) \<leftarrow> srv_ecall K (SRV_LINK_TO_DEATH cb pid) s;
       Some (0, upd_client i (\<lambda>c. c\<lparr>ci_clbk_binder := Some cb\<rparr>) s) }}}"

definition register_clbk ::
    "srv_env \<Rightarrow> u32 \<Rightarrow> u32 \<Rightarrow> u32 \<Rightarrow> u64 \<Rightarrow> u64 \<Rightarrow> server_world \<Rightarrow> (int \<times> server_world) option" where
  "register_clbk K pid k evt_type ipc_client_data clnt_data s = do {
     (x, s) \<leftarrow> new_SrvrClbk K \<lparr>sk_session_id = k, sk_event = evt_type, sk_clnt_data = ipc_client_data, sk_pid = pid\<rparr> s;
     (p, s) \<leftarrow> srv_calloc K s;
     if p = 0 then Some (- ENOMEM, delete_SrvrClbk x s) else do {
     let s = s\<lparr>clbk_data_list := clbk_data_list s @ [\<lparr>cd_clbk_clt_data = clnt_data, cd_srv_clt_data = x\<rparr>]\<rparr>;
     ty \<leftarrow> event_type_of evt_type;
     serve (agm_session_register_cb (srv_svc K) k (ipc_callback_addr K) ty x) s }}"

text \<open>The callback is searched by session, event and client data; the process of the caller does not matter.\<close>

fun find_clbk :: "u32 \<Rightarrow> u32 \<Rightarrow> u64 \<Rightarrow> (u64 \<Rightarrow> SrvrClbk option) \<Rightarrow> clbk_data list \<Rightarrow> clbk_data option option" where
  "find_clbk k evt_type clnt_data H [] = Some None"
| "find_clbk k evt_type clnt_data H (d # ds) = do {
     x \<leftarrow> H (cd_srv_clt_data d);
     if sk_session_id x = k \<and> sk_event x = evt_type \<and> cd_clbk_clt_data d = clnt_data then Some (Some d)
     else find_clbk k evt_type clnt_data H ds }"

definition deregister_clbk ::
    "srv_env \<Rightarrow> u32 \<Rightarrow> u32 \<Rightarrow> u64 \<Rightarrow> server_world \<Rightarrow> (int \<times> server_world) option" where
  "deregister_clbk K k evt_type clnt_data s = do {
     r \<leftarrow> find_clbk k evt_type clnt_data (srv_clbks s) (clbk_data_list s);
     case r of None \<Rightarrow> Some (- ENOMEM, s)
     | Some d \<Rightarrow> do {
       ty \<leftarrow> event_type_of evt_type;
       (ret, s) \<leftarrow> serve (agm_session_register_cb (srv_svc K) k 0 ty (cd_srv_clt_data d)) s;
       Some (ret, delete_SrvrClbk (cd_srv_clt_data d) (s\<lparr>clbk_data_list := remove1 d (clbk_data_list s)\<rparr>)) }}"

definition ipc_agm_session_register_callback ::
    "srv_env \<Rightarrow> u32 \<Rightarrow> u32 \<Rightarrow> u32 \<Rightarrow> u64 \<Rightarrow> u64 \<Rightarrow> server_world \<Rightarrow> (int \<times> server_world) option" where
  "ipc_agm_session_register_callback K pid k evt_type ipc_client_data clnt_data s =
     (if ipc_client_data \<noteq> 0 then register_clbk K pid k evt_type ipc_client_data clnt_data s
      else deregister_clbk K k evt_type clnt_data s)"

record agm_dump_info =
  di_signal :: int
  di_pid :: u32
  di_uid :: u32

definition dumpAgmStackTrace :: "srv_env \<Rightarrow> agm_dump_info \<Rightarrow> server_world \<Rightarrow> (unit \<times> server_world) option" where
  "dumpAgmStackTrace K d s =
     (if di_uid d = AID_AUDIOSERVER K \<and> di_signal d > 0
      then do { (_, s) \<leftarrow> srv_ecall K SRV_SIGQUEUE s; Some ((), s) } else Some ((), s))"

definition ipc_agm_dump :: "srv_env \<Rightarrow> agm_dump_info list \<Rightarrow> server_world \<Rightarrow> (int \<times> server_world) option" where
  "ipc_agm_dump K dump_info s =
     (if build_agm_hidl K then Some (agm_dump, s) else do {
      d \<leftarrow> hidl_data dump_info;
      (_, s) \<leftarrow> (if di_signal d \<noteq> 0 then dumpAgmStackTrace K d s else Some ((), s));
      Some (agm_dump, s) })"

section \<open>Runs of the server\<close>

text \<open>A handler, the death of a client, an event of GSL, or a call of a callback that the service holds.\<close>

inductive srv_step :: "srv_env \<Rightarrow> server_world \<Rightarrow> server_world \<Rightarrow> bool" for K s t where
  step_init: "ipc_agm_init s = Some (r, t) \<Longrightarrow> srv_step K s t"
| step_deinit: "ipc_agm_deinit s = Some (r, t) \<Longrightarrow> srv_step K s t"
| step_aif_set_media_config: "ipc_agm_aif_set_media_config K aif mcs s = Some (r, t) \<Longrightarrow> srv_step K s t"
| step_aif_set_metadata: "ipc_agm_aif_set_metadata K aif n md s = Some (r, t) \<Longrightarrow> srv_step K s t"
| step_session_set_metadata: "ipc_agm_session_set_metadata K pid k n md s = Some (r, t) \<Longrightarrow> srv_step K s t"
| step_session_aif_set_metadata: "ipc_agm_session_aif_set_metadata K pid k aif n md s = Some (r, t) \<Longrightarrow> srv_step K s t"
| step_session_aif_connect: "ipc_agm_session_aif_connect K pid k aif st s = Some (r, t) \<Longrightarrow> srv_step K s t"
| step_session_aif_get_tag_module_info: "ipc_agm_session_aif_get_tag_module_info K k aif n s = Some (r, t) \<Longrightarrow> srv_step K s t"
| step_session_get_params: "ipc_agm_session_get_params K k n md s = Some (r, t) \<Longrightarrow> srv_step K s t"
| step_aif_set_params: "ipc_agm_aif_set_params K aif md n s = Some (r, t) \<Longrightarrow> srv_step K s t"
| step_session_aif_set_params: "ipc_agm_session_aif_set_params K k aif md n s = Some (r, t) \<Longrightarrow> srv_step K s t"
| step_session_set_params: "ipc_agm_session_set_params K k md n s = Some (r, t) \<Longrightarrow> srv_step K s t"
| step_session_aif_set_cal: "ipc_agm_session_aif_set_cal K k aif kvs s = Some (r, t) \<Longrightarrow> srv_step K s t"
| step_set_params_with_tag: "ipc_agm_set_params_with_tag K k aif kvs s = Some (r, t) \<Longrightarrow> srv_step K s t"
| step_set_params_with_tag_to_acdb: "ipc_agm_set_params_with_tag_to_acdb K k aif md n s = Some (r, t) \<Longrightarrow> srv_step K s t"
| step_set_params_to_acdb_tunnel: "ipc_agm_set_params_to_acdb_tunnel K md n s = Some (r, t) \<Longrightarrow> srv_step K s t"
| step_session_register_for_events: "ipc_agm_session_register_for_events K k evs s = Some (r, t) \<Longrightarrow> srv_step K s t"
| step_session_set_loopback: "ipc_agm_session_set_loopback K k pb st s = Some (r, t) \<Longrightarrow> srv_step K s t"
| step_session_set_ec_ref: "ipc_agm_session_set_ec_ref K k aif st s = Some (r, t) \<Longrightarrow> srv_step K s t"
| step_aif_group_set_media_config: "ipc_agm_aif_group_set_media_config K gid gmcs s = Some (r, t) \<Longrightarrow> srv_step K s t"
| step_get_aif_info_list: "ipc_agm_get_aif_info_list K n s = Some (r, t) \<Longrightarrow> srv_step K s t"
| step_get_group_aif_info_list: "ipc_agm_get_group_aif_info_list K n s = Some (r, t) \<Longrightarrow> srv_step K s t"
| step_session_open: "ipc_agm_session_open K pid k mode s = Some (r, t) \<Longrightarrow> srv_step K s t"
| step_session_set_config: "ipc_agm_session_set_config K h scs mcs bcs s = Some (r, t) \<Longrightarrow> srv_step K s t"
| step_session_set_non_tunnel_mode_config: "ipc_agm_session_set_non_tunnel_mode_config K h scs imcs omcs ibcs obcs s = Some (r, t) \<Longrightarrow> srv_step K s t"
| step_session_close: "ipc_agm_session_close K pid h s = Some (r, t) \<Longrightarrow> srv_step K s t"
| step_session_prepare: "ipc_agm_session_prepare K h s = Some (r, t) \<Longrightarrow> srv_step K s t"
| step_session_start: "ipc_agm_session_start K h s = Some (r, t) \<Longrightarrow> srv_step K s t"
| step_session_stop: "ipc_agm_session_stop K h s = Some (r, t) \<Longrightarrow> srv_step K s t"
| step_session_pause: "ipc_agm_session_pause K h s = Some (r, t) \<Longrightarrow> srv_step K s t"
| step_session_flush: "ipc_agm_session_flush K h s = Some (r, t) \<Longrightarrow> srv_step K s t"
| step_session_resume: "ipc_agm_session_resume K h s = Some (r, t) \<Longrightarrow> srv_step K s t"
| step_session_suspend: "ipc_agm_session_suspend K h s = Some (r, t) \<Longrightarrow> srv_step K s t"
| step_session_eos: "ipc_agm_session_eos K h s = Some (r, t) \<Longrightarrow> srv_step K s t"
| step_sessionid_flush: "ipc_agm_sessionid_flush K k s = Some (r, t) \<Longrightarrow> srv_step K s t"
| step_session_read: "ipc_agm_session_read K h n s = Some (r, t) \<Longrightarrow> srv_step K s t"
| step_session_write: "ipc_agm_session_write K h md n s = Some (r, t) \<Longrightarrow> srv_step K s t"
| step_get_hw_processed_buff_cnt: "ipc_agm_get_hw_processed_buff_cnt h s = Some (r, t) \<Longrightarrow> srv_step K s t"
| step_get_session_time: "ipc_agm_get_session_time K h s = Some (r, t) \<Longrightarrow> srv_step K s t"
| step_get_buffer_timestamp: "ipc_agm_get_buffer_timestamp K k s = Some (r, t) \<Longrightarrow> srv_step K s t"
| step_session_get_buf_info: "ipc_agm_session_get_buf_info K bi k flag s = Some (r, t) \<Longrightarrow> srv_step K s t"
| step_set_gapless_session_metadata: "ipc_agm_set_gapless_session_metadata K h ty n s = Some (r, t) \<Longrightarrow> srv_step K s t"
| step_session_write_with_metadata: "ipc_agm_session_write_with_metadata K junk h bufs sz s = Some (r, t) \<Longrightarrow> srv_step K s t"
| step_session_read_with_metadata: "ipc_agm_session_read_with_metadata K h bufs n s = Some (r, t) \<Longrightarrow> srv_step K s t"
| step_session_write_datapath_params: "ipc_agm_session_write_datapath_params K junk k bufs s = Some (r, t) \<Longrightarrow> srv_step K s t"
| step_client_register_callback: "ipc_agm_client_register_callback K pid cb s = Some (r, t) \<Longrightarrow> srv_step K s t"
| step_session_register_callback: "ipc_agm_session_register_callback K pid k evt d e s = Some (r, t) \<Longrightarrow> srv_step K s t"
| step_dump: "ipc_agm_dump K dis s = Some (r, t) \<Longrightarrow> srv_step K s t"
| step_died: "serviceDied K pid s = Some (r, t) \<Longrightarrow> srv_step K s t"
| step_gsl_event: "serve (graph_event_cb (srv_svc K) d src ev) s = Some (r, t) \<Longrightarrow> srv_step K s t"
| step_callback: "a \<in> set (session_list (srv_agm s)) \<Longrightarrow> c \<in> set (cb_pool (sessions (srv_agm s) a)) \<Longrightarrow>
     ipc_callback K (sess_id (sessions (srv_agm s) a)) ev (cb_client_data c) s = Some (r, t) \<Longrightarrow> srv_step K s t"

definition srv_initial :: "server_world \<Rightarrow> bool" where
  "srv_initial s \<longleftrightarrow> client_list s = [] \<and> clbk_data_list s = [] \<and> srv_clbks s = Map.empty \<and> agm_initial (srv_agm s)"

inductive srv_reach :: "srv_env \<Rightarrow> server_world \<Rightarrow> bool" for K where
  srv_reach_init: "srv_initial s \<Longrightarrow> srv_reach K s"
| srv_reach_step: "srv_reach K s \<Longrightarrow> srv_step K s t \<Longrightarrow> srv_reach K t"

end
