(* ===== verification/Session_Frame.thy ===== *)
theory Session_Frame
  imports Agm
begin

text \<open>
  What the operations of the service leave alone in the session pool. A view of a session is any function of its id, its
  state and its callbacks; the locale \<open>session_view\<close> shows that operations outside of the life cycle keep every view of every
  session, \<open>session_life\<close> that the life cycle of session \<open>a\<close> keeps every view that does not look at the state of \<open>a\<close>.
\<close>

locale session_view =
  fixes view :: "nat \<Rightarrow> session_obj \<Rightarrow> 'v"
  assumes view_cong: "sess_id x = sess_id y \<Longrightarrow> sess_state x = sess_state y \<Longrightarrow> cb_pool x = cb_pool y \<Longrightarrow> view b x = view b y"
begin

text \<open>The sessions of \<open>s\<close> have kept their view, further ones are new.\<close>

definition viewed :: "'z agm_world_scheme \<Rightarrow> 'z agm_world_scheme \<Rightarrow> bool" where
  "viewed s t \<longleftrightarrow> (\<exists>l. session_list t = session_list s @ l \<and> (\<forall>b \<in> set l. view b (sessions t b) = view b (session_obj0 (sess_id (sessions t b)))))
     \<and> (\<forall>b \<in> set (session_list s). view b (sessions t b) = view b (sessions s b) \<and> sess_id (sessions t b) = sess_id (sessions s b))
     \<and> (\<forall>b \<in> set (session_list t). b < sess_next t)"

lemma viewed_refl: "\<forall>b \<in> set (session_list s). b < sess_next s \<Longrightarrow> viewed s s"
  by (simp add: viewed_def)

lemma viewed_same:
  assumes "viewed s t" "sessions u = sessions t" "session_list u = session_list t" "sess_next u = sess_next t"
  shows "viewed s u"
  using assms by (simp add: viewed_def)

lemma viewed_trans:
  assumes "viewed s t" "viewed t u"
  shows "viewed s u"
proof -
  obtain l where l: "session_list t = session_list s @ l" "\<forall>b \<in> set l. view b (sessions t b) = view b (session_obj0 (sess_id (sessions t b)))"
    using assms(1) by (auto simp: viewed_def)
  obtain m where m: "session_list u = session_list t @ m" "\<forall>b \<in> set m. view b (sessions u b) = view b (session_obj0 (sess_id (sessions u b)))"
    using assms(2) by (auto simp: viewed_def)
  show ?thesis
    using assms l m unfolding viewed_def by (intro conjI exI [of _ "l @ m"]) auto
qed

lemma viewed_call:
  "wlp m (\<lambda>_ u. dev_world.more u = dev_world.more t) \<Longrightarrow> viewed s t \<Longrightarrow> wlp m (\<lambda>_ u. viewed s u)"
  by (erule wlp_mono) (blast intro: viewed_same more_fields)

lemma viewed_quiet: "wlp m (\<lambda>_ u. quiet E t u) \<Longrightarrow> viewed s t \<Longrightarrow> wlp m (\<lambda>_ u. viewed s u)"
  by (rule viewed_call) (auto elim: wlp_mono simp: quiet_def)

lemmas quiets = quiet_calls [OF quiet_refl, THEN viewed_quiet]

lemma device_calls:
  fixes t :: "'z agm_world_scheme"
  assumes "viewed s t"
  shows "wlp (device_open E dp t) (\<lambda>_ u. viewed s u)" "wlp (device_prepare E dp t) (\<lambda>_ u. viewed s u)"
    "wlp (device_start E dp t) (\<lambda>_ u. viewed s u)" "wlp (device_stop E dp t) (\<lambda>_ u. viewed s u)"
    "wlp (device_close E dp t) (\<lambda>_ u. viewed s u)"
proof -
  have more: "wlp m (\<lambda>_ u. dframe E t u) \<Longrightarrow> wlp m (\<lambda>_ u. viewed s u)" for m :: "(int \<times> 'z agm_world_scheme) option"
    by (rule viewed_call [OF _ assms]) (auto elim: wlp_mono simp: dframe_def)
  have "dframe E t t" by (simp add: dframe_def)
  note ops = device_ops_dframe [OF this, THEN more]
  show "wlp (device_open E dp t) (\<lambda>_ u. viewed s u)" "wlp (device_prepare E dp t) (\<lambda>_ u. viewed s u)"
    "wlp (device_start E dp t) (\<lambda>_ u. viewed s u)" "wlp (device_stop E dp t) (\<lambda>_ u. viewed s u)"
    "wlp (device_close E dp t) (\<lambda>_ u. viewed s u)" by (rule ops)+
qed

lemma graph_open_close:
  assumes "viewed s t"
  shows "wlp (graph_open E cfg mp dev t) (\<lambda>_ u. viewed s u)" "wlp (graph_close E gp t) (\<lambda>_ u. viewed s u)"
proof -
  show "wlp (graph_open E cfg mp dev t) (\<lambda>_ u. viewed s u)"
    by (rule viewed_call [OF wlp_mono [OF graph_open_frame] assms]) simp
  show "wlp (graph_close E gp t) (\<lambda>_ u. viewed s u)"
    by (rule viewed_call [OF _ assms]) (simp add: graph_close_def wlp_simps split: option.split)
qed

lemma viewed_upd:
  assumes "viewed s t" "\<And>x. view a (f x) = view a x" "\<And>x. sess_id (f x) = sess_id x"
  shows "viewed s (upd_sess a f t)"
  using assms unfolding viewed_def upd_sess_def by (auto split: if_splits)

lemma viewed_upd_sess:
  assumes "viewed s t" "\<And>x. sess_id (f x) = sess_id x" "\<And>x. sess_state (f x) = sess_state x" "\<And>x. cb_pool (f x) = cb_pool x"
  shows "viewed s (upd_sess a f t)"
  by (rule viewed_upd [OF assms(1) view_cong]) (simp_all add: assms)

lemma viewed_upd_aif: "viewed s t \<Longrightarrow> viewed s (upd_aif a i f t)"
  unfolding upd_aif_def by (rule viewed_upd_sess) simp_all

lemma viewed_upd_dev: "viewed s t \<Longrightarrow> viewed s (upd_dev d f t)"
  by (erule viewed_same) (simp_all add: upd_dev_def)

lemma viewed_if: "viewed s t \<Longrightarrow> viewed s u \<Longrightarrow> viewed s (if b then t else u)"
  by simp

lemma viewed_graph_case: "viewed s t \<Longrightarrow> viewed s (case g of None \<Rightarrow> t | Some _ \<Rightarrow> set_graph a h t)"
  by (auto intro: viewed_upd_sess split: option.split)

lemmas updates = viewed_upd_aif viewed_upd_dev viewed_if viewed_upd_sess viewed_graph_case

lemma pool_get:
  assumes "viewed s t"
  shows "wlp (session_obj_get E k t) (\<lambda>_ u. viewed s u)"
proof (cases "find (\<lambda>a. sess_id (sessions t a) = k) (session_list t)")
  case None
  obtain l where l: "session_list t = session_list s @ l" "\<forall>b \<in> set l. view b (sessions t b) = view b (session_obj0 (sess_id (sessions t b)))"
    and old: "\<forall>b \<in> set (session_list t). b < sess_next t"
      "\<forall>b \<in> set (session_list s). view b (sessions t b) = view b (sessions s b) \<and> sess_id (sessions t b) = sess_id (sessions s b)"
    using assms by (auto simp: viewed_def)
  have "viewed s (t\<lparr>hist := h, sessions := (sessions t)(sess_next t := session_obj0 k), sess_next := Suc (sess_next t),
      session_list := session_list t @ [sess_next t]\<rparr>)" for h
    unfolding viewed_def
    by (intro conjI exI [of _ "l @ [sess_next t]"]) (use l old in \<open>auto simp: session_obj0_sel less_Suc_eq\<close>)
  then show ?thesis
    using None assms by (auto simp: session_obj_get_def session_obj_get_from_pool_def session_obj_create_def wlp_simps intro: viewed_same)
qed (use assms in \<open>simp add: session_obj_get_def session_obj_get_from_pool_def wlp_simps\<close>)

lemma aif_get:
  assumes "viewed s t"
  shows "wlp (aif_obj_get E a k t) (\<lambda>_ u. viewed s u)"
proof -
  have "wlp (aif_obj_create E k t) (\<lambda>_ u. viewed s u)"
    by (rule viewed_call [OF _ assms]) (simp add: aif_obj_create_def wlp_simps split: prod.split option.split)
  then show ?thesis
    unfolding aif_obj_get_def by (intro inv_rules updates assms) simp_all
qed

lemmas calls = quiets device_calls graph_open_close pool_get aif_get for_each_inv for_each_until_inv

lemma graph_edge_view: "viewed s t \<Longrightarrow> wlp (graph_edge E a enable m t) (\<lambda>_ u. viewed s u)"
  unfolding graph_edge_def by (intro inv_rules calls updates) simp_all

lemma edges:
  assumes "viewed s t"
  shows "wlp (session_set_loopback E a k enable t) (\<lambda>_ u. viewed s u)" "wlp (session_set_ec_ref E a k enable t) (\<lambda>_ u. viewed s u)"
  unfolding session_set_loopback_def session_set_ec_ref_def
  by (intro inv_rules calls graph_edge_view; (rule assms | assumption))+

lemma applies:
  assumes "viewed s t"
  shows "wlp (session_apply_aif_tag_params E a i m t) (\<lambda>_ u. viewed s u)" "wlp (session_apply_aif_device_params E a d t) (\<lambda>_ u. viewed s u)"
    "wlp (connect_sess_params E a t) (\<lambda>_ u. viewed s u)"
  unfolding session_apply_aif_tag_params_def session_apply_aif_device_params_def connect_sess_params_def
  by (intro inv_rules calls updates; (rule assms | assumption | simp))+

lemma disconnect: "viewed s t \<Longrightarrow> wlp (session_disconnect_aif E a i n t) (\<lambda>_ u. viewed s u)"
  unfolding session_disconnect_aif_def Let_def by (intro inv_rules calls updates) simp_all

lemma connects:
  assumes "viewed s t"
  shows "wlp (connect_graph E a d m n t) (\<lambda>_ u. viewed s u)" "wlp (connect_params E a i m t) (\<lambda>_ u. viewed s u)"
    "wlp (connect_graph_cleanup E a m n t) (\<lambda>_ u. viewed s u)" "wlp (connect_close_device E a i t) (\<lambda>_ u. viewed s u)"
  unfolding connect_graph_def connect_params_def connect_graph_cleanup_def connect_close_device_def Let_def
  by (intro inv_rules calls applies updates; (rule assms | assumption | simp add: assms)?)+

lemma connect: "viewed s t \<Longrightarrow> wlp (session_connect_aif E a i n t) (\<lambda>_ u. viewed s u)"
  unfolding session_connect_aif_def Let_def by (intro inv_rules calls connects)

lemma open_steps:
  assumes "viewed s t"
  shows "wlp (session_open_with_first_device E a t) (\<lambda>_ u. viewed s u)" "wlp (unwind_aif E a i t) (\<lambda>_ u. viewed s u)"
    "wlp (session_open_without_device E a t) (\<lambda>_ u. viewed s u)" "wlp (open_ec_ref E a mode t) (\<lambda>_ u. viewed s u)"
    "wlp (open_loopback E a r t) (\<lambda>_ u. viewed s u)"
  unfolding session_open_with_first_device_def unwind_aif_def session_open_without_device_def open_ec_ref_def open_loopback_def Let_def
  by (intro inv_rules calls connect disconnect edges updates; (rule assms | assumption | simp add: assms)?)+

lemma unwind: "viewed s t \<Longrightarrow> wlp (unwind_open E a t) (\<lambda>_ u. viewed s u)"
  unfolding unwind_open_def by (intro inv_rules calls open_steps updates) simp_all

lemma rest: "viewed s t \<Longrightarrow> wlp (connect_rest E a n is t) (\<lambda>_ u. viewed s u)"
proof (induction "is" arbitrary: n t)
  case (Cons i "is")
  show ?case unfolding connect_rest.simps by (intro inv_rules connect updates Cons)
qed (simp add: wlp_Some)

lemma stage: "viewed s t \<Longrightarrow> wlp (open_stage E a mode t) (\<lambda>_ u. viewed s u)"
  unfolding open_stage_def session_connect_reminder_devices_def by (intro inv_rules open_steps rest unwind)

lemma sess_graphs:
  assumes "viewed s t"
  shows "wlp (sess_graph_prepare E a t) (\<lambda>_ u. viewed s u)" "wlp (sess_graph_start E a t) (\<lambda>_ u. viewed s u)"
    "wlp (sess_graph_stop E a t) (\<lambda>_ u. viewed s u)"
  unfolding sess_graph_prepare_def sess_graph_start_def sess_graph_stop_def
  by (intro inv_rules calls updates; (rule assms | assumption | simp))+

lemma aif_steps:
  assumes "viewed s t"
  shows "wlp (prepare_aif E a i t) (\<lambda>_ u. viewed s u)" "wlp (start_aif E a i t) (\<lambda>_ u. viewed s u)"
    "wlp (stop_started_aif E a st i t) (\<lambda>_ u. viewed s u)" "wlp (start_checks E a t) (\<lambda>_ u. viewed s u)"
  unfolding prepare_aif_def start_aif_def stop_started_aif_def start_checks_def
  by (intro inv_rules calls updates; (rule assms | assumption | simp))+

lemma start_steps:
  assumes "viewed s t"
  shows "wlp (prepare_start_aif E a i t) (\<lambda>_ u. viewed s u)" "wlp (start_unwind E a b r t) (\<lambda>_ u. viewed s u)"
  unfolding prepare_start_aif_def start_unwind_def
  by (intro inv_rules calls aif_steps sess_graphs updates; (rule assms | assumption))+

lemma loops:
  assumes "viewed s t"
  shows "wlp (stop_loop E a is r t) (\<lambda>_ u. viewed s u)" "wlp (close_loop E a is r t) (\<lambda>_ u. viewed s u)"
proof -
  show "wlp (stop_loop E a is r t) (\<lambda>_ u. viewed s u)"
    using assms
  proof (induction "is" arbitrary: r t)
    case (Cons i "is")
    show ?case unfolding stop_loop.simps by (intro inv_rules calls updates Cons)
  qed (simp add: wlp_Some)
  show "wlp (close_loop E a is r t) (\<lambda>_ u. viewed s u)"
    using assms
  proof (induction "is" arbitrary: r t)
    case (Cons i "is")
    show ?case unfolding close_loop.simps by (intro inv_rules calls updates Cons)
  qed (simp add: wlp_Some)
qed

text \<open>The operations that are not part of the life cycle.\<close>

lemma session_ops:
  assumes "viewed s t"
  shows "wlp (session_obj_set_sess_metadata E a n md t) (\<lambda>_ u. viewed s u)"
    "wlp (session_obj_set_sess_params E a p n t) (\<lambda>_ u. viewed s u)"
    "wlp (session_obj_set_sess_aif_params E a k p n t) (\<lambda>_ u. viewed s u)"
    "wlp (session_obj_set_sess_aif_params_with_tag E a k tc t) (\<lambda>_ u. viewed s u)"
    "wlp (session_obj_rw_acdb_params_with_tag E a k ap t) (\<lambda>_ u. viewed s u)"
    "wlp (session_obj_set_sess_aif_cal E a k cal t) (\<lambda>_ u. viewed s u)"
    "wlp (session_obj_set_sess_aif_metadata E a k n md t) (\<lambda>_ u. viewed s u)"
    "wlp (session_obj_get_sess_params E a pl t) (\<lambda>_ u. viewed s u)"
    "wlp (session_obj_get_tag_with_module_info E a k n t) (\<lambda>_ u. viewed s u)"
    "wlp (session_obj_register_for_events E a cfg t) (\<lambda>_ u. viewed s u)"
    "wlp (session_obj_set_config E a sc mc bc t) (\<lambda>_ u. viewed s u)"
    "wlp (session_obj_set_loopback E a k b t) (\<lambda>_ u. viewed s u)"
    "wlp (session_obj_set_ec_ref E a k b t) (\<lambda>_ u. viewed s u)"
  unfolding session_obj_set_sess_metadata_def session_obj_set_sess_params_def session_obj_set_sess_aif_params_def
    session_obj_set_sess_aif_params_with_tag_def session_obj_rw_acdb_params_with_tag_def session_obj_set_sess_aif_cal_def
    session_obj_set_sess_aif_metadata_def session_obj_get_sess_params_def session_obj_get_tag_with_module_info_def
    session_obj_register_for_events_def session_obj_set_config_def session_obj_set_loopback_def session_obj_set_ec_ref_def Let_def
  by (intro inv_rules inv_bind_value calls edges updates; (rule assms | assumption | simp add: assms)?)+

lemma aif_disconnect: "viewed s t \<Longrightarrow> wlp (session_obj_sess_aif_connect E a k False t) (\<lambda>_ u. viewed s u)"
  unfolding session_obj_sess_aif_connect_def Let_def
  by (intro inv_rules calls disconnect updates; simp)

lemma stream_ops:
  assumes "viewed s t"
  shows "wlp (session_obj_pause E a t) (\<lambda>_ u. viewed s u)" "wlp (session_obj_flush E a t) (\<lambda>_ u. viewed s u)"
    "wlp (session_obj_resume E a t) (\<lambda>_ u. viewed s u)" "wlp (session_obj_suspend E a t) (\<lambda>_ u. viewed s u)"
    "wlp (session_obj_read_with_metadata E a bf t) (\<lambda>_ u. viewed s u)"
    "wlp (session_obj_write_with_metadata E a bf t) (\<lambda>_ u. viewed s u)"
    "wlp (session_obj_eos E a t) (\<lambda>_ u. viewed s u)" "wlp (session_obj_get_timestamp E a t) (\<lambda>_ u. viewed s u)"
    "wlp (session_obj_get_sess_buf_info E a bi flag t) (\<lambda>_ u. viewed s u)"
    "wlp (session_obj_set_gapless_metadata E a ty n t) (\<lambda>_ u. viewed s u)"
  unfolding session_obj_pause_def session_obj_flush_def session_obj_resume_def session_obj_suspend_def
    session_obj_read_with_metadata_def session_obj_write_with_metadata_def session_obj_eos_def session_obj_get_timestamp_def
    session_obj_get_sess_buf_info_def session_obj_set_gapless_metadata_def
    graph_pause_def graph_resume_def graph_flush_def graph_suspend_def Let_def
  by (intro inv_rules inv_bind_value calls updates; (rule assms | assumption | simp add: assms)?)+

lemma stream_rw:
  assumes "viewed s t"
  shows "wlp (session_obj_write E a ptr n t) (\<lambda>_ u. viewed s u)" "wlp (session_obj_read E a ptr n t) (\<lambda>_ u. viewed s u)"
    "wlp (Some (session_obj_set_non_tunnel_mode_config a sc imc omc ibc obc t)) (\<lambda>_ u. viewed s u)"
  unfolding session_obj_write_def session_obj_read_def session_obj_set_non_tunnel_mode_config_def
  by (intro stream_ops assms)+ (intro inv_Some updates assms; simp)

text \<open>From the operations of a session to the entry points of the service.\<close>

lemma entry:
  assumes "viewed s t" "\<And>a u. viewed s u \<Longrightarrow> wlp (f a u) (\<lambda>_ u. viewed s u)"
  shows "wlp (with_session E err k f t) (\<lambda>_ u. viewed s u)" "wlp (with_handle err h f t) (\<lambda>_ u. viewed s u)"
  unfolding with_session_def with_handle_def by (intro inv_rules calls assms; assumption?)+

lemma tunnel_entry: "viewed s t \<Longrightarrow> wlp (agm_set_params_to_acdb_tunnel E p t) (\<lambda>_ u. viewed s u)"
  unfolding agm_set_params_to_acdb_tunnel_def session_dummy_rw_acdb_tunnel_def graph_set_acdb_param_def
    graph_enable_acdb_persistence_def
  by (intro inv_rules inv_bind_value calls) (simp_all add: weightless_def)

lemma aif_entry:
  assumes "viewed s t"
  shows "wlp (agm_aif_set_metadata E k n md t) (\<lambda>_ u. viewed s u)"
    "wlp (agm_aif_set_media_config k mc t) (\<lambda>_ u. viewed s u)"
    "wlp (agm_aif_set_params E k p n t) (\<lambda>_ u. viewed s u)"
    "wlp (Some (agm_aif_group_set_media_config k gmc t)) (\<lambda>_ u. viewed s u)"
proof -
  show "wlp (agm_aif_set_metadata E k n md t) (\<lambda>_ u. viewed s u)" "wlp (agm_aif_set_params E k p n t) (\<lambda>_ u. viewed s u)"
    unfolding agm_aif_set_metadata_def agm_aif_set_params_def with_device_def device_set_metadata_def device_set_params_def Let_def
    by (intro inv_rules inv_bind_value calls updates; simp add: assms updates)+
  show "wlp (agm_aif_set_media_config k mc t) (\<lambda>_ u. viewed s u)"
    using assms unfolding agm_aif_set_media_config_def with_device_def device_set_media_config_def
    by (auto simp: wlp_simps case_prod_beta split: option.splits intro!: updates)
  have "viewed s (upd_grp g f t)" for g f
    by (rule viewed_same [OF assms]) (simp_all add: upd_grp_def split: option.split)
  then show "wlp (Some (agm_aif_group_set_media_config k gmc t)) (\<lambda>_ u. viewed s u)"
    using assms unfolding agm_aif_group_set_media_config_def device_group_set_media_config_def
    by (auto simp: wlp_simps case_prod_beta split: option.splits prod.splits)
qed

text \<open>What the IPC server calls to forget a session.\<close>

lemma forget_entry:
  assumes "viewed s t"
  shows "wlp (agm_session_aif_set_params E k f p n t) (\<lambda>_ u. viewed s u)"
    "wlp (agm_session_aif_connect E k f False t) (\<lambda>_ u. viewed s u)"
    "wlp (agm_session_aif_set_metadata E k f n md t) (\<lambda>_ u. viewed s u)"
    "wlp (agm_session_set_metadata E k n md t) (\<lambda>_ u. viewed s u)"
    "wlp (agm_session_set_params E k p n t) (\<lambda>_ u. viewed s u)"
  unfolding agm_session_aif_set_params_def agm_session_aif_connect_def agm_session_aif_set_metadata_def
    agm_session_set_metadata_def agm_session_set_params_def
  by (intro entry assms session_ops aif_disconnect; assumption)+

end

text \<open>The life cycle of one session, under a view that does not show its state.\<close>

locale session_life = session_view view for view :: "nat \<Rightarrow> session_obj \<Rightarrow> 'v" +
  fixes a :: nat
  assumes view_state: "view a (x\<lparr>sess_state := v\<rparr>) = view a x"
begin

lemma viewed_state: "viewed s t \<Longrightarrow> viewed s (set_sess_state a v t)"
  by (erule viewed_upd) (simp_all add: view_state)

lemma life:
  assumes "viewed s t"
  shows "wlp (session_prepare E a t) (\<lambda>_ u. viewed s u)" "wlp (session_start E a t) (\<lambda>_ u. viewed s u)"
    "wlp (session_stop E a t) (\<lambda>_ u. viewed s u)" "wlp (session_close E a t) (\<lambda>_ u. viewed s u)"
  unfolding session_prepare_def session_start_def session_stop_def session_close_def Let_def
  by (intro inv_rules calls applies sess_graphs aif_steps start_steps loops updates viewed_state;
      (rule assms | assumption | simp add: assms)?)+

lemma connect_opened_view: "viewed s t \<Longrightarrow> wlp (connect_opened E a i st n t) (\<lambda>_ u. viewed s u)"
  unfolding connect_opened_def Let_def by (intro inv_rules connect disconnect life updates; assumption)

lemma aif_connect: "viewed s t \<Longrightarrow> wlp (session_obj_sess_aif_connect E a k b t) (\<lambda>_ u. viewed s u)"
  unfolding session_obj_sess_aif_connect_def Let_def
  by (intro inv_rules calls disconnect connect_opened_view updates; assumption)

end

text \<open>A view that shows the state of no session is kept by every call but the registration of a callback.\<close>

locale session_stateless = session_view view for view :: "nat \<Rightarrow> session_obj \<Rightarrow> 'v" +
  assumes stateless: "view a (x\<lparr>sess_state := v\<rparr>) = view a x"
begin

sublocale life: session_life view a for a
  by unfold_locales (rule stateless)

lemma open_view: "viewed s t \<Longrightarrow> wlp (session_obj_open E k mode t) (\<lambda>_ u. viewed s u)"
  unfolding session_obj_open_def Let_def
  by (intro inv_rules calls stage open_steps unwind updates life.viewed_state; (assumption | simp)?)

lemma run_ops:
  assumes "viewed s t"
  shows "wlp (session_obj_prepare E a t) (\<lambda>_ u. viewed s u)" "wlp (session_obj_start E a t) (\<lambda>_ u. viewed s u)"
    "wlp (session_obj_stop E a t) (\<lambda>_ u. viewed s u)" "wlp (session_obj_close E a t) (\<lambda>_ u. viewed s u)"
  unfolding session_obj_prepare_def session_obj_start_def session_obj_stop_def session_obj_close_def
  by (rule life.life [OF assms])+

lemma agm_exec_view:
  fixes s t :: agm_world
  assumes V: "viewed s t" and "\<And>k f ty d. c \<noteq> SESSION_REGISTER_CB k f ty d"
  shows "wlp (agm_exec E c t) (\<lambda>_ u. viewed s u)"
proof (cases c)
  case (GSL_EVENT d src ev)
  have "wlp (graph_event_cb E d src ev t) (\<lambda>_ u. viewed s u)"
    unfolding graph_event_cb_def by (intro inv_rules calls V)
  with GSL_EVENT show ?thesis by (simp add: wlp_event)
next
  case (SESSIONID_FLUSH k)
  then show ?thesis using V by (auto simp: agm_sessionid_flush_def wlp_simps intro: stream_ops)
next
  case (SESSION_REGISTER_CB k f ty d)
  then show ?thesis using assms(2) by blast
qed (insert V, simp_all only: agm_exec.simps agm_entry_defs,
     (intro wlp_code_of inv_rules aif_entry tunnel_entry entry session_ops stream_ops stream_rw run_ops open_view life.aif_connect;
       (assumption | rule V))+)

end

end
