(* ===== verification/Hw_Server_Invariant.thy ===== *)
theory Hw_Server_Invariant
  imports Hw_Server Session_Frame
begin

text \<open>
  The invariant of the HwBinder server and that every handler keeps it: clients, sessions and AIFs are listed once, a handle
  that is remembered is the handle of that session, and the callbacks the service holds point to live \<open>SrvrClbk\<close> objects.
\<close>

section \<open>Callbacks in the session pool\<close>

interpretation cbs: session_stateless "\<lambda>_. cb_pool"
  by unfold_locales simp_all

lemma agm_pool: "agm_inv E w \<Longrightarrow> pool_ok w"
  by (simp add: agm_inv_def agm_core_def)

lemma cbs_refl: "agm_inv E w \<Longrightarrow> cbs.viewed w w"
  by (rule cbs.viewed_refl) (auto dest: agm_pool simp: pool_ok_def)

text \<open>What a call of the service that registers no callback keeps.\<close>

definition kept :: "env \<Rightarrow> agm_world \<Rightarrow> agm_world \<Rightarrow> bool" where
  "kept E w u \<longleftrightarrow> agm_inv E u \<and> cbs.viewed w u"

lemma wlp_code_iff: "wlp (code_of m) (\<lambda>_ t. I t) \<longleftrightarrow> wlp m (\<lambda>_ t. I t)"
  by (auto simp: wlp_def)

lemma kept_exec:
  assumes "agm_inv E w" "\<And>k f ty d. c \<noteq> SESSION_REGISTER_CB k f ty d"
  shows "wlp (agm_exec E c w) (\<lambda>_ u. kept E w u)"
  unfolding kept_def
  by (rule wlp_conj [OF agm_exec_inv [OF assms(1)] cbs.agm_exec_view [OF cbs_refl [OF assms(1)] assms(2)]])

lemma kept_by_id:
  assumes "agm_inv E w"
  shows "wlp (agm_session_set_metadata E k n md w) (\<lambda>_ u. kept E w u)"
    "wlp (agm_session_aif_set_metadata E k f n md w) (\<lambda>_ u. kept E w u)"
    "wlp (agm_session_aif_get_tag_module_info E k f n w) (\<lambda>_ u. kept E w u)"
    "wlp (agm_session_aif_set_cal E k f cal w) (\<lambda>_ u. kept E w u)"
    "wlp (agm_session_aif_set_params E k f p n w) (\<lambda>_ u. kept E w u)"
    "wlp (agm_session_get_params E k q w) (\<lambda>_ u. kept E w u)"
    "wlp (agm_session_set_params E k p n w) (\<lambda>_ u. kept E w u)"
    "wlp (agm_set_params_with_tag E k f tc w) (\<lambda>_ u. kept E w u)"
    "wlp (agm_set_params_with_tag_to_acdb E k f ap w) (\<lambda>_ u. kept E w u)"
    "wlp (agm_set_params_to_acdb_tunnel E tp w) (\<lambda>_ u. kept E w u)"
    "wlp (agm_session_register_for_events E k cfg w) (\<lambda>_ u. kept E w u)"
    "wlp (agm_session_aif_connect E k f b w) (\<lambda>_ u. kept E w u)"
    "wlp (agm_session_set_loopback E k j b w) (\<lambda>_ u. kept E w u)"
    "wlp (agm_session_set_ec_ref E k f b w) (\<lambda>_ u. kept E w u)"
    "wlp (agm_get_buffer_timestamp E k b w) (\<lambda>_ u. kept E w u)"
    "wlp (agm_session_get_buf_info E k bi flag w) (\<lambda>_ u. kept E w u)"
    "wlp (agm_session_write_datapath_params E k buf w) (\<lambda>_ u. kept E w u)"
    "wlp (agm_sessionid_flush E k w) (\<lambda>_ u. kept E w u)"
    "wlp (agm_session_open E k mode b w) (\<lambda>_ u. kept E w u)"
  using kept_exec [OF assms, of "SESSION_SET_METADATA k n md"] kept_exec [OF assms, of "SESSION_AIF_SET_METADATA k f n md"]
    kept_exec [OF assms, of "SESSION_AIF_GET_TAG_MODULE_INFO k f n"] kept_exec [OF assms, of "SESSION_AIF_SET_CAL k f cal"]
    kept_exec [OF assms, of "SESSION_AIF_SET_PARAMS k f p n"] kept_exec [OF assms, of "SESSION_GET_PARAMS k q"]
    kept_exec [OF assms, of "SESSION_SET_PARAMS k p n"] kept_exec [OF assms, of "SET_PARAMS_WITH_TAG k f tc"]
    kept_exec [OF assms, of "SET_PARAMS_WITH_TAG_TO_ACDB k f ap"] kept_exec [OF assms, of "SET_PARAMS_TO_ACDB_TUNNEL tp"]
    kept_exec [OF assms, of "SESSION_REGISTER_FOR_EVENTS k cfg"] kept_exec [OF assms, of "SESSION_AIF_CONNECT k f b"]
    kept_exec [OF assms, of "SESSION_SET_LOOPBACK k j b"] kept_exec [OF assms, of "SESSION_SET_EC_REF k f b"]
    kept_exec [OF assms, of "GET_BUFFER_TIMESTAMP k b"] kept_exec [OF assms, of "SESSION_GET_BUF_INFO k bi flag"]
    kept_exec [OF assms, of "SESSION_WRITE_DATAPATH_PARAMS k buf"] kept_exec [OF assms, of "SESSIONID_FLUSH k"]
    kept_exec [OF assms, of "SESSION_OPEN k mode b"]
  by (simp_all only: agm_exec.simps wlp_code_iff agm_call.distinct not_False_eq_True)

lemma kept_by_handle:
  assumes "agm_inv E w"
  shows "wlp (agm_session_set_config E h sc mc bc w) (\<lambda>_ u. kept E w u)"
    "wlp (agm_session_set_non_tunnel_mode_config h sc imc omc ibc obc w) (\<lambda>_ u. kept E w u)"
    "wlp (agm_session_prepare E h w) (\<lambda>_ u. kept E w u)" "wlp (agm_session_start E h w) (\<lambda>_ u. kept E w u)"
    "wlp (agm_session_stop E h w) (\<lambda>_ u. kept E w u)" "wlp (agm_session_close E h w) (\<lambda>_ u. kept E w u)"
    "wlp (agm_session_pause E h w) (\<lambda>_ u. kept E w u)" "wlp (agm_session_flush E h w) (\<lambda>_ u. kept E w u)"
    "wlp (agm_session_resume E h w) (\<lambda>_ u. kept E w u)" "wlp (agm_session_suspend E h w) (\<lambda>_ u. kept E w u)"
    "wlp (agm_session_eos E h w) (\<lambda>_ u. kept E w u)"
    "wlp (agm_session_write E h ptr n w) (\<lambda>_ u. kept E w u)" "wlp (agm_session_read E h ptr n w) (\<lambda>_ u. kept E w u)"
    "wlp (agm_session_write_with_metadata E h buf w) (\<lambda>_ u. kept E w u)"
    "wlp (agm_session_read_with_metadata E h buf w) (\<lambda>_ u. kept E w u)"
    "wlp (agm_get_session_time E h b w) (\<lambda>_ u. kept E w u)"
    "wlp (agm_set_gapless_session_metadata E h ty m w) (\<lambda>_ u. kept E w u)"
    "wlp (agm_get_hw_processed_buff_cnt h w) (\<lambda>_ u. kept E w u)"
proof -
  show "wlp (agm_get_hw_processed_buff_cnt h w) (\<lambda>_ u. kept E w u)"
    using cbs_refl [OF assms] assms
    by (simp add: agm_get_hw_processed_buff_cnt_def with_handle_def kept_def wlp_simps)
qed (use kept_exec [OF assms, of "SESSION_SET_CONFIG h sc mc bc"]
    kept_exec [OF assms, of "SESSION_SET_NON_TUNNEL_MODE_CONFIG h sc imc omc ibc obc"]
    kept_exec [OF assms, of "SESSION_PREPARE h"] kept_exec [OF assms, of "SESSION_START h"] kept_exec [OF assms, of "SESSION_STOP h"]
    kept_exec [OF assms, of "SESSION_CLOSE h"] kept_exec [OF assms, of "SESSION_PAUSE h"] kept_exec [OF assms, of "SESSION_FLUSH h"]
    kept_exec [OF assms, of "SESSION_RESUME h"] kept_exec [OF assms, of "SESSION_SUSPEND h"] kept_exec [OF assms, of "SESSION_EOS h"]
    kept_exec [OF assms, of "SESSION_WRITE h ptr n"] kept_exec [OF assms, of "SESSION_READ h ptr n"]
    kept_exec [OF assms, of "SESSION_WRITE_WITH_METADATA h buf"] kept_exec [OF assms, of "SESSION_READ_WITH_METADATA h buf"]
    kept_exec [OF assms, of "GET_SESSION_TIME h b"] kept_exec [OF assms, of "SET_GAPLESS_SESSION_METADATA h ty m"]
    in \<open>simp_all only: agm_exec.simps wlp_code_iff agm_call.distinct not_False_eq_True\<close>)

lemma kept_devices:
  assumes "agm_inv E w"
  shows "wlp (agm_aif_set_metadata E k n md w) (\<lambda>_ u. kept E w u)" "wlp (agm_aif_set_media_config k mc w) (\<lambda>_ u. kept E w u)"
    "wlp (Some (agm_aif_group_set_media_config k gmc w)) (\<lambda>_ u. kept E w u)" "wlp (agm_aif_set_params E k p n w) (\<lambda>_ u. kept E w u)"
    "wlp (graph_event_cb E d src ev w) (\<lambda>_ u. kept E w u)"
proof -
  have "wlp (map_option (map_prod (\<lambda>_. 0 :: int) id) (graph_event_cb E d src ev w)) (\<lambda>_ u. kept E w u)"
    using kept_exec [OF assms, of "GSL_EVENT d src ev"] by simp
  then show "wlp (graph_event_cb E d src ev w) (\<lambda>_ u. kept E w u)" by (auto simp: wlp_def)
qed (use kept_exec [OF assms, of "AIF_SET_METADATA k n md"] kept_exec [OF assms, of "AIF_SET_MEDIA_CONFIG k mc"]
    kept_exec [OF assms, of "AIF_GROUP_SET_MEDIA_CONFIG k gmc"] kept_exec [OF assms, of "AIF_SET_PARAMS k p n"]
    in \<open>simp_all only: agm_exec.simps agm_call.distinct not_False_eq_True\<close>)

lemmas kept_open = kept_by_id(19)

lemmas kept_close = kept_by_handle(6)

lemmas kept_calls = kept_by_id kept_by_handle kept_devices

section \<open>The invariant\<close>

definition hndl_ok :: "agm_world \<Rightarrow> agm_client_session_handle \<Rightarrow> bool" where
  "hndl_ok w h \<longleftrightarrow> distinct (ch_aif_id_list h)
     \<and> (ch_handle h \<noteq> 0 \<longrightarrow> ch_handle h \<in> set (session_list w) \<and> sess_id (sessions w (ch_handle h)) = ch_session_id h)"

definition client_ok :: "agm_world \<Rightarrow> client_info \<Rightarrow> bool" where
  "client_ok w c \<longleftrightarrow> distinct (map ch_session_id (ci_agm_client_hndl_list c)) \<and> (\<forall>h \<in> set (ci_agm_client_hndl_list c). hndl_ok w h)"

definition clients_ok :: "agm_world \<Rightarrow> client_info list \<Rightarrow> bool" where
  "clients_ok w cl \<longleftrightarrow> distinct (map ci_pid cl) \<and> (\<forall>c \<in> set cl. client_ok w c)"

definition clbks_ok :: "(u64 \<Rightarrow> SrvrClbk option) \<Rightarrow> clbk_data list \<Rightarrow> bool" where
  "clbks_ok H l \<longleftrightarrow> distinct (map cd_srv_clt_data l) \<and> dom H = cd_srv_clt_data ` set l"

definition calls_ok :: "(u64 \<Rightarrow> SrvrClbk option) \<Rightarrow> agm_world \<Rightarrow> bool" where
  "calls_ok H w \<longleftrightarrow> (\<forall>a \<in> set (session_list w). \<forall>c \<in> set (cb_pool (sessions w a)).
     \<exists>x. H (cb_client_data c) = Some x \<and> sk_session_id x = sess_id (sessions w a) \<and> event_type_of (sk_event x) = Some (cb_evt_type c))"

definition srv_inv :: "srv_env \<Rightarrow> server_world \<Rightarrow> bool" where
  "srv_inv K s \<longleftrightarrow> agm_inv (srv_svc K) (srv_agm s) \<and> clients_ok (srv_agm s) (client_list s)
     \<and> clbks_ok (srv_clbks s) (clbk_data_list s) \<and> calls_ok (srv_clbks s) (srv_agm s)"

lemma srv_inv_init: "srv_initial s \<Longrightarrow> srv_inv K s"
  by (auto simp: srv_initial_def srv_inv_def clients_ok_def clbks_ok_def calls_ok_def agm_initial_inv) (simp add: agm_initial_def)

lemma srv_inv_cong:
  "srv_inv K s \<Longrightarrow> srv_agm t = srv_agm s \<Longrightarrow> client_list t = client_list s \<Longrightarrow> clbk_data_list t = clbk_data_list s \<Longrightarrow>
     srv_clbks t = srv_clbks s \<Longrightarrow> srv_inv K t"
  by (simp add: srv_inv_def)

section \<open>Calls\<close>

lemma kept_clients: "kept E w u \<Longrightarrow> clients_ok w cl \<Longrightarrow> clients_ok u cl"
  unfolding kept_def cbs.viewed_def clients_ok_def client_ok_def hndl_ok_def by fastforce

lemma kept_calls_ok:
  assumes "kept E w u" "calls_ok H w"
  shows "calls_ok H u"
proof -
  obtain l where l: "session_list u = session_list w @ l" "\<forall>b \<in> set l. cb_pool (sessions u b) = []"
    and old: "\<forall>b \<in> set (session_list w). cb_pool (sessions u b) = cb_pool (sessions w b) \<and> sess_id (sessions u b) = sess_id (sessions w b)"
    using assms(1) by (auto simp: kept_def cbs.viewed_def session_obj0_def)
  show ?thesis using assms(2) l old by (auto simp: calls_ok_def)
qed

lemma wlp_serve: "wlp (serve f s) Q \<longleftrightarrow> wlp (f (srv_agm s)) (\<lambda>r w. Q r (s\<lparr>srv_agm := w\<rparr>))"
  by (simp add: serve_def wlp_simps)

lemma inv_serve:
  assumes "srv_inv K s" "\<And>w. agm_inv (srv_svc K) w \<Longrightarrow> wlp (f w) (\<lambda>_ u. kept (srv_svc K) w u)"
  shows "wlp (serve f s) (\<lambda>_ t. srv_inv K t)"
proof -
  have "agm_inv (srv_svc K) (srv_agm s)" using assms(1) by (simp add: srv_inv_def)
  from assms(2) [OF this] show ?thesis
    unfolding wlp_serve
    by (rule wlp_mono) (use assms(1) in \<open>auto simp: srv_inv_def kept_calls_ok kept_clients, simp_all add: kept_def\<close>)
qed

lemma inv_ecall: "srv_inv K s \<Longrightarrow> wlp (srv_ecall K c s) (\<lambda>_ t. srv_inv K t)"
  by (simp add: srv_ecall_def wlp_simps srv_inv_def)

lemma inv_calloc: "srv_inv K s \<Longrightarrow> wlp (srv_calloc K s) (\<lambda>_ t. srv_inv K t)"
  unfolding srv_calloc_def by (intro inv_rules inv_ecall)

lemma inv_callocs: "srv_inv K s \<Longrightarrow> wlp (srv_callocs n K s) (\<lambda>_ t. srv_inv K t)"
proof (induction n arbitrary: s)
  case (Suc n)
  show ?case unfolding srv_callocs.simps by (intro inv_rules inv_calloc Suc)
qed (simp add: wlp_simps)

lemma inv_payload:
  assumes "srv_inv K s" "\<And>p t. srv_inv K t \<Longrightarrow> wlp (f p t) (\<lambda>_ u. srv_inv K u)"
  shows "wlp (with_payload K payload n f s) (\<lambda>_ u. srv_inv K u)"
  unfolding with_payload_def by (intro inv_rules inv_calloc assms)

section \<open>Clients and their sessions\<close>

text \<open>A client or an entry that is changed in its place in the list.\<close>

lemma map_same_update:
  assumes "i < length xs" "g y = g (xs ! i)"
  shows "map g (xs[i := y]) = map g xs"
  using list_update_id [of "map g xs" i] assms by (simp add: map_update)

lemma inv_upd_client:
  assumes "srv_inv K s" "i < length (client_list s)" "ci_pid (f (the_client i s)) = ci_pid (the_client i s)"
    "client_ok (srv_agm s) (the_client i s) \<Longrightarrow> client_ok (srv_agm s) (f (the_client i s))"
  shows "srv_inv K (upd_client i f s)"
proof -
  have "client_ok (srv_agm s) (the_client i s)" using assms(1,2) by (simp add: srv_inv_def clients_ok_def)
  then show ?thesis
    using assms unfolding srv_inv_def clients_ok_def upd_client_def
    by (auto simp: map_same_update dest!: subsetD [OF set_update_subset_insert])
qed

lemma client_ok_update:
  assumes "client_ok w c" "j < length (ci_agm_client_hndl_list c)"
    "ch_session_id (f (ci_agm_client_hndl_list c ! j)) = ch_session_id (ci_agm_client_hndl_list c ! j)"
    "hndl_ok w (ci_agm_client_hndl_list c ! j) \<Longrightarrow> hndl_ok w (f (ci_agm_client_hndl_list c ! j))"
  shows "client_ok w (c\<lparr>ci_agm_client_hndl_list := (ci_agm_client_hndl_list c)[j := f (ci_agm_client_hndl_list c ! j)]\<rparr>)"
proof -
  have "hndl_ok w (ci_agm_client_hndl_list c ! j)" using assms(1,2) by (simp add: client_ok_def)
  then show ?thesis
    using assms unfolding client_ok_def by (auto simp: map_same_update dest!: subsetD [OF set_update_subset_insert])
qed

text \<open>Where a handler finds a client and its entry for a session.\<close>

definition client_at :: "u32 \<Rightarrow> server_world \<Rightarrow> nat \<Rightarrow> bool" where
  "client_at pid s i \<longleftrightarrow> i < length (client_list s) \<and> ci_pid (the_client i s) = pid"

definition entry_at :: "u32 \<Rightarrow> u32 \<Rightarrow> server_world \<Rightarrow> nat \<times> nat \<Rightarrow> bool" where
  "entry_at pid k s = (\<lambda>(i, j). client_at pid s i \<and> j < length (ci_agm_client_hndl_list (the_client i s))
     \<and> ch_session_id (ci_agm_client_hndl_list (the_client i s) ! j) = k)"

lemma get_client:
  assumes "srv_inv K s"
  shows "wlp (get_client_handle_l K pid s) (\<lambda>r t. srv_inv K t \<and> srv_agm t = srv_agm s \<and> (\<forall>i. r = Some i \<longrightarrow> client_at pid t i))"
proof (cases "pid_index pid s")
  case None
  have "srv_inv K (s\<lparr>srv_hist := h, client_list := client_list s @ [client_info0 pid]\<rparr>)" for h
    using None assms by (auto simp: srv_inv_def clients_ok_def client_ok_def client_info0_def index_of_None)
  moreover have "srv_inv K (s\<lparr>srv_hist := h\<rparr>)" for h using assms by (simp add: srv_inv_def)
  ultimately show ?thesis
    using None by (simp add: get_client_handle_l_def srv_calloc_def srv_ecall_def wlp_simps client_at_def client_info0_def)
qed (use assms in \<open>auto simp: get_client_handle_l_def wlp_simps client_at_def dest: index_of_Some\<close>)

lemma get_session:
  assumes "srv_inv K s"
  shows "wlp (get_session_handle_l K pid k s) (\<lambda>r t. srv_inv K t \<and> srv_agm t = srv_agm s \<and> (\<forall>p. r = Some p \<longrightarrow> entry_at pid k t p))"
  unfolding get_session_handle_l_def
proof (rule wlp_bindI [OF get_client [OF assms]], goal_cases)
  case (1 r t)
  show ?case
  proof (cases r)
    case (Some i)
    have i: "client_at pid t i" and I: "srv_inv K t" and w: "srv_agm t = srv_agm s" using 1 Some by simp_all
    let ?l = "ci_agm_client_hndl_list (the_client i t)"
    show ?thesis
    proof (cases "index_of (\<lambda>h. ch_session_id h = k) ?l")
      case None
      have "srv_inv K (upd_client i (\<lambda>c. c\<lparr>ci_agm_client_hndl_list := ci_agm_client_hndl_list c @ [session_handle0 k]\<rparr>) u)"
        if "u = t\<lparr>srv_hist := h\<rparr>" for h u
        by (rule inv_upd_client; use that I i None in \<open>auto simp: srv_inv_def client_at_def client_ok_def hndl_ok_def session_handle0_def index_of_None\<close>)
      moreover have "srv_inv K (t\<lparr>srv_hist := h\<rparr>)" for h using I by (simp add: srv_inv_def)
      ultimately show ?thesis
        using None Some i w
        by (auto simp: srv_calloc_def srv_ecall_def wlp_simps entry_at_def client_at_def upd_client_def session_handle0_def)
    qed (use Some i I w in \<open>auto simp: wlp_simps entry_at_def dest: index_of_Some\<close>)
  qed (use 1 in \<open>simp add: wlp_simps\<close>)
qed

lemma with_entry_inv:
  assumes "srv_inv K s" "\<And>h. ch_session_id (f h) = ch_session_id h"
    "\<And>h. ch_session_id h = k \<Longrightarrow> hndl_ok (srv_agm s) h \<Longrightarrow> hndl_ok (srv_agm s) (f h)"
  shows "wlp (with_entry K pid k f s) (\<lambda>_ t. srv_inv K t)"
  unfolding with_entry_def
proof (rule wlp_bindI [OF get_session [OF assms(1)]], goal_cases)
  case (1 r t)
  have "srv_inv K (upd_hndl i j f t)" if "r = Some (i, j)" for i j
    unfolding upd_hndl_def
    by (rule inv_upd_client; use 1 that assms(2,3) in \<open>auto simp: entry_at_def client_at_def intro!: client_ok_update\<close>)
  with 1 show ?case by (auto simp: wlp_simps)
qed

lemma inv_entries:
  assumes "srv_inv K s"
  shows "wlp (add_session_to_list_l K pid k s) (\<lambda>_ t. srv_inv K t)" "wlp (add_session_aif_to_list_l K pid k aif s) (\<lambda>_ t. srv_inv K t)"
    "wlp (remove_session_aif_from_list_l K pid k aif s) (\<lambda>_ t. srv_inv K t)"
proof -
  show "wlp (add_session_to_list_l K pid k s) (\<lambda>_ t. srv_inv K t)"
    unfolding add_session_to_list_l_def by (rule wlp_bindI [OF get_session [OF assms]]) (simp add: wlp_simps)
qed (unfold add_session_aif_to_list_l_def remove_session_aif_from_list_l_def,
     (rule with_entry_inv [OF assms]; auto simp: hndl_ok_def distinct_remove1)+)

section \<open>Opening and registering\<close>

lemma session_lookup:
  assumes "agm_inv E w"
  shows "wlp (session_obj_get E k w) (\<lambda>r t. kept E w t
     \<and> (case snd r of None \<Rightarrow> fst r \<noteq> 0 \<and> (\<forall>a \<in> set (session_list t). sess_id (sessions t a) \<noteq> k)
        | Some a \<Rightarrow> fst r = 0 \<and> a \<in> set (session_list t) \<and> sess_id (sessions t a) = k))"
proof -
  have "wlp (session_obj_get E k w) (\<lambda>r t. kept E w t)"
    unfolding kept_def
    by (rule wlp_conj [OF wlp_mono [OF session_obj_get_agm [OF assms]] cbs.pool_get [OF cbs_refl [OF assms]]]) simp
  moreover have "wlp (session_obj_get E k w) (\<lambda>r t. case snd r of None \<Rightarrow> fst r \<noteq> 0 \<and> (\<forall>a \<in> set (session_list t). sess_id (sessions t a) \<noteq> k)
        | Some a \<Rightarrow> fst r = 0 \<and> a \<in> set (session_list t) \<and> sess_id (sessions t a) = k)"
    by (auto simp: session_obj_get_def session_obj_get_from_pool_def session_obj_create_def wlp_simps find_None_iff find_Some_iff session_obj0_def
        intro: nth_mem)
  ultimately show ?thesis by (rule wlp_conj)
qed

lemma open_handle:
  fixes w :: agm_world
  assumes "agm_inv E w"
  shows "wlp (session_obj_open E k mode w) (\<lambda>r u. \<forall>a. snd r = Some a \<longrightarrow> a \<in> set (session_list u) \<and> sess_id (sessions u a) = k)"
  unfolding session_obj_open_def
proof (rule wlp_bindI [OF session_lookup [OF assms]], goal_cases)
  case (1 r t)
  obtain ret q where r: "r = (ret, q)" by (cases r)
  show ?case
  proof (cases q)
    case (Some a)
    let ?m = "if sess_state (sessions t a) \<noteq> SESSION_CLOSED then Some ((- EALREADY, None), t)
       else do {
       let s = upd_sess a (\<lambda>x. x\<lparr>stream_config := (stream_config x)\<lparr>sc_sess_mode := mode\<rparr>\<rparr>) t;
       (ret, s) \<leftarrow> open_stage E a mode s;
       if ret \<noteq> 0 then Some ((ret, None), s) else do {
       (ret, s) \<leftarrow> open_ec_ref E a mode s;
       (ret, s) \<leftarrow> open_loopback E a ret s;
       if ret \<noteq> 0 then do { (_, s) \<leftarrow> unwind_open E a s; Some ((ret, None), s) }
       else Some ((0, Some a), set_sess_state a SESSION_OPENED s) }}"
    have a: "a \<in> set (session_list t)" "sess_id (sessions t a) = k" "cbs.viewed t t"
      using 1 Some r by (auto simp: kept_def intro: cbs_refl)
    have "wlp ?m (\<lambda>_ u. cbs.viewed t u)"
      unfolding Let_def
      by (intro inv_rules cbs.stage cbs.open_steps cbs.unwind cbs.updates cbs.life.viewed_state; (assumption | simp add: a)?)
    moreover have "wlp ?m (\<lambda>r _. \<forall>c. snd r = Some c \<longrightarrow> c = a)"
      unfolding Let_def by (intro res_rules) auto
    ultimately have "wlp ?m (\<lambda>r u. cbs.viewed t u \<and> (\<forall>c. snd r = Some c \<longrightarrow> c = a))" by (rule wlp_conj)
    then show ?thesis
      unfolding r Some by (auto elim!: wlp_mono simp: cbs.viewed_def a)
  qed (simp add: r wlp_simps)
qed

text \<open>The callbacks after those of the session with id \<open>k\<close> were changed by \<open>g\<close>.\<close>

definition pools :: "u32 \<Rightarrow> (session_cb list \<Rightarrow> session_cb list) \<Rightarrow> agm_world \<Rightarrow> agm_world \<Rightarrow> bool" where
  "pools k g w u \<longleftrightarrow> (\<exists>l. session_list u = session_list w @ l \<and> (\<forall>b \<in> set l. cb_pool (sessions u b) = (if sess_id (sessions u b) = k then g [] else [])))
     \<and> (\<forall>b \<in> set (session_list w). sess_id (sessions u b) = sess_id (sessions w b)
          \<and> cb_pool (sessions u b) = (if sess_id (sessions w b) = k then g (cb_pool (sessions w b)) else cb_pool (sessions w b)))"

lemma kept_pools:
  assumes "kept E w t"
  shows "pools k id w t"
  using assms by (auto simp: kept_def cbs.viewed_def pools_def session_obj0_def)

lemma kept_pools_none:
  assumes "kept E w t" "\<forall>a \<in> set (session_list t). sess_id (sessions t a) \<noteq> k"
  shows "pools k g w t"
  using assms by (auto simp: kept_def cbs.viewed_def pools_def session_obj0_def)

lemma kept_pools_upd:
  assumes "kept E w t" "a \<in> set (session_list t)" "sess_id (sessions t a) = k"
    "sessions u = sessions t" "session_list u = session_list t"
  shows "pools k g w (upd_sess a (\<lambda>x. x\<lparr>cb_pool := g (cb_pool x)\<rparr>) u)"
proof -
  obtain l where l: "session_list t = session_list w @ l" "\<forall>b \<in> set l. cb_pool (sessions t b) = []"
    and old: "\<forall>b \<in> set (session_list w). cb_pool (sessions t b) = cb_pool (sessions w b) \<and> sess_id (sessions t b) = sess_id (sessions w b)"
    and p: "pool_ok t"
    using assms(1) by (auto simp: kept_def cbs.viewed_def session_obj0_def dest: agm_pool)
  let ?u = "upd_sess a (\<lambda>x. x\<lparr>cb_pool := g (cb_pool x)\<rparr>) u"
  have one: "sess_id (sessions t b) = k \<longleftrightarrow> b = a" if "b \<in> set (session_list t)" for b
    using p that assms(2,3) by (auto simp: pool_ok_def distinct_map dest: inj_onD)
  have "cb_pool (sessions ?u b) = (if sess_id (sessions t b) = k then g (cb_pool (sessions t b)) else cb_pool (sessions t b))"
    "sess_id (sessions ?u b) = sess_id (sessions t b)" if "b \<in> set (session_list t)" for b
    using one [OF that] assms(4) by (simp_all add: upd_sess_def)
  moreover have "session_list ?u = session_list w @ l" by (simp add: upd_sess_def assms(5) l(1))
  ultimately show ?thesis
    unfolding pools_def by (intro conjI exI [of _ l]) (use l old in auto)
qed

lemma register_agm:
  fixes w :: agm_world
  shows "agm_inv E w \<Longrightarrow> wlp (agm_session_register_cb E k cb ty p w) (\<lambda>_ u. agm_inv E u)"
  using agm_exec_inv [of E w "SESSION_REGISTER_CB k cb ty p"] by simp

text \<open>The states of all sessions but those of a set.\<close>

definition outside :: "nat set \<Rightarrow> nat \<Rightarrow> session_obj \<Rightarrow> session_state option" where
  "outside H b x = (if b \<in> H then None else Some (sess_state x))"

interpretation outside: session_view "outside H" for H
  by unfold_locales (simp add: outside_def)

interpretation outside_life: session_life "outside (insert a H)" a for a H
  by unfold_locales (simp add: outside_def)

lemma outside_refl: "agm_inv E w \<Longrightarrow> outside.viewed H w w"
  by (rule outside.viewed_refl) (auto dest: agm_pool simp: pool_ok_def)

lemma outside_state: "outside.viewed H w u \<Longrightarrow> b \<in> set (session_list w) \<Longrightarrow> b \<notin> H \<Longrightarrow> sess_state (sessions u b) = sess_state (sessions w b)"
  by (auto simp: outside.viewed_def outside_def)

lemma register_states:
  fixes w :: agm_world
  assumes "agm_inv E w"
  shows "wlp (agm_session_register_cb E k cb ty p w)
     (\<lambda>_ u. \<forall>b \<in> set (session_list w). sess_state (sessions u b) = sess_state (sessions w b))"
proof -
  have "wlp (agm_session_register_cb E k cb ty p w) (\<lambda>_ u. outside.viewed {} w u)"
    unfolding agm_session_register_cb_def with_session_def session_obj_register_cb_def
    by (intro inv_rules outside.calls outside.viewed_upd outside_refl [OF assms]) (simp_all add: outside_def)
  then show ?thesis by (rule wlp_mono) (auto dest: outside_state)
qed

lemma register_pools:
  fixes w :: agm_world
  assumes "agm_inv E w" "cb \<noteq> 0"
  shows "wlp (agm_session_register_cb E k cb ty p w)
     (\<lambda>_ u. pools k id w u \<or> pools k (\<lambda>l. l @ [\<lparr>cb_fn = cb, cb_evt_type = ty, cb_client_data = p\<rparr>]) w u)"
  unfolding agm_session_register_cb_def with_session_def
proof (rule wlp_bindI [OF session_lookup [OF assms(1)]], goal_cases)
  case (1 r t)
  have "pools k id w (t\<lparr>hist := h\<rparr>)" for h using 1 kept_pools [of E w t k] by (simp add: pools_def)
  then show ?case
    using 1 assms(2) kept_pools [of E w t k]
    by (auto simp: wlp_simps session_obj_register_cb_def case_prod_beta split: option.splits
        intro: kept_pools_upd [where g = "\<lambda>l. l @ [\<lparr>cb_fn = cb, cb_evt_type = ty, cb_client_data = p\<rparr>]"])
qed

lemma deregister_pools:
  fixes w :: agm_world
  assumes "agm_inv E w"
  shows "wlp (agm_session_register_cb E k 0 ty p w) (\<lambda>_ u. pools k (filter (\<lambda>c. \<not> (cb_evt_type c = ty \<and> cb_client_data c = p))) w u)"
  unfolding agm_session_register_cb_def with_session_def
proof (rule wlp_bindI [OF session_lookup [OF assms]], goal_cases)
  case (1 r t)
  then show ?case
    by (auto simp: wlp_simps session_obj_register_cb_def case_prod_beta split: option.splits
        intro: kept_pools_none kept_pools_upd [where g = "filter (\<lambda>c. cb_evt_type c = ty \<longrightarrow> cb_client_data c \<noteq> p)"])
qed

lemma pools_clients: "pools k g w u \<Longrightarrow> clients_ok w cl \<Longrightarrow> clients_ok u cl"
  unfolding pools_def clients_ok_def client_ok_def hndl_ok_def by fastforce

lemma pools_calls:
  assumes "pools k g w u" "calls_ok H w"
    "\<And>l c. c \<in> set (g l) \<Longrightarrow> c \<in> set l
       \<or> (\<exists>x. H (cb_client_data c) = Some x \<and> sk_session_id x = k \<and> event_type_of (sk_event x) = Some (cb_evt_type c))"
  shows "calls_ok H u"
proof -
  obtain l where l: "session_list u = session_list w @ l"
      "\<forall>b \<in> set l. cb_pool (sessions u b) = (if sess_id (sessions u b) = k then g [] else [])"
    and old: "\<forall>b \<in> set (session_list w). sess_id (sessions u b) = sess_id (sessions w b)
          \<and> cb_pool (sessions u b) = (if sess_id (sessions w b) = k then g (cb_pool (sessions w b)) else cb_pool (sessions w b))"
    using assms(1) by (auto simp: pools_def)
  show ?thesis
    using assms(2) l old assms(3) unfolding calls_ok_def by (fastforce split: if_splits)
qed

lemma map_le_upd: "H p = None \<Longrightarrow> H \<subseteq>\<^sub>m H(p := Some x)"
  by (auto simp: map_le_def)

lemma calls_ok_mono: "calls_ok H w \<Longrightarrow> H \<subseteq>\<^sub>m H' \<Longrightarrow> calls_ok H' w"
  unfolding calls_ok_def map_le_def by (metis domI)

text \<open>Once a callback is deregistered, the service does not hold its object any more.\<close>

lemma dereg_exact:
  assumes "pools (sk_session_id x) (filter (\<lambda>c. \<not> (cb_evt_type c = ty \<and> cb_client_data c = p))) w u"
    "calls_ok H w" "H p = Some x" "event_type_of (sk_event x) = Some ty" "b \<in> set (session_list w)"
  shows "cb_pool (sessions u b) = filter (\<lambda>c. cb_client_data c \<noteq> p) (cb_pool (sessions w b))"
proof -
  have "sess_id (sessions w b) = sk_session_id x \<and> cb_evt_type c = ty" if "c \<in> set (cb_pool (sessions w b))" "cb_client_data c = p" for c
    using assms(2-5) that by (fastforce simp: calls_ok_def)
  then have "filter (\<lambda>c. \<not> (cb_evt_type c = ty \<and> cb_client_data c = p)) (cb_pool (sessions w b))
        = filter (\<lambda>c. cb_client_data c \<noteq> p) (cb_pool (sessions w b))"
      "sess_id (sessions w b) \<noteq> sk_session_id x \<Longrightarrow> filter (\<lambda>c. cb_client_data c \<noteq> p) (cb_pool (sessions w b)) = cb_pool (sessions w b)"
    by (auto intro: filter_cong simp: filter_id_conv)
  then show ?thesis using assms(1,5) by (auto simp: pools_def)
qed

lemma dereg_calls:
  assumes "pools (sk_session_id x) (filter (\<lambda>c. \<not> (cb_evt_type c = ty \<and> cb_client_data c = p))) w u"
    "calls_ok H w" "H p = Some x" "event_type_of (sk_event x) = Some ty"
  shows "calls_ok (H(p := None)) u"
  unfolding calls_ok_def
proof (intro ballI)
  fix a c assume ac: "a \<in> set (session_list u)" "c \<in> set (cb_pool (sessions u a))"
  have "calls_ok H u" by (rule pools_calls [OF assms(1,2)]) simp
  moreover have "cb_client_data c \<noteq> p"
  proof (cases "a \<in> set (session_list w)")
    case True
    then show ?thesis using ac dereg_exact [OF assms True] by simp
  next
    case False
    then have "cb_pool (sessions u a) = []" using assms(1) ac(1) by (auto simp: pools_def)
    with ac(2) show ?thesis by simp
  qed
  ultimately show "\<exists>y. (H(p := None)) (cb_client_data c) = Some y \<and> sk_session_id y = sess_id (sessions u a)
      \<and> event_type_of (sk_event y) = Some (cb_evt_type c)"
    using ac by (auto simp: calls_ok_def)
qed

lemma clbks_remove:
  assumes "clbks_ok H l" "d \<in> set l"
  shows "clbks_ok (H(cd_srv_clt_data d := None)) (remove1 d l)"
proof -
  have d: "distinct l" "inj_on cd_srv_clt_data (set l)" using assms(1) by (auto simp: clbks_ok_def distinct_map)
  then have "cd_srv_clt_data ` (set l - {d}) = cd_srv_clt_data ` set l - {cd_srv_clt_data d}"
    using assms(2) by (auto dest: inj_onD)
  with d assms show ?thesis
    by (auto simp: clbks_ok_def distinct_map set_remove1_eq distinct_remove1 intro: inj_on_subset)
qed

text \<open>A callback is deregistered and its object freed: both ways in which this happens.\<close>

definition dropped :: "srv_env \<Rightarrow> clbk_data \<Rightarrow> server_world \<Rightarrow> server_world \<Rightarrow> bool" where
  "dropped K d s t \<longleftrightarrow> srv_inv K t \<and> client_list t = client_list s \<and> srv_clbks t = (srv_clbks s)(cd_srv_clt_data d := None)
     \<and> clbk_data_list t = remove1 d (clbk_data_list s)
     \<and> (\<forall>b \<in> set (session_list (srv_agm s)). sess_state (sessions (srv_agm t) b) = sess_state (sessions (srv_agm s) b))
     \<and> (\<exists>l. session_list (srv_agm t) = session_list (srv_agm s) @ l)
     \<and> (\<forall>b \<in> set (session_list (srv_agm s)). cb_pool (sessions (srv_agm t) b) =
          filter (\<lambda>c. cb_client_data c \<noteq> cd_srv_clt_data d) (cb_pool (sessions (srv_agm s) b)))"

lemma drop_clbk:
  assumes "srv_inv K s" "d \<in> set (clbk_data_list s)" "srv_clbks s (cd_srv_clt_data d) = Some x" "event_type_of (sk_event x) = Some ty"
  shows "wlp (serve (agm_session_register_cb (srv_svc K) (sk_session_id x) 0 ty (cd_srv_clt_data d)) s)
     (\<lambda>_ t. dropped K d s (delete_SrvrClbk (cd_srv_clt_data d) (t\<lparr>clbk_data_list := remove1 d (clbk_data_list t)\<rparr>)))"
proof -
  have A: "agm_inv (srv_svc K) (srv_agm s)" and C: "calls_ok (srv_clbks s) (srv_agm s)" using assms(1) by (simp_all add: srv_inv_def)
  have step: "dropped K d s (delete_SrvrClbk (cd_srv_clt_data d) (t\<lparr>clbk_data_list := remove1 d (clbk_data_list t)\<rparr>))"
    if w: "agm_inv (srv_svc K) w" "pools (sk_session_id x) (filter (\<lambda>c. \<not> (cb_evt_type c = ty \<and> cb_client_data c = cd_srv_clt_data d))) (srv_agm s) w"
      and q: "\<forall>b \<in> set (session_list (srv_agm s)). sess_state (sessions w b) = sess_state (sessions (srv_agm s) b)"
      and t: "t = s\<lparr>srv_agm := w\<rparr>" for w t
  proof -
    have "clients_ok w (client_list s)" "calls_ok ((srv_clbks s)(cd_srv_clt_data d := None)) w"
      "clbks_ok ((srv_clbks s)(cd_srv_clt_data d := None)) (remove1 d (clbk_data_list s))"
      using assms(1) clbks_remove [OF _ assms(2)] dereg_calls [OF w(2) C assms(3,4)] pools_clients [OF w(2)] by (simp_all add: srv_inv_def)
    moreover have "\<exists>l. session_list w = session_list (srv_agm s) @ l" using w(2) by (auto simp: pools_def)
    ultimately show ?thesis
      unfolding t dropped_def using dereg_exact [OF w(2) C assms(3,4)] w(1) q by (simp add: delete_SrvrClbk_def srv_inv_def)
  qed
  show ?thesis
    unfolding wlp_serve
    by (rule wlp_mono [OF wlp_conj [OF register_agm [OF A] wlp_conj [OF deregister_pools [OF A] register_states [OF A]]]])
       (blast intro: step [OF _ _ _ refl])
qed

lemma find_clbk_Some:
  "find_clbk k e q H l = Some (Some d) \<Longrightarrow> d \<in> set l \<and> (\<exists>x. H (cd_srv_clt_data d) = Some x \<and> sk_session_id x = k \<and> sk_event x = e)"
  by (induction l) (auto simp: bind_eq_Some_conv split: if_splits)

lemma inv_deregister:
  assumes "srv_inv K s"
  shows "wlp (deregister_clbk K k e q s) (\<lambda>_ t. srv_inv K t)"
  unfolding deregister_clbk_def
proof (rule inv_bind_value, rule inv_case_option, goal_cases)
  case (2 r d)
  then obtain x where x: "d \<in> set (clbk_data_list s)" "srv_clbks s (cd_srv_clt_data d) = Some x" "sk_session_id x = k" "sk_event x = e"
    using find_clbk_Some by blast
  have "wlp (serve (agm_session_register_cb (srv_svc K) k 0 ty (cd_srv_clt_data d)) s)
      (\<lambda>_ t. srv_inv K (delete_SrvrClbk (cd_srv_clt_data d) (t\<lparr>clbk_data_list := remove1 d (clbk_data_list t)\<rparr>)))"
    if "event_type_of e = Some ty" for ty
    using wlp_mono [OF drop_clbk [OF assms x(1,2)], of ty] that x by (simp add: dropped_def)
  then show ?case by (auto simp: wlp_bind_gen [of "event_type_of e"] wlp_simps)
qed (simp add: wlp_simps assms)

lemma inv_register_new:
  assumes "srv_inv K s" "srv_clbks s a = None" "sk_session_id x = k" "event_type_of (sk_event x) = Some ty"
    and u: "srv_agm u = srv_agm s" "client_list u = client_list s" "srv_clbks u = (srv_clbks s)(a := Some x)"
      "clbk_data_list u = clbk_data_list s @ [\<lparr>cd_clbk_clt_data = q, cd_srv_clt_data = a\<rparr>]"
  shows "wlp (serve (agm_session_register_cb (srv_svc K) k f ty a) u) (\<lambda>_ t. srv_inv K t)"
proof -
  have A: "agm_inv (srv_svc K) (srv_agm s)" and C: "calls_ok (srv_clbks u) (srv_agm s)" and cl: "clients_ok (srv_agm s) (client_list s)"
    using assms(1) calls_ok_mono [of "srv_clbks s" "srv_agm s", OF _ map_le_upd [of "srv_clbks s" a x, OF assms(2)]]
    by (simp_all add: srv_inv_def u)
  have L: "clbks_ok (srv_clbks u) (clbk_data_list u)"
    using assms(1,2) by (auto simp: srv_inv_def clbks_ok_def u)
  have "calls_ok (srv_clbks u) w" if "pools k (\<lambda>l. l @ [\<lparr>cb_fn = f, cb_evt_type = ty, cb_client_data = a\<rparr>]) (srv_agm s) w" for w
    by (rule pools_calls [OF that C]) (use assms(3,4) in \<open>auto simp: u\<close>)
  note added = this
  have "wlp (agm_session_register_cb (srv_svc K) k f ty a (srv_agm s)) (\<lambda>_ w. clients_ok w (client_list s) \<and> calls_ok (srv_clbks u) w)"
  proof (cases "f = 0")
    case True
    show ?thesis unfolding True
      by (rule wlp_mono [OF deregister_pools [OF A]]) (auto intro: pools_clients [OF _ cl] pools_calls [OF _ C])
  next
    case False
    show ?thesis
      by (rule wlp_mono [OF register_pools [OF A False]]) (auto intro: pools_clients [OF _ cl] pools_calls [OF _ C] added)
  qed
  from wlp_conj [OF register_agm [OF A] this] show ?thesis
    unfolding wlp_serve u(1) by (rule wlp_mono) (use L in \<open>simp add: srv_inv_def u(2)\<close>)
qed

lemma inv_register:
  assumes "srv_inv K s"
  shows "wlp (register_clbk K pid k e p q s) (\<lambda>_ t. srv_inv K t)"
proof -
  let ?x = "\<lparr>sk_session_id = k, sk_event = e, sk_clnt_data = p, sk_pid = pid\<rparr>"
  have "wlp (new_SrvrClbk K ?x s) (\<lambda>a t. srv_clbks s a = None \<and> srv_agm t = srv_agm s \<and> client_list t = client_list s
      \<and> srv_clbks t = (srv_clbks s)(a := Some ?x) \<and> clbk_data_list t = clbk_data_list s)"
    by (simp add: new_SrvrClbk_def srv_ecall_def wlp_simps Let_def)
  then show ?thesis
    unfolding register_clbk_def
  proof (rule wlp_bindI, goal_cases)
    case (1 a t)
    have "srv_inv K (delete_SrvrClbk a (t\<lparr>srv_hist := h\<rparr>))" for h
      using assms 1 by (simp add: delete_SrvrClbk_def srv_inv_def fun_upd_idem)
    moreover have "wlp (serve (agm_session_register_cb (srv_svc K) k f ty a)
        (t\<lparr>srv_hist := h, clbk_data_list := clbk_data_list t @ [\<lparr>cd_clbk_clt_data = q, cd_srv_clt_data = a\<rparr>]\<rparr>)) (\<lambda>_ t. srv_inv K t)"
      if "event_type_of e = Some ty" for f ty h
      using 1 that by (intro inv_register_new [where x = ?x, OF assms]) simp_all
    ultimately show ?case
      by (simp add: srv_calloc_def srv_ecall_def wlp_simps wlp_bind_gen [of "event_type_of e"])
  qed
qed

lemma inv_died_callback:
  assumes "srv_inv K s" "d \<in> set (clbk_data_list s)"
  shows "wlp (died_callback K pid d s) (\<lambda>_ t. t = s \<and> (\<forall>x. srv_clbks s (cd_srv_clt_data d) = Some x \<longrightarrow> sk_pid x \<noteq> pid)
       \<or> dropped K d s t \<and> (\<forall>x. srv_clbks s (cd_srv_clt_data d) = Some x \<longrightarrow> sk_pid x = pid))"
proof -
  have "wlp (serve (agm_session_register_cb (srv_svc K) (sk_session_id x) 0 ty (cd_srv_clt_data d)) s)
      (\<lambda>_ t. dropped K d s (delete_SrvrClbk (cd_srv_clt_data d) (t\<lparr>clbk_data_list := remove1 d (clbk_data_list t)\<rparr>)))"
    if "srv_clbks s (cd_srv_clt_data d) = Some x" "event_type_of (sk_event x) = Some ty" for x ty
    by (rule drop_clbk [OF assms that])
  then show ?thesis
    unfolding died_callback_def by (auto simp: wlp_bind_gen [of "srv_clbks s _"] wlp_bind_gen [of "event_type_of _"] wlp_simps)
qed

section \<open>Handlers\<close>

lemma inv_open: "srv_inv K s \<Longrightarrow> wlp (ipc_agm_session_open K pid k mode s) (\<lambda>_ t. srv_inv K t)"
  unfolding ipc_agm_session_open_def
proof (erule wlp_bindI [OF get_session], goal_cases)
  case (1 r t)
  then have I: "srv_inv K t" by blast
  then have A: "agm_inv (srv_svc K) (srv_agm t)" by (simp add: srv_inv_def)
  have "wlp (serve (agm_session_open (srv_svc K) k mode True) t) (\<lambda>r u. srv_inv K u
      \<and> (\<forall>a. snd r = Some a \<longrightarrow> a \<in> set (session_list (srv_agm u)) \<and> sess_id (sessions (srv_agm u) a) = k))"
    by (rule wlp_conj [OF inv_serve [OF I kept_open]]) (use open_handle [OF A] in \<open>simp_all add: wlp_serve agm_session_open_def\<close>)
  note opened = this
  have recorded: "wlp (add_session_handle_to_list_l K pid k (case a of None \<Rightarrow> 0 | Some a \<Rightarrow> a) u) (\<lambda>_ t. srv_inv K t)"
    if "srv_inv K u" "\<forall>b. a = Some b \<longrightarrow> b \<in> set (session_list (srv_agm u)) \<and> sess_id (sessions (srv_agm u) b) = k" for a u
    unfolding add_session_handle_to_list_l_def
    by (rule with_entry_inv [OF that(1)]) (use that(2) in \<open>auto simp: hndl_ok_def split: option.splits\<close>)
  show ?case
    using I by (auto simp: wlp_simps Let_def case_prod_beta intro!: wlp_mono [OF opened] recorded)
qed

lemma inv_alloc:
  assumes "srv_inv K s"
  shows "wlp (hidl_alloc K h b buf s) (\<lambda>_ t. srv_inv K t)"
proof -
  have "srv_inv K (add_fd_to_list h fd r t)" if "srv_inv K t" for fd r t
    using that unfolding srv_inv_def add_fd_to_list_def clients_ok_def client_ok_def
    by (auto simp: comp_def hndl_ok_def if_distrib cong: if_cong)
  then show ?thesis
    unfolding hidl_alloc_def by (intro inv_bind_value inv_case_prod inv_bind inv_ecall assms inv_Some) (simp add: srv_ecall_def)
qed

lemma drop_hndl_pids: "map ci_pid (drop_hndl pid h cl) = map ci_pid cl"
  by (induction cl) (auto split: option.splits)

lemma drop_hndl_ok: "\<forall>c \<in> set cl. client_ok w c \<Longrightarrow> \<forall>c \<in> set (drop_hndl pid h cl). client_ok w c"
proof (induction cl)
  case (Cons c cl)
  have "client_ok w (c\<lparr>ci_agm_client_hndl_list := take j (ci_agm_client_hndl_list c) @ drop (Suc j) (ci_agm_client_hndl_list c)\<rparr>)" for j
    using Cons.prems by (auto simp: client_ok_def set_take_disj_set_drop_if_distinct simp flip: take_map drop_map
        dest: in_set_takeD in_set_dropD)
  with Cons show ?case by (auto split: option.splits)
qed simp

lemma inv_close: "srv_inv K s \<Longrightarrow> wlp (ipc_agm_session_close K pid h s) (\<lambda>_ t. srv_inv K t)"
  unfolding ipc_agm_session_close_def
  by (rule inv_serve [OF _ kept_close]) (auto simp: srv_inv_def clients_ok_def drop_hndl_pids intro: drop_hndl_ok [rule_format])

lemma hndl_ok_fds [simp]: "hndl_ok w (h\<lparr>ch_shared_mem_fd_list := l\<rparr>) = hndl_ok w h"
  by (simp add: hndl_ok_def)

lemma take_fd_ids: "map ch_session_id (snd (take_fd k fd i l)) = map ch_session_id l"
  by (induction l arbitrary: i) (auto split: option.split)

lemma take_fd_ok: "\<forall>h \<in> set l. hndl_ok w h \<Longrightarrow> \<forall>h \<in> set (snd (take_fd k fd i l)). hndl_ok w h"
  by (induction l arbitrary: i) (auto split: option.split)

lemma inv_callback: "srv_inv K s \<Longrightarrow> wlp (ipc_callback K k ev p s) (\<lambda>_ t. srv_inv K t)"
proof -
  assume I: "srv_inv K s"
  have fds: "srv_inv K (upd_client i (\<lambda>c. c\<lparr>ci_agm_client_hndl_list := l\<rparr>) s)"
    if "take_fd k fd (- 1) (ci_agm_client_hndl_list (the_client i s)) = (r, l)" "pid_index pid s = Some i" for i l fd r pid
    using take_fd_ids [of k fd "- 1" "ci_agm_client_hndl_list (the_client i s)"]
      take_fd_ok [of "ci_agm_client_hndl_list (the_client i s)" _ k fd "- 1"] that(1) index_of_Some [OF that(2)]
    by (intro inv_upd_client I) (simp_all add: client_ok_def)
  show ?thesis
    unfolding ipc_callback_def Let_def
    by (cases "ev_payload ev")
       (simp_all only: event_payload.case, (intro inv_rules inv_bind_value inv_ecall I fds; assumption)+)
qed

section \<open>Death of a client\<close>

lemma kept_trans: "kept E w t \<Longrightarrow> kept E t u \<Longrightarrow> kept E w u"
  by (auto simp: kept_def intro: cbs.viewed_trans)

lemma kept_refl: "agm_inv E w \<Longrightarrow> kept E w w"
  by (simp add: kept_def cbs_refl)

lemma kept_in: "kept E w u \<Longrightarrow> b \<in> set (session_list w) \<Longrightarrow> b \<in> set (session_list u)"
  by (auto simp: kept_def cbs.viewed_def)

lemma kept_inv: "kept E w u \<Longrightarrow> agm_inv E u"
  by (simp add: kept_def)

lemma kept_call: "kept E w t \<Longrightarrow> (agm_inv E t \<Longrightarrow> wlp m (\<lambda>_ u. kept E t u)) \<Longrightarrow> wlp m (\<lambda>_ u. kept E w u)"
  by (rule wlp_mono [of _ "\<lambda>_ u. kept E t u"]) (auto dest: kept_inv intro: kept_trans)

text \<open>Nothing has changed but the AIFs, the metadata and the parameters of sessions.\<close>

definition forgotten :: "env \<Rightarrow> agm_world \<Rightarrow> agm_world \<Rightarrow> bool" where
  "forgotten E w u \<longleftrightarrow> kept E w u \<and> outside.viewed {} w u"

lemma forgotten_calls:
  assumes "forgotten E w t"
  shows "wlp (agm_session_aif_set_params E k f p n t) (\<lambda>_ u. forgotten E w u)"
    "wlp (agm_session_aif_connect E k f False t) (\<lambda>_ u. forgotten E w u)"
    "wlp (agm_session_aif_set_metadata E k f n md t) (\<lambda>_ u. forgotten E w u)"
    "wlp (agm_session_set_metadata E k n md t) (\<lambda>_ u. forgotten E w u)"
    "wlp (agm_session_set_params E k p n t) (\<lambda>_ u. forgotten E w u)"
  using assms unfolding forgotten_def
  by (intro wlp_conj kept_call [OF _ kept_by_id(1)] kept_call [OF _ kept_by_id(2)] kept_call [OF _ kept_by_id(5)]
      kept_call [OF _ kept_by_id(7)] kept_call [OF _ kept_by_id(12)] outside.forget_entry; simp)+

lemma forgotten_aif: "forgotten E w t \<Longrightarrow> E = srv_svc K \<Longrightarrow> wlp (died_aif K h aif t) (\<lambda>_ u. forgotten E w u)"
  unfolding died_aif_def by (simp, intro inv_rules forgotten_calls; simp)

lemma close_states:
  fixes w :: agm_world
  assumes "agm_inv E w"
  shows "wlp (agm_session_close E a w) (\<lambda>_ u. kept E w u \<and> outside.viewed {a} w u
     \<and> (a \<in> set (session_list w) \<longrightarrow> sess_state (sessions u a) = SESSION_CLOSED))"
proof (intro wlp_conj kept_close assms)
  show "wlp (agm_session_close E a w) (\<lambda>_ u. outside.viewed {a} w u)"
    unfolding agm_session_close_def with_handle_def session_obj_close_def
    by (intro inv_rules outside_life.life outside_refl [OF assms])
  have "wlp (session_close E a w) (\<lambda>_ u. sess_state (sessions u a) = SESSION_CLOSED)"
    unfolding session_close_def Let_def by (intro res_rules) (simp_all add: upd_sess_def)
  moreover have "0 < a" if "a \<in> set (session_list w)" using that agm_pool [OF assms] by (auto simp: pool_ok_def)
  ultimately show "wlp (agm_session_close E a w) (\<lambda>_ u. a \<in> set (session_list w) \<longrightarrow> sess_state (sessions u a) = SESSION_CLOSED)"
    by (auto simp: agm_session_close_def with_handle_def session_obj_close_def session_obj_valid_check_def list_ex_iff wlp_simps elim!: wlp_mono)
qed

definition closed_by :: "nat set \<Rightarrow> agm_world \<Rightarrow> agm_world \<Rightarrow> bool" where
  "closed_by H w u \<longleftrightarrow> (\<forall>b \<in> set (session_list w). sess_state (sessions u b) = (if b \<in> H then SESSION_CLOSED else sess_state (sessions w b)))"

lemma closed_by_trans:
  "closed_by H w t \<Longrightarrow> closed_by J t u \<Longrightarrow> kept E w t \<Longrightarrow> closed_by (H \<union> J) w u"
  by (auto simp: closed_by_def dest: kept_in)

lemma died_session_states:
  assumes "agm_inv (srv_svc K) w"
  shows "wlp (died_session K h w) (\<lambda>_ u. kept (srv_svc K) w u \<and> closed_by {ch_handle h} w u)"
proof -
  let ?E = "srv_svc K"
  have "wlp (if ch_handle h \<noteq> 0 then agm_session_close ?E (ch_handle h) w else Some (0, w))
      (\<lambda>_ t. kept ?E w t \<and> closed_by {ch_handle h} w t)"
    using close_states [OF assms, of "ch_handle h"] agm_pool [OF assms] kept_refl [OF assms]
    by (auto simp: closed_by_def pool_ok_def wlp_simps elim!: wlp_mono dest: outside_state)
  then show ?thesis
    unfolding died_session_def
  proof (rule wlp_bindI, goal_cases)
    case (1 r t)
    then have t: "kept ?E w t" "closed_by {ch_handle h} w t" by simp_all
    then have "forgotten ?E t t" by (auto simp: forgotten_def intro: kept_refl outside_refl dest: kept_inv)
    then have "wlp (do { (_, w) \<leftarrow> for_each (died_aif K h) (ch_aif_id_list h) t;
        (_, w) \<leftarrow> agm_session_set_metadata ?E (ch_session_id h) 0 None w;
        (_, w) \<leftarrow> agm_session_set_params ?E (ch_session_id h) None 0 w; Some ((), w) }) (\<lambda>_ u. forgotten ?E t u)"
      by (intro inv_rules for_each_inv forgotten_calls forgotten_aif) simp_all
    then show ?case
      by (rule wlp_mono) (use t in \<open>auto simp: forgotten_def closed_by_def intro: kept_trans dest: kept_in outside_state\<close>)
  qed
qed

lemma died_sessions_states:
  "agm_inv (srv_svc K) w \<Longrightarrow> wlp (for_each (died_session K) hs w) (\<lambda>_ u. kept (srv_svc K) w u \<and> closed_by (ch_handle ` set hs) w u)"
proof (induction hs arbitrary: w)
  case (Cons h hs)
  show ?case
    unfolding for_each.simps
  proof (rule wlp_bindI [OF died_session_states [OF Cons.prems]], goal_cases)
    case (1 r t)
    then have "agm_inv (srv_svc K) t" by (simp add: kept_def)
    from Cons.IH [OF this] 1 show ?case
      by (auto elim!: wlp_mono intro: kept_trans dest: closed_by_trans)
  qed
qed (simp add: wlp_simps kept_refl closed_by_def)

lemma srv_inv_agm: "srv_inv K s \<Longrightarrow> kept (srv_svc K) (srv_agm s) w \<Longrightarrow> srv_inv K (s\<lparr>srv_agm := w\<rparr>)"
  by (simp add: srv_inv_def kept_clients kept_calls_ok kept_inv)

definition handles :: "u32 \<Rightarrow> client_info list \<Rightarrow> nat set" where
  "handles pid cl = {ch_handle h | c h. c \<in> set cl \<and> ci_pid c = pid \<and> h \<in> set (ci_agm_client_hndl_list c)}"

text \<open>What the second loop does to the clients \<open>cl\<close> behind those of \<open>pre\<close>.\<close>

definition taken_back :: "srv_env \<Rightarrow> u32 \<Rightarrow> client_info list \<Rightarrow> client_info list \<Rightarrow> server_world \<Rightarrow> server_world \<Rightarrow> bool" where
  "taken_back K pid pre cl s t \<longleftrightarrow> srv_inv K t \<and> client_list t = pre @ filter (\<lambda>c. ci_pid c \<noteq> pid) cl \<and> srv_clbks t = srv_clbks s
     \<and> kept (srv_svc K) (srv_agm s) (srv_agm t) \<and> closed_by (handles pid cl) (srv_agm s) (srv_agm t)"

lemma died_client_takes:
  assumes I: "srv_inv K s" and l: "client_list s = pre @ c # cl" and pid: "ci_pid c = pid" "\<forall>d \<in> set pre. ci_pid d \<noteq> pid"
  shows "wlp (died_client K pid c s) (\<lambda>_ t. srv_inv K t \<and> client_list t = pre @ cl \<and> srv_clbks t = srv_clbks s
     \<and> kept (srv_svc K) (srv_agm s) (srv_agm t) \<and> closed_by (ch_handle ` set (ci_agm_client_hndl_list c)) (srv_agm s) (srv_agm t))"
proof -
  have A: "agm_inv (srv_svc K) (srv_agm s)" using I by (simp add: srv_inv_def)
  have "srv_inv K (s\<lparr>srv_agm := w, srv_hist := h, client_list := pre @ cl\<rparr>)" if "kept (srv_svc K) (srv_agm s) w" for w h
    using srv_inv_agm [OF I that] l by (auto simp: srv_inv_def clients_ok_def)
  moreover have "remove1 c (pre @ c # cl) = pre @ cl" using pid by (auto simp: remove1_append)
  ultimately show ?thesis
    unfolding died_client_def using pid(1) l
    by (auto simp: wlp_simps wlp_serve srv_ecall_def wlp_bind_gen [of "ci_clbk_binder c"] intro!: wlp_mono [OF died_sessions_states [OF A]])
qed

lemma died_clients_take:
  assumes "srv_inv K s" "client_list s = pre @ cl" "\<forall>c \<in> set pre. ci_pid c \<noteq> pid"
  shows "wlp (for_each (died_client K pid) cl s) (\<lambda>_ t. taken_back K pid pre cl s t)"
  using assms
proof (induction cl arbitrary: pre s)
  case Nil
  then show ?case
    by (auto simp: wlp_simps taken_back_def closed_by_def handles_def srv_inv_def intro: kept_refl)
next
  case (Cons c cl)
  show ?case
  proof (cases "ci_pid c = pid")
    case True
    have "handles pid (c # cl) = ch_handle ` set (ci_agm_client_hndl_list c) \<union> handles pid cl"
      using True by (auto simp: handles_def)
    with True show ?thesis
      unfolding for_each.simps
      by (intro wlp_bindI [OF died_client_takes [OF Cons.prems(1,2) True Cons.prems(3)]] wlp_mono [OF Cons.IH])
         (use Cons.prems in \<open>auto simp: taken_back_def intro: kept_trans dest: closed_by_trans\<close>)
  next
    case False
    have "handles pid (c # cl) = handles pid cl" using False by (auto simp: handles_def)
    with False Cons.IH [of s "pre @ [c]"] Cons.prems show ?thesis
      by (simp add: died_client_def wlp_simps taken_back_def)
  qed
qed

text \<open>What the first loop does: the objects of the process that the list names are gone, and the service has kept the
  callbacks of the others.\<close>

definition owned :: "u32 \<Rightarrow> (u64 \<Rightarrow> SrvrClbk option) \<Rightarrow> u64 set" where
  "owned pid H = {p. \<exists>x. H p = Some x \<and> sk_pid x = pid}"

definition uncalled :: "srv_env \<Rightarrow> u64 set \<Rightarrow> server_world \<Rightarrow> server_world \<Rightarrow> bool" where
  "uncalled K P s t \<longleftrightarrow> srv_inv K t \<and> client_list t = client_list s \<and> srv_clbks t = (\<lambda>p. if p \<in> P then None else srv_clbks s p)
     \<and> (\<exists>l. session_list (srv_agm t) = session_list (srv_agm s) @ l)
     \<and> (\<forall>b \<in> set (session_list (srv_agm s)). sess_state (sessions (srv_agm t) b) = sess_state (sessions (srv_agm s) b)
          \<and> cb_pool (sessions (srv_agm t) b) = filter (\<lambda>c. cb_client_data c \<notin> P) (cb_pool (sessions (srv_agm s) b)))"

lemma uncalled_trans: "uncalled K P s t \<Longrightarrow> uncalled K Q t u \<Longrightarrow> uncalled K (P \<union> Q) s u"
  unfolding uncalled_def by (auto simp: fun_eq_iff)

lemma uncalled_refl: "srv_inv K s \<Longrightarrow> uncalled K {} s s"
  by (simp add: uncalled_def)

lemma dropped_uncalled: "dropped K d s t \<Longrightarrow> uncalled K {cd_srv_clt_data d} s t"
  unfolding dropped_def uncalled_def by (auto simp: fun_eq_iff)

lemma died_callbacks:
  assumes "srv_inv K s" "set ds \<subseteq> set (clbk_data_list s)" "distinct (map cd_srv_clt_data ds)"
  shows "wlp (for_each (died_callback K pid) ds s) (\<lambda>_ t. uncalled K (cd_srv_clt_data ` set ds \<inter> owned pid (srv_clbks s)) s t)"
  using assms
proof (induction ds arbitrary: s)
  case (Cons d ds)
  let ?p = "cd_srv_clt_data d" and ?P = "\<lambda>s. cd_srv_clt_data ` set ds \<inter> owned pid (srv_clbks s)"
  have d: "d \<in> set (clbk_data_list s)" and "?p \<in> dom (srv_clbks s)" using Cons.prems by (auto simp: srv_inv_def clbks_ok_def)
  then obtain x where x: "srv_clbks s ?p = Some x" by blast
  show ?case
    unfolding for_each.simps
  proof (rule wlp_bindI [OF inv_died_callback [OF Cons.prems(1) d]], goal_cases)
    case (1 r t)
    show ?case
    proof (cases "sk_pid x = pid")
      case True
      then have t: "dropped K d s t" using 1 x by auto
      have new: "?p \<notin> cd_srv_clt_data ` set ds" using Cons.prems(3) by simp
      then have "d \<notin> set ds" by blast
      then have "set ds \<subseteq> set (clbk_data_list t)" "srv_inv K t"
        using t Cons.prems(2) by (auto simp: dropped_def intro!: in_set_remove1 [THEN iffD2])
      moreover have P: "?P t = ?P s"
        using t new by (simp add: dropped_def owned_def) blast
      ultimately have "wlp (for_each (died_callback K pid) ds t) (\<lambda>_ u. uncalled K (?P s) t u)"
        using Cons.IH [of t] Cons.prems(3) by simp
      then have "wlp (for_each (died_callback K pid) ds t) (\<lambda>_ u. uncalled K ({?p} \<union> ?P s) s u)"
        by (rule wlp_mono) (rule uncalled_trans [OF dropped_uncalled [OF t]])
      then show ?thesis
        using True x by (simp add: owned_def Int_insert_left)
    next
      case False
      then have "t = s" using 1 x by auto
      then show ?thesis
        using Cons False x by (simp add: owned_def Int_insert_left)
    qed
  qed
qed (simp add: wlp_simps uncalled_refl)

lemma service_died:
  assumes "srv_inv K s"
  shows "wlp (serviceDied K pid s) (\<lambda>_ t. \<exists>u. uncalled K (owned pid (srv_clbks s)) s u \<and> taken_back K pid [] (client_list s) u t)"
proof -
  have "cd_srv_clt_data ` set (clbk_data_list s) \<inter> owned pid (srv_clbks s) = owned pid (srv_clbks s)"
    using assms by (auto simp: srv_inv_def clbks_ok_def owned_def)
  with died_callbacks [OF assms, of "clbk_data_list s" pid]
  have "wlp (for_each (died_callback K pid) (clbk_data_list s) s) (\<lambda>_ u. uncalled K (owned pid (srv_clbks s)) s u)"
    using assms by (simp add: srv_inv_def clbks_ok_def)
  then show ?thesis
    unfolding serviceDied_def
  proof (rule wlp_bindI, goal_cases)
    case (1 r u)
    then have "srv_inv K u" "client_list u = client_list s" by (simp_all add: uncalled_def)
    then have "wlp (for_each (died_client K pid) (client_list u) u) (\<lambda>_ t. taken_back K pid [] (client_list s) u t)"
      using died_clients_take [of K u "[]" "client_list s" pid] by simp
    then show ?case by (rule wlp_mono) (use 1 in auto)
  qed
qed

section \<open>Every step\<close>

lemma inv_client: "srv_inv K s \<Longrightarrow> wlp (ipc_agm_client_register_callback K pid cb s) (\<lambda>_ t. srv_inv K t)"
  unfolding ipc_agm_client_register_callback_def
proof (erule wlp_bindI [OF get_client], goal_cases)
  case (1 r t)
  have "srv_inv K (upd_client i (\<lambda>c. c\<lparr>ci_clbk_binder := b\<rparr>) u)" if "u = t\<lparr>mDeathNotifier := m, srv_hist := h\<rparr>" "client_at pid t i" for i b u m h
    by (rule inv_upd_client) (use 1 that in \<open>auto simp: client_at_def client_ok_def srv_inv_def\<close>)
  moreover have "srv_inv K (t\<lparr>mDeathNotifier := m, srv_hist := h\<rparr>)" "srv_inv K (t\<lparr>mDeathNotifier := m\<rparr>)" for m h using 1 by (auto simp: srv_inv_def)
  ultimately show ?case using 1 by (auto simp: wlp_simps Let_def srv_ecall_def)
qed

lemmas srv_inv_calls = inv_payload inv_calloc inv_callocs inv_ecall inv_entries inv_alloc

lemmas handler_defs =
  ipc_agm_init_def ipc_agm_deinit_def
  ipc_agm_aif_set_media_config_def ipc_agm_aif_set_metadata_def ipc_agm_session_set_metadata_def
  ipc_agm_session_aif_set_metadata_def ipc_agm_session_aif_connect_def ipc_agm_session_aif_get_tag_module_info_def
  ipc_agm_session_get_params_def ipc_agm_aif_set_params_def ipc_agm_session_aif_set_params_def
  ipc_agm_session_set_params_def ipc_agm_session_aif_set_cal_def ipc_agm_set_params_with_tag_def
  ipc_agm_set_params_with_tag_to_acdb_def ipc_agm_set_params_to_acdb_tunnel_def ipc_agm_session_register_for_events_def
  ipc_agm_session_set_loopback_def ipc_agm_session_set_ec_ref_def ipc_agm_aif_group_set_media_config_def
  ipc_agm_get_aif_info_list_def ipc_agm_get_group_aif_info_list_def ipc_agm_session_set_config_def
  ipc_agm_session_set_non_tunnel_mode_config_def ipc_agm_session_prepare_def ipc_agm_session_start_def
  ipc_agm_session_stop_def ipc_agm_session_pause_def ipc_agm_session_flush_def
  ipc_agm_session_resume_def ipc_agm_session_suspend_def ipc_agm_session_eos_def
  ipc_agm_sessionid_flush_def ipc_agm_session_read_def ipc_agm_session_write_def
  ipc_agm_get_hw_processed_buff_cnt_def ipc_agm_get_session_time_def ipc_agm_get_buffer_timestamp_def
  ipc_agm_session_get_buf_info_def ipc_agm_set_gapless_session_metadata_def ipc_agm_session_write_with_metadata_def
  ipc_agm_session_read_with_metadata_def ipc_agm_session_write_datapath_params_def ipc_agm_dump_def

lemma handler_inv:
  assumes "srv_inv K s"
  shows "wlp (ipc_agm_init s) (\<lambda>_ t. srv_inv K t)" "wlp (ipc_agm_deinit s) (\<lambda>_ t. srv_inv K t)"
    "wlp (ipc_agm_aif_set_media_config K aif mcs s) (\<lambda>_ t. srv_inv K t)"
    "wlp (ipc_agm_aif_set_metadata K aif n md s) (\<lambda>_ t. srv_inv K t)"
    "wlp (ipc_agm_session_set_metadata K pid k n md s) (\<lambda>_ t. srv_inv K t)"
    "wlp (ipc_agm_session_aif_set_metadata K pid k aif n md s) (\<lambda>_ t. srv_inv K t)"
    "wlp (ipc_agm_session_aif_connect K pid k aif st s) (\<lambda>_ t. srv_inv K t)"
    "wlp (ipc_agm_session_aif_get_tag_module_info K k aif n s) (\<lambda>_ t. srv_inv K t)"
    "wlp (ipc_agm_session_get_params K k n md s) (\<lambda>_ t. srv_inv K t)"
    "wlp (ipc_agm_aif_set_params K aif md n s) (\<lambda>_ t. srv_inv K t)"
    "wlp (ipc_agm_session_aif_set_params K k aif md n s) (\<lambda>_ t. srv_inv K t)"
    "wlp (ipc_agm_session_set_params K k md n s) (\<lambda>_ t. srv_inv K t)"
    "wlp (ipc_agm_session_aif_set_cal K k aif kvs s) (\<lambda>_ t. srv_inv K t)"
    "wlp (ipc_agm_set_params_with_tag K k aif kvs s) (\<lambda>_ t. srv_inv K t)"
    "wlp (ipc_agm_set_params_with_tag_to_acdb K k aif md n s) (\<lambda>_ t. srv_inv K t)"
    "wlp (ipc_agm_set_params_to_acdb_tunnel K md n s) (\<lambda>_ t. srv_inv K t)"
    "wlp (ipc_agm_session_register_for_events K k evs s) (\<lambda>_ t. srv_inv K t)"
    "wlp (ipc_agm_session_set_loopback K k pb st s) (\<lambda>_ t. srv_inv K t)"
    "wlp (ipc_agm_session_set_ec_ref K k aif st s) (\<lambda>_ t. srv_inv K t)"
    "wlp (ipc_agm_aif_group_set_media_config K gid gmcs s) (\<lambda>_ t. srv_inv K t)"
    "wlp (ipc_agm_get_aif_info_list K n s) (\<lambda>_ t. srv_inv K t)"
    "wlp (ipc_agm_get_group_aif_info_list K n s) (\<lambda>_ t. srv_inv K t)"
    "wlp (ipc_agm_session_set_config K h scs mcs bcs s) (\<lambda>_ t. srv_inv K t)"
    "wlp (ipc_agm_session_set_non_tunnel_mode_config K h scs imcs omcs ibcs obcs s) (\<lambda>_ t. srv_inv K t)"
    "wlp (ipc_agm_session_prepare K h s) (\<lambda>_ t. srv_inv K t)"
    "wlp (ipc_agm_session_start K h s) (\<lambda>_ t. srv_inv K t)"
    "wlp (ipc_agm_session_stop K h s) (\<lambda>_ t. srv_inv K t)"
    "wlp (ipc_agm_session_pause K h s) (\<lambda>_ t. srv_inv K t)"
    "wlp (ipc_agm_session_flush K h s) (\<lambda>_ t. srv_inv K t)"
    "wlp (ipc_agm_session_resume K h s) (\<lambda>_ t. srv_inv K t)"
    "wlp (ipc_agm_session_suspend K h s) (\<lambda>_ t. srv_inv K t)"
    "wlp (ipc_agm_session_eos K h s) (\<lambda>_ t. srv_inv K t)"
    "wlp (ipc_agm_sessionid_flush K k s) (\<lambda>_ t. srv_inv K t)"
    "wlp (ipc_agm_session_read K h n s) (\<lambda>_ t. srv_inv K t)"
    "wlp (ipc_agm_session_write K h md n s) (\<lambda>_ t. srv_inv K t)"
    "wlp (ipc_agm_get_hw_processed_buff_cnt h s) (\<lambda>_ t. srv_inv K t)"
    "wlp (ipc_agm_get_session_time K h s) (\<lambda>_ t. srv_inv K t)"
    "wlp (ipc_agm_get_buffer_timestamp K k s) (\<lambda>_ t. srv_inv K t)"
    "wlp (ipc_agm_session_get_buf_info K bi k flag s) (\<lambda>_ t. srv_inv K t)"
    "wlp (ipc_agm_set_gapless_session_metadata K h ty n s) (\<lambda>_ t. srv_inv K t)"
    "wlp (ipc_agm_session_write_with_metadata K junk h bufs sz s) (\<lambda>_ t. srv_inv K t)"
    "wlp (ipc_agm_session_read_with_metadata K h bufs n s) (\<lambda>_ t. srv_inv K t)"
    "wlp (ipc_agm_session_write_datapath_params K junk k bufs s) (\<lambda>_ t. srv_inv K t)"
    "wlp (ipc_agm_dump K dis s) (\<lambda>_ t. srv_inv K t)"
  unfolding handler_defs hidl_fd_def dumpAgmStackTrace_def Let_def
  by (intro inv_rules inv_bind_value srv_inv_calls inv_serve kept_calls assms; (assumption | simp)?)+

lemma inv_event: "srv_inv K s \<Longrightarrow> wlp (serve (graph_event_cb (srv_svc K) d src ev) s) (\<lambda>_ t. srv_inv K t)"
  by (intro inv_serve kept_calls)

lemma srv_step_inv:
  assumes "srv_step K s t" "srv_inv K s"
  shows "srv_inv K t"
  using assms(1)
proof (cases rule: srv_step.cases)
  case (step_died pid r)
  then show ?thesis using wlpD [OF service_died [OF assms(2)]] by (auto simp: taken_back_def)
next
  case (step_session_register_callback pid k evt d e r)
  moreover have "wlp (ipc_agm_session_register_callback K pid k evt d e s) (\<lambda>_ t. srv_inv K t)"
    unfolding ipc_agm_session_register_callback_def by (intro inv_if inv_register inv_deregister assms(2))
  ultimately show ?thesis by (auto dest: wlpD)
qed (erule handler_inv [OF assms(2), THEN wlpD] wlpD [OF inv_open [OF assms(2)]] wlpD [OF inv_close [OF assms(2)]]
      wlpD [OF inv_client [OF assms(2)]] wlpD [OF inv_callback [OF assms(2)]] wlpD [OF inv_event [OF assms(2)]])+

lemma srv_reach_inv: "srv_reach K s \<Longrightarrow> srv_inv K s"
  by (induction rule: srv_reach.induct) (auto intro: srv_inv_init srv_step_inv)

end
