(* ===== verification/Hw_Server_Properties.thy ===== *)
theory Hw_Server_Properties
  imports Hw_Server_Invariant Scenario
begin

text \<open>
  What the HwBinder server promises: the service never calls back into freed memory, the death of a client takes back exactly
  what that client had, and the server lists clients, sessions and callbacks once each. The last section has the cases in
  which the server does something else than it means to.
\<close>

section \<open>The lists of the server as pools\<close>

interpretation client_pool: keyed_pool "get_client_handle_l K" pid_index "\<lambda>s. distinct (map ci_pid (client_list s))" for K
proof (unfold_locales, goal_cases)
  case (1 s k r t)
  then show ?case
    by (auto simp: get_client_handle_l_def srv_calloc_def srv_ecall_def client_info0_def index_of_None split: option.splits if_splits)
next
  case (2 s k h t)
  then show ?case
    by (auto simp: get_client_handle_l_def srv_calloc_def srv_ecall_def client_info0_def index_of_append split: option.splits if_splits)
next
  case (3 s k h)
  then show ?case by (simp add: get_client_handle_l_def)
next
  case (4 s k r t k' h)
  then show ?case
    by (auto simp: get_client_handle_l_def srv_calloc_def srv_ecall_def index_of_append split: option.splits if_splits)
next
  case (5 s k h k')
  then show ?case by (auto dest: index_of_Some)
qed

lemma client_listed_once:
  assumes "srv_reach K s" "get_client_handle_l K pid s = Some (Some i, t)" "get_client_handle_l K pid' t = Some (Some j, u)"
  shows "i = j \<longleftrightarrow> pid = pid'" "get_client_handle_l K pid t = Some (Some i, t)" "pid_index pid u = Some i"
proof -
  have "distinct (map ci_pid (client_list s))" using srv_reach_inv [OF assms(1)] by (simp add: srv_inv_def clients_ok_def)
  then show "i = j \<longleftrightarrow> pid = pid'" "get_client_handle_l K pid t = Some (Some i, t)" "pid_index pid u = Some i"
    using client_pool.get_get [OF _ assms(2,3)] client_pool.get_again [OF _ assms(2)] by blast+
qed

section \<open>A run\<close>

text \<open>A client with the process id 7 registers itself, connects an AIF, registers a callback and opens a session.\<close>

definition srv_env0 :: srv_env where
  "srv_env0 = \<lparr>srv_ret = (\<lambda>_ c. case c of SRV_CALLOC \<Rightarrow> 1 | SRV_NEW \<Rightarrow> 64 | SRV_NATIVE_HANDLE_CREATE \<Rightarrow> 1 | _ \<Rightarrow> 0),
     ipc_callback_addr = 32, build_agm_hidl = True, AID_AUDIOSERVER = 1041, srv_svc = env0\<rparr>"

definition server0 :: server_world where
  "server0 = \<lparr>srv_hist = [], client_list = [], clbk_data_list = [], srv_clbks = Map.empty, mDeathNotifier = False, srv_agm = world0\<rparr>"

lemma server0_initial: "srv_initial server0"
  by (simp add: srv_initial_def server0_def world0_initial)

definition connected0 :: server_world where
  "connected0 = snd (the (do {
     (_, s) \<leftarrow> ipc_agm_client_register_callback srv_env0 7 1 server0;
     ipc_agm_session_aif_connect srv_env0 7 5 0 True s }))"

definition served0 :: server_world where
  "served0 = snd (the (do {
     (_, s) \<leftarrow> ipc_agm_session_register_callback srv_env0 7 5 1 9 8 connected0;
     ipc_agm_session_open srv_env0 7 5 AGM_SESSION_DEFAULT s }))"

lemmas server_eval = srv_env0_def server0_def connected0_def served0_def ipc_agm_client_register_callback_def ipc_agm_session_aif_connect_def
  ipc_agm_session_register_callback_def ipc_agm_session_open_def get_client_handle_l_def get_session_handle_l_def with_entry_def
  add_session_aif_to_list_l_def add_session_handle_to_list_l_def register_clbk_def new_SrvrClbk_def srv_calloc_def srv_ecall_def
  serve_def upd_client_def upd_hndl_def client_info0_def session_handle0_def event_type_of_def serviceDied_def died_callback_def
  died_client_def died_session_def died_aif_def delete_SrvrClbk_def ipc_agm_session_close_def

lemma connected0_run:
  "\<exists>s. ipc_agm_client_register_callback srv_env0 7 1 server0 = Some (0, s) \<and> ipc_agm_session_aif_connect srv_env0 7 5 0 True s = Some (0, connected0)"
  by (simp add: server_eval agm_eval cong: bind_eval_cong)

lemma served0_run:
  "\<exists>s. ipc_agm_session_register_callback srv_env0 7 5 1 9 8 connected0 = Some (0, s)
     \<and> ipc_agm_session_open srv_env0 7 5 AGM_SESSION_DEFAULT s = Some ((0, 1), served0)"
  by (simp add: server_eval agm_eval cong: bind_eval_cong)

lemma connected0_reach: "srv_reach srv_env0 connected0"
proof -
  obtain s where "ipc_agm_client_register_callback srv_env0 7 1 server0 = Some (0, s)"
      "ipc_agm_session_aif_connect srv_env0 7 5 0 True s = Some (0, connected0)"
    using connected0_run by blast
  then show ?thesis by (blast intro: srv_reach.intros srv_step.intros server0_initial)
qed

lemma served0_reach: "srv_reach srv_env0 served0"
proof -
  obtain s where "ipc_agm_session_register_callback srv_env0 7 5 1 9 8 connected0 = Some (0, s)"
      "ipc_agm_session_open srv_env0 7 5 AGM_SESSION_DEFAULT s = Some ((0, 1), served0)"
    using served0_run by blast
  then show ?thesis by (blast intro: srv_reach.intros srv_step.intros connected0_reach)
qed

lemma served0_eval:
  "session_list (srv_agm served0) = [1]" "sess_state (sessions (srv_agm served0) 1) = SESSION_OPENED" "sess_id (sessions (srv_agm served0) 1) = 5"
  "cb_pool (sessions (srv_agm served0) 1) = [\<lparr>cb_fn = 32, cb_evt_type = AGM_EVENT_DATA_PATH, cb_client_data = 64\<rparr>]"
  "srv_clbks served0 = [64 \<mapsto> \<lparr>sk_session_id = 5, sk_event = 1, sk_clnt_data = 9, sk_pid = 7\<rparr>]"
  "client_list served0 = [\<lparr>ci_pid = 7, ci_clbk_binder = Some 1, ci_agm_client_hndl_list =
     [\<lparr>ch_session_id = 5, ch_handle = 1, ch_shared_mem_fd_list = [], ch_aif_id_list = [0]\<rparr>]\<rparr>]"
  "clbk_data_list served0 = [\<lparr>cd_clbk_clt_data = 8, cd_srv_clt_data = 64\<rparr>]"
  by (simp_all add: server_eval agm_eval cong: bind_eval_cong)

lemma served0_died: "\<exists>t. serviceDied srv_env0 7 served0 = Some ((), t)"
  by (simp add: server_eval agm_eval cong: bind_eval_cong)

section \<open>Properties\<close>

text \<open>The payload of an event fits its kind and its size.\<close>

definition event_ok :: "agm_event_cb_params \<Rightarrow> bool" where
  "event_ok ev = (case ev_payload ev of
       EVENT_RW_DONE _ \<Rightarrow> 0 < ev_payload_size ev \<and> ev_event_id ev \<in> {AGM_EVENT_READ_DONE, AGM_EVENT_WRITE_DONE}
     | EVENT_BYTES bs \<Rightarrow> \<not> (0 < ev_payload_size ev \<and> ev_event_id ev \<in> {AGM_EVENT_READ_DONE, AGM_EVENT_WRITE_DONE})
         \<and> unat (ev_payload_size ev) \<le> length bs)"

text \<open>\<^bold>\<open>C18.\<close> In every state the server can reach, each callback that the service holds for a session points to a live \<open>SrvrClbk\<close>
  object, made for that session and that type of event, and so the service may call it: \<open>ipc_callback\<close> returns for every
  event, whatever clients registered, deregistered or died before.\<close>

theorem srv_callbacks_live:
  assumes "srv_reach K s" "a \<in> set (session_list (srv_agm s))" "c \<in> set (cb_pool (sessions (srv_agm s) a))" "event_ok ev"
  shows "(\<exists>x. srv_clbks s (cb_client_data c) = Some x \<and> sk_session_id x = sess_id (sessions (srv_agm s) a)
            \<and> event_type_of (sk_event x) = Some (cb_evt_type c))
     \<and> (\<exists>t. ipc_callback K (sess_id (sessions (srv_agm s) a)) ev (cb_client_data c) s = Some ((), t) \<and> srv_reach K t)"
proof -
  let ?k = "sess_id (sessions (srv_agm s) a)" and ?p = "cb_client_data c"
  obtain x where x: "srv_clbks s ?p = Some x" "sk_session_id x = ?k" "event_type_of (sk_event x) = Some (cb_evt_type c)"
    using srv_reach_inv [OF assms(1)] assms(2,3) by (auto simp: srv_inv_def calls_ok_def)
  have "\<exists>t. ipc_callback K ?k ev ?p s = Some ((), t)"
    using x(1) assms(4) unfolding ipc_callback_def event_ok_def
    by (auto simp: srv_ecall_def Let_def not_less split: option.split event_payload.splits prod.split)
  with assms(1-3) x show ?thesis by (blast intro: srv_reach_step step_callback)
qed

theorem srv_callbacks_live_witness:
  "\<exists>t. ipc_callback srv_env0 5 \<lparr>ev_source_module_id = 0x2001, ev_event_id = 0, ev_payload_size = 2, ev_payload = EVENT_BYTES [1, 2]\<rparr> 64 served0 = Some ((), t)"
  using srv_callbacks_live [OF served0_reach, of 1 "\<lparr>cb_fn = 32, cb_evt_type = AGM_EVENT_DATA_PATH, cb_client_data = 64\<rparr>"
      "\<lparr>ev_source_module_id = 0x2001, ev_event_id = 0, ev_payload_size = 2, ev_payload = EVENT_BYTES [1, 2]\<rparr>"]
  by (auto simp: served0_eval event_ok_def simp del: One_nat_def)

text \<open>\<^bold>\<open>C19.\<close> The death of a client takes back exactly what the client had. When \<open>serviceDied\<close> returns, the client is not listed any
  more and the other clients are unchanged; the \<open>SrvrClbk\<close> objects of the process are freed, no session calls them any more,
  and all other callbacks are still registered; the sessions whose handles the client held are closed, and every other
  session is in the state it was in.\<close>

theorem client_death:
  assumes "srv_reach K s" "serviceDied K pid s = Some ((), t)"
  shows "client_list t = filter (\<lambda>c. ci_pid c \<noteq> pid) (client_list s)
     \<and> (\<forall>p. srv_clbks t p = (case srv_clbks s p of None \<Rightarrow> None | Some x \<Rightarrow> if sk_pid x = pid then None else Some x))
     \<and> (\<forall>a \<in> set (session_list (srv_agm s)).
          a \<in> set (session_list (srv_agm t))
          \<and> cb_pool (sessions (srv_agm t) a) =
              filter (\<lambda>c. \<forall>x. srv_clbks s (cb_client_data c) = Some x \<longrightarrow> sk_pid x \<noteq> pid) (cb_pool (sessions (srv_agm s) a))
          \<and> sess_state (sessions (srv_agm t) a) =
              (if \<exists>c \<in> set (client_list s). ci_pid c = pid \<and> a \<in> ch_handle ` set (ci_agm_client_hndl_list c) then SESSION_CLOSED
               else sess_state (sessions (srv_agm s) a)))"
proof -
  obtain u where u: "uncalled K (owned pid (srv_clbks s)) s u" and t: "taken_back K pid [] (client_list s) u t"
    using wlpD [OF service_died [OF srv_reach_inv [OF assms(1)]] assms(2)] by blast
  have clbks: "srv_clbks t p = (case srv_clbks s p of None \<Rightarrow> None | Some x \<Rightarrow> if sk_pid x = pid then None else Some x)" for p
    using u t by (auto simp: uncalled_def taken_back_def owned_def split: option.split)
  have "a \<in> set (session_list (srv_agm t)) \<and> cb_pool (sessions (srv_agm t) a) =
        filter (\<lambda>c. \<forall>x. srv_clbks s (cb_client_data c) = Some x \<longrightarrow> sk_pid x \<noteq> pid) (cb_pool (sessions (srv_agm s) a))
      \<and> sess_state (sessions (srv_agm t) a) = (if a \<in> handles pid (client_list s) then SESSION_CLOSED else sess_state (sessions (srv_agm s) a))"
    if "a \<in> set (session_list (srv_agm s))" for a
  proof -
    have a: "a \<in> set (session_list (srv_agm u))" using u that by (auto simp: uncalled_def)
    then have "a \<in> set (session_list (srv_agm t))" "cb_pool (sessions (srv_agm t) a) = cb_pool (sessions (srv_agm u) a)"
      using t by (auto simp: taken_back_def kept_def cbs.viewed_def)
    then show ?thesis
      using u t that a by (auto simp: uncalled_def taken_back_def closed_by_def owned_def)
  qed
  moreover have "a \<in> handles pid (client_list s) \<longleftrightarrow> (\<exists>c \<in> set (client_list s). ci_pid c = pid \<and> a \<in> ch_handle ` set (ci_agm_client_hndl_list c))" for a
    by (auto simp: handles_def)
  ultimately show ?thesis using t clbks by (simp add: taken_back_def)
qed

theorem client_death_witness:
  "\<exists>t. serviceDied srv_env0 7 served0 = Some ((), t) \<and> client_list t = [] \<and> srv_clbks t 64 = None
     \<and> cb_pool (sessions (srv_agm t) 1) = [] \<and> sess_state (sessions (srv_agm t) 1) = SESSION_CLOSED"
proof -
  obtain t where t: "serviceDied srv_env0 7 served0 = Some ((), t)" using served0_died by blast
  show ?thesis
    using client_death [OF served0_reach t] t by (auto simp: served0_eval simp del: One_nat_def)
qed

text \<open>\<^bold>\<open>C20.\<close> The books of the server. In every state it can reach, a client is listed once for its process, a session once for
  a client and an AIF once for a session; a handle that is kept for a session is the handle of that session at the
  service; and the \<open>SrvrClbk\<close> objects that are live are exactly those of the callback list, once each, so none is lost.\<close>

theorem srv_books:
  assumes "srv_reach K s"
  shows "distinct (map ci_pid (client_list s))
     \<and> (\<forall>c \<in> set (client_list s). distinct (map ch_session_id (ci_agm_client_hndl_list c))
          \<and> (\<forall>h \<in> set (ci_agm_client_hndl_list c). distinct (ch_aif_id_list h)
               \<and> (ch_handle h \<noteq> 0 \<longrightarrow> ch_handle h \<in> set (session_list (srv_agm s)) \<and> sess_id (sessions (srv_agm s) (ch_handle h)) = ch_session_id h)))
     \<and> distinct (map cd_srv_clt_data (clbk_data_list s)) \<and> dom (srv_clbks s) = cd_srv_clt_data ` set (clbk_data_list s)"
  using srv_reach_inv [OF assms] by (auto simp: srv_inv_def clients_ok_def client_ok_def hndl_ok_def clbks_ok_def)

theorem srv_books_witness: "dom (srv_clbks served0) = {64} \<and> distinct (map ci_pid (client_list served0)) \<and> 1 \<in> set (session_list (srv_agm served0))"
  using srv_books [OF served0_reach] by (simp add: served0_eval)

section \<open>Cases that go wrong\<close>

text \<open>The metadata of a session is read at its first four bytes before its size is known to have them.\<close>

theorem short_metadata_read:
  assumes "length m < 4" "of_int (srv_ret K (srv_hist s) SRV_CALLOC) \<noteq> (0 :: u64)"
  shows "ipc_agm_session_set_metadata K pid k (of_nat (length m)) m s = None"
proof -
  have "unat (of_nat (length m) :: u32) = length m" using assms(1) by (simp add: unat_of_nat)
  then show ?thesis using assms by (simp add: ipc_agm_session_set_metadata_def with_payload_def srv_calloc_def srv_ecall_def rd32_def)
qed

text \<open>The data of a buffer with metadata is copied with the size the client gives, also behind the end of the vector.\<close>

theorem long_buffer_read:
  assumes "length (hb_buffer b) < unat (hb_size b)" "hb_metadata_size b = 0" "of_int (srv_ret K (srv_hist s) SRV_CALLOC) \<noteq> (0 :: u64)"
  shows "ipc_agm_session_write_with_metadata K junk h (b # bs) n s = None"
  using assms
  by (cases "ha_handle (hb_alloc_info b)")
     (auto simp: ipc_agm_session_write_with_metadata_def hidl_data_def srv_calloc_def srv_ecall_def hidl_alloc_def)

text \<open>The process that deregisters a callback does not matter: a client can take away the callback of another.\<close>

theorem deregister_by_anyone:
  "ipc_agm_session_register_callback K pid k e 0 q s = ipc_agm_session_register_callback K pid' k e 0 q s"
  by (simp add: ipc_agm_session_register_callback_def)

text \<open>Closing the handle 0 is refused by the service, but the server has then dropped the entry of a session that is not open:
  the AIF it connected will not be disconnected when the client dies.\<close>

theorem close_zero_forgets:
  "ci_agm_client_hndl_list (hd (client_list connected0)) = [\<lparr>ch_session_id = 5, ch_handle = 0, ch_shared_mem_fd_list = [], ch_aif_id_list = [0]\<rparr>]
     \<and> (\<exists>t. ipc_agm_session_close srv_env0 7 0 connected0 = Some (- EINVAL, t) \<and> ci_agm_client_hndl_list (hd (client_list t)) = []
          \<and> srv_agm t = srv_agm connected0)"
  by (simp add: server_eval agm_eval cong: bind_eval_cong)

end
