(* ===== verification/Spec2Isabelle.thy ===== *)
theory Spec2Isabelle
  imports Acdb_Tunnel_Properties Lifecycle_Properties Metadata_Properties Device_Properties Device_Table_Properties Graph_Properties Session_Properties
    Session_Refinement Snd_Card_Properties Pcm_Plugin_Properties Compress_Plugin_Properties Mixer_Plugin_Properties Io_Plugin_Properties Ctl_Plugin_Properties
    Hw_Server_Properties
begin

text \<open>
  AGM, the audio graph manager, is a service that gives clients sessions (streams), connects them to
  back ends (audio interfaces) and drives the processing graphs of a DSP through GSL, the graph service
  layer. This development models its C code and proves what makes it correct. Paths are relative to
  \<open>src/\<close>.

  \<^bold>\<open>The program and its parts.\<close> A client calls an entry point of \<open>service/src/agm.c\<close>. It finds the
  session of an id or checks a session handle and calls an operation of \<open>session_obj.c\<close>. A session keeps
  a pool of audio interfaces (AIFs), each with its back end, and one graph. Connecting an AIF merges the key
  vectors of session, interface and back end (\<open>metadata.c\<close>), opens the back end (\<open>device.c\<close>) and opens,
  extends or changes the graph (\<open>graph.c\<close>); preparing a graph configures its modules
  (\<open>graph_module.c\<close>). Back ends share PCM devices and groups and are counted by references. The table of
  back ends is built at start-up from the files of the sound card; the names of the back ends say what
  hardware they are (\<open>device_hw_ep.c\<close>). In the process of a client the tinyalsa plugins
  (\<open>plugins/tinyalsa/src\<close>) offer PCM streams, compressed streams and mixer controls on top of the entry
  points and look up their device in the card definition file (\<open>snd_parser\<close>); the alsa-lib plugins
  (\<open>plugins/alsalib/src\<close>) do the same for clients of alsa-lib. Calls from other processes arrive at the
  HwBinder server (\<open>ipc/HwBinders/agm_ipc_service\<close>), which keeps what each client uses and takes it back when
  the client dies.

  \<^bold>\<open>How a C function is modelled.\<close> A function that may change the state is a HOL function into
  \<open>('r \<times> 's) option\<close>: \<open>Some (r, s')\<close> is a return, \<open>None\<close> is undefined behaviour or a loop that does
  not end (a NULL pointer followed, an access outside an array, a division by zero). Out-parameters are
  part of the result. \<open>wlp\<close> is its weakest liberal precondition. The state is a record that grows along
  the imports: \<open>world\<close> (the history of external calls), \<open>dev_world\<close> (back ends and groups),
  \<open>agm_world\<close> (sessions); and for a client \<open>client_world\<close>, \<open>snd_world\<close> (cards), \<open>plugin_world\<close>
  (with the whole state of the service in the field \<open>svc\<close>), \<open>pcm_world\<close>, \<open>compress_world\<close>, \<open>mixer_world\<close>,
  \<open>io_world\<close> and \<open>ctl_world\<close>; the state of the HwBinder server is \<open>server_world\<close>, with that of the service in
  the field \<open>srv_agm\<close>. Objects
  that are reached through pointers are entries of a store; a pointer is the index of its entry.
  Everything outside the repository (GSL, tinyalsa, ACDB, memory, files, expat) is an argument: the record
  \<open>env\<close> holds an oracle that answers a call from the history of calls, so the theorems hold for every
  behaviour of these components, failures included; named constants of external headers are fields of
  it. Words have the width of the C types; reference counts are \<open>int\<close>.

  \<^bold>\<open>The theories.\<close>
  \<^item> \<open>Agm_Prelude\<close>: words, errno values, \<open>wlp\<close> with its rules and the collection \<open>wlp_simps\<close>, the two loop
    shapes of the source, byte access, and the locale \<open>keyed_pool\<close> (a pool that creates an object for a
    key that it does not know). \<open>Agm_Types\<close>: the data of \<open>agm_api.h\<close>, \<open>env\<close>, the external calls, the
    error code table of \<open>utils.c\<close>. \<open>C_Library\<close>: the string functions the parsers use.
  \<^item> \<open>Metadata\<close>: \<open>metadata.c\<close>, with the in-place duplicate removal as index loops over an array.
  \<^item> \<open>Device\<close>, \<open>Device_Table\<close>: \<open>device.c\<close> and \<open>device_hw_ep.c\<close>. The locale \<open>device_invariant\<close> states what an
    invariant of the table needs to survive all operations; it is interpreted for the reference counts
    and for the state discipline.
  \<^item> \<open>Graph_Module\<close>, \<open>Graph\<close>: \<open>graph_module.c\<close> and \<open>graph.c\<close>. \<open>Acdb_Tunnel\<close>: the tunnel that stores rows of
    parameters at ACDB, through graph and session.
  \<^item> \<open>Session\<close>: \<open>session_obj.c\<close>. \<open>Session_Invariant\<close> and \<open>Session_Operations\<close>: the invariant of the service
    and that every operation keeps it, the interpretations of \<open>keyed_pool\<close> for the session and AIF pools.
  \<^item> \<open>Agm\<close>: the entry points, the calls as a datatype, reachability (\<open>agm_reach\<close>) from any table of closed
    back ends. \<open>Lifecycle\<close>: the start and the end of the service, the search for ACDB files, the callback
    for GSL events and the thread that initialises ATS. \<open>Scenario\<close>: a concrete service on which the witnesses are evaluated.
  \<^item> \<open>Snd_Card\<close>: \<open>snd_parser/src/snd-card-parser.c\<close>; the document is the sequence of events that the XML
    parser delivers. \<open>Plugin\<close>: what the plugins share. \<open>Pcm_Plugin\<close>: \<open>agm_pcm_plugin.c\<close>; the position
    that the DSP shares is volatile memory that may change at every read. \<open>Compress_Plugin\<close>:
    \<open>agm_compress_plugin.c\<close>; a call that blocks is split at its wait so that callbacks and other calls
    interleave. \<open>Mixer_Plugin\<close>: \<open>agm_mixer_plugin.c\<close>, with every function of a control, the creation of the
    controls and the queues of events. \<open>Io_Plugin\<close>: \<open>plugins/alsalib/src/agm_io_plugin.c\<close>; what alsa-lib
    computes (widths of formats, frames of bytes, constraints) is a parameter. \<open>Ctl_Plugin\<close>:
    \<open>agm_ctl_plugin.c\<close>, the controls of a card for alsa-lib.
  \<^item> \<open>Hw_Server\<close>: \<open>agm_server_wrapper.cpp\<close>, the handlers with the process id of their caller, the callback for
    events and the death of a client, with the runs of the server (\<open>srv_step\<close>, \<open>srv_reach\<close>).
    \<open>Session_Frame\<close> shows what the service leaves alone: the locale \<open>session_view\<close> takes any function of
    the id, the state and the callbacks of a session and proves that the operations outside of the life cycle keep it;
    \<open>session_life\<close> and \<open>session_stateless\<close> extend it by the life cycle, for views that do not show the state.
    \<open>Hw_Server_Invariant\<close> interprets them for the callbacks and for the states of the sessions a client does not
    hold, and proves the invariant of the server for every handler.
  \<^item> The theories \<open>\<dots>_Properties\<close> and \<open>Session_Refinement\<close> hold the properties of a part, this theory those of
    the whole service. \<open>Plugin_Properties\<close> has the locale \<open>card_holder\<close>, the contract between a plugin and
    the sound cards, which the PCM and the compress plugin interpret, and \<open>card_user\<close>, which extends it by the
    calls in between, for the mixer and the two alsa-lib plugins; the locale \<open>compress_invariant\<close> carries an invariant over the calls that
    neither count nor wait, \<open>mixer_invariant\<close> over those that do not deal with events, \<open>io_invariant\<close> over the callbacks of
    a PCM stream of alsa-lib and \<open>ctl_invariant\<close> over those of its controls. \<open>Mixer_Controls\<close> and
    \<open>Ctl_Controls\<close> have the tables of controls and the proofs that the arrays of the code are those tables.

  \<^bold>\<open>What is shown.\<close> Of the service: in all reachable states GSL graphs and PCM handles are exactly those
  that sessions and back ends hold, group counts are the sum of their members, pools are keyed; the life
  cycle of a session refines an abstract machine, error exits included; a connect holds its reference
  exactly when it succeeds. Of metadata, graphs and the table: merge, duplicate removal and update
  against list functions, decoding of encoded payloads, configuration of every module exactly once, the
  endpoint after a change of device, names of back ends read back. Of the plugins: pointers of a pull mode
  stream stay in bounds whatever the DSP writes, the buffer of a compressed stream is accounted under every
  interleaving, no wake-up is lost, references to cards balance, codec parameters arrive, a running stream of alsa-lib has a started session, its pointer counts the
  frames, a selected back end stays selected, controls are found where they are listed, the search for
  the boundary ends for exactly the buffers that are not empty and fit; the controls of a mixer and of a card are those
  that their lists call for, the events of a mixer arrive in order. Of the HwBinder server: the callbacks the
  service holds point to live objects, the death of a client takes back exactly what that client had, the lists have
  each client, session and callback once. Of the life cycle: the start of the service is all or
  nothing, the end closes everything before GSL goes down. A last group of theorems
  states where the code does something other than it means to (lost errors, traps, values that
  are silently replaced); each is listed as a finding.

  \<^bold>\<open>Hypotheses.\<close> Theorems on error codes assume \<open>osal_codes_ok\<close>, that the table of DSP codes has the
  values of its header. Theorems on cards assume that the definition file is there and that the XML parser
  accepts it where that matters; the pointer theorem assumes that the DSP keeps its read index inside the
  buffer; the accounting theorem that the DSP acknowledges only what it has and that the buffer is smaller
  than \<open>2 ^ 61\<close> bytes (the fragment sizes of the code allow 2 MB). The theorem on the pointer of alsa-lib
  assumes that the frames it computes from bytes fit an \<open>int\<close>, the one on listing and finding that an element id keeps the name
  it is given. Each has a witness.

  \<^bold>\<open>Loops and fuel.\<close> Loops are structural recursion over the list they run through, or a counter that the
  code has too (retries of the position, attempts to find the sound card). \<open>dup_inner\<close> and \<open>dup_outer\<close> have
  termination proofs. The search for the boundary is the one loop that may not end; it is a
  \<open>partial_function\<close>, and the inputs on which it ends are proved. No fuel is used.

  \<^bold>\<open>Not modelled.\<close> Of the modelled files: shared libraries and their loading, logging, \<open>errno\<close>, and
  mutexes: an entry point of the service is one step, as its locks make it.
  \<open>session_obj_read_with_metadata\<close> returns the count that GSL left; a count that the
  code copies from an uninitialised variable is \<open>None\<close>. Numbers of a definition file that are no session
  mode have no model. The bytes that the service writes into the payload of a control are not modelled, only
  the calls that write them. The handlers of the HwBinder server run one after the other, and the service calls a callback
  between handlers; numbers that are no type of event have no model. That \<open>serviceDied\<close> returns is not shown: it calls the
  service, whose operations may trap in a state of the hardware oracle that the source does not expect. Whole parts: the HwBinder client and the
  SwBinder and D-Bus transports under \<open>ipc\<close> (they marshal the same entry points into classes and messages of generated
  or external code), the stubs of \<open>agm_dummy_impl.c\<close> and the test
  programs.
\<close>

section \<open>The service\<close>



text \<open>\<^bold>\<open>C2.\<close> In every reachable state the PCM handles that are open are one for each back
  end with an open reference, and no reference count is negative.\<close>

theorem pcm_handles_owned:
  assumes "agm_reach E s"
  shows "pcm_live E (hist s) = int (card {d \<in> set (device_list s). rc_open (refcnt (devs s d)) > 0})
    \<and> (\<forall>d \<in> set (device_list s). 0 \<le> rc_open (refcnt (devs s d)) \<and> 0 \<le> rc_prepare (refcnt (devs s d))
         \<and> 0 \<le> rc_start (refcnt (devs s d)))"
proof -
  have I: "agm_inv E s" by (rule agm_reach_inv [OF assms])
  then have "distinct (device_list s)" by (simp add: agm_inv_def agm_core_def devices_inv_def topology_ok_def)
  from sum_indicator [OF this] I show ?thesis
    by (simp add: agm_inv_def agm_core_def devices_inv_def sum_devs_def is_open_cnt_def counts_ok_def)
qed

theorem pcm_handles_owned_witness:
  "pcm_live env0 (hist started0) = 1 \<and> card {d \<in> set (device_list started0). rc_open (refcnt (devs started0 d)) > 0} = 1"
  using pcm_handles_owned [OF started0_reach] started0_eval by simp

text \<open>\<^bold>\<open>C4.\<close> In every reachable state the open count of a device group is the sum of the
  open counts of its members.\<close>

theorem group_counts_sum:
  assumes "agm_reach E s"
  shows "rc_open (grp_refcnt (grps s g)) =
    (\<Sum>d \<leftarrow> device_list s. if group_data (devs s d) = Some g then rc_open (refcnt (devs s d)) else 0)"
  using agm_reach_inv [OF assms]
  by (simp add: agm_inv_def agm_core_def devices_inv_def sum_devs_def group_open_cnt_def cong: map_cong)

theorem group_counts_sum_witness:
  "rc_open (grp_refcnt (grps started0 0)) =
    (\<Sum>d \<leftarrow> device_list started0. if group_data (devs started0 d) = Some 0 then rc_open (refcnt (devs started0 d)) else 0)"
  by (rule group_counts_sum [OF started0_reach])

text \<open>\<^bold>\<open>C6.\<close> In every reachable state a session id names at most one session, no handle is 0,
  the AIFs of a session have distinct ids, and each AIF refers to the back end that its id
  selects.\<close>

theorem pools_keyed:
  assumes "agm_reach E s" "a \<in> set (session_list s)" "b \<in> set (session_list s)"
  shows "a \<noteq> 0 \<and> (sess_id (sessions s a) = sess_id (sessions s b) \<longrightarrow> a = b)
    \<and> distinct (map aif_id (aif_pool (sessions s a)))
    \<and> (\<forall>f \<in> set (aif_pool (sessions s a)). device_get_obj (aif_id f) s = (0, Some (aif_dev f)))"
proof -
  have "agm_inv E s" by (rule agm_reach_inv [OF assms(1)])
  with assms(2,3) show ?thesis
    by (auto simp: agm_inv_def agm_core_def pool_ok_def aifs_ok_def distinct_map dest: inj_onD)
qed

theorem pools_keyed_witness:
  "distinct (map aif_id (aif_pool (sessions started0 1)))"
  using pools_keyed [OF started0_reach, of 1 1] started0_eval by simp

text \<open>\<^bold>\<open>C35.\<close> An entry point that is given 0 or a handle that is not in the pool returns
  \<open>-EINVAL\<close> and changes nothing.\<close>

theorem bad_handle:
  assumes "h = 0 \<or> h \<notin> set (session_list s)"
  shows "agm_session_set_config E h sc mc bc s = Some (- EINVAL, s)
    \<and> agm_session_set_non_tunnel_mode_config h sc imc omc ibc obc s = Some (- EINVAL, s)
    \<and> agm_session_prepare E h s = Some (- EINVAL, s) \<and> agm_session_start E h s = Some (- EINVAL, s)
    \<and> agm_session_stop E h s = Some (- EINVAL, s) \<and> agm_session_close E h s = Some (- EINVAL, s)
    \<and> agm_session_pause E h s = Some (- EINVAL, s) \<and> agm_session_flush E h s = Some (- EINVAL, s)
    \<and> agm_session_resume E h s = Some (- EINVAL, s) \<and> agm_session_suspend E h s = Some (- EINVAL, s)
    \<and> agm_session_eos E h s = Some (- EINVAL, s)
    \<and> agm_session_write E h p n s = Some ((- EINVAL, None), s)
    \<and> agm_session_read E h p n s = Some ((- EINVAL, None), s)
    \<and> agm_session_write_with_metadata E h buf s = Some ((- EINVAL, None), s)
    \<and> agm_session_read_with_metadata E h buf s = Some ((- EINVAL, None), s)
    \<and> agm_get_session_time E h ts s = Some ((- EINVAL, None), s)
    \<and> agm_set_gapless_session_metadata E h ty sil s = Some (- EINVAL, s)
    \<and> agm_get_hw_processed_buff_cnt h s = Some (of_int (- EINVAL), s)"
  using assms by (simp add: with_handle_bad agm_entry_defs agm_get_hw_processed_buff_cnt_def)

theorem bad_handle_witness: "agm_session_start env0 9 started0 = Some (- EINVAL, started0)"
  using bad_handle [of 9 started0] started0_eval by simp

text \<open>Looking up two session ids gives the same session exactly for the same id, and
  looking the first one up again finds the same session without changing anything.\<close>

theorem session_id_identity:
  assumes "agm_reach E s" "session_obj_get E k s = Some ((0, Some a), t)"
    "session_obj_get E k' t = Some ((0, Some b), u)"
  shows "(a = b \<longleftrightarrow> k = k') \<and> session_obj_get E k u = Some ((0, Some a), u)"
proof -
  have P: "pool_ok s" using agm_reach_inv [OF assms(1)] by (simp add: agm_inv_def agm_core_def)
  have g: "session_obj_get_from_pool E k s = Some (Some a, t)" "session_obj_get_from_pool E k' t = Some (Some b, u)"
    using assms(2,3) by (auto simp: session_obj_get_def bind_eq_Some_conv split: if_splits)
  have "pool_ok u" using session_pool.get_ok [OF session_pool.get_ok [OF P g(1)] g(2)] .
  from session_pool.get_hit [OF this session_pool.get_get(2) [OF P g]] session_pool.get_get(1) [OF P g]
  show ?thesis by (simp add: session_obj_get_def)
qed

theorem session_id_identity_witness:
  "\<exists>a b t u. session_obj_get env0 5 world0 = Some ((0, Some a), t) \<and> session_obj_get env0 6 t = Some ((0, Some b), u) \<and> a \<noteq> b"
proof -
  obtain t where t: "session_obj_get env0 5 world0 = Some ((0, Some 1), t)"
    and u: "\<exists>u. session_obj_get env0 6 t = Some ((0, Some 2), u)"
    by (simp add: agm_eval cong: bind_eval_cong)
  then obtain u where u: "session_obj_get env0 6 t = Some ((0, Some 2), u)" by blast
  show ?thesis
    using session_id_identity [OF agm_reach_init [OF world0_initial] t u] t u by auto
qed

end
